(* ===== verification/Prelude.thy ===== *)
theory Prelude
  imports Main "HOL-Library.Word" "HOL-Library.Sublist"
begin

text \<open>
  Generic material shared by every component: results of fallible code, integers with the
  overflow traps of a build with \<open>overflow-checks = true\<close>, the list operations the SDK's
  vectors are used with, and the interface locales (identifier counters, append-only trails,
  keyed vectors, invariants of transition systems) that several components interpret.
\<close>

named_theorems op_defs \<open>definitions of the modelled operations\<close>
named_theorems state_simps \<open>equations that unfold the storage helpers\<close>

section \<open>Results of fallible code\<close>

text \<open>
  A panic inside a contract call aborts the transaction and undoes its writes, so a failing call
  is \<open>Inl\<close> of the reason and has no state. \<open>Contract\<close> carries the contract's own error
  code; the other constructors are the traps the host raises.
\<close>

datatype 'e failure =
    Contract 'e
  | AuthFailed
  | Overflow
  | HostTrap
  | TokenFailed
  | CallFailed

type_synonym ('e, 'a) outcome = "'e failure + 'a"

definition bindE :: "'e + 'a \<Rightarrow> ('a \<Rightarrow> 'e + 'b) \<Rightarrow> 'e + 'b" where
  "bindE m f = (case m of Inl e \<Rightarrow> Inl e | Inr x \<Rightarrow> f x)"

lemma bindE_simps [simp]:
  "bindE (Inl e) f = Inl e"
  "bindE (Inr x) f = f x"
  by (simp_all add: bindE_def)

lemma bindE_Inr_iff: "bindE m f = Inr y \<longleftrightarrow> (\<exists>x. m = Inr x \<and> f x = Inr y)"
  by (cases m) auto

lemma bindE_InrE [elim!]:
  assumes "bindE m f = Inr y"
  obtains x where "m = Inr x" and "f x = Inr y"
  using assms by (auto simp: bindE_Inr_iff)

lemma bindE_cong [fundef_cong]:
  "m = m' \<Longrightarrow> (\<And>x. m' = Inr x \<Longrightarrow> f x = f' x) \<Longrightarrow> bindE m f = bindE m' f'"
  by (cases m') auto

lemma bindE_assoc: "bindE (bindE m f) g = bindE m (\<lambda>x. bindE (f x) g)"
  by (cases m) auto

lemma if_Inl_eq_Inr [simp]:
  "(if c then Inl e else m) = Inr y \<longleftrightarrow> \<not> c \<and> m = Inr y"
  by auto

definition unwrap_or :: "'a \<Rightarrow> 'a option \<Rightarrow> 'a" where
  "unwrap_or d x = (case x of None \<Rightarrow> d | Some v \<Rightarrow> v)"

lemma unwrap_or_simps [simp]:
  "unwrap_or d None = d"
  "unwrap_or d (Some v) = v"
  by (simp_all add: unwrap_or_def)

definition ok_or :: "'e \<Rightarrow> 'a option \<Rightarrow> 'e + 'a" where
  "ok_or e x = (case x of None \<Rightarrow> Inl e | Some v \<Rightarrow> Inr v)"

lemma ok_or_simps [simp]:
  "ok_or e None = Inl e"
  "ok_or e (Some v) = Inr v"
  by (simp_all add: ok_or_def)

lemma ok_or_Inr_iff [simp]: "ok_or e x = Inr v \<longleftrightarrow> x = Some v"
  by (cases x) auto

text \<open>A loop over a vector that may panic in the middle and threads the state through.\<close>

fun foldE :: "('a \<Rightarrow> 's \<Rightarrow> 'e + 's) \<Rightarrow> 'a list \<Rightarrow> 's \<Rightarrow> 'e + 's" where
  "foldE f [] s = Inr s"
| "foldE f (x # xs) s = bindE (f x s) (foldE f xs)"

lemma foldE_append: "foldE f (xs @ ys) s = bindE (foldE f xs s) (foldE f ys)"
  by (induction xs arbitrary: s) (simp_all add: bindE_assoc cong: bindE_cong)

lemma foldE_invariant:
  assumes "foldE f xs s = Inr t" and "P s"
    and "\<And>x s t. x \<in> set xs \<Longrightarrow> P s \<Longrightarrow> f x s = Inr t \<Longrightarrow> P t"
  shows "P t"
  using assms by (induction xs arbitrary: s) auto

text \<open>
  A loop whose turns spend what the turn needs: \<open>Q x\<close> holds until the turn of \<open>x\<close>, because the turns of
  other keys keep it.
\<close>

lemma foldE_sweep:
  assumes "foldE f xs s = Inr t" and "P s" and "\<forall>x \<in> set xs. Q x s" and "distinct (map k xs)"
    and "\<And>x s t. x \<in> set xs \<Longrightarrow> P s \<Longrightarrow> Q x s \<Longrightarrow> f x s = Inr t \<Longrightarrow>
      P t \<and> (\<forall>y \<in> set xs. k y \<noteq> k x \<longrightarrow> Q y s \<longrightarrow> Q y t)"
  shows "P t"
  using assms
proof (induction xs arbitrary: s)
  case Nil
  from Nil.prems(1,2) show ?case by simp
next
  case (Cons x xs)
  obtain u where u: "f x s = Inr u" "foldE f xs u = Inr t" using Cons.prems(1) by auto
  have "P u" "\<forall>y \<in> set (x # xs). k y \<noteq> k x \<longrightarrow> Q y s \<longrightarrow> Q y u"
    using Cons.prems(5) [OF _ Cons.prems(2) _ u(1)] Cons.prems(3) by simp_all
  moreover from this(2) have "\<forall>y \<in> set xs. Q y u"
    using Cons.prems(3,4) by (metis distinct.simps(2) image_eqI list.map(2) list.set_intros(2) set_map)
  moreover have "distinct (map k xs)" using Cons.prems(4) by simp
  moreover have "\<And>y s t. y \<in> set xs \<Longrightarrow> P s \<Longrightarrow> Q y s \<Longrightarrow> f y s = Inr t \<Longrightarrow>
      P t \<and> (\<forall>z \<in> set xs. k z \<noteq> k y \<longrightarrow> Q z s \<longrightarrow> Q z t)"
    using Cons.prems(5) by (meson list.set_intros(2))
  ultimately show ?case by (intro Cons.IH [OF u(2)])
qed

text \<open>A loop that only checks.\<close>

fun checkE :: "('a \<Rightarrow> 'e + unit) \<Rightarrow> 'a list \<Rightarrow> 'e + unit" where
  "checkE f [] = Inr ()"
| "checkE f (x # xs) = bindE (f x) (\<lambda>_. checkE f xs)"

lemma checkE_Inr_iff: "checkE f xs = Inr () \<longleftrightarrow> (\<forall>x \<in> set xs. f x = Inr ())"
  by (induction xs) (auto simp: bindE_Inr_iff)

text \<open>A loop that collects one value per element.\<close>

fun mapE :: "('a \<Rightarrow> 'e + 'b) \<Rightarrow> 'a list \<Rightarrow> 'e + 'b list" where
  "mapE f [] = Inr []"
| "mapE f (x # xs) = bindE (f x) (\<lambda>y. bindE (mapE f xs) (\<lambda>ys. Inr (y # ys)))"

lemma mapE_Inr_iff:
  "mapE f xs = Inr ys \<longleftrightarrow> length ys = length xs \<and> (\<forall>i < length xs. f (xs ! i) = Inr (ys ! i))"
proof (induction xs arbitrary: ys)
  case Nil
  then show ?case by auto
next
  case (Cons x xs)
  then show ?case
    by (cases ys) (auto simp: bindE_Inr_iff nth_Cons split: nat.splits)
qed

section \<open>Machine integers\<close>

text \<open>
  Unsigned integers are \<open>nat\<close> and \<open>i128\<close> values are \<open>int\<close>; an addition or a
  multiplication that leaves the type's range traps, because the release profile of the
  workspace sets \<open>overflow-checks = true\<close>.
\<close>

definition u32 :: "nat \<Rightarrow> ('e, nat) outcome" where
  "u32 n = (if n < 2 ^ 32 then Inr n else Inl Overflow)"

definition u64 :: "nat \<Rightarrow> ('e, nat) outcome" where
  "u64 n = (if n < 2 ^ 64 then Inr n else Inl Overflow)"

definition i128 :: "int \<Rightarrow> ('e, int) outcome" where
  "i128 x = (if - (2 ^ 127) \<le> x \<and> x < 2 ^ 127 then Inr x else Inl Overflow)"

lemma u32_Inr_iff [simp]: "u32 n = Inr m \<longleftrightarrow> m = n \<and> n < 2 ^ 32"
  by (auto simp: u32_def)

lemma u64_Inr_iff [simp]: "u64 n = Inr m \<longleftrightarrow> m = n \<and> n < 2 ^ 64"
  by (auto simp: u64_def)

lemma i128_Inr_iff [simp]: "i128 x = Inr y \<longleftrightarrow> y = x \<and> - (2 ^ 127) \<le> x \<and> x < 2 ^ 127"
  by (auto simp: i128_def)

lemma checked_ok [simp]:
  "n < 2 ^ 32 \<Longrightarrow> u32 n = Inr n"
  "n < 2 ^ 64 \<Longrightarrow> u64 n = Inr n"
  "- (2 ^ 127) \<le> x \<Longrightarrow> x < 2 ^ 127 \<Longrightarrow> i128 x = Inr x"
  by (simp_all add: u32_def u64_def i128_def)

definition sat_i64 :: "int \<Rightarrow> int" where
  "sat_i64 x = max (- (2 ^ 63)) (min (2 ^ 63 - 1) x)"

definition sat_i128 :: "int \<Rightarrow> int" where
  "sat_i128 x = max (- (2 ^ 127)) (min (2 ^ 127 - 1) x)"

definition sat_u32 :: "nat \<Rightarrow> nat" where
  "sat_u32 n = min (2 ^ 32 - 1) n"

lemma sat_i64_bounds: "- (2 ^ 63) \<le> sat_i64 x" "sat_i64 x \<le> 2 ^ 63 - 1"
  by (auto simp: sat_i64_def)

lemma sat_i128_id: "- (2 ^ 127) \<le> x \<Longrightarrow> x < 2 ^ 127 \<Longrightarrow> sat_i128 x = x"
  by (simp add: sat_i128_def)

text \<open>Division of signed integers truncates towards zero.\<close>

definition tdiv :: "int \<Rightarrow> int \<Rightarrow> int" where
  "tdiv a b = sgn a * sgn b * (\<bar>a\<bar> div \<bar>b\<bar>)"

lemma tdiv_nonneg: "0 \<le> a \<Longrightarrow> 0 < b \<Longrightarrow> tdiv a b = a div b"
  by (cases "a = 0") (auto simp: tdiv_def)

text \<open>The bytes of an unsigned 64-bit integer, most significant first.\<close>

type_synonym byte = "8 word"
type_synonym bytes = "byte list"

definition be_bytes :: "nat \<Rightarrow> bytes" where
  "be_bytes n = map (\<lambda>i. word_of_nat (n div 256 ^ i)) (rev [0..<8])"

lemma length_be_bytes [simp]: "length (be_bytes n) = 8"
  by (simp add: be_bytes_def)

section \<open>Vectors\<close>

text \<open>
  \<open>iter().position(p)\<close> followed by \<open>remove\<close> deletes the first match; a search loop with
  \<open>set\<close> and \<open>break\<close>, then \<open>push_back\<close> when nothing was found, replaces the first match
  or appends.
\<close>

fun remove_first :: "('a \<Rightarrow> bool) \<Rightarrow> 'a list \<Rightarrow> 'a list" where
  "remove_first p [] = []"
| "remove_first p (x # xs) = (if p x then xs else x # remove_first p xs)"

fun upsert :: "('a \<Rightarrow> bool) \<Rightarrow> 'a \<Rightarrow> 'a list \<Rightarrow> 'a list" where
  "upsert p v [] = [v]"
| "upsert p v (x # xs) = (if p x then v # xs else x # upsert p v xs)"

lemma remove_first_eq_remove1: "remove_first (\<lambda>y. y = x) xs = remove1 x xs"
  by (induction xs) auto

lemma remove_first_id: "\<forall>x \<in> set xs. \<not> p x \<Longrightarrow> remove_first p xs = xs"
  by (induction xs) auto

lemma set_upsert_subset: "set (upsert p v xs) \<subseteq> insert v (set xs)"
  by (induction xs) auto

lemma set_remove_first_subset: "set (remove_first p xs) \<subseteq> set xs"
  by (induction xs) auto

lemma fst_set_zip: "z \<in> set (zip xs ys) \<Longrightarrow> fst z \<in> set xs"
  by (cases z) (auto dest: set_zip_leftD)

section \<open>Keyed vectors\<close>

text \<open>
  A vector of entries with a key, searched from the front, promises the laws of a map. The client's
  lemmas are proved from the laws; the contracts' vectors of licences and of access grants provide
  them.
\<close>

locale keyed_vector =
  fixes key :: "'v \<Rightarrow> 'k"
    and find_key :: "'k \<Rightarrow> 'v list \<Rightarrow> 'v option"
    and put_key :: "'v \<Rightarrow> 'v list \<Rightarrow> 'v list"
    and del_key :: "'k \<Rightarrow> 'v list \<Rightarrow> 'v list"
    and wf_keys :: "'v list \<Rightarrow> bool"
  assumes wf_Nil: "wf_keys []"
    and wf_put: "wf_keys xs \<Longrightarrow> wf_keys (put_key v xs)"
    and wf_del: "wf_keys xs \<Longrightarrow> wf_keys (del_key k xs)"
    and find_Nil: "find_key k [] = None"
    and find_put: "find_key k (put_key v xs) = (if k = key v then Some v else find_key k xs)"
    and find_del: "wf_keys xs \<Longrightarrow> find_key k (del_key l xs) = (if k = l then None else find_key k xs)"
begin

text \<open>The map a history of insertions (\<open>Inl\<close>) and deletions (\<open>Inr\<close>) leaves behind.\<close>

fun run_vec :: "('v + 'k) list \<Rightarrow> 'v list" where
  "run_vec [] = []"
| "run_vec (Inl v # ops) = put_key v (run_vec ops)"
| "run_vec (Inr k # ops) = del_key k (run_vec ops)"

fun run_map :: "('v + 'k) list \<Rightarrow> 'k \<Rightarrow> 'v option" where
  "run_map [] = Map.empty"
| "run_map (Inl v # ops) = (run_map ops)(key v \<mapsto> v)"
| "run_map (Inr k # ops) = (run_map ops)(k := None)"

lemma wf_run_vec: "wf_keys (run_vec ops)"
  by (induction ops rule: run_vec.induct) (auto intro: wf_Nil wf_put wf_del)

lemma find_run_vec: "find_key k (run_vec ops) = run_map ops k"
  by (induction ops rule: run_vec.induct) (auto simp: find_Nil find_put find_del wf_run_vec)

lemma put_put_same: "key v = key w \<Longrightarrow> find_key k (put_key v (put_key w xs)) = find_key k (put_key v xs)"
  by (simp add: find_put)

lemma del_put_other:
  "wf_keys xs \<Longrightarrow> k \<noteq> key v \<Longrightarrow> find_key (key v) (del_key k (put_key v xs)) = Some v"
  by (simp add: find_del find_put wf_put)

end

text \<open>The vectors of the code: first match, replacement in place, removal of the first match.\<close>

definition vec_find :: "('v \<Rightarrow> 'k) \<Rightarrow> 'k \<Rightarrow> 'v list \<Rightarrow> 'v option" where
  "vec_find key k xs = List.find (\<lambda>x. key x = k) xs"

definition vec_put :: "('v \<Rightarrow> 'k) \<Rightarrow> 'v \<Rightarrow> 'v list \<Rightarrow> 'v list" where
  "vec_put key v xs = upsert (\<lambda>x. key x = key v) v xs"

definition vec_del :: "('v \<Rightarrow> 'k) \<Rightarrow> 'k \<Rightarrow> 'v list \<Rightarrow> 'v list" where
  "vec_del key k xs = remove_first (\<lambda>x. key x = k) xs"

lemma map_vec_put:
  "map key (vec_put key v xs) = (if key v \<in> key ` set xs then map key xs else map key xs @ [key v])"
  by (induction xs) (auto simp: vec_put_def)

lemma map_vec_del: "map key (vec_del key k xs) = remove1 k (map key xs)"
  by (induction xs) (auto simp: vec_del_def)

lemma vec_find_put: "vec_find key k (vec_put key v xs) = (if k = key v then Some v else vec_find key k xs)"
  by (induction xs) (auto simp: vec_find_def vec_put_def)

lemma vec_find_Nil: "vec_find key k [] = None"
  by (simp add: vec_find_def)

lemma vec_find_None: "vec_find key k xs = None \<longleftrightarrow> k \<notin> key ` set xs"
  by (induction xs) (auto simp: vec_find_def)

lemma vec_find_del:
  "distinct (map key xs) \<Longrightarrow>
    vec_find key k (vec_del key l xs) = (if k = l then None else vec_find key k xs)"
proof (induction xs)
  case (Cons x xs)
  then show ?case
    using vec_find_None [of key k xs] by (auto simp: vec_find_def vec_del_def)
qed (simp add: vec_find_def vec_del_def)

lemma keyed_vector_vec:
  "keyed_vector key (vec_find key) (vec_put key) (vec_del key) (\<lambda>xs. distinct (map key xs))"
  by unfold_locales
    (auto simp: vec_find_put vec_find_del map_vec_put map_vec_del vec_find_Nil)

section \<open>Transition systems\<close>

inductive reachable :: "('s \<Rightarrow> bool) \<Rightarrow> ('s \<Rightarrow> 's \<Rightarrow> bool) \<Rightarrow> 's \<Rightarrow> bool" for init step where
  reachable_init: "init s \<Longrightarrow> reachable init step s"
| reachable_step: "reachable init step s \<Longrightarrow> step s t \<Longrightarrow> reachable init step t"

lemma reachable_steps: "step\<^sup>*\<^sup>* s t \<Longrightarrow> reachable init step s \<Longrightarrow> reachable init step t"
  by (induction rule: rtranclp_induct) (auto intro: reachable_step)

text \<open>A system with an invariant.\<close>

locale invariant_system =
  fixes init :: "'s \<Rightarrow> bool"
    and step :: "'s \<Rightarrow> 's \<Rightarrow> bool"
    and inv :: "'s \<Rightarrow> bool"
  assumes init_inv: "init s \<Longrightarrow> inv s"
    and step_inv: "inv s \<Longrightarrow> step s t \<Longrightarrow> inv t"
begin

lemma reachable_inv: "reachable init step s \<Longrightarrow> inv s"
  by (induction rule: reachable.induct) (auto intro: init_inv step_inv)

lemma steps_inv: "step\<^sup>*\<^sup>* s t \<Longrightarrow> inv s \<Longrightarrow> inv t"
  by (induction rule: rtranclp_induct) (auto intro: step_inv)

end

text \<open>A system with an invariant whose steps only move forward in an order.\<close>

locale monotone_system = invariant_system +
  fixes le :: "'s \<Rightarrow> 's \<Rightarrow> bool"
  assumes le_refl: "le s s"
    and le_trans: "le s t \<Longrightarrow> le t u \<Longrightarrow> le s u"
    and step_le: "inv s \<Longrightarrow> step s t \<Longrightarrow> le s t"
begin

lemma steps_le: "step\<^sup>*\<^sup>* s t \<Longrightarrow> inv s \<Longrightarrow> le s t"
proof (induction rule: rtranclp_induct)
  case base
  show ?case by (rule le_refl)
next
  case (step t u)
  then have "inv t" by (blast intro: steps_inv)
  with step show ?case by (blast intro: le_trans step_le)
qed

lemma reachable_le: "reachable init step s \<Longrightarrow> step\<^sup>*\<^sup>* s t \<Longrightarrow> le s t"
  by (blast intro: steps_le reachable_inv)

end

text \<open>
  A table whose entries are created under a counter: no entry lies at or above the counter, entries
  stay, and the counter does not go back. Then an identifier is never handed out twice.
\<close>

locale id_counter = invariant_system init step inv
  for init :: "'s \<Rightarrow> bool" and step :: "'s \<Rightarrow> 's \<Rightarrow> bool" and inv :: "'s \<Rightarrow> bool" +
  fixes used :: "'s \<Rightarrow> nat set"
    and fresh :: "'s \<Rightarrow> nat"
  assumes init_used: "init s \<Longrightarrow> used s = {}"
    and step_used: "inv s \<Longrightarrow> step s t \<Longrightarrow> used s \<subseteq> {..<fresh s} \<Longrightarrow>
      used t = used s \<union> {fresh s..<fresh t} \<and> fresh s \<le> fresh t"
begin

sublocale counted: monotone_system init step "\<lambda>s. inv s \<and> used s \<subseteq> {..<fresh s}"
  "\<lambda>s t. used t = used s \<union> {fresh s..<fresh t} \<and> fresh s \<le> fresh t"
proof unfold_locales
  fix s t assume "inv s \<and> used s \<subseteq> {..<fresh s}" and st: "step s t"
  with step_used [of s t] step_inv show "inv t \<and> used t \<subseteq> {..<fresh t}" by auto
next
  fix s t u
  assume "used t = used s \<union> {fresh s..<fresh t} \<and> fresh s \<le> fresh t"
    and "used u = used t \<union> {fresh t..<fresh u} \<and> fresh t \<le> fresh u"
  then show "used u = used s \<union> {fresh s..<fresh u} \<and> fresh s \<le> fresh u"
    by auto
qed (use init_inv init_used step_used in auto)

lemma used_below: "reachable init step s \<Longrightarrow> used s \<subseteq> {..<fresh s}"
  using counted.reachable_inv by blast

lemma fresh_unused: "reachable init step s \<Longrightarrow> fresh s \<notin> used s"
  using used_below by blast

lemma ids_are_new:
  assumes "reachable init step s" and "step\<^sup>*\<^sup>* s t"
  shows "fresh s \<le> fresh t \<and> used t = used s \<union> {fresh s..<fresh t}"
  using counted.reachable_le [OF assms] by auto

end

lemma counter_step:
  "(U' = U \<and> n' = n) \<or> (U' = insert n U \<and> n' = n + 1) \<Longrightarrow> U' = U \<union> {n..<n'} \<and> n \<le> (n' :: nat)"
  by (elim disjE) (simp_all add: atLeastLessThanSuc)

text \<open>A trail per key that steps only extend.\<close>

definition trails_le :: "('k \<Rightarrow> 'e list) \<Rightarrow> ('k \<Rightarrow> 'e list) \<Rightarrow> bool" where
  "trails_le f g \<longleftrightarrow> (\<forall>k. prefix (f k) (g k))"

lemma trails_le_refl [simp]: "trails_le f f"
  by (simp add: trails_le_def)

lemma trails_le_trans: "trails_le f g \<Longrightarrow> trails_le g h \<Longrightarrow> trails_le f h"
  by (auto simp: trails_le_def intro: prefix_order.trans)

locale append_only =
  fixes init :: "'s \<Rightarrow> bool"
    and step :: "'s \<Rightarrow> 's \<Rightarrow> bool"
    and trail :: "'s \<Rightarrow> 'k \<Rightarrow> 'e list"
  assumes step_trail: "step s t \<Longrightarrow> trails_le (trail s) (trail t)"
begin

sublocale monotone_system init step "\<lambda>_. True" "\<lambda>s t. trails_le (trail s) (trail t)"
  by unfold_locales (auto intro: trails_le_trans step_trail)

lemma entry_stays:
  assumes "step\<^sup>*\<^sup>* s t" and "i < length (trail s k)"
  shows "i < length (trail t k) \<and> trail t k ! i = trail s k ! i"
proof -
  from steps_le [OF assms(1)] have "prefix (trail s k) (trail t k)" by (simp add: trails_le_def)
  then obtain zs where "trail t k = trail s k @ zs" by (auto simp: prefix_def)
  with assms(2) show ?thesis by (simp add: nth_append)
qed

end

end
