(* ===== verification/Host.thy ===== *)
theory Host
  imports Prelude
begin

text \<open>
  The host a contract runs on, as far as the contracts see it. The Rust code receives an
  \<open>env: Env\<close>; here it is the record \<open>env\<close>, whose fields are the parameters of the model:
  the ledger clock, the addresses that authorised the call, the contract's own address, the hash
  and the signature check, and the answer the token contract and the oracle give. Nothing is
  assumed of the fields in the definitions. Calls that leave the contract are appended to a log in
  the order the code makes them.
\<close>

datatype address = Address nat

text \<open>Values published in events and passed to other contracts.\<close>

datatype sval =
    Sym string
  | Adr address
  | OptAdr "address option"
  | U64 nat
  | U32 nat
  | I128 int
  | Flag bool
  | Byt bytes
  | Vec64 "nat list"
  | VecByt "bytes list"
  | Txt string
  | Tuple "int list"

datatype 'k host_call =
    ExtendTtl 'k nat nat
  | Publish "sval list" "sval list"
  | Transfer address address address int
  | UpdateWasm bytes

record env =
  now :: nat
  authorized :: "address \<Rightarrow> bool"
  this_addr :: address
  sha256 :: "bytes \<Rightarrow> bytes"
  ed25519_ok :: "bytes \<Rightarrow> bytes \<Rightarrow> bytes \<Rightarrow> bool"
  token_ok :: "(address \<times> address \<times> address \<times> int) list \<Rightarrow>
    address \<times> address \<times> address \<times> int \<Rightarrow> bool"
  oracle_price :: "address \<Rightarrow> address \<Rightarrow> int option"

text \<open>
  \<open>token_ok E past t\<close> says whether the token contract performs the transfer
  \<open>t = (token, from, to, amount)\<close> after the transfers \<open>past\<close> this contract has made;
  a refused transfer traps the caller.
\<close>

definition require_auth :: "env \<Rightarrow> address \<Rightarrow> ('e, unit) outcome" where
  "require_auth E a = (if authorized E a then Inr () else Inl AuthFailed)"

lemma require_auth_Inr_iff [simp]: "require_auth E a = Inr u \<longleftrightarrow> authorized E a"
  by (auto simp: require_auth_def)

lemma require_auth_ok [simp]: "authorized E a \<Longrightarrow> require_auth E a = Inr ()"
  by (simp add: require_auth_def)

text \<open>Two environments of the same deployed contract: only clock and signatures differ.\<close>

definition same_host :: "env \<Rightarrow> env \<Rightarrow> bool" where
  "same_host H E \<longleftrightarrow> this_addr E = this_addr H \<and> sha256 E = sha256 H"

fun transfers :: "'k host_call list \<Rightarrow> (address \<times> address \<times> address \<times> int) list" where
  "transfers [] = []"
| "transfers (Transfer tok src dst amt # cs) = (tok, src, dst, amt) # transfers cs"
| "transfers (_ # cs) = transfers cs"

lemma transfers_append [simp]: "transfers (xs @ ys) = transfers xs @ transfers ys"
  by (induction xs rule: transfers.induct) auto

text \<open>What the calls in a log add to the holdings of an account in one token.\<close>

fun flow :: "address \<Rightarrow> address \<Rightarrow> (address \<times> address \<times> address \<times> int) list \<Rightarrow> int" where
  "flow tok acc [] = 0"
| "flow tok acc ((t, src, dst, amt) # ts) =
     (if t = tok then (if dst = acc then amt else 0) - (if src = acc then amt else 0) else 0)
     + flow tok acc ts"

lemma flow_append [simp]: "flow tok acc (xs @ ys) = flow tok acc xs + flow tok acc ys"
  by (induction xs) (auto split: prod.splits)

end
