(* ===== verification/Registry_Types.thy ===== *)
theory Registry_Types
  imports Host
begin

text \<open>
  Data of the IP registry contract (\<open>contracts/ip_registry/src/lib.rs\<close> and \<open>types.rs\<close>): its
  error codes, storage keys, records and constants, and its storage as a record with one field per
  variant of the \<open>DataKey\<close> enum. A key with an argument is a map, a key without one an option;
  \<open>None\<close> is an entry that was never written or was removed.
\<close>

datatype ContractError =
    IpNotFound
  | ZeroCommitmentHash
  | CommitmentAlreadyRegistered
  | IpAlreadyRevoked
  | UnauthorizedUpgrade
  | Unauthorized
  | IpExpired
  | MetadataTooLarge
  | LicenseeNotFound
  | InsufficientPoW
  | InvalidExpiry
  | IpInDispute
  | CoOwnerNotFound
  | InvalidOwnershipPercentage
  | OnlyOwnerCanManageCoOwners
  | DisputeNotFound
  | DisputeAlreadyResolved
  | StakeNotFound
  | AlreadyStaked
  | StakeAlreadySlashed
  | ArbitrationNotFound
  | ArbitrationAlreadyFinalized
  | NotAnArbitrator
  | ThresholdNotMet
  | SignerNotAuthorized
  | AlreadySigned
  | BatchMetadataTooLarge
  | EncryptedDataTooLarge

abbreviation LEDGER_BUMP :: nat where "LEDGER_BUMP \<equiv> 6307200"
abbreviation MAX_METADATA_BYTES :: nat where "MAX_METADATA_BYTES \<equiv> 1024"
abbreviation NUM_SHARDS :: nat where "NUM_SHARDS \<equiv> 16"
abbreviation MAX_DELEGATION_DEPTH :: nat where "MAX_DELEGATION_DEPTH \<equiv> 5"

datatype DataKey =
    IpRecord nat
  | OwnerIps address
  | NextId
  | CommitmentOwner bytes
  | AnonymousOwner bytes
  | Admin
  | PartialDisclosure nat
  | IpLicenses nat
  | CategoryIps bytes
  | PowDifficulty
  | IpVersions nat
  | SuggestedPrice nat
  | IpCommitmentChecksum
  | IpAccessGrants nat
  | NotarySignature nat
  | IpVersionChain nat
  | OwnershipChallenge nat
  | NextChallengeId
  | EncryptionKeyRotation nat
  | NotaryPublicKey
  | CommitmentHashes
  | IpPowDifficulty nat
  | ShardIps nat
  | IpAuditTrail nat
  | RenewalCount nat
  | Delegates address
  | DelegateDepth address
  | IpDisputes nat
  | NextDisputeId
  | IpStake nat
  | OwnerReputation address
  | ArbitrationCase nat
  | NextArbitrationId
  | ArbitratorPool
  | CompressedCommitment nat
  | BatchVerifyResult bytes
  | HierarchyNode address bytes
  | OwnerCategories address
  | KThresholdConfig nat
  | KThresholdSignatures nat
  | KBatchMetadata nat
  | KCompressionSelection nat
  | KEncryptedCommitment nat

text \<open>
  The last five keys are used by the code (lines 1006 to 1177 of \<open>lib.rs\<close>) but are missing from its
  \<open>DataKey\<close> enum; they are modelled as the code uses them.
\<close>

section \<open>Records\<close>

record IpRec =
  ir_ip_id :: nat
  ir_owner :: address
  ir_commitment_hash :: bytes
  ir_timestamp :: nat
  ir_revoked :: bool
  ir_co_owners :: "address list"
  ir_parent_ip_id :: "nat option"
  ir_notary_signature :: "bytes option"

record DelegationRecord =
  dl_delegate :: address
  dl_depth :: nat

record AuditEntry =
  au_action :: string
  au_actor :: address
  au_timestamp :: nat

record LicenseEntry =
  li_licensee :: address
  li_terms_hash :: bytes

record IpAccessGrant =
  ag_grantee :: address
  ag_access_level :: nat

record OwnershipChallengeRec =
  oc_challenge_id :: nat
  oc_ip_id :: nat
  oc_challenger :: address
  oc_nonce :: bytes
  oc_response_hash :: "bytes option"
  oc_verified :: bool
  oc_timestamp :: nat

record DisputeRecord =
  di_dispute_id :: nat
  di_ip_id :: nat
  di_challenger :: address
  di_evidence_hash :: bytes
  di_timestamp :: nat
  di_resolved :: bool
  di_winner :: "address option"

record StakeRecord =
  sk_ip_id :: nat
  sk_owner :: address
  sk_amount :: int
  sk_slashed :: bool

record ReputationRecord =
  re_owner :: address
  re_score :: int
  re_commitments :: nat
  re_disputes_lost :: nat

record ArbitrationRecord =
  ar_arbitration_id :: nat
  ar_dispute_id :: nat
  ar_arbitrators :: "address list"
  ar_votes_owner :: nat
  ar_votes_challenger :: nat
  ar_finalized :: bool
  ar_winner :: "address option"

record ThresholdConfig =
  th_ip_id :: nat
  th_threshold :: nat
  th_total :: nat
  th_signers :: "address list"

record ThresholdSignature =
  ts_signer :: address
  ts_signature_hash :: bytes
  ts_timestamp :: nat

record BatchMetadata =
  bm_ip_id :: nat
  bm_batch_id :: bytes
  bm_description :: bytes
  bm_timestamp :: nat

datatype CompressionAlgo = CompressNone | Truncate16 | Xor8

record CompressionSelection =
  cs_ip_id :: nat
  cs_algorithm :: CompressionAlgo

record EncryptedCommitmentRecord =
  ec_ip_id :: nat
  ec_encrypted_hash :: bytes
  ec_key_hint :: bytes
  ec_timestamp :: nat

record VerifyRequest =
  vq_ip_id :: nat
  vq_secret :: bytes
  vq_blinding_factor :: bytes

record VerifyResult =
  vr_ip_id :: nat
  vr_valid :: bool

section \<open>Storage\<close>

record registry =
  rg_IpRecord :: "nat \<rightharpoonup> IpRec"
  rg_OwnerIps :: "address \<rightharpoonup> nat list"
  rg_NextId :: "nat option"
  rg_CommitmentOwner :: "bytes \<rightharpoonup> address"
  rg_AnonymousOwner :: "bytes \<rightharpoonup> bytes"
  rg_Admin :: "address option"
  rg_IpPowDifficulty :: "nat \<rightharpoonup> nat"
  rg_PowDifficulty :: "nat option"
  rg_IpVersions :: "nat \<rightharpoonup> nat list"
  rg_IpVersionChain :: "nat \<rightharpoonup> nat list"
  rg_CommitmentHashes :: "bytes list option"
  rg_IpCommitmentChecksum :: "bytes option"
  rg_ShardIps :: "nat \<rightharpoonup> nat list"
  rg_IpAuditTrail :: "nat \<rightharpoonup> AuditEntry list"
  rg_CompressedCommitment :: "nat \<rightharpoonup> bytes"
  rg_EncryptionKeyRotation :: "nat \<rightharpoonup> bytes list"
  rg_PartialDisclosure :: "nat \<rightharpoonup> bytes"
  rg_IpLicenses :: "nat \<rightharpoonup> LicenseEntry list"
  rg_SuggestedPrice :: "nat \<rightharpoonup> int"
  rg_IpAccessGrants :: "nat \<rightharpoonup> IpAccessGrant list"
  rg_NotaryPublicKey :: "bytes option"
  rg_OwnershipChallenge :: "nat \<rightharpoonup> OwnershipChallengeRec"
  rg_NextChallengeId :: "nat option"
  rg_RenewalCount :: "nat \<rightharpoonup> nat"
  rg_Delegates :: "address \<rightharpoonup> DelegationRecord list"
  rg_DelegateDepth :: "address \<rightharpoonup> nat"
  rg_IpDisputes :: "nat \<rightharpoonup> DisputeRecord"
  rg_NextDisputeId :: "nat option"
  rg_IpStake :: "nat \<rightharpoonup> StakeRecord"
  rg_OwnerReputation :: "address \<rightharpoonup> ReputationRecord"
  rg_ArbitrationCase :: "nat \<rightharpoonup> ArbitrationRecord"
  rg_NextArbitrationId :: "nat option"
  rg_ArbitratorPool :: "address list option"
  rg_HierarchyNode :: "address \<times> bytes \<rightharpoonup> nat list"
  rg_OwnerCategories :: "address \<rightharpoonup> bytes list"
  rg_ThresholdConfig :: "nat \<rightharpoonup> ThresholdConfig"
  rg_ThresholdSignatures :: "nat \<rightharpoonup> ThresholdSignature list"
  rg_BatchMetadata :: "nat \<rightharpoonup> BatchMetadata"
  rg_CompressionSelection :: "nat \<rightharpoonup> CompressionSelection"
  rg_EncryptedCommitment :: "nat \<rightharpoonup> EncryptedCommitmentRecord"
  rg_log :: "DataKey host_call list"

type_synonym 'a rout = "(ContractError, 'a) outcome"

text \<open>The storage of a freshly deployed contract.\<close>

definition empty_registry :: registry where
  "empty_registry = \<lparr>
     rg_IpRecord = Map.empty, rg_OwnerIps = Map.empty, rg_NextId = None,
     rg_CommitmentOwner = Map.empty, rg_AnonymousOwner = Map.empty, rg_Admin = None,
     rg_IpPowDifficulty = Map.empty, rg_PowDifficulty = None, rg_IpVersions = Map.empty,
     rg_IpVersionChain = Map.empty, rg_CommitmentHashes = None, rg_IpCommitmentChecksum = None,
     rg_ShardIps = Map.empty, rg_IpAuditTrail = Map.empty, rg_CompressedCommitment = Map.empty,
     rg_EncryptionKeyRotation = Map.empty, rg_PartialDisclosure = Map.empty,
     rg_IpLicenses = Map.empty, rg_SuggestedPrice = Map.empty, rg_IpAccessGrants = Map.empty,
     rg_NotaryPublicKey = None, rg_OwnershipChallenge = Map.empty, rg_NextChallengeId = None,
     rg_RenewalCount = Map.empty, rg_Delegates = Map.empty, rg_DelegateDepth = Map.empty,
     rg_IpDisputes = Map.empty, rg_NextDisputeId = None, rg_IpStake = Map.empty,
     rg_OwnerReputation = Map.empty, rg_ArbitrationCase = Map.empty, rg_NextArbitrationId = None,
     rg_ArbitratorPool = None, rg_HierarchyNode = Map.empty, rg_OwnerCategories = Map.empty,
     rg_ThresholdConfig = Map.empty, rg_ThresholdSignatures = Map.empty,
     rg_BatchMetadata = Map.empty, rg_CompressionSelection = Map.empty,
     rg_EncryptedCommitment = Map.empty, rg_log = []\<rparr>"

text \<open>
  \<open>bump k n\<close> is \<open>extend_ttl(&k, n, n)\<close> and \<open>publish\<close> is \<open>env.events().publish\<close>: both go
  to the log. The simplifier unfolds them.
\<close>

definition bump :: "DataKey \<Rightarrow> nat \<Rightarrow> registry \<Rightarrow> registry" where
  "bump k n s = s\<lparr>rg_log := rg_log s @ [ExtendTtl k n n]\<rparr>"

definition publish :: "sval list \<Rightarrow> sval list \<Rightarrow> registry \<Rightarrow> registry" where
  "publish topics data s = s\<lparr>rg_log := rg_log s @ [Publish topics data]\<rparr>"

lemmas host_defs [state_simps] = bump_def publish_def

end
