(* ===== verification/Registry_Validation.thy ===== *)
theory Registry_Validation
  imports Registry_Types
begin

unbundle bit_operations_syntax

text \<open>
  The guards of \<open>contracts/ip_registry/src/validation.rs\<close>. The proof-of-work check is kept at the
  width of the code, with its mask computed on bytes, and is shown to test exactly the leading bits
  of the hash.
\<close>

section \<open>Guards\<close>

definition require_ip_exists :: "registry \<Rightarrow> nat \<Rightarrow> IpRec rout" where
  "require_ip_exists s ip_id = ok_or (Contract IpNotFound) (rg_IpRecord s ip_id)"

definition require_non_zero_commitment :: "bytes \<Rightarrow> unit rout" where
  "require_non_zero_commitment commitment_hash =
     (if commitment_hash = replicate 32 0 then Inl (Contract ZeroCommitmentHash) else Inr ())"

definition require_unique_commitment :: "registry \<Rightarrow> bytes \<Rightarrow> unit rout" where
  "require_unique_commitment s commitment_hash =
     (case rg_CommitmentOwner s commitment_hash of
        Some existing_owner \<Rightarrow> Inl (Contract CommitmentAlreadyRegistered)
      | None \<Rightarrow> Inr ())"

definition require_not_revoked :: "IpRec \<Rightarrow> unit rout" where
  "require_not_revoked record =
     (if ir_revoked record then Inl (Contract IpAlreadyRevoked) else Inr ())"

definition require_owner :: "address \<Rightarrow> IpRec \<Rightarrow> unit rout" where
  "require_owner caller record =
     (if caller \<noteq> ir_owner record then Inl (Contract Unauthorized) else Inr ())"

definition require_registry_admin :: "registry \<Rightarrow> address \<Rightarrow> unit rout" where
  "require_registry_admin s caller =
     bindE (ok_or (Contract UnauthorizedUpgrade) (rg_Admin s)) (\<lambda>admin.
       if caller \<noteq> admin then Inl (Contract UnauthorizedUpgrade) else Inr ())"

lemma require_ip_exists_Inr [simp]:
  "require_ip_exists s i = Inr r \<longleftrightarrow> rg_IpRecord s i = Some r"
  by (simp add: require_ip_exists_def)

lemma require_ip_exists_Some [simp]:
  "rg_IpRecord s i = Some r \<Longrightarrow> require_ip_exists s i = Inr r"
  by (simp add: require_ip_exists_def)

lemma require_ip_exists_None [simp]:
  "rg_IpRecord s i = None \<Longrightarrow> require_ip_exists s i = Inl (Contract IpNotFound)"
  by (simp add: require_ip_exists_def)

lemma require_non_zero_commitment_Inr [simp]:
  "require_non_zero_commitment h = Inr u \<longleftrightarrow> h \<noteq> replicate 32 0"
  by (simp add: require_non_zero_commitment_def)

lemma require_unique_commitment_Inr [simp]:
  "require_unique_commitment s h = Inr u \<longleftrightarrow> rg_CommitmentOwner s h = None"
  by (simp add: require_unique_commitment_def split: option.splits)

lemma require_not_revoked_Inr [simp]: "require_not_revoked r = Inr u \<longleftrightarrow> \<not> ir_revoked r"
  by (simp add: require_not_revoked_def)

section \<open>Proof of work\<close>

text \<open>
  The loop over the bytes of the hash, shared by \<open>require_pow\<close> and \<open>verify_commitment_pow\<close>:
  \<open>False\<close> where the code panics or returns \<open>false\<close>.
\<close>

fun pow_loop :: "bytes \<Rightarrow> nat \<Rightarrow> bool" where
  "pow_loop [] remaining = True"
| "pow_loop (b # bs) remaining =
     (if remaining = 0 then True
      else let bits = (if remaining \<ge> 8 then 8 else remaining);
               m = NOT (push_bit (8 - bits) (1 :: byte) - 1)
           in if b AND m \<noteq> 0 then False else pow_loop bs (remaining - 8))"

definition require_pow :: "bytes \<Rightarrow> nat \<Rightarrow> unit rout" where
  "require_pow commitment_hash difficulty =
     (if difficulty = 0 then Inr ()
      else if pow_loop commitment_hash difficulty then Inr ()
      else Inl (Contract InsufficientPoW))"

text \<open>Bit \<open>i\<close> of a byte string, counted from the most significant bit of its first byte.\<close>

definition lead_bit :: "bytes \<Rightarrow> nat \<Rightarrow> bool" where
  "lead_bit bs i = bit (bs ! (i div 8)) (7 - i mod 8)"

lemma mask_byte_test:
  assumes "0 < k" "k \<le> 8"
  shows "(b :: byte) AND NOT (push_bit (8 - k) 1 - 1) = 0 \<longleftrightarrow> (\<forall>j < k. \<not> bit b (7 - j))"
proof -
  have m: "push_bit (8 - k) (1 :: byte) - 1 = mask (8 - k)"
    by (simp add: mask_eq_exp_minus_1)
  have "b AND NOT (mask (8 - k)) = 0 \<longleftrightarrow> (\<forall>n < 8. 8 - k \<le> n \<longrightarrow> \<not> bit b n)"
    by (auto simp: bit_eq_iff bit_simps)
  also have "\<dots> \<longleftrightarrow> (\<forall>j < k. \<not> bit b (7 - j))"
  proof (intro iffI allI impI)
    fix j assume *: "\<forall>n < 8. 8 - k \<le> n \<longrightarrow> \<not> bit b n" and "j < k"
    with assms show "\<not> bit b (7 - j)" by simp
  next
    fix n assume *: "\<forall>j < k. \<not> bit b (7 - j)" and n: "n < 8" "8 - k \<le> n"
    from n assms have "7 - n < k" and "7 - (7 - n) = n" by simp_all
    with * show "\<not> bit b n" by metis
  qed
  finally show ?thesis using m by simp
qed

lemma lead_bit_Cons:
  "lead_bit (b # bs) i = (if i < 8 then bit b (7 - i) else lead_bit bs (i - 8))"
proof (cases "i < 8")
  case True
  then show ?thesis by (simp add: lead_bit_def)
next
  case False
  then have "i div 8 = Suc ((i - 8) div 8)" and "i mod 8 = (i - 8) mod 8"
    by (simp_all add: le_div_geq le_mod_geq)
  with False show ?thesis by (simp add: lead_bit_def)
qed

lemma pow_loop_iff:
  "pow_loop bs d \<longleftrightarrow> (\<forall>i < min d (8 * length bs). \<not> lead_bit bs i)"
proof (induction bs d rule: pow_loop.induct)
  case (1 remaining)
  then show ?case by simp
next
  case (2 b bs d)
  show ?case
  proof (cases "d = 0")
    case True
    then show ?thesis by simp
  next
    case False
    define k where "k = (if d \<ge> 8 then 8 else d)"
    with False have k: "0 < k" "k \<le> 8" by auto
    have step: "pow_loop (b # bs) d \<longleftrightarrow> (\<forall>j < k. \<not> bit b (7 - j)) \<and> pow_loop bs (d - 8)"
      using False mask_byte_test [OF k, of b] by (simp add: k_def Let_def)
    have IH: "pow_loop bs (d - 8) \<longleftrightarrow> (\<forall>i < min (d - 8) (8 * length bs). \<not> lead_bit bs i)"
      if "\<forall>j < k. \<not> bit b (7 - j)"
      using that False mask_byte_test [OF k, of b] by (intro 2) (auto simp: k_def)
    have "(\<forall>i < min d (8 * length (b # bs)). \<not> lead_bit (b # bs) i) \<longleftrightarrow>
        (\<forall>j < k. \<not> bit b (7 - j)) \<and> (\<forall>i < min (d - 8) (8 * length bs). \<not> lead_bit bs i)"
      (is "?L \<longleftrightarrow> ?A \<and> ?B")
    proof (intro iffI conjI allI impI)
      fix j assume ?L and "j < k"
      then have "\<not> lead_bit (b # bs) j" by (auto simp: k_def split: if_splits)
      with \<open>j < k\<close> k show "\<not> bit b (7 - j)" by (simp add: lead_bit_Cons)
    next
      fix i assume ?L and i: "i < min (d - 8) (8 * length bs)"
      then have "\<not> lead_bit (b # bs) (i + 8)" by auto
      then show "\<not> lead_bit bs i" by (simp add: lead_bit_Cons)
    next
      fix i assume ab: "?A \<and> ?B" and i: "i < min d (8 * length (b # bs))"
      show "\<not> lead_bit (b # bs) i"
      proof (cases "i < 8")
        case True
        with i have "i < k" by (simp add: k_def)
        with ab True show ?thesis by (simp add: lead_bit_Cons)
      next
        case False
        with i have "i - 8 < min (d - 8) (8 * length bs)" by auto
        with ab False show ?thesis by (simp add: lead_bit_Cons)
      qed
    qed
    with step IH show ?thesis by blast
  qed
qed

lemma require_pow_Inr: "require_pow h d = Inr u \<longleftrightarrow> d = 0 \<or> pow_loop h d"
  by (simp add: require_pow_def)

text \<open>A requirement that holds holds for every smaller difficulty.\<close>

lemma pow_loop_mono: "pow_loop h d \<Longrightarrow> d' \<le> d \<Longrightarrow> pow_loop h d'"
  by (auto simp: pow_loop_iff)

section \<open>Commitment strength\<close>

definition calculate_commitment_strength :: "nat \<Rightarrow> nat \<Rightarrow> nat rout" where
  "calculate_commitment_strength secret_length pow_difficulty =
     bindE (u32 (secret_length * 2)) (\<lambda>a.
     bindE (u32 (pow_difficulty * 3)) (\<lambda>b.
       let strength = sat_u32 (a + b)
       in Inr (if strength > 100 then 100 else strength)))"

text \<open>The scaled strength is the documented \<open>min(100, 2 * length + 3 * difficulty)\<close> for every input
  the additions do not trap on, so it always fits the \<open>u8\<close> it is returned in.\<close>

theorem calculate_commitment_strength_spec:
  assumes "secret_length < 2 ^ 31" and "3 * pow_difficulty < 2 ^ 32"
  shows "calculate_commitment_strength secret_length pow_difficulty =
      Inr (min 100 (2 * secret_length + 3 * pow_difficulty))"
  using assms
  by (auto simp: calculate_commitment_strength_def u32_def sat_u32_def Let_def min_def mult.commute)

theorem calculate_commitment_strength_witness:
  "calculate_commitment_strength 16 8 = Inr 56"
  using calculate_commitment_strength_spec [of 16 8] by simp

end
