(* ===== verification/Registry_Commit.thy ===== *)
theory Registry_Commit
  imports Registry_Validation
begin

text \<open>
  Committing intellectual property: \<open>commit_ip\<close>, its batch, anonymous and delegated variants, the
  bookkeeping each of them runs (audit trail, shards, compressed hash, checksum of the tracked
  hashes), and the queries that read what they wrote.
\<close>

section \<open>Bookkeeping\<close>

text \<open>The block "Initialize admin on first call if not set" of the commit functions.\<close>

definition init_admin :: "env \<Rightarrow> registry \<Rightarrow> registry" where
  "init_admin E s =
     (if rg_Admin s = None
      then bump Admin 50000 (s\<lparr>rg_Admin := Some (this_addr E)\<rparr>)
      else s)"

definition append_audit_entry :: "env \<Rightarrow> nat \<Rightarrow> string \<Rightarrow> address \<Rightarrow> registry \<Rightarrow> registry" where
  "append_audit_entry E ip_id action actor s =
     (let trail = unwrap_or [] (rg_IpAuditTrail s ip_id)
            @ [\<lparr>au_action = action, au_actor = actor, au_timestamp = now E\<rparr>]
      in bump (IpAuditTrail ip_id) LEDGER_BUMP
           (s\<lparr>rg_IpAuditTrail := (rg_IpAuditTrail s)(ip_id \<mapsto> trail)\<rparr>))"

definition get_commitment_shard :: "bytes \<Rightarrow> nat" where
  "get_commitment_shard commitment_hash = unat (commitment_hash ! 0) mod NUM_SHARDS"

definition assign_to_shard :: "nat \<Rightarrow> bytes \<Rightarrow> registry \<Rightarrow> registry" where
  "assign_to_shard ip_id commitment_hash s =
     (let shard_id = unat (commitment_hash ! 0) mod NUM_SHARDS;
          shard_ids = unwrap_or [] (rg_ShardIps s shard_id) @ [ip_id]
      in bump (ShardIps shard_id) LEDGER_BUMP
           (s\<lparr>rg_ShardIps := (rg_ShardIps s)(shard_id \<mapsto> shard_ids)\<rparr>))"

definition store_compressed_commitment :: "nat \<Rightarrow> bytes \<Rightarrow> registry \<Rightarrow> registry" where
  "store_compressed_commitment ip_id commitment_hash s =
     bump (CompressedCommitment ip_id) LEDGER_BUMP
       (s\<lparr>rg_CompressedCommitment :=
            (rg_CompressedCommitment s)(ip_id \<mapsto> take 16 commitment_hash)\<rparr>)"

definition update_commitment_checksum :: "env \<Rightarrow> registry \<Rightarrow> registry" where
  "update_commitment_checksum E s =
     (let next_id = unwrap_or 1 (rg_NextId s)
      in if next_id \<le> 1 then s
         else case rg_IpRecord s (next_id - 1) of
             None \<Rightarrow> s
           | Some record \<Rightarrow>
               let hashes = unwrap_or [] (rg_CommitmentHashes s) @ [ir_commitment_hash record];
                   s = bump CommitmentHashes LEDGER_BUMP (s\<lparr>rg_CommitmentHashes := Some hashes\<rparr>);
                   checksum = sha256 E (concat hashes)
               in bump IpCommitmentChecksum LEDGER_BUMP
                    (s\<lparr>rg_IpCommitmentChecksum := Some checksum\<rparr>))"

definition adjust_pow_difficulty :: "registry \<Rightarrow> registry" where
  "adjust_pow_difficulty s = s"

section \<open>Commit operations\<close>

definition commit_ip :: "env \<Rightarrow> address \<Rightarrow> bytes \<Rightarrow> nat \<Rightarrow> registry \<Rightarrow> (nat \<times> registry) rout" where
  "commit_ip E owner commitment_hash pow_difficulty s =
     bindE (require_auth E owner) (\<lambda>_.
     let s = init_admin E s in
     bindE (require_non_zero_commitment commitment_hash) (\<lambda>_.
     bindE (require_unique_commitment s commitment_hash) (\<lambda>_.
     bindE (require_pow commitment_hash pow_difficulty) (\<lambda>_.
     let new_id = unwrap_or 1 (rg_NextId s);
         record = \<lparr>ir_ip_id = new_id, ir_owner = owner, ir_commitment_hash = commitment_hash,
           ir_timestamp = now E, ir_revoked = False, ir_co_owners = [], ir_parent_ip_id = None,
           ir_notary_signature = None\<rparr>;
         s = bump (IpRecord new_id) LEDGER_BUMP
           (s\<lparr>rg_IpRecord := (rg_IpRecord s)(new_id \<mapsto> record)\<rparr>);
         s = bump (IpPowDifficulty new_id) LEDGER_BUMP
           (s\<lparr>rg_IpPowDifficulty := (rg_IpPowDifficulty s)(new_id \<mapsto> pow_difficulty)\<rparr>);
         ids = unwrap_or [] (rg_OwnerIps s owner) @ [new_id];
         s = bump (OwnerIps owner) LEDGER_BUMP
           (s\<lparr>rg_OwnerIps := (rg_OwnerIps s)(owner \<mapsto> ids)\<rparr>);
         s = bump (CommitmentOwner commitment_hash) 50000
           (s\<lparr>rg_CommitmentOwner := (rg_CommitmentOwner s)(commitment_hash \<mapsto> owner)\<rparr>)
     in bindE (u64 (new_id + 1)) (\<lambda>next.
     let s = bump NextId LEDGER_BUMP (s\<lparr>rg_NextId := Some next\<rparr>);
         s = bump (CommitmentOwner commitment_hash) LEDGER_BUMP
           (s\<lparr>rg_CommitmentOwner := (rg_CommitmentOwner s)(commitment_hash \<mapsto> owner)\<rparr>);
         s = publish [Sym ''ip_commit'', Adr owner] [U64 new_id, U64 (ir_timestamp record)] s;
         s = append_audit_entry E new_id ''committed'' owner s;
         s = assign_to_shard new_id commitment_hash s;
         s = store_compressed_commitment new_id commitment_hash s;
         s = update_commitment_checksum E s;
         s = adjust_pow_difficulty s
     in Inr (new_id, s))))))"

text \<open>One iteration of the loop of \<open>batch_commit_ip\<close>; the pair carries the ids assigned so far.\<close>

definition batch_commit_step ::
    "env \<Rightarrow> address \<Rightarrow> nat \<Rightarrow> bytes \<Rightarrow> nat list \<times> registry \<Rightarrow> (nat list \<times> registry) rout" where
  "batch_commit_step E owner timestamp commitment_hash st =
     (let (ids, s) = st in
     bindE (require_non_zero_commitment commitment_hash) (\<lambda>_.
     bindE (require_unique_commitment s commitment_hash) (\<lambda>_.
     let new_id = unwrap_or 1 (rg_NextId s);
         record = \<lparr>ir_ip_id = new_id, ir_owner = owner, ir_commitment_hash = commitment_hash,
           ir_timestamp = timestamp, ir_revoked = False, ir_co_owners = [], ir_parent_ip_id = None,
           ir_notary_signature = None\<rparr>;
         s = bump (IpRecord new_id) LEDGER_BUMP
           (s\<lparr>rg_IpRecord := (rg_IpRecord s)(new_id \<mapsto> record)\<rparr>);
         owner_ids = unwrap_or [] (rg_OwnerIps s owner) @ [new_id];
         s = bump (OwnerIps owner) LEDGER_BUMP
           (s\<lparr>rg_OwnerIps := (rg_OwnerIps s)(owner \<mapsto> owner_ids)\<rparr>);
         s = bump (CommitmentOwner commitment_hash) 50000
           (s\<lparr>rg_CommitmentOwner := (rg_CommitmentOwner s)(commitment_hash \<mapsto> owner)\<rparr>);
         s = publish [Sym ''ip_commit'', Adr owner] [U64 new_id, U64 timestamp] s
     in bindE (u64 (new_id + 1)) (\<lambda>next.
     Inr (ids @ [new_id], bump NextId LEDGER_BUMP (s\<lparr>rg_NextId := Some next\<rparr>))))))"

definition batch_commit_ip ::
    "env \<Rightarrow> address \<Rightarrow> bytes list \<Rightarrow> registry \<Rightarrow> (nat list \<times> registry) rout" where
  "batch_commit_ip E owner commitment_hashes s =
     bindE (require_auth E owner) (\<lambda>_.
     let s = init_admin E s in
     bindE (foldE (batch_commit_step E owner (now E)) commitment_hashes ([], s)) (\<lambda>(ids, s).
     Inr (ids, update_commitment_checksum E s)))"

definition batch_commit_anonymous_step ::
    "env \<Rightarrow> bytes \<Rightarrow> nat \<Rightarrow> bytes \<Rightarrow> nat list \<times> registry \<Rightarrow> (nat list \<times> registry) rout" where
  "batch_commit_anonymous_step E blinded_owner timestamp commitment_hash st =
     (let (ids, s) = st in
     bindE (require_non_zero_commitment commitment_hash) (\<lambda>_.
     bindE (require_unique_commitment s commitment_hash) (\<lambda>_.
     let new_id = unwrap_or 1 (rg_NextId s);
         record = \<lparr>ir_ip_id = new_id, ir_owner = this_addr E, ir_commitment_hash = commitment_hash,
           ir_timestamp = timestamp, ir_revoked = False, ir_co_owners = [], ir_parent_ip_id = None,
           ir_notary_signature = None\<rparr>;
         s = bump (IpRecord new_id) LEDGER_BUMP
           (s\<lparr>rg_IpRecord := (rg_IpRecord s)(new_id \<mapsto> record)\<rparr>);
         s = bump (CommitmentOwner commitment_hash) 50000
           (s\<lparr>rg_CommitmentOwner := (rg_CommitmentOwner s)(commitment_hash \<mapsto> this_addr E)\<rparr>);
         s = bump (AnonymousOwner commitment_hash) LEDGER_BUMP
           (s\<lparr>rg_AnonymousOwner := (rg_AnonymousOwner s)(commitment_hash \<mapsto> blinded_owner)\<rparr>);
         s = publish [Sym ''ip_cmt_a'', Adr (this_addr E)]
           [U64 new_id, U64 timestamp, Byt blinded_owner] s
     in bindE (u64 (new_id + 1)) (\<lambda>next.
     Inr (ids @ [new_id], bump NextId LEDGER_BUMP (s\<lparr>rg_NextId := Some next\<rparr>))))))"

definition batch_commit_ip_anonymous ::
    "env \<Rightarrow> bytes \<Rightarrow> bytes list \<Rightarrow> registry \<Rightarrow> (nat list \<times> registry) rout" where
  "batch_commit_ip_anonymous E blinded_owner commitment_hashes s =
     (if commitment_hashes = [] then Inl (Contract ZeroCommitmentHash)
      else let s = init_admin E s in
        bindE (foldE (batch_commit_anonymous_step E blinded_owner (now E)) commitment_hashes ([], s))
          (\<lambda>(ids, s). Inr (ids, update_commitment_checksum E s)))"

text \<open>
  \<open>commit_ip_delegated\<close> asks for the authorisation of the owner, not of a delegate, and only
  checks that the owner has delegates.
\<close>

definition commit_ip_delegated ::
    "env \<Rightarrow> address \<Rightarrow> bytes \<Rightarrow> nat \<Rightarrow> registry \<Rightarrow> (nat \<times> registry) rout" where
  "commit_ip_delegated E owner commitment_hash pow_difficulty s =
     bindE (require_auth E owner) (\<lambda>_.
     let delegates = unwrap_or [] (rg_Delegates s owner) in
     if delegates = [] then Inl (Contract Unauthorized) else
     bindE (require_non_zero_commitment commitment_hash) (\<lambda>_.
     bindE (require_unique_commitment s commitment_hash) (\<lambda>_.
     bindE (require_pow commitment_hash pow_difficulty) (\<lambda>_.
     let new_id = unwrap_or 1 (rg_NextId s);
         record = \<lparr>ir_ip_id = new_id, ir_owner = owner, ir_commitment_hash = commitment_hash,
           ir_timestamp = now E, ir_revoked = False, ir_co_owners = [], ir_parent_ip_id = None,
           ir_notary_signature = None\<rparr>;
         s = bump (IpRecord new_id) LEDGER_BUMP
           (s\<lparr>rg_IpRecord := (rg_IpRecord s)(new_id \<mapsto> record)\<rparr>);
         ids = unwrap_or [] (rg_OwnerIps s owner) @ [new_id];
         s = bump (OwnerIps owner) LEDGER_BUMP
           (s\<lparr>rg_OwnerIps := (rg_OwnerIps s)(owner \<mapsto> ids)\<rparr>);
         s = bump (CommitmentOwner commitment_hash) LEDGER_BUMP
           (s\<lparr>rg_CommitmentOwner := (rg_CommitmentOwner s)(commitment_hash \<mapsto> owner)\<rparr>)
     in bindE (u64 (new_id + 1)) (\<lambda>next.
     let s = bump NextId LEDGER_BUMP (s\<lparr>rg_NextId := Some next\<rparr>);
         s = publish [Sym ''ip_commit'', Adr owner] [U64 new_id, U64 (ir_timestamp record)] s;
         s = update_commitment_checksum E s
     in Inr (new_id, s))))))"

section \<open>Queries\<close>

definition get_ip :: "registry \<Rightarrow> nat \<Rightarrow> IpRec rout" where
  "get_ip s ip_id = require_ip_exists s ip_id"

definition get_anonymous_owner :: "registry \<Rightarrow> bytes \<Rightarrow> bytes option" where
  "get_anonymous_owner s commitment_hash = rg_AnonymousOwner s commitment_hash"

definition list_ip_by_owner :: "registry \<Rightarrow> address \<Rightarrow> nat list" where
  "list_ip_by_owner s owner = unwrap_or [] (rg_OwnerIps s owner)"

definition is_ip_owner :: "registry \<Rightarrow> nat \<Rightarrow> address \<Rightarrow> bool" where
  "is_ip_owner s ip_id addr =
     (case rg_IpRecord s ip_id of Some record \<Rightarrow> ir_owner record = addr | None \<Rightarrow> False)"

definition get_compressed_commitment :: "registry \<Rightarrow> nat \<Rightarrow> bytes rout" where
  "get_compressed_commitment s ip_id =
     bindE (require_ip_exists s ip_id) (\<lambda>_.
       Inr (unwrap_or (replicate 16 0) (rg_CompressedCommitment s ip_id)))"

definition get_shard_ip_ids :: "registry \<Rightarrow> nat \<Rightarrow> nat list" where
  "get_shard_ip_ids s shard_id = unwrap_or [] (rg_ShardIps s shard_id)"

definition get_ip_audit_trail :: "registry \<Rightarrow> nat \<Rightarrow> AuditEntry list rout" where
  "get_ip_audit_trail s ip_id =
     bindE (require_ip_exists s ip_id) (\<lambda>_. Inr (unwrap_or [] (rg_IpAuditTrail s ip_id)))"

definition verify_commitment_integrity :: "env \<Rightarrow> registry \<Rightarrow> bool" where
  "verify_commitment_integrity E s =
     (case rg_IpCommitmentChecksum s of
        None \<Rightarrow> True
      | Some stored_checksum \<Rightarrow>
          stored_checksum = sha256 E (concat (unwrap_or [] (rg_CommitmentHashes s))))"

text \<open>
  The loop of \<open>find_duplicate_commitment\<close> over the ids of the registered owner, with its early
  return.
\<close>

fun find_duplicate_loop :: "registry \<Rightarrow> bytes \<Rightarrow> nat list \<Rightarrow> nat option" where
  "find_duplicate_loop s h [] = None"
| "find_duplicate_loop s h (i # ids) =
     (case rg_IpRecord s i of
        Some record \<Rightarrow>
          if ir_commitment_hash record = h then Some i else find_duplicate_loop s h ids
      | None \<Rightarrow> find_duplicate_loop s h ids)"

definition find_duplicate_commitment :: "registry \<Rightarrow> bytes \<Rightarrow> nat option" where
  "find_duplicate_commitment s commitment_hash =
     (case rg_CommitmentOwner s commitment_hash of
        None \<Rightarrow> None
      | Some owner_addr \<Rightarrow>
          find_duplicate_loop s commitment_hash (unwrap_or [] (rg_OwnerIps s owner_addr)))"

definition get_pow_difficulty :: "registry \<Rightarrow> nat" where
  "get_pow_difficulty s = unwrap_or 4 (rg_PowDifficulty s)"

text \<open>
  \<open>get_ip_strength\<close>: the table \<open>seen\<close> of 256 flags is the set of the bytes of the hash.
\<close>

definition get_ip_strength :: "registry \<Rightarrow> nat \<Rightarrow> nat rout" where
  "get_ip_strength s ip_id =
     bindE (require_ip_exists s ip_id) (\<lambda>record.
     let pow_difficulty = unwrap_or 0 (rg_IpPowDifficulty s ip_id);
         unique_bytes = card (set (ir_commitment_hash record));
         entropy_score = (unique_bytes * 50) div 32;
         pow_score = (if pow_difficulty \<ge> 32 then 50 else (pow_difficulty * 50) div 32)
     in Inr (min (entropy_score + pow_score) 100))"

end
