(* ===== verification/Registry_Ownership.thy ===== *)
theory Registry_Ownership
  imports Registry_Commit
begin

text \<open>
  Operations on a committed record: transfer, revocation, co-owners, merging duplicates, licences,
  access tiers, suggested price, categories, renewal and the contract upgrade.
\<close>

section \<open>Transfer and revocation\<close>

definition transfer_ip :: "env \<Rightarrow> nat \<Rightarrow> address \<Rightarrow> registry \<Rightarrow> registry rout" where
  "transfer_ip E ip_id new_owner s =
     bindE (require_ip_exists s ip_id) (\<lambda>record.
     bindE (require_auth E (ir_owner record)) (\<lambda>_.
     let old_owner = ir_owner record;
         old_ids = remove_first (\<lambda>x. x = ip_id) (unwrap_or [] (rg_OwnerIps s old_owner));
         s = bump (OwnerIps old_owner) 50000
           (s\<lparr>rg_OwnerIps := (rg_OwnerIps s)(old_owner \<mapsto> old_ids)\<rparr>);
         new_ids = unwrap_or [] (rg_OwnerIps s new_owner) @ [ip_id];
         s = bump (OwnerIps new_owner) 50000
           (s\<lparr>rg_OwnerIps := (rg_OwnerIps s)(new_owner \<mapsto> new_ids)\<rparr>);
         s = bump (CommitmentOwner (ir_commitment_hash record)) LEDGER_BUMP
           (s\<lparr>rg_CommitmentOwner :=
                (rg_CommitmentOwner s)(ir_commitment_hash record \<mapsto> new_owner)\<rparr>);
         record = record\<lparr>ir_owner := new_owner\<rparr>;
         s = bump (IpRecord ip_id) LEDGER_BUMP
           (s\<lparr>rg_IpRecord := (rg_IpRecord s)(ip_id \<mapsto> record)\<rparr>);
         s = publish [Sym ''ip_xfer'', U64 ip_id] [Adr old_owner, Adr new_owner] s
     in Inr (append_audit_entry E ip_id ''xferred'' new_owner s)))"

definition transfer_ip_ownership :: "env \<Rightarrow> nat \<Rightarrow> address \<Rightarrow> registry \<Rightarrow> registry rout" where
  "transfer_ip_ownership E ip_id new_owner s = transfer_ip E ip_id new_owner s"

definition revoke_ip :: "env \<Rightarrow> nat \<Rightarrow> registry \<Rightarrow> registry rout" where
  "revoke_ip E ip_id s =
     bindE (require_ip_exists s ip_id) (\<lambda>record.
     bindE (require_auth E (ir_owner record)) (\<lambda>_.
     bindE (require_not_revoked record) (\<lambda>_.
     let record = record\<lparr>ir_revoked := True\<rparr>;
         s = bump (IpRecord ip_id) 50000
           (s\<lparr>rg_IpRecord := (rg_IpRecord s)(ip_id \<mapsto> record)\<rparr>);
         s = publish [Sym ''revoke'', Adr (ir_owner record)] [U64 ip_id, U64 (now E)] s
     in Inr (append_audit_entry E ip_id ''revoked'' (ir_owner record) s))))"

section \<open>Upgrade\<close>

definition validate_upgrade :: "bytes \<Rightarrow> unit rout" where
  "validate_upgrade new_wasm_hash =
     (if new_wasm_hash = replicate 32 0 then Inl (Contract UnauthorizedUpgrade) else Inr ())"

definition upgrade :: "env \<Rightarrow> bytes \<Rightarrow> registry \<Rightarrow> registry rout" where
  "upgrade E new_wasm_hash s =
     bindE (ok_or (Contract UnauthorizedUpgrade) (rg_Admin s)) (\<lambda>admin.
     if this_addr E \<noteq> admin then Inl (Contract UnauthorizedUpgrade) else
     bindE (require_auth E admin) (\<lambda>_.
     Inr (s\<lparr>rg_log := rg_log s @ [UpdateWasm new_wasm_hash]\<rparr>)))"

section \<open>Co-owners and merging\<close>

definition add_co_owner :: "env \<Rightarrow> nat \<Rightarrow> address \<Rightarrow> registry \<Rightarrow> registry rout" where
  "add_co_owner E ip_id co_owner s =
     bindE (require_ip_exists s ip_id) (\<lambda>record.
     bindE (require_auth E (ir_owner record)) (\<lambda>_.
     if co_owner \<in> set (ir_co_owners record) then Inr s
     else let record = record\<lparr>ir_co_owners := ir_co_owners record @ [co_owner]\<rparr>;
              s = bump (IpRecord ip_id) LEDGER_BUMP
                (s\<lparr>rg_IpRecord := (rg_IpRecord s)(ip_id \<mapsto> record)\<rparr>)
          in Inr (publish [Sym ''co_add'', Adr (ir_owner record)] [U64 ip_id, Adr co_owner] s)))"

definition remove_co_owner :: "env \<Rightarrow> nat \<Rightarrow> address \<Rightarrow> registry \<Rightarrow> registry rout" where
  "remove_co_owner E ip_id co_owner s =
     bindE (require_ip_exists s ip_id) (\<lambda>record.
     bindE (require_auth E (ir_owner record)) (\<lambda>_.
     if co_owner \<notin> set (ir_co_owners record) then Inr s
     else let record = record\<lparr>ir_co_owners :=
                remove_first (\<lambda>addr. addr = co_owner) (ir_co_owners record)\<rparr>;
              s = bump (IpRecord ip_id) LEDGER_BUMP
                (s\<lparr>rg_IpRecord := (rg_IpRecord s)(ip_id \<mapsto> record)\<rparr>)
          in Inr (publish [Sym ''co_rem'', Adr (ir_owner record)] [U64 ip_id, Adr co_owner] s)))"

text \<open>
  \<open>merge_duplicate_commitment\<close> reads both records first; where the two ids are equal, writing the
  duplicate after the primary leaves the record as it was read, revoked.
\<close>

definition merge_duplicate_commitment :: "env \<Rightarrow> nat \<Rightarrow> nat \<Rightarrow> registry \<Rightarrow> registry rout" where
  "merge_duplicate_commitment E primary_ip_id duplicate_ip_id s =
     bindE (require_ip_exists s primary_ip_id) (\<lambda>primary.
     bindE (require_auth E (ir_owner primary)) (\<lambda>_.
     bindE (require_ip_exists s duplicate_ip_id) (\<lambda>duplicate.
     if ir_commitment_hash primary \<noteq> ir_commitment_hash duplicate
     then Inl (Contract CommitmentAlreadyRegistered) else
     let dup_owner = ir_owner duplicate;
         already_co_owner = (dup_owner \<in> set (ir_co_owners primary));
         s = (if \<not> already_co_owner \<and> dup_owner \<noteq> ir_owner primary
              then bump (IpRecord primary_ip_id) LEDGER_BUMP
                (s\<lparr>rg_IpRecord := (rg_IpRecord s)(primary_ip_id \<mapsto>
                     primary\<lparr>ir_co_owners := ir_co_owners primary @ [dup_owner]\<rparr>)\<rparr>)
              else s);
         duplicate = duplicate\<lparr>ir_revoked := True\<rparr>;
         s = bump (IpRecord duplicate_ip_id) LEDGER_BUMP
           (s\<lparr>rg_IpRecord := (rg_IpRecord s)(duplicate_ip_id \<mapsto> duplicate)\<rparr>);
         s = append_audit_entry E primary_ip_id ''merged'' (ir_owner primary) s;
         s = append_audit_entry E duplicate_ip_id ''revoked'' (ir_owner primary) s
     in Inr (publish [Sym ''dedup'', U64 primary_ip_id]
          [U64 duplicate_ip_id, Adr dup_owner] s))))"

section \<open>Licences\<close>

definition grant_license :: "env \<Rightarrow> nat \<Rightarrow> address \<Rightarrow> bytes \<Rightarrow> registry \<Rightarrow> registry rout" where
  "grant_license E ip_id licensee terms_hash s =
     bindE (require_ip_exists s ip_id) (\<lambda>record.
     bindE (require_auth E (ir_owner record)) (\<lambda>_.
     let licenses = upsert (\<lambda>e. li_licensee e = licensee)
           \<lparr>li_licensee = licensee, li_terms_hash = terms_hash\<rparr>
           (unwrap_or [] (rg_IpLicenses s ip_id))
     in Inr (bump (IpLicenses ip_id) LEDGER_BUMP
          (s\<lparr>rg_IpLicenses := (rg_IpLicenses s)(ip_id \<mapsto> licenses)\<rparr>))))"

definition revoke_license :: "env \<Rightarrow> nat \<Rightarrow> address \<Rightarrow> registry \<Rightarrow> registry rout" where
  "revoke_license E ip_id licensee s =
     bindE (require_ip_exists s ip_id) (\<lambda>record.
     bindE (require_auth E (ir_owner record)) (\<lambda>_.
     let licenses = unwrap_or [] (rg_IpLicenses s ip_id) in
     if licensee \<in> li_licensee ` set licenses
     then Inr (bump (IpLicenses ip_id) LEDGER_BUMP
            (s\<lparr>rg_IpLicenses := (rg_IpLicenses s)(ip_id \<mapsto>
                 remove_first (\<lambda>e. li_licensee e = licensee) licenses)\<rparr>))
     else Inl (Contract LicenseeNotFound)))"

definition get_licenses :: "registry \<Rightarrow> nat \<Rightarrow> LicenseEntry list rout" where
  "get_licenses s ip_id =
     bindE (require_ip_exists s ip_id) (\<lambda>_. Inr (unwrap_or [] (rg_IpLicenses s ip_id)))"

section \<open>Suggested price\<close>

definition set_ip_suggested_price :: "env \<Rightarrow> nat \<Rightarrow> int \<Rightarrow> registry \<Rightarrow> registry rout" where
  "set_ip_suggested_price E ip_id price s =
     bindE (require_ip_exists s ip_id) (\<lambda>record.
     bindE (require_auth E (ir_owner record)) (\<lambda>_.
     if price = 0
     then Inr (s\<lparr>rg_SuggestedPrice := (rg_SuggestedPrice s)(ip_id := None)\<rparr>)
     else Inr (bump (SuggestedPrice ip_id) LEDGER_BUMP
            (s\<lparr>rg_SuggestedPrice := (rg_SuggestedPrice s)(ip_id \<mapsto> price)\<rparr>))))"

definition get_ip_suggested_price :: "registry \<Rightarrow> nat \<Rightarrow> int option rout" where
  "get_ip_suggested_price s ip_id =
     bindE (require_ip_exists s ip_id) (\<lambda>_. Inr (rg_SuggestedPrice s ip_id))"

section \<open>Access tiers\<close>

definition grant_ip_access :: "env \<Rightarrow> nat \<Rightarrow> address \<Rightarrow> nat \<Rightarrow> registry \<Rightarrow> registry rout" where
  "grant_ip_access E ip_id grantee access_level s =
     bindE (require_ip_exists s ip_id) (\<lambda>record.
     bindE (require_auth E (ir_owner record)) (\<lambda>_.
     if access_level < 1 \<or> access_level > 3 then Inl (Contract Unauthorized) else
     let grants = upsert (\<lambda>g. ag_grantee g = grantee)
           \<lparr>ag_grantee = grantee, ag_access_level = access_level\<rparr>
           (unwrap_or [] (rg_IpAccessGrants s ip_id));
         s = bump (IpAccessGrants ip_id) LEDGER_BUMP
           (s\<lparr>rg_IpAccessGrants := (rg_IpAccessGrants s)(ip_id \<mapsto> grants)\<rparr>)
     in Inr (publish [Sym ''ac_grant'', U64 ip_id] [Adr grantee, U32 access_level] s)))"

definition revoke_ip_access :: "env \<Rightarrow> nat \<Rightarrow> address \<Rightarrow> registry \<Rightarrow> registry rout" where
  "revoke_ip_access E ip_id grantee s =
     bindE (require_ip_exists s ip_id) (\<lambda>record.
     bindE (require_auth E (ir_owner record)) (\<lambda>_.
     let grants = unwrap_or [] (rg_IpAccessGrants s ip_id) in
     if grantee \<in> ag_grantee ` set grants
     then let s = bump (IpAccessGrants ip_id) LEDGER_BUMP
            (s\<lparr>rg_IpAccessGrants := (rg_IpAccessGrants s)(ip_id \<mapsto>
                 remove_first (\<lambda>g. ag_grantee g = grantee) grants)\<rparr>)
          in Inr (publish [Sym ''ac_revoke'', U64 ip_id] [Adr grantee] s)
     else Inr s))"

definition get_ip_access_grants :: "registry \<Rightarrow> nat \<Rightarrow> IpAccessGrant list rout" where
  "get_ip_access_grants s ip_id =
     bindE (require_ip_exists s ip_id) (\<lambda>_. Inr (unwrap_or [] (rg_IpAccessGrants s ip_id)))"

fun check_grants :: "IpAccessGrant list \<Rightarrow> address \<Rightarrow> nat \<Rightarrow> bool" where
  "check_grants [] grantee required_level = False"
| "check_grants (g # gs) grantee required_level =
     (if ag_grantee g = grantee then ag_access_level g \<ge> required_level
      else check_grants gs grantee required_level)"

definition check_ip_access :: "registry \<Rightarrow> nat \<Rightarrow> address \<Rightarrow> nat \<Rightarrow> bool rout" where
  "check_ip_access s ip_id grantee required_level =
     bindE (require_ip_exists s ip_id) (\<lambda>record.
     if grantee = ir_owner record then Inr True
     else Inr (check_grants (unwrap_or [] (rg_IpAccessGrants s ip_id)) grantee required_level))"

section \<open>Categories\<close>

definition assign_ip_to_category :: "env \<Rightarrow> nat \<Rightarrow> bytes \<Rightarrow> registry \<Rightarrow> registry rout" where
  "assign_ip_to_category E ip_id category_hash s =
     bindE (require_ip_exists s ip_id) (\<lambda>record.
     bindE (require_auth E (ir_owner record)) (\<lambda>_.
     let owner = ir_owner record;
         ids = unwrap_or [] (rg_HierarchyNode s (owner, category_hash)) in
     if ip_id \<in> set ids then Inr s else
     let s = bump (HierarchyNode owner category_hash) LEDGER_BUMP
           (s\<lparr>rg_HierarchyNode :=
                (rg_HierarchyNode s)((owner, category_hash) \<mapsto> ids @ [ip_id])\<rparr>);
         cats = unwrap_or [] (rg_OwnerCategories s owner);
         s = (if category_hash \<in> set cats then s
              else bump (OwnerCategories owner) LEDGER_BUMP
                (s\<lparr>rg_OwnerCategories :=
                     (rg_OwnerCategories s)(owner \<mapsto> cats @ [category_hash])\<rparr>))
     in Inr (publish [Sym ''ip_cat'', Adr owner] [U64 ip_id, Byt category_hash] s)))"

definition list_ip_by_category :: "registry \<Rightarrow> address \<Rightarrow> bytes \<Rightarrow> nat list" where
  "list_ip_by_category s owner category_hash =
     unwrap_or [] (rg_HierarchyNode s (owner, category_hash))"

definition list_owner_categories :: "registry \<Rightarrow> address \<Rightarrow> bytes list" where
  "list_owner_categories s owner = unwrap_or [] (rg_OwnerCategories s owner)"

section \<open>Renewal and expiry\<close>

definition renew_ip :: "env \<Rightarrow> nat \<Rightarrow> registry \<Rightarrow> registry rout" where
  "renew_ip E ip_id s =
     bindE (require_ip_exists s ip_id) (\<lambda>record.
     bindE (require_auth E (ir_owner record)) (\<lambda>_.
     bindE (require_not_revoked record) (\<lambda>_.
     let s = bump (IpRecord ip_id) LEDGER_BUMP s in
     bindE (u32 (unwrap_or 0 (rg_RenewalCount s ip_id) + 1)) (\<lambda>new_count.
     let s = bump (RenewalCount ip_id) LEDGER_BUMP
           (s\<lparr>rg_RenewalCount := (rg_RenewalCount s)(ip_id \<mapsto> new_count)\<rparr>)
     in Inr (publish [Sym ''renewed'', Adr (ir_owner record)] [U64 ip_id, U32 new_count] s)))))"

definition get_renewal_count :: "registry \<Rightarrow> nat \<Rightarrow> nat rout" where
  "get_renewal_count s ip_id =
     bindE (require_ip_exists s ip_id) (\<lambda>_. Inr (unwrap_or 0 (rg_RenewalCount s ip_id)))"

text \<open>The quotient is cast to \<open>u32\<close>, which keeps its low 32 bits.\<close>

definition check_expiration_warning :: "env \<Rightarrow> nat \<Rightarrow> nat \<Rightarrow> registry \<Rightarrow> (bool \<times> registry) rout" where
  "check_expiration_warning E ip_id warning_threshold_ledgers s =
     bindE (require_ip_exists s ip_id) (\<lambda>record.
     let elapsed_seconds = now E - ir_timestamp record;
         elapsed_ledgers = (elapsed_seconds div 5) mod 2 ^ 32;
         remaining_ttl = LEDGER_BUMP - elapsed_ledgers
     in if remaining_ttl \<le> warning_threshold_ledgers
        then Inr (True, publish [Sym ''exp_warn'', U64 ip_id]
               [Adr (ir_owner record), U32 remaining_ttl] s)
        else Inr (False, s))"

end
