(* ===== verification/Registry_Versions.thy ===== *)
theory Registry_Versions
  imports Registry_Ownership
begin

text \<open>
  Version chains: \<open>create_ip_version\<close>, its alias \<open>commit_ip_version\<close> and the queries over the parent
  links. The loops that climb the parent links have no bound in the code, so they are partial
  functions: \<open>None\<close> is a walk that never ends, which the host stops when the budget is spent. The
  lemmas show that the walks return whenever each parent is an older record, and that all three loops
  then agree on the root.
\<close>

section \<open>Climbing the parent links\<close>

text \<open>The cycle check: \<open>Some False\<close> where the code panics because an id repeats.\<close>

partial_function (option) ancestor_check :: "registry \<Rightarrow> nat list \<Rightarrow> nat \<Rightarrow> bool option" where
  "ancestor_check s visited cur =
     (if cur \<in> set visited then Some False
      else case rg_IpRecord s cur of
          None \<Rightarrow> Some True
        | Some r \<Rightarrow> (case ir_parent_ip_id r of
              None \<Rightarrow> Some True
            | Some p \<Rightarrow> ancestor_check s (visited @ [cur]) p))"

partial_function (option) find_root :: "registry \<Rightarrow> nat \<Rightarrow> nat option" where
  "find_root s root_id =
     (case rg_IpRecord s root_id of
        None \<Rightarrow> Some root_id
      | Some r \<Rightarrow> (case ir_parent_ip_id r of None \<Rightarrow> Some root_id | Some p \<Rightarrow> find_root s p))"

partial_function (option) lineage_root :: "registry \<Rightarrow> nat \<Rightarrow> nat rout option" where
  "lineage_root s current_id =
     (case require_ip_exists s current_id of
        Inl e \<Rightarrow> Some (Inl e)
      | Inr r \<Rightarrow>
          (case ir_parent_ip_id r of
             None \<Rightarrow> Some (Inr current_id)
           | Some p \<Rightarrow> lineage_root s p))"

declare ancestor_check.simps [code] find_root.simps [code] lineage_root.simps [code]

section \<open>Operations\<close>

definition create_ip_version :: "env \<Rightarrow> nat \<Rightarrow> bytes \<Rightarrow> registry \<Rightarrow> (nat \<times> registry) rout" where
  "create_ip_version E parent_ip_id new_commitment_hash s =
     bindE (require_ip_exists s parent_ip_id) (\<lambda>parent_record.
     let owner = ir_owner parent_record in
     bindE (require_auth E owner) (\<lambda>_.
     bindE (require_non_zero_commitment new_commitment_hash) (\<lambda>_.
     bindE (require_unique_commitment s new_commitment_hash) (\<lambda>_.
     bindE (ok_or HostTrap (ancestor_check s [] parent_ip_id)) (\<lambda>acyclic.
     if \<not> acyclic then Inl (Contract Unauthorized) else
     let id = unwrap_or 1 (rg_NextId s);
         version_record = \<lparr>ir_ip_id = id, ir_owner = owner,
           ir_commitment_hash = new_commitment_hash, ir_timestamp = now E, ir_revoked = False,
           ir_co_owners = [], ir_parent_ip_id = Some parent_ip_id, ir_notary_signature = None\<rparr>;
         s = bump (IpRecord id) LEDGER_BUMP
           (s\<lparr>rg_IpRecord := (rg_IpRecord s)(id \<mapsto> version_record)\<rparr>);
         owner_ids = unwrap_or [] (rg_OwnerIps s owner) @ [id];
         s = bump (OwnerIps owner) LEDGER_BUMP
           (s\<lparr>rg_OwnerIps := (rg_OwnerIps s)(owner \<mapsto> owner_ids)\<rparr>);
         s = bump (CommitmentOwner new_commitment_hash) LEDGER_BUMP
           (s\<lparr>rg_CommitmentOwner := (rg_CommitmentOwner s)(new_commitment_hash \<mapsto> owner)\<rparr>);
         versions = unwrap_or [] (rg_IpVersions s parent_ip_id) @ [id];
         s = bump (IpVersions parent_ip_id) LEDGER_BUMP
           (s\<lparr>rg_IpVersions := (rg_IpVersions s)(parent_ip_id \<mapsto> versions)\<rparr>)
     in bindE (ok_or HostTrap (find_root s parent_ip_id)) (\<lambda>root_id.
     let chain = unwrap_or [root_id] (rg_IpVersionChain s root_id) @ [id];
         s = bump (IpVersionChain root_id) LEDGER_BUMP
           (s\<lparr>rg_IpVersionChain := (rg_IpVersionChain s)(root_id \<mapsto> chain)\<rparr>)
     in bindE (u64 (id + 1)) (\<lambda>next.
     let s = bump NextId LEDGER_BUMP (s\<lparr>rg_NextId := Some next\<rparr>)
     in Inr (id, publish [Sym ''version'', Adr owner] [U64 parent_ip_id, U64 id] s))))))))"

definition commit_ip_version ::
    "env \<Rightarrow> address \<Rightarrow> bytes \<Rightarrow> nat \<Rightarrow> registry \<Rightarrow> (nat \<times> registry) rout" where
  "commit_ip_version E owner commitment_hash parent_ip_id s =
     bindE (require_auth E owner) (\<lambda>_. create_ip_version E parent_ip_id commitment_hash s)"

definition get_ip_lineage :: "registry \<Rightarrow> nat \<Rightarrow> nat list rout" where
  "get_ip_lineage s ip_id =
     bindE (require_ip_exists s ip_id) (\<lambda>_.
     bindE (ok_or HostTrap (lineage_root s ip_id)) (\<lambda>result.
     bindE result (\<lambda>root_id.
     Inr ([root_id] @ unwrap_or [] (rg_IpVersions s root_id)))))"

definition get_ip_versions :: "registry \<Rightarrow> nat \<Rightarrow> nat list rout" where
  "get_ip_versions s ip_id =
     bindE (require_ip_exists s ip_id) (\<lambda>_. Inr (unwrap_or [] (rg_IpVersions s ip_id)))"

definition get_ip_version_chain :: "registry \<Rightarrow> nat \<Rightarrow> nat list rout" where
  "get_ip_version_chain s ip_id =
     bindE (require_ip_exists s ip_id) (\<lambda>_.
     bindE (ok_or HostTrap (find_root s ip_id)) (\<lambda>root_id.
     Inr (unwrap_or [root_id] (rg_IpVersionChain s root_id))))"

section \<open>The walks return\<close>

text \<open>Every recorded parent is an older record.\<close>

definition parents_older :: "registry \<Rightarrow> bool" where
  "parents_older s \<longleftrightarrow>
     (\<forall>i r p. rg_IpRecord s i = Some r \<longrightarrow> ir_parent_ip_id r = Some p \<longrightarrow>
        p < i \<and> rg_IpRecord s p \<noteq> None)"

lemma parents_olderD:
  "parents_older s \<Longrightarrow> rg_IpRecord s i = Some r \<Longrightarrow> ir_parent_ip_id r = Some p \<Longrightarrow>
    p < i \<and> rg_IpRecord s p \<noteq> None"
  by (auto simp: parents_older_def)

lemma ancestor_check_returns:
  assumes "parents_older s" and "\<forall>v \<in> set visited. cur < v"
  shows "ancestor_check s visited cur = Some True"
  using assms(2)
proof (induction cur arbitrary: visited rule: less_induct)
  case (less cur)
  then have fresh: "cur \<notin> set visited" by auto
  show ?case
  proof (cases "\<exists>r p. rg_IpRecord s cur = Some r \<and> ir_parent_ip_id r = Some p")
    case True
    then obtain r p where r: "rg_IpRecord s cur = Some r" "ir_parent_ip_id r = Some p" by auto
    with assms(1) have "p < cur" by (auto dest: parents_olderD)
    then have "\<forall>v \<in> set (visited @ [cur]). p < v" using less.prems by auto
    with \<open>p < cur\<close> have "ancestor_check s (visited @ [cur]) p = Some True" by (rule less.IH)
    with r fresh show ?thesis by (subst ancestor_check.simps) simp
  next
    case False
    with fresh show ?thesis
      by (subst ancestor_check.simps) (auto split: option.splits)
  qed
qed

lemma find_root_returns:
  assumes "parents_older s" and "rg_IpRecord s i \<noteq> None"
  shows "\<exists>root r. find_root s i = Some root \<and> root \<le> i \<and> rg_IpRecord s root = Some r \<and>
      ir_parent_ip_id r = None"
  using assms(2)
proof (induction i rule: less_induct)
  case (less i)
  then obtain r where r: "rg_IpRecord s i = Some r" by auto
  show ?case
  proof (cases "ir_parent_ip_id r")
    case None
    with r show ?thesis by (simp add: find_root.simps [of s i])
  next
    case (Some p)
    with r assms(1) have "p < i" "rg_IpRecord s p \<noteq> None" by (auto dest: parents_olderD)
    with less.IH obtain root r' where "find_root s p = Some root" "root \<le> p"
      "rg_IpRecord s root = Some r'" "ir_parent_ip_id r' = None" by blast
    with r Some \<open>p < i\<close> show ?thesis by (auto simp: find_root.simps [of s i])
  qed
qed

lemma lineage_root_eq_find_root:
  assumes "parents_older s" and "rg_IpRecord s i \<noteq> None"
  shows "lineage_root s i = map_option Inr (find_root s i)"
  using assms(2)
proof (induction i rule: less_induct)
  case (less i)
  then obtain r where r: "rg_IpRecord s i = Some r" by auto
  show ?case
  proof (cases "ir_parent_ip_id r")
    case None
    with r show ?thesis by (simp add: find_root.simps [of s i] lineage_root.simps [of s i])
  next
    case (Some p)
    with r assms(1) have "p < i" "rg_IpRecord s p \<noteq> None" by (auto dest: parents_olderD)
    with less.IH have "lineage_root s p = map_option Inr (find_root s p)" by blast
    with r Some show ?thesis
      by (simp add: find_root.simps [of s i] lineage_root.simps [of s i])
  qed
qed

text \<open>The root of a record depends on the parent links of the older records only.\<close>

lemma find_root_cong:
  assumes "parents_older s" and "i < n"
    and "\<And>j. j < n \<Longrightarrow> map_option ir_parent_ip_id (rg_IpRecord t j) =
      map_option ir_parent_ip_id (rg_IpRecord s j)"
  shows "find_root t i = find_root s i"
  using assms(2)
proof (induction i rule: less_induct)
  case (less i)
  from assms(3) [OF less.prems] show ?case
  proof (cases "rg_IpRecord s i")
    case None
    with assms(3) [OF less.prems] show ?thesis
      by (simp add: find_root.simps [of s i] find_root.simps [of t i])
  next
    case (Some r)
    with assms(3) [OF less.prems] obtain r' where r':
      "rg_IpRecord t i = Some r'" "ir_parent_ip_id r' = ir_parent_ip_id r" by auto
    show ?thesis
    proof (cases "ir_parent_ip_id r")
      case None
      with Some r' show ?thesis
        by (simp add: find_root.simps [of s i] find_root.simps [of t i])
    next
      case (Some p)
      with \<open>rg_IpRecord s i = Some r\<close> assms(1) have "p < i" by (auto dest: parents_olderD)
      with less have "find_root t p = find_root s p" by simp
      with Some \<open>rg_IpRecord s i = Some r\<close> r' show ?thesis
        by (simp add: find_root.simps [of s i] find_root.simps [of t i])
    qed
  qed
qed

text \<open>The walk reads the records only.\<close>

lemma find_root_records_Some:
  assumes "find_root s i = Some root" and "rg_IpRecord t = rg_IpRecord s"
  shows "find_root t i = Some root"
proof -
  have "rg_IpRecord t = rg_IpRecord s \<longrightarrow> find_root t i = Some root"
  proof (rule find_root.raw_induct [where
        P = "\<lambda>s i root. rg_IpRecord t = rg_IpRecord s \<longrightarrow> find_root t i = Some root", OF _ assms(1)])
    fix f s i root
    assume "\<And>s i root. f s i = Some root \<Longrightarrow>
        rg_IpRecord t = rg_IpRecord s \<longrightarrow> find_root t i = Some root"
      and "(case rg_IpRecord s i of None \<Rightarrow> Some i
        | Some r \<Rightarrow> (case ir_parent_ip_id r of None \<Rightarrow> Some i | Some p \<Rightarrow> f s p)) = Some root"
    then show "rg_IpRecord t = rg_IpRecord s \<longrightarrow> find_root t i = Some root"
      by (subst find_root.simps) (auto split: option.splits)
  qed
  with assms(2) show ?thesis by simp
qed

lemma find_root_records:
  assumes "rg_IpRecord t = rg_IpRecord s"
  shows "find_root t i = find_root s i"
  using find_root_records_Some [of s i _ t] find_root_records_Some [of t i _ s] assms
  by (cases "find_root s i"; cases "find_root t i") auto

end
