(* ===== verification/Registry_Merkle.thy ===== *)
theory Registry_Merkle
  imports Registry_Versions
begin

text \<open>
  Merkle roots and proofs over the commitments of an owner. A level is reduced by hashing pairs, an
  odd last node with itself; a proof is the list of siblings. The verifier does not receive the
  index, so it tries both orders at every level. The lemmas show that a generated proof always
  verifies, and that an accepted proof of the tree's height is one of a leaf unless two of the strings
  hashed on the way collide.
\<close>

section \<open>Definitions\<close>

text \<open>The body of the \<open>step_by(2)\<close> loop that builds the next level.\<close>

fun merkle_next_level :: "env \<Rightarrow> bytes list \<Rightarrow> bytes list" where
  "merkle_next_level E [] = []"
| "merkle_next_level E [left] = [sha256 E (left @ left)]"
| "merkle_next_level E (left # right # rest) =
     sha256 E (left @ right) # merkle_next_level E rest"

lemma length_merkle_next_level [simp]:
  "length (merkle_next_level E xs) = (length xs + 1) div 2"
  by (induction E xs rule: merkle_next_level.induct) auto

function merkle_root_loop :: "env \<Rightarrow> bytes list \<Rightarrow> bytes" where
  "merkle_root_loop E current_level =
     (if length current_level > 1 then merkle_root_loop E (merkle_next_level E current_level)
      else current_level ! 0)"
  by auto
termination by (relation "measure (\<lambda>(E, xs). length xs)") auto

definition merkle_root :: "env \<Rightarrow> bytes list \<Rightarrow> bytes" where
  "merkle_root E hashes =
     (if length hashes = 0 then replicate 32 0
      else if length hashes = 1 then hashes ! 0
      else merkle_root_loop E hashes)"

text \<open>The loop of \<open>build_merkle_proof\<close>; \<open>get(i).unwrap()\<close> traps out of range.\<close>

definition sibling_index :: "nat \<Rightarrow> nat" where
  "sibling_index current_index =
     (if current_index mod 2 = 0 then current_index + 1 else current_index - 1)"

function build_proof_loop :: "env \<Rightarrow> bytes list \<Rightarrow> nat \<Rightarrow> bytes list rout" where
  "build_proof_loop E current_level current_index =
     (if length current_level > 1
      then bindE
          (if sibling_index current_index < length current_level
           then Inr (current_level ! sibling_index current_index)
           else if current_index < length current_level then Inr (current_level ! current_index)
           else Inl HostTrap) (\<lambda>sibling.
        bindE (build_proof_loop E (merkle_next_level E current_level) (current_index div 2))
          (\<lambda>proof. Inr (sibling # proof)))
      else Inr [])"
  by auto
termination by (relation "measure (\<lambda>(E, xs, i). length xs)") auto

declare merkle_root_loop.simps [simp del] build_proof_loop.simps [simp del]

definition build_merkle_proof :: "env \<Rightarrow> bytes list \<Rightarrow> nat \<Rightarrow> bytes list rout" where
  "build_merkle_proof E leaves index =
     (if length leaves \<le> 1 then Inr [] else build_proof_loop E leaves index)"

definition hash_pair :: "env \<Rightarrow> bytes \<Rightarrow> bytes \<Rightarrow> bytes" where
  "hash_pair E left right = sha256 E (left @ right)"

fun merkle_candidates :: "env \<Rightarrow> bytes list \<Rightarrow> bytes list \<Rightarrow> bytes list" where
  "merkle_candidates E candidates [] = candidates"
| "merkle_candidates E candidates (proof_hash # proof) =
     merkle_candidates E
       (concat (map (\<lambda>candidate. [hash_pair E candidate proof_hash, hash_pair E proof_hash candidate])
          candidates)) proof"

definition verify_merkle_proof :: "env \<Rightarrow> bytes \<Rightarrow> bytes list \<Rightarrow> bytes list \<Rightarrow> bool" where
  "verify_merkle_proof E leaf proof all_leaves =
     (let root = merkle_root E all_leaves
      in list_ex (\<lambda>candidate. candidate = root) (merkle_candidates E [leaf] proof))"

text \<open>The hashes of the owner's ids that have a record, in the order of the owner's list.\<close>

definition owner_leaves :: "registry \<Rightarrow> address \<Rightarrow> bytes list" where
  "owner_leaves s owner =
     map ir_commitment_hash (List.map_filter (rg_IpRecord s) (unwrap_or [] (rg_OwnerIps s owner)))"

definition compute_ip_merkle_root :: "env \<Rightarrow> registry \<Rightarrow> address \<Rightarrow> bytes" where
  "compute_ip_merkle_root E s owner =
     (if unwrap_or [] (rg_OwnerIps s owner) = [] then replicate 32 0
      else merkle_root E (owner_leaves s owner))"

definition verify_ip_merkle_proof :: "env \<Rightarrow> registry \<Rightarrow> nat \<Rightarrow> bytes list \<Rightarrow> bool rout" where
  "verify_ip_merkle_proof E s ip_id proof =
     bindE (require_ip_exists s ip_id) (\<lambda>record.
     Inr (verify_merkle_proof E (ir_commitment_hash record) proof
       (owner_leaves s (ir_owner record))))"

text \<open>The last index whose leaf has the given hash, or 0.\<close>

fun found_index_loop :: "bytes \<Rightarrow> bytes list \<Rightarrow> nat \<Rightarrow> nat \<Rightarrow> nat" where
  "found_index_loop h [] leaf_index found_index = found_index"
| "found_index_loop h (x # xs) leaf_index found_index =
     found_index_loop h xs (leaf_index + 1) (if x = h then leaf_index else found_index)"

definition generate_merkle_proof :: "env \<Rightarrow> registry \<Rightarrow> nat \<Rightarrow> bytes list rout" where
  "generate_merkle_proof E s ip_id =
     bindE (require_ip_exists s ip_id) (\<lambda>record.
     let leaves = owner_leaves s (ir_owner record);
         found_index = found_index_loop (ir_commitment_hash record) leaves 0 0
     in build_merkle_proof E leaves found_index)"

section \<open>Generated proofs verify\<close>

lemma merkle_candidates_append:
  "merkle_candidates E (xs @ ys) p = merkle_candidates E xs p @ merkle_candidates E ys p"
  by (induction p arbitrary: xs ys) simp_all

lemma merkle_candidates_mono:
  "set xs \<subseteq> set ys \<Longrightarrow> set (merkle_candidates E xs p) \<subseteq> set (merkle_candidates E ys p)"
proof (induction p arbitrary: xs ys)
  case (Cons h p)
  show ?case unfolding merkle_candidates.simps by (rule Cons.IH) (use Cons.prems in auto)
qed simp

lemma merkle_next_level_nth:
  "k < length (merkle_next_level E xs) \<Longrightarrow>
    merkle_next_level E xs ! k =
      hash_pair E (xs ! (2 * k)) (if 2 * k + 1 < length xs then xs ! (2 * k + 1) else xs ! (2 * k))"
proof (induction E xs arbitrary: k rule: merkle_next_level.induct)
  case (3 E left right rest)
  then show ?case by (cases k) (auto simp: hash_pair_def)
qed (auto simp: hash_pair_def)

lemma build_proof_loop_verifies:
  "i < length xs \<Longrightarrow>
    \<exists>p. build_proof_loop E xs i = Inr p \<and> merkle_root_loop E xs \<in> set (merkle_candidates E [xs ! i] p)"
proof (induction E xs i rule: build_proof_loop.induct)
  case (1 E xs i)
  show ?case
  proof (cases "length xs > 1")
    case False
    with 1(2) have "i = 0" by simp
    with False have "build_proof_loop E xs i = Inr []" "merkle_root_loop E xs = xs ! i"
      by (simp_all add: build_proof_loop.simps [of E xs] merkle_root_loop.simps [of E xs])
    then show ?thesis by simp
  next
    case True
    define j where "j = sibling_index i"
    define sib where "sib = (if j < length xs then xs ! j else xs ! i)"
    have next_i: "i div 2 < length (merkle_next_level E xs)" using 1(2) by simp
    have "\<exists>p. build_proof_loop E (merkle_next_level E xs) (i div 2) = Inr p \<and>
        merkle_root_loop E (merkle_next_level E xs) \<in>
          set (merkle_candidates E [merkle_next_level E xs ! (i div 2)] p)"
    proof (cases "j < length xs")
      case True
      with \<open>length xs > 1\<close> show ?thesis
        by (intro 1(1) [of sib] next_i) (auto simp: sib_def j_def)
    next
      case False
      with \<open>length xs > 1\<close> 1(2) show ?thesis
        by (intro 1(1) [of sib] next_i) (auto simp: sib_def j_def)
    qed
    then obtain p where p: "build_proof_loop E (merkle_next_level E xs) (i div 2) = Inr p"
      "merkle_root_loop E (merkle_next_level E xs) \<in>
          set (merkle_candidates E [merkle_next_level E xs ! (i div 2)] p)" by blast
    have up: "merkle_next_level E xs ! (i div 2) \<in>
        {hash_pair E (xs ! i) sib, hash_pair E sib (xs ! i)}"
    proof (cases "even i")
      case True
      then have "2 * (i div 2) = i" by simp
      with True show ?thesis
        by (simp add: merkle_next_level_nth [OF next_i] sib_def j_def sibling_index_def)
    next
      case False
      then have "2 * (i div 2) = i - 1" "2 * (i div 2) + 1 = i" "0 < i"
        by (simp_all add: odd_pos)
      moreover have "i - 1 < length xs" using 1(2) by simp
      ultimately show ?thesis using False 1(2)
        by (simp add: merkle_next_level_nth [OF next_i] sib_def j_def sibling_index_def
            mod2_eq_if)
    qed
    have "build_proof_loop E xs i = Inr (sib # p)"
      using True 1(2) p(1)
      by (auto simp: build_proof_loop.simps [of E xs i] sib_def j_def)
    moreover have "merkle_root_loop E xs \<in> set (merkle_candidates E [xs ! i] (sib # p))"
      using True p(2) up
        merkle_candidates_mono [of "[merkle_next_level E xs ! (i div 2)]"
          "[hash_pair E (xs ! i) sib, hash_pair E sib (xs ! i)]" E p]
      by (auto simp: merkle_root_loop.simps [of E xs])
    ultimately show ?thesis by blast
  qed
qed

lemma merkle_root_eq_loop: "xs \<noteq> [] \<Longrightarrow> merkle_root E xs = merkle_root_loop E xs"
  by (auto simp: merkle_root_def merkle_root_loop.simps [of E xs])

lemma build_merkle_proof_eq_loop: "build_merkle_proof E xs i = build_proof_loop E xs i"
  by (auto simp: build_merkle_proof_def build_proof_loop.simps [of E xs i])

lemma build_merkle_proof_verifies:
  assumes "i < length xs"
  obtains p where "build_merkle_proof E xs i = Inr p" and "verify_merkle_proof E (xs ! i) p xs"
proof -
  from build_proof_loop_verifies [OF assms, of E] obtain p where
    "build_proof_loop E xs i = Inr p" "merkle_root_loop E xs \<in> set (merkle_candidates E [xs ! i] p)"
    by blast
  moreover from assms have "xs \<noteq> []" by auto
  ultimately show thesis
    by (intro that) (auto simp: build_merkle_proof_eq_loop verify_merkle_proof_def
        merkle_root_eq_loop list_ex_iff)
qed

lemma found_index_loop_hit:
  assumes "h \<in> set xs \<or> (f < n \<and> ys ! f = h)" and "length ys = n"
  shows "found_index_loop h xs n f < length (ys @ xs) \<and>
      (ys @ xs) ! found_index_loop h xs n f = h"
  using assms
proof (induction xs arbitrary: n f ys)
  case Nil
  then show ?case by simp
next
  case (Cons x xs)
  show ?case
  proof (cases "x = h")
    case True
    then show ?thesis
      using Cons.IH [of n "n + 1" "ys @ [x]"] Cons.prems by (simp add: nth_append)
  next
    case False
    then show ?thesis
      using Cons.IH [of f "n + 1" "ys @ [x]"] Cons.prems by (auto simp: nth_append)
  qed
qed

lemma found_index_loop_nth:
  "h \<in> set xs \<Longrightarrow> found_index_loop h xs 0 0 < length xs \<and> xs ! found_index_loop h xs 0 0 = h"
  using found_index_loop_hit [where ys = "[]" and n = 0 and f = 0 and h = h and xs = xs] by simp

section \<open>Accepted proofs are proofs of leaves\<close>

text \<open>The strings hashed by the root of a list, and by the candidates of a proof.\<close>

fun level_inputs :: "bytes list \<Rightarrow> bytes list" where
  "level_inputs [] = []"
| "level_inputs [left] = [left @ left]"
| "level_inputs (left # right # rest) = (left @ right) # level_inputs rest"

function tree_inputs :: "env \<Rightarrow> bytes list \<Rightarrow> bytes list" where
  "tree_inputs E xs =
     (if length xs > 1 then level_inputs xs @ tree_inputs E (merkle_next_level E xs) else [])"
  by auto
termination by (relation "measure (\<lambda>(E, xs). length xs)") auto

function tree_height :: "nat \<Rightarrow> nat" where
  "tree_height n = (if n > 1 then 1 + tree_height ((n + 1) div 2) else 0)"
  by auto
termination by (relation "measure id") auto

declare tree_inputs.simps [simp del] tree_height.simps [simp del]

fun candidate_inputs :: "env \<Rightarrow> bytes list \<Rightarrow> bytes list \<Rightarrow> bytes list" where
  "candidate_inputs E candidates [] = []"
| "candidate_inputs E candidates (h # proof) =
     concat (map (\<lambda>c. [c @ h, h @ c]) candidates) @
     candidate_inputs E (concat (map (\<lambda>c. [hash_pair E c h, hash_pair E h c]) candidates)) proof"

lemma merkle_next_level_inputs: "merkle_next_level E xs = map (sha256 E) (level_inputs xs)"
  by (induction E xs rule: merkle_next_level.induct) auto

lemma level_inputs_parts:
  "z \<in> set (level_inputs xs) \<Longrightarrow> \<exists>x \<in> set xs. \<exists>y \<in> set xs. z = x @ y"
  by (induction xs rule: level_inputs.induct) auto

text \<open>All hashes have the length of a SHA-256 digest.\<close>

lemma merkle_sound_aux:
  assumes "length p = tree_height (length xs)" and "xs \<noteq> []"
    and "\<forall>x \<in> set xs. length x = 32" and "\<forall>c \<in> set cs. length c = 32"
    and "\<forall>h \<in> set p. length h = 32" and "\<And>x. length (sha256 E x) = 32"
    and "merkle_root_loop E xs \<in> set (merkle_candidates E cs p)"
    and "inj_on (sha256 E) (set (tree_inputs E xs) \<union> set (candidate_inputs E cs p))"
  shows "\<exists>c \<in> set cs. c \<in> set xs"
  using assms
proof (induction p arbitrary: xs cs)
  case Nil
  then have "\<not> length xs > 1" by (auto simp: tree_height.simps [of "length xs"])
  with Nil show ?case by (auto simp: merkle_root_loop.simps [of E xs] neq_Nil_conv)
next
  case (Cons h p)
  then have long: "length xs > 1"
    by (auto simp: tree_height.simps [of "length xs"] split: if_splits)
  define cs' where "cs' = concat (map (\<lambda>c. [hash_pair E c h, hash_pair E h c]) cs)"
  have len: "length p = tree_height (length (merkle_next_level E xs))"
    using Cons.prems(1) long by (simp add: tree_height.simps [of "length xs"])
  have ne: "merkle_next_level E xs \<noteq> []"
    using long by (cases xs rule: level_inputs.cases) auto
  have l32: "\<forall>x \<in> set (merkle_next_level E xs). length x = 32"
    using Cons.prems(6) by (auto simp: merkle_next_level_inputs)
  have c32: "\<forall>c \<in> set cs'. length c = 32" using Cons.prems(6) by (auto simp: cs'_def hash_pair_def)
  have p32: "\<forall>h \<in> set p. length h = 32" using Cons.prems(5) by simp
  have mem: "merkle_root_loop E (merkle_next_level E xs) \<in> set (merkle_candidates E cs' p)"
    using Cons.prems(7) long by (simp add: merkle_root_loop.simps [of E xs] cs'_def)
  have inj: "inj_on (sha256 E)
      (set (tree_inputs E (merkle_next_level E xs)) \<union> set (candidate_inputs E cs' p))"
    using Cons.prems(8) by (rule inj_on_subset) (use long in \<open>auto simp: tree_inputs.simps [of E xs] cs'_def\<close>)
  from Cons.IH [OF len ne l32 c32 p32 Cons.prems(6) mem inj]
  obtain d where d: "d \<in> set cs'" "d \<in> set (merkle_next_level E xs)" by blast
  then obtain z where z: "z \<in> set (level_inputs xs)" "d = sha256 E z"
    by (auto simp: merkle_next_level_inputs)
  from d(1) obtain c w where c: "c \<in> set cs" "w = c @ h \<or> w = h @ c" "d = sha256 E w"
    by (auto simp: cs'_def hash_pair_def)
  have "z = w"
    using Cons.prems(8) by (rule inj_onD) (use z c long in \<open>auto simp: tree_inputs.simps [of E xs]\<close>)
  moreover from level_inputs_parts [OF z(1)] obtain x y where
    "x \<in> set xs" "y \<in> set xs" "z = x @ y" by blast
  moreover have "length c = 32" "length h = 32" using Cons.prems c by auto
  ultimately have "c \<in> set xs" using c(2) Cons.prems(3) by auto
  with c(1) show ?case by blast
qed

end
