(* ===== verification/Registry_Proofs.thy ===== *)
theory Registry_Proofs
  imports Registry_Merkle
begin

text \<open>
  Verification of commitments, proof of work with a nonce, partial disclosure, ownership challenges,
  key rotation, notary signatures, threshold signatures, batch metadata, compression and encryption
  of commitments.
\<close>

section \<open>Verifying a commitment\<close>

definition verify_commitment :: "env \<Rightarrow> registry \<Rightarrow> nat \<Rightarrow> bytes \<Rightarrow> bytes \<Rightarrow> bool rout" where
  "verify_commitment E s ip_id secret blinding_factor =
     bindE (require_ip_exists s ip_id) (\<lambda>record.
     let preimage = secret @ blinding_factor;
         computed_hash = sha256 E preimage
     in Inr (ir_commitment_hash record = computed_hash))"

text \<open>The two definitions of \<open>batch_verify_commitments\<close>: on triples, and on request records.\<close>

definition batch_verify_commitments ::
    "env \<Rightarrow> registry \<Rightarrow> (nat \<times> bytes \<times> bytes) list \<Rightarrow> bool list" where
  "batch_verify_commitments E s verifications =
     map (\<lambda>(ip_id, secret, blinding_factor).
       case rg_IpRecord s ip_id of
         Some record \<Rightarrow> ir_commitment_hash record = sha256 E (secret @ blinding_factor)
       | None \<Rightarrow> False) verifications"

definition batch_verify_commitment_requests ::
    "env \<Rightarrow> registry \<Rightarrow> VerifyRequest list \<Rightarrow> VerifyResult list rout" where
  "batch_verify_commitment_requests E s requests =
     mapE (\<lambda>req.
       bindE (require_ip_exists s (vq_ip_id req)) (\<lambda>record.
       let computed = sha256 E (vq_secret req @ vq_blinding_factor req)
       in Inr \<lparr>vr_ip_id = vq_ip_id req, vr_valid = (ir_commitment_hash record = computed)\<rparr>))
       requests"

definition verify_commitment_pow :: "env \<Rightarrow> registry \<Rightarrow> bytes \<Rightarrow> nat \<Rightarrow> bool" where
  "verify_commitment_pow E s commitment_hash nonce =
     (let difficulty = unwrap_or 2 (rg_PowDifficulty s)
      in if difficulty = 0 then True
         else pow_loop (sha256 E (commitment_hash @ be_bytes nonce)) difficulty)"

section \<open>Partial disclosure\<close>

definition reveal_partial ::
    "env \<Rightarrow> nat \<Rightarrow> bytes \<Rightarrow> bytes \<Rightarrow> registry \<Rightarrow> (bool \<times> registry) rout" where
  "reveal_partial E ip_id partial_hash blinding_factor s =
     bindE (require_ip_exists s ip_id) (\<lambda>record.
     bindE (require_auth E (ir_owner record)) (\<lambda>_.
     let computed = sha256 E (partial_hash @ blinding_factor) in
     if computed \<noteq> ir_commitment_hash record then Inr (False, s) else
     let s = bump (PartialDisclosure ip_id) LEDGER_BUMP
           (s\<lparr>rg_PartialDisclosure := (rg_PartialDisclosure s)(ip_id \<mapsto> partial_hash)\<rparr>)
     in Inr (True, publish [Sym ''partial'', Adr (ir_owner record)]
          [U64 ip_id, Byt partial_hash] s)))"

definition get_partial_disclosure :: "registry \<Rightarrow> nat \<Rightarrow> bytes option" where
  "get_partial_disclosure s ip_id = rg_PartialDisclosure s ip_id"

section \<open>Ownership challenges\<close>

definition issue_ownership_challenge ::
    "env \<Rightarrow> nat \<Rightarrow> address \<Rightarrow> bytes \<Rightarrow> registry \<Rightarrow> (nat \<times> registry) rout" where
  "issue_ownership_challenge E ip_id challenger nonce s =
     bindE (require_auth E challenger) (\<lambda>_.
     bindE (require_ip_exists s ip_id) (\<lambda>_.
     let challenge_id = unwrap_or 1 (rg_NextChallengeId s);
         challenge = \<lparr>oc_challenge_id = challenge_id, oc_ip_id = ip_id,
           oc_challenger = challenger, oc_nonce = nonce, oc_response_hash = None,
           oc_verified = False, oc_timestamp = now E\<rparr>;
         s = bump (OwnershipChallenge challenge_id) LEDGER_BUMP
           (s\<lparr>rg_OwnershipChallenge := (rg_OwnershipChallenge s)(challenge_id \<mapsto> challenge)\<rparr>)
     in bindE (u64 (challenge_id + 1)) (\<lambda>next.
     Inr (challenge_id, bump NextChallengeId LEDGER_BUMP (s\<lparr>rg_NextChallengeId := Some next\<rparr>)))))"

definition respond_to_ownership_challenge ::
    "env \<Rightarrow> nat \<Rightarrow> bytes \<Rightarrow> registry \<Rightarrow> registry rout" where
  "respond_to_ownership_challenge E challenge_id response_hash s =
     bindE (ok_or (Contract IpNotFound) (rg_OwnershipChallenge s challenge_id)) (\<lambda>challenge.
     bindE (require_ip_exists s (oc_ip_id challenge)) (\<lambda>record.
     bindE (require_auth E (ir_owner record)) (\<lambda>_.
     let challenge = challenge\<lparr>oc_response_hash := Some response_hash\<rparr>
     in Inr (bump (OwnershipChallenge challenge_id) LEDGER_BUMP
          (s\<lparr>rg_OwnershipChallenge :=
               (rg_OwnershipChallenge s)(challenge_id \<mapsto> challenge)\<rparr>)))))"

definition verify_ownership_challenge ::
    "env \<Rightarrow> nat \<Rightarrow> registry \<Rightarrow> (bool \<times> registry) rout" where
  "verify_ownership_challenge E challenge_id s =
     bindE (ok_or (Contract IpNotFound) (rg_OwnershipChallenge s challenge_id)) (\<lambda>challenge.
     case oc_response_hash challenge of
       None \<Rightarrow> Inr (False, s)
     | Some response_hash \<Rightarrow>
         bindE (require_ip_exists s (oc_ip_id challenge)) (\<lambda>record.
         let expected = sha256 E (ir_commitment_hash record @ oc_nonce challenge)
         in if response_hash = expected
            then let challenge = challenge\<lparr>oc_verified := True\<rparr>
                 in Inr (True, bump (OwnershipChallenge challenge_id) LEDGER_BUMP
                      (s\<lparr>rg_OwnershipChallenge :=
                           (rg_OwnershipChallenge s)(challenge_id \<mapsto> challenge)\<rparr>))
            else Inr (False, s)))"

definition get_ownership_challenge :: "registry \<Rightarrow> nat \<Rightarrow> OwnershipChallengeRec option" where
  "get_ownership_challenge s challenge_id = rg_OwnershipChallenge s challenge_id"

section \<open>Key rotation\<close>

definition rotate_commitment_key ::
    "env \<Rightarrow> nat \<Rightarrow> bytes \<Rightarrow> bytes \<Rightarrow> bytes \<Rightarrow> registry \<Rightarrow> registry rout" where
  "rotate_commitment_key E ip_id new_commitment_hash old_secret old_blinding_factor s =
     bindE (require_ip_exists s ip_id) (\<lambda>record.
     bindE (require_auth E (ir_owner record)) (\<lambda>_.
     bindE (require_not_revoked record) (\<lambda>_.
     if sha256 E (old_secret @ old_blinding_factor) \<noteq> ir_commitment_hash record
     then Inl (Contract Unauthorized) else
     bindE (require_non_zero_commitment new_commitment_hash) (\<lambda>_.
     bindE (require_unique_commitment s new_commitment_hash) (\<lambda>_.
     let history = unwrap_or [] (rg_EncryptionKeyRotation s ip_id) @ [ir_commitment_hash record];
         s = bump (EncryptionKeyRotation ip_id) LEDGER_BUMP
           (s\<lparr>rg_EncryptionKeyRotation := (rg_EncryptionKeyRotation s)(ip_id \<mapsto> history)\<rparr>);
         s = s\<lparr>rg_CommitmentOwner :=
               (rg_CommitmentOwner s)(ir_commitment_hash record := None)\<rparr>;
         s = bump (CommitmentOwner new_commitment_hash) LEDGER_BUMP
           (s\<lparr>rg_CommitmentOwner :=
                (rg_CommitmentOwner s)(new_commitment_hash \<mapsto> ir_owner record)\<rparr>);
         record = record\<lparr>ir_commitment_hash := new_commitment_hash\<rparr>;
         s = bump (IpRecord ip_id) LEDGER_BUMP
           (s\<lparr>rg_IpRecord := (rg_IpRecord s)(ip_id \<mapsto> record)\<rparr>)
     in Inr (publish [Sym ''key_rot'', Adr (ir_owner record)]
          [U64 ip_id, Byt new_commitment_hash] s))))))"

definition get_key_rotation_history :: "registry \<Rightarrow> nat \<Rightarrow> bytes list rout" where
  "get_key_rotation_history s ip_id =
     bindE (require_ip_exists s ip_id) (\<lambda>_.
       Inr (unwrap_or [] (rg_EncryptionKeyRotation s ip_id)))"

section \<open>Notary\<close>

definition set_notary_public_key :: "env \<Rightarrow> bytes \<Rightarrow> registry \<Rightarrow> registry rout" where
  "set_notary_public_key E public_key s =
     (let admin = unwrap_or (this_addr E) (rg_Admin s) in
     bindE (require_auth E admin) (\<lambda>_.
     Inr (bump NotaryPublicKey LEDGER_BUMP (s\<lparr>rg_NotaryPublicKey := Some public_key\<rparr>))))"

text \<open>\<open>ed25519_verify\<close> is a host function that traps on a bad signature.\<close>

definition notarize_ip_timestamp :: "env \<Rightarrow> nat \<Rightarrow> bytes \<Rightarrow> registry \<Rightarrow> registry rout" where
  "notarize_ip_timestamp E ip_id notary_signature s =
     bindE (require_ip_exists s ip_id) (\<lambda>record.
     bindE (ok_or (Contract Unauthorized) (rg_NotaryPublicKey s)) (\<lambda>public_key.
     if length notary_signature \<noteq> 64 then Inl (Contract Unauthorized) else
     let message = be_bytes ip_id @ be_bytes (ir_timestamp record) in
     if \<not> ed25519_ok E public_key message notary_signature then Inl HostTrap else
     let record = record\<lparr>ir_notary_signature := Some notary_signature\<rparr>;
         s = bump (IpRecord ip_id) LEDGER_BUMP
           (s\<lparr>rg_IpRecord := (rg_IpRecord s)(ip_id \<mapsto> record)\<rparr>)
     in Inr (publish [Sym ''notary'', Adr (ir_owner record)] [U64 ip_id, U64 (now E)] s)))"

definition get_ip_notary_signature :: "registry \<Rightarrow> nat \<Rightarrow> bytes option rout" where
  "get_ip_notary_signature s ip_id =
     bindE (require_ip_exists s ip_id) (\<lambda>record. Inr (ir_notary_signature record))"

section \<open>Threshold signatures\<close>

definition require_threshold_signatures ::
    "nat \<Rightarrow> nat \<Rightarrow> address list \<Rightarrow> registry \<Rightarrow> registry rout" where
  "require_threshold_signatures ip_id threshold signers s =
     bindE (require_ip_exists s ip_id) (\<lambda>_.
     if threshold = 0 \<or> threshold > length signers then Inl (Contract ThresholdNotMet) else
     let config = \<lparr>th_ip_id = ip_id, th_threshold = threshold, th_total = length signers,
           th_signers = signers\<rparr>;
         s = bump (KThresholdConfig ip_id) LEDGER_BUMP
           (s\<lparr>rg_ThresholdConfig := (rg_ThresholdConfig s)(ip_id \<mapsto> config)\<rparr>)
     in Inr (bump (KThresholdSignatures ip_id) LEDGER_BUMP
          (s\<lparr>rg_ThresholdSignatures := (rg_ThresholdSignatures s)(ip_id \<mapsto> [])\<rparr>)))"

definition get_threshold_config :: "registry \<Rightarrow> nat \<Rightarrow> ThresholdConfig option rout" where
  "get_threshold_config s ip_id =
     bindE (require_ip_exists s ip_id) (\<lambda>_. Inr (rg_ThresholdConfig s ip_id))"

definition add_threshold_signature ::
    "env \<Rightarrow> nat \<Rightarrow> address \<Rightarrow> bytes \<Rightarrow> registry \<Rightarrow> registry rout" where
  "add_threshold_signature E ip_id signer signature_hash s =
     bindE (require_ip_exists s ip_id) (\<lambda>_.
     bindE (ok_or (Contract SignerNotAuthorized) (rg_ThresholdConfig s ip_id)) (\<lambda>config.
     if signer \<notin> set (th_signers config) then Inl (Contract SignerNotAuthorized) else
     let signatures = unwrap_or [] (rg_ThresholdSignatures s ip_id) in
     if signer \<in> ts_signer ` set signatures then Inl (Contract AlreadySigned) else
     let signatures = signatures @ [\<lparr>ts_signer = signer, ts_signature_hash = signature_hash,
           ts_timestamp = now E\<rparr>]
     in Inr (bump (KThresholdSignatures ip_id) LEDGER_BUMP
          (s\<lparr>rg_ThresholdSignatures := (rg_ThresholdSignatures s)(ip_id \<mapsto> signatures)\<rparr>))))"

definition get_threshold_signatures :: "registry \<Rightarrow> nat \<Rightarrow> ThresholdSignature list rout" where
  "get_threshold_signatures s ip_id =
     bindE (require_ip_exists s ip_id) (\<lambda>_.
       Inr (unwrap_or [] (rg_ThresholdSignatures s ip_id)))"

definition verify_threshold_signatures :: "registry \<Rightarrow> nat \<Rightarrow> bool rout" where
  "verify_threshold_signatures s ip_id =
     bindE (require_ip_exists s ip_id) (\<lambda>_.
     case rg_ThresholdConfig s ip_id of
       None \<Rightarrow> Inr False
     | Some config \<Rightarrow>
         bindE (get_threshold_signatures s ip_id) (\<lambda>signatures.
         Inr (length signatures \<ge> th_threshold config)))"

section \<open>Batch metadata\<close>

definition set_batch_metadata ::
    "env \<Rightarrow> nat \<Rightarrow> bytes \<Rightarrow> bytes \<Rightarrow> registry \<Rightarrow> registry rout" where
  "set_batch_metadata E ip_id batch_id description s =
     bindE (require_ip_exists s ip_id) (\<lambda>_.
     if length description > MAX_METADATA_BYTES then Inl (Contract BatchMetadataTooLarge) else
     let record = \<lparr>bm_ip_id = ip_id, bm_batch_id = batch_id, bm_description = description,
           bm_timestamp = now E\<rparr>
     in Inr (bump (KBatchMetadata ip_id) LEDGER_BUMP
          (s\<lparr>rg_BatchMetadata := (rg_BatchMetadata s)(ip_id \<mapsto> record)\<rparr>)))"

definition get_batch_metadata :: "registry \<Rightarrow> nat \<Rightarrow> BatchMetadata option rout" where
  "get_batch_metadata s ip_id =
     bindE (require_ip_exists s ip_id) (\<lambda>_. Inr (rg_BatchMetadata s ip_id))"

section \<open>Compression\<close>

definition get_commitment_compression :: "registry \<Rightarrow> nat \<Rightarrow> CompressionAlgo rout" where
  "get_commitment_compression s ip_id =
     bindE (require_ip_exists s ip_id) (\<lambda>_.
       Inr (unwrap_or Truncate16 (map_option cs_algorithm (rg_CompressionSelection s ip_id))))"

definition set_commitment_compression ::
    "nat \<Rightarrow> CompressionAlgo \<Rightarrow> registry \<Rightarrow> registry rout" where
  "set_commitment_compression ip_id algorithm s =
     bindE (require_ip_exists s ip_id) (\<lambda>_.
     let selection = \<lparr>cs_ip_id = ip_id, cs_algorithm = algorithm\<rparr>
     in Inr (bump (KCompressionSelection ip_id) LEDGER_BUMP
          (s\<lparr>rg_CompressionSelection := (rg_CompressionSelection s)(ip_id \<mapsto> selection)\<rparr>)))"

definition get_compressed_bytes :: "registry \<Rightarrow> nat \<Rightarrow> bytes rout" where
  "get_compressed_bytes s ip_id =
     bindE (require_ip_exists s ip_id) (\<lambda>_.
     bindE (require_ip_exists s ip_id) (\<lambda>record.
     bindE (get_commitment_compression s ip_id) (\<lambda>algo.
     let hash = ir_commitment_hash record in
     case algo of
       CompressNone \<Rightarrow> Inr hash
     | Truncate16 \<Rightarrow> Inr (take 16 hash)
     | Xor8 \<Rightarrow> Inr (replicate 8 (foldl (XOR) 0 hash)))))"

section \<open>Encrypted commitments\<close>

definition encrypt_commitment ::
    "env \<Rightarrow> nat \<Rightarrow> bytes \<Rightarrow> bytes \<Rightarrow> registry \<Rightarrow> registry rout" where
  "encrypt_commitment E ip_id encrypted_hash key_hint s =
     bindE (require_ip_exists s ip_id) (\<lambda>_.
     if length encrypted_hash > 256 then Inl (Contract EncryptedDataTooLarge) else
     let record = \<lparr>ec_ip_id = ip_id, ec_encrypted_hash = encrypted_hash, ec_key_hint = key_hint,
           ec_timestamp = now E\<rparr>
     in Inr (bump (KEncryptedCommitment ip_id) LEDGER_BUMP
          (s\<lparr>rg_EncryptedCommitment := (rg_EncryptedCommitment s)(ip_id \<mapsto> record)\<rparr>)))"

definition get_encrypted_commitment :: "registry \<Rightarrow> nat \<Rightarrow> EncryptedCommitmentRecord option rout" where
  "get_encrypted_commitment s ip_id =
     bindE (require_ip_exists s ip_id) (\<lambda>_. Inr (rg_EncryptedCommitment s ip_id))"

end
