(* ===== verification/Registry_Disputes.thy ===== *)
theory Registry_Disputes
  imports Registry_Proofs
begin

text \<open>
  Disputes over a record, stakes, the reputation of owners and the arbitration of disputes by vote.
\<close>

definition dispute_admin :: "env \<Rightarrow> registry \<Rightarrow> address rout" where
  "dispute_admin E s =
     bindE (ok_or (Contract Unauthorized) (rg_Admin s)) (\<lambda>admin.
     bindE (require_auth E admin) (\<lambda>_. Inr admin))"

lemma dispute_admin_Inr [simp]:
  "dispute_admin E s = Inr a \<longleftrightarrow> rg_Admin s = Some a \<and> authorized E a"
  by (auto simp: dispute_admin_def bindE_Inr_iff)

section \<open>Disputes\<close>

definition initiate_dispute ::
    "env \<Rightarrow> nat \<Rightarrow> address \<Rightarrow> bytes \<Rightarrow> registry \<Rightarrow> (nat \<times> registry) rout" where
  "initiate_dispute E ip_id challenger evidence_hash s =
     bindE (require_auth E challenger) (\<lambda>_.
     bindE (require_ip_exists s ip_id) (\<lambda>_.
     let dispute_id = unwrap_or 1 (rg_NextDisputeId s);
         record = \<lparr>di_dispute_id = dispute_id, di_ip_id = ip_id, di_challenger = challenger,
           di_evidence_hash = evidence_hash, di_timestamp = now E, di_resolved = False,
           di_winner = None\<rparr>;
         s = bump (IpDisputes dispute_id) LEDGER_BUMP
           (s\<lparr>rg_IpDisputes := (rg_IpDisputes s)(dispute_id \<mapsto> record)\<rparr>)
     in bindE (u64 (dispute_id + 1)) (\<lambda>next.
     let s = bump NextDisputeId LEDGER_BUMP (s\<lparr>rg_NextDisputeId := Some next\<rparr>)
     in Inr (dispute_id,
          publish [Sym ''dispute'', Adr challenger] [U64 dispute_id, U64 ip_id] s))))"

definition submit_dispute_evidence ::
    "env \<Rightarrow> nat \<Rightarrow> address \<Rightarrow> bytes \<Rightarrow> registry \<Rightarrow> registry rout" where
  "submit_dispute_evidence E dispute_id submitter evidence_hash s =
     bindE (require_auth E submitter) (\<lambda>_.
     bindE (ok_or (Contract DisputeNotFound) (rg_IpDisputes s dispute_id)) (\<lambda>record.
     if di_resolved record then Inl (Contract DisputeAlreadyResolved) else
     bindE (require_ip_exists s (di_ip_id record)) (\<lambda>ip_record.
     if submitter \<noteq> ir_owner ip_record \<and> submitter \<noteq> di_challenger record
     then Inl (Contract Unauthorized) else
     let record = record\<lparr>di_evidence_hash := evidence_hash\<rparr>;
         s = bump (IpDisputes dispute_id) LEDGER_BUMP
           (s\<lparr>rg_IpDisputes := (rg_IpDisputes s)(dispute_id \<mapsto> record)\<rparr>)
     in Inr (publish [Sym ''disp_ev'', Adr submitter] [U64 dispute_id] s))))"

definition resolve_dispute :: "env \<Rightarrow> nat \<Rightarrow> address \<Rightarrow> registry \<Rightarrow> registry rout" where
  "resolve_dispute E dispute_id winner s =
     bindE (dispute_admin E s) (\<lambda>_.
     bindE (ok_or (Contract DisputeNotFound) (rg_IpDisputes s dispute_id)) (\<lambda>record.
     if di_resolved record then Inl (Contract DisputeAlreadyResolved) else
     let record = record\<lparr>di_resolved := True, di_winner := Some winner\<rparr>;
         s = bump (IpDisputes dispute_id) LEDGER_BUMP
           (s\<lparr>rg_IpDisputes := (rg_IpDisputes s)(dispute_id \<mapsto> record)\<rparr>)
     in Inr (publish [Sym ''disp_res'', Adr winner]
          [U64 dispute_id, U64 (di_ip_id record)] s)))"

definition get_dispute :: "registry \<Rightarrow> nat \<Rightarrow> DisputeRecord rout" where
  "get_dispute s dispute_id = ok_or (Contract DisputeNotFound) (rg_IpDisputes s dispute_id)"

section \<open>Stakes and reputation\<close>

definition stake_commitment :: "env \<Rightarrow> nat \<Rightarrow> int \<Rightarrow> registry \<Rightarrow> registry rout" where
  "stake_commitment E ip_id amount s =
     bindE (require_ip_exists s ip_id) (\<lambda>record.
     bindE (require_auth E (ir_owner record)) (\<lambda>_.
     if rg_IpStake s ip_id \<noteq> None then Inl (Contract AlreadyStaked) else
     let stake = \<lparr>sk_ip_id = ip_id, sk_owner = ir_owner record, sk_amount = amount,
           sk_slashed = False\<rparr>;
         s = bump (IpStake ip_id) LEDGER_BUMP
           (s\<lparr>rg_IpStake := (rg_IpStake s)(ip_id \<mapsto> stake)\<rparr>)
     in Inr (publish [Sym ''staked'', Adr (ir_owner record)] [U64 ip_id, I128 amount] s)))"

definition default_reputation :: "address \<Rightarrow> ReputationRecord" where
  "default_reputation owner =
     \<lparr>re_owner = owner, re_score = 0, re_commitments = 0, re_disputes_lost = 0\<rparr>"

definition slash_stake :: "env \<Rightarrow> nat \<Rightarrow> registry \<Rightarrow> registry rout" where
  "slash_stake E ip_id s =
     bindE (dispute_admin E s) (\<lambda>_.
     bindE (ok_or (Contract StakeNotFound) (rg_IpStake s ip_id)) (\<lambda>stake.
     if sk_slashed stake then Inl (Contract StakeAlreadySlashed) else
     let stake = stake\<lparr>sk_slashed := True\<rparr>;
         s = bump (IpStake ip_id) LEDGER_BUMP
           (s\<lparr>rg_IpStake := (rg_IpStake s)(ip_id \<mapsto> stake)\<rparr>);
         owner = sk_owner stake;
         rep = unwrap_or (default_reputation owner) (rg_OwnerReputation s owner);
         rep = rep\<lparr>re_score := sat_i64 (re_score rep - 10)\<rparr>
     in bindE (u64 (re_disputes_lost rep + 1)) (\<lambda>lost.
     let rep = rep\<lparr>re_disputes_lost := lost\<rparr>;
         s = bump (OwnerReputation owner) LEDGER_BUMP
           (s\<lparr>rg_OwnerReputation := (rg_OwnerReputation s)(owner \<mapsto> rep)\<rparr>)
     in Inr (publish [Sym ''slashed'', Adr owner] [U64 ip_id] s))))"

definition unstake :: "env \<Rightarrow> nat \<Rightarrow> registry \<Rightarrow> registry rout" where
  "unstake E ip_id s =
     bindE (ok_or (Contract StakeNotFound) (rg_IpStake s ip_id)) (\<lambda>stake.
     bindE (require_auth E (sk_owner stake)) (\<lambda>_.
     if sk_slashed stake then Inl (Contract StakeAlreadySlashed) else
     let s = s\<lparr>rg_IpStake := (rg_IpStake s)(ip_id := None)\<rparr>
     in Inr (publish [Sym ''unstaked'', Adr (sk_owner stake)] [U64 ip_id] s)))"

definition get_stake :: "registry \<Rightarrow> nat \<Rightarrow> StakeRecord option" where
  "get_stake s ip_id = rg_IpStake s ip_id"

definition get_reputation :: "registry \<Rightarrow> address \<Rightarrow> ReputationRecord" where
  "get_reputation s owner = unwrap_or (default_reputation owner) (rg_OwnerReputation s owner)"

definition update_reputation :: "env \<Rightarrow> address \<Rightarrow> int \<Rightarrow> registry \<Rightarrow> registry rout" where
  "update_reputation E owner score_delta s =
     bindE (dispute_admin E s) (\<lambda>_.
     let rep = unwrap_or (default_reputation owner) (rg_OwnerReputation s owner);
         rep = rep\<lparr>re_score := sat_i64 (re_score rep + score_delta)\<rparr>
     in Inr (bump (OwnerReputation owner) LEDGER_BUMP
          (s\<lparr>rg_OwnerReputation := (rg_OwnerReputation s)(owner \<mapsto> rep)\<rparr>)))"

section \<open>Arbitration\<close>

definition nominate_arbitrator :: "env \<Rightarrow> address \<Rightarrow> registry \<Rightarrow> registry rout" where
  "nominate_arbitrator E arbitrator s =
     bindE (dispute_admin E s) (\<lambda>admin.
     let pool = unwrap_or [] (rg_ArbitratorPool s) in
     if arbitrator \<in> set pool then Inr s else
     let s = bump ArbitratorPool LEDGER_BUMP
           (s\<lparr>rg_ArbitratorPool := Some (pool @ [arbitrator])\<rparr>)
     in Inr (publish [Sym ''arb_nom'', Adr admin] [Adr arbitrator] s))"

definition open_arbitration :: "env \<Rightarrow> nat \<Rightarrow> registry \<Rightarrow> (nat \<times> registry) rout" where
  "open_arbitration E dispute_id s =
     bindE (dispute_admin E s) (\<lambda>_.
     bindE (ok_or (Contract DisputeNotFound) (rg_IpDisputes s dispute_id)) (\<lambda>_.
     let arb_id = unwrap_or 1 (rg_NextArbitrationId s);
         pool = unwrap_or [] (rg_ArbitratorPool s);
         case_record = \<lparr>ar_arbitration_id = arb_id, ar_dispute_id = dispute_id,
           ar_arbitrators = pool, ar_votes_owner = 0, ar_votes_challenger = 0,
           ar_finalized = False, ar_winner = None\<rparr>;
         s = bump (ArbitrationCase arb_id) LEDGER_BUMP
           (s\<lparr>rg_ArbitrationCase := (rg_ArbitrationCase s)(arb_id \<mapsto> case_record)\<rparr>)
     in bindE (u64 (arb_id + 1)) (\<lambda>next.
     Inr (arb_id, bump NextArbitrationId LEDGER_BUMP (s\<lparr>rg_NextArbitrationId := Some next\<rparr>)))))"

definition vote_on_dispute ::
    "env \<Rightarrow> nat \<Rightarrow> address \<Rightarrow> bool \<Rightarrow> registry \<Rightarrow> registry rout" where
  "vote_on_dispute E arbitration_id voter vote_for_owner s =
     bindE (require_auth E voter) (\<lambda>_.
     bindE (ok_or (Contract ArbitrationNotFound) (rg_ArbitrationCase s arbitration_id)) (\<lambda>c.
     if ar_finalized c then Inl (Contract ArbitrationAlreadyFinalized) else
     if voter \<notin> set (ar_arbitrators c) then Inl (Contract NotAnArbitrator) else
     bindE (if vote_for_owner
            then bindE (u32 (ar_votes_owner c + 1)) (\<lambda>n. Inr (c\<lparr>ar_votes_owner := n\<rparr>))
            else bindE (u32 (ar_votes_challenger c + 1)) (\<lambda>n. Inr (c\<lparr>ar_votes_challenger := n\<rparr>)))
       (\<lambda>c.
     let s = bump (ArbitrationCase arbitration_id) LEDGER_BUMP
           (s\<lparr>rg_ArbitrationCase := (rg_ArbitrationCase s)(arbitration_id \<mapsto> c)\<rparr>)
     in Inr (publish [Sym ''arb_vote'', Adr voter]
          [U64 arbitration_id, Flag vote_for_owner] s))))"

definition finalize_arbitration :: "env \<Rightarrow> nat \<Rightarrow> registry \<Rightarrow> registry rout" where
  "finalize_arbitration E arbitration_id s =
     bindE (dispute_admin E s) (\<lambda>_.
     bindE (ok_or (Contract ArbitrationNotFound) (rg_ArbitrationCase s arbitration_id)) (\<lambda>c.
     if ar_finalized c then Inl (Contract ArbitrationAlreadyFinalized) else
     bindE (ok_or (Contract DisputeNotFound) (rg_IpDisputes s (ar_dispute_id c))) (\<lambda>dispute.
     bindE (require_ip_exists s (di_ip_id dispute)) (\<lambda>ip_record.
     let winner = (if ar_votes_challenger c > ar_votes_owner c
           then di_challenger dispute else ir_owner ip_record);
         c = c\<lparr>ar_finalized := True, ar_winner := Some winner\<rparr>;
         dispute = dispute\<lparr>di_resolved := True, di_winner := Some winner\<rparr>;
         s = bump (ArbitrationCase arbitration_id) LEDGER_BUMP
           (s\<lparr>rg_ArbitrationCase := (rg_ArbitrationCase s)(arbitration_id \<mapsto> c)\<rparr>);
         s = bump (IpDisputes (ar_dispute_id c)) LEDGER_BUMP
           (s\<lparr>rg_IpDisputes := (rg_IpDisputes s)(ar_dispute_id c \<mapsto> dispute)\<rparr>)
     in Inr (publish [Sym ''arb_fin'', Adr winner] [U64 arbitration_id] s)))))"

definition get_arbitration :: "registry \<Rightarrow> nat \<Rightarrow> ArbitrationRecord rout" where
  "get_arbitration s arbitration_id =
     ok_or (Contract ArbitrationNotFound) (rg_ArbitrationCase s arbitration_id)"

end
