(* ===== verification/Registry_Delegation.thy ===== *)
theory Registry_Delegation
  imports Registry_Disputes
begin

text \<open>
  Delegation of the authority to commit. The depth of a delegate is stored under its own address,
  whoever the root owner is; the search for a delegate recurses through the lists of the delegates up
  to \<open>MAX_DELEGATION_DEPTH\<close> levels.
\<close>

section \<open>Operations\<close>

definition delegate_commitment_authority ::
    "env \<Rightarrow> address \<Rightarrow> address \<Rightarrow> address \<Rightarrow> registry \<Rightarrow> registry rout" where
  "delegate_commitment_authority E root_owner delegator delegate_address s =
     bindE (require_auth E delegator) (\<lambda>_.
     bindE (if delegator = root_owner then Inr 0
            else bindE (ok_or (Contract Unauthorized) (rg_DelegateDepth s delegator))
              (\<lambda>d. u32 (d + 1))) (\<lambda>new_depth.
     if new_depth \<ge> MAX_DELEGATION_DEPTH then Inl (Contract Unauthorized) else
     let delegates = unwrap_or [] (rg_Delegates s root_owner) in
     if delegate_address \<in> dl_delegate ` set delegates then Inr s else
     let delegates = delegates @ [\<lparr>dl_delegate = delegate_address, dl_depth = new_depth\<rparr>];
         s = bump (Delegates root_owner) LEDGER_BUMP
           (s\<lparr>rg_Delegates := (rg_Delegates s)(root_owner \<mapsto> delegates)\<rparr>);
         s = bump (DelegateDepth delegate_address) LEDGER_BUMP
           (s\<lparr>rg_DelegateDepth := (rg_DelegateDepth s)(delegate_address \<mapsto> new_depth)\<rparr>)
     in Inr (publish [Sym ''delegated'', Adr root_owner]
          [Adr delegate_address, U32 new_depth] s)))"

definition revoke_delegation :: "env \<Rightarrow> address \<Rightarrow> address \<Rightarrow> registry \<Rightarrow> registry rout" where
  "revoke_delegation E owner delegate_address s =
     bindE (require_auth E owner) (\<lambda>_.
     let updated = filter (\<lambda>rec. dl_delegate rec \<noteq> delegate_address)
           (unwrap_or [] (rg_Delegates s owner));
         s = bump (Delegates owner) LEDGER_BUMP
           (s\<lparr>rg_Delegates := (rg_Delegates s)(owner \<mapsto> updated)\<rparr>);
         s = s\<lparr>rg_DelegateDepth := (rg_DelegateDepth s)(delegate_address := None)\<rparr>
     in Inr (publish [Sym ''revoke'', Adr owner] [Adr delegate_address] s))"

text \<open>
  \<open>is_delegate_in_chain\<close> counts its depth up to the bound; here the argument is the number of levels
  that are left, \<open>MAX_DELEGATION_DEPTH - depth\<close>, so the recursion is structural.
\<close>

fun is_delegate_in_chain :: "registry \<Rightarrow> address \<Rightarrow> address \<Rightarrow> nat \<Rightarrow> bool" where
  "is_delegate_in_chain s root candidate 0 = False"
| "is_delegate_in_chain s root candidate (Suc left) =
     list_ex (\<lambda>rec. dl_delegate rec = candidate \<or>
         is_delegate_in_chain s (dl_delegate rec) candidate left)
       (unwrap_or [] (rg_Delegates s root))"

definition is_delegate :: "registry \<Rightarrow> address \<Rightarrow> address \<Rightarrow> bool" where
  "is_delegate s owner delegate_address =
     is_delegate_in_chain s owner delegate_address MAX_DELEGATION_DEPTH"

end
