(* ===== verification/Registry_Frames.thy ===== *)
theory Registry_Frames
  imports Registry_Delegation
begin

text \<open>
  What each operation leaves alone. The storage falls into five groups of fields: the records and
  their indexes, the proofs (challenges and threshold signatures), the disputes, the delegations, and
  the rest. An operation changes one group; the lemmas here say so once, and the invariants of a group
  need to look at its own operations only.
\<close>

section \<open>Groups of fields\<close>

definition core_view where
  "core_view s = (rg_IpRecord s, rg_OwnerIps s, rg_NextId s, rg_CommitmentOwner s,
     rg_AnonymousOwner s, rg_IpVersions s, rg_IpVersionChain s, rg_CommitmentHashes s,
     rg_IpCommitmentChecksum s, rg_IpAuditTrail s, rg_Admin s, rg_EncryptionKeyRotation s)"

definition proof_view where
  "proof_view s = (rg_OwnershipChallenge s, rg_NextChallengeId s, rg_ThresholdConfig s,
     rg_ThresholdSignatures s)"

definition dispute_view where
  "dispute_view s = (rg_IpDisputes s, rg_NextDisputeId s, rg_IpStake s, rg_OwnerReputation s,
     rg_ArbitrationCase s, rg_NextArbitrationId s, rg_ArbitratorPool s)"

definition delegation_view where
  "delegation_view s = (rg_Delegates s, rg_DelegateDepth s)"

lemmas view_defs = core_view_def proof_view_def dispute_view_def delegation_view_def

definition keeps_core :: "registry \<Rightarrow> registry \<Rightarrow> bool" where
  "keeps_core s t \<longleftrightarrow> core_view t = core_view s"

definition keeps_proofs :: "registry \<Rightarrow> registry \<Rightarrow> bool" where
  "keeps_proofs s t \<longleftrightarrow> proof_view t = proof_view s"

definition keeps_disputes :: "registry \<Rightarrow> registry \<Rightarrow> bool" where
  "keeps_disputes s t \<longleftrightarrow> dispute_view t = dispute_view s"

definition keeps_delegations :: "registry \<Rightarrow> registry \<Rightarrow> bool" where
  "keeps_delegations s t \<longleftrightarrow> delegation_view t = delegation_view s"

lemmas keeps_defs = keeps_core_def keeps_proofs_def keeps_disputes_def keeps_delegations_def

lemma keeps_refl [simp]:
  "keeps_core s s" "keeps_proofs s s" "keeps_disputes s s" "keeps_delegations s s"
  by (simp_all add: keeps_defs)

lemma keeps_trans:
  "keeps_proofs s t \<Longrightarrow> keeps_proofs t u \<Longrightarrow> keeps_proofs s u"
  "keeps_disputes s t \<Longrightarrow> keeps_disputes t u \<Longrightarrow> keeps_disputes s u"
  "keeps_delegations s t \<Longrightarrow> keeps_delegations t u \<Longrightarrow> keeps_delegations s u"
  by (simp_all add: keeps_defs)

abbreviation keeps_all :: "registry \<Rightarrow> registry \<Rightarrow> bool" where
  "keeps_all s t \<equiv> keeps_core s t \<and> keeps_proofs s t \<and> keeps_disputes s t \<and> keeps_delegations s t"

text \<open>The bookkeeping of the commit operations touches the core group only.\<close>

lemma bookkeeping_views [simp]:
  "proof_view (init_admin E s) = proof_view s"
  "dispute_view (init_admin E s) = dispute_view s"
  "delegation_view (init_admin E s) = delegation_view s"
  "proof_view (append_audit_entry E i w a s) = proof_view s"
  "dispute_view (append_audit_entry E i w a s) = dispute_view s"
  "delegation_view (append_audit_entry E i w a s) = delegation_view s"
  "proof_view (assign_to_shard i h s) = proof_view s"
  "dispute_view (assign_to_shard i h s) = dispute_view s"
  "delegation_view (assign_to_shard i h s) = delegation_view s"
  "proof_view (store_compressed_commitment i h s) = proof_view s"
  "dispute_view (store_compressed_commitment i h s) = dispute_view s"
  "delegation_view (store_compressed_commitment i h s) = delegation_view s"
  "proof_view (update_commitment_checksum E s) = proof_view s"
  "dispute_view (update_commitment_checksum E s) = dispute_view s"
  "delegation_view (update_commitment_checksum E s) = delegation_view s"
  by (auto simp: init_admin_def append_audit_entry_def assign_to_shard_def
      store_compressed_commitment_def update_commitment_checksum_def view_defs state_simps Let_def
      split: option.splits)

lemma view_updates [simp]:
  "proof_view (bump k n s) = proof_view s" "proof_view (publish xs ys s) = proof_view s"
  "dispute_view (bump k n s) = dispute_view s" "dispute_view (publish xs ys s) = dispute_view s"
  "delegation_view (bump k n s) = delegation_view s"
  "delegation_view (publish xs ys s) = delegation_view s"
  by (simp_all add: view_defs state_simps)

lemma view_record_updates [simp]:
  "proof_view (s\<lparr>rg_IpRecord := r\<rparr>) = proof_view s"
  "proof_view (s\<lparr>rg_IpPowDifficulty := d\<rparr>) = proof_view s"
  "proof_view (s\<lparr>rg_OwnerIps := x\<rparr>) = proof_view s"
  "proof_view (s\<lparr>rg_CommitmentOwner := c\<rparr>) = proof_view s"
  "proof_view (s\<lparr>rg_AnonymousOwner := ao\<rparr>) = proof_view s"
  "proof_view (s\<lparr>rg_NextId := n\<rparr>) = proof_view s"
  "proof_view (s\<lparr>rg_IpVersions := vs\<rparr>) = proof_view s"
  "proof_view (s\<lparr>rg_IpVersionChain := vc\<rparr>) = proof_view s"
  "proof_view (s\<lparr>rg_EncryptionKeyRotation := k\<rparr>) = proof_view s"
  "dispute_view (s\<lparr>rg_IpRecord := r\<rparr>) = dispute_view s"
  "dispute_view (s\<lparr>rg_IpPowDifficulty := d\<rparr>) = dispute_view s"
  "dispute_view (s\<lparr>rg_OwnerIps := x\<rparr>) = dispute_view s"
  "dispute_view (s\<lparr>rg_CommitmentOwner := c\<rparr>) = dispute_view s"
  "dispute_view (s\<lparr>rg_AnonymousOwner := ao\<rparr>) = dispute_view s"
  "dispute_view (s\<lparr>rg_NextId := n\<rparr>) = dispute_view s"
  "dispute_view (s\<lparr>rg_IpVersions := vs\<rparr>) = dispute_view s"
  "dispute_view (s\<lparr>rg_IpVersionChain := vc\<rparr>) = dispute_view s"
  "dispute_view (s\<lparr>rg_EncryptionKeyRotation := k\<rparr>) = dispute_view s"
  "delegation_view (s\<lparr>rg_IpRecord := r\<rparr>) = delegation_view s"
  "delegation_view (s\<lparr>rg_IpPowDifficulty := d\<rparr>) = delegation_view s"
  "delegation_view (s\<lparr>rg_OwnerIps := x\<rparr>) = delegation_view s"
  "delegation_view (s\<lparr>rg_CommitmentOwner := c\<rparr>) = delegation_view s"
  "delegation_view (s\<lparr>rg_AnonymousOwner := ao\<rparr>) = delegation_view s"
  "delegation_view (s\<lparr>rg_NextId := n\<rparr>) = delegation_view s"
  "delegation_view (s\<lparr>rg_IpVersions := vs\<rparr>) = delegation_view s"
  "delegation_view (s\<lparr>rg_IpVersionChain := vc\<rparr>) = delegation_view s"
  "delegation_view (s\<lparr>rg_EncryptionKeyRotation := k\<rparr>) = delegation_view s"
  by (simp_all add: view_defs)

section \<open>Operations outside the groups\<close>

lemma upgrade_frame: "upgrade E h s = Inr t \<Longrightarrow>
    keeps_all s t"
  by (auto simp: upgrade_def state_simps keeps_defs view_defs Let_def split: if_splits option.splits)

lemma grant_license_frame: "grant_license E i a h s = Inr t \<Longrightarrow>
    keeps_all s t"
  by (auto simp: grant_license_def state_simps keeps_defs view_defs Let_def split: if_splits option.splits)

lemma revoke_license_frame: "revoke_license E i a s = Inr t \<Longrightarrow>
    keeps_all s t"
  by (auto simp: revoke_license_def state_simps keeps_defs view_defs Let_def split: if_splits option.splits)

lemma set_ip_suggested_price_frame: "set_ip_suggested_price E i p s = Inr t \<Longrightarrow>
    keeps_all s t"
  by (auto simp: set_ip_suggested_price_def state_simps keeps_defs view_defs Let_def split: if_splits option.splits)

lemma grant_ip_access_frame: "grant_ip_access E i a l s = Inr t \<Longrightarrow>
    keeps_all s t"
  by (auto simp: grant_ip_access_def state_simps keeps_defs view_defs Let_def split: if_splits option.splits)

lemma revoke_ip_access_frame: "revoke_ip_access E i a s = Inr t \<Longrightarrow>
    keeps_all s t"
  by (auto simp: revoke_ip_access_def state_simps keeps_defs view_defs Let_def split: if_splits option.splits)

lemma assign_ip_to_category_frame: "assign_ip_to_category E i c s = Inr t \<Longrightarrow>
    keeps_all s t"
  by (auto simp: assign_ip_to_category_def state_simps keeps_defs view_defs Let_def split: if_splits option.splits)

lemma renew_ip_frame: "renew_ip E i s = Inr t \<Longrightarrow>
    keeps_all s t"
  by (auto simp: renew_ip_def state_simps keeps_defs view_defs Let_def split: if_splits option.splits)

lemma check_expiration_warning_frame: "check_expiration_warning E i w s = Inr (x, t) \<Longrightarrow>
    keeps_all s t"
  by (auto simp: check_expiration_warning_def state_simps keeps_defs view_defs Let_def split: if_splits option.splits)

lemma reveal_partial_frame: "reveal_partial E i p b s = Inr (x, t) \<Longrightarrow>
    keeps_all s t"
  by (auto simp: reveal_partial_def state_simps keeps_defs view_defs Let_def split: if_splits option.splits)

lemma set_notary_public_key_frame: "set_notary_public_key E k s = Inr t \<Longrightarrow>
    keeps_all s t"
  by (auto simp: set_notary_public_key_def state_simps keeps_defs view_defs Let_def split: if_splits option.splits)

lemma set_batch_metadata_frame: "set_batch_metadata E i b d s = Inr t \<Longrightarrow>
    keeps_all s t"
  by (auto simp: set_batch_metadata_def state_simps keeps_defs view_defs Let_def split: if_splits option.splits)

lemma set_commitment_compression_frame: "set_commitment_compression i al s = Inr t \<Longrightarrow>
    keeps_all s t"
  by (auto simp: set_commitment_compression_def state_simps keeps_defs view_defs Let_def split: if_splits option.splits)

lemma encrypt_commitment_frame: "encrypt_commitment E i h k s = Inr t \<Longrightarrow>
    keeps_all s t"
  by (auto simp: encrypt_commitment_def state_simps keeps_defs view_defs Let_def split: if_splits option.splits)

lemmas misc_frames =
  upgrade_frame grant_license_frame revoke_license_frame
  set_ip_suggested_price_frame grant_ip_access_frame revoke_ip_access_frame
  assign_ip_to_category_frame renew_ip_frame check_expiration_warning_frame
  reveal_partial_frame set_notary_public_key_frame set_batch_metadata_frame
  set_commitment_compression_frame encrypt_commitment_frame

section \<open>Challenges and threshold signatures\<close>

lemma issue_ownership_challenge_frame: "issue_ownership_challenge E i a n s = Inr (x, t) \<Longrightarrow>
    keeps_core s t \<and> keeps_disputes s t \<and> keeps_delegations s t"
  by (auto simp: issue_ownership_challenge_def state_simps keeps_defs view_defs Let_def split: if_splits option.splits)

lemma respond_to_ownership_challenge_frame: "respond_to_ownership_challenge E c h s = Inr t \<Longrightarrow>
    keeps_core s t \<and> keeps_disputes s t \<and> keeps_delegations s t"
  by (auto simp: respond_to_ownership_challenge_def state_simps keeps_defs view_defs Let_def split: if_splits option.splits)

lemma verify_ownership_challenge_frame: "verify_ownership_challenge E c s = Inr (x, t) \<Longrightarrow>
    keeps_core s t \<and> keeps_disputes s t \<and> keeps_delegations s t"
  by (auto simp: verify_ownership_challenge_def state_simps keeps_defs view_defs Let_def split: if_splits option.splits)

lemma require_threshold_signatures_frame: "require_threshold_signatures i n as s = Inr t \<Longrightarrow>
    keeps_core s t \<and> keeps_disputes s t \<and> keeps_delegations s t"
  by (auto simp: require_threshold_signatures_def state_simps keeps_defs view_defs Let_def split: if_splits option.splits)

lemma add_threshold_signature_frame: "add_threshold_signature E i a h s = Inr t \<Longrightarrow>
    keeps_core s t \<and> keeps_disputes s t \<and> keeps_delegations s t"
  by (auto simp: add_threshold_signature_def state_simps keeps_defs view_defs Let_def split: if_splits option.splits)

lemmas proof_frames =
  issue_ownership_challenge_frame respond_to_ownership_challenge_frame verify_ownership_challenge_frame
  require_threshold_signatures_frame add_threshold_signature_frame

section \<open>Disputes\<close>

lemma initiate_dispute_frame: "initiate_dispute E i a h s = Inr (x, t) \<Longrightarrow>
    keeps_core s t \<and> keeps_proofs s t \<and> keeps_delegations s t"
  by (auto simp: initiate_dispute_def state_simps keeps_defs view_defs Let_def split: if_splits option.splits)

lemma submit_dispute_evidence_frame: "submit_dispute_evidence E d a h s = Inr t \<Longrightarrow>
    keeps_core s t \<and> keeps_proofs s t \<and> keeps_delegations s t"
  by (auto simp: submit_dispute_evidence_def state_simps keeps_defs view_defs Let_def split: if_splits option.splits)

lemma resolve_dispute_frame: "resolve_dispute E d a s = Inr t \<Longrightarrow>
    keeps_core s t \<and> keeps_proofs s t \<and> keeps_delegations s t"
  by (auto simp: resolve_dispute_def state_simps keeps_defs view_defs Let_def split: if_splits option.splits)

lemma stake_commitment_frame: "stake_commitment E i n s = Inr t \<Longrightarrow>
    keeps_core s t \<and> keeps_proofs s t \<and> keeps_delegations s t"
  by (auto simp: stake_commitment_def state_simps keeps_defs view_defs Let_def split: if_splits option.splits)

lemma slash_stake_frame: "slash_stake E i s = Inr t \<Longrightarrow>
    keeps_core s t \<and> keeps_proofs s t \<and> keeps_delegations s t"
  by (auto simp: slash_stake_def state_simps keeps_defs view_defs Let_def split: if_splits option.splits)

lemma unstake_frame: "unstake E i s = Inr t \<Longrightarrow>
    keeps_core s t \<and> keeps_proofs s t \<and> keeps_delegations s t"
  by (auto simp: unstake_def state_simps keeps_defs view_defs Let_def split: if_splits option.splits)

lemma update_reputation_frame: "update_reputation E a n s = Inr t \<Longrightarrow>
    keeps_core s t \<and> keeps_proofs s t \<and> keeps_delegations s t"
  by (auto simp: update_reputation_def state_simps keeps_defs view_defs Let_def split: if_splits option.splits)

lemma nominate_arbitrator_frame: "nominate_arbitrator E a s = Inr t \<Longrightarrow>
    keeps_core s t \<and> keeps_proofs s t \<and> keeps_delegations s t"
  by (auto simp: nominate_arbitrator_def state_simps keeps_defs view_defs Let_def split: if_splits option.splits)

lemma open_arbitration_frame: "open_arbitration E d s = Inr (x, t) \<Longrightarrow>
    keeps_core s t \<and> keeps_proofs s t \<and> keeps_delegations s t"
  by (auto simp: open_arbitration_def state_simps keeps_defs view_defs Let_def split: if_splits option.splits)

lemma vote_on_dispute_frame: "vote_on_dispute E c a v s = Inr t \<Longrightarrow>
    keeps_core s t \<and> keeps_proofs s t \<and> keeps_delegations s t"
  by (auto simp: vote_on_dispute_def state_simps keeps_defs view_defs Let_def split: if_splits option.splits)

lemma finalize_arbitration_frame: "finalize_arbitration E c s = Inr t \<Longrightarrow>
    keeps_core s t \<and> keeps_proofs s t \<and> keeps_delegations s t"
  by (auto simp: finalize_arbitration_def state_simps keeps_defs view_defs Let_def split: if_splits option.splits)

lemmas dispute_frames =
  initiate_dispute_frame submit_dispute_evidence_frame resolve_dispute_frame
  stake_commitment_frame slash_stake_frame unstake_frame
  update_reputation_frame nominate_arbitrator_frame open_arbitration_frame
  vote_on_dispute_frame finalize_arbitration_frame

section \<open>Delegations\<close>

lemma delegate_commitment_authority_frame: "delegate_commitment_authority E r a b s = Inr t \<Longrightarrow>
    keeps_core s t \<and> keeps_proofs s t \<and> keeps_disputes s t"
  by (auto simp: delegate_commitment_authority_def state_simps keeps_defs view_defs Let_def split: if_splits option.splits)

lemma revoke_delegation_frame: "revoke_delegation E a b s = Inr t \<Longrightarrow>
    keeps_core s t \<and> keeps_proofs s t \<and> keeps_disputes s t"
  by (auto simp: revoke_delegation_def state_simps keeps_defs view_defs Let_def split: if_splits option.splits)

lemmas delegation_frames =
  delegate_commitment_authority_frame revoke_delegation_frame

section \<open>Records\<close>

lemma transfer_ip_frame: "transfer_ip E i a s = Inr t \<Longrightarrow>
    keeps_proofs s t \<and> keeps_disputes s t \<and> keeps_delegations s t"
  by (auto simp: transfer_ip_def keeps_defs Let_def split: if_splits)

lemma revoke_ip_frame: "revoke_ip E i s = Inr t \<Longrightarrow>
    keeps_proofs s t \<and> keeps_disputes s t \<and> keeps_delegations s t"
  by (auto simp: revoke_ip_def keeps_defs Let_def split: if_splits)

lemma add_co_owner_frame: "add_co_owner E i a s = Inr t \<Longrightarrow>
    keeps_proofs s t \<and> keeps_disputes s t \<and> keeps_delegations s t"
  by (auto simp: add_co_owner_def keeps_defs Let_def split: if_splits)

lemma remove_co_owner_frame: "remove_co_owner E i a s = Inr t \<Longrightarrow>
    keeps_proofs s t \<and> keeps_disputes s t \<and> keeps_delegations s t"
  by (auto simp: remove_co_owner_def keeps_defs Let_def split: if_splits)

lemma merge_duplicate_commitment_frame: "merge_duplicate_commitment E i j s = Inr t \<Longrightarrow>
    keeps_proofs s t \<and> keeps_disputes s t \<and> keeps_delegations s t"
  by (auto simp: merge_duplicate_commitment_def keeps_defs Let_def split: if_splits)

lemma rotate_commitment_key_frame: "rotate_commitment_key E i h x y s = Inr t \<Longrightarrow>
    keeps_proofs s t \<and> keeps_disputes s t \<and> keeps_delegations s t"
  by (auto simp: rotate_commitment_key_def keeps_defs Let_def split: if_splits)

lemma notarize_ip_timestamp_frame: "notarize_ip_timestamp E i sig s = Inr t \<Longrightarrow>
    keeps_proofs s t \<and> keeps_disputes s t \<and> keeps_delegations s t"
  by (auto simp: notarize_ip_timestamp_def keeps_defs Let_def split: if_splits)

lemma commit_ip_frame: "commit_ip E ow h d s = Inr (x, t) \<Longrightarrow>
    keeps_proofs s t \<and> keeps_disputes s t \<and> keeps_delegations s t"
  by (auto simp: commit_ip_def adjust_pow_difficulty_def keeps_defs Let_def split: if_splits)

lemma batch_commit_step_frame: "batch_commit_step E ow n h (ids, s) = Inr (x, t) \<Longrightarrow>
    keeps_proofs s t \<and> keeps_disputes s t \<and> keeps_delegations s t"
  by (auto simp: batch_commit_step_def keeps_defs Let_def split: if_splits)

lemma batch_commit_anonymous_step_frame: "batch_commit_anonymous_step E b n h (ids, s) = Inr (x, t) \<Longrightarrow>
    keeps_proofs s t \<and> keeps_disputes s t \<and> keeps_delegations s t"
  by (auto simp: batch_commit_anonymous_step_def keeps_defs Let_def split: if_splits)

lemma commit_ip_delegated_frame: "commit_ip_delegated E ow h d s = Inr (x, t) \<Longrightarrow>
    keeps_proofs s t \<and> keeps_disputes s t \<and> keeps_delegations s t"
  by (auto simp: commit_ip_delegated_def keeps_defs Let_def split: if_splits)

lemma create_ip_version_frame: "create_ip_version E p h s = Inr (x, t) \<Longrightarrow>
    keeps_proofs s t \<and> keeps_disputes s t \<and> keeps_delegations s t"
  by (auto simp: create_ip_version_def keeps_defs Let_def split: if_splits)

lemmas record_frames =
  transfer_ip_frame revoke_ip_frame add_co_owner_frame
  remove_co_owner_frame merge_duplicate_commitment_frame rotate_commitment_key_frame
  notarize_ip_timestamp_frame commit_ip_frame batch_commit_step_frame
  batch_commit_anonymous_step_frame commit_ip_delegated_frame create_ip_version_frame

end
