(* ===== verification/Registry_Machine.thy ===== *)
theory Registry_Machine
  imports Registry_Frames
begin

text \<open>
  The registry as a transition system: every entry point that can change the storage is a call, a
  step is one call that does not panic, made by anyone with any signatures at any time. The calls are
  grouped as the fields they change.
\<close>

section \<open>Calls\<close>

definition drop_result :: "'e + ('a \<times> 's) \<Rightarrow> 'e + 's" where
  "drop_result m = bindE m (\<lambda>(_, s). Inr s)"

lemma drop_result_Inr [simp]: "drop_result m = Inr s \<longleftrightarrow> (\<exists>x. m = Inr (x, s))"
  by (cases m) (auto simp: drop_result_def)

datatype record_call =
    CommitIp address bytes nat
  | BatchCommitIp address "bytes list"
  | BatchCommitIpAnonymous bytes "bytes list"
  | CommitIpDelegated address bytes nat
  | CreateIpVersion nat bytes
  | CommitIpVersion address bytes nat
  | TransferIp nat address
  | TransferIpOwnership nat address
  | RevokeIp nat
  | AddCoOwner nat address
  | RemoveCoOwner nat address
  | MergeDuplicate nat nat
  | RotateCommitmentKey nat bytes bytes bytes
  | NotarizeIpTimestamp nat bytes

datatype misc_call =
    UpgradeRegistry bytes
  | GrantLicense nat address bytes
  | RevokeLicense nat address
  | SetSuggestedPrice nat int
  | GrantAccess nat address nat
  | RevokeAccess nat address
  | AssignCategory nat bytes
  | RenewIp nat
  | CheckExpirationWarning nat nat
  | RevealPartial nat bytes bytes
  | SetNotaryPublicKey bytes
  | SetBatchMetadata nat bytes bytes
  | SetCompression nat CompressionAlgo
  | EncryptCommitment nat bytes bytes

datatype proof_call =
    IssueChallenge nat address bytes
  | RespondChallenge nat bytes
  | VerifyChallenge nat
  | RequireThreshold nat nat "address list"
  | AddThresholdSignature nat address bytes

datatype dispute_call =
    InitiateDispute nat address bytes
  | SubmitEvidence nat address bytes
  | ResolveDispute nat address
  | StakeCommitment nat int
  | SlashStake nat
  | Unstake nat
  | UpdateReputation address int
  | NominateArbitrator address
  | OpenArbitration nat
  | VoteOnDispute nat address bool
  | FinalizeArbitration nat

datatype delegation_call =
    DelegateAuthority address address address
  | RevokeDelegation address address

primrec exec_record :: "env \<Rightarrow> record_call \<Rightarrow> registry \<Rightarrow> registry rout" where
  "exec_record E (CommitIp ow h d) s = drop_result (commit_ip E ow h d s)"
| "exec_record E (BatchCommitIp ow hs) s = drop_result (batch_commit_ip E ow hs s)"
| "exec_record E (BatchCommitIpAnonymous b hs) s = drop_result (batch_commit_ip_anonymous E b hs s)"
| "exec_record E (CommitIpDelegated ow h d) s = drop_result (commit_ip_delegated E ow h d s)"
| "exec_record E (CreateIpVersion p h) s = drop_result (create_ip_version E p h s)"
| "exec_record E (CommitIpVersion ow h p) s = drop_result (commit_ip_version E ow h p s)"
| "exec_record E (TransferIp i a) s = transfer_ip E i a s"
| "exec_record E (TransferIpOwnership i a) s = transfer_ip_ownership E i a s"
| "exec_record E (RevokeIp i) s = revoke_ip E i s"
| "exec_record E (AddCoOwner i a) s = add_co_owner E i a s"
| "exec_record E (RemoveCoOwner i a) s = remove_co_owner E i a s"
| "exec_record E (MergeDuplicate i j) s = merge_duplicate_commitment E i j s"
| "exec_record E (RotateCommitmentKey i h x y) s = rotate_commitment_key E i h x y s"
| "exec_record E (NotarizeIpTimestamp i sig) s = notarize_ip_timestamp E i sig s"

primrec exec_misc :: "env \<Rightarrow> misc_call \<Rightarrow> registry \<Rightarrow> registry rout" where
  "exec_misc E (UpgradeRegistry h) s = upgrade E h s"
| "exec_misc E (GrantLicense i a h) s = grant_license E i a h s"
| "exec_misc E (RevokeLicense i a) s = revoke_license E i a s"
| "exec_misc E (SetSuggestedPrice i p) s = set_ip_suggested_price E i p s"
| "exec_misc E (GrantAccess i a l) s = grant_ip_access E i a l s"
| "exec_misc E (RevokeAccess i a) s = revoke_ip_access E i a s"
| "exec_misc E (AssignCategory i c) s = assign_ip_to_category E i c s"
| "exec_misc E (RenewIp i) s = renew_ip E i s"
| "exec_misc E (CheckExpirationWarning i w) s = drop_result (check_expiration_warning E i w s)"
| "exec_misc E (RevealPartial i p b) s = drop_result (reveal_partial E i p b s)"
| "exec_misc E (SetNotaryPublicKey k) s = set_notary_public_key E k s"
| "exec_misc E (SetBatchMetadata i b d) s = set_batch_metadata E i b d s"
| "exec_misc E (SetCompression i a) s = set_commitment_compression i a s"
| "exec_misc E (EncryptCommitment i h k) s = encrypt_commitment E i h k s"

primrec exec_proof :: "env \<Rightarrow> proof_call \<Rightarrow> registry \<Rightarrow> registry rout" where
  "exec_proof E (IssueChallenge i a n) s = drop_result (issue_ownership_challenge E i a n s)"
| "exec_proof E (RespondChallenge c h) s = respond_to_ownership_challenge E c h s"
| "exec_proof E (VerifyChallenge c) s = drop_result (verify_ownership_challenge E c s)"
| "exec_proof E (RequireThreshold i n as) s = require_threshold_signatures i n as s"
| "exec_proof E (AddThresholdSignature i a h) s = add_threshold_signature E i a h s"

primrec exec_dispute :: "env \<Rightarrow> dispute_call \<Rightarrow> registry \<Rightarrow> registry rout" where
  "exec_dispute E (InitiateDispute i a h) s = drop_result (initiate_dispute E i a h s)"
| "exec_dispute E (SubmitEvidence d a h) s = submit_dispute_evidence E d a h s"
| "exec_dispute E (ResolveDispute d a) s = resolve_dispute E d a s"
| "exec_dispute E (StakeCommitment i n) s = stake_commitment E i n s"
| "exec_dispute E (SlashStake i) s = slash_stake E i s"
| "exec_dispute E (Unstake i) s = unstake E i s"
| "exec_dispute E (UpdateReputation a n) s = update_reputation E a n s"
| "exec_dispute E (NominateArbitrator a) s = nominate_arbitrator E a s"
| "exec_dispute E (OpenArbitration d) s = drop_result (open_arbitration E d s)"
| "exec_dispute E (VoteOnDispute c a v) s = vote_on_dispute E c a v s"
| "exec_dispute E (FinalizeArbitration c) s = finalize_arbitration E c s"

primrec exec_delegation :: "env \<Rightarrow> delegation_call \<Rightarrow> registry \<Rightarrow> registry rout" where
  "exec_delegation E (DelegateAuthority r a b) s = delegate_commitment_authority E r a b s"
| "exec_delegation E (RevokeDelegation a b) s = revoke_delegation E a b s"

datatype registry_call =
    Records record_call
  | Misc misc_call
  | Proofs proof_call
  | Disputes dispute_call
  | Delegations delegation_call

primrec exec_registry :: "env \<Rightarrow> registry_call \<Rightarrow> registry \<Rightarrow> registry rout" where
  "exec_registry E (Records c) s = exec_record E c s"
| "exec_registry E (Misc c) s = exec_misc E c s"
| "exec_registry E (Proofs c) s = exec_proof E c s"
| "exec_registry E (Disputes c) s = exec_dispute E c s"
| "exec_registry E (Delegations c) s = exec_delegation E c s"

text \<open>The commitment hashes of a call are 32 bytes long: the code's type is \<open>BytesN<32>\<close>.\<close>

primrec record_hashes :: "record_call \<Rightarrow> bytes list" where
  "record_hashes (CommitIp ow h d) = [h]"
| "record_hashes (BatchCommitIp ow hs) = hs"
| "record_hashes (BatchCommitIpAnonymous b hs) = hs"
| "record_hashes (CommitIpDelegated ow h d) = [h]"
| "record_hashes (CreateIpVersion p h) = [h]"
| "record_hashes (CommitIpVersion ow h p) = [h]"
| "record_hashes (TransferIp i a) = []"
| "record_hashes (TransferIpOwnership i a) = []"
| "record_hashes (RevokeIp i) = []"
| "record_hashes (AddCoOwner i a) = []"
| "record_hashes (RemoveCoOwner i a) = []"
| "record_hashes (MergeDuplicate i j) = []"
| "record_hashes (RotateCommitmentKey i h x y) = [h]"
| "record_hashes (NotarizeIpTimestamp i sig) = []"

definition call_hashes :: "registry_call \<Rightarrow> bytes list" where
  "call_hashes c = (case c of Records rc \<Rightarrow> record_hashes rc | _ \<Rightarrow> [])"

inductive registry_step :: "env \<Rightarrow> registry \<Rightarrow> registry \<Rightarrow> bool" for H where
  registry_call: "same_host H E \<Longrightarrow> \<forall>h \<in> set (call_hashes c). length h = 32 \<Longrightarrow>
    exec_registry E c s = Inr t \<Longrightarrow> registry_step H s t"

inductive_cases registry_stepE: "registry_step H s t"

definition deployed :: "registry \<Rightarrow> bool" where
  "deployed s \<longleftrightarrow> s = empty_registry"

abbreviation registry_reachable :: "env \<Rightarrow> registry \<Rightarrow> bool" where
  "registry_reachable H \<equiv> reachable deployed (registry_step H)"

section \<open>What each call leaves alone\<close>

lemma batch_commit_ip_frame: "batch_commit_ip E ow hs s = Inr (ids, t) \<Longrightarrow>
    keeps_proofs s t \<and> keeps_disputes s t \<and> keeps_delegations s t"
proof -
  assume "batch_commit_ip E ow hs s = Inr (ids, t)"
  then obtain u where u: "foldE (batch_commit_step E ow (now E)) hs ([], init_admin E s) = Inr (ids, u)"
    and t: "t = update_commitment_checksum E u"
    by (auto simp: batch_commit_ip_def Let_def)
  have "case (ids, u) of (_, u) \<Rightarrow>
      keeps_proofs (init_admin E s) u \<and> keeps_disputes (init_admin E s) u \<and>
      keeps_delegations (init_admin E s) u"
    using u by (rule foldE_invariant) (auto dest!: batch_commit_step_frame intro: keeps_trans)
  with t show ?thesis by (simp add: keeps_defs)
qed

lemma batch_commit_ip_anonymous_frame: "batch_commit_ip_anonymous E b hs s = Inr (ids, t) \<Longrightarrow>
    keeps_proofs s t \<and> keeps_disputes s t \<and> keeps_delegations s t"
proof -
  assume "batch_commit_ip_anonymous E b hs s = Inr (ids, t)"
  then obtain u where
    u: "foldE (batch_commit_anonymous_step E b (now E)) hs ([], init_admin E s) = Inr (ids, u)"
    and t: "t = update_commitment_checksum E u"
    by (auto simp: batch_commit_ip_anonymous_def Let_def)
  have "case (ids, u) of (_, u) \<Rightarrow>
      keeps_proofs (init_admin E s) u \<and> keeps_disputes (init_admin E s) u \<and>
      keeps_delegations (init_admin E s) u"
    using u by (rule foldE_invariant) (auto dest!: batch_commit_anonymous_step_frame intro: keeps_trans)
  with t show ?thesis by (simp add: keeps_defs)
qed

lemma transfer_ip_ownership_frame: "transfer_ip_ownership E i a s = Inr t \<Longrightarrow>
    keeps_proofs s t \<and> keeps_disputes s t \<and> keeps_delegations s t"
  by (simp add: transfer_ip_ownership_def transfer_ip_frame)

lemma commit_ip_version_frame: "commit_ip_version E ow h p s = Inr (x, t) \<Longrightarrow>
    keeps_proofs s t \<and> keeps_disputes s t \<and> keeps_delegations s t"
  by (auto simp: commit_ip_version_def dest: create_ip_version_frame)

lemma exec_record_frame: "exec_record E c s = Inr t \<Longrightarrow>
    keeps_proofs s t \<and> keeps_disputes s t \<and> keeps_delegations s t"
  by (cases c) (auto dest: record_frames batch_commit_ip_frame batch_commit_ip_anonymous_frame
      transfer_ip_ownership_frame commit_ip_version_frame)

lemma exec_misc_frame: "exec_misc E c s = Inr t \<Longrightarrow> keeps_all s t"
  by (cases c) (auto dest: misc_frames)

lemma exec_proof_frame: "exec_proof E c s = Inr t \<Longrightarrow>
    keeps_core s t \<and> keeps_disputes s t \<and> keeps_delegations s t"
  by (cases c) (auto dest: proof_frames)

lemma exec_dispute_frame: "exec_dispute E c s = Inr t \<Longrightarrow>
    keeps_core s t \<and> keeps_proofs s t \<and> keeps_delegations s t"
  by (cases c) (auto dest: dispute_frames)

lemma exec_delegation_frame: "exec_delegation E c s = Inr t \<Longrightarrow>
    keeps_core s t \<and> keeps_proofs s t \<and> keeps_disputes s t"
  by (cases c) (auto dest: delegation_frames)

lemmas exec_frames =
  exec_record_frame exec_misc_frame exec_proof_frame exec_dispute_frame exec_delegation_frame

text \<open>Case analysis of a step by the group of fields it may change.\<close>

lemma registry_step_core:
  assumes "registry_step H s t"
  obtains (core) E c where "same_host H E" "\<forall>h \<in> set (record_hashes c). length h = 32"
      "exec_record E c s = Inr t"
    | (frame) "keeps_core s t"
proof -
  from assms obtain E c where "same_host H E" "\<forall>h \<in> set (call_hashes c). length h = 32"
    "exec_registry E c s = Inr t" by (auto elim: registry_stepE)
  then show thesis
    by (cases c) (auto simp: call_hashes_def intro: core frame dest: exec_frames)
qed

lemma registry_step_proof:
  assumes "registry_step H s t"
  obtains (proofs) E c where "same_host H E" "exec_proof E c s = Inr t"
    | (frame) "keeps_proofs s t"
proof -
  from assms obtain E c where "same_host H E" "\<forall>h \<in> set (call_hashes c). length h = 32"
    "exec_registry E c s = Inr t" by (auto elim: registry_stepE)
  then show thesis
    by (cases c) (auto intro: proofs frame dest: exec_frames)
qed

lemma registry_step_dispute:
  assumes "registry_step H s t"
  obtains (disputes) E c where "same_host H E" "exec_dispute E c s = Inr t"
    | (frame) "keeps_disputes s t"
proof -
  from assms obtain E c where "same_host H E" "\<forall>h \<in> set (call_hashes c). length h = 32"
    "exec_registry E c s = Inr t" by (auto elim: registry_stepE)
  then show thesis
    by (cases c) (auto intro: disputes frame dest: exec_frames)
qed

lemma registry_step_delegation:
  assumes "registry_step H s t"
  obtains (delegations) E c where "same_host H E" "exec_delegation E c s = Inr t"
    | (frame) "keeps_delegations s t"
proof -
  from assms obtain E c where "same_host H E" "\<forall>h \<in> set (call_hashes c). length h = 32"
    "exec_registry E c s = Inr t" by (auto elim: registry_stepE)
  then show thesis
    by (cases c) (auto intro: delegations frame dest: exec_frames)
qed

end
