(* ===== verification/Registry_Index.thy ===== *)
theory Registry_Index
  imports Registry_Machine
begin

text \<open>
  The indexes over the records: the counter, the hashes taken and the lists of the owners say the same
  as the records, and every call keeps it so. The argument is carried out on the four maps, one lemma
  per kind of change; the operations are then instances.
\<close>

section \<open>The invariant on maps\<close>

definition next_ip :: "registry \<Rightarrow> nat" where
  "next_ip s = unwrap_or 1 (rg_NextId s)"

definition ids_of :: "(address \<rightharpoonup> nat list) \<Rightarrow> address \<Rightarrow> nat list" where
  "ids_of ips ow = unwrap_or [] (ips ow)"

text \<open>What one record promises; \<open>self\<close> is the contract, which owns the anonymous records.\<close>

definition record_ok ::
    "address \<Rightarrow> (nat \<rightharpoonup> IpRec) \<Rightarrow> (address \<rightharpoonup> nat list) \<Rightarrow> (bytes \<rightharpoonup> address) \<Rightarrow> nat \<Rightarrow> IpRec \<Rightarrow> bool"
where
  "record_ok self recs ips co i r \<longleftrightarrow>
     ir_ip_id r = i \<and> length (ir_commitment_hash r) = 32 \<and>
     ir_commitment_hash r \<noteq> replicate 32 0 \<and>
     co (ir_commitment_hash r) = Some (ir_owner r) \<and>
     (ir_owner r \<noteq> self \<longrightarrow> i \<in> set (ids_of ips (ir_owner r))) \<and>
     (\<forall>p. ir_parent_ip_id r = Some p \<longrightarrow> p < i \<and> recs p \<noteq> None)"

definition index_ok ::
    "address \<Rightarrow> (nat \<rightharpoonup> IpRec) \<Rightarrow> (address \<rightharpoonup> nat list) \<Rightarrow> nat \<Rightarrow> (bytes \<rightharpoonup> address) \<Rightarrow> bool" where
  "index_ok self recs ips n co \<longleftrightarrow>
     1 \<le> n \<and> dom recs = {1..<n} \<and>
     (\<forall>i r. recs i = Some r \<longrightarrow> record_ok self recs ips co i r) \<and>
     (\<forall>h. co h \<noteq> None \<longrightarrow> (\<exists>i r. recs i = Some r \<and> ir_commitment_hash r = h)) \<and>
     (\<forall>i j r q. recs i = Some r \<longrightarrow> recs j = Some q \<longrightarrow>
        ir_commitment_hash r = ir_commitment_hash q \<longrightarrow> i = j) \<and>
     (\<forall>ow. distinct (ids_of ips ow) \<and>
        (\<forall>i \<in> set (ids_of ips ow). \<exists>r. recs i = Some r \<and> ir_owner r = ow))"

lemma index_okD:
  assumes "index_ok self recs ips n co"
  shows index_next: "1 \<le> n" and index_dom: "dom recs = {1..<n}"
    and index_record: "recs i = Some r \<Longrightarrow> record_ok self recs ips co i r"
    and index_hash: "co h = Some ow \<Longrightarrow> \<exists>i r. recs i = Some r \<and> ir_commitment_hash r = h"
    and index_unique: "recs i = Some r \<Longrightarrow> recs j = Some q \<Longrightarrow>
      ir_commitment_hash r = ir_commitment_hash q \<Longrightarrow> i = j"
    and index_distinct: "distinct (ids_of ips ow)"
    and index_owned: "i \<in> set (ids_of ips ow) \<Longrightarrow> \<exists>r. recs i = Some r \<and> ir_owner r = ow"
proof -
  show "1 \<le> n" "dom recs = {1..<n}" using assms by (auto simp: index_ok_def)
  show "recs i = Some r \<Longrightarrow> record_ok self recs ips co i r"
    using assms unfolding index_ok_def by blast
  show "co h = Some ow \<Longrightarrow> \<exists>i r. recs i = Some r \<and> ir_commitment_hash r = h"
    using assms unfolding index_ok_def by blast
  show "recs i = Some r \<Longrightarrow> recs j = Some q \<Longrightarrow>
      ir_commitment_hash r = ir_commitment_hash q \<Longrightarrow> i = j"
    using assms unfolding index_ok_def by blast
  show "distinct (ids_of ips ow)"
    "i \<in> set (ids_of ips ow) \<Longrightarrow> \<exists>r. recs i = Some r \<and> ir_owner r = ow"
    using assms unfolding index_ok_def by blast+
qed

lemma ids_of_upd: "ids_of (ips(a \<mapsto> xs)) b = (if b = a then xs else ids_of ips b)"
  by (simp add: ids_of_def)

lemma index_below: "index_ok self recs ips n co \<Longrightarrow> recs i = Some r \<Longrightarrow> 1 \<le> i \<and> i < n"
  using index_dom [of self recs ips n co] by (auto simp: dom_def)

lemma index_fresh: "index_ok self recs ips n co \<Longrightarrow> recs n = None"
  using index_below [of self recs ips n co n] by (cases "recs n") auto

lemma index_fresh_list: "index_ok self recs ips n co \<Longrightarrow> n \<notin> set (ids_of ips ow)"
  using index_owned [of self recs ips n co n ow] index_fresh [of self recs ips n co] by auto

text \<open>A new record.\<close>

lemma index_insert:
  assumes ok: "index_ok self recs ips n co"
    and new: "co (ir_commitment_hash r) = None" "length (ir_commitment_hash r) = 32"
      "ir_commitment_hash r \<noteq> replicate 32 0" "ir_ip_id r = n"
      "\<And>p. ir_parent_ip_id r = Some p \<Longrightarrow> recs p \<noteq> None"
    and ips': "ips' = ips(ir_owner r \<mapsto> ids_of ips (ir_owner r) @ [n]) \<or>
      (ips' = ips \<and> ir_owner r = self)"
  shows "index_ok self (recs(n \<mapsto> r)) ips' (n + 1) (co(ir_commitment_hash r \<mapsto> ir_owner r))"
  unfolding index_ok_def
proof (intro conjI allI impI)
  let ?recs = "recs(n \<mapsto> r)" and ?co = "co(ir_commitment_hash r \<mapsto> ir_owner r)"
  have other: "ir_commitment_hash q \<noteq> ir_commitment_hash r" if "recs j = Some q" for j q
    using index_record [OF ok that] new(1) by (auto simp: record_ok_def)
  show "1 \<le> n + 1" by simp
  show "dom ?recs = {1..<n + 1}" using index_dom [OF ok] index_next [OF ok] by auto
  fix i q assume q: "?recs i = Some q"
  show "record_ok self ?recs ips' ?co i q"
  proof (cases "i = n")
    case True
    moreover have "p < n \<and> ?recs p \<noteq> None" if "ir_parent_ip_id r = Some p" for p
      using new(5) [OF that] index_below [OF ok, of p] by auto
    ultimately show ?thesis
      using q new ips' by (auto simp: record_ok_def ids_of_upd)
  next
    case False
    with q have "recs i = Some q" by simp
    then show ?thesis
      using index_record [OF ok, of i q] other [of i q] ips'
      by (auto simp: record_ok_def ids_of_upd)
  qed
next
  fix h assume h: "(co(ir_commitment_hash r \<mapsto> ir_owner r)) h \<noteq> None"
  show "\<exists>i q. (recs(n \<mapsto> r)) i = Some q \<and> ir_commitment_hash q = h"
  proof (cases "h = ir_commitment_hash r")
    case True
    then show ?thesis by (intro exI [of _ n]) auto
  next
    case False
    with h obtain j q where "recs j = Some q" "ir_commitment_hash q = h"
      using index_hash [OF ok, of h] by auto
    then show ?thesis using index_fresh [OF ok] by (intro exI [of _ j]) auto
  qed
next
  have other: "ir_commitment_hash q \<noteq> ir_commitment_hash r" if "recs j = Some q" for j q
    using index_record [OF ok that] new(1) by (auto simp: record_ok_def)
  fix i j q q'
  assume "(recs(n \<mapsto> r)) i = Some q" "(recs(n \<mapsto> r)) j = Some q'"
    "ir_commitment_hash q = ir_commitment_hash q'"
  then show "i = j"
    using other index_unique [OF ok, of i q j q'] by (auto split: if_splits)
next
  fix ow
  show "distinct (ids_of ips' ow)"
    using ips' index_distinct [OF ok, of ow] index_fresh_list [OF ok, of ow]
    by (auto simp: ids_of_upd)
  show "\<forall>i \<in> set (ids_of ips' ow). \<exists>q. (recs(n \<mapsto> r)) i = Some q \<and> ir_owner q = ow"
    using ips' index_owned [OF ok, of _ ow] index_fresh_list [OF ok, of ow]
    by (auto simp: ids_of_upd split: if_splits)
qed

text \<open>A change of a record that keeps its owner, its hash and its parent.\<close>

lemma index_same:
  assumes ok: "index_ok self recs ips n co" and i: "recs i = Some r"
    and same: "ir_ip_id q = ir_ip_id r" "ir_owner q = ir_owner r"
      "ir_commitment_hash q = ir_commitment_hash r" "ir_parent_ip_id q = ir_parent_ip_id r"
  shows "index_ok self (recs(i \<mapsto> q)) ips n co"
  unfolding index_ok_def
proof (intro conjI allI impI)
  show "1 \<le> n" by (rule index_next [OF ok])
  show "dom (recs(i \<mapsto> q)) = {1..<n}"
    using index_dom [OF ok] i by (simp add: dom_def insert_absorb) auto
next
  fix j x assume "(recs(i \<mapsto> q)) j = Some x"
  then show "record_ok self (recs(i \<mapsto> q)) ips co j x"
    using index_record [OF ok, of j x] index_record [OF ok i] same
    by (auto simp: record_ok_def split: if_splits)
next
  fix h assume "co h \<noteq> None"
  then obtain j x where "recs j = Some x" "ir_commitment_hash x = h"
    using index_hash [OF ok] by blast
  then show "\<exists>j x. (recs(i \<mapsto> q)) j = Some x \<and> ir_commitment_hash x = h"
    using i same by (intro exI [of _ j]) auto
next
  fix j k x y
  assume "(recs(i \<mapsto> q)) j = Some x" "(recs(i \<mapsto> q)) k = Some y"
    "ir_commitment_hash x = ir_commitment_hash y"
  then show "j = k"
    using index_unique [OF ok, of j x k y] index_unique [OF ok i, of k y]
      index_unique [OF ok _ i, of j x] same by (auto split: if_splits)
next
  fix ow
  show "distinct (ids_of ips ow)" by (rule index_distinct [OF ok])
  show "\<forall>j \<in> set (ids_of ips ow). \<exists>x. (recs(i \<mapsto> q)) j = Some x \<and> ir_owner x = ow"
    using index_owned [OF ok, of _ ow] i same by force
qed

text \<open>A change of owner.\<close>

lemma index_transfer:
  assumes ok: "index_ok self recs ips n co" and i: "recs i = Some r"
    and ips1: "ips1 = ips(ir_owner r \<mapsto> remove1 i (ids_of ips (ir_owner r)))"
  shows "index_ok self (recs(i \<mapsto> r\<lparr>ir_owner := ow\<rparr>))
     (ips1(ow \<mapsto> ids_of ips1 ow @ [i])) n (co(ir_commitment_hash r \<mapsto> ow))"
    (is "index_ok self ?recs ?ips n ?co")
  unfolding index_ok_def
proof (intro conjI allI impI)
  show "1 \<le> n" by (rule index_next [OF ok])
  show "dom ?recs = {1..<n}"
    using index_dom [OF ok] i by (simp add: dom_def insert_absorb) auto
next
  fix j x assume x: "?recs j = Some x"
  show "record_ok self ?recs ?ips ?co j x"
  proof (cases "j = i")
    case True
    with x show ?thesis
      using index_record [OF ok i] by (auto simp: record_ok_def ids_of_upd)
  next
    case False
    with x have x': "recs j = Some x" by simp
    moreover have "ir_commitment_hash x \<noteq> ir_commitment_hash r"
      using index_unique [OF ok x' i] False by blast
    ultimately show ?thesis
      using index_record [OF ok x'] i False ips1
      by (auto simp: record_ok_def ids_of_upd in_set_remove1)
  qed
next
  fix h assume "?co h \<noteq> None"
  then have "h = ir_commitment_hash r \<or> co h \<noteq> None" by (auto split: if_splits)
  then obtain j x where "recs j = Some x" "ir_commitment_hash x = h"
    using index_hash [OF ok] i by blast
  then show "\<exists>j x. ?recs j = Some x \<and> ir_commitment_hash x = h"
    using i by (intro exI [of _ j]) auto
next
  fix j k x y
  assume "?recs j = Some x" "?recs k = Some y" "ir_commitment_hash x = ir_commitment_hash y"
  then show "j = k"
    using index_unique [OF ok, of j x k y] index_unique [OF ok i, of k y]
      index_unique [OF ok _ i, of j x] by (auto split: if_splits)
next
  fix a
  have gone: "i \<notin> set (ids_of ips1 b)" for b
    using index_owned [OF ok, of i b] index_distinct [OF ok, of "ir_owner r"] i ips1
    by (auto simp: ids_of_upd)
  show "distinct (ids_of ?ips a)"
    using index_distinct [OF ok, of a] gone [of a] ips1
    by (auto simp: ids_of_upd distinct_remove1)
  show "\<forall>j \<in> set (ids_of ?ips a). \<exists>x. ?recs j = Some x \<and> ir_owner x = a"
  proof
    fix j assume j: "j \<in> set (ids_of ?ips a)"
    show "\<exists>x. ?recs j = Some x \<and> ir_owner x = a"
    proof (cases "j = i")
      case True
      with j gone show ?thesis by (auto simp: ids_of_upd split: if_splits)
    next
      case False
      with j have "j \<in> set (ids_of ips a)"
        using ips1 by (auto simp: ids_of_upd in_set_remove1 split: if_splits dest: notin_set_remove1 [rotated])
      with False show ?thesis using index_owned [OF ok, of j a] by auto
    qed
  qed
qed

text \<open>A change of hash.\<close>

lemma index_rotate:
  assumes ok: "index_ok self recs ips n co" and i: "recs i = Some r"
    and new: "co h = None" "length h = 32" "h \<noteq> replicate 32 0"
  shows "index_ok self (recs(i \<mapsto> r\<lparr>ir_commitment_hash := h\<rparr>)) ips n
     ((co(ir_commitment_hash r := None))(h \<mapsto> ir_owner r))"
    (is "index_ok self ?recs ips n ?co")
  unfolding index_ok_def
proof (intro conjI allI impI)
  have other: "ir_commitment_hash x \<noteq> h" if "recs j = Some x" for j x
    using index_record [OF ok that] new(1) by (auto simp: record_ok_def)
  show "1 \<le> n" by (rule index_next [OF ok])
  show "dom ?recs = {1..<n}"
    using index_dom [OF ok] i by (simp add: dom_def insert_absorb) auto
  {
    fix j x assume x: "?recs j = Some x"
    show "record_ok self ?recs ips ?co j x"
    proof (cases "j = i")
      case True
      with x show ?thesis
        using index_record [OF ok i] new by (auto simp: record_ok_def)
    next
      case False
      with x have x': "recs j = Some x" by simp
      moreover have "ir_commitment_hash x \<noteq> ir_commitment_hash r"
        using index_unique [OF ok x' i] False by blast
      ultimately show ?thesis
        using index_record [OF ok x'] other [OF x'] i by (auto simp: record_ok_def)
    qed
  next
    fix g assume g: "?co g \<noteq> None"
    show "\<exists>j x. ?recs j = Some x \<and> ir_commitment_hash x = g"
    proof (cases "g = h")
      case True
      then show ?thesis by (intro exI [of _ i]) auto
    next
      case False
      with g have "co g \<noteq> None" "g \<noteq> ir_commitment_hash r" by (auto split: if_splits)
      then obtain j x where "recs j = Some x" "ir_commitment_hash x = g"
        using index_hash [OF ok, of g] by auto
      then show ?thesis using i \<open>g \<noteq> ir_commitment_hash r\<close> by (intro exI [of _ j]) auto
    qed
  next
    fix j k x y
    assume "?recs j = Some x" "?recs k = Some y" "ir_commitment_hash x = ir_commitment_hash y"
    then show "j = k"
      using index_unique [OF ok, of j x k y] other [of j x] other [of k y]
      by (auto split: if_splits)
  next
    fix ow
    show "distinct (ids_of ips ow)" by (rule index_distinct [OF ok])
    show "\<forall>j \<in> set (ids_of ips ow). \<exists>x. ?recs j = Some x \<and> ir_owner x = ow"
      using index_owned [OF ok, of _ ow] i by force
  }
qed

end
