(* ===== verification/Registry_Invariant.thy ===== *)
theory Registry_Invariant
  imports Registry_Index
begin

text \<open>
  The invariant of the registry over all its calls: the indexes agree with the records, the version
  links describe the tree of parents, and the stored checksum is the hash of the tracked hashes.
\<close>

section \<open>What the record operations do to the maps\<close>

lemma bookkeeping_fields [simp]:
  "rg_IpRecord (init_admin E s) = rg_IpRecord s"
  "rg_OwnerIps (init_admin E s) = rg_OwnerIps s"
  "rg_NextId (init_admin E s) = rg_NextId s"
  "rg_CommitmentOwner (init_admin E s) = rg_CommitmentOwner s"
  "rg_IpVersions (init_admin E s) = rg_IpVersions s"
  "rg_IpVersionChain (init_admin E s) = rg_IpVersionChain s"
  "rg_AnonymousOwner (init_admin E s) = rg_AnonymousOwner s"
  "rg_IpRecord (append_audit_entry E i w a s) = rg_IpRecord s"
  "rg_OwnerIps (append_audit_entry E i w a s) = rg_OwnerIps s"
  "rg_NextId (append_audit_entry E i w a s) = rg_NextId s"
  "rg_CommitmentOwner (append_audit_entry E i w a s) = rg_CommitmentOwner s"
  "rg_IpVersions (append_audit_entry E i w a s) = rg_IpVersions s"
  "rg_IpVersionChain (append_audit_entry E i w a s) = rg_IpVersionChain s"
  "rg_AnonymousOwner (append_audit_entry E i w a s) = rg_AnonymousOwner s"
  "rg_IpRecord (assign_to_shard i h s) = rg_IpRecord s"
  "rg_OwnerIps (assign_to_shard i h s) = rg_OwnerIps s"
  "rg_NextId (assign_to_shard i h s) = rg_NextId s"
  "rg_CommitmentOwner (assign_to_shard i h s) = rg_CommitmentOwner s"
  "rg_IpVersions (assign_to_shard i h s) = rg_IpVersions s"
  "rg_IpVersionChain (assign_to_shard i h s) = rg_IpVersionChain s"
  "rg_AnonymousOwner (assign_to_shard i h s) = rg_AnonymousOwner s"
  "rg_IpRecord (store_compressed_commitment i h s) = rg_IpRecord s"
  "rg_OwnerIps (store_compressed_commitment i h s) = rg_OwnerIps s"
  "rg_NextId (store_compressed_commitment i h s) = rg_NextId s"
  "rg_CommitmentOwner (store_compressed_commitment i h s) = rg_CommitmentOwner s"
  "rg_IpVersions (store_compressed_commitment i h s) = rg_IpVersions s"
  "rg_IpVersionChain (store_compressed_commitment i h s) = rg_IpVersionChain s"
  "rg_AnonymousOwner (store_compressed_commitment i h s) = rg_AnonymousOwner s"
  "rg_IpRecord (update_commitment_checksum E s) = rg_IpRecord s"
  "rg_OwnerIps (update_commitment_checksum E s) = rg_OwnerIps s"
  "rg_NextId (update_commitment_checksum E s) = rg_NextId s"
  "rg_CommitmentOwner (update_commitment_checksum E s) = rg_CommitmentOwner s"
  "rg_IpVersions (update_commitment_checksum E s) = rg_IpVersions s"
  "rg_IpVersionChain (update_commitment_checksum E s) = rg_IpVersionChain s"
  "rg_AnonymousOwner (update_commitment_checksum E s) = rg_AnonymousOwner s"
  "rg_IpRecord (bump k m s) = rg_IpRecord s"
  "rg_OwnerIps (bump k m s) = rg_OwnerIps s"
  "rg_NextId (bump k m s) = rg_NextId s"
  "rg_CommitmentOwner (bump k m s) = rg_CommitmentOwner s"
  "rg_IpVersions (bump k m s) = rg_IpVersions s"
  "rg_IpVersionChain (bump k m s) = rg_IpVersionChain s"
  "rg_AnonymousOwner (bump k m s) = rg_AnonymousOwner s"
  "rg_IpRecord (publish xs ys s) = rg_IpRecord s"
  "rg_OwnerIps (publish xs ys s) = rg_OwnerIps s"
  "rg_NextId (publish xs ys s) = rg_NextId s"
  "rg_CommitmentOwner (publish xs ys s) = rg_CommitmentOwner s"
  "rg_IpVersions (publish xs ys s) = rg_IpVersions s"
  "rg_IpVersionChain (publish xs ys s) = rg_IpVersionChain s"
  "rg_AnonymousOwner (publish xs ys s) = rg_AnonymousOwner s"
  by (simp_all add: init_admin_def append_audit_entry_def assign_to_shard_def
      store_compressed_commitment_def update_commitment_checksum_def state_simps Let_def
      split: option.splits)

definition fresh_record :: "nat \<Rightarrow> nat \<Rightarrow> address \<Rightarrow> bytes \<Rightarrow> nat option \<Rightarrow> IpRec" where
  "fresh_record i time ow h parent = \<lparr>ir_ip_id = i, ir_owner = ow, ir_commitment_hash = h,
     ir_timestamp = time, ir_revoked = False, ir_co_owners = [], ir_parent_ip_id = parent,
     ir_notary_signature = None\<rparr>"

text \<open>The effect every commit operation has on the indexes.\<close>

definition registers :: "nat \<Rightarrow> address \<Rightarrow> bytes \<Rightarrow> nat option \<Rightarrow> registry \<Rightarrow> registry \<Rightarrow> bool" where
  "registers time ow h parent s t \<longleftrightarrow>
     h \<noteq> replicate 32 0 \<and> rg_CommitmentOwner s h = None \<and> next_ip s + 1 < 2 ^ 64 \<and>
     rg_IpRecord t = (rg_IpRecord s)(next_ip s \<mapsto> fresh_record (next_ip s) time ow h parent) \<and>
     rg_NextId t = Some (next_ip s + 1) \<and>
     rg_CommitmentOwner t = (rg_CommitmentOwner s)(h \<mapsto> ow)"

definition indexes :: "address \<Rightarrow> registry \<Rightarrow> registry \<Rightarrow> bool" where
  "indexes ow s t \<longleftrightarrow>
     rg_OwnerIps t = (rg_OwnerIps s)(ow \<mapsto> ids_of (rg_OwnerIps s) ow @ [next_ip s])"

definition same_versions :: "registry \<Rightarrow> registry \<Rightarrow> bool" where
  "same_versions s t \<longleftrightarrow>
     rg_IpVersions t = rg_IpVersions s \<and> rg_IpVersionChain t = rg_IpVersionChain s"

lemmas effect_defs = registers_def indexes_def same_versions_def next_ip_def ids_of_def
  fresh_record_def

lemma commit_ip_effect:
  "commit_ip E ow h d s = Inr (i, t) \<Longrightarrow>
    i = next_ip s \<and> authorized E ow \<and> (d = 0 \<or> pow_loop h d) \<and>
    registers (now E) ow h None s t \<and> indexes ow s t \<and> same_versions s t"
  by (auto simp: commit_ip_def adjust_pow_difficulty_def require_pow_Inr effect_defs Let_def)

lemma commit_ip_delegated_effect:
  "commit_ip_delegated E ow h d s = Inr (i, t) \<Longrightarrow>
    i = next_ip s \<and> authorized E ow \<and> (d = 0 \<or> pow_loop h d) \<and>
    unwrap_or [] (rg_Delegates s ow) \<noteq> [] \<and>
    registers (now E) ow h None s t \<and> indexes ow s t \<and> same_versions s t"
  by (auto simp: commit_ip_delegated_def require_pow_Inr effect_defs Let_def split: if_splits)

lemma batch_commit_step_effect:
  "batch_commit_step E ow time h (ids, s) = Inr (ids', t) \<Longrightarrow>
    ids' = ids @ [next_ip s] \<and> registers time ow h None s t \<and> indexes ow s t \<and> same_versions s t"
  by (auto simp: batch_commit_step_def effect_defs Let_def)

lemma batch_commit_anonymous_step_effect:
  "batch_commit_anonymous_step E b time h (ids, s) = Inr (ids', t) \<Longrightarrow>
    ids' = ids @ [next_ip s] \<and> registers time (this_addr E) h None s t \<and>
    rg_OwnerIps t = rg_OwnerIps s \<and> same_versions s t"
  by (auto simp: batch_commit_anonymous_step_def effect_defs Let_def)

lemma create_ip_version_effect:
  assumes "create_ip_version E p h s = Inr (i, t)"
  obtains r root where "rg_IpRecord s p = Some r" "authorized E (ir_owner r)" "i = next_ip s"
    "ancestor_check s [] p = Some True"
    "registers (now E) (ir_owner r) h (Some p) s t" "indexes (ir_owner r) s t"
    "rg_IpVersions t = (rg_IpVersions s)(p \<mapsto> unwrap_or [] (rg_IpVersions s p) @ [next_ip s])"
    "find_root t p = Some root"
    "rg_IpVersionChain t =
      (rg_IpVersionChain s)(root \<mapsto> unwrap_or [root] (rg_IpVersionChain s root) @ [next_ip s])"
proof -
  let ?id = "next_ip s"
  from assms obtain r root u where r: "rg_IpRecord s p = Some r" "authorized E (ir_owner r)"
    and anc: "ancestor_check s [] p = Some True"
    and root: "find_root u p = Some root" "rg_IpRecord u = rg_IpRecord t"
    and eff: "i = ?id" "registers (now E) (ir_owner r) h (Some p) s t" "indexes (ir_owner r) s t"
      "rg_IpVersions t = (rg_IpVersions s)(p \<mapsto> unwrap_or [] (rg_IpVersions s p) @ [?id])"
      "rg_IpVersionChain t =
        (rg_IpVersionChain s)(root \<mapsto> unwrap_or [root] (rg_IpVersionChain s root) @ [?id])"
    unfolding create_ip_version_def Let_def
    by (elim bindE_InrE) (simp add: effect_defs split: if_splits, fastforce)
  from root have "find_root t p = Some root" by (metis find_root_records)
  with r anc eff show thesis by (intro that)
qed

definition same_indexes :: "registry \<Rightarrow> registry \<Rightarrow> bool" where
  "same_indexes s t \<longleftrightarrow>
     rg_OwnerIps t = rg_OwnerIps s \<and> rg_NextId t = rg_NextId s \<and>
     rg_CommitmentOwner t = rg_CommitmentOwner s \<and> same_versions s t"

lemma same_indexes_refl [simp]: "same_indexes s s"
  by (simp add: same_indexes_def same_versions_def)

text \<open>A record that keeps its identity: only the flags and the lists of a record change.\<close>

definition keeps_identity :: "IpRec \<Rightarrow> IpRec \<Rightarrow> bool" where
  "keeps_identity r q \<longleftrightarrow>
     ir_ip_id q = ir_ip_id r \<and> ir_owner q = ir_owner r \<and>
     ir_commitment_hash q = ir_commitment_hash r \<and> ir_parent_ip_id q = ir_parent_ip_id r \<and>
     ir_timestamp q = ir_timestamp r \<and> (ir_revoked r \<longrightarrow> ir_revoked q)"

lemma revoke_ip_effect:
  assumes "revoke_ip E i s = Inr t"
  obtains r where "rg_IpRecord s i = Some r" "authorized E (ir_owner r)" "\<not> ir_revoked r"
    "rg_IpRecord t = (rg_IpRecord s)(i \<mapsto> r\<lparr>ir_revoked := True\<rparr>)" "same_indexes s t"
  using assms by (auto simp: revoke_ip_def same_indexes_def same_versions_def Let_def)

lemma add_co_owner_effect:
  assumes "add_co_owner E i a s = Inr t"
  obtains r where "rg_IpRecord s i = Some r" "authorized E (ir_owner r)"
    "rg_IpRecord t = (rg_IpRecord s)(i \<mapsto> r\<lparr>ir_co_owners :=
       (if a \<in> set (ir_co_owners r) then ir_co_owners r
        else ir_co_owners r @ [a])\<rparr>)" "same_indexes s t"
  using assms
  by (auto simp: add_co_owner_def same_indexes_def same_versions_def Let_def map_upd_triv
      split: if_splits)

lemma remove_co_owner_effect:
  assumes "remove_co_owner E i a s = Inr t"
  obtains r where "rg_IpRecord s i = Some r" "authorized E (ir_owner r)"
    "rg_IpRecord t = (rg_IpRecord s)(i \<mapsto> r\<lparr>ir_co_owners :=
       (if a \<in> set (ir_co_owners r)
        then remove_first (\<lambda>addr. addr = a) (ir_co_owners r) else ir_co_owners r)\<rparr>)" "same_indexes s t"
  using assms
  by (auto simp: remove_co_owner_def same_indexes_def same_versions_def Let_def map_upd_triv
      split: if_splits)

lemma notarize_ip_timestamp_effect:
  assumes "notarize_ip_timestamp E i sig s = Inr t"
  obtains r k where "rg_IpRecord s i = Some r" "rg_NotaryPublicKey s = Some k"
    "length sig = 64" "ed25519_ok E k (be_bytes i @ be_bytes (ir_timestamp r)) sig"
    "rg_IpRecord t = (rg_IpRecord s)(i \<mapsto> r\<lparr>ir_notary_signature := Some sig\<rparr>)" "same_indexes s t"
  using assms
  by (auto simp: notarize_ip_timestamp_def same_indexes_def same_versions_def Let_def
      split: if_splits)

lemma merge_effect:
  assumes "merge_duplicate_commitment E i j s = Inr t"
  obtains r q where "rg_IpRecord s i = Some r" "rg_IpRecord s j = Some q"
    "authorized E (ir_owner r)" "ir_commitment_hash r = ir_commitment_hash q"
    "i = j \<longrightarrow> rg_IpRecord t = (rg_IpRecord s)(j \<mapsto> q\<lparr>ir_revoked := True\<rparr>)" "same_indexes s t"
  using assms
  by (auto simp: merge_duplicate_commitment_def same_indexes_def same_versions_def Let_def
      split: if_splits)

lemma transfer_ip_effect:
  assumes "transfer_ip E i a s = Inr t"
  obtains r ips where "rg_IpRecord s i = Some r" "authorized E (ir_owner r)"
    "ips = (rg_OwnerIps s)(ir_owner r \<mapsto> remove1 i (ids_of (rg_OwnerIps s) (ir_owner r)))"
    "rg_IpRecord t = (rg_IpRecord s)(i \<mapsto> r\<lparr>ir_owner := a\<rparr>)"
    "rg_OwnerIps t = ips(a \<mapsto> ids_of ips a @ [i])"
    "rg_CommitmentOwner t = (rg_CommitmentOwner s)(ir_commitment_hash r \<mapsto> a)"
    "rg_NextId t = rg_NextId s" "same_versions s t"
  using assms
  by (auto simp: transfer_ip_def same_versions_def ids_of_def remove_first_eq_remove1 Let_def)

lemma rotate_commitment_key_effect:
  assumes "rotate_commitment_key E i h x y s = Inr t"
  obtains r where "rg_IpRecord s i = Some r" "authorized E (ir_owner r)" "\<not> ir_revoked r"
    "sha256 E (x @ y) = ir_commitment_hash r" "h \<noteq> replicate 32 0" "rg_CommitmentOwner s h = None"
    "rg_IpRecord t = (rg_IpRecord s)(i \<mapsto> r\<lparr>ir_commitment_hash := h\<rparr>)"
    "rg_CommitmentOwner t =
      (rg_CommitmentOwner s)(ir_commitment_hash r := None, h \<mapsto> ir_owner r)"
    "rg_OwnerIps t = rg_OwnerIps s" "rg_NextId t = rg_NextId s" "same_versions s t"
    "rg_EncryptionKeyRotation t = (rg_EncryptionKeyRotation s)
      (i \<mapsto> unwrap_or [] (rg_EncryptionKeyRotation s i) @ [ir_commitment_hash r])"
  using assms
  by (auto simp: rotate_commitment_key_def same_versions_def state_simps Let_def split: if_splits)

section \<open>The changes of the records, as a relation\<close>

text \<open>
  Every call that changes the records does one of these; a batch does several. The environment of the
  call is an argument, for the authorisations a change needs.
\<close>

inductive record_change :: "env \<Rightarrow> registry \<Rightarrow> registry \<Rightarrow> bool" for E where
  new_record: "registers time ow h None s t \<Longrightarrow> length h = 32 \<Longrightarrow> authorized E ow \<Longrightarrow>
    indexes ow s t \<Longrightarrow> same_versions s t \<Longrightarrow> record_change E s t"
| new_anonymous: "registers time (this_addr E) h None s t \<Longrightarrow> length h = 32 \<Longrightarrow>
    rg_OwnerIps t = rg_OwnerIps s \<Longrightarrow> same_versions s t \<Longrightarrow> record_change E s t"
| new_version: "rg_IpRecord s p = Some r \<Longrightarrow> authorized E (ir_owner r) \<Longrightarrow>
    registers time (ir_owner r) h (Some p) s t \<Longrightarrow> length h = 32 \<Longrightarrow> indexes (ir_owner r) s t \<Longrightarrow>
    rg_IpVersions t = (rg_IpVersions s)(p \<mapsto> unwrap_or [] (rg_IpVersions s p) @ [next_ip s]) \<Longrightarrow>
    find_root t p = Some root \<Longrightarrow>
    rg_IpVersionChain t =
      (rg_IpVersionChain s)(root \<mapsto> unwrap_or [root] (rg_IpVersionChain s root) @ [next_ip s]) \<Longrightarrow>
    record_change E s t"
| same_identity: "rg_IpRecord s i = Some r \<Longrightarrow> keeps_identity r q \<Longrightarrow>
    rg_IpRecord t = (rg_IpRecord s)(i \<mapsto> q) \<Longrightarrow> same_indexes s t \<Longrightarrow>
    ir_revoked q = ir_revoked r \<or> authorized E (ir_owner r) \<Longrightarrow> record_change E s t"
| new_owner: "rg_IpRecord s i = Some r \<Longrightarrow> authorized E (ir_owner r) \<Longrightarrow>
    ips = (rg_OwnerIps s)(ir_owner r \<mapsto> remove1 i (ids_of (rg_OwnerIps s) (ir_owner r))) \<Longrightarrow>
    rg_IpRecord t = (rg_IpRecord s)(i \<mapsto> r\<lparr>ir_owner := a\<rparr>) \<Longrightarrow>
    rg_OwnerIps t = ips(a \<mapsto> ids_of ips a @ [i]) \<Longrightarrow>
    rg_CommitmentOwner t = (rg_CommitmentOwner s)(ir_commitment_hash r \<mapsto> a) \<Longrightarrow>
    rg_NextId t = rg_NextId s \<Longrightarrow> same_versions s t \<Longrightarrow> record_change E s t"
| new_hash: "rg_IpRecord s i = Some r \<Longrightarrow> authorized E (ir_owner r) \<Longrightarrow> \<not> ir_revoked r \<Longrightarrow>
    h \<noteq> replicate 32 0 \<Longrightarrow> rg_CommitmentOwner s h = None \<Longrightarrow> length h = 32 \<Longrightarrow>
    rg_IpRecord t = (rg_IpRecord s)(i \<mapsto> r\<lparr>ir_commitment_hash := h\<rparr>) \<Longrightarrow>
    rg_CommitmentOwner t = (rg_CommitmentOwner s)(ir_commitment_hash r := None, h \<mapsto> ir_owner r) \<Longrightarrow>
    rg_OwnerIps t = rg_OwnerIps s \<Longrightarrow> rg_NextId t = rg_NextId s \<Longrightarrow> same_versions s t \<Longrightarrow>
    record_change E s t"
| bookkeeping: "rg_IpRecord t = rg_IpRecord s \<Longrightarrow> same_indexes s t \<Longrightarrow> record_change E s t"

definition registry_index :: "address \<Rightarrow> registry \<Rightarrow> bool" where
  "registry_index self s \<longleftrightarrow>
     index_ok self (rg_IpRecord s) (rg_OwnerIps s) (next_ip s) (rg_CommitmentOwner s)"

lemma registers_index:
  assumes "registry_index self s" and "registers time ow h parent s t" and "length h = 32"
    and "\<And>p. parent = Some p \<Longrightarrow> rg_IpRecord s p \<noteq> None"
    and "indexes ow s t \<or> (rg_OwnerIps t = rg_OwnerIps s \<and> ow = self)"
  shows "registry_index self t"
proof -
  let ?r = "fresh_record (next_ip s) time ow h parent"
  have "index_ok self ((rg_IpRecord s)(next_ip s \<mapsto> ?r)) (rg_OwnerIps t) (next_ip s + 1)
      ((rg_CommitmentOwner s)(ir_commitment_hash ?r \<mapsto> ir_owner ?r))"
    using assms unfolding registry_index_def
    by (intro index_insert) (auto simp: registers_def indexes_def fresh_record_def)
  then show ?thesis
    using assms(2) by (simp add: registry_index_def registers_def next_ip_def fresh_record_def)
qed

lemma record_change_index:
  assumes "record_change E s t" and ok: "registry_index (this_addr E) s"
  shows "registry_index (this_addr E) t"
  using assms(1)
proof cases
  case new_record
  from new_record(4) show ?thesis by (intro registers_index [OF ok new_record(1,2)]) simp_all
next
  case new_anonymous
  from new_anonymous(3) show ?thesis
    by (intro registers_index [OF ok new_anonymous(1,2)]) simp_all
next
  case (new_version p r)
  from new_version(1,5) show ?thesis
    by (intro registers_index [OF ok new_version(3,4)]) simp_all
next
  case (same_identity i r q)
  with index_same [OF ok [unfolded registry_index_def], of i r q] show ?thesis
    by (simp add: registry_index_def same_indexes_def keeps_identity_def next_ip_def)
next
  case (new_owner i r ips a)
  with index_transfer [OF ok [unfolded registry_index_def], of i r ips a] show ?thesis
    by (simp add: registry_index_def next_ip_def)
next
  case (new_hash i r h)
  with index_rotate [OF ok [unfolded registry_index_def], of i r h] show ?thesis
    by (simp add: registry_index_def next_ip_def)
next
  case bookkeeping
  with ok show ?thesis by (simp add: registry_index_def same_indexes_def next_ip_def)
qed

lemma record_changes_index:
  "(record_change E)\<^sup>*\<^sup>* s t \<Longrightarrow> registry_index (this_addr E) s \<Longrightarrow> registry_index (this_addr E) t"
  by (induction rule: rtranclp_induct) (auto intro: record_change_index)

section \<open>Every call does such changes\<close>

lemma batch_commit_changes:
  assumes "foldE (batch_commit_step E ow time) hs (ids, s) = Inr (ids', t)"
    and "\<forall>h \<in> set hs. length h = 32" and "authorized E ow"
  shows "(record_change E)\<^sup>*\<^sup>* s t"
  using assms
proof (induction hs arbitrary: ids s)
  case (Cons h hs)
  then obtain ids2 u where step: "batch_commit_step E ow time h (ids, s) = Inr (ids2, u)"
    and rest: "foldE (batch_commit_step E ow time) hs (ids2, u) = Inr (ids', t)" by auto
  from batch_commit_step_effect [OF step] Cons.prems have "record_change E s u"
    by (auto intro: new_record)
  moreover from Cons.IH [OF rest] Cons.prems have "(record_change E)\<^sup>*\<^sup>* u t" by simp
  ultimately show ?case by (rule converse_rtranclp_into_rtranclp)
qed simp

lemma batch_commit_anonymous_changes:
  assumes "foldE (batch_commit_anonymous_step E b time) hs (ids, s) = Inr (ids', t)"
    and "\<forall>h \<in> set hs. length h = 32"
  shows "(record_change E)\<^sup>*\<^sup>* s t"
  using assms
proof (induction hs arbitrary: ids s)
  case (Cons h hs)
  then obtain ids2 u where step: "batch_commit_anonymous_step E b time h (ids, s) = Inr (ids2, u)"
    and rest: "foldE (batch_commit_anonymous_step E b time) hs (ids2, u) = Inr (ids', t)" by auto
  from batch_commit_anonymous_step_effect [OF step] Cons.prems have "record_change E s u"
    by (auto intro: new_anonymous)
  moreover from Cons.IH [OF rest] Cons.prems have "(record_change E)\<^sup>*\<^sup>* u t" by simp
  ultimately show ?case by (rule converse_rtranclp_into_rtranclp)
qed simp

lemma bookkeeping_changes [simp]:
  "record_change E s (init_admin E s)" "record_change E s (update_commitment_checksum E s)"
  by (rule bookkeeping; simp add: same_indexes_def same_versions_def)+

lemma record_updateI:
  "rg_IpRecord t = (rg_IpRecord s)(i \<mapsto> q) \<Longrightarrow> rg_IpRecord s i = Some r \<Longrightarrow> keeps_identity r q \<Longrightarrow>
    same_indexes s t \<Longrightarrow> ir_revoked q = ir_revoked r \<or> authorized E (ir_owner r) \<Longrightarrow>
    record_change E s t"
  by (rule same_identity)

lemma create_ip_version_change:
  assumes "create_ip_version E p h s = Inr (i, t)" and "length h = 32"
  shows "record_change E s t"
  by (rule create_ip_version_effect [OF assms(1)]) (use assms(2) in \<open>blast intro: new_version\<close>)

lemma transfer_ip_change: "transfer_ip E i a s = Inr t \<Longrightarrow> record_change E s t"
  by (erule transfer_ip_effect) (blast intro: new_owner)

lemma exec_record_changes:
  assumes run: "exec_record E c s = Inr t" and len: "\<forall>h \<in> set (record_hashes c). length h = 32"
    and ok: "registry_index (this_addr E) s"
  shows "(record_change E)\<^sup>*\<^sup>* s t"
proof (cases c)
  case (CommitIp ow h d)
  with run len show ?thesis by (auto dest!: commit_ip_effect intro: new_record)
next
  case (BatchCommitIp ow hs)
  with run obtain ids u where "foldE (batch_commit_step E ow (now E)) hs ([], init_admin E s) = Inr (ids, u)"
    "authorized E ow" and t: "t = update_commitment_checksum E u"
    by (auto simp: batch_commit_ip_def Let_def)
  with BatchCommitIp len have "(record_change E)\<^sup>*\<^sup>* (init_admin E s) u"
    by (auto intro: batch_commit_changes)
  then show ?thesis unfolding t
    by (meson bookkeeping_changes converse_rtranclp_into_rtranclp rtranclp.rtrancl_into_rtrancl)
next
  case (BatchCommitIpAnonymous b hs)
  with run obtain ids u where
    "foldE (batch_commit_anonymous_step E b (now E)) hs ([], init_admin E s) = Inr (ids, u)"
    and t: "t = update_commitment_checksum E u"
    by (auto simp: batch_commit_ip_anonymous_def Let_def)
  with BatchCommitIpAnonymous len have "(record_change E)\<^sup>*\<^sup>* (init_admin E s) u"
    by (auto intro: batch_commit_anonymous_changes)
  then show ?thesis unfolding t
    by (meson bookkeeping_changes converse_rtranclp_into_rtranclp rtranclp.rtrancl_into_rtrancl)
next
  case (CommitIpDelegated ow h d)
  with run len show ?thesis by (auto dest!: commit_ip_delegated_effect intro: new_record)
next
  case (CreateIpVersion p h)
  with run len show ?thesis by (auto intro: create_ip_version_change)
next
  case (CommitIpVersion ow h p)
  with run len show ?thesis by (auto simp: commit_ip_version_def intro: create_ip_version_change)
next
  case (TransferIp i a)
  with run show ?thesis by (auto intro: transfer_ip_change)
next
  case (TransferIpOwnership i a)
  with run show ?thesis by (auto simp: transfer_ip_ownership_def intro: transfer_ip_change)
next
  case (RevokeIp i)
  with run have "revoke_ip E i s = Inr t" by simp
  then show ?thesis
    by (rule revoke_ip_effect) (auto intro!: r_into_rtranclp record_updateI simp: keeps_identity_def)
next
  case (AddCoOwner i a)
  with run have "add_co_owner E i a s = Inr t" by simp
  then show ?thesis
    by (rule add_co_owner_effect) (auto intro!: r_into_rtranclp record_updateI simp: keeps_identity_def)
next
  case (RemoveCoOwner i a)
  with run have "remove_co_owner E i a s = Inr t" by simp
  then show ?thesis
    by (rule remove_co_owner_effect) (auto intro!: r_into_rtranclp record_updateI simp: keeps_identity_def)
next
  case (MergeDuplicate i j)
  with run have "merge_duplicate_commitment E i j s = Inr t" by simp
  then obtain r q where rq: "rg_IpRecord s i = Some r" "rg_IpRecord s j = Some q"
    "ir_commitment_hash r = ir_commitment_hash q" "authorized E (ir_owner r)" "same_indexes s t"
    and t: "i = j \<longrightarrow> rg_IpRecord t = (rg_IpRecord s)(j \<mapsto> q\<lparr>ir_revoked := True\<rparr>)"
    by (rule merge_effect)
  have "i = j" using index_unique [OF ok [unfolded registry_index_def] rq(1-3)] .
  with rq t show ?thesis
    by (intro r_into_rtranclp same_identity [of s j q "q\<lparr>ir_revoked := True\<rparr>"])
      (auto simp: keeps_identity_def)
next
  case (RotateCommitmentKey i h x y)
  with run have "rotate_commitment_key E i h x y s = Inr t" by simp
  then show ?thesis
    by (rule rotate_commitment_key_effect)
      (use len RotateCommitmentKey in \<open>auto intro: new_hash\<close>)
next
  case (NotarizeIpTimestamp i sig)
  with run have "notarize_ip_timestamp E i sig s = Inr t" by simp
  then show ?thesis
    by (rule notarize_ip_timestamp_effect)
      (auto intro!: r_into_rtranclp record_updateI simp: keeps_identity_def)
qed

lemma keeps_core_change: "keeps_core s t \<Longrightarrow> record_change E s t"
  by (auto simp: keeps_core_def core_view_def same_indexes_def same_versions_def intro: bookkeeping)

text \<open>A call and a step of the registry, seen on the records.\<close>

lemma exec_registry_changes:
  assumes "exec_registry E c s = Inr t" and "\<forall>h \<in> set (call_hashes c). length h = 32"
    and "registry_index (this_addr E) s"
  shows "(record_change E)\<^sup>*\<^sup>* s t"
proof (cases c)
  case (Records r)
  with assms show ?thesis by (auto simp: call_hashes_def intro: exec_record_changes)
qed (use assms(1) in \<open>auto dest!: exec_frames intro: keeps_core_change\<close>)

lemma registry_step_changes:
  assumes "registry_step H s t" and "registry_index (this_addr H) s"
  obtains E where "same_host H E" and "(record_change E)\<^sup>*\<^sup>* s t"
  using assms by (auto elim!: registry_stepE simp: same_host_def dest: exec_registry_changes)

lemma registry_step_index:
  assumes "registry_step H s t" and "registry_index (this_addr H) s"
  shows "registry_index (this_addr H) t"
  using assms
  by (rule registry_step_changes) (metis assms(2) record_changes_index same_host_def)

lemma registry_index_empty: "registry_index self empty_registry"
  by (simp add: registry_index_def index_ok_def empty_registry_def next_ip_def ids_of_def)

interpretation records: invariant_system deployed "registry_step H" "registry_index (this_addr H)" for H
  by unfold_locales (auto simp: deployed_def registry_index_empty intro: registry_step_index)

end
