(* ===== verification/Registry_Lineage.thy ===== *)
theory Registry_Lineage
  imports Registry_Invariant
begin

text \<open>
  The stored version lists are exactly the tree of the parent links: the direct versions of a record
  are its children, and the chain under a root is the family of that root, in the order of the ids.
\<close>

section \<open>The invariant\<close>

definition parent_of :: "registry \<Rightarrow> nat \<Rightarrow> nat option" where
  "parent_of s i = Option.bind (rg_IpRecord s i) ir_parent_ip_id"

definition children :: "registry \<Rightarrow> nat \<Rightarrow> nat list" where
  "children s p = filter (\<lambda>j. parent_of s j = Some p) [1..<next_ip s]"

definition family :: "registry \<Rightarrow> nat \<Rightarrow> nat list" where
  "family s root = filter (\<lambda>j. find_root s j = Some root) [1..<next_ip s]"

definition versions_ok :: "registry \<Rightarrow> bool" where
  "versions_ok s \<longleftrightarrow>
     (\<forall>p. unwrap_or [] (rg_IpVersions s p) = children s p) \<and>
     (\<forall>root r. rg_IpRecord s root = Some r \<longrightarrow> ir_parent_ip_id r = None \<longrightarrow>
        unwrap_or [root] (rg_IpVersionChain s root) = family s root) \<and>
     (\<forall>i. rg_IpRecord s i = None \<longrightarrow> rg_IpVersionChain s i = None)"

lemma index_parents_older: "registry_index self s \<Longrightarrow> parents_older s"
  unfolding registry_index_def parents_older_def
  by (meson index_record record_ok_def)

lemma index_next_None: "registry_index self s \<Longrightarrow> rg_IpRecord s (next_ip s) = None"
  unfolding registry_index_def by (rule index_fresh)

lemma index_next_pos: "registry_index self s \<Longrightarrow> 1 \<le> next_ip s"
  unfolding registry_index_def by (rule index_next)

lemma index_exists_iff: "registry_index self s \<Longrightarrow> rg_IpRecord s i \<noteq> None \<longleftrightarrow> 1 \<le> i \<and> i < next_ip s"
  using index_dom [of self "rg_IpRecord s" _ "next_ip s"] unfolding registry_index_def dom_def
  by fastforce

section \<open>New records\<close>



lemma registers_next: "registers time ow h parent s t \<Longrightarrow> next_ip t = next_ip s + 1"
  by (simp add: registers_def next_ip_def)

lemma registers_parent_of:
  "registers time ow h parent s t \<Longrightarrow>
    parent_of t j = (if j = next_ip s then parent else parent_of s j)"
  by (simp add: registers_def parent_of_def fresh_record_def)

lemma registers_find_root_old:
  assumes "registry_index self s" and "registers time ow h parent s t" and "j < next_ip s"
  shows "find_root t j = find_root s j"
  using index_parents_older [OF assms(1)] assms(3)
  by (rule find_root_cong) (use assms(2) in \<open>auto simp: registers_def\<close>)

lemma registers_find_root_new:
  assumes "registers time ow h parent s t"
  shows "find_root t (next_ip s) = (case parent of None \<Rightarrow> Some (next_ip s) | Some p \<Rightarrow> find_root t p)"
  using assms
  by (subst find_root.simps) (auto simp: registers_def fresh_record_def split: option.splits)

lemma registers_children:
  assumes "registry_index self s" and "registers time ow h parent s t"
  shows "children t p = children s p @ (if parent = Some p then [next_ip s] else [])"
proof -
  have "filter (\<lambda>j. parent_of t j = Some p) [1..<next_ip s] = children s p"
    unfolding children_def
    by (rule filter_cong) (use assms(2) in \<open>auto simp: registers_parent_of\<close>)
  then show ?thesis
    using assms index_next_pos [OF assms(1)]
    by (simp add: children_def registers_next [OF assms(2)] registers_parent_of [OF assms(2)])
qed

lemma registers_family:
  assumes "registry_index self s" and "registers time ow h parent s t"
  shows "family t root = family s root @ (if find_root t (next_ip s) = Some root then [next_ip s] else [])"
proof -
  have "filter (\<lambda>j. find_root t j = Some root) [1..<next_ip s] = family s root"
    unfolding family_def
    by (rule filter_cong) (use registers_find_root_old [OF assms] in auto)
  then show ?thesis
    using index_next_pos [OF assms(1)] by (simp add: family_def registers_next [OF assms(2)])
qed

lemma find_root_le: "registry_index self s \<Longrightarrow> 1 \<le> j \<Longrightarrow> j < next_ip s \<Longrightarrow>
    \<exists>root r. find_root s j = Some root \<and> root \<le> j \<and> rg_IpRecord s root = Some r \<and>
      ir_parent_ip_id r = None"
  using find_root_returns [OF index_parents_older] index_exists_iff by blast

lemma family_fresh:
  assumes "registry_index self s"
  shows "family s (next_ip s) = []"
proof -
  have "find_root s j \<noteq> Some (next_ip s)" if "1 \<le> j" "j < next_ip s" for j
    using find_root_le [OF assms that] that by auto
  then show ?thesis by (auto simp: family_def filter_empty_conv)
qed

section \<open>Changes that keep the parents\<close>

definition same_parents :: "registry \<Rightarrow> registry \<Rightarrow> bool" where
  "same_parents s t \<longleftrightarrow> next_ip t = next_ip s \<and> same_versions s t \<and>
     (\<forall>j. map_option ir_parent_ip_id (rg_IpRecord t j) = map_option ir_parent_ip_id (rg_IpRecord s j))"

lemma same_parents_update:
  assumes "rg_IpRecord s i = Some r" and "rg_IpRecord t = (rg_IpRecord s)(i \<mapsto> q)"
    and "ir_parent_ip_id q = ir_parent_ip_id r" and "same_versions s t" and "rg_NextId t = rg_NextId s"
  shows "same_parents s t"
  using assms by (simp add: same_parents_def next_ip_def)

lemma same_parents_versions:
  assumes "registry_index self s" and "versions_ok s" and "same_parents s t"
  shows "versions_ok t"
proof -
  have eq: "map_option ir_parent_ip_id (rg_IpRecord t j) = map_option ir_parent_ip_id (rg_IpRecord s j)" for j
    using assms(3) by (simp add: same_parents_def)
  have root: "find_root t j = find_root s j" for j
    using index_parents_older [OF assms(1)] lessI by (rule find_root_cong) (rule eq)
  have parent: "parent_of t j = parent_of s j" for j
    using eq [of j] by (cases "rg_IpRecord s j"; cases "rg_IpRecord t j") (auto simp: parent_of_def)
  have "children t p = children s p" "family t p = family s p" for p
    using assms(3) by (simp_all add: children_def family_def parent root same_parents_def)
  moreover have "(\<exists>r. rg_IpRecord t j = Some r \<and> ir_parent_ip_id r = None) \<longleftrightarrow>
      (\<exists>r. rg_IpRecord s j = Some r \<and> ir_parent_ip_id r = None)"
    and "rg_IpRecord t j = None \<longleftrightarrow> rg_IpRecord s j = None" for j
    using eq [of j] by (cases "rg_IpRecord s j"; cases "rg_IpRecord t j"; auto)+
  ultimately show ?thesis
    using assms(2,3) unfolding versions_ok_def same_parents_def same_versions_def by metis
qed

lemma new_root_versions:
  assumes ok: "registry_index self s" and vs: "versions_ok s"
    and reg: "registers time ow h None s t" and same: "same_versions s t"
  shows "versions_ok t"
  unfolding versions_ok_def
proof (intro conjI allI impI)
  note same = same [unfolded same_versions_def]
  show "unwrap_or [] (rg_IpVersions t p) = children t p" for p
    using vs same by (simp add: versions_ok_def registers_children [OF ok reg])
  fix i
  show "rg_IpVersionChain t i = None" if "rg_IpRecord t i = None"
    using that vs same reg by (auto simp: versions_ok_def registers_def split: if_splits)
  fix r assume r: "rg_IpRecord t i = Some r" "ir_parent_ip_id r = None"
  show "unwrap_or [i] (rg_IpVersionChain t i) = family t i"
  proof (cases "i = next_ip s")
    case True
    then have "rg_IpVersionChain s i = None"
      using vs index_next_None [OF ok] by (simp add: versions_ok_def)
    with True show ?thesis
      using same by (simp add: registers_family [OF ok reg] registers_find_root_new [OF reg]
          family_fresh [OF ok])
  next
    case False
    with r have "rg_IpRecord s i = Some r" using reg by (simp add: registers_def)
    with False r(2) show ?thesis
      using vs same by (simp add: versions_ok_def registers_family [OF ok reg]
          registers_find_root_new [OF reg])
  qed
qed

lemma new_version_versions:
  assumes ok: "registry_index self s" and vs: "versions_ok s" and p: "rg_IpRecord s p \<noteq> None"
    and reg: "registers time ow h (Some p) s t"
    and versions: "rg_IpVersions t = (rg_IpVersions s)(p \<mapsto> unwrap_or [] (rg_IpVersions s p) @ [next_ip s])"
    and root: "find_root t p = Some root"
    and chain: "rg_IpVersionChain t =
      (rg_IpVersionChain s)(root \<mapsto> unwrap_or [root] (rg_IpVersionChain s root) @ [next_ip s])"
  shows "versions_ok t"
  unfolding versions_ok_def
proof (intro conjI allI impI)
  show "unwrap_or [] (rg_IpVersions t q) = children t q" for q
    using vs versions by (simp add: versions_ok_def registers_children [OF ok reg])
  have p': "1 \<le> p" "p < next_ip s" using index_exists_iff [OF ok] p by auto
  then have "find_root s p = Some root"
    using registers_find_root_old [OF ok reg] root by simp
  with find_root_le [OF ok p'] obtain r0 where
    r0: "root \<le> p" "rg_IpRecord s root = Some r0" "ir_parent_ip_id r0 = None" by auto
  fix i
  show "rg_IpVersionChain t i = None" if "rg_IpRecord t i = None"
    using that vs reg chain r0 by (auto simp: versions_ok_def registers_def split: if_splits)
  fix r assume r: "rg_IpRecord t i = Some r" "ir_parent_ip_id r = None"
  have "i \<noteq> next_ip s" using r reg by (auto simp: registers_def fresh_record_def)
  with r(1) have "rg_IpRecord s i = Some r" using reg by (simp add: registers_def)
  with r(2) show "unwrap_or [i] (rg_IpVersionChain t i) = family t i"
    using vs root chain by (auto simp: versions_ok_def registers_family [OF ok reg]
        registers_find_root_new [OF reg])
qed

lemma record_change_versions:
  assumes "record_change E s t" and ok: "registry_index self s" and vs: "versions_ok s"
  shows "versions_ok t"
  using assms(1)
proof cases
  case new_record
  show ?thesis by (rule new_root_versions [OF ok vs new_record(1,5)])
next
  case new_anonymous
  show ?thesis by (rule new_root_versions [OF ok vs new_anonymous(1,4)])
next
  case (new_version p r)
  show ?thesis
    by (rule new_version_versions [OF ok vs _ new_version(3,6,7,8)]) (simp add: new_version(1))
next
  case (same_identity i r q)
  from same_identity(2,4) show ?thesis
    by (intro same_parents_versions [OF ok vs same_parents_update [OF same_identity(1,3)]])
      (simp_all add: keeps_identity_def same_indexes_def)
next
  case (new_owner i r ips a)
  from new_owner(7,8) show ?thesis
    by (intro same_parents_versions [OF ok vs same_parents_update [OF new_owner(1,4)]]) simp_all
next
  case (new_hash i r h)
  from new_hash(10,11) show ?thesis
    by (intro same_parents_versions [OF ok vs same_parents_update [OF new_hash(1,7)]]) simp_all
next
  case bookkeeping
  then show ?thesis
    by (intro same_parents_versions [OF ok vs])
      (simp add: same_parents_def same_indexes_def next_ip_def)
qed

definition lineage_inv :: "address \<Rightarrow> registry \<Rightarrow> bool" where
  "lineage_inv self s \<longleftrightarrow> registry_index self s \<and> versions_ok s"

lemma record_changes_lineage:
  "(record_change E)\<^sup>*\<^sup>* s t \<Longrightarrow> lineage_inv (this_addr E) s \<Longrightarrow> lineage_inv (this_addr E) t"
  by (induction rule: rtranclp_induct)
    (auto simp: lineage_inv_def intro: record_change_index record_change_versions)

lemma registry_step_lineage:
  assumes "registry_step H s t" and "lineage_inv (this_addr H) s"
  shows "lineage_inv (this_addr H) t"
proof -
  from assms(2) have "registry_index (this_addr H) s" by (simp add: lineage_inv_def)
  with assms(1) obtain E where "same_host H E" "(record_change E)\<^sup>*\<^sup>* s t"
    by (rule registry_step_changes)
  with assms(2) record_changes_lineage show ?thesis by (metis same_host_def)
qed

lemma lineage_inv_empty: "lineage_inv self empty_registry"
  by (simp add: lineage_inv_def registry_index_empty)
    (simp add: versions_ok_def children_def family_def empty_registry_def next_ip_def)

interpretation lineage: invariant_system deployed "registry_step H" "lineage_inv (this_addr H)" for H
  by unfold_locales (auto simp: deployed_def lineage_inv_empty intro: registry_step_lineage)

end
