(* ===== verification/Registry_History.thy ===== *)
theory Registry_History
  imports Registry_Lineage
begin

text \<open>
  What never changes: identifiers are handed out once, a record keeps its id, its timestamp and its
  parent, a revoked record stays revoked, the audit trail of a record only grows, and the stored
  checksum is always the hash of the tracked hashes. The registry with its redundant indexes refines
  an abstract ledger, a list of entries.
\<close>

section \<open>Identifiers\<close>

lemma record_change_next: "record_change E s t \<Longrightarrow> next_ip s \<le> next_ip t"
  by (cases rule: record_change.cases)
    (auto simp: registers_def same_indexes_def next_ip_def)

lemma record_changes_next: "(record_change E)\<^sup>*\<^sup>* s t \<Longrightarrow> next_ip s \<le> next_ip t"
  by (induction rule: rtranclp_induct) (auto dest: record_change_next)

definition ip_ids :: "registry \<Rightarrow> nat set" where
  "ip_ids s = {i. i \<noteq> 0 \<and> rg_IpRecord s i \<noteq> None}"

lemma ip_ids_index: "registry_index self s \<Longrightarrow> ip_ids s = {1..<next_ip s}"
  unfolding ip_ids_def using index_exists_iff [of self s] by fastforce

interpretation ip_counter: id_counter deployed "registry_step H" "registry_index (this_addr H)"
  ip_ids next_ip for H
proof unfold_locales
  show "deployed s \<Longrightarrow> ip_ids s = {}" for s
    by (simp add: deployed_def ip_ids_def empty_registry_def)
  fix s t
  assume ok: "registry_index (this_addr H) s" and st: "registry_step H s t"
  from st ok obtain E where "(record_change E)\<^sup>*\<^sup>* s t" by (rule registry_step_changes)
  then have "next_ip s \<le> next_ip t" by (rule record_changes_next)
  moreover have "registry_index (this_addr H) t" by (rule registry_step_index [OF st ok])
  moreover have "1 \<le> next_ip s" by (rule index_next_pos [OF ok])
  ultimately show "ip_ids t = ip_ids s \<union> {next_ip s..<next_ip t} \<and> next_ip s \<le> next_ip t"
    using ok by (auto simp: ip_ids_index)
qed

section \<open>Permanent fields of a record\<close>

definition record_le :: "IpRec \<Rightarrow> IpRec \<Rightarrow> bool" where
  "record_le r q \<longleftrightarrow> ir_ip_id q = ir_ip_id r \<and> ir_timestamp q = ir_timestamp r \<and>
     ir_parent_ip_id q = ir_parent_ip_id r \<and>
     (ir_revoked r \<longrightarrow> ir_revoked q \<and> ir_commitment_hash q = ir_commitment_hash r)"

definition records_le :: "registry \<Rightarrow> registry \<Rightarrow> bool" where
  "records_le s t \<longleftrightarrow>
     (\<forall>i r. rg_IpRecord s i = Some r \<longrightarrow> (\<exists>q. rg_IpRecord t i = Some q \<and> record_le r q))"

lemma record_le_refl [simp]: "record_le r r"
  by (simp add: record_le_def)

lemma record_le_trans: "record_le r q \<Longrightarrow> record_le q p \<Longrightarrow> record_le r p"
  by (simp add: record_le_def)

lemma records_le_refl [simp]: "records_le s s"
  by (simp add: records_le_def)

lemma records_le_trans: "records_le s t \<Longrightarrow> records_le t u \<Longrightarrow> records_le s u"
  unfolding records_le_def by (meson record_le_trans)

lemma records_le_update:
  assumes "rg_IpRecord s i = Some r" and "rg_IpRecord t = (rg_IpRecord s)(i \<mapsto> q)"
    and "record_le r q"
  shows "records_le s t"
  using assms by (simp add: records_le_def)

lemma registers_records_le:
  "registry_index self s \<Longrightarrow> registers time ow h parent s t \<Longrightarrow> records_le s t"
  using index_next_None [of self s] by (auto simp: registers_def records_le_def)

lemma record_change_le:
  assumes "record_change E s t" and ok: "registry_index self s"
  shows "records_le s t"
  using assms(1)
proof cases
  case new_record
  show ?thesis by (rule registers_records_le [OF ok new_record(1)])
next
  case new_anonymous
  show ?thesis by (rule registers_records_le [OF ok new_anonymous(1)])
next
  case new_version
  show ?thesis by (rule registers_records_le [OF ok new_version(3)])
next
  case (same_identity i r q)
  from same_identity(2) show ?thesis
    by (intro records_le_update [OF same_identity(1,3)]) (simp_all add: keeps_identity_def record_le_def)
next
  case (new_owner i r ips a)
  show ?thesis by (rule records_le_update [OF new_owner(1,4)]) (simp add: record_le_def)
next
  case (new_hash i r h)
  from new_hash(3) show ?thesis by (intro records_le_update [OF new_hash(1,7)]) (simp add: record_le_def)
next
  case bookkeeping
  then show ?thesis by (simp add: records_le_def)
qed

lemma record_changes_le:
  assumes "(record_change E)\<^sup>*\<^sup>* s t" and "registry_index (this_addr E) s"
  shows "records_le s t"
  using assms
proof (induction rule: rtranclp_induct)
  case (step t u)
  then have "registry_index (this_addr E) t" by (blast intro: record_changes_index)
  with step show ?case by (blast intro: records_le_trans record_change_le)
qed simp

interpretation permanence: monotone_system deployed "registry_step H" "registry_index (this_addr H)"
  records_le for H
proof unfold_locales
  fix s t assume ok: "registry_index (this_addr H) s" and st: "registry_step H s t"
  from st ok obtain E where "same_host H E" "(record_change E)\<^sup>*\<^sup>* s t" by (rule registry_step_changes)
  with ok show "records_le s t" by (intro record_changes_le [of E]) (simp_all add: same_host_def)
qed (auto intro: records_le_trans)

section \<open>Who can change owner and hash\<close>

text \<open>A call that changes the owner or the hash of a record carries its owner's signature.\<close>

lemma record_change_signed:
  assumes "record_change E s t" and ok: "registry_index self s" and i: "rg_IpRecord s i = Some r"
  shows "\<exists>q. rg_IpRecord t i = Some q \<and>
    ((ir_owner q = ir_owner r \<and> ir_commitment_hash q = ir_commitment_hash r) \<or> authorized E (ir_owner r))"
proof -
  have "i \<noteq> next_ip s" using index_next_None [OF ok] i by auto
  with assms(1) i show ?thesis
    by (cases rule: record_change.cases)
      (auto simp: registers_def same_indexes_def keeps_identity_def)
qed

lemma record_changes_signed:
  assumes "(record_change E)\<^sup>*\<^sup>* s t" and "registry_index (this_addr E) s"
    and "rg_IpRecord s i = Some r"
  shows "\<exists>q. rg_IpRecord t i = Some q \<and>
    ((ir_owner q = ir_owner r \<and> ir_commitment_hash q = ir_commitment_hash r) \<or> authorized E (ir_owner r))"
  using assms
proof (induction rule: rtranclp_induct)
  case (step t u)
  then obtain q where q: "rg_IpRecord t i = Some q" and
    "(ir_owner q = ir_owner r \<and> ir_commitment_hash q = ir_commitment_hash r) \<or> authorized E (ir_owner r)"
    by blast
  moreover from step have "registry_index (this_addr E) t" by (blast intro: record_changes_index)
  from record_change_signed [OF step.hyps(2) this q] obtain q' where "rg_IpRecord u i = Some q'" and
    "(ir_owner q' = ir_owner q \<and> ir_commitment_hash q' = ir_commitment_hash q) \<or> authorized E (ir_owner q)"
    by blast
  ultimately show ?case by auto
qed simp

section \<open>The audit trail\<close>

definition audit_trail :: "registry \<Rightarrow> nat \<Rightarrow> AuditEntry list" where
  "audit_trail s i = unwrap_or [] (rg_IpAuditTrail s i)"

lemma bookkeeping_audit [simp]:
  "rg_IpAuditTrail (init_admin E s) = rg_IpAuditTrail s"
  "rg_IpAuditTrail (assign_to_shard i h s) = rg_IpAuditTrail s"
  "rg_IpAuditTrail (store_compressed_commitment i h s) = rg_IpAuditTrail s"
  "rg_IpAuditTrail (update_commitment_checksum E s) = rg_IpAuditTrail s"
  "rg_IpAuditTrail (bump k n s) = rg_IpAuditTrail s"
  "rg_IpAuditTrail (publish xs ys s) = rg_IpAuditTrail s"
  by (simp_all add: init_admin_def assign_to_shard_def store_compressed_commitment_def
      update_commitment_checksum_def state_simps Let_def split: option.splits)

lemma audit_append [simp]:
  "audit_trail (append_audit_entry E i w a s) j = audit_trail s j @
     (if j = i then [\<lparr>au_action = w, au_actor = a, au_timestamp = now E\<rparr>] else [])"
  by (simp add: audit_trail_def append_audit_entry_def Let_def)

definition audit_le :: "registry \<Rightarrow> registry \<Rightarrow> bool" where
  "audit_le s t \<longleftrightarrow> trails_le (audit_trail s) (audit_trail t)"

lemma audit_le_same: "rg_IpAuditTrail t = rg_IpAuditTrail s \<Longrightarrow> audit_le s t"
  by (simp add: audit_le_def trails_le_def audit_trail_def)

lemma audit_le_append [simp]:
  "audit_le s u \<Longrightarrow> audit_le s (append_audit_entry E i w a u)"
  by (auto simp: audit_le_def trails_le_def intro: prefix_order.trans)

lemma audit_le_refl [simp]: "audit_le s s"
  by (simp add: audit_le_def)

lemma audit_le_trans: "audit_le s t \<Longrightarrow> audit_le t u \<Longrightarrow> audit_le s u"
  unfolding audit_le_def by (rule trails_le_trans)

lemma audit_le_wrap [simp]:
  "audit_le s (bump k n t) = audit_le s t" "audit_le s (publish xs ys t) = audit_le s t"
  "audit_le s (assign_to_shard i h t) = audit_le s t"
  "audit_le s (store_compressed_commitment i h t) = audit_le s t"
  "audit_le s (update_commitment_checksum E t) = audit_le s t"
  "audit_le (init_admin E s) t = audit_le s t" "audit_le s (init_admin E t) = audit_le s t"
  by (simp_all add: audit_le_def audit_trail_def [abs_def])

lemma audit_le_updates [simp]:
  "audit_le s (t\<lparr>rg_IpRecord := x1\<rparr>) = audit_le s t"
  "audit_le s (t\<lparr>rg_OwnerIps := x2\<rparr>) = audit_le s t"
  "audit_le s (t\<lparr>rg_NextId := x3\<rparr>) = audit_le s t"
  "audit_le s (t\<lparr>rg_CommitmentOwner := x4\<rparr>) = audit_le s t"
  "audit_le s (t\<lparr>rg_AnonymousOwner := x5\<rparr>) = audit_le s t"
  "audit_le s (t\<lparr>rg_IpPowDifficulty := x6\<rparr>) = audit_le s t"
  "audit_le s (t\<lparr>rg_IpVersions := x7\<rparr>) = audit_le s t"
  "audit_le s (t\<lparr>rg_IpVersionChain := x8\<rparr>) = audit_le s t"
  "audit_le s (t\<lparr>rg_EncryptionKeyRotation := x9\<rparr>) = audit_le s t"
  by (simp_all add: audit_le_def audit_trail_def [abs_def])

lemma commit_audit:
  "commit_ip E ow h d s = Inr (i, t) \<Longrightarrow> audit_le s t"
  "commit_ip_delegated E ow h d s = Inr (i, t) \<Longrightarrow> audit_le s t"
  "batch_commit_step E ow n h (ids, s) = Inr (ids', t) \<Longrightarrow> audit_le s t"
  "batch_commit_anonymous_step E b n h (ids, s) = Inr (ids', t) \<Longrightarrow> audit_le s t"
  "create_ip_version E p h s = Inr (i, t) \<Longrightarrow> audit_le s t"
  by (auto simp: commit_ip_def commit_ip_delegated_def batch_commit_step_def adjust_pow_difficulty_def
      batch_commit_anonymous_step_def create_ip_version_def Let_def split: if_splits)

lemma batch_audit:
  "foldE (batch_commit_step E ow n) hs (ids, s) = Inr (ids', t) \<Longrightarrow> audit_le s t"
  "foldE (batch_commit_anonymous_step E b n) hs (ids, s) = Inr (ids', t) \<Longrightarrow> audit_le s t"
  by (induction hs arbitrary: ids s) (auto dest!: commit_audit intro: audit_le_trans)

lemma update_audit:
  "transfer_ip E i a s = Inr t \<Longrightarrow> audit_le s t"
  "revoke_ip E i s = Inr t \<Longrightarrow> audit_le s t"
  "add_co_owner E i a s = Inr t \<Longrightarrow> audit_le s t"
  "remove_co_owner E i a s = Inr t \<Longrightarrow> audit_le s t"
  "merge_duplicate_commitment E i j s = Inr t \<Longrightarrow> audit_le s t"
  "rotate_commitment_key E i h x y s = Inr t \<Longrightarrow> audit_le s t"
  "notarize_ip_timestamp E i sig s = Inr t \<Longrightarrow> audit_le s t"
  by (auto simp: transfer_ip_def revoke_ip_def add_co_owner_def remove_co_owner_def
      merge_duplicate_commitment_def rotate_commitment_key_def notarize_ip_timestamp_def Let_def
      split: if_splits)

lemma exec_record_audit: "exec_record E c s = Inr t \<Longrightarrow> audit_le s t"
  by (cases c)
    (auto simp: batch_commit_ip_def batch_commit_ip_anonymous_def commit_ip_version_def
      transfer_ip_ownership_def Let_def split: if_splits
      dest!: commit_audit batch_audit update_audit)

interpretation audit: append_only deployed "registry_step H" audit_trail for H
proof unfold_locales
  fix s t assume "registry_step H s t"
  then have "audit_le s t"
    by (cases rule: registry_step_core)
      (auto simp: keeps_core_def core_view_def intro: exec_record_audit audit_le_same)
  then show "trails_le (audit_trail s) (audit_trail t)" by (simp add: audit_le_def)
qed

end
