(* ===== verification/Registry_Ledger.thy ===== *)
theory Registry_Ledger
  imports Registry_History
begin

text \<open>
  The abstract specification of the registry, a list of entries that is appended to and changed under
  signature, and the proof that every call of the contract refines it; the integrity checksum.
\<close>

section \<open>The abstract ledger\<close>

record entry =
  en_owner :: address
  en_hash :: bytes
  en_time :: nat
  en_parent :: "nat option"
  en_revoked :: bool

text \<open>
  \<open>has_signed\<close> are the addresses whose signature a step carries and \<open>self\<close> is the registry itself, in
  whose name anonymous entries are kept. Identifier \<open>i\<close> is the entry at position \<open>i - 1\<close>.
\<close>

inductive ledger_step :: "address \<Rightarrow> (address \<Rightarrow> bool) \<Rightarrow> entry list \<Rightarrow> entry list \<Rightarrow> bool"
  for self has_signed where
  append_entry: "en_hash e \<notin> en_hash ` set L \<Longrightarrow> en_hash e \<noteq> replicate 32 0 \<Longrightarrow> \<not> en_revoked e \<Longrightarrow>
    has_signed (en_owner e) \<or> en_owner e = self \<Longrightarrow>
    (\<forall>p. en_parent e = Some p \<longrightarrow> 1 \<le> p \<and> p \<le> length L \<and> has_signed (en_owner e) \<and>
       en_owner e = en_owner (L ! (p - 1))) \<Longrightarrow> ledger_step self has_signed L (L @ [e])"
| give_entry: "k < length L \<Longrightarrow> has_signed (en_owner (L ! k)) \<Longrightarrow>
    ledger_step self has_signed L (L[k := (L ! k)\<lparr>en_owner := a\<rparr>])"
| revoke_entry: "k < length L \<Longrightarrow> has_signed (en_owner (L ! k)) \<Longrightarrow>
    ledger_step self has_signed L (L[k := (L ! k)\<lparr>en_revoked := True\<rparr>])"
| rehash_entry: "k < length L \<Longrightarrow> has_signed (en_owner (L ! k)) \<Longrightarrow> \<not> en_revoked (L ! k) \<Longrightarrow>
    h \<notin> en_hash ` set L \<Longrightarrow> h \<noteq> replicate 32 0 \<Longrightarrow>
    ledger_step self has_signed L (L[k := (L ! k)\<lparr>en_hash := h\<rparr>])"
| same_ledger: "ledger_step self has_signed L L"

definition entry_of :: "IpRec \<Rightarrow> entry" where
  "entry_of r = \<lparr>en_owner = ir_owner r, en_hash = ir_commitment_hash r, en_time = ir_timestamp r,
     en_parent = ir_parent_ip_id r, en_revoked = ir_revoked r\<rparr>"

definition ledger :: "registry \<Rightarrow> entry list" where
  "ledger s = map (\<lambda>i. entry_of (the (rg_IpRecord s i))) [1..<next_ip s]"

lemma length_ledger: "length (ledger s) = next_ip s - 1"
  by (simp add: ledger_def)

lemma nth_ledger: "k < next_ip s - 1 \<Longrightarrow> ledger s ! k = entry_of (the (rg_IpRecord s (k + 1)))"
  by (simp add: ledger_def nth_append)

lemma set_ledger:
  assumes "registry_index self s"
  shows "set (ledger s) = {entry_of r | i r. rg_IpRecord s i = Some r}"
proof (intro set_eqI iffI)
  fix e assume "e \<in> set (ledger s)"
  then obtain i where i: "1 \<le> i" "i < next_ip s" "e = entry_of (the (rg_IpRecord s i))"
    by (auto simp: ledger_def)
  then obtain r where "rg_IpRecord s i = Some r" using index_exists_iff [OF assms, of i] by auto
  with i(3) show "e \<in> {entry_of r | i r. rg_IpRecord s i = Some r}" by auto
next
  fix e assume "e \<in> {entry_of r | i r. rg_IpRecord s i = Some r}"
  then obtain i r where r: "rg_IpRecord s i = Some r" "e = entry_of r" by blast
  then have "1 \<le> i \<and> i < next_ip s" using index_exists_iff [OF assms, of i] by auto
  moreover have "e = entry_of (the (rg_IpRecord s i))" using r by simp
  ultimately show "e \<in> set (ledger s)" unfolding ledger_def by auto
qed

lemma hash_fresh_ledger:
  assumes ok: "registry_index self s" and "rg_CommitmentOwner s h = None"
  shows "h \<notin> en_hash ` set (ledger s)"
proof
  assume "h \<in> en_hash ` set (ledger s)"
  then obtain i r where "rg_IpRecord s i = Some r" "h = ir_commitment_hash r"
    by (auto simp: set_ledger [OF ok] entry_of_def)
  with index_record [OF ok [unfolded registry_index_def]] assms(2) show False
    by (auto simp: record_ok_def)
qed

lemma ledger_update:
  assumes ok: "registry_index self s" and i: "rg_IpRecord s i = Some r"
    and t: "rg_IpRecord t = (rg_IpRecord s)(i \<mapsto> q)" "next_ip t = next_ip s"
  shows "i - 1 < length (ledger s)" "ledger s ! (i - 1) = entry_of r"
    "ledger t = (ledger s)[i - 1 := entry_of q]"
proof -
  have i': "1 \<le> i" "i < next_ip s" using index_exists_iff [OF ok, of i] i by auto
  then show "i - 1 < length (ledger s)" by (simp add: length_ledger)
  from i' have "i - 1 < next_ip s - 1" "i - 1 + 1 = i" by linarith+
  then show "ledger s ! (i - 1) = entry_of r" using nth_ledger [of "i - 1" s] i by simp
  show "ledger t = (ledger s)[i - 1 := entry_of q]"
  proof (rule nth_equalityI)
    show "length (ledger t) = length ((ledger s)[i - 1 := entry_of q])"
      using t by (simp add: length_ledger)
    fix k assume "k < length (ledger t)"
    then have k: "k < next_ip s - 1" using t by (simp add: length_ledger)
    show "ledger t ! k = (ledger s)[i - 1 := entry_of q] ! k"
    proof (cases "k = i - 1")
      case True
      with k t i' show ?thesis by (simp add: nth_ledger length_ledger)
    next
      case False
      with i' have "k + 1 \<noteq> i" by simp
      with False k t show ?thesis by (simp add: nth_ledger)
    qed
  qed
qed

lemma ledger_registers:
  assumes ok: "registry_index self s" and reg: "registers time ow h parent s t"
  shows "ledger t = ledger s @ [entry_of (fresh_record (next_ip s) time ow h parent)]"
proof -
  have "map (\<lambda>i. entry_of (the (rg_IpRecord t i))) [1..<next_ip s] = ledger s"
    unfolding ledger_def by (rule map_cong) (use reg in \<open>auto simp: registers_def\<close>)
  then show ?thesis
    using index_next_pos [OF ok] reg
    by (simp add: ledger_def registers_next [OF reg]) (simp add: registers_def)
qed

lemma registers_ledger_step:
  assumes ok: "registry_index self s" and reg: "registers time ow h parent s t"
    and signed: "has_signed ow \<or> ow = self"
    and "\<And>p. parent = Some p \<Longrightarrow> has_signed ow \<and> (\<exists>r. rg_IpRecord s p = Some r \<and> ir_owner r = ow)"
  shows "ledger_step self has_signed (ledger s) (ledger t)"
  unfolding ledger_registers [OF ok reg]
proof (rule append_entry)
  let ?e = "entry_of (fresh_record (next_ip s) time ow h parent)"
  show "en_hash ?e \<notin> en_hash ` set (ledger s)"
    using hash_fresh_ledger [OF ok, of h] reg by (simp add: registers_def entry_of_def fresh_record_def)
  show "en_hash ?e \<noteq> replicate 32 0" "\<not> en_revoked ?e"
    using reg by (simp_all add: registers_def entry_of_def fresh_record_def)
  show "has_signed (en_owner ?e) \<or> en_owner ?e = self"
    using signed by (simp add: entry_of_def fresh_record_def)
  show "\<forall>p. en_parent ?e = Some p \<longrightarrow> 1 \<le> p \<and> p \<le> length (ledger s) \<and> has_signed (en_owner ?e) \<and>
       en_owner ?e = en_owner (ledger s ! (p - 1))"
  proof (intro allI impI)
    fix p assume "en_parent ?e = Some p"
    then have "parent = Some p" by (simp add: entry_of_def fresh_record_def)
    with assms(4) obtain r where r: "has_signed ow" "rg_IpRecord s p = Some r" "ir_owner r = ow" by blast
    have "1 \<le> p" "p < next_ip s" using index_exists_iff [OF ok, of p] r by auto
    with r ledger_update(2) [OF ok r(2), of "s\<lparr>rg_IpRecord := (rg_IpRecord s)(p \<mapsto> r)\<rparr>" r]
    show "1 \<le> p \<and> p \<le> length (ledger s) \<and> has_signed (en_owner ?e) \<and>
       en_owner ?e = en_owner (ledger s ! (p - 1))"
      by (auto simp: length_ledger entry_of_def fresh_record_def next_ip_def)
  qed
qed

lemma record_change_ledger:
  assumes "record_change E s t" and ok: "registry_index (this_addr E) s"
  shows "ledger_step (this_addr E) (authorized E) (ledger s) (ledger t)"
  using assms(1)
proof cases
  case new_record
  show ?thesis by (rule registers_ledger_step [OF ok new_record(1)]) (simp_all add: new_record)
next
  case new_anonymous
  show ?thesis by (rule registers_ledger_step [OF ok new_anonymous(1)]) simp_all
next
  case (new_version p r)
  with new_version(1,2) show ?thesis by (intro registers_ledger_step [OF ok new_version(3)]) auto
next
  case (same_identity i r q)
  then have "next_ip t = next_ip s" by (simp add: same_indexes_def next_ip_def)
  note upd = ledger_update [OF ok same_identity(1,3) this]
  show ?thesis
  proof (cases "ir_revoked q = ir_revoked r")
    case True
    with same_identity(2) have "entry_of q = entry_of r" by (simp add: keeps_identity_def entry_of_def)
    then have "ledger t = ledger s" using upd by (metis list_update_id)
    then show ?thesis by (simp add: same_ledger)
  next
    case False
    with same_identity(2) have "entry_of q = (entry_of r)\<lparr>en_revoked := True\<rparr>"
      by (auto simp: keeps_identity_def entry_of_def)
    moreover have "authorized E (en_owner (entry_of r))"
      using False same_identity(5) by (simp add: entry_of_def)
    ultimately show ?thesis 
      using upd revoke_entry [of "i - 1" "ledger s" "authorized E" "this_addr E"] by simp
  qed
next
  case (new_owner i r ips a)
  then have "next_ip t = next_ip s" by (simp add: next_ip_def)
  note upd = ledger_update [OF ok new_owner(1,4) this]
  moreover have "entry_of (r\<lparr>ir_owner := a\<rparr>) = (entry_of r)\<lparr>en_owner := a\<rparr>" by (simp add: entry_of_def)
  moreover have "authorized E (en_owner (entry_of r))" using new_owner(2) by (simp add: entry_of_def)
  ultimately show ?thesis 
    using give_entry [of "i - 1" "ledger s" "authorized E" "this_addr E" a] by simp
next
  case (new_hash i r h)
  then have "next_ip t = next_ip s" by (simp add: next_ip_def)
  note upd = ledger_update [OF ok new_hash(1,7) this]
  moreover have "entry_of (r\<lparr>ir_commitment_hash := h\<rparr>) = (entry_of r)\<lparr>en_hash := h\<rparr>"
    by (simp add: entry_of_def)
  moreover have "authorized E (en_owner (entry_of r))" "\<not> en_revoked (entry_of r)"
    using new_hash(2,3) by (simp_all add: entry_of_def)
  moreover note hash_fresh_ledger [OF ok new_hash(5)]
  ultimately show ?thesis
    using rehash_entry [of "i - 1" "ledger s" "authorized E" h "this_addr E"] new_hash(4) by simp
next
  case bookkeeping
  then have "ledger t = ledger s" by (simp add: ledger_def same_indexes_def next_ip_def)
  then show ?thesis by (simp add: same_ledger)
qed

lemma record_changes_ledger:
  assumes "(record_change E)\<^sup>*\<^sup>* s t" and "registry_index (this_addr E) s"
  shows "(ledger_step (this_addr E) (authorized E))\<^sup>*\<^sup>* (ledger s) (ledger t)"
  using assms
proof (induction rule: rtranclp_induct)
  case (step t u)
  then have "registry_index (this_addr E) t" by (blast intro: record_changes_index)
  with step record_change_ledger [of E t u] show ?case by simp
qed simp

text \<open>A call refines a run of the ledger under the signatures that the call itself carries.\<close>

lemma exec_registry_ledger:
  assumes "exec_registry E c s = Inr t" and "\<forall>h \<in> set (call_hashes c). length h = 32"
    and "registry_index (this_addr E) s"
  shows "(ledger_step (this_addr E) (authorized E))\<^sup>*\<^sup>* (ledger s) (ledger t)"
  using exec_registry_changes [OF assms] assms(3) by (rule record_changes_ledger)

section \<open>The integrity checksum\<close>

definition checksum_ok :: "env \<Rightarrow> registry \<Rightarrow> bool" where
  "checksum_ok H s \<longleftrightarrow>
     rg_IpCommitmentChecksum s = map_option (\<lambda>hs. sha256 H (concat hs)) (rg_CommitmentHashes s)"

lemma checksum_wrap [simp]:
  "checksum_ok H (bump k n t) = checksum_ok H t" "checksum_ok H (publish xs ys t) = checksum_ok H t"
  "checksum_ok H (assign_to_shard i h t) = checksum_ok H t"
  "checksum_ok H (store_compressed_commitment i h t) = checksum_ok H t"
  "checksum_ok H (append_audit_entry E i w a t) = checksum_ok H t"
  "checksum_ok H (init_admin E t) = checksum_ok H t"
  "checksum_ok H (t\<lparr>rg_IpRecord := x1\<rparr>) = checksum_ok H t"
  "checksum_ok H (t\<lparr>rg_OwnerIps := x2\<rparr>) = checksum_ok H t"
  "checksum_ok H (t\<lparr>rg_NextId := x3\<rparr>) = checksum_ok H t"
  "checksum_ok H (t\<lparr>rg_CommitmentOwner := x4\<rparr>) = checksum_ok H t"
  "checksum_ok H (t\<lparr>rg_AnonymousOwner := x5\<rparr>) = checksum_ok H t"
  "checksum_ok H (t\<lparr>rg_IpPowDifficulty := x6\<rparr>) = checksum_ok H t"
  "checksum_ok H (t\<lparr>rg_IpVersions := x7\<rparr>) = checksum_ok H t"
  "checksum_ok H (t\<lparr>rg_IpVersionChain := x8\<rparr>) = checksum_ok H t"
  "checksum_ok H (t\<lparr>rg_EncryptionKeyRotation := x9\<rparr>) = checksum_ok H t"
  by (simp_all add: checksum_ok_def assign_to_shard_def store_compressed_commitment_def
      append_audit_entry_def init_admin_def state_simps Let_def)

lemma checksum_update [simp]:
  "same_host H E \<Longrightarrow> checksum_ok H s \<Longrightarrow> checksum_ok H (update_commitment_checksum E s)"
  by (auto simp: checksum_ok_def update_commitment_checksum_def same_host_def state_simps Let_def
      split: option.splits)

lemma commit_checksum:
  "commit_ip E ow h d s = Inr (i, t) \<Longrightarrow> same_host H E \<Longrightarrow> checksum_ok H s \<Longrightarrow> checksum_ok H t"
  "commit_ip_delegated E ow h d s = Inr (i, t) \<Longrightarrow> same_host H E \<Longrightarrow> checksum_ok H s \<Longrightarrow> checksum_ok H t"
  "batch_commit_step E ow n h (ids, s) = Inr (ids', t) \<Longrightarrow> checksum_ok H s \<Longrightarrow> checksum_ok H t"
  "batch_commit_anonymous_step E b n h (ids, s) = Inr (ids', t) \<Longrightarrow> checksum_ok H s \<Longrightarrow> checksum_ok H t"
  "create_ip_version E p h s = Inr (i, t) \<Longrightarrow> checksum_ok H s \<Longrightarrow> checksum_ok H t"
  by (auto simp: commit_ip_def commit_ip_delegated_def batch_commit_step_def adjust_pow_difficulty_def
      batch_commit_anonymous_step_def create_ip_version_def Let_def split: if_splits)

lemma batch_checksum:
  "foldE (batch_commit_step E ow n) hs (ids, s) = Inr (ids', t) \<Longrightarrow> checksum_ok H s \<Longrightarrow> checksum_ok H t"
  "foldE (batch_commit_anonymous_step E b n) hs (ids, s) = Inr (ids', t) \<Longrightarrow>
    checksum_ok H s \<Longrightarrow> checksum_ok H t"
  by (induction hs arbitrary: ids s) (auto dest!: commit_checksum)

lemma update_checksum:
  "transfer_ip E i a s = Inr t \<Longrightarrow> checksum_ok H s \<Longrightarrow> checksum_ok H t"
  "revoke_ip E i s = Inr t \<Longrightarrow> checksum_ok H s \<Longrightarrow> checksum_ok H t"
  "add_co_owner E i a s = Inr t \<Longrightarrow> checksum_ok H s \<Longrightarrow> checksum_ok H t"
  "remove_co_owner E i a s = Inr t \<Longrightarrow> checksum_ok H s \<Longrightarrow> checksum_ok H t"
  "merge_duplicate_commitment E i j s = Inr t \<Longrightarrow> checksum_ok H s \<Longrightarrow> checksum_ok H t"
  "rotate_commitment_key E i h x y s = Inr t \<Longrightarrow> checksum_ok H s \<Longrightarrow> checksum_ok H t"
  "notarize_ip_timestamp E i sig s = Inr t \<Longrightarrow> checksum_ok H s \<Longrightarrow> checksum_ok H t"
  by (auto simp: transfer_ip_def revoke_ip_def add_co_owner_def remove_co_owner_def
      merge_duplicate_commitment_def rotate_commitment_key_def notarize_ip_timestamp_def Let_def
      split: if_splits)

lemma exec_record_checksum:
  "exec_record E c s = Inr t \<Longrightarrow> same_host H E \<Longrightarrow> checksum_ok H s \<Longrightarrow> checksum_ok H t"
  by (cases c)
    (auto simp: batch_commit_ip_def batch_commit_ip_anonymous_def commit_ip_version_def
      transfer_ip_ownership_def Let_def split: if_splits
      dest!: commit_checksum batch_checksum update_checksum)

interpretation checksum: invariant_system deployed "registry_step H" "checksum_ok H" for H
proof unfold_locales
  show "deployed s \<Longrightarrow> checksum_ok H s" for s
    by (simp add: deployed_def checksum_ok_def empty_registry_def)
  fix s t assume ok: "checksum_ok H s" and "registry_step H s t"
  from this(2) show "checksum_ok H t"
  proof (cases rule: registry_step_core)
    case (core E c)
    with ok show ?thesis by (blast intro: exec_record_checksum)
  next
    case frame
    with ok show ?thesis by (simp add: keeps_core_def core_view_def checksum_ok_def)
  qed
qed

end
