(* ===== verification/Registry_Safety.thy ===== *)
theory Registry_Safety
  imports Registry_Ledger
begin

text \<open>
  Invariants of the other groups of fields: threshold signatures, ownership challenges, disputes and
  arbitration, stakes and reputation, delegation, licences and access grants.
\<close>

section \<open>Threshold signatures\<close>

definition signatures_ok :: "ThresholdConfig \<Rightarrow> ThresholdSignature list \<Rightarrow> bool" where
  "signatures_ok c sigs \<longleftrightarrow>
     0 < th_threshold c \<and> th_threshold c \<le> length (th_signers c) \<and>
     distinct (map ts_signer sigs) \<and> ts_signer ` set sigs \<subseteq> set (th_signers c)"

definition threshold_ok :: "registry \<Rightarrow> bool" where
  "threshold_ok s \<longleftrightarrow> (\<forall>i c. rg_ThresholdConfig s i = Some c \<longrightarrow>
     signatures_ok c (unwrap_or [] (rg_ThresholdSignatures s i)))"

lemma threshold_ok_cong:
  "rg_ThresholdConfig t = rg_ThresholdConfig s \<Longrightarrow> rg_ThresholdSignatures t = rg_ThresholdSignatures s \<Longrightarrow>
    threshold_ok s \<Longrightarrow> threshold_ok t"
  by (simp add: threshold_ok_def)

lemma signatures_ok_new:
  "0 < n \<Longrightarrow> n \<le> length signers \<Longrightarrow>
    signatures_ok \<lparr>th_ip_id = i, th_threshold = n, th_total = m, th_signers = signers\<rparr> []"
  by (simp add: signatures_ok_def)

lemma signatures_ok_add:
  "signatures_ok c sigs \<Longrightarrow> ts_signer x \<in> set (th_signers c) \<Longrightarrow> ts_signer x \<notin> ts_signer ` set sigs \<Longrightarrow>
    signatures_ok c (sigs @ [x])"
  by (auto simp: signatures_ok_def)

lemma exec_proof_threshold:
  assumes run: "exec_proof E c s = Inr t" and ok: "threshold_ok s"
  shows "threshold_ok t"
proof (cases c)
  case (IssueChallenge i a n)
  with run show ?thesis
    by (intro threshold_ok_cong [OF _ _ ok])
      (auto simp: issue_ownership_challenge_def state_simps Let_def)
next
  case (RespondChallenge d h)
  with run show ?thesis
    by (intro threshold_ok_cong [OF _ _ ok])
      (auto simp: respond_to_ownership_challenge_def state_simps Let_def)
next
  case (VerifyChallenge d)
  with run show ?thesis
    by (intro threshold_ok_cong [OF _ _ ok])
      (auto simp: verify_ownership_challenge_def state_simps Let_def split: option.splits if_splits)
next
  case (RequireThreshold i n signers)
  with run have "0 < n" "n \<le> length signers"
    and "rg_ThresholdConfig t = (rg_ThresholdConfig s)(i \<mapsto> \<lparr>th_ip_id = i, th_threshold = n,
        th_total = length signers, th_signers = signers\<rparr>)"
    and "rg_ThresholdSignatures t = (rg_ThresholdSignatures s)(i \<mapsto> [])"
    by (auto simp: require_threshold_signatures_def state_simps Let_def split: if_splits)
  with ok show ?thesis by (simp add: threshold_ok_def signatures_ok_new)
next
  case (AddThresholdSignature i a h)
  define x where "x = \<lparr>ts_signer = a, ts_signature_hash = h, ts_timestamp = now E\<rparr>"
  from run AddThresholdSignature obtain conf where conf: "rg_ThresholdConfig s i = Some conf"
    and x: "ts_signer x \<in> set (th_signers conf)"
      "ts_signer x \<notin> ts_signer ` set (unwrap_or [] (rg_ThresholdSignatures s i))"
    and t: "rg_ThresholdConfig t = rg_ThresholdConfig s" "rg_ThresholdSignatures t =
      (rg_ThresholdSignatures s)(i \<mapsto> unwrap_or [] (rg_ThresholdSignatures s i) @ [x])"
    by (auto simp: add_threshold_signature_def x_def state_simps Let_def split: if_splits)
  from ok conf have "signatures_ok conf (unwrap_or [] (rg_ThresholdSignatures s i))"
    by (simp add: threshold_ok_def)
  from signatures_ok_add [OF this x] ok conf show ?thesis by (simp add: threshold_ok_def t)
qed

interpretation threshold: invariant_system deployed "registry_step H" threshold_ok for H
proof unfold_locales
  show "deployed s \<Longrightarrow> threshold_ok s" for s
    by (simp add: deployed_def threshold_ok_def empty_registry_def)
  fix s t assume ok: "threshold_ok s" and "registry_step H s t"
  from this(2) show "threshold_ok t"
  proof (cases rule: registry_step_proof)
    case proofs
    with ok show ?thesis by (blast intro: exec_proof_threshold)
  next
    case frame
    then show ?thesis
      by (intro threshold_ok_cong [OF _ _ ok]) (simp_all add: keeps_proofs_def proof_view_def)
  qed
qed

section \<open>Ownership challenges\<close>

definition challenge_ids :: "registry \<Rightarrow> nat set" where
  "challenge_ids s = dom (rg_OwnershipChallenge s)"

definition next_challenge :: "registry \<Rightarrow> nat" where
  "next_challenge s = unwrap_or 1 (rg_NextChallengeId s)"

lemma exec_proof_challenge: "exec_proof E c s = Inr t \<Longrightarrow>
    (challenge_ids t = challenge_ids s \<and> next_challenge t = next_challenge s) \<or>
    (challenge_ids t = insert (next_challenge s) (challenge_ids s) \<and>
     next_challenge t = next_challenge s + 1)"
  by (cases c)
    (auto simp: challenge_ids_def next_challenge_def issue_ownership_challenge_def
      respond_to_ownership_challenge_def verify_ownership_challenge_def
      require_threshold_signatures_def add_threshold_signature_def
      state_simps Let_def split: option.splits if_splits)

interpretation challenge_counter: id_counter deployed "registry_step H" "\<lambda>_. True"
  challenge_ids next_challenge for H
proof unfold_locales
  show "deployed s \<Longrightarrow> challenge_ids s = {}" for s
    by (simp add: deployed_def challenge_ids_def empty_registry_def)
  fix s t assume "registry_step H s t"
  then show "challenge_ids t = challenge_ids s \<union> {next_challenge s..<next_challenge t} \<and>
      next_challenge s \<le> next_challenge t"
  proof (cases rule: registry_step_proof)
    case (proofs E c)
    from exec_proof_challenge [OF proofs(2)] show ?thesis by (rule counter_step)
  next
    case frame
    then show ?thesis
      by (simp add: keeps_proofs_def proof_view_def challenge_ids_def next_challenge_def)
  qed
qed

section \<open>Disputes, stakes and arbitration\<close>

definition dispute_ids :: "registry \<Rightarrow> nat set" where
  "dispute_ids s = dom (rg_IpDisputes s)"

definition next_dispute :: "registry \<Rightarrow> nat" where
  "next_dispute s = unwrap_or 1 (rg_NextDisputeId s)"

definition arbitration_ids :: "registry \<Rightarrow> nat set" where
  "arbitration_ids s = dom (rg_ArbitrationCase s)"

definition next_arbitration :: "registry \<Rightarrow> nat" where
  "next_arbitration s = unwrap_or 1 (rg_NextArbitrationId s)"

lemmas counter_defs = dispute_ids_def next_dispute_def arbitration_ids_def next_arbitration_def

lemmas dispute_defs =
  initiate_dispute_def submit_dispute_evidence_def resolve_dispute_def stake_commitment_def
  slash_stake_def unstake_def update_reputation_def nominate_arbitrator_def open_arbitration_def
  vote_on_dispute_def finalize_arbitration_def

definition dispute_le :: "DisputeRecord \<Rightarrow> DisputeRecord \<Rightarrow> bool" where
  "dispute_le r q \<longleftrightarrow> di_ip_id q = di_ip_id r \<and> di_challenger q = di_challenger r \<and>
     di_timestamp q = di_timestamp r \<and>
     (di_resolved r \<longrightarrow> di_resolved q \<and> di_evidence_hash q = di_evidence_hash r)"

definition case_le :: "ArbitrationRecord \<Rightarrow> ArbitrationRecord \<Rightarrow> bool" where
  "case_le r q \<longleftrightarrow> ar_dispute_id q = ar_dispute_id r \<and> ar_arbitrators q = ar_arbitrators r \<and>
     ar_votes_owner r \<le> ar_votes_owner q \<and> ar_votes_challenger r \<le> ar_votes_challenger q \<and>
     (ar_finalized r \<longrightarrow> q = r)"

text \<open>The five maps and counters the dispute calls work on, and what they can do to them.\<close>

type_synonym dispute_maps =
  "(nat \<rightharpoonup> DisputeRecord) \<times> nat \<times> (nat \<rightharpoonup> ArbitrationRecord) \<times> nat \<times> (nat \<rightharpoonup> StakeRecord)"

definition dispute_maps :: "registry \<Rightarrow> dispute_maps" where
  "dispute_maps s = (rg_IpDisputes s, next_dispute s, rg_ArbitrationCase s, next_arbitration s,
     rg_IpStake s)"

inductive dispute_change :: "dispute_maps \<Rightarrow> dispute_maps \<Rightarrow> bool" where
  open_dispute: "\<not> di_resolved r \<Longrightarrow>
    dispute_change (D, nd, A, na, K) (D(nd \<mapsto> r), nd + 1, A, na, K)"
| update_dispute: "D d = Some r \<Longrightarrow> \<not> di_resolved r \<Longrightarrow> dispute_le r q \<Longrightarrow>
    dispute_change (D, nd, A, na, K) (D(d \<mapsto> q), nd, A, na, K)"
| open_case: "dispute_change (D, nd, A, na, K) (D, nd, A(na \<mapsto> c), na + 1, K)"
| update_case: "A a = Some c \<Longrightarrow> case_le c c' \<Longrightarrow>
    dispute_change (D, nd, A, na, K) (D, nd, A(a \<mapsto> c'), na, K)"
| close_case: "A a = Some c \<Longrightarrow> case_le c c' \<Longrightarrow> D d = Some r \<Longrightarrow> dispute_le r q \<Longrightarrow>
    dispute_change (D, nd, A, na, K) (D(d \<mapsto> q), nd, A(a \<mapsto> c'), na, K)"
| change_stake: "\<forall>k. K i = Some k \<longrightarrow> \<not> sk_slashed k \<Longrightarrow>
    dispute_change (D, nd, A, na, K) (D, nd, A, na, K(i := v))"
| no_dispute_change: "dispute_change M M"

lemma initiate_dispute_change:
  "initiate_dispute E i a h s = Inr (d, t) \<Longrightarrow> dispute_change (dispute_maps s) (dispute_maps t)"
  using open_dispute [of "\<lparr>di_dispute_id = d, di_ip_id = i, di_challenger = a, di_evidence_hash = h,
    di_timestamp = now E, di_resolved = False, di_winner = None\<rparr>"]
  by (auto simp: initiate_dispute_def dispute_maps_def counter_defs state_simps Let_def)

lemma submit_dispute_evidence_change:
  assumes "submit_dispute_evidence E d a h s = Inr t"
  shows "dispute_change (dispute_maps s) (dispute_maps t)"
proof -
  from assms obtain r where "rg_IpDisputes s d = Some r" "\<not> di_resolved r"
    "dispute_maps t = ((rg_IpDisputes s)(d \<mapsto> r\<lparr>di_evidence_hash := h\<rparr>), next_dispute s,
       rg_ArbitrationCase s, next_arbitration s, rg_IpStake s)"
    by (auto simp: submit_dispute_evidence_def dispute_maps_def counter_defs state_simps Let_def
        split: if_splits)
  then show ?thesis unfolding dispute_maps_def [of s]
    using update_dispute [of "rg_IpDisputes s" d r "r\<lparr>di_evidence_hash := h\<rparr>"]
    by (simp add: dispute_le_def)
qed

lemma resolve_dispute_effect:
  assumes "resolve_dispute E d w s = Inr t"
  obtains r where "rg_IpDisputes s d = Some r" "\<not> di_resolved r"
    "\<exists>admin. rg_Admin s = Some admin \<and> authorized E admin"
    "rg_IpRecord t = rg_IpRecord s"
    "dispute_maps t = ((rg_IpDisputes s)(d \<mapsto> r\<lparr>di_resolved := True, di_winner := Some w\<rparr>),
       next_dispute s, rg_ArbitrationCase s, next_arbitration s, rg_IpStake s)"
  using assms
  by (auto simp: resolve_dispute_def dispute_maps_def counter_defs state_simps Let_def
      split: if_splits)

lemma resolve_dispute_change:
  assumes "resolve_dispute E d w s = Inr t"
  shows "dispute_change (dispute_maps s) (dispute_maps t)"
  by (rule resolve_dispute_effect [OF assms])
    (simp add: dispute_maps_def [of s] update_dispute dispute_le_def)

lemma stake_changes:
  "stake_commitment E i n s = Inr t \<Longrightarrow> (\<forall>k. rg_IpStake s i = Some k \<longrightarrow> \<not> sk_slashed k) \<and>
     dispute_maps t = (rg_IpDisputes s, next_dispute s, rg_ArbitrationCase s, next_arbitration s,
       (rg_IpStake s)(i := rg_IpStake t i))"
  "slash_stake E i s = Inr t \<Longrightarrow> (\<forall>k. rg_IpStake s i = Some k \<longrightarrow> \<not> sk_slashed k) \<and>
     dispute_maps t = (rg_IpDisputes s, next_dispute s, rg_ArbitrationCase s, next_arbitration s,
       (rg_IpStake s)(i := rg_IpStake t i))"
  "unstake E i s = Inr t \<Longrightarrow> (\<forall>k. rg_IpStake s i = Some k \<longrightarrow> \<not> sk_slashed k) \<and>
     dispute_maps t = (rg_IpDisputes s, next_dispute s, rg_ArbitrationCase s, next_arbitration s,
       (rg_IpStake s)(i := rg_IpStake t i))"
  by (auto simp: stake_commitment_def slash_stake_def unstake_def dispute_maps_def counter_defs
      state_simps Let_def split: if_splits)

lemma other_dispute_changes:
  "update_reputation E a n s = Inr t \<Longrightarrow> dispute_change (dispute_maps s) (dispute_maps t)"
  "nominate_arbitrator E a s = Inr t \<Longrightarrow> dispute_change (dispute_maps s) (dispute_maps t)"
  by (auto intro!: no_dispute_change simp: update_reputation_def nominate_arbitrator_def dispute_maps_def counter_defs
      state_simps Let_def split: if_splits)

lemma open_arbitration_change:
  "open_arbitration E d s = Inr (a, t) \<Longrightarrow> dispute_change (dispute_maps s) (dispute_maps t)"
  by (auto simp: open_arbitration_def dispute_maps_def counter_defs state_simps Let_def
      intro: open_case [simplified])

lemma vote_on_dispute_effect:
  assumes "vote_on_dispute E a v b s = Inr t"
  obtains c where "authorized E v" "rg_ArbitrationCase s a = Some c" "\<not> ar_finalized c"
    "v \<in> set (ar_arbitrators c)"
    "dispute_maps t = (rg_IpDisputes s, next_dispute s, (rg_ArbitrationCase s)(a \<mapsto>
       (if b then c\<lparr>ar_votes_owner := ar_votes_owner c + 1\<rparr>
        else c\<lparr>ar_votes_challenger := ar_votes_challenger c + 1\<rparr>)), next_arbitration s, rg_IpStake s)"
  using assms
  by (auto simp: vote_on_dispute_def dispute_maps_def counter_defs state_simps Let_def
      split: if_splits)

lemma finalize_arbitration_effect:
  assumes "finalize_arbitration E a s = Inr t"
  obtains c d r w where "\<exists>admin. rg_Admin s = Some admin \<and> authorized E admin"
    "rg_ArbitrationCase s a = Some c" "\<not> ar_finalized c"
    "rg_IpDisputes s (ar_dispute_id c) = Some d" "rg_IpRecord s (di_ip_id d) = Some r"
    "w = (if ar_votes_challenger c > ar_votes_owner c then di_challenger d else ir_owner r)"
    "rg_IpRecord t = rg_IpRecord s"
    "dispute_maps t =
      ((rg_IpDisputes s)(ar_dispute_id c \<mapsto> d\<lparr>di_resolved := True, di_winner := Some w\<rparr>), next_dispute s,
       (rg_ArbitrationCase s)(a \<mapsto> c\<lparr>ar_finalized := True, ar_winner := Some w\<rparr>), next_arbitration s,
       rg_IpStake s)"
  using assms
  by (auto simp: finalize_arbitration_def dispute_maps_def counter_defs state_simps Let_def
      split: if_splits)

lemma exec_dispute_change:
  assumes "exec_dispute E c s = Inr t"
  shows "dispute_change (dispute_maps s) (dispute_maps t)"
proof (cases c)
  case (VoteOnDispute a v b)
  with assms have "vote_on_dispute E a v b s = Inr t" by simp
  then show ?thesis
    by (rule vote_on_dispute_effect) (auto simp: dispute_maps_def [of s] case_le_def intro!: update_case)
next
  case (FinalizeArbitration a)
  with assms have "finalize_arbitration E a s = Inr t" by simp
  then show ?thesis
    by (rule finalize_arbitration_effect)
      (simp add: dispute_maps_def [of s] close_case case_le_def dispute_le_def)
next
  case (StakeCommitment i n)
  with assms show ?thesis
    using stake_changes [of E i] by (auto simp: dispute_maps_def [of s] change_stake)
next
  case (SlashStake i)
  with assms show ?thesis
    using stake_changes [of E i] by (auto simp: dispute_maps_def [of s] change_stake)
next
  case (Unstake i)
  with assms show ?thesis
    using stake_changes [of E i] by (auto simp: dispute_maps_def [of s] change_stake)
qed (use assms in \<open>auto dest: initiate_dispute_change submit_dispute_evidence_change
    resolve_dispute_change other_dispute_changes open_arbitration_change\<close>)

lemma dispute_change_ids:
  "dispute_change (D, nd, A, na, K) (D', nd', A', na', K') \<Longrightarrow>
    ((dom D' = dom D \<and> nd' = nd) \<or> (dom D' = insert nd (dom D) \<and> nd' = nd + 1)) \<and>
    ((dom A' = dom A \<and> na' = na) \<or> (dom A' = insert na (dom A) \<and> na' = na + 1))"
  by (elim dispute_change.cases) (clarsimp simp: insert_absorb domIff)+

lemma exec_dispute_ids: "exec_dispute E c s = Inr t \<Longrightarrow>
    (dispute_ids t = dispute_ids s \<and> next_dispute t = next_dispute s) \<or>
    (dispute_ids t = insert (next_dispute s) (dispute_ids s) \<and> next_dispute t = next_dispute s + 1)"
  using dispute_change_ids [OF exec_dispute_change [unfolded dispute_maps_def]]
  by (simp add: dispute_ids_def)

lemma exec_arbitration_ids: "exec_dispute E c s = Inr t \<Longrightarrow>
    (arbitration_ids t = arbitration_ids s \<and> next_arbitration t = next_arbitration s) \<or>
    (arbitration_ids t = insert (next_arbitration s) (arbitration_ids s) \<and>
     next_arbitration t = next_arbitration s + 1)"
  using dispute_change_ids [OF exec_dispute_change [unfolded dispute_maps_def]]
  by (simp add: arbitration_ids_def)

interpretation dispute_counter: id_counter deployed "registry_step H" "\<lambda>_. True"
  dispute_ids next_dispute for H
proof unfold_locales
  show "deployed s \<Longrightarrow> dispute_ids s = {}" for s
    by (simp add: deployed_def dispute_ids_def empty_registry_def)
  fix s t assume "registry_step H s t"
  then show "dispute_ids t = dispute_ids s \<union> {next_dispute s..<next_dispute t} \<and>
      next_dispute s \<le> next_dispute t"
  proof (cases rule: registry_step_dispute)
    case (disputes E c)
    from exec_dispute_ids [OF disputes(2)] show ?thesis by (rule counter_step)
  next
    case frame
    then show ?thesis by (simp add: keeps_disputes_def dispute_view_def counter_defs)
  qed
qed

interpretation arbitration_counter: id_counter deployed "registry_step H" "\<lambda>_. True"
  arbitration_ids next_arbitration for H
proof unfold_locales
  show "deployed s \<Longrightarrow> arbitration_ids s = {}" for s
    by (simp add: deployed_def arbitration_ids_def empty_registry_def)
  fix s t assume "registry_step H s t"
  then show "arbitration_ids t = arbitration_ids s \<union> {next_arbitration s..<next_arbitration t} \<and>
      next_arbitration s \<le> next_arbitration t"
  proof (cases rule: registry_step_dispute)
    case (disputes E c)
    from exec_arbitration_ids [OF disputes(2)] show ?thesis by (rule counter_step)
  next
    case frame
    then show ?thesis by (simp add: keeps_disputes_def dispute_view_def counter_defs)
  qed
qed

definition disputes_le :: "registry \<Rightarrow> registry \<Rightarrow> bool" where
  "disputes_le s t \<longleftrightarrow>
     (\<forall>d r. rg_IpDisputes s d = Some r \<longrightarrow> (\<exists>q. rg_IpDisputes t d = Some q \<and> dispute_le r q)) \<and>
     (\<forall>a r. rg_ArbitrationCase s a = Some r \<longrightarrow>
        (\<exists>q. rg_ArbitrationCase t a = Some q \<and> case_le r q)) \<and>
     (\<forall>i k. rg_IpStake s i = Some k \<longrightarrow> sk_slashed k \<longrightarrow> rg_IpStake t i = Some k)"

definition dispute_inv :: "registry \<Rightarrow> bool" where
  "dispute_inv s \<longleftrightarrow>
     dispute_ids s \<subseteq> {..<next_dispute s} \<and> arbitration_ids s \<subseteq> {..<next_arbitration s}"

lemma case_le_simps [simp]: "case_le r r" "dispute_le d d"
  by (simp_all add: case_le_def dispute_le_def)

lemma disputes_le_refl [simp]: "disputes_le s s"
  by (simp add: disputes_le_def)

lemma dispute_le_trans: "dispute_le r q \<Longrightarrow> dispute_le q p \<Longrightarrow> dispute_le r p"
  by (simp add: dispute_le_def)

lemma case_le_trans: "case_le r q \<Longrightarrow> case_le q p \<Longrightarrow> case_le r p"
  by (auto simp: case_le_def)

lemma disputes_le_trans: "disputes_le s t \<Longrightarrow> disputes_le t u \<Longrightarrow> disputes_le s u"
  unfolding disputes_le_def by (meson dispute_le_trans case_le_trans)

lemma dispute_change_le:
  assumes "dispute_change (D, nd, A, na, K) (D', nd', A', na', K')" and "D nd = None" "A na = None"
  shows "(\<forall>d r. D d = Some r \<longrightarrow> (\<exists>q. D' d = Some q \<and> dispute_le r q)) \<and>
     (\<forall>a r. A a = Some r \<longrightarrow> (\<exists>q. A' a = Some q \<and> case_le r q)) \<and>
     (\<forall>i k. K i = Some k \<longrightarrow> sk_slashed k \<longrightarrow> K' i = Some k)"
  using assms by (cases rule: dispute_change.cases) auto

lemma exec_dispute_le:
  assumes "exec_dispute E c s = Inr t" and inv: "dispute_inv s"
  shows "disputes_le s t"
proof -
  from inv have "rg_IpDisputes s (next_dispute s) = None" "rg_ArbitrationCase s (next_arbitration s) = None"
    by (auto simp: dispute_inv_def dispute_ids_def arbitration_ids_def dom_def)
  with dispute_change_le [OF exec_dispute_change [OF assms(1), unfolded dispute_maps_def]]
  show ?thesis by (simp add: disputes_le_def)
qed

lemma exec_dispute_inv: "exec_dispute E c s = Inr t \<Longrightarrow> dispute_inv s \<Longrightarrow> dispute_inv t"
  using exec_dispute_ids [of E c s t] exec_arbitration_ids [of E c s t]
  by (auto simp: dispute_inv_def)

interpretation disputes: monotone_system deployed "registry_step H" dispute_inv disputes_le for H
proof unfold_locales
  show "deployed s \<Longrightarrow> dispute_inv s" for s
    by (simp add: deployed_def dispute_inv_def counter_defs empty_registry_def)
  fix s t assume inv: "dispute_inv s" and "registry_step H s t"
  from this(2) show "dispute_inv t"
  proof (cases rule: registry_step_dispute)
    case disputes
    with inv show ?thesis by (blast intro: exec_dispute_inv)
  next
    case frame
    with inv show ?thesis
      by (simp add: keeps_disputes_def dispute_view_def dispute_inv_def counter_defs)
  qed
  from \<open>registry_step H s t\<close> show "disputes_le s t"
  proof (cases rule: registry_step_dispute)
    case disputes
    with inv show ?thesis by (blast intro: exec_dispute_le)
  next
    case frame
    then show ?thesis by (simp add: keeps_disputes_def dispute_view_def disputes_le_def)
  qed
qed (auto intro: disputes_le_trans)

section \<open>Delegation\<close>

definition delegates_ok :: "DelegationRecord list \<Rightarrow> bool" where
  "delegates_ok xs \<longleftrightarrow> distinct (map dl_delegate xs) \<and> (\<forall>r \<in> set xs. dl_depth r < MAX_DELEGATION_DEPTH)"

definition delegation_inv :: "registry \<Rightarrow> bool" where
  "delegation_inv s \<longleftrightarrow>
     (\<forall>a d. rg_DelegateDepth s a = Some d \<longrightarrow> d < MAX_DELEGATION_DEPTH) \<and>
     (\<forall>a. delegates_ok (unwrap_or [] (rg_Delegates s a)))"

lemma delegates_ok_simps [simp]:
  "delegates_ok []"
  "delegates_ok (xs @ [r]) \<longleftrightarrow> delegates_ok xs \<and> dl_delegate r \<notin> dl_delegate ` set xs \<and>
     dl_depth r < MAX_DELEGATION_DEPTH"
  by (auto simp: delegates_ok_def)

lemma delegates_ok_filter: "delegates_ok xs \<Longrightarrow> delegates_ok (filter p xs)"
  by (auto simp: delegates_ok_def distinct_map_filter)

lemma delegate_effect:
  assumes "delegate_commitment_authority E root a b s = Inr t"
  obtains (old) "b \<in> dl_delegate ` set (unwrap_or [] (rg_Delegates s root))" "t = s"
    | (new) n where "authorized E a" "n < MAX_DELEGATION_DEPTH"
      "a = root \<and> n = 0 \<or> (\<exists>d. rg_DelegateDepth s a = Some d \<and> n = d + 1)"
      "b \<notin> dl_delegate ` set (unwrap_or [] (rg_Delegates s root))"
      "rg_Delegates t = (rg_Delegates s)(root \<mapsto> unwrap_or [] (rg_Delegates s root) @
         [\<lparr>dl_delegate = b, dl_depth = n\<rparr>])"
      "rg_DelegateDepth t = (rg_DelegateDepth s)(b \<mapsto> n)"
proof -
  let ?delegates = "unwrap_or [] (rg_Delegates s root)"
  let ?result = "\<lambda>n. if b \<in> dl_delegate ` set ?delegates then Inr s
      else Inr (publish [Sym ''delegated'', Adr root] [Adr b, U32 n]
        (bump (DelegateDepth b) LEDGER_BUMP
          ((bump (Delegates root) LEDGER_BUMP
             (s\<lparr>rg_Delegates := (rg_Delegates s)
               (root \<mapsto> ?delegates @ [\<lparr>dl_delegate = b, dl_depth = n\<rparr>])\<rparr>))
           \<lparr>rg_DelegateDepth := (rg_DelegateDepth s)(b \<mapsto> n)\<rparr>))) :: registry rout"
  have depth_eq: "rg_DelegateDepth (bump k m (s\<lparr>rg_Delegates := x\<rparr>)) = rg_DelegateDepth s" for k m x
    by (simp add: state_simps)
  from assms obtain n where auth: "authorized E a"
    and depth: "(if a = root then Inr 0
      else bindE (ok_or (Contract Unauthorized) (rg_DelegateDepth s a)) (\<lambda>d. u32 (d + 1))) = (Inr n :: nat rout)"
    and rest: "(if n \<ge> MAX_DELEGATION_DEPTH then Inl (Contract Unauthorized) else ?result n) = Inr t"
    unfolding delegate_commitment_authority_def Let_def depth_eq
    by (elim bindE_InrE) simp
  from rest have n: "n < MAX_DELEGATION_DEPTH" and t: "?result n = Inr t"
    by (simp_all del: if_Inl_eq_Inr split: if_splits)
  from depth have d: "a = root \<and> n = 0 \<or> (\<exists>d. rg_DelegateDepth s a = Some d \<and> n = d + 1)"
    by (cases "a = root") auto
  show thesis
  proof (cases "b \<in> dl_delegate ` set ?delegates")
    case True
    with t show thesis by (intro old) simp_all
  next
    case False
    with t have "t = publish [Sym ''delegated'', Adr root] [Adr b, U32 n]
        (bump (DelegateDepth b) LEDGER_BUMP
          ((bump (Delegates root) LEDGER_BUMP
             (s\<lparr>rg_Delegates := (rg_Delegates s)
               (root \<mapsto> ?delegates @ [\<lparr>dl_delegate = b, dl_depth = n\<rparr>])\<rparr>))
           \<lparr>rg_DelegateDepth := (rg_DelegateDepth s)(b \<mapsto> n)\<rparr>))" by simp
    then show thesis by (intro new [OF auth n d False]) (simp_all add: state_simps)
  qed
qed

lemma revoke_delegation_effect:
  assumes "revoke_delegation E ow b s = Inr t"
  shows "authorized E ow \<and>
    rg_Delegates t = (rg_Delegates s)
      (ow \<mapsto> filter (\<lambda>r. dl_delegate r \<noteq> b) (unwrap_or [] (rg_Delegates s ow))) \<and>
    rg_DelegateDepth t = (rg_DelegateDepth s)(b := None)"
  using assms by (auto simp: revoke_delegation_def state_simps Let_def)

lemma exec_delegation_inv:
  assumes "exec_delegation E c s = Inr t" and inv: "delegation_inv s"
  shows "delegation_inv t"
proof (cases c)
  case (DelegateAuthority root a b)
  with assms have "delegate_commitment_authority E root a b s = Inr t" by simp
  then show ?thesis
    by (cases rule: delegate_effect) (use inv in \<open>simp_all add: delegation_inv_def\<close>)
next
  case (RevokeDelegation ow b)
  with assms have "revoke_delegation E ow b s = Inr t" by simp
  from revoke_delegation_effect [OF this] inv show ?thesis
    by (simp add: delegation_inv_def delegates_ok_filter)
qed

interpretation delegation: invariant_system deployed "registry_step H" delegation_inv for H
proof unfold_locales
  show "deployed s \<Longrightarrow> delegation_inv s" for s
    by (simp add: deployed_def delegation_inv_def empty_registry_def)
  fix s t assume inv: "delegation_inv s" and "registry_step H s t"
  from this(2) show "delegation_inv t"
  proof (cases rule: registry_step_delegation)
    case delegations
    with inv show ?thesis by (blast intro: exec_delegation_inv)
  next
    case frame
    with inv show ?thesis by (simp add: keeps_delegations_def delegation_view_def delegation_inv_def)
  qed
qed

text \<open>The edges of the delegation graph.\<close>

definition delegates_to :: "registry \<Rightarrow> (address \<times> address) set" where
  "delegates_to s = {(a, dl_delegate r) | a r. r \<in> set (unwrap_or [] (rg_Delegates s a))}"

lemma relpow_Suc_D2_iff: "(x, z) \<in> R ^^ Suc n \<longleftrightarrow> (\<exists>y. (x, y) \<in> R \<and> (y, z) \<in> R ^^ n)"
  by (meson relpow_Suc_D2 relpow_Suc_I2)

lemma is_delegate_in_chain_iff:
  "is_delegate_in_chain s root candidate n \<longleftrightarrow>
    (\<exists>k. 1 \<le> k \<and> k \<le> n \<and> (root, candidate) \<in> delegates_to s ^^ k)"
proof (induction n arbitrary: root)
  case 0
  then show ?case by auto
next
  case (Suc n)
  have "is_delegate_in_chain s root candidate (Suc n) \<longleftrightarrow>
      (\<exists>b. (root, b) \<in> delegates_to s \<and>
        (b = candidate \<or> (\<exists>k. 1 \<le> k \<and> k \<le> n \<and> (b, candidate) \<in> delegates_to s ^^ k)))"
    by (auto simp: list_ex_iff Suc.IH delegates_to_def)
  also have "\<dots> \<longleftrightarrow> (\<exists>b k. (root, b) \<in> delegates_to s \<and> k \<le> n \<and> (b, candidate) \<in> delegates_to s ^^ k)"
    (is "?L \<longleftrightarrow> ?R")
  proof
    assume ?L
    then obtain b where b: "(root, b) \<in> delegates_to s"
      and "b = candidate \<or> (\<exists>k. 1 \<le> k \<and> k \<le> n \<and> (b, candidate) \<in> delegates_to s ^^ k)" by blast
    from this(2) show ?R
    proof
      assume "b = candidate"
      with b show ?R by (intro exI [of _ b] exI [of _ 0]) simp
    qed (use b in blast)
  next
    assume ?R
    then obtain b k where "(root, b) \<in> delegates_to s" "k \<le> n" "(b, candidate) \<in> delegates_to s ^^ k"
      by blast
    then show ?L by (cases "k = 0") auto
  qed
  also have "\<dots> \<longleftrightarrow> (\<exists>k. k \<le> n \<and> (root, candidate) \<in> delegates_to s ^^ Suc k)"
    by (simp only: relpow_Suc_D2_iff) blast
  also have "\<dots> \<longleftrightarrow> (\<exists>k. 1 \<le> k \<and> k \<le> Suc n \<and> (root, candidate) \<in> delegates_to s ^^ k)"
    (is "?L \<longleftrightarrow> ?R")
  proof
    assume ?L then show ?R by (metis One_nat_def Suc_le_mono le0)
  next
    assume ?R
    then obtain k where "1 \<le> k" "k \<le> Suc n" "(root, candidate) \<in> delegates_to s ^^ k" by blast
    then show ?L by (cases k) auto
  qed
  finally show ?case .
qed

section \<open>Licences and access grants\<close>

interpretation licences: keyed_vector li_licensee "vec_find li_licensee" "vec_put li_licensee"
  "vec_del li_licensee" "\<lambda>xs. distinct (map li_licensee xs)"
  by (rule keyed_vector_vec)

interpretation grants: keyed_vector ag_grantee "vec_find ag_grantee" "vec_put ag_grantee"
  "vec_del ag_grantee" "\<lambda>xs. distinct (map ag_grantee xs)"
  by (rule keyed_vector_vec)

lemma grant_license_vec: "grant_license E i a h s = Inr t \<Longrightarrow>
    unwrap_or [] (rg_IpLicenses t i) =
      vec_put li_licensee \<lparr>li_licensee = a, li_terms_hash = h\<rparr> (unwrap_or [] (rg_IpLicenses s i))"
  by (auto simp: grant_license_def vec_put_def state_simps Let_def)

lemma revoke_license_vec: "revoke_license E i a s = Inr t \<Longrightarrow>
    unwrap_or [] (rg_IpLicenses t i) = vec_del li_licensee a (unwrap_or [] (rg_IpLicenses s i))"
  by (auto simp: revoke_license_def vec_del_def state_simps Let_def split: if_splits)

lemma grant_access_vec: "grant_ip_access E i a l s = Inr t \<Longrightarrow>
    unwrap_or [] (rg_IpAccessGrants t i) =
      vec_put ag_grantee \<lparr>ag_grantee = a, ag_access_level = l\<rparr> (unwrap_or [] (rg_IpAccessGrants s i))"
  by (auto simp: grant_ip_access_def vec_put_def state_simps Let_def)

lemma vec_del_absent: "k \<notin> key ` set xs \<Longrightarrow> vec_del key k xs = xs"
  unfolding vec_del_def by (rule remove_first_id) auto

lemma revoke_access_vec: "revoke_ip_access E i a s = Inr t \<Longrightarrow>
    unwrap_or [] (rg_IpAccessGrants t i) = vec_del ag_grantee a (unwrap_or [] (rg_IpAccessGrants s i))"
  by (auto simp: revoke_ip_access_def vec_del_absent vec_del_def [symmetric] state_simps Let_def
      split: if_splits)

lemma check_grants_find: "check_grants gs a l \<longleftrightarrow>
    (case vec_find ag_grantee a gs of Some g \<Rightarrow> ag_access_level g \<ge> l | None \<Rightarrow> False)"
  by (induction gs) (auto simp: vec_find_def)

end
