(* ===== verification/Registry_Theorems.thy ===== *)
theory Registry_Theorems
  imports Registry_Safety
begin

text \<open>
  The properties of the registry, over all its reachable storages, each followed by an instance on a
  concrete run.
\<close>

section \<open>A concrete run\<close>

text \<open>
  A host with a toy hash (32 bytes, injective on strings of up to 31 bytes), every signature given.
\<close>

definition demo_hash :: "bytes \<Rightarrow> bytes" where
  "demo_hash x = take 32 (x @ replicate 32 9)"

definition demo_env :: env where
  "demo_env = \<lparr>now = 1000, authorized = (\<lambda>_. True), this_addr = Address 0, sha256 = demo_hash,
     ed25519_ok = (\<lambda>_ _ _. True), token_ok = (\<lambda>_ _. True), oracle_price = (\<lambda>_ _. None)\<rparr>"

lemma demo_env_simps [simp]:
  "now demo_env = 1000" "authorized demo_env a" "this_addr demo_env = Address 0"
  "sha256 demo_env = demo_hash" "ed25519_ok demo_env p m sg" "token_ok demo_env ps x"
  by (simp_all add: demo_env_def)

lemma length_demo_hash [simp]: "length (demo_hash x) = 32"
  by (simp add: demo_hash_def)

lemma same_host_refl [simp]: "same_host H H"
  by (simp add: same_host_def)

text \<open>The run commits a design, a version of it, and a version of the version.\<close>

definition demo_hash1 :: bytes where "demo_hash1 = demo_hash [1, 2]"
definition demo_hash2 :: bytes where "demo_hash2 = demo_hash [3]"
definition demo_hash3 :: bytes where "demo_hash3 = demo_hash [4]"

definition demo1 :: registry where
  "demo1 = snd (projr (commit_ip demo_env (Address 1) demo_hash1 0 empty_registry))"
definition demo2 :: registry where
  "demo2 = snd (projr (create_ip_version demo_env 1 demo_hash2 demo1))"
definition demo3 :: registry where
  "demo3 = snd (projr (create_ip_version demo_env 2 demo_hash3 demo2))"

lemma demo_hash_facts:
  "length demo_hash1 = 32" "length demo_hash2 = 32" "length demo_hash3 = 32"
  "demo_hash1 \<noteq> replicate 32 0" "demo_hash2 \<noteq> replicate 32 0" "demo_hash3 \<noteq> replicate 32 0"
  "demo_hash1 \<noteq> demo_hash2" "demo_hash1 \<noteq> demo_hash3" "demo_hash2 \<noteq> demo_hash3"
proof -
  have hd_hash: "hd (demo_hash (x # xs)) = x" for x xs by (simp add: demo_hash_def)
  have ne: "demo_hash (x # xs) \<noteq> replicate 32 0" if "x \<noteq> 0" for x xs
    using hd_hash [of x xs] that by (auto dest: arg_cong [of _ _ hd])
  have diff: "demo_hash (x # xs) \<noteq> demo_hash (y # ys)" if "x \<noteq> y" for x xs y ys
    using hd_hash [of x xs] hd_hash [of y ys] that by (auto dest: arg_cong [of _ _ hd])
  show "length demo_hash1 = 32" "length demo_hash2 = 32" "length demo_hash3 = 32"
    "demo_hash1 \<noteq> replicate 32 0" "demo_hash2 \<noteq> replicate 32 0" "demo_hash3 \<noteq> replicate 32 0"
    "demo_hash1 \<noteq> demo_hash2" "demo_hash1 \<noteq> demo_hash3" "demo_hash2 \<noteq> demo_hash3"
    by (simp_all add: demo_hash1_def demo_hash2_def demo_hash3_def ne diff)
qed

lemma empty_registry_fields [simp]:
  "rg_IpRecord empty_registry = Map.empty" "rg_NextId empty_registry = None"
  "rg_CommitmentOwner empty_registry = Map.empty" "rg_Admin empty_registry = None"
  "rg_Delegates empty_registry = Map.empty"
  by (simp_all add: empty_registry_def)

lemmas guard_defs = require_pow_def require_non_zero_commitment_def require_unique_commitment_def

lemma demo1_commit: "commit_ip demo_env (Address 1) demo_hash1 0 empty_registry = Inr (1, demo1)"
proof -
  have "\<exists>t. commit_ip demo_env (Address 1) demo_hash1 0 empty_registry = Inr (1, t)"
    unfolding commit_ip_def
    by (simp add: Let_def guard_defs demo_hash_facts)
  then show ?thesis by (auto simp: demo1_def)
qed

lemma demo1_fields [simp]:
  "rg_IpRecord demo1 = [1 \<mapsto> fresh_record 1 1000 (Address 1) demo_hash1 None]"
  "rg_NextId demo1 = Some 2" "rg_CommitmentOwner demo1 = [demo_hash1 \<mapsto> Address 1]"
  using commit_ip_effect [OF demo1_commit] by (simp_all add: registers_def next_ip_def)

lemma demo2_version: "create_ip_version demo_env 1 demo_hash2 demo1 = Inr (2, demo2)"
proof -
  have "ancestor_check demo1 [] (Suc 0) = Some True"
    by (subst ancestor_check.simps) (simp add: fresh_record_def)
  moreover have "find_root s (Suc 0) = Some (Suc 0)"
    if "rg_IpRecord s (Suc 0) = Some (fresh_record 1 1000 (Address 1) demo_hash1 None)" for s
    using that by (subst find_root.simps) (simp add: fresh_record_def)
  ultimately have "\<exists>t. create_ip_version demo_env 1 demo_hash2 demo1 = Inr (2, t)"
    unfolding create_ip_version_def using demo_hash_facts
    by (simp add: Let_def fresh_record_def guard_defs state_simps)
  then show ?thesis by (auto simp: demo2_def)
qed

lemma demo2_fields [simp]:
  "rg_IpRecord demo2 = [1 \<mapsto> fresh_record 1 1000 (Address 1) demo_hash1 None,
     2 \<mapsto> fresh_record 2 1000 (Address 1) demo_hash2 (Some 1)]"
  "rg_NextId demo2 = Some 3" "rg_CommitmentOwner demo2 = [demo_hash1 \<mapsto> Address 1, demo_hash2 \<mapsto> Address 1]"
proof -
  obtain r where "rg_IpRecord demo1 1 = Some r" "registers 1000 (ir_owner r) demo_hash2 (Some 1) demo1 demo2"
    by (rule create_ip_version_effect [OF demo2_version]) simp
  then show "rg_IpRecord demo2 = [1 \<mapsto> fresh_record 1 1000 (Address 1) demo_hash1 None,
     2 \<mapsto> fresh_record 2 1000 (Address 1) demo_hash2 (Some 1)]"
    "rg_NextId demo2 = Some 3"
    "rg_CommitmentOwner demo2 = [demo_hash1 \<mapsto> Address 1, demo_hash2 \<mapsto> Address 1]"
    by (auto simp: registers_def next_ip_def fresh_record_def)
qed

lemma demo3_version: "create_ip_version demo_env 2 demo_hash3 demo2 = Inr (3, demo3)"
proof -
  have "ancestor_check demo2 [] 2 = Some True"
    by (subst ancestor_check.simps, simp add: fresh_record_def)
      (subst ancestor_check.simps, simp add: fresh_record_def)
  moreover have "find_root s 2 = Some (Suc 0)"
    if "rg_IpRecord s (Suc 0) = Some (fresh_record 1 1000 (Address 1) demo_hash1 None)"
      "rg_IpRecord s 2 = Some (fresh_record 2 1000 (Address 1) demo_hash2 (Some 1))" for s
    using that by (subst find_root.simps, simp add: fresh_record_def)
      (subst find_root.simps, simp add: fresh_record_def)
  ultimately have "\<exists>t. create_ip_version demo_env 2 demo_hash3 demo2 = Inr (3, t)"
    unfolding create_ip_version_def using demo_hash_facts
    by (simp add: Let_def fresh_record_def guard_defs state_simps)
  then show ?thesis by (auto simp: demo3_def)
qed

lemma demo_steps:
  "registry_step demo_env empty_registry demo1" "registry_step demo_env demo1 demo2"
  "registry_step demo_env demo2 demo3"
  by (rule registry_call [of _ demo_env "Records (CommitIp (Address 1) demo_hash1 0)"]
      registry_call [of _ demo_env "Records (CreateIpVersion 1 demo_hash2)"]
      registry_call [of _ demo_env "Records (CreateIpVersion 2 demo_hash3)"],
    use demo1_commit demo2_version demo3_version demo_hash_facts in \<open>simp_all add: call_hashes_def\<close>)+

lemma demo_reachable:
  "registry_reachable demo_env empty_registry" "registry_reachable demo_env demo1"
  "registry_reachable demo_env demo2" "registry_reachable demo_env demo3"
proof -
  show "registry_reachable demo_env empty_registry"
    by (rule reachable_init) (simp add: deployed_def)
  then show 1: "registry_reachable demo_env demo1" by (rule reachable_step) (rule demo_steps)
  then show 2: "registry_reachable demo_env demo2" by (rule reachable_step) (rule demo_steps)
  then show "registry_reachable demo_env demo3" by (rule reachable_step) (rule demo_steps)
qed

lemma demo3_fields [simp]:
  "rg_IpRecord demo3 = [1 \<mapsto> fresh_record 1 1000 (Address 1) demo_hash1 None,
     2 \<mapsto> fresh_record 2 1000 (Address 1) demo_hash2 (Some 1),
     3 \<mapsto> fresh_record 3 1000 (Address 1) demo_hash3 (Some 2)]"
  "rg_NextId demo3 = Some 4"
proof -
  obtain r where "rg_IpRecord demo2 2 = Some r" "registers 1000 (ir_owner r) demo_hash3 (Some 2) demo2 demo3"
    by (rule create_ip_version_effect [OF demo3_version]) simp
  then show "rg_IpRecord demo3 = [1 \<mapsto> fresh_record 1 1000 (Address 1) demo_hash1 None,
     2 \<mapsto> fresh_record 2 1000 (Address 1) demo_hash2 (Some 1),
     3 \<mapsto> fresh_record 3 1000 (Address 1) demo_hash3 (Some 2)]" "rg_NextId demo3 = Some 4"
    by (auto simp: registers_def next_ip_def fresh_record_def)
qed

section \<open>The indexes and the abstract ledger\<close>

text \<open>C2: in every reachable storage the ids in use are exactly those below the
  counter, each record is stored under its own id and its hash is registered to its owner, every
  registered hash belongs to a record, no two records share a hash, and the list of an owner has each
  of the owner's records once and nothing else (the anonymous records, owned by the contract itself,
  need not be listed).\<close>

theorem registry_index_invariant:
  assumes "registry_reachable H s"
  shows "(\<forall>i. rg_IpRecord s i \<noteq> None \<longleftrightarrow> 1 \<le> i \<and> i < next_ip s) \<and>
    (\<forall>i r. rg_IpRecord s i = Some r \<longrightarrow> ir_ip_id r = i \<and> ir_commitment_hash r \<noteq> replicate 32 0 \<and>
       rg_CommitmentOwner s (ir_commitment_hash r) = Some (ir_owner r)) \<and>
    (\<forall>h ow. rg_CommitmentOwner s h = Some ow \<longrightarrow>
       (\<exists>i r. rg_IpRecord s i = Some r \<and> ir_commitment_hash r = h)) \<and>
    (\<forall>i j r q. rg_IpRecord s i = Some r \<longrightarrow> rg_IpRecord s j = Some q \<longrightarrow>
       ir_commitment_hash r = ir_commitment_hash q \<longrightarrow> i = j) \<and>
    (\<forall>ow. distinct (list_ip_by_owner s ow) \<and>
       (\<forall>i \<in> set (list_ip_by_owner s ow). is_ip_owner s i ow)) \<and>
    (\<forall>i ow. is_ip_owner s i ow \<longrightarrow> ow \<noteq> this_addr H \<longrightarrow> i \<in> set (list_ip_by_owner s ow))"
proof -
  have ok: "registry_index (this_addr H) s" by (rule records.reachable_inv [OF assms])
  note idx = ok [unfolded registry_index_def]
  have rec: "record_ok (this_addr H) (rg_IpRecord s) (rg_OwnerIps s) (rg_CommitmentOwner s) i r"
    if "rg_IpRecord s i = Some r" for i r by (rule index_record [OF idx that])
  have owned: "\<exists>r. rg_IpRecord s i = Some r \<and> ir_owner r = ow"
    if "i \<in> set (list_ip_by_owner s ow)" for i ow
    using index_owned [OF idx] that by (simp add: list_ip_by_owner_def ids_of_def)
  show ?thesis
  proof (intro conjI allI)
    show "rg_IpRecord s i \<noteq> None \<longleftrightarrow> 1 \<le> i \<and> i < next_ip s" for i by (rule index_exists_iff [OF ok])
    show "rg_IpRecord s i = Some r \<longrightarrow> ir_ip_id r = i \<and> ir_commitment_hash r \<noteq> replicate 32 0 \<and>
       rg_CommitmentOwner s (ir_commitment_hash r) = Some (ir_owner r)" for i r
      using rec [of i r] by (simp add: record_ok_def)
    show "rg_CommitmentOwner s h = Some ow \<longrightarrow>
       (\<exists>i r. rg_IpRecord s i = Some r \<and> ir_commitment_hash r = h)" for h ow
      using index_hash [OF idx, of h ow] by blast
    show "rg_IpRecord s i = Some r \<longrightarrow> rg_IpRecord s j = Some q \<longrightarrow>
       ir_commitment_hash r = ir_commitment_hash q \<longrightarrow> i = j" for i j r q
      using index_unique [OF idx, of i r j q] by blast
    show "distinct (list_ip_by_owner s ow)" for ow
      using index_distinct [OF idx] by (simp add: list_ip_by_owner_def ids_of_def)
    show "\<forall>i \<in> set (list_ip_by_owner s ow). is_ip_owner s i ow" for ow
      using owned [of _ ow] by (fastforce simp: is_ip_owner_def)
    show "is_ip_owner s i ow \<longrightarrow> ow \<noteq> this_addr H \<longrightarrow> i \<in> set (list_ip_by_owner s ow)" for i ow
      using rec [of i] by (auto simp: is_ip_owner_def record_ok_def list_ip_by_owner_def ids_of_def
          split: option.splits)
  qed
qed

theorem registry_index_invariant_witness:
  "rg_IpRecord demo3 3 \<noteq> None \<longleftrightarrow> 1 \<le> (3::nat) \<and> 3 < next_ip demo3"
  using registry_index_invariant [OF demo_reachable(4)] by blast

text \<open>C7: every call of the registry refines the abstract ledger: on the list of
  entries it appends fresh ones, each signed for by its owner unless the registry itself keeps it
  anonymously, or changes the owner, the hash or the revocation of an entry whose owner has signed,
  and nothing else. The signatures are those of the call that is refined, no others.\<close>

theorem registry_refines_ledger:
  assumes "registry_reachable H s" and "same_host H E"
    and "exec_registry E c s = Inr t" and "\<forall>h \<in> set (call_hashes c). length h = 32"
  shows "(ledger_step (this_addr E) (authorized E))\<^sup>*\<^sup>* (ledger s) (ledger t)"
  using exec_registry_ledger [OF assms(3,4)] records.reachable_inv [OF assms(1)] assms(2)
  by (simp add: same_host_def)

text \<open>A transfer that only the owner has signed: the ledger takes the step under that one signature.\<close>

theorem registry_refines_ledger_witness:
  "let E = demo_env\<lparr>authorized := (\<lambda>a. a = Address 1)\<rparr>; t = projr (transfer_ip E 1 (Address 2) demo1)
   in transfer_ip E 1 (Address 2) demo1 = Inr t \<and>
     (ledger_step (Address 0) (\<lambda>a. a = Address 1))\<^sup>*\<^sup>* (ledger demo1) (ledger t)"
proof -
  let ?E = "demo_env\<lparr>authorized := (\<lambda>a. a = Address 1)\<rparr>"
  let ?t = "projr (transfer_ip ?E 1 (Address 2) demo1)"
  have "\<exists>t. transfer_ip ?E 1 (Address 2) demo1 = Inr t"
    by (simp add: transfer_ip_def fresh_record_def require_auth_def Let_def require_not_revoked_def)
  then have t: "transfer_ip ?E 1 (Address 2) demo1 = Inr ?t" by auto
  then have "exec_registry ?E (Records (TransferIp 1 (Address 2))) demo1 = Inr ?t" by simp
  with registry_refines_ledger [OF demo_reachable(2), of ?E "Records (TransferIp 1 (Address 2))" ?t]
  have "(ledger_step (Address 0) (\<lambda>a. a = Address 1))\<^sup>*\<^sup>* (ledger demo1) (ledger ?t)"
    by (simp add: same_host_def demo_env_def call_hashes_def)
  with t show ?thesis by (simp add: Let_def)
qed

lemma commit_ip_audit: "commit_ip E ow h d s = Inr (i, t) \<Longrightarrow>
    audit_trail t i = audit_trail s i @ [\<lparr>au_action = ''committed'', au_actor = ow, au_timestamp = now E\<rparr>]"
  by (auto simp: commit_ip_def adjust_pow_difficulty_def Let_def audit_trail_def append_audit_entry_def)

text \<open>What \<open>commit_ip\<close> computes, with its writes gathered in one update.\<close>

lemma init_admin_closed:
  "init_admin E s = s\<lparr>rg_Admin := Some (unwrap_or (this_addr E) (rg_Admin s)),
     rg_log := rg_log s @ (if rg_Admin s = None then [ExtendTtl Admin 50000 50000] else [])\<rparr>"
  by (cases "rg_Admin s"; cases s) (simp_all add: init_admin_def state_simps)

lemma writes_closed:
  "(let record = \<lparr>ir_ip_id = i, ir_owner = ow, ir_commitment_hash = h,
           ir_timestamp = now E, ir_revoked = False, ir_co_owners = [], ir_parent_ip_id = None,
           ir_notary_signature = None\<rparr>;
         s = bump (IpRecord i) LEDGER_BUMP
           (u\<lparr>rg_IpRecord := (rg_IpRecord u)(i \<mapsto> record)\<rparr>);
         s = bump (IpPowDifficulty i) LEDGER_BUMP
           (s\<lparr>rg_IpPowDifficulty := (rg_IpPowDifficulty s)(i \<mapsto> d)\<rparr>);
         s = bump (OwnerIps ow) LEDGER_BUMP
           (s\<lparr>rg_OwnerIps := (rg_OwnerIps s)(ow \<mapsto> unwrap_or [] (rg_OwnerIps s ow) @ [i])\<rparr>);
         s = bump (CommitmentOwner h) 50000
           (s\<lparr>rg_CommitmentOwner := (rg_CommitmentOwner s)(h \<mapsto> ow)\<rparr>);
         s = bump NextId LEDGER_BUMP (s\<lparr>rg_NextId := Some n\<rparr>);
         s = bump (CommitmentOwner h) LEDGER_BUMP
           (s\<lparr>rg_CommitmentOwner := (rg_CommitmentOwner s)(h \<mapsto> ow)\<rparr>)
    in publish [Sym ''ip_commit'', Adr ow] [U64 i, U64 (ir_timestamp record)] s) =
   u\<lparr>rg_IpRecord := (rg_IpRecord u)(i \<mapsto> \<lparr>ir_ip_id = i, ir_owner = ow, ir_commitment_hash = h,
         ir_timestamp = now E, ir_revoked = False, ir_co_owners = [], ir_parent_ip_id = None,
         ir_notary_signature = None\<rparr>),
       rg_OwnerIps := (rg_OwnerIps u)(ow \<mapsto> unwrap_or [] (rg_OwnerIps u ow) @ [i]),
       rg_NextId := Some n,
       rg_CommitmentOwner := (rg_CommitmentOwner u)(h \<mapsto> ow),
       rg_IpPowDifficulty := (rg_IpPowDifficulty u)(i \<mapsto> d),
       rg_log := rg_log u @
         map (\<lambda>(key, n). ExtendTtl key n n) [(IpRecord i, LEDGER_BUMP), (IpPowDifficulty i, LEDGER_BUMP),
           (OwnerIps ow, LEDGER_BUMP), (CommitmentOwner h, 50000), (NextId, LEDGER_BUMP),
           (CommitmentOwner h, LEDGER_BUMP)] @
         [Publish [Sym ''ip_commit'', Adr ow] [U64 i, U64 (now E)]]\<rparr>"
  by (cases u) (simp add: state_simps Let_def)
lemma bookkeeping_closed:
  assumes "rg_NextId w = Some (i + 1)" and "rg_IpRecord w i = Some r" and "1 \<le> i"
  shows "update_commitment_checksum E
      (store_compressed_commitment i h (assign_to_shard i h (append_audit_entry E i a ow w))) =
    w\<lparr>rg_CommitmentHashes := Some (unwrap_or [] (rg_CommitmentHashes w) @ [ir_commitment_hash r]),
      rg_IpCommitmentChecksum :=
        Some (sha256 E (concat (unwrap_or [] (rg_CommitmentHashes w) @ [ir_commitment_hash r]))),
      rg_ShardIps := (rg_ShardIps w)(unat (h ! 0) mod NUM_SHARDS \<mapsto>
        unwrap_or [] (rg_ShardIps w (unat (h ! 0) mod NUM_SHARDS)) @ [i]),
      rg_IpAuditTrail := (rg_IpAuditTrail w)(i \<mapsto> unwrap_or [] (rg_IpAuditTrail w i) @
        [\<lparr>au_action = a, au_actor = ow, au_timestamp = now E\<rparr>]),
      rg_CompressedCommitment := (rg_CompressedCommitment w)(i \<mapsto> take 16 h),
      rg_log := rg_log w @ map (\<lambda>key. ExtendTtl key LEDGER_BUMP LEDGER_BUMP) [IpAuditTrail i,
        ShardIps (unat (h ! 0) mod NUM_SHARDS), CompressedCommitment i, CommitmentHashes, IpCommitmentChecksum]\<rparr>"
  using assms
  by (cases w) (simp add: append_audit_entry_def assign_to_shard_def store_compressed_commitment_def
    update_commitment_checksum_def state_simps Let_def)

lemma commit_ip_stages:
  assumes "authorized E ow" and "h \<noteq> replicate 32 0" and "rg_CommitmentOwner s h = None"
    and "d = 0 \<or> pow_loop h d" and "i = next_ip s" and "i + 1 < 2 ^ 64" and "u = init_admin E s"
  shows "commit_ip E ow h d s = Inr (i, update_commitment_checksum E
      (store_compressed_commitment i h (assign_to_shard i h (append_audit_entry E i ''committed'' ow
    (let record = \<lparr>ir_ip_id = i, ir_owner = ow, ir_commitment_hash = h,
           ir_timestamp = now E, ir_revoked = False, ir_co_owners = [], ir_parent_ip_id = None,
           ir_notary_signature = None\<rparr>;
         s = bump (IpRecord i) LEDGER_BUMP
           (u\<lparr>rg_IpRecord := (rg_IpRecord u)(i \<mapsto> record)\<rparr>);
         s = bump (IpPowDifficulty i) LEDGER_BUMP
           (s\<lparr>rg_IpPowDifficulty := (rg_IpPowDifficulty s)(i \<mapsto> d)\<rparr>);
         s = bump (OwnerIps ow) LEDGER_BUMP
           (s\<lparr>rg_OwnerIps := (rg_OwnerIps s)(ow \<mapsto> unwrap_or [] (rg_OwnerIps s ow) @ [i])\<rparr>);
         s = bump (CommitmentOwner h) 50000
           (s\<lparr>rg_CommitmentOwner := (rg_CommitmentOwner s)(h \<mapsto> ow)\<rparr>);
         s = bump NextId LEDGER_BUMP (s\<lparr>rg_NextId := Some (i + 1)\<rparr>);
         s = bump (CommitmentOwner h) LEDGER_BUMP
           (s\<lparr>rg_CommitmentOwner := (rg_CommitmentOwner s)(h \<mapsto> ow)\<rparr>)
    in publish [Sym ''ip_commit'', Adr ow] [U64 i, U64 (ir_timestamp record)] s)))))"
proof -
  have "rg_CommitmentOwner u = rg_CommitmentOwner s" "rg_NextId u = rg_NextId s" using assms(7) by simp_all
  then show ?thesis
    using assms(1-6) unfolding assms(7)
    by (auto simp: commit_ip_def guard_defs require_auth_def u64_def Let_def next_ip_def adjust_pow_difficulty_def)
qed

lemma commit_ip_stored:
  assumes "authorized E ow" and "h \<noteq> replicate 32 0" and "rg_CommitmentOwner s h = None"
    and "d = 0 \<or> pow_loop h d" and "i = next_ip s" and "i + 1 < 2 ^ 64" and "1 \<le> i"
    and k: "k = unat (h ! 0) mod NUM_SHARDS"
    and tracked: "tracked = unwrap_or [] (rg_CommitmentHashes s) @ [h]"
  shows "commit_ip E ow h d s = Inr (i, s\<lparr>
       rg_IpRecord := (rg_IpRecord s)(i \<mapsto> \<lparr>ir_ip_id = i, ir_owner = ow, ir_commitment_hash = h,
         ir_timestamp = now E, ir_revoked = False, ir_co_owners = [], ir_parent_ip_id = None,
         ir_notary_signature = None\<rparr>),
       rg_OwnerIps := (rg_OwnerIps s)(ow \<mapsto> unwrap_or [] (rg_OwnerIps s ow) @ [i]),
       rg_NextId := Some (i + 1),
       rg_CommitmentOwner := (rg_CommitmentOwner s)(h \<mapsto> ow),
       rg_Admin := Some (unwrap_or (this_addr E) (rg_Admin s)),
       rg_IpPowDifficulty := (rg_IpPowDifficulty s)(i \<mapsto> d),
       rg_CommitmentHashes := Some tracked,
       rg_IpCommitmentChecksum := Some (sha256 E (concat tracked)),
       rg_ShardIps := (rg_ShardIps s)(k \<mapsto> unwrap_or [] (rg_ShardIps s k) @ [i]),
       rg_IpAuditTrail := (rg_IpAuditTrail s)(i \<mapsto> unwrap_or [] (rg_IpAuditTrail s i) @
         [\<lparr>au_action = ''committed'', au_actor = ow, au_timestamp = now E\<rparr>]),
       rg_CompressedCommitment := (rg_CompressedCommitment s)(i \<mapsto> take 16 h),
       rg_log := rg_log s @ (if rg_Admin s = None then [ExtendTtl Admin 50000 50000] else []) @
         map (\<lambda>(key, n). ExtendTtl key n n) [(IpRecord i, LEDGER_BUMP), (IpPowDifficulty i, LEDGER_BUMP),
           (OwnerIps ow, LEDGER_BUMP), (CommitmentOwner h, 50000), (NextId, LEDGER_BUMP),
           (CommitmentOwner h, LEDGER_BUMP)] @
         [Publish [Sym ''ip_commit'', Adr ow] [U64 i, U64 (now E)]] @
         map (\<lambda>key. ExtendTtl key LEDGER_BUMP LEDGER_BUMP) [IpAuditTrail i, ShardIps k,
           CompressedCommitment i, CommitmentHashes, IpCommitmentChecksum]\<rparr>)"
  unfolding commit_ip_stages [OF assms(1-6) refl] writes_closed init_admin_closed sum.inject prod.inject
  by (subst bookkeeping_closed [where i = i], simp, simp, rule assms, rule conjI, rule refl,
    unfold k tracked, rule registry.equality; simp)

lemma commit_ip_result:
  assumes "1 \<le> next_ip s"
  shows "commit_ip E ow h d s =
    (let i = next_ip s; k = unat (h ! 0) mod NUM_SHARDS;
         tracked = unwrap_or [] (rg_CommitmentHashes s) @ [h]
     in if \<not> authorized E ow then Inl AuthFailed
     else if h = replicate 32 0 then Inl (Contract ZeroCommitmentHash)
     else if rg_CommitmentOwner s h \<noteq> None then Inl (Contract CommitmentAlreadyRegistered)
     else if d \<noteq> 0 \<and> \<not> pow_loop h d then Inl (Contract InsufficientPoW)
     else if 2 ^ 64 \<le> i + 1 then Inl Overflow
     else Inr (i, s\<lparr>
       rg_IpRecord := (rg_IpRecord s)(i \<mapsto> \<lparr>ir_ip_id = i, ir_owner = ow, ir_commitment_hash = h,
         ir_timestamp = now E, ir_revoked = False, ir_co_owners = [], ir_parent_ip_id = None,
         ir_notary_signature = None\<rparr>),
       rg_OwnerIps := (rg_OwnerIps s)(ow \<mapsto> unwrap_or [] (rg_OwnerIps s ow) @ [i]),
       rg_NextId := Some (i + 1),
       rg_CommitmentOwner := (rg_CommitmentOwner s)(h \<mapsto> ow),
       rg_Admin := Some (unwrap_or (this_addr E) (rg_Admin s)),
       rg_IpPowDifficulty := (rg_IpPowDifficulty s)(i \<mapsto> d),
       rg_CommitmentHashes := Some tracked,
       rg_IpCommitmentChecksum := Some (sha256 E (concat tracked)),
       rg_ShardIps := (rg_ShardIps s)(k \<mapsto> unwrap_or [] (rg_ShardIps s k) @ [i]),
       rg_IpAuditTrail := (rg_IpAuditTrail s)(i \<mapsto> unwrap_or [] (rg_IpAuditTrail s i) @
         [\<lparr>au_action = ''committed'', au_actor = ow, au_timestamp = now E\<rparr>]),
       rg_CompressedCommitment := (rg_CompressedCommitment s)(i \<mapsto> take 16 h),
       rg_log := rg_log s @ (if rg_Admin s = None then [ExtendTtl Admin 50000 50000] else []) @
         map (\<lambda>(key, n). ExtendTtl key n n) [(IpRecord i, LEDGER_BUMP), (IpPowDifficulty i, LEDGER_BUMP),
           (OwnerIps ow, LEDGER_BUMP), (CommitmentOwner h, 50000), (NextId, LEDGER_BUMP),
           (CommitmentOwner h, LEDGER_BUMP)] @
         [Publish [Sym ''ip_commit'', Adr ow] [U64 i, U64 (now E)]] @
         map (\<lambda>key. ExtendTtl key LEDGER_BUMP LEDGER_BUMP) [IpAuditTrail i, ShardIps k,
           CompressedCommitment i, CommitmentHashes, IpCommitmentChecksum]\<rparr>))"
proof (cases "authorized E ow \<and> h \<noteq> replicate 32 0 \<and> rg_CommitmentOwner s h = None \<and>
    (d = 0 \<or> pow_loop h d) \<and> next_ip s + 1 < 2 ^ 64")
  case True
  then show ?thesis
    by (auto simp: commit_ip_stored [of E ow h s d, OF _ _ _ _ refl _ assms refl refl] Let_def)
next
  case False
  then show ?thesis
    by (auto simp: commit_ip_def guard_defs require_auth_def u64_def Let_def next_ip_def split: option.splits)
qed

lemma hash_used_iff:
  assumes "registry_index self s"
  shows "rg_CommitmentOwner s h \<noteq> None \<longleftrightarrow> (\<exists>j r. rg_IpRecord s j = Some r \<and> ir_commitment_hash r = h)"
proof -
  note ok = assms [unfolded registry_index_def]
  show ?thesis using index_hash [OF ok, of h] index_record [OF ok] by (fastforce simp: record_ok_def)
qed

text \<open>C16: the complete outcome of \<open>commit_ip\<close> in every case, in every reachable storage.
  It is refused, with the error of the first check that fails and nothing stored, without the
  signature of the owner, for the zero hash, for the hash of a record already there, for a hash with a
  one among the leading \<open>d\<close> bits, and when the ids are used up; in all other cases it succeeds with the
  next id. Then the record is stored as committed, the id is appended to the list of the owner, to the
  list of the shard of the hash and nowhere else, the difficulty, the owner and the shortened form of
  the hash are stored, the trail of the id gets its entry, the tracked hashes and their checksum take
  the hash in, the admin is set on the first call, one event goes out, and no other field changes.\<close>

theorem commit_ip_outcome:
  assumes "registry_reachable H s"
  shows "commit_ip E ow h d s =
    (let i = next_ip s; k = unat (h ! 0) mod NUM_SHARDS;
         tracked = unwrap_or [] (rg_CommitmentHashes s) @ [h]
     in if \<not> authorized E ow then Inl AuthFailed
     else if h = replicate 32 0 then Inl (Contract ZeroCommitmentHash)
     else if \<exists>j r. rg_IpRecord s j = Some r \<and> ir_commitment_hash r = h
       then Inl (Contract CommitmentAlreadyRegistered)
     else if \<exists>b < min d (8 * length h). lead_bit h b then Inl (Contract InsufficientPoW)
     else if 2 ^ 64 \<le> i + 1 then Inl Overflow
     else Inr (i, s\<lparr>
       rg_IpRecord := (rg_IpRecord s)(i \<mapsto> \<lparr>ir_ip_id = i, ir_owner = ow, ir_commitment_hash = h,
         ir_timestamp = now E, ir_revoked = False, ir_co_owners = [], ir_parent_ip_id = None,
         ir_notary_signature = None\<rparr>),
       rg_OwnerIps := (rg_OwnerIps s)(ow \<mapsto> list_ip_by_owner s ow @ [i]),
       rg_NextId := Some (i + 1),
       rg_CommitmentOwner := (rg_CommitmentOwner s)(h \<mapsto> ow),
       rg_Admin := Some (unwrap_or (this_addr E) (rg_Admin s)),
       rg_IpPowDifficulty := (rg_IpPowDifficulty s)(i \<mapsto> d),
       rg_CommitmentHashes := Some tracked,
       rg_IpCommitmentChecksum := Some (sha256 E (concat tracked)),
       rg_ShardIps := (rg_ShardIps s)(k \<mapsto> get_shard_ip_ids s k @ [i]),
       rg_IpAuditTrail := (rg_IpAuditTrail s)(i \<mapsto> audit_trail s i @
         [\<lparr>au_action = ''committed'', au_actor = ow, au_timestamp = now E\<rparr>]),
       rg_CompressedCommitment := (rg_CompressedCommitment s)(i \<mapsto> take 16 h),
       rg_log := rg_log s @ (if rg_Admin s = None then [ExtendTtl Admin 50000 50000] else []) @
         map (\<lambda>(key, n). ExtendTtl key n n) [(IpRecord i, LEDGER_BUMP), (IpPowDifficulty i, LEDGER_BUMP),
           (OwnerIps ow, LEDGER_BUMP), (CommitmentOwner h, 50000), (NextId, LEDGER_BUMP),
           (CommitmentOwner h, LEDGER_BUMP)] @
         [Publish [Sym ''ip_commit'', Adr ow] [U64 i, U64 (now E)]] @
         map (\<lambda>key. ExtendTtl key LEDGER_BUMP LEDGER_BUMP) [IpAuditTrail i, ShardIps k,
           CompressedCommitment i, CommitmentHashes, IpCommitmentChecksum]\<rparr>))"
proof -
  have idx: "registry_index (this_addr H) s" by (rule records.reachable_inv [OF assms])
  have used: "rg_CommitmentOwner s h \<noteq> None \<longleftrightarrow> (\<exists>j r. rg_IpRecord s j = Some r \<and> ir_commitment_hash r = h)"
    by (rule hash_used_iff [OF idx])
  have pow: "d \<noteq> 0 \<and> \<not> pow_loop h d \<longleftrightarrow> (\<exists>b < min d (8 * length h). lead_bit h b)"
    by (auto simp: pow_loop_iff)
  show ?thesis
    unfolding commit_ip_result [OF index_next_pos [OF idx]] used [symmetric] pow [symmetric]
    by (simp add: Let_def list_ip_by_owner_def get_shard_ip_ids_def audit_trail_def)
qed

theorem commit_ip_outcome_witness:
  "commit_ip demo_env (Address 2) demo_hash1 0 demo1 = Inl (Contract CommitmentAlreadyRegistered) \<and>
   fst (projr (commit_ip demo_env (Address 2) demo_hash2 0 demo1)) = 2 \<and>
   list_ip_by_owner (snd (projr (commit_ip demo_env (Address 2) demo_hash2 0 demo1))) (Address 2) =
     list_ip_by_owner demo1 (Address 2) @ [2]"
  unfolding commit_ip_outcome [OF demo_reachable(2)]
  using demo_hash_facts by (simp add: Let_def next_ip_def fresh_record_def list_ip_by_owner_def)

section \<open>Batches of commitments\<close>

text \<open>
  Why position \<open>k\<close> of a batch is refused, if it is: \<open>n\<close> is the next id before the batch and \<open>used\<close> says which
  hashes are taken by then.
\<close>

definition batch_refusal where
  "batch_refusal used n hs k =
     (if hs ! k = replicate 32 0 then Some (Contract ZeroCommitmentHash)
      else if used (hs ! k) \<or> hs ! k \<in> set (take k hs) then Some (Contract CommitmentAlreadyRegistered)
      else if 2 ^ 64 \<le> n + k + 1 then Some Overflow else None)"

lemma batch_refusal_Suc:
  "batch_refusal used n (h # hs) (Suc k) = batch_refusal (\<lambda>x. used x \<or> x = h) (n + 1) hs k"
  by (auto simp: batch_refusal_def)

lemma batch_step_cases:
  "case batch_refusal (\<lambda>x. rg_CommitmentOwner s x \<noteq> None) (next_ip s) (h # hs) 0 of
     Some e \<Rightarrow> batch_commit_step E ow time h (ids, s) = Inl e
   | None \<Rightarrow> \<exists>t. batch_commit_step E ow time h (ids, s) = Inr (ids @ [next_ip s], t)"
  by (simp add: batch_refusal_def batch_commit_step_def guard_defs u64_def next_ip_def Let_def split: option.splits)

lemma registers_used:
  "registers time ow h None s t \<Longrightarrow>
    (\<lambda>x. rg_CommitmentOwner t x \<noteq> None) = (\<lambda>x. rg_CommitmentOwner s x \<noteq> None \<or> x = h)"
  by (auto simp: registers_def)

lemma batch_fold_refused:
  assumes "\<forall>j < k. batch_refusal (\<lambda>x. rg_CommitmentOwner s x \<noteq> None) (next_ip s) hs j = None"
    and "k < length hs" and "batch_refusal (\<lambda>x. rg_CommitmentOwner s x \<noteq> None) (next_ip s) hs k = Some e"
  shows "foldE (batch_commit_step E ow time) hs (ids, s) = Inl e"
  using assms
proof (induction hs arbitrary: ids s k)
  case (Cons h hs)
  show ?case
  proof (cases k)
    case 0
    with Cons.prems(3) batch_step_cases [where s = s and h = h and hs = hs and E = E and ow = ow and time = time and ids = ids] show ?thesis by simp
  next
    case (Suc m)
    with Cons.prems(1) have "batch_refusal (\<lambda>x. rg_CommitmentOwner s x \<noteq> None) (next_ip s) (h # hs) 0 = None" by simp
    with batch_step_cases [where s = s and h = h and hs = hs and E = E and ow = ow and time = time and ids = ids] obtain t where
      t: "batch_commit_step E ow time h (ids, s) = Inr (ids @ [next_ip s], t)" by auto
    from batch_commit_step_effect [OF t] have reg: "registers time ow h None s t" by simp
    have "foldE (batch_commit_step E ow time) hs (ids @ [next_ip s], t) = Inl e"
    proof (rule Cons.IH [of m])
      show "\<forall>j<m. batch_refusal (\<lambda>x. rg_CommitmentOwner t x \<noteq> None) (next_ip t) hs j = None"
        using Cons.prems(1) Suc unfolding registers_used [OF reg] registers_next [OF reg] batch_refusal_Suc [symmetric] by simp
      show "batch_refusal (\<lambda>x. rg_CommitmentOwner t x \<noteq> None) (next_ip t) hs m = Some e"
        using Cons.prems(3) Suc unfolding registers_used [OF reg] registers_next [OF reg] batch_refusal_Suc [symmetric] by simp
    qed (use Cons.prems(2) Suc in simp)
    with t show ?thesis by simp
  qed
qed simp

text \<open>What a batch registers.\<close>

definition registers_all :: "nat \<Rightarrow> address \<Rightarrow> bytes list \<Rightarrow> registry \<Rightarrow> registry \<Rightarrow> bool" where
  "registers_all time ow hs s t \<longleftrightarrow> next_ip t = next_ip s + length hs \<and>
     (\<forall>k < length hs. rg_IpRecord t (next_ip s + k) = Some (fresh_record (next_ip s + k) time ow (hs ! k) None)) \<and>
     (\<forall>i. i < next_ip s \<or> next_ip s + length hs \<le> i \<longrightarrow> rg_IpRecord t i = rg_IpRecord s i) \<and>
     ids_of (rg_OwnerIps t) ow = ids_of (rg_OwnerIps s) ow @ [next_ip s..<next_ip s + length hs] \<and>
     (\<forall>a. a \<noteq> ow \<longrightarrow> rg_OwnerIps t a = rg_OwnerIps s a) \<and>
     (\<forall>h. rg_CommitmentOwner t h = (if h \<in> set hs then Some ow else rg_CommitmentOwner s h))"

lemma registers_all_Cons:
  assumes reg: "registers time ow h None s u" and idx: "indexes ow s u" and rest: "registers_all time ow hs u t"
  shows "registers_all time ow (h # hs) s t"
  unfolding registers_all_def
proof (intro conjI allI impI)
  have n: "next_ip u = next_ip s + 1" by (rule registers_next [OF reg])
  note rest' = rest [unfolded registers_all_def n]
  show "next_ip t = next_ip s + length (h # hs)" using rest' by simp
  have new: "rg_IpRecord t (next_ip s) = Some (fresh_record (next_ip s) time ow h None)"
    using rest' reg by (simp add: registers_def)
  show "rg_IpRecord t (next_ip s + k) = Some (fresh_record (next_ip s + k) time ow ((h # hs) ! k) None)"
    if "k < length (h # hs)" for k
    using that new rest' by (cases k) simp_all
  show "rg_IpRecord t i = rg_IpRecord s i" if "i < next_ip s \<or> next_ip s + length (h # hs) \<le> i" for i
    using that rest' reg by (auto simp: registers_def)
  have "[next_ip s..<next_ip s + length (h # hs)] = next_ip s # [next_ip s + 1..<next_ip s + 1 + length hs]"
    by (simp add: upt_rec)
  then show "ids_of (rg_OwnerIps t) ow = ids_of (rg_OwnerIps s) ow @ [next_ip s..<next_ip s + length (h # hs)]"
    using rest' idx by (simp add: indexes_def ids_of_def)
  show "rg_OwnerIps t a = rg_OwnerIps s a" if "a \<noteq> ow" for a
    using that rest' idx by (simp add: indexes_def)
  show "rg_CommitmentOwner t x = (if x \<in> set (h # hs) then Some ow else rg_CommitmentOwner s x)" for x
    using rest' reg by (simp add: registers_def)
qed

lemma batch_fold_registers:
  assumes "\<forall>k < length hs. batch_refusal (\<lambda>x. rg_CommitmentOwner s x \<noteq> None) (next_ip s) hs k = None"
  shows "\<exists>t. foldE (batch_commit_step E ow time) hs (ids, s) =
    Inr (ids @ [next_ip s..<next_ip s + length hs], t) \<and> registers_all time ow hs s t"
  using assms
proof (induction hs arbitrary: ids s)
  case Nil
  then show ?case by (simp add: registers_all_def)
next
  case (Cons h hs)
  then have "batch_refusal (\<lambda>x. rg_CommitmentOwner s x \<noteq> None) (next_ip s) (h # hs) 0 = None" by simp
  with batch_step_cases [where s = s and h = h and hs = hs and E = E and ow = ow and time = time and ids = ids] obtain u where
    u: "batch_commit_step E ow time h (ids, s) = Inr (ids @ [next_ip s], u)" by auto
  from batch_commit_step_effect [OF u] have reg: "registers time ow h None s u" and idx: "indexes ow s u" by simp_all
  have "\<forall>k < length hs. batch_refusal (\<lambda>x. rg_CommitmentOwner u x \<noteq> None) (next_ip u) hs k = None"
    using Cons.prems unfolding registers_used [OF reg] registers_next [OF reg] batch_refusal_Suc [symmetric] by simp
  from Cons.IH [OF this, of "ids @ [next_ip s]"] obtain t where
    t: "foldE (batch_commit_step E ow time) hs (ids @ [next_ip s], u) =
      Inr ((ids @ [next_ip s]) @ [next_ip u..<next_ip u + length hs], t)" "registers_all time ow hs u t" by blast
  have "[next_ip s..<next_ip s + length (h # hs)] = next_ip s # [next_ip u..<next_ip u + length hs]"
    by (simp add: upt_rec registers_next [OF reg])
  with u t registers_all_Cons [OF reg idx t(2)] show ?case by simp
qed

text \<open>C17: the outcome of \<open>batch_commit_ip\<close> in every reachable storage. The batch is refused as a whole, with
  nothing stored, without the signature of the owner, or with the error of the first position that holds
  the zero hash, a hash of a record or of an earlier position, or finds the ids used up. Otherwise the
  positions get the next ids in order; each becomes a record of the owner with its hash, the time and no
  parent, the ids are appended to the list of the owner, the hashes are registered to the owner, and no
  other record, list or hash is touched.\<close>

theorem batch_commit_ip_outcome:
  assumes "registry_reachable H s"
    and "refusal = batch_refusal (\<lambda>h. \<exists>j r. rg_IpRecord s j = Some r \<and> ir_commitment_hash r = h) (next_ip s) hs"
  shows "(\<not> authorized E ow \<longrightarrow> batch_commit_ip E ow hs s = Inl AuthFailed) \<and>
    (\<forall>k e. authorized E ow \<and> k < length hs \<and> (\<forall>j < k. refusal j = None) \<and> refusal k = Some e \<longrightarrow>
       batch_commit_ip E ow hs s = Inl e) \<and>
    (authorized E ow \<and> (\<forall>k < length hs. refusal k = None) \<longrightarrow>
       (\<exists>t. batch_commit_ip E ow hs s = Inr ([next_ip s..<next_ip s + length hs], t) \<and>
         next_ip t = next_ip s + length hs \<and>
         (\<forall>k < length hs. rg_IpRecord t (next_ip s + k) = Some \<lparr>ir_ip_id = next_ip s + k, ir_owner = ow,
            ir_commitment_hash = hs ! k, ir_timestamp = now E, ir_revoked = False, ir_co_owners = [],
            ir_parent_ip_id = None, ir_notary_signature = None\<rparr>) \<and>
         (\<forall>i. i < next_ip s \<or> next_ip s + length hs \<le> i \<longrightarrow> rg_IpRecord t i = rg_IpRecord s i) \<and>
         list_ip_by_owner t ow = list_ip_by_owner s ow @ [next_ip s..<next_ip s + length hs] \<and>
         (\<forall>a. a \<noteq> ow \<longrightarrow> list_ip_by_owner t a = list_ip_by_owner s a) \<and>
         (\<forall>h. rg_CommitmentOwner t h = (if h \<in> set hs then Some ow else rg_CommitmentOwner s h))))"
proof -
  have "registry_index (this_addr H) s" by (rule records.reachable_inv [OF assms(1)])
  then have refusal: "refusal =
      batch_refusal (\<lambda>h. rg_CommitmentOwner (init_admin E s) h \<noteq> None) (next_ip (init_admin E s)) hs"
    using assms(2) hash_used_iff by (simp add: next_ip_def)
  show ?thesis
  proof (intro conjI allI impI; (elim conjE)?)
    show "batch_commit_ip E ow hs s = Inl AuthFailed" if "\<not> authorized E ow"
      using that by (simp add: batch_commit_ip_def require_auth_def)
    show "batch_commit_ip E ow hs s = Inl e"
      if "authorized E ow" "k < length hs" "\<forall>j < k. refusal j = None" "refusal k = Some e" for k e
      using that batch_fold_refused [where k = k and s = "init_admin E s" and hs = hs and e = e and E = E and ow = ow and time = "now E" and ids = "[]"]
      by (simp add: refusal batch_commit_ip_def require_auth_def)
  next
    assume ok: "authorized E ow" "\<forall>k < length hs. refusal k = None"
    from batch_fold_registers [OF ok(2) [unfolded refusal], where E = E and ow = ow and time = "now E" and ids = "[]"] obtain u where
      "foldE (batch_commit_step E ow (now E)) hs ([], init_admin E s) = Inr ([next_ip s..<next_ip s + length hs], u)"
      and u: "registers_all (now E) ow hs s u"
      by (auto simp: next_ip_def registers_all_def)
    with ok(1) have "batch_commit_ip E ow hs s =
        Inr ([next_ip s..<next_ip s + length hs], update_commitment_checksum E u)"
      by (simp add: batch_commit_ip_def require_auth_def)
    with u show "\<exists>t. batch_commit_ip E ow hs s = Inr ([next_ip s..<next_ip s + length hs], t) \<and>
         next_ip t = next_ip s + length hs \<and>
         (\<forall>k < length hs. rg_IpRecord t (next_ip s + k) = Some \<lparr>ir_ip_id = next_ip s + k, ir_owner = ow,
            ir_commitment_hash = hs ! k, ir_timestamp = now E, ir_revoked = False, ir_co_owners = [],
            ir_parent_ip_id = None, ir_notary_signature = None\<rparr>) \<and>
         (\<forall>i. i < next_ip s \<or> next_ip s + length hs \<le> i \<longrightarrow> rg_IpRecord t i = rg_IpRecord s i) \<and>
         list_ip_by_owner t ow = list_ip_by_owner s ow @ [next_ip s..<next_ip s + length hs] \<and>
         (\<forall>a. a \<noteq> ow \<longrightarrow> list_ip_by_owner t a = list_ip_by_owner s a) \<and>
         (\<forall>h. rg_CommitmentOwner t h = (if h \<in> set hs then Some ow else rg_CommitmentOwner s h))"
      by (intro exI [of _ "update_commitment_checksum E u"])
        (simp add: registers_all_def next_ip_def fresh_record_def list_ip_by_owner_def ids_of_def)
  qed
qed

theorem batch_commit_ip_outcome_witness:
  "batch_commit_ip demo_env (Address 2) [demo_hash2, demo_hash1] demo1 = Inl (Contract CommitmentAlreadyRegistered) \<and>
   (\<exists>t. batch_commit_ip demo_env (Address 2) [demo_hash2, demo_hash3] demo1 = Inr ([2, 3], t) \<and>
     list_ip_by_owner t (Address 2) = list_ip_by_owner demo1 (Address 2) @ [2, 3])"
proof -
  have used: "(\<lambda>h. \<exists>j r. rg_IpRecord demo1 j = Some r \<and> ir_commitment_hash r = h) = (\<lambda>h. h = demo_hash1)"
    by (auto simp: fresh_record_def)
  have n: "next_ip demo1 = 2" by (simp add: next_ip_def)
  note outcome = batch_commit_ip_outcome [OF demo_reachable(2) refl, where E = demo_env and ow = "Address 2",
      unfolded used n]
  have "batch_refusal (\<lambda>h. h = demo_hash1) 2 [demo_hash2, demo_hash1] 0 = None"
    "batch_refusal (\<lambda>h. h = demo_hash1) 2 [demo_hash2, demo_hash1] 1 = Some (Contract CommitmentAlreadyRegistered)"
    using demo_hash_facts by (simp_all add: batch_refusal_def)
  then have "batch_commit_ip demo_env (Address 2) [demo_hash2, demo_hash1] demo1 = Inl (Contract CommitmentAlreadyRegistered)"
    using outcome [of "[demo_hash2, demo_hash1]", THEN conjunct2, THEN conjunct1, rule_format, of 1] by simp
  moreover have "\<exists>t. batch_commit_ip demo_env (Address 2) [demo_hash2, demo_hash3] demo1 = Inr ([2, 3], t) \<and>
     list_ip_by_owner t (Address 2) = list_ip_by_owner demo1 (Address 2) @ [2, 3]"
  proof -
    have "\<forall>k < length [demo_hash2, demo_hash3]. batch_refusal (\<lambda>h. h = demo_hash1) 2 [demo_hash2, demo_hash3] k = None"
      using demo_hash_facts by (auto simp: batch_refusal_def less_Suc_eq)
    moreover have "[2..<2 + length [demo_hash2, demo_hash3]] = [2, 3]" by (simp add: upt_rec)
    ultimately show ?thesis using outcome [of "[demo_hash2, demo_hash3]"] by auto
  qed
  ultimately show ?thesis ..
qed

section \<open>History\<close>

text \<open>C13: from any reachable storage on, a record is never removed, its id, its timestamp and
  its parent never change, and once revoked it stays revoked with its hash frozen. Later ids are new.\<close>

theorem records_permanent:
  assumes "registry_reachable H s" and "(registry_step H)\<^sup>*\<^sup>* s t"
  shows "next_ip s \<le> next_ip t \<and> ip_ids t = ip_ids s \<union> {next_ip s..<next_ip t} \<and>
    (\<forall>i r. rg_IpRecord s i = Some r \<longrightarrow> (\<exists>q. rg_IpRecord t i = Some q \<and>
       ir_ip_id q = ir_ip_id r \<and> ir_timestamp q = ir_timestamp r \<and>
       ir_parent_ip_id q = ir_parent_ip_id r \<and>
       (ir_revoked r \<longrightarrow> ir_revoked q \<and> ir_commitment_hash q = ir_commitment_hash r)))"
  using ip_counter.ids_are_new [OF assms] permanence.reachable_le [OF assms]
  unfolding records_le_def record_le_def by blast

theorem records_permanent_witness:
  "next_ip demo1 \<le> next_ip demo3 \<and> ir_timestamp (the (rg_IpRecord demo3 1)) = 1000"
proof -
  have "(registry_step demo_env)\<^sup>*\<^sup>* demo1 demo3"
    using demo_steps(2,3) by (meson converse_rtranclp_into_rtranclp rtranclp.rtrancl_refl)
  from records_permanent [OF demo_reachable(2) this] show ?thesis
    by (simp add: fresh_record_def)
qed

text \<open>C14: a call that changes the owner or the commitment hash of a record carries
  the signature of the owner before the call; no other caller can move or re-key it.\<close>

theorem owner_and_hash_change_signed:
  assumes "registry_reachable H s" and "same_host H E"
    and "\<forall>h \<in> set (call_hashes c). length h = 32"
    and "exec_registry E c s = Inr t" and "rg_IpRecord s i = Some r"
  shows "\<exists>q. rg_IpRecord t i = Some q \<and>
    ((ir_owner q = ir_owner r \<and> ir_commitment_hash q = ir_commitment_hash r) \<or> authorized E (ir_owner r))"
proof -
  have self: "this_addr E = this_addr H" using assms(2) by (simp add: same_host_def)
  have ok: "registry_index (this_addr E) s"
    using records.reachable_inv [OF assms(1)] self by simp
  have "(record_change E)\<^sup>*\<^sup>* s t"
  proof (cases c)
    case (Records rc)
    with assms(3,4) ok show ?thesis by (intro exec_record_changes) (auto simp: call_hashes_def)
  qed (use assms(4) in \<open>auto dest!: exec_frames intro: keeps_core_change\<close>)
  then show ?thesis using ok assms(5) by (rule record_changes_signed)
qed

theorem owner_and_hash_change_signed_witness:
  "\<exists>t q. exec_registry demo_env (Records (TransferIp 1 (Address 7))) demo1 = Inr t \<and>
     rg_IpRecord t 1 = Some q \<and>
     ((ir_owner q = Address 1 \<and> ir_commitment_hash q = demo_hash1) \<or> authorized demo_env (Address 1))"
proof -
  have "\<exists>t. transfer_ip demo_env 1 (Address 7) demo1 = Inr t"
    by (simp add: transfer_ip_def Let_def)
  then obtain t where t: "exec_registry demo_env (Records (TransferIp 1 (Address 7))) demo1 = Inr t"
    by auto
  with owner_and_hash_change_signed [OF demo_reachable(2) same_host_refl _ t, of 1]
  show ?thesis by (simp add: call_hashes_def fresh_record_def)
qed

text \<open>C35: an audit entry, once written, stays at its position of the record's trail
  whatever calls follow.\<close>

theorem audit_trail_append_only:
  assumes "(registry_step H)\<^sup>*\<^sup>* s t" and "n < length (audit_trail s i)"
  shows "n < length (audit_trail t i) \<and> audit_trail t i ! n = audit_trail s i ! n"
  by (rule audit.entry_stays [OF assms])

theorem audit_trail_append_only_witness:
  "audit_trail demo3 1 ! 0 = \<lparr>au_action = ''committed'', au_actor = Address 1, au_timestamp = 1000\<rparr>"
proof -
  have trail: "audit_trail demo1 1 = audit_trail empty_registry 1 @
      [\<lparr>au_action = ''committed'', au_actor = Address 1, au_timestamp = 1000\<rparr>]"
    using commit_ip_audit [OF demo1_commit] by simp
  then have "0 < length (audit_trail demo1 1)"
    and "audit_trail demo1 1 ! 0 = \<lparr>au_action = ''committed'', au_actor = Address 1, au_timestamp = 1000\<rparr>"
    by (simp_all add: audit_trail_def empty_registry_def)
  moreover have "(registry_step demo_env)\<^sup>*\<^sup>* demo1 demo3"
    using demo_steps(2,3) by (meson converse_rtranclp_into_rtranclp rtranclp.rtrancl_refl)
  ultimately show ?thesis using audit_trail_append_only [of demo_env demo1 demo3 0 1] by simp
qed

text \<open>C19: \<open>verify_commitment_integrity\<close> answers true in every reachable storage: the
  stored checksum is always the hash of the tracked hashes.\<close>

theorem integrity_check_passes:
  assumes "registry_reachable H s" and "same_host H E"
  shows "verify_commitment_integrity E s"
  using checksum.reachable_inv [OF assms(1)] assms(2)
  by (cases "rg_CommitmentHashes s")
    (simp_all add: checksum_ok_def verify_commitment_integrity_def same_host_def)

theorem integrity_check_passes_witness: "verify_commitment_integrity demo_env demo3"
  by (rule integrity_check_passes [OF demo_reachable(4) same_host_refl])

lemma batch_step_frame:
  "batch_commit_step E ow n h (ids, s) = Inr (ids', t) \<Longrightarrow>
    rg_CommitmentHashes t = rg_CommitmentHashes s"
  by (auto simp: batch_commit_step_def state_simps Let_def)

lemma batch_steps_frame:
  assumes "foldE (batch_commit_step E ow n) hs (ids, s) = Inr (ids', t)"
  shows "rg_CommitmentHashes t = rg_CommitmentHashes s"
  using assms
proof (induction hs arbitrary: ids s)
  case (Cons h hs)
  then obtain ids2 u where "batch_commit_step E ow n h (ids, s) = Inr (ids2, u)"
    "foldE (batch_commit_step E ow n) hs (ids2, u) = Inr (ids', t)" by auto
  with Cons.IH [of ids2 u] batch_step_frame show ?case by simp
qed simp

lemma batch_steps_last:
  assumes "foldE (batch_commit_step E ow n) hs (ids, s) = Inr (ids', t)" and "hs \<noteq> []"
    and "1 \<le> next_ip s"
  shows "2 \<le> next_ip t \<and>
    (\<exists>r. rg_IpRecord t (next_ip t - 1) = Some r \<and> ir_commitment_hash r = last hs)"
  using assms
proof (induction hs arbitrary: ids s)
  case (Cons h hs)
  then obtain ids2 u where step: "batch_commit_step E ow n h (ids, s) = Inr (ids2, u)"
    and rest: "foldE (batch_commit_step E ow n) hs (ids2, u) = Inr (ids', t)" by auto
  from batch_commit_step_effect [OF step] have reg: "registers n ow h None s u" by simp
  show ?case
  proof (cases hs)
    case Nil
    with rest reg Cons.prems show ?thesis by (simp add: registers_def next_ip_def fresh_record_def)
  next
    case (Cons k ks)
    have "1 \<le> next_ip u" using reg by (simp add: registers_def next_ip_def)
    with Cons.IH [OF rest] Cons show ?thesis by simp
  qed
qed simp

text \<open>Remark: a batch of commitments adds only its last hash to the tracked hashes, so the
  checksum does not cover the others, whatever the comment on \<open>update_commitment_checksum\<close> says.\<close>

theorem batch_tracks_last_hash_only:
  assumes "registry_reachable H s" and "batch_commit_ip E ow hs s = Inr (ids, t)" and "hs \<noteq> []"
  shows "unwrap_or [] (rg_CommitmentHashes t) = unwrap_or [] (rg_CommitmentHashes s) @ [last hs]"
proof -
  from assms(2) obtain u where
    u: "foldE (batch_commit_step E ow (now E)) hs ([], init_admin E s) = Inr (ids, u)"
    and t: "t = update_commitment_checksum E u"
    by (auto simp: batch_commit_ip_def Let_def)
  have "1 \<le> next_ip (init_admin E s)"
    using index_next_pos [OF records.reachable_inv [OF assms(1)]] by (simp add: next_ip_def)
  from batch_steps_last [OF u assms(3) this] obtain r where
    r: "2 \<le> next_ip u" "rg_IpRecord u (next_ip u - 1) = Some r" "ir_commitment_hash r = last hs" by blast
  have "rg_CommitmentHashes u = rg_CommitmentHashes s"
    using batch_steps_frame [OF u] by (simp add: init_admin_def state_simps)
  with r show ?thesis
    by (simp add: t update_commitment_checksum_def next_ip_def state_simps Let_def)
qed

theorem batch_tracks_last_hash_only_witness:
  "\<exists>ids t. batch_commit_ip demo_env (Address 1) [demo_hash1, demo_hash2] empty_registry = Inr (ids, t) \<and>
     unwrap_or [] (rg_CommitmentHashes t) = [demo_hash2]"
proof -
  have "\<exists>ids t. batch_commit_ip demo_env (Address 1) [demo_hash1, demo_hash2] empty_registry = Inr (ids, t)"
    using demo_hash_facts
    by (simp add: batch_commit_ip_def batch_commit_step_def guard_defs state_simps init_admin_def Let_def)
  then obtain ids t where
    t: "batch_commit_ip demo_env (Address 1) [demo_hash1, demo_hash2] empty_registry = Inr (ids, t)" by blast
  with batch_tracks_last_hash_only [OF demo_reachable(1) t] show ?thesis
    by (simp add: empty_registry_def)
qed

section \<open>Versions\<close>

text \<open>C20: for every record of a reachable storage the unbounded walk to the root ends,
  and \<open>get_ip_version_chain\<close> returns exactly the ids with that root, in ascending order, the record
  itself among them.\<close>

theorem version_chain_is_family:
  assumes "registry_reachable H s" and "rg_IpRecord s i = Some r"
  shows "\<exists>root. find_root s i = Some root \<and>
    get_ip_version_chain s i = Inr (filter (\<lambda>j. find_root s j = Some root) [1..<next_ip s]) \<and>
    i \<in> set (filter (\<lambda>j. find_root s j = Some root) [1..<next_ip s])"
proof -
  have inv: "lineage_inv (this_addr H) s" by (rule lineage.reachable_inv [OF assms(1)])
  then have ok: "registry_index (this_addr H) s" and vs: "versions_ok s" by (simp_all add: lineage_inv_def)
  have i: "1 \<le> i" "i < next_ip s" using index_exists_iff [OF ok, of i] assms(2) by auto
  from find_root_le [OF ok i] obtain root q where root: "find_root s i = Some root"
    "rg_IpRecord s root = Some q" "ir_parent_ip_id q = None" by blast
  from vs root(2,3) have "unwrap_or [root] (rg_IpVersionChain s root) = family s root"
    by (simp add: versions_ok_def)
  with root assms(2) i show ?thesis by (simp add: get_ip_version_chain_def family_def)
qed

theorem version_chain_is_family_witness:
  "\<exists>root. find_root demo3 3 = Some root \<and>
     get_ip_version_chain demo3 3 = Inr (filter (\<lambda>j. find_root demo3 j = Some root) [1..<4])"
  using version_chain_is_family [OF demo_reachable(4), of 3] by (auto simp: next_ip_def)

text \<open>Remark: \<open>get_ip_lineage\<close> returns the root and its direct versions only; a version of
  a version is missing from its own lineage, although the doc comment promises all subsequent versions.\<close>

theorem lineage_omits_grandchildren:
  assumes "registry_reachable H s" and "rg_IpRecord s i = Some r"
  shows "\<exists>root. find_root s i = Some root \<and>
    get_ip_lineage s i = Inr (root # filter (\<lambda>j. parent_of s j = Some root) [1..<next_ip s]) \<and>
    (\<forall>p. parent_of s i = Some p \<longrightarrow> p \<noteq> root \<longrightarrow>
       i \<notin> set (root # filter (\<lambda>j. parent_of s j = Some root) [1..<next_ip s]))"
proof -
  have inv: "lineage_inv (this_addr H) s" by (rule lineage.reachable_inv [OF assms(1)])
  then have ok: "registry_index (this_addr H) s" and vs: "versions_ok s" by (simp_all add: lineage_inv_def)
  have i: "1 \<le> i" "i < next_ip s" using index_exists_iff [OF ok, of i] assms(2) by auto
  from find_root_le [OF ok i] obtain root q where root: "find_root s i = Some root"
    "rg_IpRecord s root = Some q" "ir_parent_ip_id q = None" by blast
  have "lineage_root s i = Some (Inr root)"
    using lineage_root_eq_find_root [OF index_parents_older [OF ok], of i] root(1) assms(2) by simp
  with vs assms(2) have lin: "get_ip_lineage s i = Inr (root # children s root)"
    by (simp add: get_ip_lineage_def versions_ok_def)
  have "i \<noteq> root" if "parent_of s i = Some p" for p
    using that root assms(2) by (auto simp: parent_of_def)
  with lin root(1) show ?thesis by (auto simp: children_def)
qed

theorem lineage_omits_grandchildren_witness:
  "\<exists>L. get_ip_lineage demo3 3 = Inr L \<and> 3 \<notin> set L"
proof -
  have root: "find_root demo3 3 = Some 1"
    by (subst find_root.simps, simp add: fresh_record_def)
      (subst find_root.simps, simp add: fresh_record_def,
        subst find_root.simps, simp add: fresh_record_def)
  with lineage_omits_grandchildren [OF demo_reachable(4), of 3]
  show ?thesis by (auto simp: parent_of_def fresh_record_def)
qed

section \<open>Merkle proofs\<close>

lemma registry_index_member:
  assumes "registry_reachable H s" and "rg_IpRecord s i = Some r" and "ir_owner r \<noteq> this_addr H"
  shows "i \<in> set (ids_of (rg_OwnerIps s) (ir_owner r))"
  using index_record [OF records.reachable_inv [OF assms(1), unfolded registry_index_def] assms(2)] assms(3)
  by (simp add: record_ok_def)

lemma owner_leaves_member:
  assumes "registry_reachable H s" and "rg_IpRecord s i = Some r" and "ir_owner r \<noteq> this_addr H"
  shows "ir_commitment_hash r \<in> set (owner_leaves s (ir_owner r))"
proof -
  from registry_index_member [OF assms] show ?thesis
    using assms(2) by (force simp: owner_leaves_def List.map_filter_def ids_of_def)
qed

text \<open>C10: in a reachable storage, the proof generated for a record that is not owned by the
  contract itself exists and is accepted by the verifier.\<close>

theorem merkle_proof_verifies:
  assumes "registry_reachable H s" and "rg_IpRecord s i = Some r" and "ir_owner r \<noteq> this_addr H"
  shows "\<exists>p. generate_merkle_proof E s i = Inr p \<and> verify_ip_merkle_proof E s i p = Inr True"
proof -
  let ?xs = "owner_leaves s (ir_owner r)" and ?h = "ir_commitment_hash r"
  from found_index_loop_nth [OF owner_leaves_member [OF assms]]
  have ix: "found_index_loop ?h ?xs 0 0 < length ?xs" "?xs ! found_index_loop ?h ?xs 0 0 = ?h" by simp_all
  from build_merkle_proof_verifies [OF ix(1), of E] obtain p where
    "build_merkle_proof E ?xs (found_index_loop ?h ?xs 0 0) = Inr p"
    "verify_merkle_proof E (?xs ! found_index_loop ?h ?xs 0 0) p ?xs" .
  with ix(2) assms(2) show ?thesis
    by (intro exI [of _ p]) (simp add: generate_merkle_proof_def verify_ip_merkle_proof_def Let_def)
qed

theorem merkle_proof_verifies_witness:
  "\<exists>p. generate_merkle_proof demo_env demo3 2 = Inr p \<and> verify_ip_merkle_proof demo_env demo3 2 p = Inr True"
  using merkle_proof_verifies [OF demo_reachable(4), of 2 _ demo_env] by (simp add: fresh_record_def)

text \<open>C11: a proof of the tree's height that \<open>verify_merkle_proof\<close> accepts proves a leaf of the
  tree, provided no two of the strings hashed for the tree and for the proof collide.\<close>

theorem merkle_proof_sound:
  assumes "verify_merkle_proof E leaf p leaves" and "leaves \<noteq> []"
    and "length p = tree_height (length leaves)"
    and "\<forall>x \<in> set (leaf # leaves @ p). length x = 32" and "\<And>x. length (sha256 E x) = 32"
    and "inj_on (sha256 E) (set (tree_inputs E leaves) \<union> set (candidate_inputs E [leaf] p))"
  shows "leaf \<in> set leaves"
proof -
  from assms(1,2) have "merkle_root_loop E leaves \<in> set (merkle_candidates E [leaf] p)"
    by (auto simp: verify_merkle_proof_def merkle_root_eq_loop list_ex_iff)
  with merkle_sound_aux [of p leaves "[leaf]" E] assms show ?thesis by auto
qed

theorem merkle_proof_sound_witness: "demo_hash1 \<in> set [demo_hash1, demo_hash2]"
proof (rule merkle_proof_sound [of demo_env demo_hash1 "[demo_hash2]" "[demo_hash1, demo_hash2]"])
  have "demo_hash (demo_hash1 @ demo_hash2) = demo_hash1" "demo_hash (demo_hash2 @ demo_hash1) = demo_hash2"
    using demo_hash_facts by (simp_all add: demo_hash_def)
  then show "inj_on (sha256 demo_env) (set (tree_inputs demo_env [demo_hash1, demo_hash2]) \<union>
      set (candidate_inputs demo_env [demo_hash1] [demo_hash2]))"
    using demo_hash_facts by (simp add: tree_inputs.simps inj_on_def)
  show "verify_merkle_proof demo_env demo_hash1 [demo_hash2] [demo_hash1, demo_hash2]"
    by (simp add: verify_merkle_proof_def merkle_root_def merkle_root_loop.simps hash_pair_def)
  show "length [demo_hash2] = tree_height (length [demo_hash1, demo_hash2])"
    by (simp add: tree_height.simps)
qed (use demo_hash_facts in auto)

section \<open>Commitments\<close>

text \<open>C22: the byte masks of \<open>require_pow\<close> accept exactly the hashes whose first \<open>d\<close> bits
  are zero, a requirement beyond the length of the hash being cut to it.\<close>

theorem require_pow_leading_bits:
  "require_pow h d = Inr () \<longleftrightarrow> (\<forall>i < min d (8 * length h). \<not> lead_bit h i)"
  by (auto simp: require_pow_Inr pow_loop_iff)

theorem require_pow_leading_bits_witness: "\<not> lead_bit [0, 127 :: 8 word] 8"
proof -
  have "require_pow [0, 127] 9 = Inr ()"
    by (simp add: require_pow_def)
  then show ?thesis
    using require_pow_leading_bits [of "[0, 127]" 9] by simp
qed

text \<open>A record keeps its hash under every call but the rotation of its key.\<close>

definition holds_hash :: "nat \<Rightarrow> bytes \<Rightarrow> registry \<Rightarrow> bool" where
  "holds_hash i h s \<longleftrightarrow> i < next_ip s \<and> (\<exists>r. rg_IpRecord s i = Some r \<and> ir_commitment_hash r = h)"

lemma registers_holds_hash: "registers time ow h' parent s t \<Longrightarrow> holds_hash i h s \<Longrightarrow> holds_hash i h t"
  by (auto simp: holds_hash_def registers_def next_ip_def)

lemma record_update_holds_hash:
  assumes "holds_hash i h s" and "rg_IpRecord s j = Some r" and "rg_IpRecord t = (rg_IpRecord s)(j \<mapsto> q)"
    and "ir_commitment_hash q = ir_commitment_hash r" and "rg_NextId t = rg_NextId s"
  shows "holds_hash i h t"
  using assms by (auto simp: holds_hash_def next_ip_def)

lemma batch_holds_hash:
  "foldE (batch_commit_step E ow n) hs (ids, s) = Inr (ids', t) \<Longrightarrow> holds_hash i h s \<Longrightarrow> holds_hash i h t"
  "foldE (batch_commit_anonymous_step E b n) hs (ids, s) = Inr (ids', t) \<Longrightarrow> holds_hash i h s \<Longrightarrow> holds_hash i h t"
  by (induction hs arbitrary: ids s)
    (auto dest!: batch_commit_step_effect batch_commit_anonymous_step_effect, (metis registers_holds_hash)+)

lemma holds_hash_wrap [simp]:
  "holds_hash i h (init_admin E s) = holds_hash i h s"
  "holds_hash i h (update_commitment_checksum E s) = holds_hash i h s"
  by (simp_all add: holds_hash_def next_ip_def)

lemma exec_record_holds_hash:
  assumes run: "exec_record E c s = Inr t" and hash: "holds_hash i h s"
    and other: "\<forall>h x y. c \<noteq> RotateCommitmentKey i h x y"
  shows "holds_hash i h t"
proof (cases c)
  case (CommitIp ow h' d)
  with run hash show ?thesis by (auto dest!: commit_ip_effect intro: registers_holds_hash)
next
  case (BatchCommitIp ow hs)
  with run hash show ?thesis by (auto simp: batch_commit_ip_def Let_def dest: batch_holds_hash)
next
  case (BatchCommitIpAnonymous b hs)
  with run hash show ?thesis
    by (auto simp: batch_commit_ip_anonymous_def Let_def dest: batch_holds_hash split: if_splits)
next
  case (CommitIpDelegated ow h' d)
  with run hash show ?thesis by (auto dest!: commit_ip_delegated_effect intro: registers_holds_hash)
next
  case (CreateIpVersion p h')
  with run hash show ?thesis by (auto elim: create_ip_version_effect intro: registers_holds_hash)
next
  case (CommitIpVersion ow h' p)
  with run hash show ?thesis
    by (auto simp: commit_ip_version_def elim: create_ip_version_effect intro: registers_holds_hash)
next
  case (TransferIp j a)
  with run have "transfer_ip E j a s = Inr t" by simp
  with hash show ?thesis by (elim transfer_ip_effect) (rule record_update_holds_hash, assumption+, simp_all)
next
  case (TransferIpOwnership j a)
  with run have "transfer_ip E j a s = Inr t" by (simp add: transfer_ip_ownership_def)
  with hash show ?thesis by (elim transfer_ip_effect) (rule record_update_holds_hash, assumption+, simp_all)
next
  case (RevokeIp j)
  with run have "revoke_ip E j s = Inr t" by simp
  with hash show ?thesis
    by (elim revoke_ip_effect) (rule record_update_holds_hash, assumption+, simp_all add: same_indexes_def)
next
  case (AddCoOwner j a)
  with run have "add_co_owner E j a s = Inr t" by simp
  with hash show ?thesis
    by (elim add_co_owner_effect) (rule record_update_holds_hash, assumption+, simp_all add: same_indexes_def)
next
  case (RemoveCoOwner j a)
  with run have "remove_co_owner E j a s = Inr t" by simp
  with hash show ?thesis
    by (elim remove_co_owner_effect) (rule record_update_holds_hash, assumption+, simp_all add: same_indexes_def)
next
  case (MergeDuplicate j k)
  with run hash show ?thesis
    by (auto simp: merge_duplicate_commitment_def holds_hash_def next_ip_def Let_def split: if_splits)
next
  case (RotateCommitmentKey j h' x y)
  with other have "j \<noteq> i" by blast
  moreover from run RotateCommitmentKey have "rotate_commitment_key E j h' x y s = Inr t" by simp
  ultimately show ?thesis
    using hash by (elim rotate_commitment_key_effect) (auto simp: holds_hash_def next_ip_def)
next
  case (NotarizeIpTimestamp j sig)
  with run have "notarize_ip_timestamp E j sig s = Inr t" by simp
  with hash show ?thesis
    by (elim notarize_ip_timestamp_effect) (rule record_update_holds_hash, assumption+, simp_all add: same_indexes_def)
qed

text \<open>Any call but the rotation of the key of \<open>i\<close>.\<close>

definition unrotated_step :: "nat \<Rightarrow> env \<Rightarrow> registry \<Rightarrow> registry \<Rightarrow> bool" where
  "unrotated_step i H s t \<longleftrightarrow> (\<exists>E c. same_host H E \<and> (\<forall>h x y. c \<noteq> Records (RotateCommitmentKey i h x y)) \<and>
     exec_registry E c s = Inr t)"

lemma unrotated_holds_hash: "unrotated_step i H s t \<Longrightarrow> holds_hash i h s \<Longrightarrow> holds_hash i h t"
proof -
  assume "unrotated_step i H s t" and hash: "holds_hash i h s"
  then obtain E c where c: "exec_registry E c s = Inr t" "\<forall>h x y. c \<noteq> Records (RotateCommitmentKey i h x y)"
    by (auto simp: unrotated_step_def)
  show "holds_hash i h t"
  proof (cases c)
    case (Records r)
    with c hash show ?thesis by (auto intro: exec_record_holds_hash)
  qed (use c(1) hash in \<open>auto dest!: exec_frames simp: keeps_core_def core_view_def holds_hash_def next_ip_def\<close>)
qed

text \<open>C23: a commitment to \<open>sha256(secret || blinding)\<close> opens with that pair, and with another pair only if
  it has the same hash, right after the commit and after any further calls by anybody, revocations and
  transfers included, until the key of the record is rotated. The pair is hashed in this order.\<close>

theorem commitment_opens_with_its_secret:
  assumes "commit_ip E ow (sha256 H (secret @ blind)) d s = Inr (i, t)"
    and "(unrotated_step i H)\<^sup>*\<^sup>* t u" and "same_host H E'"
  shows "verify_commitment E' u i secret blind = Inr True \<and>
    verify_commitment E' u i secret' blind' =
      Inr (sha256 H (secret' @ blind') = sha256 H (secret @ blind))"
proof -
  let ?h = "sha256 H (secret @ blind)"
  have "holds_hash i ?h t"
    using commit_ip_effect [OF assms(1)] by (auto simp: holds_hash_def registers_def next_ip_def fresh_record_def)
  with assms(2) have "holds_hash i ?h u"
    by (induction rule: rtranclp_induct) (auto intro: unrotated_holds_hash)
  with assms(3) show ?thesis
    by (auto simp: holds_hash_def same_host_def verify_commitment_def Let_def)
qed

theorem commitment_opens_with_its_secret_witness:
  "verify_commitment demo_env demo3 1 [1] [2] = Inr True \<and> verify_commitment demo_env demo3 1 [2] [1] = Inr False"
proof -
  have "unrotated_step 1 demo_env demo1 demo2"
    using demo2_version unfolding unrotated_step_def
    by (auto intro!: exI [of _ demo_env] exI [of _ "Records (CreateIpVersion 1 demo_hash2)"])
  moreover have "unrotated_step 1 demo_env demo2 demo3"
    using demo3_version unfolding unrotated_step_def
    by (auto intro!: exI [of _ demo_env] exI [of _ "Records (CreateIpVersion 2 demo_hash3)"])
  ultimately have "(unrotated_step 1 demo_env)\<^sup>*\<^sup>* demo1 demo3"
    by (meson converse_rtranclp_into_rtranclp rtranclp.rtrancl_refl)
  moreover have "demo_hash [2, 1] \<noteq> demo_hash [1, 2]" by (simp add: demo_hash_def)
  ultimately show ?thesis
    using commitment_opens_with_its_secret [of demo_env "Address 1" demo_env "[1]" "[2]" 0 empty_registry 1 demo1
        demo3 demo_env "[2]" "[1]"] demo1_commit by (simp add: demo_hash1_def)
qed

text \<open>Remark: rotating the key of a record makes its old hash available again: right after a
  rotation any other address can commit the old hash as its own record.\<close>

theorem rotation_frees_old_hash:
  assumes "registry_reachable H s" and "rg_IpRecord s i = Some r"
    and "rotate_commitment_key E i h x y s = Inr t"
    and "authorized E' other" and "next_ip s + 1 < 2 ^ 64"
  shows "\<exists>u. commit_ip E' other (ir_commitment_hash r) 0 t = Inr (next_ip s, u) \<and>
    rg_CommitmentOwner u (ir_commitment_hash r) = Some other"
proof -
  have idx: "index_ok (this_addr H) (rg_IpRecord s) (rg_OwnerIps s) (next_ip s) (rg_CommitmentOwner s)"
    using records.reachable_inv [OF assms(1)] by (simp add: registry_index_def)
  have rok: "ir_commitment_hash r \<noteq> replicate 32 0"
    "rg_CommitmentOwner s (ir_commitment_hash r) = Some (ir_owner r)"
    using index_record [OF idx assms(2)] by (simp_all add: record_ok_def)
  from assms(3) have free: "rg_CommitmentOwner t (ir_commitment_hash r) = None"
    by (rule rotate_commitment_key_effect) (use assms(2) rok in auto)
  from assms(3) have nxt: "rg_NextId t = rg_NextId s" by (rule rotate_commitment_key_effect)
  have "\<exists>u. commit_ip E' other (ir_commitment_hash r) 0 t = Inr (next_ip s, u)"
    unfolding commit_ip_def using assms(4,5) rok free nxt
    by (simp add: guard_defs next_ip_def Let_def)
  then obtain u where u: "commit_ip E' other (ir_commitment_hash r) 0 t = Inr (next_ip s, u)" ..
  with commit_ip_effect [OF u] show ?thesis by (auto simp: registers_def)
qed

theorem rotation_frees_old_hash_witness:
  "\<exists>t u. rotate_commitment_key demo_env 1 demo_hash2 [1] [2] demo1 = Inr t \<and>
     commit_ip demo_env (Address 5) demo_hash1 0 t = Inr (2, u)"
proof -
  have "\<exists>t. rotate_commitment_key demo_env 1 demo_hash2 [1] [2] demo1 = Inr t"
    using demo_hash_facts
    by (simp add: rotate_commitment_key_def guard_defs require_not_revoked_def fresh_record_def
        demo_hash1_def Let_def)
  then obtain t where t: "rotate_commitment_key demo_env 1 demo_hash2 [1] [2] demo1 = Inr t" ..
  with rotation_frees_old_hash [OF demo_reachable(2) _ t, of _ demo_env "Address 5"]
  show ?thesis by (auto simp: fresh_record_def next_ip_def)
qed

text \<open>Remark: since no two records share a hash, merging duplicates can only succeed on one and the
  same record, which it revokes.\<close>

theorem merge_only_with_itself:
  assumes "registry_reachable H s" and "merge_duplicate_commitment E i j s = Inr t"
  shows "i = j \<and> (\<exists>r. rg_IpRecord t i = Some r \<and> ir_revoked r)"
proof -
  have idx: "index_ok (this_addr H) (rg_IpRecord s) (rg_OwnerIps s) (next_ip s) (rg_CommitmentOwner s)"
    using records.reachable_inv [OF assms(1)] by (simp add: registry_index_def)
  from assms(2) obtain r q where rq: "rg_IpRecord s i = Some r" "rg_IpRecord s j = Some q"
    "ir_commitment_hash r = ir_commitment_hash q"
    and t: "i = j \<longrightarrow> rg_IpRecord t = (rg_IpRecord s)(j \<mapsto> q\<lparr>ir_revoked := True\<rparr>)"
    by (rule merge_effect)
  have "i = j" by (rule index_unique [OF idx rq])
  with t show ?thesis by simp
qed

theorem merge_only_with_itself_witness:
  "\<exists>t. merge_duplicate_commitment demo_env 1 1 demo1 = Inr t \<and> (\<exists>r. rg_IpRecord t 1 = Some r \<and> ir_revoked r)"
proof -
  have "\<exists>t. merge_duplicate_commitment demo_env 1 1 demo1 = Inr t"
    by (simp add: merge_duplicate_commitment_def Let_def)
  then obtain t where t: "merge_duplicate_commitment demo_env 1 1 demo1 = Inr t" ..
  with merge_only_with_itself [OF demo_reachable(2) t] show ?thesis by blast
qed

section \<open>Access grants\<close>

text \<open>A history of grants (\<open>Inl\<close>) and revocations (\<open>Inr\<close>) of one record, the last one first.\<close>

fun run_access :: "env \<Rightarrow> nat \<Rightarrow> (IpAccessGrant + address) list \<Rightarrow> registry \<Rightarrow> registry rout" where
  "run_access E i [] s = Inr s"
| "run_access E i (Inl g # ops) s = bindE (run_access E i ops s)
     (grant_ip_access E i (ag_grantee g) (ag_access_level g))"
| "run_access E i (Inr a # ops) s = bindE (run_access E i ops s) (revoke_ip_access E i a)"

lemma access_records:
  "grant_ip_access E i a l s = Inr t \<Longrightarrow> rg_IpRecord t = rg_IpRecord s"
  "revoke_ip_access E i a s = Inr t \<Longrightarrow> rg_IpRecord t = rg_IpRecord s"
  using grant_ip_access_frame [of E i a l s t] revoke_ip_access_frame [of E i a s t]
  by (simp_all add: keeps_core_def core_view_def)

lemma grant_eta: "\<lparr>ag_grantee = ag_grantee g, ag_access_level = ag_access_level g\<rparr> = g"
  by simp

lemma run_access_vec:
  "run_access E i ops s = Inr t \<Longrightarrow> rg_IpAccessGrants s i = None \<Longrightarrow>
    unwrap_or [] (rg_IpAccessGrants t i) = grants.run_vec ops \<and> rg_IpRecord t = rg_IpRecord s"
proof (induction ops arbitrary: t rule: grants.run_vec.induct)
  case (2 g ops)
  then obtain u where u: "run_access E i ops s = Inr u"
    and t: "grant_ip_access E i (ag_grantee g) (ag_access_level g) u = Inr t" by auto
  from "2.IH" [OF u] "2.prems"(2) grant_access_vec [OF t] access_records(1) [OF t] show ?case
    by (simp add: grant_eta)
next
  case (3 a ops)
  then obtain u where u: "run_access E i ops s = Inr u" and t: "revoke_ip_access E i a u = Inr t" by auto
  from "3.IH" [OF u] "3.prems"(2) revoke_access_vec [OF t] access_records(2) [OF t] show ?case by simp
qed simp

text \<open>C36: after any successful history of grants and revocations on a record without
  grants, \<open>check_ip_access\<close> is true for the owner and otherwise compares the level with the last one
  granted and not revoked since, as a map from grantees to levels would.\<close>

theorem access_history_is_map:
  assumes "run_access E i ops s = Inr t" and "rg_IpAccessGrants s i = None"
    and "rg_IpRecord s i = Some r"
  shows "check_ip_access t i a l = Inr (a = ir_owner r \<or>
    (case grants.run_map ops a of Some g \<Rightarrow> l \<le> ag_access_level g | None \<Rightarrow> False))"
  using run_access_vec [OF assms(1,2)] assms(3)
  by (simp add: check_ip_access_def check_grants_find grants.find_run_vec)

theorem access_history_is_map_witness:
  "\<exists>t. run_access demo_env 1 [Inr (Address 4), Inl \<lparr>ag_grantee = Address 3, ag_access_level = 2\<rparr>,
       Inl \<lparr>ag_grantee = Address 4, ag_access_level = 3\<rparr>] (demo1\<lparr>rg_IpAccessGrants := Map.empty\<rparr>) = Inr t \<and>
     check_ip_access t 1 (Address 3) 2 = Inr True \<and> check_ip_access t 1 (Address 4) 1 = Inr False"
proof -
  let ?s = "demo1\<lparr>rg_IpAccessGrants := Map.empty\<rparr>"
  let ?ops = "[Inr (Address 4), Inl \<lparr>ag_grantee = Address 3, ag_access_level = 2\<rparr>,
       Inl \<lparr>ag_grantee = Address 4, ag_access_level = 3\<rparr>]"
  have "\<exists>t. run_access demo_env 1 ?ops ?s = Inr t"
    by (simp add: grant_ip_access_def revoke_ip_access_def state_simps Let_def)
  then obtain t where t: "run_access demo_env 1 ?ops ?s = Inr t" ..
  with access_history_is_map [OF t, of _ "Address 3" 2] access_history_is_map [OF t, of _ "Address 4" 1]
  show ?thesis by (simp add: fresh_record_def)
qed

section \<open>Threshold signatures\<close>


definition demo_threshold :: registry where
  "demo_threshold = projr (add_threshold_signature demo_env 1 (Address 5) demo_hash2
     (projr (require_threshold_signatures 1 1 [Address 5, Address 6] demo1)))"


section \<open>Disputes and arbitration\<close>

definition demo_dispute :: DisputeRecord where
  "demo_dispute = \<lparr>di_dispute_id = 1, di_ip_id = 1, di_challenger = Address 8, di_evidence_hash = [],
     di_timestamp = 1000, di_resolved = True, di_winner = Some (Address 1)\<rparr>"

definition demo_case :: ArbitrationRecord where
  "demo_case = \<lparr>ar_arbitration_id = 1, ar_dispute_id = 1, ar_arbitrators = [Address 9],
     ar_votes_owner = 0, ar_votes_challenger = 1, ar_finalized = False, ar_winner = None\<rparr>"

definition demo_admin :: registry where
  "demo_admin = demo1\<lparr>rg_Admin := Some (Address 0), rg_IpDisputes := [1 \<mapsto> demo_dispute],
     rg_ArbitrationCase := [1 \<mapsto> demo_case]\<rparr>"

lemma demo_admin_simps [simp]:
  "rg_Admin demo_admin = Some (Address 0)" "rg_IpDisputes demo_admin = [1 \<mapsto> demo_dispute]"
  "rg_ArbitrationCase demo_admin = [1 \<mapsto> demo_case]" "rg_IpRecord demo_admin = rg_IpRecord demo1"
  "di_ip_id demo_dispute = 1" "di_challenger demo_dispute = Address 8"
  "di_winner demo_dispute = Some (Address 1)" "ar_dispute_id demo_case = 1"
  "ar_arbitrators demo_case = [Address 9]" "ar_votes_owner demo_case = 0"
  "ar_votes_challenger demo_case = 1" "\<not> ar_finalized demo_case"
  by (simp_all add: demo_admin_def demo_dispute_def demo_case_def)

text \<open>C33: from any reachable storage on, a dispute keeps its subject and its challenger, a
  resolved one stays resolved with its evidence frozen, an arbitration only gains votes and is frozen
  once finalized, and a slashed stake can neither be withdrawn nor replaced.\<close>

theorem disputes_permanent:
  assumes "registry_reachable H s" and "(registry_step H)\<^sup>*\<^sup>* s t"
  shows "(\<forall>d r. rg_IpDisputes s d = Some r \<longrightarrow> (\<exists>q. rg_IpDisputes t d = Some q \<and>
       di_ip_id q = di_ip_id r \<and> di_challenger q = di_challenger r \<and>
       (di_resolved r \<longrightarrow> di_resolved q \<and> di_evidence_hash q = di_evidence_hash r))) \<and>
    (\<forall>a c. rg_ArbitrationCase s a = Some c \<longrightarrow> (\<exists>q. rg_ArbitrationCase t a = Some q \<and>
       ar_votes_owner c \<le> ar_votes_owner q \<and> ar_votes_challenger c \<le> ar_votes_challenger q \<and>
       (ar_finalized c \<longrightarrow> q = c))) \<and>
    (\<forall>i k. rg_IpStake s i = Some k \<longrightarrow> sk_slashed k \<longrightarrow> rg_IpStake t i = Some k)"
  using disputes.reachable_le [OF assms]
  unfolding disputes_le_def dispute_le_def case_le_def by blast

theorem disputes_permanent_witness:
  "\<exists>s t. registry_reachable demo_env s \<and> registry_step demo_env s t \<and> rg_IpDisputes s 1 \<noteq> None \<and>
     di_challenger (the (rg_IpDisputes t 1)) = Address 8"
proof -
  have "\<exists>s. initiate_dispute demo_env 1 (Address 8) [] (demo1) = Inr (unwrap_or 1 (rg_NextDisputeId demo1), s)"
    if "unwrap_or 1 (rg_NextDisputeId demo1) + 1 < 2 ^ 64"
    using that by (simp add: initiate_dispute_def Let_def)
  moreover have nd: "rg_NextDisputeId demo1 = None"
    using commit_ip_frame [OF demo1_commit]
    by (simp add: keeps_disputes_def dispute_view_def empty_registry_def)
  ultimately obtain s where s: "initiate_dispute demo_env 1 (Address 8) [] demo1 = Inr (1, s)" by auto
  have st: "registry_step demo_env demo1 s"
    by (rule registry_call [of _ demo_env "Disputes (InitiateDispute 1 (Address 8) [])"])
      (use s in \<open>simp_all add: call_hashes_def\<close>)
  with demo_reachable(2) have reach: "registry_reachable demo_env s" by (rule reachable_step)
  from s have d: "\<exists>r. rg_IpDisputes s 1 = Some r \<and> di_challenger r = Address 8"
    by (auto simp: initiate_dispute_def nd state_simps Let_def)
  have "rg_IpRecord s = rg_IpRecord demo1"
    using initiate_dispute_frame [OF s] by (simp add: keeps_core_def core_view_def)
  then have t: "check_expiration_warning demo_env 1 0 s = Inr (False, s)"
    by (simp add: check_expiration_warning_def fresh_record_def Let_def)
  have st2: "registry_step demo_env s s"
    by (rule registry_call [of _ demo_env "Misc (CheckExpirationWarning 1 0)"])
      (use t in \<open>auto simp: call_hashes_def\<close>)
  then have "(registry_step demo_env)\<^sup>*\<^sup>* s s" by simp
  from disputes_permanent [OF reach this] d obtain q where
    "rg_IpDisputes s 1 = Some q" "di_challenger q = Address 8" by blast
  with reach st2 show ?thesis by (intro exI [of _ s]) simp
qed

text \<open>Remark: resolving a dispute records the winner and marks it resolved, but leaves every
  record as it was: the ownership is not transferred, contrary to the doc comment.\<close>

theorem resolution_keeps_owner:
  assumes "resolve_dispute E d winner s = Inr t"
  shows "(\<exists>r. rg_IpDisputes s d = Some r \<and> \<not> di_resolved r \<and>
      get_dispute t d = Inr (r\<lparr>di_resolved := True, di_winner := Some winner\<rparr>)) \<and>
    (\<exists>admin. rg_Admin s = Some admin \<and> authorized E admin) \<and> rg_IpRecord t = rg_IpRecord s"
  by (rule resolve_dispute_effect [OF assms]) (auto simp: dispute_maps_def get_dispute_def)

theorem resolution_keeps_owner_witness:
  "\<exists>s t. resolve_dispute demo_env 1 (Address 8) s = Inr t \<and> rg_IpRecord t = rg_IpRecord s"
proof -
  let ?s = "demo_admin\<lparr>rg_IpDisputes := [1 \<mapsto> demo_dispute\<lparr>di_resolved := False\<rparr>]\<rparr>"
  have "\<exists>t. resolve_dispute demo_env 1 (Address 8) ?s = Inr t"
    by (simp add: resolve_dispute_def dispute_admin_def Let_def)
  then obtain t where "resolve_dispute demo_env 1 (Address 8) ?s = Inr t" ..
  with resolution_keeps_owner [OF this] show ?thesis by blast
qed

text \<open>Remark: an open arbitration is finalized by the admin with the majority's winner, ties
  going to the owner of the record, and the result replaces the winner of the dispute even when the
  dispute had been resolved before.\<close>

theorem arbitration_majority_overrides:
  assumes "rg_Admin s = Some admin" and "authorized E admin"
    and "rg_ArbitrationCase s a = Some c" and "\<not> ar_finalized c"
    and "rg_IpDisputes s (ar_dispute_id c) = Some d" and "rg_IpRecord s (di_ip_id d) = Some r"
  shows "\<exists>t w. finalize_arbitration E a s = Inr t \<and>
    w = (if ar_votes_owner c < ar_votes_challenger c then di_challenger d else ir_owner r) \<and>
    get_arbitration t a = Inr (c\<lparr>ar_finalized := True, ar_winner := Some w\<rparr>) \<and>
    get_dispute t (ar_dispute_id c) = Inr (d\<lparr>di_resolved := True, di_winner := Some w\<rparr>)"
  using assms
  by (simp add: finalize_arbitration_def dispute_admin_def get_arbitration_def get_dispute_def
      state_simps Let_def)

theorem arbitration_majority_overrides_witness:
  "\<exists>t. finalize_arbitration demo_env 1 demo_admin = Inr t \<and>
     map_option di_winner (rg_IpDisputes demo_admin 1) = Some (Some (Address 1)) \<and>
     map_option di_winner (rg_IpDisputes t 1) = Some (Some (Address 8))"
  using arbitration_majority_overrides [of demo_admin "Address 0" demo_env 1 demo_case demo_dispute]
  by (auto simp: get_dispute_def)

text \<open>Remark: nothing records who has voted, so an arbitrator whose vote was accepted can cast it
  again and is counted twice.\<close>

theorem arbitrator_votes_repeatedly:
  assumes "vote_on_dispute E a v True s = Inr t" and "rg_ArbitrationCase s a = Some c"
    and "ar_votes_owner c + 2 < 2 ^ 32"
  shows "\<exists>u. vote_on_dispute E a v True t = Inr u \<and>
    map_option ar_votes_owner (rg_ArbitrationCase u a) = Some (ar_votes_owner c + 2)"
proof -
  have t: "authorized E v" "v \<in> set (ar_arbitrators c)" "\<not> ar_finalized c"
    "rg_ArbitrationCase t a = Some (c\<lparr>ar_votes_owner := ar_votes_owner c + 1\<rparr>)"
    by (rule vote_on_dispute_effect [OF assms(1)]; use assms(2) in \<open>simp add: dispute_maps_def\<close>)+
  with assms(3) show ?thesis by (simp add: vote_on_dispute_def state_simps Let_def)
qed

theorem arbitrator_votes_repeatedly_witness:
  "\<exists>t u. vote_on_dispute demo_env 1 (Address 9) True demo_admin = Inr t \<and>
     vote_on_dispute demo_env 1 (Address 9) True t = Inr u \<and>
     map_option ar_votes_owner (rg_ArbitrationCase u 1) = Some 2"
proof -
  have "\<exists>t. vote_on_dispute demo_env 1 (Address 9) True demo_admin = Inr t"
    by (simp add: vote_on_dispute_def Let_def)
  then obtain t where t: "vote_on_dispute demo_env 1 (Address 9) True demo_admin = Inr t" ..
  have "\<exists>u. vote_on_dispute demo_env 1 (Address 9) True t = Inr u \<and>
      map_option ar_votes_owner (rg_ArbitrationCase u 1) = Some (ar_votes_owner demo_case + 2)"
    by (rule arbitrator_votes_repeatedly [OF t]) simp_all
  then obtain u where "vote_on_dispute demo_env 1 (Address 9) True t = Inr u"
    "map_option ar_votes_owner (rg_ArbitrationCase u 1) = Some (ar_votes_owner demo_case + 2)" by blast
  moreover have "ar_votes_owner demo_case + 2 = 2" by simp
  ultimately show ?thesis using t by metis
qed

section \<open>Delegation and challenges\<close>

text \<open>C26: \<open>is_delegate\<close> answers whether a chain of one to five delegations leads from
  the owner to the candidate.\<close>

theorem is_delegate_bounded_reachability:
  "is_delegate s owner candidate \<longleftrightarrow>
    (\<exists>k \<in> {1..5}. (owner, candidate) \<in> delegates_to s ^^ k)"
  by (auto simp: is_delegate_def is_delegate_in_chain_iff)

text \<open>Remark: the stored depth does not say whose delegate an address is, so anyone who is a
  delegate of some owner can, with no signature but its own, add a delegate to any other owner.\<close>

theorem foreign_delegate_adds_delegates:
  assumes "rg_DelegateDepth s mallory = Some d" and "d + 1 < MAX_DELEGATION_DEPTH"
    and "authorized E mallory" and "mallory \<noteq> victim"
    and "x \<notin> dl_delegate ` set (unwrap_or [] (rg_Delegates s victim))"
  shows "\<exists>t. delegate_commitment_authority E victim mallory x s = Inr t \<and> is_delegate t victim x"
proof -
  have "\<exists>t. delegate_commitment_authority E victim mallory x s = Inr t"
    using assms by (simp add: delegate_commitment_authority_def Let_def)
  then obtain t where t: "delegate_commitment_authority E victim mallory x s = Inr t" ..
  then have "x \<in> dl_delegate ` set (unwrap_or [] (rg_Delegates t victim))"
    by (cases rule: delegate_effect) (use assms(5) in simp_all)
  then have "(victim, x) \<in> delegates_to t ^^ 1" unfolding delegates_to_def by auto
  then have "is_delegate_in_chain t victim x 5"
    unfolding is_delegate_in_chain_iff by (intro exI [of _ "1::nat"]) simp
  with t show ?thesis by (simp add: is_delegate_def)
qed

definition demo_delegated :: registry where
  "demo_delegated = projr (delegate_commitment_authority demo_env (Address 1) (Address 1) (Address 4) demo1)"

theorem foreign_delegate_adds_delegates_witness:
  "\<exists>t. delegate_commitment_authority demo_env (Address 2) (Address 4) (Address 5) demo_delegated = Inr t \<and>
     is_delegate t (Address 2) (Address 5)"
proof -
  have nodel: "rg_Delegates demo1 = Map.empty" "rg_DelegateDepth demo1 = Map.empty"
    using commit_ip_frame [OF demo1_commit]
    by (simp_all add: keeps_delegations_def delegation_view_def empty_registry_def)
  have "\<exists>t. delegate_commitment_authority demo_env (Address 1) (Address 1) (Address 4) demo1 = Inr t"
    by (simp add: delegate_commitment_authority_def nodel Let_def)
  then have t: "delegate_commitment_authority demo_env (Address 1) (Address 1) (Address 4) demo1 =
      Inr demo_delegated" by (auto simp: demo_delegated_def)
  then have "rg_DelegateDepth demo_delegated (Address 4) = Some 0 \<and>
    rg_Delegates demo_delegated (Address 2) = None"
  proof (cases rule: delegate_effect)
    case old
    then show ?thesis by (simp add: nodel)
  next
    case (new n)
    then have "n = 0" by (simp add: nodel)
    then show ?thesis using new(5,6) by (simp add: nodel)
  qed
  then show ?thesis
    using foreign_delegate_adds_delegates [of demo_delegated "Address 4" 0 demo_env "Address 2" "Address 5"]
    by simp
qed

text \<open>Remark: after a challenge has been verified the owner can replace the response by any
  other value, and the challenge still reads as verified.\<close>

theorem verified_challenge_survives_overwrite:
  assumes "respond_to_ownership_challenge E c h s = Inr t"
    and "rg_OwnershipChallenge s c = Some ch" and "oc_verified ch"
  shows "get_ownership_challenge t c = Some (ch\<lparr>oc_response_hash := Some h\<rparr>) \<and>
    oc_verified (ch\<lparr>oc_response_hash := Some h\<rparr>)"
  using assms by (auto simp: respond_to_ownership_challenge_def get_ownership_challenge_def
      state_simps Let_def)

theorem verified_challenge_survives_overwrite_witness:
  "\<exists>s t. respond_to_ownership_challenge demo_env 1 [7] s = Inr t \<and>
     map_option oc_verified (get_ownership_challenge t 1) = Some True"
proof -
  let ?ch = "\<lparr>oc_challenge_id = 1, oc_ip_id = 1, oc_challenger = Address 8, oc_nonce = [],
    oc_response_hash = Some (demo_hash demo_hash1), oc_verified = True, oc_timestamp = 1000\<rparr>"
  let ?s = "demo1\<lparr>rg_OwnershipChallenge := [1 \<mapsto> ?ch]\<rparr>"
  have "\<exists>t. respond_to_ownership_challenge demo_env 1 [7] ?s = Inr t"
    by (simp add: respond_to_ownership_challenge_def Let_def)
  then obtain t where t: "respond_to_ownership_challenge demo_env 1 [7] ?s = Inr t" ..
  with verified_challenge_survives_overwrite [OF t, of ?ch] show ?thesis
    by (intro exI [of _ ?s] exI [of _ t]) simp
qed

end
