(* ===== verification/Swap_Types.thy ===== *)
theory Swap_Types
  imports Registry_Proofs
begin

text \<open>
  Data of the atomic swap contract (\<open>contracts/atomic_swap/src/lib.rs\<close>, \<open>types.rs\<close>,
  \<open>multi_currency.rs\<close>, \<open>price_oracle.rs\<close>, \<open>upgrade.rs\<close>): its error codes, storage keys, records and
  constants, its storage as a record with one field per storage key that some operation accesses, and
  the helpers of \<open>swap.rs\<close> that write it. The prefix \<open>Sw_\<close> marks the error codes the registry has as
  well, \<open>Sk_\<close> the storage keys.
\<close>

section \<open>Error codes and storage keys\<close>

text \<open>
  The last four codes are used by the code but are missing from its \<open>ContractError\<close> enum; they are
  modelled as the code uses them.
\<close>

datatype SwapError =
    SwapNotFound
  | InvalidKey
  | PriceTooSmall
  | NotIPOwner
  | SwapExists
  | NotPending
  | OnlySellerReveal
  | NotAccepted
  | OnlySellerBuyer
  | OnlyPending
  | NotInAccepted
  | OnlyBuyerCancel
  | NotExpired
  | IpRevoked
  | UnauthorizedUpg
  | InvalidFeeBps
  | DisputeExpired
  | OnlyBuyerDispute
  | NotDisputed
  | OnlyAdminResolve
  | Paused
  | AlreadyInit
  | Sw_Unauthorized
  | NotInitialized
  | PendingNotExpired
  | ExpiryNotGreater
  | NeedApprovals
  | AlreadyApproved
  | SchemaNotGreater
  | MissingFunc
  | FuncChanged
  | InsufficientReputation
  | ArbitrationNotTimedOut
  | NotAllSigned
  | Sw_AlreadySigned
  | NotARequiredSigner
  | RollbackWindowExpired
  | OracleNotConfigured
  | OraclePriceInvalid
  | OraclePriceBelowMin
  | OraclePriceAboveMax
  | ConditionNotMet
  | BatchEmpty
  | BatchTooLarge
  | BatchSizeMismatch

abbreviation MAX_BATCH_SIZE :: nat where "MAX_BATCH_SIZE \<equiv> 50"

text \<open>The keys whose time to live is extended; the others never reach \<open>extend_ttl\<close>.\<close>

datatype SwapKey =
    Sk_Swap nat
  | Sk_ActiveSwap nat
  | Sk_SellerSwaps address
  | Sk_BuyerSwaps address
  | Sk_Admin
  | Sk_IpSwaps nat
  | Sk_SwapHistory nat
  | Sk_SwapApprovals nat
  | Sk_CancelReason nat
  | Sk_Auction nat
  | Sk_ActiveAuction nat
  | Sk_NextAuctionId
  | Sk_PaymentSchedule nat
  | Sk_PaymentsMade nat
  | Sk_SwapCollateral nat
  | Sk_SwapInsurance nat
  | Sk_InsuranceClaimable nat
  | Sk_InsurancePool address
  | Sk_SwapRenegotiations nat
  | Sk_SwapMode nat
  | Sk_EscrowDeposit nat
  | Sk_UserReputation address
  | Sk_ReputationMultiplier nat
  | Sk_ArbitrationTimestamp nat
  | Sk_SwapSigners nat
  | Sk_SwapSignatures nat
  | Sk_CompletionTimestamp nat
  | Sk_OracleConfig

section \<open>Records\<close>

datatype SwapStatus = Pending | Accepted | Completed | Disputed | Cancelled | RolledBack

datatype SwapCondition = KeyValid | PriceBelow int | TimeAfter nat

datatype SwapMode = Atomic | Escrow

record ProtocolConfig =
  pc_protocol_fee_bps :: nat
  pc_treasury :: address
  pc_dispute_window_seconds :: nat
  pc_dispute_timeout_secs :: nat
  pc_referral_fee_bps :: nat
  pc_arbitration_timeout_seconds :: nat

record SwapRecord =
  sp_ip_id :: nat
  sp_seller :: address
  sp_buyer :: address
  sp_price :: int
  sp_token :: address
  sp_status :: SwapStatus
  sp_expiry :: nat
  sp_accept_timestamp :: nat
  sp_required_approvals :: nat
  sp_dispute_timestamp :: nat
  sp_referrer :: "address option"
  sp_collateral_amount :: int
  sp_insurance_premium :: int
  sp_insurance_enabled :: bool
  sp_escrow_agent :: "address option"
  sp_quantity :: nat
  sp_conditions :: "SwapCondition list"
  sp_paid_amount :: int
  sp_is_installment :: bool

record SwapHistoryEntry =
  he_status :: SwapStatus
  he_timestamp :: nat

record AuctionRecord =
  ac_auction_id :: nat
  ac_ip_id :: nat
  ac_seller :: address
  ac_token :: address
  ac_min_bid :: int
  ac_highest_bid :: int
  ac_highest_bidder :: "address option"
  ac_start_time :: nat
  ac_end_time :: nat
  ac_finalized :: bool

record PaymentSchedule =
  ps_due_timestamp :: nat
  ps_amount :: int

record RenegotiationOffer =
  ro_new_price :: int
  ro_proposer :: address
  ro_timestamp :: nat

datatype SupportedToken = XLM | USDC | EURC | Custom

record TokenMetadata =
  tm_symbol :: string
  tm_decimals :: nat
  tm_address :: "address option"
  tm_is_native :: bool

record MultiCurrencyConfig =
  mc_enabled_tokens :: "SupportedToken list"
  mc_default_token :: SupportedToken
  mc_token_metadata :: "TokenMetadata list"

record OracleConfig =
  orc_oracle_address :: address
  orc_enabled :: bool

record FunctionEntry =
  fe_name :: string
  fe_signature :: string

record ErrorEntry =
  ee_name :: string
  ee_code :: nat

record ContractSchema =
  cs_version :: nat
  cs_functions :: "FunctionEntry list"
  cs_errors :: "ErrorEntry list"
  cs_storage_keys :: "string list"

section \<open>Storage\<close>

text \<open>
  The contract keeps an admin twice: in instance storage (\<open>set_admin\<close>, \<open>require_admin\<close>) and in
  persistent storage (\<open>initiate_swap\<close>, \<open>set_oracle\<close>, \<open>upgrade\<close>). They are different entries.
\<close>

record swaps =
  sw_IpRegistry :: "address option"
  sw_NextId :: "nat option"
  sw_InstanceAdmin :: "address option"
  sw_Paused :: "bool option"
  sw_ContractSchema :: "ContractSchema option"
  sw_Admin :: "address option"
  sw_Swap :: "nat \<rightharpoonup> SwapRecord"
  sw_ActiveSwap :: "nat \<rightharpoonup> nat"
  sw_SellerSwaps :: "address \<rightharpoonup> nat list"
  sw_BuyerSwaps :: "address \<rightharpoonup> nat list"
  sw_IpSwaps :: "nat \<rightharpoonup> nat list"
  sw_SwapHistory :: "nat \<rightharpoonup> SwapHistoryEntry list"
  sw_SwapApprovals :: "nat \<rightharpoonup> address list"
  sw_CancelReason :: "nat \<rightharpoonup> bytes"
  sw_MultiCurrencyConfig :: "MultiCurrencyConfig option"
  sw_SupportedTokens :: "SupportedToken list option"
  sw_Auction :: "nat \<rightharpoonup> AuctionRecord"
  sw_ActiveAuction :: "nat \<rightharpoonup> nat"
  sw_NextAuctionId :: "nat option"
  sw_PaymentSchedule :: "nat \<rightharpoonup> PaymentSchedule list"
  sw_PaymentsMade :: "nat \<rightharpoonup> bool list"
  sw_SwapCollateral :: "nat \<rightharpoonup> int"
  sw_SwapInsurance :: "nat \<rightharpoonup> int"
  sw_InsuranceClaimable :: "nat \<rightharpoonup> bool"
  sw_InsurancePool :: "address \<rightharpoonup> int"
  sw_SwapRenegotiations :: "nat \<rightharpoonup> RenegotiationOffer"
  sw_SwapMode :: "nat \<rightharpoonup> SwapMode"
  sw_EscrowDeposit :: "nat \<rightharpoonup> int"
  sw_UserReputation :: "address \<rightharpoonup> nat"
  sw_ReputationMultiplier :: "nat \<rightharpoonup> nat"
  sw_ArbitrationTimestamp :: "nat \<rightharpoonup> nat"
  sw_SwapSigners :: "nat \<rightharpoonup> address list"
  sw_SwapSignatures :: "nat \<rightharpoonup> address list"
  sw_CompletionTimestamp :: "nat \<rightharpoonup> nat"
  sw_OracleConfig :: "OracleConfig option"
  sw_log :: "SwapKey host_call list"

type_synonym 'a sout = "(SwapError, 'a) outcome"

definition empty_swaps :: swaps where
  "empty_swaps = \<lparr>
     sw_IpRegistry = None, sw_NextId = None, sw_InstanceAdmin = None, sw_Paused = None,
     sw_ContractSchema = None, sw_Admin = None, sw_Swap = Map.empty, sw_ActiveSwap = Map.empty,
     sw_SellerSwaps = Map.empty, sw_BuyerSwaps = Map.empty, sw_IpSwaps = Map.empty,
     sw_SwapHistory = Map.empty, sw_SwapApprovals = Map.empty, sw_CancelReason = Map.empty,
     sw_MultiCurrencyConfig = None, sw_SupportedTokens = None, sw_Auction = Map.empty,
     sw_ActiveAuction = Map.empty, sw_NextAuctionId = None, sw_PaymentSchedule = Map.empty,
     sw_PaymentsMade = Map.empty, sw_SwapCollateral = Map.empty, sw_SwapInsurance = Map.empty,
     sw_InsuranceClaimable = Map.empty, sw_InsurancePool = Map.empty,
     sw_SwapRenegotiations = Map.empty, sw_SwapMode = Map.empty, sw_EscrowDeposit = Map.empty,
     sw_UserReputation = Map.empty, sw_ReputationMultiplier = Map.empty,
     sw_ArbitrationTimestamp = Map.empty, sw_SwapSigners = Map.empty,
     sw_SwapSignatures = Map.empty, sw_CompletionTimestamp = Map.empty, sw_OracleConfig = None,
     sw_log = []\<rparr>"

end
