(* ===== verification/Swap_Events.thy ===== *)
theory Swap_Events
  imports Swap_Types
begin

text \<open>
  The payloads of the events the swap contract publishes (\<open>types.rs\<close>, \<open>price_oracle.rs\<close>,
  \<open>multi_currency.rs\<close>). A payload is the list of the values of its struct in the order of the fields;
  each definition is the constructor of one struct. The structs nothing publishes are left out.
\<close>

section \<open>Payloads\<close>

definition SwapInitiatedEvent :: "nat \<Rightarrow> nat \<Rightarrow> address \<Rightarrow> address \<Rightarrow> int \<Rightarrow> sval list" where
  "SwapInitiatedEvent swap_id ip_id seller buyer price =
     [U64 swap_id, U64 ip_id, Adr seller, Adr buyer, I128 price]"

definition SwapAcceptedEvent :: "nat \<Rightarrow> address \<Rightarrow> sval list" where
  "SwapAcceptedEvent swap_id buyer =
     [U64 swap_id, Adr buyer]"

definition SwapCancelledEvent :: "nat \<Rightarrow> address \<Rightarrow> sval list" where
  "SwapCancelledEvent swap_id canceller =
     [U64 swap_id, Adr canceller]"

definition KeyRevealedEvent :: "nat \<Rightarrow> int \<Rightarrow> int \<Rightarrow> sval list" where
  "KeyRevealedEvent swap_id seller_amount fee_amount =
     [U64 swap_id, I128 seller_amount, I128 fee_amount]"

definition ProtocolFeeEvent :: "nat \<Rightarrow> int \<Rightarrow> address \<Rightarrow> sval list" where
  "ProtocolFeeEvent swap_id fee_amount treasury =
     [U64 swap_id, I128 fee_amount, Adr treasury]"

definition DisputeRaisedEvent :: "nat \<Rightarrow> sval list" where
  "DisputeRaisedEvent swap_id =
     [U64 swap_id]"

definition DisputeResolvedEvent :: "nat \<Rightarrow> bool \<Rightarrow> sval list" where
  "DisputeResolvedEvent swap_id refunded =
     [U64 swap_id, Flag refunded]"

definition ReferralPaidEvent :: "nat \<Rightarrow> address \<Rightarrow> int \<Rightarrow> sval list" where
  "ReferralPaidEvent swap_id referrer referral_amount =
     [U64 swap_id, Adr referrer, I128 referral_amount]"

definition SwapExpiryExtendedEvent :: "nat \<Rightarrow> nat \<Rightarrow> nat \<Rightarrow> sval list" where
  "SwapExpiryExtendedEvent swap_id old_expiry new_expiry =
     [U64 swap_id, U64 old_expiry, U64 new_expiry]"

definition SwapApprovedEvent :: "nat \<Rightarrow> address \<Rightarrow> nat \<Rightarrow> sval list" where
  "SwapApprovedEvent swap_id approver approvals_count =
     [U64 swap_id, Adr approver, U32 approvals_count]"

definition ArbitratedEvent :: "nat \<Rightarrow> address \<Rightarrow> bool \<Rightarrow> sval list" where
  "ArbitratedEvent swap_id arbitrator refunded =
     [U64 swap_id, Adr arbitrator, Flag refunded]"

definition AdminRollbackEvent :: "nat \<Rightarrow> bytes \<Rightarrow> int \<Rightarrow> int \<Rightarrow> nat \<Rightarrow> sval list" where
  "AdminRollbackEvent swap_id reason buyer_refund seller_refund timestamp =
     [U64 swap_id, Byt reason, I128 buyer_refund, I128 seller_refund, U64 timestamp]"

definition AuctionStartedEvent :: "nat \<Rightarrow> nat \<Rightarrow> address \<Rightarrow> int \<Rightarrow> nat \<Rightarrow> sval list" where
  "AuctionStartedEvent auction_id ip_id seller min_bid end_time =
     [U64 auction_id, U64 ip_id, Adr seller, I128 min_bid, U64 end_time]"

definition BidPlacedEvent :: "nat \<Rightarrow> address \<Rightarrow> int \<Rightarrow> sval list" where
  "BidPlacedEvent auction_id bidder bid_amount =
     [U64 auction_id, Adr bidder, I128 bid_amount]"

definition AuctionFinalizedEvent :: "nat \<Rightarrow> address option \<Rightarrow> int \<Rightarrow> sval list" where
  "AuctionFinalizedEvent auction_id winner winning_bid =
     [U64 auction_id, OptAdr winner, I128 winning_bid]"

definition ScheduledPaymentMadeEvent :: "nat \<Rightarrow> nat \<Rightarrow> int \<Rightarrow> nat \<Rightarrow> sval list" where
  "ScheduledPaymentMadeEvent swap_id payment_index amount remaining_payments =
     [U64 swap_id, U32 payment_index, I128 amount, U32 remaining_payments]"

definition CollateralDepositedEvent :: "nat \<Rightarrow> address \<Rightarrow> int \<Rightarrow> sval list" where
  "CollateralDepositedEvent swap_id buyer collateral_amount =
     [U64 swap_id, Adr buyer, I128 collateral_amount]"

definition CollateralReleasedEvent :: "nat \<Rightarrow> address \<Rightarrow> int \<Rightarrow> sval list" where
  "CollateralReleasedEvent swap_id buyer collateral_amount =
     [U64 swap_id, Adr buyer, I128 collateral_amount]"

definition CollateralRefundedEvent :: "nat \<Rightarrow> address \<Rightarrow> int \<Rightarrow> sval list" where
  "CollateralRefundedEvent swap_id buyer collateral_amount =
     [U64 swap_id, Adr buyer, I128 collateral_amount]"

definition ArbitrationRequestedEvent :: "nat \<Rightarrow> address \<Rightarrow> bytes \<Rightarrow> sval list" where
  "ArbitrationRequestedEvent swap_id requester evidence_hash =
     [U64 swap_id, Adr requester, Byt evidence_hash]"

definition AtomicRefundEvent :: "nat \<Rightarrow> address \<Rightarrow> int \<Rightarrow> string \<Rightarrow> sval list" where
  "AtomicRefundEvent swap_id buyer refund_amount reason =
     [U64 swap_id, Adr buyer, I128 refund_amount, Txt reason]"

definition BatchAcceptedEvent :: "nat list \<Rightarrow> address \<Rightarrow> sval list" where
  "BatchAcceptedEvent swap_ids buyer =
     [Vec64 swap_ids, Adr buyer]"

definition BatchKeysRevealedEvent :: "nat list \<Rightarrow> address \<Rightarrow> sval list" where
  "BatchKeysRevealedEvent swap_ids seller =
     [Vec64 swap_ids, Adr seller]"

definition BatchCancelledEvent :: "nat list \<Rightarrow> address \<Rightarrow> bytes list \<Rightarrow> sval list" where
  "BatchCancelledEvent swap_ids canceller reasons =
     [Vec64 swap_ids, Adr canceller, VecByt reasons]"

definition RenegotiationProposedEvent :: "nat \<Rightarrow> int \<Rightarrow> address \<Rightarrow> sval list" where
  "RenegotiationProposedEvent swap_id new_price proposer =
     [U64 swap_id, I128 new_price, Adr proposer]"

definition RenegotiationAcceptedEvent :: "nat \<Rightarrow> int \<Rightarrow> address \<Rightarrow> sval list" where
  "RenegotiationAcceptedEvent swap_id new_price buyer =
     [U64 swap_id, I128 new_price, Adr buyer]"

definition InsurancePayoutEvent :: "nat \<Rightarrow> address \<Rightarrow> int \<Rightarrow> sval list" where
  "InsurancePayoutEvent swap_id buyer payout_amount =
     [U64 swap_id, Adr buyer, I128 payout_amount]"

definition SwapRolledBackEvent :: "nat \<Rightarrow> int \<Rightarrow> int \<Rightarrow> sval list" where
  "SwapRolledBackEvent swap_id buyer_refund treasury_penalty =
     [U64 swap_id, I128 buyer_refund, I128 treasury_penalty]"

definition BatchInitiatedEvent :: "nat list \<Rightarrow> address \<Rightarrow> address \<Rightarrow> nat \<Rightarrow> sval list" where
  "BatchInitiatedEvent swap_ids seller buyer count =
     [Vec64 swap_ids, Adr seller, Adr buyer, U32 count]"

definition BatchRollbackEvent :: "nat list \<Rightarrow> address \<Rightarrow> nat \<Rightarrow> sval list" where
  "BatchRollbackEvent swap_ids caller count =
     [Vec64 swap_ids, Adr caller, U32 count]"

definition OracleConfigSetEvent :: "address \<Rightarrow> bool \<Rightarrow> sval list" where
  "OracleConfigSetEvent oracle_address enabled =
     [Adr oracle_address, Flag enabled]"

definition OraclePriceUsedEvent :: "nat \<Rightarrow> int \<Rightarrow> sval list" where
  "OraclePriceUsedEvent swap_id price =
     [U64 swap_id, I128 price]"

definition token_name :: "SupportedToken \<Rightarrow> string" where
  "token_name token = (case token of XLM \<Rightarrow> ''XLM'' | USDC \<Rightarrow> ''USDC'' | EURC \<Rightarrow> ''EURC''
     | Custom \<Rightarrow> ''Custom'')"

definition TokenAddedEvent :: "SupportedToken \<Rightarrow> address option \<Rightarrow> sval list" where
  "TokenAddedEvent token address =
     [Sym (token_name token), OptAdr address]"

section \<open>The fees of a batch\<close>

record SwapFeeBreakdown =
  fb_swap_id :: nat
  fb_price :: int
  fb_protocol_fee :: int
  fb_referral_fee :: int
  fb_seller_amount :: int

definition fee_breakdown_value :: "SwapFeeBreakdown \<Rightarrow> sval" where
  "fee_breakdown_value b = Tuple [int (fb_swap_id b), fb_price b, fb_protocol_fee b, fb_referral_fee b,
     fb_seller_amount b]"

definition BatchFeeBreakdownEvent :: "nat list \<Rightarrow> address \<Rightarrow> SwapFeeBreakdown list \<Rightarrow> sval list" where
  "BatchFeeBreakdownEvent swap_ids seller fees =
     [Vec64 swap_ids, Adr seller] @ map fee_breakdown_value fees"

end
