(* ===== verification/Swap_Base.thy ===== *)
theory Swap_Base
  imports Swap_Events
begin

text \<open>
  The helpers every operation of the swap contract uses: the calls of the host, the token and the
  registry, the writes of \<open>swap.rs\<close>, the guards of \<open>validation.rs\<close>, the fees, the history and the
  reputation scores.
\<close>

section \<open>Host, token and vectors\<close>

definition extend_key :: "SwapKey \<Rightarrow> nat \<Rightarrow> swaps \<Rightarrow> swaps" where
  "extend_key k n s = s\<lparr>sw_log := sw_log s @ [ExtendTtl k n n]\<rparr>"

definition emit :: "string \<Rightarrow> sval list \<Rightarrow> swaps \<Rightarrow> swaps" where
  "emit topic data s = s\<lparr>sw_log := sw_log s @ [Publish [Sym topic] data]\<rparr>"

text \<open>\<open>token::Client::transfer\<close>; the token contract may refuse, which traps the caller.\<close>

definition transfer :: "env \<Rightarrow> address \<Rightarrow> address \<Rightarrow> address \<Rightarrow> int \<Rightarrow> swaps \<Rightarrow> swaps sout" where
  "transfer E token src dst amount s =
     (if token_ok E (transfers (sw_log s)) (token, src, dst, amount)
      then Inr (s\<lparr>sw_log := sw_log s @ [Transfer token src dst amount]\<rparr>)
      else Inl TokenFailed)"

text \<open>\<open>vec.get(i).unwrap()\<close> traps out of range, \<open>vec.set(i, x)\<close> as well.\<close>

definition vec_get :: "'a list \<Rightarrow> nat \<Rightarrow> 'a sout" where
  "vec_get xs i = (if i < length xs then Inr (xs ! i) else Inl HostTrap)"

definition vec_set :: "'a list \<Rightarrow> nat \<Rightarrow> 'a \<Rightarrow> 'a list sout" where
  "vec_set xs i x = (if i < length xs then Inr (xs[i := x]) else Inl HostTrap)"

section \<open>The registry\<close>

definition ip_registry :: "swaps \<Rightarrow> address sout" where
  "ip_registry s = ok_or (Contract NotInitialized) (sw_IpRegistry s)"

text \<open>A call that fails in the registry fails here.\<close>

definition cross_call :: "'a rout \<Rightarrow> 'a sout" where
  "cross_call m = (case m of Inl e \<Rightarrow> Inl CallFailed | Inr x \<Rightarrow> Inr x)"

definition ensure_seller_owns_active_ip :: "registry \<Rightarrow> nat \<Rightarrow> address \<Rightarrow> swaps \<Rightarrow> unit sout" where
  "ensure_seller_owns_active_ip R ip_id seller s =
     bindE (ip_registry s) (\<lambda>_.
     bindE (cross_call (get_ip R ip_id)) (\<lambda>record.
     if ir_owner record \<noteq> seller then Inl (Contract NotIPOwner) else
     if ir_revoked record then Inl (Contract IpRevoked) else Inr ()))"

definition verify_swap_commitment :: "env \<Rightarrow> registry \<Rightarrow> nat \<Rightarrow> bytes \<Rightarrow> bytes \<Rightarrow> swaps \<Rightarrow> bool sout" where
  "verify_swap_commitment E R ip_id secret blinding_factor s =
     bindE (ip_registry s) (\<lambda>_.
     cross_call (verify_commitment E R ip_id secret blinding_factor))"

section \<open>Guards\<close>

definition require_not_paused :: "swaps \<Rightarrow> unit sout" where
  "require_not_paused s = (if unwrap_or False (sw_Paused s) then Inl (Contract Paused) else Inr ())"

definition require_swap_exists :: "swaps \<Rightarrow> nat \<Rightarrow> SwapRecord sout" where
  "require_swap_exists s swap_id = ok_or (Contract SwapNotFound) (sw_Swap s swap_id)"

definition require_swap_status :: "SwapRecord \<Rightarrow> SwapStatus \<Rightarrow> SwapError \<Rightarrow> unit sout" where
  "require_swap_status swap expected_status error =
     (if sp_status swap \<noteq> expected_status then Inl (Contract error) else Inr ())"

definition require_positive_price :: "int \<Rightarrow> unit sout" where
  "require_positive_price price = (if price \<le> 0 then Inl (Contract PriceTooSmall) else Inr ())"

definition require_seller :: "address \<Rightarrow> SwapRecord \<Rightarrow> unit sout" where
  "require_seller caller swap =
     (if caller \<noteq> sp_seller swap then Inl (Contract OnlySellerReveal) else Inr ())"

definition require_buyer :: "address \<Rightarrow> SwapRecord \<Rightarrow> unit sout" where
  "require_buyer caller swap =
     (if caller \<noteq> sp_buyer swap then Inl (Contract OnlyBuyerCancel) else Inr ())"

definition require_seller_or_buyer :: "address \<Rightarrow> SwapRecord \<Rightarrow> unit sout" where
  "require_seller_or_buyer caller swap =
     (if caller \<noteq> sp_seller swap \<and> caller \<noteq> sp_buyer swap
      then Inl (Contract OnlySellerBuyer) else Inr ())"

definition require_swap_expired :: "env \<Rightarrow> SwapRecord \<Rightarrow> unit sout" where
  "require_swap_expired E swap =
     (if now E \<le> sp_expiry swap then Inl (Contract NotExpired) else Inr ())"

definition require_no_active_swap :: "nat \<Rightarrow> swaps \<Rightarrow> unit sout" where
  "require_no_active_swap ip_id s =
     (if sw_ActiveSwap s ip_id \<noteq> None then Inl (Contract SwapExists) else Inr ())"

definition require_swap_admin :: "address \<Rightarrow> swaps \<Rightarrow> unit sout" where
  "require_swap_admin caller s =
     bindE (ok_or (Contract Sw_Unauthorized) (sw_InstanceAdmin s)) (\<lambda>admin.
     if caller \<noteq> admin then Inl (Contract Sw_Unauthorized) else Inr ())"

lemma swap_guards_Inr [simp]:
  "vec_get xs i = Inr x \<longleftrightarrow> i < length xs \<and> x = xs ! i"
  "vec_set xs i y = Inr ys \<longleftrightarrow> i < length xs \<and> ys = xs[i := y]"
  "ip_registry s = Inr a \<longleftrightarrow> sw_IpRegistry s = Some a"
  "require_not_paused s = Inr u \<longleftrightarrow> \<not> unwrap_or False (sw_Paused s)"
  "require_swap_exists s i = Inr r \<longleftrightarrow> sw_Swap s i = Some r"
  "require_swap_status r st e = Inr u \<longleftrightarrow> sp_status r = st"
  "require_positive_price p = Inr u \<longleftrightarrow> 0 < p"
  "require_seller a r = Inr u \<longleftrightarrow> a = sp_seller r"
  "require_buyer a r = Inr u \<longleftrightarrow> a = sp_buyer r"
  "require_seller_or_buyer a r = Inr u \<longleftrightarrow> a = sp_seller r \<or> a = sp_buyer r"
  "require_swap_expired E r = Inr u \<longleftrightarrow> sp_expiry r < now E"
  "require_no_active_swap ip s = Inr u \<longleftrightarrow> sw_ActiveSwap s ip = None"
  "require_swap_admin a s = Inr u \<longleftrightarrow> sw_InstanceAdmin s = Some a"
  by (auto simp: vec_get_def vec_set_def ip_registry_def require_not_paused_def
      require_swap_exists_def require_swap_status_def require_positive_price_def
      require_seller_def require_buyer_def require_seller_or_buyer_def require_swap_expired_def
      require_no_active_swap_def require_swap_admin_def bindE_Inr_iff)

lemma cross_call_Inr [simp]: "cross_call m = Inr x \<longleftrightarrow> m = Inr x"
  by (cases m) (auto simp: cross_call_def)

lemma ensure_seller_Inr [simp]:
  "ensure_seller_owns_active_ip R ip seller s = Inr u \<longleftrightarrow>
    sw_IpRegistry s \<noteq> None \<and>
    (\<exists>r. get_ip R ip = Inr r \<and> ir_owner r = seller \<and> \<not> ir_revoked r)"
  by (auto simp: ensure_seller_owns_active_ip_def bindE_Inr_iff)

lemma verify_swap_Inr [simp]:
  "verify_swap_commitment E R ip x y s = Inr b \<longleftrightarrow>
    sw_IpRegistry s \<noteq> None \<and> verify_commitment E R ip x y = Inr b"
  by (auto simp: verify_swap_commitment_def bindE_Inr_iff)

section \<open>Writes\<close>

definition save_swap :: "nat \<Rightarrow> SwapRecord \<Rightarrow> swaps \<Rightarrow> swaps" where
  "save_swap swap_id swap s =
     extend_key (Sk_Swap swap_id) LEDGER_BUMP (s\<lparr>sw_Swap := (sw_Swap s)(swap_id \<mapsto> swap)\<rparr>)"

definition append_swap_for_party :: "address \<Rightarrow> address \<Rightarrow> nat \<Rightarrow> swaps \<Rightarrow> swaps" where
  "append_swap_for_party seller buyer swap_id s =
     (let seller_ids = unwrap_or [] (sw_SellerSwaps s seller) @ [swap_id];
          s = extend_key (Sk_SellerSwaps seller) LEDGER_BUMP
            (s\<lparr>sw_SellerSwaps := (sw_SellerSwaps s)(seller \<mapsto> seller_ids)\<rparr>);
          buyer_ids = unwrap_or [] (sw_BuyerSwaps s buyer) @ [swap_id]
      in extend_key (Sk_BuyerSwaps buyer) LEDGER_BUMP
           (s\<lparr>sw_BuyerSwaps := (sw_BuyerSwaps s)(buyer \<mapsto> buyer_ids)\<rparr>))"

definition append_history :: "env \<Rightarrow> nat \<Rightarrow> SwapStatus \<Rightarrow> swaps \<Rightarrow> swaps" where
  "append_history E swap_id status s =
     (let history = unwrap_or [] (sw_SwapHistory s swap_id)
            @ [\<lparr>he_status = status, he_timestamp = now E\<rparr>]
      in extend_key (Sk_SwapHistory swap_id) LEDGER_BUMP
           (s\<lparr>sw_SwapHistory := (sw_SwapHistory s)(swap_id \<mapsto> history)\<rparr>))"

text \<open>The writes the initiating functions have in common.\<close>

definition lock_ip :: "nat \<Rightarrow> nat \<Rightarrow> swaps \<Rightarrow> swaps" where
  "lock_ip ip_id swap_id s =
     extend_key (Sk_ActiveSwap ip_id) LEDGER_BUMP
       (s\<lparr>sw_ActiveSwap := (sw_ActiveSwap s)(ip_id \<mapsto> swap_id)\<rparr>)"

definition unlock_ip :: "nat \<Rightarrow> swaps \<Rightarrow> swaps" where
  "unlock_ip ip_id s = s\<lparr>sw_ActiveSwap := (sw_ActiveSwap s)(ip_id := None)\<rparr>"

definition append_ip_swap :: "nat \<Rightarrow> nat \<Rightarrow> nat \<Rightarrow> swaps \<Rightarrow> swaps" where
  "append_ip_swap ip_id swap_id ttl s =
     extend_key (Sk_IpSwaps ip_id) ttl
       (s\<lparr>sw_IpSwaps := (sw_IpSwaps s)(ip_id \<mapsto> unwrap_or [] (sw_IpSwaps s ip_id) @ [swap_id])\<rparr>)"

definition set_cancel_reason :: "nat \<Rightarrow> bytes \<Rightarrow> swaps \<Rightarrow> swaps" where
  "set_cancel_reason swap_id reason s =
     s\<lparr>sw_CancelReason := (sw_CancelReason s)(swap_id \<mapsto> reason)\<rparr>"

text \<open>The record of a swap just initiated, with the fields that most callers leave at their default.\<close>

definition pending_swap :: "nat \<Rightarrow> address \<Rightarrow> address \<Rightarrow> int \<Rightarrow> address \<Rightarrow> nat \<Rightarrow> SwapRecord" where
  "pending_swap ip_id seller buyer price token expiry = \<lparr>
     sp_ip_id = ip_id, sp_seller = seller, sp_buyer = buyer, sp_price = price, sp_token = token,
     sp_status = Pending, sp_expiry = expiry, sp_accept_timestamp = 0, sp_required_approvals = 0,
     sp_dispute_timestamp = 0, sp_referrer = None, sp_collateral_amount = 0,
     sp_insurance_premium = 0, sp_insurance_enabled = False, sp_escrow_agent = None,
     sp_quantity = 1, sp_conditions = [], sp_paid_amount = 0, sp_is_installment = False\<rparr>"

definition next_swap_id :: "swaps \<Rightarrow> nat" where
  "next_swap_id s = unwrap_or 0 (sw_NextId s)"

text \<open>
  \<open>as i32\<close> keeps the low 32 bits, \<open>saturating_add\<close> stops at the ends of the type, and \<open>clamp(0, 100)\<close>
  bounds the score.
\<close>

definition adjusted_reputation :: "nat \<Rightarrow> int \<Rightarrow> nat" where
  "adjusted_reputation current delta =
     nat (max 0 (min 100 (max (- (2 ^ 31)) (min (2 ^ 31 - 1)
       (sint (word_of_nat current :: 32 word) + delta)))))"

definition update_user_reputation :: "address \<Rightarrow> int \<Rightarrow> swaps \<Rightarrow> swaps" where
  "update_user_reputation a delta s =
     extend_key (Sk_UserReputation a) LEDGER_BUMP
       (s\<lparr>sw_UserReputation := (sw_UserReputation s)
            (a \<mapsto> adjusted_reputation (unwrap_or 50 (sw_UserReputation s a)) delta)\<rparr>)"

lemmas swap_write_defs [state_simps] = extend_key_def emit_def save_swap_def
  append_swap_for_party_def append_history_def lock_ip_def unlock_ip_def append_ip_swap_def
  set_cancel_reason_def update_user_reputation_def

section \<open>Fees\<close>

text \<open>The treasury's address string encodes the all-zero public key.\<close>

definition treasury_address :: address where
  "treasury_address = Address 0"

definition protocol_config :: ProtocolConfig where
  "protocol_config = \<lparr>
     pc_protocol_fee_bps = 250, pc_treasury = treasury_address,
     pc_dispute_window_seconds = 86400, pc_dispute_timeout_secs = 604800,
     pc_referral_fee_bps = 100, pc_arbitration_timeout_seconds = 1209600\<rparr>"

text \<open>\<open>(price * bps) / 10000\<close> with the guard that both factors are positive.\<close>

definition bps_of :: "int \<Rightarrow> nat \<Rightarrow> int sout" where
  "bps_of price bps =
     (if bps > 0 \<and> price > 0
      then bindE (i128 (price * int bps)) (\<lambda>x. Inr (tdiv x 10000))
      else Inr 0)"

lemma bps_of_Inr: "bps_of price bps = Inr f \<longleftrightarrow>
    (if bps > 0 \<and> price > 0 then price * int bps < 2 ^ 127 \<and> f = price * int bps div 10000 else f = 0)"
proof (cases "bps > 0 \<and> price > 0")
  case True
  then have pos: "0 < price * int bps" by simp
  then have "- (2 ^ 127) \<le> price * int bps"
    using order.trans [of "- (2 ^ 127)" 0 "price * int bps"] by simp
  with True pos show ?thesis
    by (auto simp: bps_of_def bindE_Inr_iff tdiv_nonneg)
qed (auto simp: bps_of_def)

text \<open>The fee and the referral part never exceed the price they are taken from.\<close>

lemma bps_of_bounds:
  assumes "bps_of price bps = Inr f" and "bps \<le> 10000"
  shows "0 \<le> f \<and> f \<le> max 0 price"
proof (cases "bps > 0 \<and> price > 0")
  case True
  then have f: "f = price * int bps div 10000" using assms(1) by (simp add: bps_of_Inr)
  have "price * int bps \<le> price * 10000" using True assms(2) by (intro mult_left_mono) auto
  then have "price * int bps div 10000 \<le> price * 10000 div 10000" by (rule zdiv_mono1) simp
  with f True show ?thesis by (auto intro: pos_imp_zdiv_nonneg_iff [THEN iffD2])
qed (use assms in \<open>auto simp: bps_of_Inr\<close>)

section \<open>Conditions\<close>

definition evaluate_conditions :: "env \<Rightarrow> SwapRecord \<Rightarrow> unit sout" where
  "evaluate_conditions E swap =
     checkE (\<lambda>c.
       let ok = (case c of
             KeyValid \<Rightarrow> True
           | PriceBelow threshold \<Rightarrow> sp_price swap < threshold
           | TimeAfter ts \<Rightarrow> ts \<le> now E)
       in if \<not> ok then Inl (Contract ConditionNotMet) else Inr ()) (sp_conditions swap)"

text \<open>The check of the collected approvals, which three accepting functions repeat.\<close>

definition require_approvals :: "nat \<Rightarrow> SwapRecord \<Rightarrow> swaps \<Rightarrow> unit sout" where
  "require_approvals swap_id swap s =
     (if sp_required_approvals swap > 0 \<and>
         length (unwrap_or [] (sw_SwapApprovals s swap_id)) < sp_required_approvals swap
      then Inl (Contract NeedApprovals) else Inr ())"

lemma require_approvals_Inr [simp]:
  "require_approvals i r s = Inr u \<longleftrightarrow>
    sp_required_approvals r \<le> length (unwrap_or [] (sw_SwapApprovals s i))"
  by (auto simp: require_approvals_def)

end
