(* ===== verification/Swap_Core.thy ===== *)
theory Swap_Core
  imports Swap_Base
begin

text \<open>
  The life of a swap: initiation (with a fixed or an oracle price), approvals, renegotiation,
  acceptance in its three forms, the reveal of the key, the cancellations, and the claim of the
  insurance. \<open>R\<close> is the storage of the registry at the time of the call.
\<close>

section \<open>Setup\<close>

definition initialize :: "address \<Rightarrow> swaps \<Rightarrow> swaps sout" where
  "initialize registry s =
     (if sw_IpRegistry s \<noteq> None then Inl (Contract AlreadyInit)
      else Inr (s\<lparr>sw_IpRegistry := Some registry\<rparr>))"

definition set_oracle :: "env \<Rightarrow> address \<Rightarrow> address \<Rightarrow> bool \<Rightarrow> swaps \<Rightarrow> swaps sout" where
  "set_oracle E caller oracle_address enabled s =
     bindE (require_auth E caller) (\<lambda>_.
     bindE (ok_or (Contract NotInitialized) (sw_Admin s)) (\<lambda>admin.
     if caller \<noteq> admin then Inl (Contract Sw_Unauthorized) else
     let config = \<lparr>orc_oracle_address = oracle_address, orc_enabled = enabled\<rparr>;
         s = extend_key Sk_OracleConfig LEDGER_BUMP (s\<lparr>sw_OracleConfig := Some config\<rparr>)
     in Inr (emit ''oracle'' (OracleConfigSetEvent oracle_address enabled) s)))"

definition get_oracle_config :: "swaps \<Rightarrow> OracleConfig option" where
  "get_oracle_config s = sw_OracleConfig s"

text \<open>\<open>oracle_price E oracle token\<close> is the oracle's answer, \<open>None\<close> when its call fails.\<close>

definition fetch_oracle_price :: "env \<Rightarrow> address \<Rightarrow> swaps \<Rightarrow> int sout" where
  "fetch_oracle_price E token s =
     bindE (ok_or (Contract OracleNotConfigured) (sw_OracleConfig s)) (\<lambda>config.
     if \<not> orc_enabled config then Inl (Contract OracleNotConfigured) else
     bindE (ok_or CallFailed (oracle_price E (orc_oracle_address config) token)) (\<lambda>price.
     if price \<le> 0 then Inl (Contract OraclePriceInvalid) else Inr price))"

definition validate_price_bounds :: "int \<Rightarrow> int \<Rightarrow> int \<Rightarrow> unit sout" where
  "validate_price_bounds price min_price max_price =
     (if min_price > 0 \<and> price < min_price then Inl (Contract OraclePriceBelowMin) else
      if max_price > 0 \<and> price > max_price then Inl (Contract OraclePriceAboveMax) else Inr ())"

definition get_oracle_price :: "env \<Rightarrow> address \<Rightarrow> swaps \<Rightarrow> int sout" where
  "get_oracle_price E token s = fetch_oracle_price E token s"

section \<open>Initiation\<close>

definition initiate_swap ::
    "env \<Rightarrow> registry \<Rightarrow> address \<Rightarrow> nat \<Rightarrow> address \<Rightarrow> int \<Rightarrow> address \<Rightarrow> nat \<Rightarrow> address option \<Rightarrow> int \<Rightarrow>
     bool \<Rightarrow> swaps \<Rightarrow> (nat \<times> swaps) sout" where
  "initiate_swap E R token ip_id seller price buyer required_approvals referrer collateral_amount
       insurance_enabled s =
     bindE (require_not_paused s) (\<lambda>_.
     bindE (require_auth E seller) (\<lambda>_.
     let s = (if sw_Admin s = None
           then extend_key Sk_Admin 50000 (s\<lparr>sw_Admin := Some seller\<rparr>) else s) in
     bindE (require_positive_price price) (\<lambda>_.
     bindE (ensure_seller_owns_active_ip R ip_id seller s) (\<lambda>_.
     bindE (require_no_active_swap ip_id s) (\<lambda>_.
     let id = next_swap_id s in
     bindE (u64 (now E + 604800)) (\<lambda>expiry.
     bindE (if insurance_enabled
            then bindE (i128 (price * 2)) (\<lambda>x. Inr (tdiv x 100)) else Inr 0) (\<lambda>premium.
     let swap = (pending_swap ip_id seller buyer price token expiry)
           \<lparr>sp_required_approvals := required_approvals, sp_referrer := referrer,
            sp_collateral_amount := collateral_amount, sp_insurance_premium := premium,
            sp_insurance_enabled := insurance_enabled\<rparr>;
         s = (if insurance_enabled
           then extend_key (Sk_SwapInsurance id) LEDGER_BUMP
             (s\<lparr>sw_SwapInsurance := (sw_SwapInsurance s)(id \<mapsto> premium)\<rparr>)
           else s);
         s = save_swap id swap s;
         s = lock_ip ip_id id s;
         s = append_swap_for_party seller buyer id s;
         s = append_ip_swap ip_id id 50000 s;
         s = append_history E id Pending s
     in bindE (u64 (id + 1)) (\<lambda>next.
     let s = s\<lparr>sw_NextId := Some next\<rparr>
     in Inr (id, emit ''swap_init''
          (SwapInitiatedEvent id ip_id seller buyer price) s)))))))))"

definition initiate_swap_with_oracle_price ::
    "env \<Rightarrow> registry \<Rightarrow> address \<Rightarrow> nat \<Rightarrow> address \<Rightarrow> address \<Rightarrow> nat \<Rightarrow> address option \<Rightarrow> int \<Rightarrow>
     bool \<Rightarrow> int \<Rightarrow> int \<Rightarrow> swaps \<Rightarrow> (nat \<times> swaps) sout" where
  "initiate_swap_with_oracle_price E R token ip_id seller buyer required_approvals referrer
       collateral_amount insurance_enabled min_price max_price s =
     bindE (fetch_oracle_price E token s) (\<lambda>price.
     bindE (validate_price_bounds price min_price max_price) (\<lambda>_.
     bindE (initiate_swap E R token ip_id seller price buyer required_approvals referrer
         collateral_amount insurance_enabled s) (\<lambda>(swap_id, s).
     Inr (swap_id, emit ''ora_price'' (OraclePriceUsedEvent swap_id price) s))))"

section \<open>Before the acceptance\<close>

definition extend_swap_expiry :: "env \<Rightarrow> nat \<Rightarrow> nat \<Rightarrow> swaps \<Rightarrow> swaps sout" where
  "extend_swap_expiry E swap_id new_expiry s =
     bindE (require_swap_exists s swap_id) (\<lambda>swap.
     bindE (require_auth E (sp_seller swap)) (\<lambda>_.
     bindE (require_swap_status swap Pending NotPending) (\<lambda>_.
     if new_expiry \<le> sp_expiry swap then Inl (Contract ExpiryNotGreater) else
     let old_expiry = sp_expiry swap;
         s = save_swap swap_id (swap\<lparr>sp_expiry := new_expiry\<rparr>) s
     in Inr (emit ''exp_ext'' (SwapExpiryExtendedEvent swap_id old_expiry new_expiry) s))))"

definition approve_swap :: "env \<Rightarrow> nat \<Rightarrow> address \<Rightarrow> swaps \<Rightarrow> swaps sout" where
  "approve_swap E swap_id approver s =
     bindE (require_auth E approver) (\<lambda>_.
     bindE (require_swap_exists s swap_id) (\<lambda>swap.
     bindE (require_swap_status swap Pending NotPending) (\<lambda>_.
     let approvals = unwrap_or [] (sw_SwapApprovals s swap_id) in
     if approver \<in> set approvals then Inl (Contract AlreadyApproved) else
     let approvals = approvals @ [approver];
         s = extend_key (Sk_SwapApprovals swap_id) LEDGER_BUMP
           (s\<lparr>sw_SwapApprovals := (sw_SwapApprovals s)(swap_id \<mapsto> approvals)\<rparr>)
     in Inr (emit ''approved'' (SwapApprovedEvent swap_id approver (length approvals)) s))))"

definition renegotiate_swap :: "env \<Rightarrow> nat \<Rightarrow> int \<Rightarrow> swaps \<Rightarrow> swaps sout" where
  "renegotiate_swap E swap_id new_price s =
     bindE (require_not_paused s) (\<lambda>_.
     bindE (require_swap_exists s swap_id) (\<lambda>swap.
     bindE (require_swap_status swap Pending NotPending) (\<lambda>_.
     bindE (require_auth E (sp_seller swap)) (\<lambda>_.
     bindE (require_positive_price new_price) (\<lambda>_.
     let offer = \<lparr>ro_new_price = new_price, ro_proposer = sp_seller swap, ro_timestamp = now E\<rparr>;
         s = extend_key (Sk_SwapRenegotiations swap_id) LEDGER_BUMP
           (s\<lparr>sw_SwapRenegotiations := (sw_SwapRenegotiations s)(swap_id \<mapsto> offer)\<rparr>)
     in Inr (emit ''rneg_prp'' (RenegotiationProposedEvent swap_id new_price (sp_seller swap)) s))))))"

definition accept_renegotiation :: "env \<Rightarrow> nat \<Rightarrow> swaps \<Rightarrow> swaps sout" where
  "accept_renegotiation E swap_id s =
     bindE (require_not_paused s) (\<lambda>_.
     bindE (require_swap_exists s swap_id) (\<lambda>swap.
     bindE (require_swap_status swap Pending NotPending) (\<lambda>_.
     bindE (require_auth E (sp_buyer swap)) (\<lambda>_.
     bindE (ok_or (Contract SwapNotFound) (sw_SwapRenegotiations s swap_id)) (\<lambda>offer.
     let s = save_swap swap_id (swap\<lparr>sp_price := ro_new_price offer\<rparr>) s;
         s = s\<lparr>sw_SwapRenegotiations := (sw_SwapRenegotiations s)(swap_id := None)\<rparr>
     in Inr (emit ''rneg_acp'' (RenegotiationAcceptedEvent swap_id (ro_new_price offer) (sp_buyer swap)) s))))))"

definition set_reputation_multiplier :: "env \<Rightarrow> nat \<Rightarrow> nat \<Rightarrow> swaps \<Rightarrow> swaps sout" where
  "set_reputation_multiplier E swap_id min_reputation s =
     bindE (require_swap_exists s swap_id) (\<lambda>swap.
     bindE (require_auth E (sp_seller swap)) (\<lambda>_.
     bindE (require_swap_status swap Pending NotPending) (\<lambda>_.
     Inr (extend_key (Sk_ReputationMultiplier swap_id) LEDGER_BUMP
       (s\<lparr>sw_ReputationMultiplier := (sw_ReputationMultiplier s)(swap_id \<mapsto> min_reputation)\<rparr>)))))"

section \<open>Acceptance\<close>

definition accept_swap_conditional ::
    "env \<Rightarrow> nat \<Rightarrow> SwapCondition list \<Rightarrow> swaps \<Rightarrow> swaps sout" where
  "accept_swap_conditional E swap_id conditions s =
     bindE (require_not_paused s) (\<lambda>_.
     bindE (require_swap_exists s swap_id) (\<lambda>swap.
     bindE (require_auth E (sp_buyer swap)) (\<lambda>_.
     bindE (require_swap_status swap Pending NotPending) (\<lambda>_.
     bindE (require_approvals swap_id swap s) (\<lambda>_.
     let swap = swap\<lparr>sp_conditions := conditions\<rparr> in
     bindE (evaluate_conditions E swap) (\<lambda>_.
     bindE (transfer E (sp_token swap) (sp_buyer swap) (this_addr E) (sp_price swap) s) (\<lambda>s.
     let swap = swap\<lparr>sp_accept_timestamp := now E, sp_status := Accepted\<rparr>;
         s = save_swap swap_id swap s;
         s = append_history E swap_id Accepted s
     in Inr (emit ''swap_acpt'' (SwapAcceptedEvent swap_id (sp_buyer swap)) s))))))))"

text \<open>The check of the buyer's score against the minimum the seller has set.\<close>

definition require_min_reputation :: "nat \<Rightarrow> SwapRecord \<Rightarrow> swaps \<Rightarrow> unit sout" where
  "require_min_reputation swap_id swap s =
     (case sw_ReputationMultiplier s swap_id of
        None \<Rightarrow> Inr ()
      | Some min_rep \<Rightarrow>
          if unwrap_or 50 (sw_UserReputation s (sp_buyer swap)) < min_rep
          then Inl (Contract InsufficientReputation) else Inr ())"

text \<open>The premium is paid to the contract and booked in the pool of the token.\<close>

definition collect_premium :: "env \<Rightarrow> SwapRecord \<Rightarrow> swaps \<Rightarrow> swaps sout" where
  "collect_premium E swap s =
     (if sp_insurance_enabled swap \<and> sp_insurance_premium swap > 0
      then bindE (transfer E (sp_token swap) (sp_buyer swap) (this_addr E)
             (sp_insurance_premium swap) s) (\<lambda>s.
           let pool = unwrap_or 0 (sw_InsurancePool s (sp_token swap)) in
           bindE (i128 (pool + sp_insurance_premium swap)) (\<lambda>new_pool.
           Inr (extend_key (Sk_InsurancePool (sp_token swap)) LEDGER_BUMP
             (s\<lparr>sw_InsurancePool := (sw_InsurancePool s)(sp_token swap \<mapsto> new_pool)\<rparr>))))
      else Inr s)"

definition accept_swap :: "env \<Rightarrow> nat \<Rightarrow> swaps \<Rightarrow> swaps sout" where
  "accept_swap E swap_id s =
     bindE (require_not_paused s) (\<lambda>_.
     bindE (require_swap_exists s swap_id) (\<lambda>swap.
     bindE (require_auth E (sp_buyer swap)) (\<lambda>_.
     bindE (require_swap_status swap Pending NotPending) (\<lambda>_.
     bindE (require_approvals swap_id swap s) (\<lambda>_.
     bindE (if sp_conditions swap \<noteq> [] then evaluate_conditions E swap else Inr ()) (\<lambda>_.
     bindE (require_min_reputation swap_id swap s) (\<lambda>_.
     bindE (if sp_collateral_amount swap > 0
            then if sw_SwapCollateral s swap_id \<noteq> None then Inl (Contract AlreadyInit)
              else bindE (transfer E (sp_token swap) (sp_buyer swap) (this_addr E)
                     (sp_collateral_amount swap) s) (\<lambda>s.
                let s = extend_key (Sk_SwapCollateral swap_id) LEDGER_BUMP
                      (s\<lparr>sw_SwapCollateral :=
                           (sw_SwapCollateral s)(swap_id \<mapsto> sp_collateral_amount swap)\<rparr>)
                in Inr (emit ''coll_dep''
                     (CollateralDepositedEvent swap_id (sp_buyer swap) (sp_collateral_amount swap)) s))
            else Inr s) (\<lambda>s.
     bindE (transfer E (sp_token swap) (sp_buyer swap) (this_addr E) (sp_price swap) s) (\<lambda>s.
     bindE (collect_premium E swap s) (\<lambda>s.
     let swap = swap\<lparr>sp_accept_timestamp := now E, sp_status := Accepted\<rparr>;
         s = save_swap swap_id swap s;
         s = append_history E swap_id Accepted s
     in Inr (emit ''swap_acpt'' (SwapAcceptedEvent swap_id (sp_buyer swap)) s)))))))))))"

definition accept_swap_partial :: "env \<Rightarrow> nat \<Rightarrow> nat \<Rightarrow> swaps \<Rightarrow> swaps sout" where
  "accept_swap_partial E swap_id quantity s =
     bindE (require_not_paused s) (\<lambda>_.
     bindE (require_swap_exists s swap_id) (\<lambda>swap.
     bindE (require_auth E (sp_buyer swap)) (\<lambda>_.
     bindE (require_swap_status swap Pending NotPending) (\<lambda>_.
     if quantity = 0 \<or> quantity > sp_quantity swap then Inl (Contract InvalidKey) else
     bindE (i128 (sp_price swap * int quantity)) (\<lambda>x.
     let partial_price = tdiv x (int (sp_quantity swap)) in
     bindE (transfer E (sp_token swap) (sp_buyer swap) (this_addr E) partial_price s) (\<lambda>s.
     let swap = swap\<lparr>sp_price := partial_price, sp_quantity := quantity,
           sp_accept_timestamp := now E, sp_status := Accepted\<rparr>;
         s = save_swap swap_id swap s;
         s = append_history E swap_id Accepted s
     in Inr (emit ''swap_acpt'' (SwapAcceptedEvent swap_id (sp_buyer swap)) s)))))))"

section \<open>Reveal of the key\<close>

text \<open>
  The block that hands a stored collateral to one of the parties and removes it, with the event some
  of its copies emit.
\<close>

definition release_collateral ::
    "env \<Rightarrow> address \<Rightarrow> string option \<Rightarrow> nat \<Rightarrow> SwapRecord \<Rightarrow> swaps \<Rightarrow> swaps sout" where
  "release_collateral E to event swap_id swap s =
     (if sp_collateral_amount swap > 0
      then case sw_SwapCollateral s swap_id of
          None \<Rightarrow> Inr s
        | Some collateral \<Rightarrow>
            bindE (transfer E (sp_token swap) (this_addr E) to collateral s) (\<lambda>s.
            let s = s\<lparr>sw_SwapCollateral := (sw_SwapCollateral s)(swap_id := None)\<rparr>
            in Inr (case event of
                 None \<Rightarrow> s
               | Some topic \<Rightarrow> emit topic ((if topic = ''coll_ref'' then CollateralRefundedEvent else CollateralReleasedEvent)
                   swap_id (sp_buyer swap) collateral) s))
      else Inr s)"

definition referral_of :: "SwapRecord \<Rightarrow> int sout" where
  "referral_of swap =
     (if sp_referrer swap \<noteq> None
      then bps_of (sp_price swap) (pc_referral_fee_bps protocol_config) else Inr 0)"

text \<open>The referrer's share is paid with an event.\<close>

definition pay_referral :: "env \<Rightarrow> nat \<Rightarrow> SwapRecord \<Rightarrow> int \<Rightarrow> swaps \<Rightarrow> swaps sout" where
  "pay_referral E swap_id swap referral_amount s =
     (if referral_amount > 0
      then case sp_referrer swap of
          None \<Rightarrow> Inr s
        | Some referrer \<Rightarrow>
            bindE (transfer E (sp_token swap) (this_addr E) referrer referral_amount s) (\<lambda>s.
            Inr (emit ''ref_paid'' (ReferralPaidEvent swap_id referrer referral_amount) s))
      else Inr s)"

text \<open>
  With an invalid key the code marks the insurance as claimable and panics; the panic takes the mark
  back, so the result is only the error.
\<close>

definition reveal_key ::
    "env \<Rightarrow> registry \<Rightarrow> nat \<Rightarrow> address \<Rightarrow> bytes \<Rightarrow> bytes \<Rightarrow> swaps \<Rightarrow> swaps sout" where
  "reveal_key E R swap_id caller secret blinding_factor s =
     bindE (require_swap_exists s swap_id) (\<lambda>swap.
     bindE (require_seller caller swap) (\<lambda>_.
     bindE (require_auth E caller) (\<lambda>_.
     bindE (require_swap_status swap Accepted NotAccepted) (\<lambda>_.
     bindE (case sw_SwapSigners s swap_id of
              None \<Rightarrow> Inr ()
            | Some signers \<Rightarrow>
                if length (unwrap_or [] (sw_SwapSignatures s swap_id)) < length signers
                then Inl (Contract NotAllSigned) else Inr ()) (\<lambda>_.
     bindE (verify_swap_commitment E R (sp_ip_id swap) secret blinding_factor s) (\<lambda>valid.
     if \<not> valid then Inl (Contract InvalidKey) else
     bindE (if sp_conditions swap \<noteq> [] then evaluate_conditions E swap else Inr ()) (\<lambda>_.
     let swap = swap\<lparr>sp_status := Completed\<rparr>;
         s = save_swap swap_id swap s;
         s = extend_key (Sk_CompletionTimestamp swap_id) LEDGER_BUMP
           (s\<lparr>sw_CompletionTimestamp := (sw_CompletionTimestamp s)(swap_id \<mapsto> now E)\<rparr>);
         s = unlock_ip (sp_ip_id swap) s;
         s = append_history E swap_id Completed s;
         tok = sp_token swap;
         treasury = pc_treasury protocol_config
     in bindE (bps_of (sp_price swap) (pc_protocol_fee_bps protocol_config)) (\<lambda>fee_amount.
     bindE (referral_of swap) (\<lambda>referral_amount.
     bindE (i128 (sp_price swap - fee_amount)) (\<lambda>x.
     bindE (i128 (x - referral_amount)) (\<lambda>seller_amount.
     bindE (if fee_amount > 0
            then bindE (transfer E tok (this_addr E) treasury fee_amount s) (\<lambda>s.
              Inr (emit ''proto_fee'' (ProtocolFeeEvent swap_id fee_amount treasury) s))
            else Inr s) (\<lambda>s.
     bindE (pay_referral E swap_id swap referral_amount s) (\<lambda>s.
     bindE (transfer E tok (this_addr E) (sp_seller swap) seller_amount s) (\<lambda>s.
     bindE (release_collateral E (sp_buyer swap) (Some ''coll_rel'') swap_id swap s) (\<lambda>s.
     let s = update_user_reputation (sp_seller swap) 5 s;
         s = update_user_reputation (sp_buyer swap) 5 s
     in Inr (emit ''key_rev'' (KeyRevealedEvent swap_id seller_amount fee_amount) s))))))))))))))))"

definition claim_insurance :: "env \<Rightarrow> nat \<Rightarrow> swaps \<Rightarrow> swaps sout" where
  "claim_insurance E swap_id s =
     bindE (require_swap_exists s swap_id) (\<lambda>swap.
     bindE (require_auth E (sp_buyer swap)) (\<lambda>_.
     if \<not> sp_insurance_enabled swap then Inl (Contract Sw_Unauthorized) else
     if sw_InsuranceClaimable s swap_id = None then Inl (Contract Sw_Unauthorized) else
     let payout = sp_price swap;
         pool = unwrap_or 0 (sw_InsurancePool s (sp_token swap));
         actual_payout = (if pool \<ge> payout then payout else pool)
     in bindE (transfer E (sp_token swap) (this_addr E) (sp_buyer swap) actual_payout s) (\<lambda>s.
     bindE (i128 (pool - actual_payout)) (\<lambda>new_pool.
     let s = s\<lparr>sw_InsurancePool := (sw_InsurancePool s)(sp_token swap \<mapsto> new_pool)\<rparr>;
         s = s\<lparr>sw_InsuranceClaimable := (sw_InsuranceClaimable s)(swap_id := None)\<rparr>
     in Inr (emit ''ins_pay'' (InsurancePayoutEvent swap_id (sp_buyer swap) actual_payout) s)))))"

section \<open>Cancellation\<close>

definition cancel_swap :: "env \<Rightarrow> nat \<Rightarrow> address \<Rightarrow> swaps \<Rightarrow> swaps sout" where
  "cancel_swap E swap_id canceller s =
     bindE (require_swap_exists s swap_id) (\<lambda>swap.
     bindE (require_seller_or_buyer canceller swap) (\<lambda>_.
     bindE (require_auth E canceller) (\<lambda>_.
     bindE (require_swap_status swap Pending OnlyPending) (\<lambda>_.
     let s = save_swap swap_id (swap\<lparr>sp_status := Cancelled\<rparr>) s;
         s = unlock_ip (sp_ip_id swap) s;
         s = append_history E swap_id Cancelled s;
         s = update_user_reputation canceller (- 10) s
     in Inr (emit ''swap_cncl'' (SwapCancelledEvent swap_id canceller) s)))))"

definition cancel_expired_swap :: "env \<Rightarrow> nat \<Rightarrow> address \<Rightarrow> swaps \<Rightarrow> swaps sout" where
  "cancel_expired_swap E swap_id caller s =
     bindE (require_swap_exists s swap_id) (\<lambda>swap.
     bindE (require_swap_status swap Accepted NotInAccepted) (\<lambda>_.
     bindE (require_buyer caller swap) (\<lambda>_.
     bindE (require_swap_expired E swap) (\<lambda>_.
     let swap = swap\<lparr>sp_status := Cancelled\<rparr>;
         s = save_swap swap_id swap s;
         s = unlock_ip (sp_ip_id swap) s
     in bindE (transfer E (sp_token swap) (this_addr E) (sp_buyer swap) (sp_price swap) s) (\<lambda>s.
     bindE (release_collateral E (sp_buyer swap) (Some ''coll_ref'') swap_id swap s) (\<lambda>s.
     let s = append_history E swap_id Cancelled s;
         s = update_user_reputation (sp_seller swap) (- 10) s
     in Inr (emit ''s_cancel'' (SwapCancelledEvent swap_id caller) s)))))))"

definition cancel_pending_swap :: "env \<Rightarrow> nat \<Rightarrow> address \<Rightarrow> swaps \<Rightarrow> swaps sout" where
  "cancel_pending_swap E swap_id caller s =
     bindE (require_swap_exists s swap_id) (\<lambda>swap.
     bindE (require_buyer caller swap) (\<lambda>_.
     bindE (require_auth E caller) (\<lambda>_.
     bindE (require_swap_status swap Pending NotPending) (\<lambda>_.
     if now E < sp_expiry swap then Inl (Contract PendingNotExpired) else
     let s = save_swap swap_id (swap\<lparr>sp_status := Cancelled\<rparr>) s;
         s = unlock_ip (sp_ip_id swap) s;
         s = append_history E swap_id Cancelled s
     in Inr (emit ''s_cancel'' (SwapCancelledEvent swap_id caller) s)))))"

section \<open>Queries\<close>

definition get_swap :: "swaps \<Rightarrow> nat \<Rightarrow> SwapRecord option" where
  "get_swap s swap_id = sw_Swap s swap_id"

definition get_cancellation_reason :: "swaps \<Rightarrow> nat \<Rightarrow> bytes option" where
  "get_cancellation_reason s swap_id = sw_CancelReason s swap_id"

definition swap_count :: "swaps \<Rightarrow> nat" where
  "swap_count s = unwrap_or 0 (sw_NextId s)"

definition get_swap_history :: "swaps \<Rightarrow> nat \<Rightarrow> SwapHistoryEntry list" where
  "get_swap_history s swap_id = unwrap_or [] (sw_SwapHistory s swap_id)"

definition get_swaps_by_seller :: "swaps \<Rightarrow> address \<Rightarrow> nat list option" where
  "get_swaps_by_seller s seller = sw_SellerSwaps s seller"

definition get_swaps_by_buyer :: "swaps \<Rightarrow> address \<Rightarrow> nat list option" where
  "get_swaps_by_buyer s buyer = sw_BuyerSwaps s buyer"

definition get_swaps_by_ip :: "swaps \<Rightarrow> nat \<Rightarrow> nat list option" where
  "get_swaps_by_ip s ip_id = sw_IpSwaps s ip_id"

definition get_user_reputation :: "swaps \<Rightarrow> address \<Rightarrow> nat" where
  "get_user_reputation s a = unwrap_or 50 (sw_UserReputation s a)"

definition get_swap_collateral :: "swaps \<Rightarrow> nat \<Rightarrow> int" where
  "get_swap_collateral s swap_id = unwrap_or 0 (sw_SwapCollateral s swap_id)"

end
