(* ===== verification/Swap_Dispute.thy ===== *)
theory Swap_Dispute
  imports Swap_Core
begin

text \<open>
  Disputes and arbitration of accepted swaps, the rollbacks of the admin and of the buyer, and the
  reveal that refunds the buyer when the key is wrong.
\<close>

definition byte_string :: "string \<Rightarrow> bytes" where
  "byte_string cs = map of_char cs"

section \<open>Disputes\<close>

definition raise_dispute :: "env \<Rightarrow> nat \<Rightarrow> swaps \<Rightarrow> swaps sout" where
  "raise_dispute E swap_id s =
     bindE (require_swap_exists s swap_id) (\<lambda>swap.
     bindE (require_auth E (sp_buyer swap)) (\<lambda>_.
     bindE (require_swap_status swap Accepted NotAccepted) (\<lambda>_.
     let elapsed = now E - sp_accept_timestamp swap in
     if elapsed \<ge> pc_dispute_window_seconds protocol_config then Inl (Contract DisputeExpired) else
     let s = save_swap swap_id (swap\<lparr>sp_status := Disputed, sp_dispute_timestamp := now E\<rparr>) s
     in Inr (emit ''disputed'' (DisputeRaisedEvent swap_id) s))))"

definition resolve_swap_dispute :: "env \<Rightarrow> nat \<Rightarrow> address \<Rightarrow> bool \<Rightarrow> swaps \<Rightarrow> swaps sout" where
  "resolve_swap_dispute E swap_id caller refunded s =
     bindE (require_auth E caller) (\<lambda>_.
     bindE (require_swap_admin caller s) (\<lambda>_.
     bindE (require_swap_exists s swap_id) (\<lambda>swap.
     bindE (require_swap_status swap Disputed NotDisputed) (\<lambda>_.
     let tok = sp_token swap in
     bindE (if refunded
       then
         let s = save_swap swap_id (swap\<lparr>sp_status := Cancelled\<rparr>) s;
             s = unlock_ip (sp_ip_id swap) s
         in bindE (transfer E tok (this_addr E) (sp_buyer swap) (sp_price swap) s) (\<lambda>s.
            Inr (set_cancel_reason swap_id (byte_string ''dispute_refund'') s))
       else
         let s = save_swap swap_id (swap\<lparr>sp_status := Completed\<rparr>) s;
             s = unlock_ip (sp_ip_id swap) s
         in bindE (if pc_protocol_fee_bps protocol_config > 0
                then bindE (i128 (sp_price swap * int (pc_protocol_fee_bps protocol_config)))
                       (\<lambda>x. Inr (tdiv x 10000))
                else Inr 0) (\<lambda>fee_amount.
            bindE (i128 (sp_price swap - fee_amount)) (\<lambda>seller_amount.
            bindE (if fee_amount > 0
                then transfer E tok (this_addr E) (pc_treasury protocol_config) fee_amount s
                else Inr s) (\<lambda>s.
            transfer E tok (this_addr E) (sp_seller swap) seller_amount s)))) (\<lambda>s.
     Inr (emit ''disp_res'' (DisputeResolvedEvent swap_id refunded) s))))))"

definition auto_resolve_dispute :: "env \<Rightarrow> nat \<Rightarrow> swaps \<Rightarrow> swaps sout" where
  "auto_resolve_dispute E swap_id s =
     bindE (require_swap_exists s swap_id) (\<lambda>swap.
     bindE (require_swap_status swap Disputed NotDisputed) (\<lambda>_.
     let elapsed = now E - sp_dispute_timestamp swap in
     if elapsed < pc_dispute_timeout_secs protocol_config then Inl (Contract NotExpired) else
     let s = save_swap swap_id (swap\<lparr>sp_status := Cancelled\<rparr>) s;
         s = unlock_ip (sp_ip_id swap) s
     in bindE (transfer E (sp_token swap) (this_addr E) (sp_buyer swap) (sp_price swap) s) (\<lambda>s.
        let s = set_cancel_reason swap_id (byte_string ''dispute_timeout'') s
        in Inr (emit ''disp_res'' (DisputeResolvedEvent swap_id True) s))))"

section \<open>Arbitration\<close>

definition request_arbitration :: "env \<Rightarrow> nat \<Rightarrow> address \<Rightarrow> bytes \<Rightarrow> swaps \<Rightarrow> swaps sout" where
  "request_arbitration E swap_id requester evidence_hash s =
     bindE (require_swap_exists s swap_id) (\<lambda>swap.
     bindE (require_auth E requester) (\<lambda>_.
     if requester \<noteq> sp_buyer swap \<and> requester \<noteq> sp_seller swap
     then Inl (Contract Sw_Unauthorized) else
     bindE (require_swap_status swap Disputed NotDisputed) (\<lambda>_.
     let s = (if sw_ArbitrationTimestamp s swap_id = None
           then extend_key (Sk_ArbitrationTimestamp swap_id) LEDGER_BUMP
             (s\<lparr>sw_ArbitrationTimestamp := (sw_ArbitrationTimestamp s)(swap_id \<mapsto> now E)\<rparr>)
           else s)
     in Inr (emit ''arb_req'' (ArbitrationRequestedEvent swap_id requester evidence_hash) s))))"

definition auto_refund_timeout :: "env \<Rightarrow> nat \<Rightarrow> swaps \<Rightarrow> swaps sout" where
  "auto_refund_timeout E swap_id s =
     bindE (require_swap_exists s swap_id) (\<lambda>swap.
     bindE (require_swap_status swap Disputed NotDisputed) (\<lambda>_.
     bindE (ok_or (Contract NotDisputed) (sw_ArbitrationTimestamp s swap_id)) (\<lambda>arb_ts.
     let elapsed = now E - arb_ts in
     if elapsed < pc_arbitration_timeout_seconds protocol_config
     then Inl (Contract ArbitrationNotTimedOut) else
     let s = save_swap swap_id (swap\<lparr>sp_status := Cancelled\<rparr>) s;
         s = unlock_ip (sp_ip_id swap) s;
         s = s\<lparr>sw_ArbitrationTimestamp := (sw_ArbitrationTimestamp s)(swap_id := None)\<rparr>
     in bindE (transfer E (sp_token swap) (this_addr E) (sp_buyer swap) (sp_price swap) s) (\<lambda>s.
        let s = set_cancel_reason swap_id (byte_string ''arbitration_timeout'') s;
            s = append_history E swap_id Cancelled s
        in Inr (emit ''arb_tout'' (DisputeResolvedEvent swap_id True) s)))))"

text \<open>
  \<open>arbitrate_swap\<close> as it is: the check against a stored arbitrator is commented out in the source, and
  the status of the swap is not looked at.
\<close>

definition arbitrate_swap :: "env \<Rightarrow> nat \<Rightarrow> address \<Rightarrow> bool \<Rightarrow> swaps \<Rightarrow> swaps sout" where
  "arbitrate_swap E swap_id arbitrator refund s =
     bindE (require_swap_exists s swap_id) (\<lambda>swap.
     bindE (require_auth E arbitrator) (\<lambda>_.
     let tok = sp_token swap in
     bindE (if refund
       then
         bindE (transfer E tok (this_addr E) (sp_buyer swap) (sp_price swap) s) (\<lambda>s.
         bindE (release_collateral E (sp_buyer swap) None swap_id swap s) (\<lambda>s.
         Inr (swap\<lparr>sp_status := Cancelled\<rparr>, s)))
       else
         bindE (release_collateral E (sp_seller swap) (Some ''coll_rel'') swap_id swap s) (\<lambda>s.
         bindE (bps_of (sp_price swap) (pc_protocol_fee_bps protocol_config)) (\<lambda>fee_amount.
         bindE (i128 (sp_price swap - fee_amount)) (\<lambda>seller_amount.
         bindE (transfer E tok (this_addr E) (sp_seller swap) seller_amount s) (\<lambda>s.
         bindE (if fee_amount > 0
            then transfer E tok (this_addr E) (pc_treasury protocol_config) fee_amount s
            else Inr s) (\<lambda>s.
         Inr (swap\<lparr>sp_status := Completed\<rparr>, s))))))) (\<lambda>(swap, s).
     let s = save_swap swap_id swap s;
         s = unlock_ip (sp_ip_id swap) s
     in Inr (emit ''arb_dec'' (ArbitratedEvent swap_id arbitrator refund) s))))"

text \<open>One iteration of \<open>batch_arbitrate_swaps\<close>.\<close>

definition batch_arbitrate_step :: "env \<Rightarrow> address \<Rightarrow> bool \<Rightarrow> nat \<Rightarrow> swaps \<Rightarrow> swaps sout" where
  "batch_arbitrate_step E arbitrator refund swap_id s =
     bindE (require_swap_exists s swap_id) (\<lambda>swap.
     bindE (require_swap_status swap Disputed NotDisputed) (\<lambda>_.
     let tok = sp_token swap in
     bindE (if refund
       then
         bindE (transfer E tok (this_addr E) (sp_buyer swap) (sp_price swap) s) (\<lambda>s.
         bindE (release_collateral E (sp_buyer swap) None swap_id swap s) (\<lambda>s.
         Inr (swap\<lparr>sp_status := Cancelled\<rparr>, s)))
       else
         bindE (bps_of (sp_price swap) (pc_protocol_fee_bps protocol_config)) (\<lambda>fee_amount.
         bindE (i128 (sp_price swap - fee_amount)) (\<lambda>seller_amount.
         bindE (transfer E tok (this_addr E) (sp_seller swap) seller_amount s) (\<lambda>s.
         bindE (if fee_amount > 0
            then transfer E tok (this_addr E) (pc_treasury protocol_config) fee_amount s
            else Inr s) (\<lambda>s.
         bindE (release_collateral E (sp_seller swap) None swap_id swap s) (\<lambda>s.
         Inr (swap\<lparr>sp_status := Completed\<rparr>, s))))))) (\<lambda>(swap, s).
     let s = save_swap swap_id swap s;
         s = unlock_ip (sp_ip_id swap) s;
         s = append_history E swap_id (sp_status swap) s
     in Inr (emit ''arb_dec'' (ArbitratedEvent swap_id arbitrator refund) s))))"

definition batch_arbitrate_swaps :: "env \<Rightarrow> nat list \<Rightarrow> address \<Rightarrow> bool \<Rightarrow> swaps \<Rightarrow> swaps sout" where
  "batch_arbitrate_swaps E swap_ids arbitrator refund s =
     bindE (require_auth E arbitrator) (\<lambda>_.
     foldE (batch_arbitrate_step E arbitrator refund) swap_ids s)"

section \<open>Rollbacks\<close>

text \<open>
  The refund both rollbacks give for a swap that is paid for: price, stored collateral, premium. The
  amount returned is the sum the single rollback reports in its event.
\<close>

definition rollback_refund :: "env \<Rightarrow> nat \<Rightarrow> SwapRecord \<Rightarrow> swaps \<Rightarrow> (int \<times> swaps) sout" where
  "rollback_refund E swap_id swap s =
     (let tok = sp_token swap; buyer = sp_buyer swap in
      if sp_status swap = Accepted \<or> sp_status swap = Disputed
      then
        bindE (transfer E tok (this_addr E) buyer (sp_price swap) s) (\<lambda>s.
        bindE (case sw_SwapCollateral s swap_id of
            None \<Rightarrow> Inr (sp_price swap, s)
          | Some collateral \<Rightarrow>
              bindE (i128 (sp_price swap + collateral)) (\<lambda>total.
              bindE (transfer E tok (this_addr E) buyer collateral s) (\<lambda>s.
              Inr (total,
                s\<lparr>sw_SwapCollateral := (sw_SwapCollateral s)(swap_id := None)\<rparr>)))) (\<lambda>(total, s).
        if sp_insurance_premium swap > 0
        then bindE (i128 (total + sp_insurance_premium swap)) (\<lambda>total.
          bindE (transfer E tok (this_addr E) buyer (sp_insurance_premium swap) s) (\<lambda>s.
          Inr (total, s)))
        else Inr (total, s)))
      else Inr (0, s))"

definition admin_rollback_swap :: "env \<Rightarrow> nat \<Rightarrow> address \<Rightarrow> bytes \<Rightarrow> swaps \<Rightarrow> swaps sout" where
  "admin_rollback_swap E swap_id caller reason s =
     bindE (require_auth E caller) (\<lambda>_.
     bindE (require_swap_admin caller s) (\<lambda>_.
     bindE (require_swap_exists s swap_id) (\<lambda>swap.
     if sp_status swap = Completed then Inl (Contract NotInAccepted) else
     bindE (rollback_refund E swap_id swap s) (\<lambda>(buyer_refund, s).
     let s = save_swap swap_id (swap\<lparr>sp_status := Cancelled\<rparr>) s;
         s = unlock_ip (sp_ip_id swap) s;
         s = extend_key (Sk_CancelReason swap_id) LEDGER_BUMP (set_cancel_reason swap_id reason s);
         s = append_history E swap_id Cancelled s
     in Inr (emit ''adm_rlbk''
          (AdminRollbackEvent swap_id reason buyer_refund 0 (now E)) s)))))"

text \<open>
  The batch uses the same refund without its sum; the sum cannot overflow where the transfers of the
  batch succeed in a token whose balances are \<open>i128\<close>, but the code does not compute it, so neither does
  the model.
\<close>

definition batch_rollback_step :: "env \<Rightarrow> bytes \<Rightarrow> nat \<Rightarrow> swaps \<Rightarrow> swaps sout" where
  "batch_rollback_step E reason swap_id s =
     bindE (require_swap_exists s swap_id) (\<lambda>swap.
     let tok = sp_token swap; buyer = sp_buyer swap in
     bindE (if sp_status swap = Accepted \<or> sp_status swap = Disputed
       then
         bindE (transfer E tok (this_addr E) buyer (sp_price swap) s) (\<lambda>s.
         bindE (case sw_SwapCollateral s swap_id of
             None \<Rightarrow> Inr s
           | Some collateral \<Rightarrow>
               bindE (transfer E tok (this_addr E) buyer collateral s) (\<lambda>s.
               Inr (s\<lparr>sw_SwapCollateral := (sw_SwapCollateral s)(swap_id := None)\<rparr>))) (\<lambda>s.
         if sp_insurance_premium swap > 0
         then transfer E tok (this_addr E) buyer (sp_insurance_premium swap) s
         else Inr s))
       else Inr s) (\<lambda>s.
     let s = save_swap swap_id (swap\<lparr>sp_status := Cancelled\<rparr>) s;
         s = unlock_ip (sp_ip_id swap) s;
         s = extend_key (Sk_CancelReason swap_id) LEDGER_BUMP (set_cancel_reason swap_id reason s)
     in Inr (append_history E swap_id Cancelled s)))"

definition batch_rollback_swaps :: "env \<Rightarrow> nat list \<Rightarrow> address \<Rightarrow> bytes \<Rightarrow> swaps \<Rightarrow> swaps sout" where
  "batch_rollback_swaps E swap_ids caller reason s =
     bindE (require_auth E caller) (\<lambda>_.
     bindE (require_swap_admin caller s) (\<lambda>_.
     if length swap_ids = 0 then Inl (Contract BatchEmpty) else
     if length swap_ids > MAX_BATCH_SIZE then Inl (Contract BatchTooLarge) else
     bindE (checkE (\<lambda>swap_id.
         bindE (require_swap_exists s swap_id) (\<lambda>swap.
         if sp_status swap = Completed then Inl (Contract NotInAccepted) else Inr ())) swap_ids) (\<lambda>_.
     bindE (foldE (batch_rollback_step E reason) swap_ids s) (\<lambda>s.
     Inr (emit ''btch_rlb'' (BatchRollbackEvent swap_ids caller (length swap_ids)) s)))))"

definition validate_and_rollback_swap ::
    "env \<Rightarrow> nat \<Rightarrow> bool \<Rightarrow> swaps \<Rightarrow> (bool \<times> swaps) sout" where
  "validate_and_rollback_swap E swap_id is_key_valid s =
     bindE (require_swap_exists s swap_id) (\<lambda>swap.
     bindE (require_auth E (sp_buyer swap)) (\<lambda>_.
     bindE (require_swap_status swap Completed NotInAccepted) (\<lambda>_.
     let completion_ts = unwrap_or 0 (sw_CompletionTimestamp s swap_id);
         elapsed = now E - completion_ts
     in if elapsed > 86400 then Inl (Contract RollbackWindowExpired) else
     if is_key_valid then Inr (False, s) else
     bindE (i128 (sp_price swap * 90)) (\<lambda>x.
     let buyer_refund = tdiv x 100; tok = sp_token swap in
     bindE (i128 (sp_price swap - buyer_refund)) (\<lambda>treasury_penalty.
     bindE (transfer E tok (this_addr E) (sp_buyer swap) buyer_refund s) (\<lambda>s.
     bindE (if treasury_penalty > 0
            then transfer E tok (this_addr E) (pc_treasury protocol_config) treasury_penalty s
            else Inr s) (\<lambda>s.
     let s = save_swap swap_id (swap\<lparr>sp_status := RolledBack\<rparr>) s;
         s = s\<lparr>sw_CompletionTimestamp := (sw_CompletionTimestamp s)(swap_id := None)\<rparr>;
         s = append_history E swap_id RolledBack s
     in Inr (True, emit ''rollback''
          (SwapRolledBackEvent swap_id buyer_refund treasury_penalty) s))))))))"

section \<open>Reveal with refund\<close>

definition verify_and_complete_swap ::
    "env \<Rightarrow> registry \<Rightarrow> nat \<Rightarrow> address \<Rightarrow> bytes \<Rightarrow> bytes \<Rightarrow> swaps \<Rightarrow> swaps sout" where
  "verify_and_complete_swap E R swap_id caller secret blinding_factor s =
     bindE (require_swap_exists s swap_id) (\<lambda>swap.
     bindE (require_seller caller swap) (\<lambda>_.
     bindE (require_auth E caller) (\<lambda>_.
     bindE (require_swap_status swap Accepted NotAccepted) (\<lambda>_.
     bindE (verify_swap_commitment E R (sp_ip_id swap) secret blinding_factor s) (\<lambda>valid.
     let tok = sp_token swap in
     if \<not> valid then
       bindE (transfer E tok (this_addr E) (sp_buyer swap) (sp_price swap) s) (\<lambda>s.
       bindE (release_collateral E (sp_buyer swap) None swap_id swap s) (\<lambda>s.
       let s = save_swap swap_id (swap\<lparr>sp_status := Cancelled\<rparr>) s;
           s = unlock_ip (sp_ip_id swap) s
       in Inr (emit ''atom_ref''
            (AtomicRefundEvent swap_id (sp_buyer swap) (sp_price swap) ''Invalid decryption key'') s)))
     else
       let s = save_swap swap_id (swap\<lparr>sp_status := Completed\<rparr>) s;
           s = unlock_ip (sp_ip_id swap) s
       in bindE (bps_of (sp_price swap) (pc_protocol_fee_bps protocol_config)) (\<lambda>fee_amount.
       bindE (i128 (sp_price swap - fee_amount)) (\<lambda>seller_amount.
       bindE (transfer E tok (this_addr E) (sp_seller swap) seller_amount s) (\<lambda>s.
       bindE (if fee_amount > 0
              then transfer E tok (this_addr E) (pc_treasury protocol_config) fee_amount s
              else Inr s) (\<lambda>s.
       bindE (release_collateral E (sp_seller swap) (Some ''coll_rel'') swap_id swap s) (\<lambda>s.
       Inr (emit ''key_rev'' (KeyRevealedEvent swap_id seller_amount fee_amount) s)))))))))))"

end
