(* ===== verification/Swap_Batch.thy ===== *)
theory Swap_Batch
  imports Swap_Dispute
begin

text \<open>
  The batch operations: initiation with and without insurance, acceptance, reveal and cancellation.
  A batch is a checking loop followed by a loop that threads the storage; a failure anywhere fails the
  call.
\<close>

section \<open>Batch initiation\<close>

text \<open>The execution loop's body; the pair carries the ids assigned so far.\<close>

definition batch_initiate_step ::
    "env \<Rightarrow> address \<Rightarrow> address \<Rightarrow> address \<Rightarrow> nat \<Rightarrow> address option \<Rightarrow> nat \<times> int \<Rightarrow>
     nat list \<times> swaps \<Rightarrow> (nat list \<times> swaps) sout" where
  "batch_initiate_step E token seller buyer required_approvals referrer = (\<lambda>(ip_id, price) (ids, s).
     let id = next_swap_id s in
     bindE (u64 (now E + 604800)) (\<lambda>expiry.
     let swap = (pending_swap ip_id seller buyer price token expiry)
           \<lparr>sp_required_approvals := required_approvals, sp_referrer := referrer\<rparr>;
         s = save_swap id swap s;
         s = lock_ip ip_id id s;
         s = append_swap_for_party seller buyer id s;
         s = append_ip_swap ip_id id 50000 s;
         s = append_history E id Pending s
     in bindE (u64 (id + 1)) (\<lambda>next.
     let s = s\<lparr>sw_NextId := Some next\<rparr>
     in Inr (ids @ [id], emit ''swap_init''
          (SwapInitiatedEvent id ip_id seller buyer price) s))))"

text \<open>The checking loop looks at each id together with the ids that follow it.\<close>

fun check_batch_items :: "registry \<Rightarrow> address \<Rightarrow> swaps \<Rightarrow> (nat \<times> int) list \<Rightarrow> unit sout" where
  "check_batch_items R seller s [] = Inr ()"
| "check_batch_items R seller s ((ip_id, price) # items) =
     bindE (require_positive_price price) (\<lambda>_.
     bindE (ensure_seller_owns_active_ip R ip_id seller s) (\<lambda>_.
     bindE (require_no_active_swap ip_id s) (\<lambda>_.
     if ip_id \<in> fst ` set items then Inl (Contract SwapExists)
     else check_batch_items R seller s items)))"

definition batch_initiate_swap ::
    "env \<Rightarrow> registry \<Rightarrow> address \<Rightarrow> nat list \<Rightarrow> address \<Rightarrow> int list \<Rightarrow> address \<Rightarrow> nat \<Rightarrow> address option \<Rightarrow>
     swaps \<Rightarrow> (nat list \<times> swaps) sout" where
  "batch_initiate_swap E R token ip_ids seller prices buyer required_approvals referrer s =
     bindE (require_not_paused s) (\<lambda>_.
     bindE (require_auth E seller) (\<lambda>_.
     if length ip_ids = 0 then Inl (Contract BatchEmpty) else
     if length prices \<noteq> length ip_ids then Inl (Contract BatchSizeMismatch) else
     if length ip_ids > MAX_BATCH_SIZE then Inl (Contract BatchTooLarge) else
     bindE (check_batch_items R seller s (zip ip_ids prices)) (\<lambda>_.
     bindE (foldE (batch_initiate_step E token seller buyer required_approvals referrer)
         (zip ip_ids prices) ([], s)) (\<lambda>(swap_ids, s).
     Inr (swap_ids, emit ''btch_ini''
       (BatchInitiatedEvent swap_ids seller buyer (length ip_ids)) s)))))"

text \<open>
  With insurance there is no checking loop: each item is checked when its turn comes, and a list of
  prices that is too short traps.
\<close>

definition batch_insured_step ::
    "env \<Rightarrow> registry \<Rightarrow> address \<Rightarrow> nat list \<Rightarrow> address \<Rightarrow> int list \<Rightarrow> address \<Rightarrow> nat \<Rightarrow> address option \<Rightarrow>
     bool \<Rightarrow> nat \<Rightarrow> nat list \<times> swaps \<Rightarrow> (nat list \<times> swaps) sout" where
  "batch_insured_step E R token ip_ids seller prices buyer required_approvals referrer
       insurance_enabled i = (\<lambda>(ids, s).
     bindE (vec_get ip_ids i) (\<lambda>ip_id.
     bindE (vec_get prices i) (\<lambda>price.
     bindE (require_positive_price price) (\<lambda>_.
     bindE (ensure_seller_owns_active_ip R ip_id seller s) (\<lambda>_.
     bindE (require_no_active_swap ip_id s) (\<lambda>_.
     let id = next_swap_id s in
     bindE (if insurance_enabled
            then bindE (i128 (price * 2)) (\<lambda>x. Inr (tdiv x 100)) else Inr 0) (\<lambda>premium.
     bindE (u64 (now E + 604800)) (\<lambda>expiry.
     let swap = (pending_swap ip_id seller buyer price token expiry)
           \<lparr>sp_required_approvals := required_approvals, sp_referrer := referrer,
            sp_insurance_premium := premium, sp_insurance_enabled := insurance_enabled\<rparr>;
         s = (if insurance_enabled
           then extend_key (Sk_SwapInsurance id) LEDGER_BUMP
             (s\<lparr>sw_SwapInsurance := (sw_SwapInsurance s)(id \<mapsto> premium)\<rparr>)
           else s);
         s = save_swap id swap s;
         s = lock_ip ip_id id s;
         s = append_swap_for_party seller buyer id s;
         s = append_ip_swap ip_id id 50000 s;
         s = append_history E id Pending s
     in bindE (u64 (id + 1)) (\<lambda>next.
     let s = s\<lparr>sw_NextId := Some next\<rparr>
     in Inr (ids @ [id], emit ''swap_init''
          (SwapInitiatedEvent id ip_id seller buyer price) s))))))))))"

definition batch_initiate_swap_with_insurance ::
    "env \<Rightarrow> registry \<Rightarrow> address \<Rightarrow> nat list \<Rightarrow> address \<Rightarrow> int list \<Rightarrow> address \<Rightarrow> nat \<Rightarrow> address option \<Rightarrow>
     bool \<Rightarrow> swaps \<Rightarrow> (nat list \<times> swaps) sout" where
  "batch_initiate_swap_with_insurance E R token ip_ids seller prices buyer required_approvals
       referrer insurance_enabled s =
     bindE (require_not_paused s) (\<lambda>_.
     bindE (require_auth E seller) (\<lambda>_.
     foldE (batch_insured_step E R token ip_ids seller prices buyer required_approvals referrer
         insurance_enabled) [0..<length ip_ids] ([], s)))"

section \<open>Batch acceptance\<close>

definition check_accept_item :: "address \<Rightarrow> swaps \<Rightarrow> nat \<Rightarrow> unit sout" where
  "check_accept_item buyer s swap_id =
     bindE (require_swap_exists s swap_id) (\<lambda>swap.
     if sp_buyer swap \<noteq> buyer then Inl (Contract Sw_Unauthorized) else
     bindE (require_swap_status swap Pending NotPending) (\<lambda>_.
     require_approvals swap_id swap s))"

definition batch_accept_step :: "env \<Rightarrow> nat \<Rightarrow> swaps \<Rightarrow> swaps sout" where
  "batch_accept_step E swap_id s =
     bindE (require_swap_exists s swap_id) (\<lambda>swap.
     bindE (if sp_collateral_amount swap > 0 \<and> sw_SwapCollateral s swap_id = None
            then bindE (transfer E (sp_token swap) (sp_buyer swap) (this_addr E)
                   (sp_collateral_amount swap) s) (\<lambda>s.
              Inr (extend_key (Sk_SwapCollateral swap_id) LEDGER_BUMP
                (s\<lparr>sw_SwapCollateral :=
                     (sw_SwapCollateral s)(swap_id \<mapsto> sp_collateral_amount swap)\<rparr>)))
            else Inr s) (\<lambda>s.
     bindE (transfer E (sp_token swap) (sp_buyer swap) (this_addr E) (sp_price swap) s) (\<lambda>s.
     bindE (collect_premium E swap s) (\<lambda>s.
     let swap = swap\<lparr>sp_accept_timestamp := now E, sp_status := Accepted\<rparr>;
         s = save_swap swap_id swap s
     in Inr (append_history E swap_id Accepted s)))))"

definition batch_accept_swaps :: "env \<Rightarrow> nat list \<Rightarrow> address \<Rightarrow> swaps \<Rightarrow> swaps sout" where
  "batch_accept_swaps E swap_ids buyer s =
     bindE (require_not_paused s) (\<lambda>_.
     bindE (require_auth E buyer) (\<lambda>_.
     if swap_ids = [] then Inl (Contract BatchEmpty) else
     if length swap_ids > MAX_BATCH_SIZE then Inl (Contract BatchTooLarge) else
     bindE (checkE (check_accept_item buyer s) swap_ids) (\<lambda>_.
     bindE (foldE (batch_accept_step E) swap_ids s) (\<lambda>s.
     Inr (emit ''btch_acp'' (BatchAcceptedEvent swap_ids buyer) s)))))"

section \<open>Batch reveal\<close>

definition check_reveal_item ::
    "env \<Rightarrow> registry \<Rightarrow> address \<Rightarrow> swaps \<Rightarrow> nat \<times> bytes \<times> bytes \<Rightarrow> unit sout" where
  "check_reveal_item E R seller s = (\<lambda>(swap_id, secret, blinding_factor).
     bindE (require_swap_exists s swap_id) (\<lambda>swap.
     bindE (require_seller seller swap) (\<lambda>_.
     bindE (require_swap_status swap Accepted NotAccepted) (\<lambda>_.
     bindE (verify_swap_commitment E R (sp_ip_id swap) secret blinding_factor s) (\<lambda>valid.
     if \<not> valid then Inl (Contract InvalidKey) else Inr ())))))"

text \<open>
  The body of the paying loop; the list carries the fee breakdown. Nothing of the checks is repeated
  here.
\<close>

definition batch_reveal_step ::
    "env \<Rightarrow> nat \<Rightarrow> SwapFeeBreakdown list \<times> swaps \<Rightarrow> (SwapFeeBreakdown list \<times> swaps) sout" where
  "batch_reveal_step E swap_id = (\<lambda>(fees, s).
     bindE (require_swap_exists s swap_id) (\<lambda>swap.
     let swap = swap\<lparr>sp_status := Completed\<rparr>;
         s = save_swap swap_id swap s;
         s = unlock_ip (sp_ip_id swap) s;
         s = append_history E swap_id Completed s;
         tok = sp_token swap
     in bindE (bps_of (sp_price swap) (pc_protocol_fee_bps protocol_config)) (\<lambda>fee_amount.
     bindE (referral_of swap) (\<lambda>referral_amount.
     bindE (i128 (sp_price swap - fee_amount)) (\<lambda>x.
     bindE (i128 (x - referral_amount)) (\<lambda>seller_amount.
     bindE (transfer E tok (this_addr E) (sp_seller swap) seller_amount s) (\<lambda>s.
     bindE (if fee_amount > 0
            then transfer E tok (this_addr E) (pc_treasury protocol_config) fee_amount s
            else Inr s) (\<lambda>s.
     bindE (pay_referral E swap_id swap referral_amount s) (\<lambda>s.
     bindE (release_collateral E (sp_seller swap) (Some ''coll_rel'') swap_id swap s) (\<lambda>s.
     let s = update_user_reputation (sp_seller swap) 5 s;
         s = update_user_reputation (sp_buyer swap) 5 s
     in Inr (fees @ [\<lparr>fb_swap_id = swap_id, fb_price = sp_price swap, fb_protocol_fee = fee_amount,
          fb_referral_fee = referral_amount, fb_seller_amount = seller_amount\<rparr>], s)))))))))))"

definition batch_reveal_keys ::
    "env \<Rightarrow> registry \<Rightarrow> nat list \<Rightarrow> bytes list \<Rightarrow> bytes list \<Rightarrow> address \<Rightarrow> swaps \<Rightarrow> swaps sout" where
  "batch_reveal_keys E R swap_ids secrets blinding_factors seller s =
     bindE (require_auth E seller) (\<lambda>_.
     if swap_ids = [] then Inl (Contract BatchEmpty) else
     if length secrets \<noteq> length swap_ids \<or> length blinding_factors \<noteq> length swap_ids
     then Inl (Contract BatchSizeMismatch) else
     if length swap_ids > MAX_BATCH_SIZE then Inl (Contract BatchTooLarge) else
     bindE (checkE (check_reveal_item E R seller s)
         (zip swap_ids (zip secrets blinding_factors))) (\<lambda>_.
     bindE (foldE (batch_reveal_step E) swap_ids ([], s)) (\<lambda>(fee_breakdowns, s).
     let s = emit ''btch_key'' (BatchKeysRevealedEvent swap_ids seller) s
     in Inr (emit ''btch_fee'' (BatchFeeBreakdownEvent swap_ids seller fee_breakdowns) s))))"

section \<open>Batch cancellation\<close>

definition batch_cancel_step ::
    "env \<Rightarrow> address \<Rightarrow> nat \<times> bytes \<Rightarrow> nat list \<times> swaps \<Rightarrow> (nat list \<times> swaps) sout" where
  "batch_cancel_step E canceller = (\<lambda>(swap_id, reason) (ids, s).
     bindE (require_swap_exists s swap_id) (\<lambda>swap.
     bindE (require_seller_or_buyer canceller swap) (\<lambda>_.
     bindE (require_swap_status swap Pending OnlyPending) (\<lambda>_.
     let s = save_swap swap_id (swap\<lparr>sp_status := Cancelled\<rparr>) s;
         s = unlock_ip (sp_ip_id swap) s;
         s = extend_key (Sk_CancelReason swap_id) LEDGER_BUMP (set_cancel_reason swap_id reason s);
         s = append_history E swap_id Cancelled s;
         s = update_user_reputation canceller (- 10) s
     in Inr (ids @ [swap_id], s)))))"

definition batch_cancel_swaps ::
    "env \<Rightarrow> nat list \<Rightarrow> address \<Rightarrow> bytes list \<Rightarrow> swaps \<Rightarrow> (nat list \<times> swaps) sout" where
  "batch_cancel_swaps E swap_ids canceller reasons s =
     bindE (require_auth E canceller) (\<lambda>_.
     if length reasons \<noteq> length swap_ids then Inl (Contract InvalidKey) else
     bindE (foldE (batch_cancel_step E canceller) (zip swap_ids reasons) ([], s))
       (\<lambda>(cancelled_ids, s).
     Inr (cancelled_ids, emit ''btch_ccl''
       (BatchCancelledEvent cancelled_ids canceller reasons) s)))"

end
