(* ===== verification/Swap_Payments.thy ===== *)
theory Swap_Payments
  imports Swap_Batch
begin

text \<open>
  The other ways to pay for a swap or to sell one: payment schedules, installments, escrow deposits,
  swaps whose reveal several signers release, and auctions.
\<close>

section \<open>Scheduled payments\<close>

definition initiate_swap_with_schedule ::
    "env \<Rightarrow> registry \<Rightarrow> address \<Rightarrow> nat \<Rightarrow> address \<Rightarrow> PaymentSchedule list \<Rightarrow> address \<Rightarrow> swaps \<Rightarrow>
     (nat \<times> swaps) sout" where
  "initiate_swap_with_schedule E R token ip_id seller schedule buyer s =
     bindE (require_not_paused s) (\<lambda>_.
     bindE (require_auth E seller) (\<lambda>_.
     if schedule = [] then Inl (Contract PriceTooSmall) else
     let total_price = foldl (\<lambda>total payment. sat_i128 (total + ps_amount payment)) 0 schedule in
     bindE (require_positive_price total_price) (\<lambda>_.
     bindE (ensure_seller_owns_active_ip R ip_id seller s) (\<lambda>_.
     bindE (require_no_active_swap ip_id s) (\<lambda>_.
     let id = next_swap_id s in
     bindE (u64 (now E + 604800)) (\<lambda>expiry.
     let swap = (pending_swap ip_id seller buyer total_price token expiry)
           \<lparr>sp_is_installment := True\<rparr>;
         s = save_swap id swap s;
         s = lock_ip ip_id id s;
         s = extend_key (Sk_PaymentSchedule id) LEDGER_BUMP
           (s\<lparr>sw_PaymentSchedule := (sw_PaymentSchedule s)(id \<mapsto> schedule)\<rparr>);
         s = extend_key (Sk_PaymentsMade id) LEDGER_BUMP
           (s\<lparr>sw_PaymentsMade := (sw_PaymentsMade s)(id \<mapsto> replicate (length schedule) False)\<rparr>);
         s = append_swap_for_party seller buyer id s;
         s = append_ip_swap ip_id id LEDGER_BUMP s;
         s = append_history E id Pending s
     in bindE (u64 (id + 1)) (\<lambda>next.
     let s = s\<lparr>sw_NextId := Some next\<rparr>
     in Inr (id, emit ''swap_init''
          (SwapInitiatedEvent id ip_id seller buyer total_price) s))))))))"

definition make_scheduled_payment :: "env \<Rightarrow> nat \<Rightarrow> nat \<Rightarrow> swaps \<Rightarrow> swaps sout" where
  "make_scheduled_payment E swap_id payment_index s =
     bindE (require_swap_exists s swap_id) (\<lambda>swap.
     bindE (require_auth E (sp_buyer swap)) (\<lambda>_.
     bindE (ok_or (Contract SwapNotFound) (sw_PaymentSchedule s swap_id)) (\<lambda>schedule.
     if payment_index \<ge> length schedule then Inl (Contract InvalidKey) else
     let payments_made = unwrap_or [] (sw_PaymentsMade s swap_id) in
     if payment_index < length payments_made \<and> payments_made ! payment_index
     then Inl (Contract AlreadyInit) else
     bindE (vec_get schedule payment_index) (\<lambda>payment.
     if now E < ps_due_timestamp payment then Inl (Contract NotExpired) else
     bindE (transfer E (sp_token swap) (sp_buyer swap) (this_addr E) (ps_amount payment) s) (\<lambda>s.
     bindE (vec_set payments_made payment_index True) (\<lambda>payments_made.
     let s = extend_key (Sk_PaymentsMade swap_id) LEDGER_BUMP
           (s\<lparr>sw_PaymentsMade := (sw_PaymentsMade s)(swap_id \<mapsto> payments_made)\<rparr>);
         all_paid = list_all (\<lambda>paid. paid) payments_made;
         s = (if all_paid
           then
             let s = save_swap swap_id
                   (swap\<lparr>sp_status := Accepted, sp_accept_timestamp := now E\<rparr>) s;
                 s = append_history E swap_id Accepted s
             in emit ''swap_acpt'' (SwapAcceptedEvent swap_id (sp_buyer swap)) s
           else s);
         remaining = length schedule - (payment_index + 1)
     in Inr (emit ''sched_pay''
          (ScheduledPaymentMadeEvent swap_id payment_index (ps_amount payment) remaining) s)))))))"

definition get_payment_schedule :: "swaps \<Rightarrow> nat \<Rightarrow> PaymentSchedule list" where
  "get_payment_schedule s swap_id = unwrap_or [] (sw_PaymentSchedule s swap_id)"

definition get_payments_made :: "swaps \<Rightarrow> nat \<Rightarrow> bool list" where
  "get_payments_made s swap_id = unwrap_or [] (sw_PaymentsMade s swap_id)"

section \<open>Installments\<close>

definition submit_installment_payment :: "env \<Rightarrow> nat \<Rightarrow> int \<Rightarrow> swaps \<Rightarrow> swaps sout" where
  "submit_installment_payment E swap_id payment_amount s =
     bindE (require_swap_exists s swap_id) (\<lambda>swap.
     bindE (require_auth E (sp_buyer swap)) (\<lambda>_.
     if \<not> sp_is_installment swap then Inl (Contract NotPending) else
     if sp_status swap \<noteq> Pending then Inl (Contract NotPending) else
     if payment_amount \<le> 0 then Inl (Contract PriceTooSmall) else
     let remaining = sat_i128 (sp_price swap - sp_paid_amount swap) in
     if payment_amount > remaining then Inl (Contract PriceTooSmall) else
     bindE (transfer E (sp_token swap) (sp_buyer swap) (this_addr E) payment_amount s) (\<lambda>s.
     let swap = swap\<lparr>sp_paid_amount := sat_i128 (sp_paid_amount swap + payment_amount)\<rparr>;
         (swap, s) = (if sp_paid_amount swap \<ge> sp_price swap
           then
             let swap = swap\<lparr>sp_status := Accepted, sp_accept_timestamp := now E\<rparr>;
                 s = append_history E swap_id Accepted s
             in (swap, emit ''swap_acpt'' (SwapAcceptedEvent swap_id (sp_buyer swap)) s)
           else (swap, s));
         s = save_swap swap_id swap s
     in Inr (emit ''inst_pay'' [U64 swap_id, I128 payment_amount, I128 (sp_paid_amount swap),
          I128 (sp_price swap)] s))))"

definition get_installment_status :: "swaps \<Rightarrow> nat \<Rightarrow> (int \<times> int \<times> int) sout" where
  "get_installment_status s swap_id =
     bindE (require_swap_exists s swap_id) (\<lambda>swap.
     let remaining = sat_i128 (sp_price swap - sp_paid_amount swap)
     in Inr (sp_paid_amount swap, sp_price swap, remaining))"

section \<open>Escrow\<close>

definition initiate_escrow_swap ::
    "env \<Rightarrow> registry \<Rightarrow> address \<Rightarrow> nat \<Rightarrow> address \<Rightarrow> int \<Rightarrow> address \<Rightarrow> nat \<Rightarrow> swaps \<Rightarrow>
     (nat \<times> swaps) sout" where
  "initiate_escrow_swap E R token ip_id seller price buyer timeout s =
     bindE (require_not_paused s) (\<lambda>_.
     bindE (require_auth E seller) (\<lambda>_.
     bindE (require_positive_price price) (\<lambda>_.
     bindE (ensure_seller_owns_active_ip R ip_id seller s) (\<lambda>_.
     bindE (require_no_active_swap ip_id s) (\<lambda>_.
     let id = next_swap_id s;
         swap = pending_swap ip_id seller buyer price token timeout;
         s = save_swap id swap s;
         s = lock_ip ip_id id s;
         s = extend_key (Sk_SwapMode id) LEDGER_BUMP
           (s\<lparr>sw_SwapMode := (sw_SwapMode s)(id \<mapsto> Escrow)\<rparr>);
         s = append_swap_for_party seller buyer id s;
         s = append_history E id Pending s
     in bindE (u64 (id + 1)) (\<lambda>next.
     let s = s\<lparr>sw_NextId := Some next\<rparr>
     in Inr (id, emit ''esc_ini''
          (SwapInitiatedEvent id ip_id seller buyer price) s)))))))"

definition batch_escrow_step ::
    "env \<Rightarrow> registry \<Rightarrow> address \<Rightarrow> nat list \<Rightarrow> address \<Rightarrow> int list \<Rightarrow> address \<Rightarrow> nat list \<Rightarrow> nat \<Rightarrow>
     nat list \<times> swaps \<Rightarrow> (nat list \<times> swaps) sout" where
  "batch_escrow_step E R token ip_ids seller prices buyer timeouts i = (\<lambda>(ids, s).
     bindE (vec_get ip_ids i) (\<lambda>ip_id.
     bindE (vec_get prices i) (\<lambda>price.
     bindE (vec_get timeouts i) (\<lambda>timeout.
     bindE (require_positive_price price) (\<lambda>_.
     bindE (ensure_seller_owns_active_ip R ip_id seller s) (\<lambda>_.
     bindE (require_no_active_swap ip_id s) (\<lambda>_.
     let id = next_swap_id s;
         swap = pending_swap ip_id seller buyer price token timeout;
         s = save_swap id swap s;
         s = lock_ip ip_id id s;
         s = extend_key (Sk_SwapMode id) LEDGER_BUMP
           (s\<lparr>sw_SwapMode := (sw_SwapMode s)(id \<mapsto> Escrow)\<rparr>);
         s = append_swap_for_party seller buyer id s;
         s = append_ip_swap ip_id id 50000 s;
         s = append_history E id Pending s
     in bindE (u64 (id + 1)) (\<lambda>next.
     let s = s\<lparr>sw_NextId := Some next\<rparr>
     in Inr (ids @ [id], emit ''esc_ini''
          (SwapInitiatedEvent id ip_id seller buyer price) s)))))))))"

definition batch_initiate_escrow ::
    "env \<Rightarrow> registry \<Rightarrow> address \<Rightarrow> nat list \<Rightarrow> address \<Rightarrow> int list \<Rightarrow> address \<Rightarrow> nat list \<Rightarrow> swaps \<Rightarrow>
     (nat list \<times> swaps) sout" where
  "batch_initiate_escrow E R token ip_ids seller prices buyer timeouts s =
     bindE (require_not_paused s) (\<lambda>_.
     bindE (require_auth E seller) (\<lambda>_.
     let len = length ip_ids in
     if len = 0 \<or> length prices \<noteq> len \<or> length timeouts \<noteq> len
     then Inl (Contract PriceTooSmall) else
     foldE (batch_escrow_step E R token ip_ids seller prices buyer timeouts) [0..<len] ([], s)))"

text \<open>The deposit, which the single and the batch function repeat line by line after their guards.\<close>

definition deposit_escrow :: "env \<Rightarrow> nat \<Rightarrow> SwapRecord \<Rightarrow> swaps \<Rightarrow> swaps sout" where
  "deposit_escrow E swap_id swap s =
     bindE (if unwrap_or Atomic (sw_SwapMode s swap_id) \<noteq> Escrow
            then Inl (Contract Sw_Unauthorized) else Inr ()) (\<lambda>_.
     bindE (require_swap_status swap Pending NotPending) (\<lambda>_.
     bindE (transfer E (sp_token swap) (sp_buyer swap) (this_addr E) (sp_price swap) s) (\<lambda>s.
     let s = extend_key (Sk_EscrowDeposit swap_id) LEDGER_BUMP
           (s\<lparr>sw_EscrowDeposit := (sw_EscrowDeposit s)(swap_id \<mapsto> sp_price swap)\<rparr>);
         swap = swap\<lparr>sp_accept_timestamp := now E, sp_status := Accepted\<rparr>;
         s = save_swap swap_id swap s;
         s = append_history E swap_id Accepted s
     in Inr (emit ''esc_dep'' (SwapAcceptedEvent swap_id (sp_buyer swap)) s))))"

definition batch_escrow_deposit :: "env \<Rightarrow> nat list \<Rightarrow> address \<Rightarrow> swaps \<Rightarrow> swaps sout" where
  "batch_escrow_deposit E swap_ids buyer s =
     bindE (require_auth E buyer) (\<lambda>_.
     foldE (\<lambda>swap_id s.
       bindE (require_swap_exists s swap_id) (\<lambda>swap.
       if sp_buyer swap \<noteq> buyer then Inl (Contract Sw_Unauthorized)
       else deposit_escrow E swap_id swap s)) swap_ids s)"

definition escrow_deposit :: "env \<Rightarrow> nat \<Rightarrow> swaps \<Rightarrow> swaps sout" where
  "escrow_deposit E swap_id s =
     bindE (require_swap_exists s swap_id) (\<lambda>swap.
     bindE (require_auth E (sp_buyer swap)) (\<lambda>_.
     deposit_escrow E swap_id swap s))"

definition escrow_withdraw :: "env \<Rightarrow> nat \<Rightarrow> swaps \<Rightarrow> swaps sout" where
  "escrow_withdraw E swap_id s =
     bindE (require_swap_exists s swap_id) (\<lambda>swap.
     bindE (require_auth E (sp_buyer swap)) (\<lambda>_.
     if unwrap_or Atomic (sw_SwapMode s swap_id) \<noteq> Escrow then Inl (Contract Sw_Unauthorized) else
     bindE (require_swap_status swap Accepted NotAccepted) (\<lambda>_.
     if now E \<le> sp_expiry swap then Inl (Contract NotExpired) else
     let deposit = unwrap_or 0 (sw_EscrowDeposit s swap_id);
         s = save_swap swap_id (swap\<lparr>sp_status := Cancelled\<rparr>) s;
         s = unlock_ip (sp_ip_id swap) s;
         s = s\<lparr>sw_EscrowDeposit := (sw_EscrowDeposit s)(swap_id := None)\<rparr>;
         s = append_history E swap_id Cancelled s
     in bindE (if deposit > 0
            then transfer E (sp_token swap) (this_addr E) (sp_buyer swap) deposit s
            else Inr s) (\<lambda>s.
     Inr (emit ''esc_wdr'' (SwapCancelledEvent swap_id (sp_buyer swap)) s)))))"

section \<open>Required signers\<close>

definition initiate_swap_with_signers ::
    "env \<Rightarrow> registry \<Rightarrow> address \<Rightarrow> nat \<Rightarrow> address \<Rightarrow> int \<Rightarrow> address \<Rightarrow> address list \<Rightarrow> swaps \<Rightarrow>
     (nat \<times> swaps) sout" where
  "initiate_swap_with_signers E R token ip_id seller price buyer signers s =
     bindE (require_not_paused s) (\<lambda>_.
     bindE (require_auth E seller) (\<lambda>_.
     bindE (require_positive_price price) (\<lambda>_.
     bindE (ensure_seller_owns_active_ip R ip_id seller s) (\<lambda>_.
     bindE (require_no_active_swap ip_id s) (\<lambda>_.
     if signers = [] then Inl (Contract Sw_Unauthorized) else
     let id = next_swap_id s in
     bindE (u64 (now E + 604800)) (\<lambda>expiry.
     let swap = pending_swap ip_id seller buyer price token expiry;
         s = save_swap id swap s;
         s = lock_ip ip_id id s;
         s = extend_key (Sk_SwapSigners id) LEDGER_BUMP
           (s\<lparr>sw_SwapSigners := (sw_SwapSigners s)(id \<mapsto> signers)\<rparr>);
         s = append_swap_for_party seller buyer id s;
         s = append_ip_swap ip_id id LEDGER_BUMP s;
         s = append_history E id Pending s
     in bindE (u64 (id + 1)) (\<lambda>next.
     let s = s\<lparr>sw_NextId := Some next\<rparr>
     in Inr (id, emit ''swap_init''
          (SwapInitiatedEvent id ip_id seller buyer price) s))))))))"

definition sign_swap_reveal :: "env \<Rightarrow> nat \<Rightarrow> address \<Rightarrow> swaps \<Rightarrow> swaps sout" where
  "sign_swap_reveal E swap_id signer s =
     bindE (require_auth E signer) (\<lambda>_.
     bindE (require_swap_exists s swap_id) (\<lambda>swap.
     bindE (require_swap_status swap Accepted NotAccepted) (\<lambda>_.
     bindE (ok_or (Contract Sw_Unauthorized) (sw_SwapSigners s swap_id)) (\<lambda>signers.
     if signer \<notin> set signers then Inl (Contract NotARequiredSigner) else
     let signed = unwrap_or [] (sw_SwapSignatures s swap_id) in
     if signer \<in> set signed then Inl (Contract Sw_AlreadySigned) else
     Inr (extend_key (Sk_SwapSignatures swap_id) LEDGER_BUMP
       (s\<lparr>sw_SwapSignatures := (sw_SwapSignatures s)(swap_id \<mapsto> signed @ [signer])\<rparr>))))))"

section \<open>Auctions\<close>

definition start_ip_auction ::
    "env \<Rightarrow> registry \<Rightarrow> address \<Rightarrow> nat \<Rightarrow> address \<Rightarrow> int \<Rightarrow> nat \<Rightarrow> swaps \<Rightarrow> (nat \<times> swaps) sout" where
  "start_ip_auction E R token ip_id seller min_bid duration_seconds s =
     bindE (require_not_paused s) (\<lambda>_.
     bindE (require_auth E seller) (\<lambda>_.
     bindE (require_positive_price min_bid) (\<lambda>_.
     bindE (ensure_seller_owns_active_ip R ip_id seller s) (\<lambda>_.
     if sw_ActiveAuction s ip_id \<noteq> None then Inl (Contract SwapExists) else
     let auction_id = unwrap_or 0 (sw_NextAuctionId s);
         start_time = now E
     in bindE (u64 (start_time + duration_seconds)) (\<lambda>end_time.
     let auction = \<lparr>ac_auction_id = auction_id, ac_ip_id = ip_id, ac_seller = seller,
           ac_token = token, ac_min_bid = min_bid, ac_highest_bid = 0, ac_highest_bidder = None,
           ac_start_time = start_time, ac_end_time = end_time, ac_finalized = False\<rparr>;
         s = extend_key (Sk_Auction auction_id) LEDGER_BUMP
           (s\<lparr>sw_Auction := (sw_Auction s)(auction_id \<mapsto> auction)\<rparr>);
         s = extend_key (Sk_ActiveAuction ip_id) LEDGER_BUMP
           (s\<lparr>sw_ActiveAuction := (sw_ActiveAuction s)(ip_id \<mapsto> auction_id)\<rparr>)
     in bindE (u64 (auction_id + 1)) (\<lambda>next.
     let s = extend_key Sk_NextAuctionId LEDGER_BUMP (s\<lparr>sw_NextAuctionId := Some next\<rparr>)
     in Inr (auction_id, emit ''auc_strt''
          (AuctionStartedEvent auction_id ip_id seller min_bid end_time) s)))))))"

definition place_bid :: "env \<Rightarrow> nat \<Rightarrow> address \<Rightarrow> int \<Rightarrow> swaps \<Rightarrow> swaps sout" where
  "place_bid E auction_id bidder bid_amount s =
     bindE (require_auth E bidder) (\<lambda>_.
     bindE (ok_or (Contract SwapNotFound) (sw_Auction s auction_id)) (\<lambda>auction.
     if ac_finalized auction then Inl (Contract AlreadyInit) else
     if now E \<ge> ac_end_time auction then Inl (Contract NotExpired) else
     if bid_amount < ac_min_bid auction then Inl (Contract PriceTooSmall) else
     if bid_amount \<le> ac_highest_bid auction then Inl (Contract PriceTooSmall) else
     bindE (case ac_highest_bidder auction of
         None \<Rightarrow> Inr s
       | Some prev_bidder \<Rightarrow>
           transfer E (ac_token auction) (this_addr E) prev_bidder (ac_highest_bid auction) s) (\<lambda>s.
     bindE (transfer E (ac_token auction) bidder (this_addr E) bid_amount s) (\<lambda>s.
     let auction = auction\<lparr>ac_highest_bid := bid_amount, ac_highest_bidder := Some bidder\<rparr>;
         s = extend_key (Sk_Auction auction_id) LEDGER_BUMP
           (s\<lparr>sw_Auction := (sw_Auction s)(auction_id \<mapsto> auction)\<rparr>)
     in Inr (emit ''bid_plcd'' (BidPlacedEvent auction_id bidder bid_amount) s)))))"

definition finalize_auction :: "env \<Rightarrow> nat \<Rightarrow> swaps \<Rightarrow> swaps sout" where
  "finalize_auction E auction_id s =
     bindE (ok_or (Contract SwapNotFound) (sw_Auction s auction_id)) (\<lambda>auction.
     if ac_finalized auction then Inl (Contract AlreadyInit) else
     if now E < ac_end_time auction then Inl (Contract NotExpired) else
     let auction = auction\<lparr>ac_finalized := True\<rparr>;
         s = extend_key (Sk_Auction auction_id) LEDGER_BUMP
           (s\<lparr>sw_Auction := (sw_Auction s)(auction_id \<mapsto> auction)\<rparr>);
         s = s\<lparr>sw_ActiveAuction := (sw_ActiveAuction s)(ac_ip_id auction := None)\<rparr>;
         winning_bid = ac_highest_bid auction;
         winner = ac_highest_bidder auction;
         s = emit ''auc_fnl'' (AuctionFinalizedEvent auction_id winner winning_bid) s
     in case winner of
         None \<Rightarrow> Inr s
       | Some buyer \<Rightarrow>
           let swap_id = next_swap_id s in
           bindE (u64 (now E + 604800)) (\<lambda>expiry.
           let swap = (pending_swap (ac_ip_id auction) (ac_seller auction) buyer winning_bid
                 (ac_token auction) expiry)\<lparr>sp_status := Accepted, sp_accept_timestamp := now E\<rparr>;
               s = save_swap swap_id swap s;
               s = append_swap_for_party (ac_seller auction) buyer swap_id s;
               s = append_ip_swap (ac_ip_id auction) swap_id LEDGER_BUMP s;
               s = append_history E swap_id Accepted s
           in bindE (u64 (swap_id + 1)) (\<lambda>next.
           let s = s\<lparr>sw_NextId := Some next\<rparr>
           in Inr (emit ''swap_init''
                (SwapInitiatedEvent swap_id (ac_ip_id auction) (ac_seller auction) buyer winning_bid) s))))"

definition get_auction :: "swaps \<Rightarrow> nat \<Rightarrow> AuctionRecord sout" where
  "get_auction s auction_id = ok_or (Contract SwapNotFound) (sw_Auction s auction_id)"

end
