(* ===== verification/Swap_Admin.thy ===== *)
theory Swap_Admin
  imports Swap_Payments
begin

text \<open>
  Administration: the admin key, the pause switch, the WASM upgrade with the schema check of
  \<open>upgrade.rs\<close>, the protocol configuration, and the supported currencies of \<open>multi_currency.rs\<close>.
\<close>

section \<open>Admin and pause\<close>

definition set_admin :: "env \<Rightarrow> address \<Rightarrow> swaps \<Rightarrow> swaps sout" where
  "set_admin E new_admin s =
     bindE (require_auth E new_admin) (\<lambda>_.
     case sw_InstanceAdmin s of
       Some current \<Rightarrow>
         if current \<noteq> new_admin then Inl (Contract Sw_Unauthorized)
         else Inr (s\<lparr>sw_InstanceAdmin := Some new_admin\<rparr>)
     | None \<Rightarrow> Inr (s\<lparr>sw_InstanceAdmin := Some new_admin\<rparr>))"

definition pause :: "env \<Rightarrow> address \<Rightarrow> swaps \<Rightarrow> swaps sout" where
  "pause E caller s =
     bindE (require_auth E caller) (\<lambda>_.
     bindE (require_swap_admin caller s) (\<lambda>_. Inr (s\<lparr>sw_Paused := Some True\<rparr>)))"

definition unpause :: "env \<Rightarrow> address \<Rightarrow> swaps \<Rightarrow> swaps sout" where
  "unpause E caller s =
     bindE (require_auth E caller) (\<lambda>_.
     bindE (require_swap_admin caller s) (\<lambda>_. Inr (s\<lparr>sw_Paused := Some False\<rparr>)))"

definition upgrade_swap :: "env \<Rightarrow> bytes \<Rightarrow> swaps \<Rightarrow> swaps sout" where
  "upgrade_swap E new_wasm_hash s =
     bindE (ok_or (Contract UnauthorizedUpg) (sw_Admin s)) (\<lambda>admin.
     bindE (require_auth E admin) (\<lambda>_.
     Inr (s\<lparr>sw_log := sw_log s @ [UpdateWasm new_wasm_hash]\<rparr>)))"

text \<open>
  \<open>store_protocol_config\<close> does nothing: its two lines are commented out in the source. \<open>caller\<close> is the
  contract's own address.
\<close>

definition store_protocol_config :: "ProtocolConfig \<Rightarrow> swaps \<Rightarrow> swaps" where
  "store_protocol_config config s = s"

definition admin_set_protocol_config ::
    "env \<Rightarrow> nat \<Rightarrow> address \<Rightarrow> nat \<Rightarrow> nat \<Rightarrow> nat \<Rightarrow> swaps \<Rightarrow> swaps sout" where
  "admin_set_protocol_config E protocol_fee_bps treasury dispute_window_seconds
       dispute_timeout_secs referral_fee_bps s =
     (if protocol_fee_bps > 10000 then Inl (Contract InvalidFeeBps) else
      if referral_fee_bps > 10000 then Inl (Contract InvalidFeeBps) else
      let caller = this_addr E in
      bindE (case sw_Admin s of
          Some admin \<Rightarrow> Inr (admin, s)
        | None \<Rightarrow>
            bindE (require_auth E caller) (\<lambda>_.
            Inr (caller, extend_key Sk_Admin LEDGER_BUMP (s\<lparr>sw_Admin := Some caller\<rparr>))))
        (\<lambda>(admin, s).
      if caller \<noteq> admin then Inl (Contract UnauthorizedUpg) else
      bindE (require_auth E admin) (\<lambda>_.
      Inr (store_protocol_config \<lparr>pc_protocol_fee_bps = protocol_fee_bps,
        pc_treasury = treasury, pc_dispute_window_seconds = dispute_window_seconds,
        pc_dispute_timeout_secs = dispute_timeout_secs, pc_referral_fee_bps = referral_fee_bps,
        pc_arbitration_timeout_seconds = 1209600\<rparr> s))))"

section \<open>Currencies\<close>

definition multi_currency_defaults :: MultiCurrencyConfig where
  "multi_currency_defaults = \<lparr>
     mc_enabled_tokens = [XLM, USDC, EURC],
     mc_default_token = XLM,
     mc_token_metadata = [
       \<lparr>tm_symbol = ''XLM'', tm_decimals = 7, tm_address = None, tm_is_native = True\<rparr>,
       \<lparr>tm_symbol = ''USDC'', tm_decimals = 6, tm_address = None, tm_is_native = False\<rparr>,
       \<lparr>tm_symbol = ''EURC'', tm_decimals = 6, tm_address = None, tm_is_native = False\<rparr>]\<rparr>"

definition config_supports :: "MultiCurrencyConfig \<Rightarrow> SupportedToken \<Rightarrow> bool" where
  "config_supports config token = (token \<in> set (mc_enabled_tokens config))"

definition get_token_by_symbol :: "MultiCurrencyConfig \<Rightarrow> string \<Rightarrow> TokenMetadata option" where
  "get_token_by_symbol config symbol =
     List.find (\<lambda>meta. tm_symbol meta = symbol) (mc_token_metadata config)"

definition initialize_multi_currency :: "env \<Rightarrow> address \<Rightarrow> swaps \<Rightarrow> swaps sout" where
  "initialize_multi_currency E caller s =
     bindE (require_auth E caller) (\<lambda>_.
     bindE (require_swap_admin caller s) (\<lambda>_.
     let config = multi_currency_defaults;
         s = s\<lparr>sw_MultiCurrencyConfig := Some config\<rparr>
     in Inr (s\<lparr>sw_SupportedTokens := Some (mc_enabled_tokens config)\<rparr>)))"

definition get_multi_currency_config :: "swaps \<Rightarrow> MultiCurrencyConfig sout" where
  "get_multi_currency_config s = ok_or (Contract SwapNotFound) (sw_MultiCurrencyConfig s)"

definition get_supported_tokens :: "swaps \<Rightarrow> SupportedToken list sout" where
  "get_supported_tokens s = ok_or (Contract SwapNotFound) (sw_SupportedTokens s)"

definition is_token_supported :: "swaps \<Rightarrow> SupportedToken \<Rightarrow> bool sout" where
  "is_token_supported s token =
     bindE (ok_or (Contract SwapNotFound) (sw_MultiCurrencyConfig s)) (\<lambda>config.
     Inr (config_supports config token))"

definition get_token_metadata :: "swaps \<Rightarrow> string \<Rightarrow> TokenMetadata sout" where
  "get_token_metadata s symbol =
     bindE (ok_or (Contract SwapNotFound) (sw_MultiCurrencyConfig s)) (\<lambda>config.
     ok_or (Contract SwapNotFound) (get_token_by_symbol config symbol))"

definition add_supported_token ::
    "env \<Rightarrow> address \<Rightarrow> SupportedToken \<Rightarrow> TokenMetadata \<Rightarrow> swaps \<Rightarrow> swaps sout" where
  "add_supported_token E caller token metadata s =
     bindE (require_auth E caller) (\<lambda>_.
     bindE (require_swap_admin caller s) (\<lambda>_.
     bindE (ok_or (Contract SwapNotFound) (sw_MultiCurrencyConfig s)) (\<lambda>config.
     if token \<notin> set (mc_enabled_tokens config)
     then
       let config = config\<lparr>mc_enabled_tokens := mc_enabled_tokens config @ [token],
             mc_token_metadata := mc_token_metadata config @ [metadata]\<rparr>;
           s = s\<lparr>sw_MultiCurrencyConfig := Some config\<rparr>;
           s = s\<lparr>sw_SupportedTokens := Some (mc_enabled_tokens config)\<rparr>
       in Inr (emit ''token_add'' (TokenAddedEvent token (tm_address metadata)) s)
     else Inr s)))"

definition remove_supported_token :: "env \<Rightarrow> address \<Rightarrow> SupportedToken \<Rightarrow> swaps \<Rightarrow> swaps sout" where
  "remove_supported_token E caller token s =
     bindE (require_auth E caller) (\<lambda>_.
     bindE (require_swap_admin caller s) (\<lambda>_.
     bindE (ok_or (Contract SwapNotFound) (sw_MultiCurrencyConfig s)) (\<lambda>config.
     if mc_default_token config = token then Inl (Contract UnauthorizedUpg) else Inr s)))"

section \<open>Schema of an upgrade\<close>

definition find_function :: "FunctionEntry list \<Rightarrow> string \<Rightarrow> FunctionEntry option" where
  "find_function haystack name = List.find (\<lambda>entry. fe_name entry = name) haystack"

definition find_error :: "ErrorEntry list \<Rightarrow> string \<Rightarrow> ErrorEntry option" where
  "find_error haystack name = List.find (\<lambda>entry. ee_name entry = name) haystack"

definition contains_string :: "string list \<Rightarrow> string \<Rightarrow> bool" where
  "contains_string haystack needle = list_ex (\<lambda>x. x = needle) haystack"

definition check_schema_compatibility :: "ContractSchema \<Rightarrow> ContractSchema \<Rightarrow> SwapError + unit" where
  "check_schema_compatibility current new_schema =
     (if cs_version new_schema \<le> cs_version current then Inl SchemaNotGreater else
      bindE (checkE (\<lambda>cur_fn.
          case find_function (cs_functions new_schema) (fe_name cur_fn) of
            None \<Rightarrow> Inl MissingFunc
          | Some new_fn \<Rightarrow>
              if fe_signature new_fn \<noteq> fe_signature cur_fn then Inl FuncChanged else Inr ())
        (cs_functions current)) (\<lambda>_.
      bindE (checkE (\<lambda>cur_err.
          case find_error (cs_errors new_schema) (ee_name cur_err) of
            None \<Rightarrow> Inl MissingFunc
          | Some new_err \<Rightarrow>
              if ee_code new_err \<noteq> ee_code cur_err then Inl FuncChanged else Inr ())
        (cs_errors current)) (\<lambda>_.
      checkE (\<lambda>cur_key.
          if \<not> contains_string (cs_storage_keys new_schema) cur_key
          then Inl MissingFunc else Inr ())
        (cs_storage_keys current))))"

definition store_schema :: "ContractSchema \<Rightarrow> swaps \<Rightarrow> swaps" where
  "store_schema schema s = s\<lparr>sw_ContractSchema := Some schema\<rparr>"

definition load_schema :: "swaps \<Rightarrow> ContractSchema option" where
  "load_schema s = sw_ContractSchema s"

definition validate_swap_upgrade :: "bytes \<Rightarrow> ContractSchema \<Rightarrow> swaps \<Rightarrow> SwapError + swaps" where
  "validate_swap_upgrade new_wasm_hash new_schema s =
     (case load_schema s of
        None \<Rightarrow>
          let s = store_schema new_schema s
          in Inr (s\<lparr>sw_log := sw_log s @ [UpdateWasm new_wasm_hash]\<rparr>)
      | Some current \<Rightarrow>
          bindE (check_schema_compatibility current new_schema) (\<lambda>_.
          let s = store_schema new_schema s
          in Inr (s\<lparr>sw_log := sw_log s @ [UpdateWasm new_wasm_hash]\<rparr>)))"

definition build_v1_schema :: ContractSchema where
  "build_v1_schema = \<lparr>
     cs_version = 1,
     cs_functions = map (\<lambda>(name, sig). \<lparr>fe_name = name, fe_signature = sig\<rparr>) [
     (''initialize'',
       ''initialize(ip_registry:Address)->()''),
     (''set_admin'',
       ''set_admin(new_admin:Address)->()''),
     (''pause'',
       ''pause(caller:Address)->()''),
     (''unpause'',
       ''unpause(caller:Address)->()''),
     (''upgrade'',
       ''upgrade(new_wasm_hash:BytesN<32>)->()''),
     (''validate_upgrade'',
       ''validate_upgrade(new_wasm_hash:BytesN<32>,new_schema:ContractSchema)->Result<(),ContractError>''),
     (''initiate_swap'',
       ''initiate_swap(token:Address,ip_id:u64,seller:Address,price:i128,buyer:Address,required_approvals:u32,referrer:Option<Address>)->u64''),
     (''batch_initiate_swap'',
       ''batch_initiate_swap(token:Address,ip_ids:Vec<u64>,seller:Address,prices:Vec<i128>,buyer:Address,required_approvals:u32,referrer:Option<Address>)->Vec<u64>''),
     (''accept_swap'',
       ''accept_swap(swap_id:u64)->()''),
     (''accept_swap_partial'',
       ''accept_swap_partial(swap_id:u64,quantity:u32)->()''),
     (''renegotiate_swap'',
       ''renegotiate_swap(swap_id:u64,new_price:i128)->()''),
     (''accept_renegotiation'',
       ''accept_renegotiation(swap_id:u64)->()''),
     (''accept_swap_conditional'',
       ''accept_swap_conditional(swap_id:u64,conditions:Vec<SwapCondition>)->()''),
     (''claim_insurance'',
       ''claim_insurance(swap_id:u64)->()''),
     (''reveal_key'',
       ''reveal_key(swap_id:u64,caller:Address,secret:BytesN<32>,blinding_factor:BytesN<32>)->()''),
     (''cancel_swap'',
       ''cancel_swap(swap_id:u64,canceller:Address)->()''),
     (''cancel_pending_swap'',
       ''cancel_pending_swap(swap_id:u64,caller:Address)->()''),
     (''cancel_expired_swap'',
       ''cancel_expired_swap(swap_id:u64,caller:Address)->()''),
     (''raise_dispute'',
       ''raise_dispute(swap_id:u64)->()''),
     (''resolve_dispute'',
       ''resolve_dispute(swap_id:u64,caller:Address,refunded:bool)->()''),
     (''auto_resolve_dispute'',
       ''auto_resolve_dispute(swap_id:u64)->()''),
     (''extend_swap_expiry'',
       ''extend_swap_expiry(swap_id:u64,new_expiry:u64)->()''),
     (''approve_swap'',
       ''approve_swap(swap_id:u64,approver:Address)->()''),
     (''get_swap'',
       ''get_swap(swap_id:u64)->Option<SwapRecord>''),
     (''get_swaps_by_seller'',
       ''get_swaps_by_seller(seller:Address)->Option<Vec<u64>>''),
     (''get_swaps_by_buyer'',
       ''get_swaps_by_buyer(buyer:Address)->Option<Vec<u64>>''),
     (''get_swaps_by_ip'',
       ''get_swaps_by_ip(ip_id:u64)->Option<Vec<u64>>''),
     (''swap_count'',
       ''swap_count()->u64''),
     (''get_swap_history'',
       ''get_swap_history(swap_id:u64)->Vec<SwapHistoryEntry>''),
     (''get_cancellation_reason'',
       ''get_cancellation_reason(swap_id:u64)->Option<Bytes>''),
     (''get_protocol_config'',
       ''get_protocol_config()->ProtocolConfig''),
     (''admin_set_protocol_config'',
       ''admin_set_protocol_config(protocol_fee_bps:u32,treasury:Address,dispute_window_seconds:u64,dispute_resolution_timeout_seconds:u64,referral_fee_bps:u32)->()'')],
     cs_errors = map (\<lambda>(name, code). \<lparr>ee_name = name, ee_code = code\<rparr>) [
     (''SwapNotFound'', 1),
     (''InvalidKey'', 2),
     (''PriceTooSmall'', 3),
     (''SellerIsNotTheIPOwner'', 4),
     (''ActiveSwapExists'', 5),
     (''SwapNotPending'', 6),
     (''OnlySellerCanReveal'', 7),
     (''SwapNotAccepted'', 8),
     (''OnlySellerOrBuyer'', 9),
     (''OnlyPendingSwaps'', 10),
     (''SwapNotInAcceptedState'', 11),
     (''OnlyBuyerCanCancel'', 12),
     (''SwapHasNotExpiredYet'', 13),
     (''IpIsRevoked'', 14),
     (''UnauthorizedUpgrade'', 15),
     (''InvalidFeeBps'', 16),
     (''DisputeWindowExpired'', 17),
     (''OnlyBuyerCanDispute'', 18),
     (''SwapNotDisputed'', 19),
     (''OnlyAdminCanResolve'', 20),
     (''ContractPaused'', 21),
     (''AlreadyInitialized'', 22),
     (''Unauthorized'', 23),
     (''NotInitialized'', 24),
     (''PendingSwapNotExpired'', 25),
     (''NewExpiryNotGreater'', 26),
     (''InsufficientApprovals'', 27),
     (''AlreadyApproved'', 28),
     (''UpgradeSchemaVersionGreater'', 29),
     (''UpgradeMissingFunction'', 30),
     (''UpgradeFunctionSigChanged'', 31),
     (''UpgradeMissingErrorCode'', 32),
     (''UpgradeErrorCodeChanged'', 33),
     (''UpgradeMissingStorageKey'', 34),
     (''InvalidQuantity'', 56),
     (''NoRenegotiationOffer'', 57),
     (''ConditionNotMet'', 58),
     (''InsuranceNotEnabled'', 59),
     (''InsuranceNotClaimable'', 60)],
     cs_storage_keys = [
     ''Swap'', ''NextId'', ''IpRegistry'', ''ActiveSwap'',
     ''SellerSwaps'', ''BuyerSwaps'', ''Admin'', ''ProtocolConfig'',
     ''Paused'', ''IpSwaps'', ''SwapHistory'', ''SwapApprovals'',
     ''CancelReason'', ''MultiCurrencyConfig'', ''SupportedTokens'', ''ContractSchema'',
     ''SwapRenegotiations'', ''InsuranceClaimable'', ''InsurancePool'']\<rparr>"

text \<open>
  The names and numbers the contract itself declares for its errors (the last four of \<open>SwapError\<close>
  are not declared).
\<close>

definition declared_errors :: "(string \<times> nat) list" where
  "declared_errors = [
     (''SwapNotFound'', 1), (''InvalidKey'', 2), (''PriceTooSmall'', 3),
     (''NotIPOwner'', 4), (''SwapExists'', 5), (''NotPending'', 6),
     (''OnlySellerReveal'', 7), (''NotAccepted'', 8), (''OnlySellerBuyer'', 9),
     (''OnlyPending'', 10), (''NotInAccepted'', 11), (''OnlyBuyerCancel'', 12),
     (''NotExpired'', 13), (''IpRevoked'', 14), (''UnauthorizedUpg'', 15),
     (''InvalidFeeBps'', 16), (''DisputeExpired'', 17), (''OnlyBuyerDispute'', 18),
     (''NotDisputed'', 19), (''OnlyAdminResolve'', 20), (''Paused'', 21),
     (''AlreadyInit'', 22), (''Unauthorized'', 23), (''NotInitialized'', 24),
     (''PendingNotExpired'', 25), (''ExpiryNotGreater'', 26), (''NeedApprovals'', 27),
     (''AlreadyApproved'', 28), (''SchemaNotGreater'', 29), (''MissingFunc'', 30),
     (''FuncChanged'', 31), (''InsufficientReputation'', 40), (''ArbitrationNotTimedOut'', 41),
     (''NotAllSigned'', 42), (''AlreadySigned'', 43), (''NotARequiredSigner'', 44),
     (''RollbackWindowExpired'', 45), (''OracleNotConfigured'', 46), (''OraclePriceInvalid'', 47),
     (''OraclePriceBelowMin'', 48), (''OraclePriceAboveMax'', 49)]"

end
