(* ===== verification/Swap_Machine.thy ===== *)
theory Swap_Machine
  imports Swap_Admin Registry_Machine
begin

text \<open>
  The swap contract as a transition system: a call is the name of an exported function that can change
  the storage with its arguments, a step runs one call in some environment against some state of the
  registry. Queries do not change the storage and are left out.
\<close>

section \<open>Calls\<close>

datatype open_call =
    InitiateSwap address nat address int address nat "address option" int bool
  | InitiateSwapWithOraclePrice address nat address address nat "address option" int bool int int
  | BatchInitiateSwap address "nat list" address "int list" address nat "address option"
  | BatchInitiateSwapWithInsurance address "nat list" address "int list" address nat
      "address option" bool
  | InitiateSwapWithSchedule address nat address "PaymentSchedule list" address
  | InitiateEscrowSwap address nat address int address nat
  | BatchInitiateEscrow address "nat list" address "int list" address "nat list"
  | InitiateSwapWithSigners address nat address int address "address list"

datatype deal_call =
    AcceptSwap nat
  | AcceptSwapConditional nat "SwapCondition list"
  | AcceptSwapPartial nat nat
  | BatchAcceptSwaps "nat list" address
  | RevealKey nat address bytes bytes
  | BatchRevealKeys "nat list" "bytes list" "bytes list" address
  | VerifyAndCompleteSwap nat address bytes bytes
  | MakeScheduledPayment nat nat
  | SubmitInstallmentPayment nat int
  | EscrowDeposit nat
  | BatchEscrowDeposit "nat list" address
  | EscrowWithdraw nat
  | CancelSwap nat address
  | CancelExpiredSwap nat address
  | CancelPendingSwap nat address
  | BatchCancelSwaps "nat list" address "bytes list"

datatype ruling_call =
    RaiseDispute nat
  | ResolveSwapDispute nat address bool
  | AutoResolveDispute nat
  | AutoRefundTimeout nat
  | ArbitrateSwap nat address bool
  | BatchArbitrateSwaps "nat list" address bool
  | AdminRollbackSwap nat address bytes
  | BatchRollbackSwaps "nat list" address bytes
  | ValidateAndRollbackSwap nat bool

datatype terms_call =
    ExtendSwapExpiry nat nat
  | ApproveSwap nat address
  | RenegotiateSwap nat int
  | AcceptRenegotiation nat
  | SetReputationMultiplier nat nat
  | RequestArbitration nat address bytes
  | SignSwapReveal nat address
  | ClaimInsurance nat

datatype auction_call =
    StartIpAuction address nat address int nat
  | PlaceBid nat address int
  | FinalizeAuction nat

datatype control_call =
    Initialize address
  | SetOracle address address bool
  | SetAdmin address
  | Pause address
  | Unpause address
  | UpgradeSwap bytes
  | SetProtocolConfig nat address nat nat nat
  | InitializeMultiCurrency address
  | AddSupportedToken address SupportedToken TokenMetadata
  | RemoveSupportedToken address SupportedToken

datatype swap_call =
    Open open_call
  | Deal deal_call
  | Ruling ruling_call
  | Terms terms_call
  | Auctions auction_call
  | Control control_call

section \<open>Execution\<close>

primrec exec_open :: "env \<Rightarrow> registry \<Rightarrow> open_call \<Rightarrow> swaps \<Rightarrow> swaps sout" where
  "exec_open E R (InitiateSwap tok ip seller p buyer n ref coll ins) s =
     drop_result (initiate_swap E R tok ip seller p buyer n ref coll ins s)"
| "exec_open E R (InitiateSwapWithOraclePrice tok ip seller buyer n ref coll ins lo hi) s =
     drop_result (initiate_swap_with_oracle_price E R tok ip seller buyer n ref coll ins lo hi s)"
| "exec_open E R (BatchInitiateSwap tok ips seller ps buyer n ref) s =
     drop_result (batch_initiate_swap E R tok ips seller ps buyer n ref s)"
| "exec_open E R (BatchInitiateSwapWithInsurance tok ips seller ps buyer n ref ins) s =
     drop_result (batch_initiate_swap_with_insurance E R tok ips seller ps buyer n ref ins s)"
| "exec_open E R (InitiateSwapWithSchedule tok ip seller sch buyer) s =
     drop_result (initiate_swap_with_schedule E R tok ip seller sch buyer s)"
| "exec_open E R (InitiateEscrowSwap tok ip seller p buyer tmo) s =
     drop_result (initiate_escrow_swap E R tok ip seller p buyer tmo s)"
| "exec_open E R (BatchInitiateEscrow tok ips seller ps buyer tmos) s =
     drop_result (batch_initiate_escrow E R tok ips seller ps buyer tmos s)"
| "exec_open E R (InitiateSwapWithSigners tok ip seller p buyer sgs) s =
     drop_result (initiate_swap_with_signers E R tok ip seller p buyer sgs s)"

primrec exec_deal :: "env \<Rightarrow> registry \<Rightarrow> deal_call \<Rightarrow> swaps \<Rightarrow> swaps sout" where
  "exec_deal E R (AcceptSwap i) s = accept_swap E i s"
| "exec_deal E R (AcceptSwapConditional i cs) s = accept_swap_conditional E i cs s"
| "exec_deal E R (AcceptSwapPartial i q) s = accept_swap_partial E i q s"
| "exec_deal E R (BatchAcceptSwaps is b) s = batch_accept_swaps E is b s"
| "exec_deal E R (RevealKey i a x y) s = reveal_key E R i a x y s"
| "exec_deal E R (BatchRevealKeys is xs ys a) s = batch_reveal_keys E R is xs ys a s"
| "exec_deal E R (VerifyAndCompleteSwap i a x y) s = verify_and_complete_swap E R i a x y s"
| "exec_deal E R (MakeScheduledPayment i k) s = make_scheduled_payment E i k s"
| "exec_deal E R (SubmitInstallmentPayment i p) s = submit_installment_payment E i p s"
| "exec_deal E R (EscrowDeposit i) s = escrow_deposit E i s"
| "exec_deal E R (BatchEscrowDeposit is b) s = batch_escrow_deposit E is b s"
| "exec_deal E R (EscrowWithdraw i) s = escrow_withdraw E i s"
| "exec_deal E R (CancelSwap i a) s = cancel_swap E i a s"
| "exec_deal E R (CancelExpiredSwap i a) s = cancel_expired_swap E i a s"
| "exec_deal E R (CancelPendingSwap i a) s = cancel_pending_swap E i a s"
| "exec_deal E R (BatchCancelSwaps is a rs) s = drop_result (batch_cancel_swaps E is a rs s)"

primrec exec_ruling :: "env \<Rightarrow> ruling_call \<Rightarrow> swaps \<Rightarrow> swaps sout" where
  "exec_ruling E (RaiseDispute i) s = raise_dispute E i s"
| "exec_ruling E (ResolveSwapDispute i a b) s = resolve_swap_dispute E i a b s"
| "exec_ruling E (AutoResolveDispute i) s = auto_resolve_dispute E i s"
| "exec_ruling E (AutoRefundTimeout i) s = auto_refund_timeout E i s"
| "exec_ruling E (ArbitrateSwap i a b) s = arbitrate_swap E i a b s"
| "exec_ruling E (BatchArbitrateSwaps is a b) s = batch_arbitrate_swaps E is a b s"
| "exec_ruling E (AdminRollbackSwap i a w) s = admin_rollback_swap E i a w s"
| "exec_ruling E (BatchRollbackSwaps is a w) s = batch_rollback_swaps E is a w s"
| "exec_ruling E (ValidateAndRollbackSwap i b) s =
     drop_result (validate_and_rollback_swap E i b s)"

primrec exec_terms :: "env \<Rightarrow> terms_call \<Rightarrow> swaps \<Rightarrow> swaps sout" where
  "exec_terms E (ExtendSwapExpiry i x) s = extend_swap_expiry E i x s"
| "exec_terms E (ApproveSwap i a) s = approve_swap E i a s"
| "exec_terms E (RenegotiateSwap i p) s = renegotiate_swap E i p s"
| "exec_terms E (AcceptRenegotiation i) s = accept_renegotiation E i s"
| "exec_terms E (SetReputationMultiplier i m) s = set_reputation_multiplier E i m s"
| "exec_terms E (RequestArbitration i a h) s = request_arbitration E i a h s"
| "exec_terms E (SignSwapReveal i a) s = sign_swap_reveal E i a s"
| "exec_terms E (ClaimInsurance i) s = claim_insurance E i s"

primrec exec_auction :: "env \<Rightarrow> registry \<Rightarrow> auction_call \<Rightarrow> swaps \<Rightarrow> swaps sout" where
  "exec_auction E R (StartIpAuction tok ip seller m d) s =
     drop_result (start_ip_auction E R tok ip seller m d s)"
| "exec_auction E R (PlaceBid a b x) s = place_bid E a b x s"
| "exec_auction E R (FinalizeAuction a) s = finalize_auction E a s"

primrec exec_control :: "env \<Rightarrow> control_call \<Rightarrow> swaps \<Rightarrow> swaps sout" where
  "exec_control E (Initialize a) s = initialize a s"
| "exec_control E (SetOracle a b f) s = set_oracle E a b f s"
| "exec_control E (SetAdmin a) s = set_admin E a s"
| "exec_control E (Pause a) s = pause E a s"
| "exec_control E (Unpause a) s = unpause E a s"
| "exec_control E (UpgradeSwap w) s = upgrade_swap E w s"
| "exec_control E (SetProtocolConfig f a w t r) s = admin_set_protocol_config E f a w t r s"
| "exec_control E (InitializeMultiCurrency a) s = initialize_multi_currency E a s"
| "exec_control E (AddSupportedToken a x m) s = add_supported_token E a x m s"
| "exec_control E (RemoveSupportedToken a x) s = remove_supported_token E a x s"

primrec exec_swap :: "env \<Rightarrow> registry \<Rightarrow> swap_call \<Rightarrow> swaps \<Rightarrow> swaps sout" where
  "exec_swap E R (Open c) s = exec_open E R c s"
| "exec_swap E R (Deal c) s = exec_deal E R c s"
| "exec_swap E R (Ruling c) s = exec_ruling E c s"
| "exec_swap E R (Terms c) s = exec_terms E c s"
| "exec_swap E R (Auctions c) s = exec_auction E R c s"
| "exec_swap E R (Control c) s = exec_control E c s"

section \<open>Steps\<close>

text \<open>
  \<open>G\<close> restricts the calls and the storages they are made in: \<open>\<lambda>_ _. True\<close> for the contract as it is.
  Nobody signs for the contract itself, which only calls the registry, the token and the oracle, none
  of which calls back.
\<close>

inductive swap_step :: "(swap_call \<Rightarrow> swaps \<Rightarrow> bool) \<Rightarrow> env \<Rightarrow> swaps \<Rightarrow> swaps \<Rightarrow> bool" for G H where
  swap_call: "same_host H E \<Longrightarrow> \<not> authorized E (this_addr E) \<Longrightarrow> G c s \<Longrightarrow>
    exec_swap E R c s = Inr t \<Longrightarrow> swap_step G H s t"

inductive_cases swap_stepE: "swap_step G H s t"

definition swaps_deployed :: "swaps \<Rightarrow> bool" where
  "swaps_deployed s \<longleftrightarrow> s = empty_swaps"

abbreviation any_call :: "swap_call \<Rightarrow> swaps \<Rightarrow> bool" where
  "any_call \<equiv> \<lambda>c s. True"

abbreviation swaps_reachable :: "env \<Rightarrow> swaps \<Rightarrow> bool" where
  "swaps_reachable H \<equiv> reachable swaps_deployed (swap_step any_call H)"

end
