(* ===== verification/Swap_Effects.thy ===== *)
theory Swap_Effects
  imports Swap_Machine
begin

text \<open>
  What the operations of the swap contract do to its books: the swap records, the collaterals and
  deposits, the locks, the histories, the scores, the auctions, the offers and the list of the payments made. The
  abstraction \<open>book_of\<close> forgets everything else, and each operation is shown to act on the book by an
  explicit update; the proofs of the invariants look at nothing else.
\<close>

section \<open>The book\<close>

type_synonym payment = "address \<times> address \<times> address \<times> int"

record book =
  bk_swap :: "nat \<rightharpoonup> SwapRecord"
  bk_next :: nat
  bk_coll :: "nat \<rightharpoonup> int"
  bk_dep :: "nat \<rightharpoonup> int"
  bk_paid :: "payment list"
  bk_hist :: "nat \<Rightarrow> SwapHistoryEntry list"
  bk_lock :: "nat \<rightharpoonup> nat"
  bk_score :: "address \<rightharpoonup> nat"
  bk_auction :: "nat \<rightharpoonup> AuctionRecord"
  bk_next_auction :: nat
  bk_claim :: "nat \<rightharpoonup> bool"
  bk_offer :: "nat \<rightharpoonup> RenegotiationOffer"

definition book_of :: "swaps \<Rightarrow> book" where
  "book_of s = \<lparr>bk_swap = sw_Swap s, bk_next = next_swap_id s, bk_coll = sw_SwapCollateral s,
     bk_dep = sw_EscrowDeposit s, bk_paid = transfers (sw_log s), bk_hist = get_swap_history s,
     bk_lock = sw_ActiveSwap s, bk_score = sw_UserReputation s, bk_auction = sw_Auction s,
     bk_next_auction = unwrap_or 0 (sw_NextAuctionId s), bk_claim = sw_InsuranceClaimable s,
     bk_offer = sw_SwapRenegotiations s\<rparr>"

lemma book_fields:
  "bk_swap (book_of s) = sw_Swap s" "bk_next (book_of s) = next_swap_id s"
  "bk_coll (book_of s) = sw_SwapCollateral s" "bk_dep (book_of s) = sw_EscrowDeposit s"
  "bk_paid (book_of s) = transfers (sw_log s)" "bk_hist (book_of s) = get_swap_history s"
  "bk_lock (book_of s) = sw_ActiveSwap s" "bk_score (book_of s) = sw_UserReputation s"
  "bk_auction (book_of s) = sw_Auction s" "bk_claim (book_of s) = sw_InsuranceClaimable s"
  "bk_next_auction (book_of s) = unwrap_or 0 (sw_NextAuctionId s)"
  "bk_offer (book_of s) = sw_SwapRenegotiations s"
  by (simp_all add: book_of_def)

text \<open>The guards of the operations read the book.\<close>

lemma read_book:
  "sw_Swap s = bk_swap (book_of s)" "next_swap_id s = bk_next (book_of s)"
  "sw_SwapCollateral s = bk_coll (book_of s)" "sw_EscrowDeposit s = bk_dep (book_of s)"
  "sw_ActiveSwap s = bk_lock (book_of s)" "sw_Auction s = bk_auction (book_of s)"
  "unwrap_or 0 (sw_NextAuctionId s) = bk_next_auction (book_of s)"
  "sw_UserReputation s = bk_score (book_of s)" "sw_InsuranceClaimable s = bk_claim (book_of s)"
  "sw_SwapRenegotiations s = bk_offer (book_of s)"
  by (simp_all add: book_of_def)

section \<open>Writes\<close>

lemma get_swap_history_fun: "get_swap_history s = (\<lambda>i. unwrap_or [] (sw_SwapHistory s i))"
  by (simp add: fun_eq_iff get_swap_history_def)

lemma book_quiet [simp]:
  "book_of (s\<lparr>sw_IpRegistry := x0\<rparr>) = book_of s"
  "book_of (s\<lparr>sw_InstanceAdmin := x1\<rparr>) = book_of s"
  "book_of (s\<lparr>sw_Paused := x2\<rparr>) = book_of s"
  "book_of (s\<lparr>sw_ContractSchema := x3\<rparr>) = book_of s"
  "book_of (s\<lparr>sw_Admin := x4\<rparr>) = book_of s"
  "book_of (s\<lparr>sw_SellerSwaps := x5\<rparr>) = book_of s"
  "book_of (s\<lparr>sw_BuyerSwaps := x6\<rparr>) = book_of s"
  "book_of (s\<lparr>sw_IpSwaps := x7\<rparr>) = book_of s"
  "book_of (s\<lparr>sw_SwapApprovals := x8\<rparr>) = book_of s"
  "book_of (s\<lparr>sw_CancelReason := x9\<rparr>) = book_of s"
  "book_of (s\<lparr>sw_MultiCurrencyConfig := x10\<rparr>) = book_of s"
  "book_of (s\<lparr>sw_SupportedTokens := x11\<rparr>) = book_of s"
  "book_of (s\<lparr>sw_ActiveAuction := x12\<rparr>) = book_of s"
  "book_of (s\<lparr>sw_PaymentSchedule := x13\<rparr>) = book_of s"
  "book_of (s\<lparr>sw_PaymentsMade := x14\<rparr>) = book_of s"
  "book_of (s\<lparr>sw_SwapInsurance := x15\<rparr>) = book_of s"
  "book_of (s\<lparr>sw_InsurancePool := x16\<rparr>) = book_of s"
  "book_of (s\<lparr>sw_SwapMode := x18\<rparr>) = book_of s"
  "book_of (s\<lparr>sw_ReputationMultiplier := x19\<rparr>) = book_of s"
  "book_of (s\<lparr>sw_ArbitrationTimestamp := x20\<rparr>) = book_of s"
  "book_of (s\<lparr>sw_SwapSigners := x21\<rparr>) = book_of s"
  "book_of (s\<lparr>sw_SwapSignatures := x22\<rparr>) = book_of s"
  "book_of (s\<lparr>sw_CompletionTimestamp := x23\<rparr>) = book_of s"
  "book_of (s\<lparr>sw_OracleConfig := x24\<rparr>) = book_of s"

  by (simp_all add: book_of_def next_swap_id_def get_swap_history_fun)

lemma book_writes [simp]:
  "book_of (s\<lparr>sw_Swap := sm\<rparr>) = (book_of s)\<lparr>bk_swap := sm\<rparr>"
  "book_of (s\<lparr>sw_NextId := Some n\<rparr>) = (book_of s)\<lparr>bk_next := n\<rparr>"
  "book_of (s\<lparr>sw_SwapCollateral := f\<rparr>) = (book_of s)\<lparr>bk_coll := f\<rparr>"
  "book_of (s\<lparr>sw_EscrowDeposit := f\<rparr>) = (book_of s)\<lparr>bk_dep := f\<rparr>"
  "book_of (s\<lparr>sw_ActiveSwap := k\<rparr>) = (book_of s)\<lparr>bk_lock := k\<rparr>"
  "book_of (s\<lparr>sw_Auction := am\<rparr>) = (book_of s)\<lparr>bk_auction := am\<rparr>"
  "book_of (s\<lparr>sw_NextAuctionId := Some n\<rparr>) = (book_of s)\<lparr>bk_next_auction := n\<rparr>"
  "book_of (s\<lparr>sw_InsuranceClaimable := cl\<rparr>) = (book_of s)\<lparr>bk_claim := cl\<rparr>"
  "book_of (s\<lparr>sw_SwapRenegotiations := rn\<rparr>) = (book_of s)\<lparr>bk_offer := rn\<rparr>"
  by (simp_all add: book_of_def next_swap_id_def get_swap_history_fun)

definition history_entry :: "env \<Rightarrow> SwapStatus \<Rightarrow> SwapHistoryEntry" where
  "history_entry E st = \<lparr>he_status = st, he_timestamp = now E\<rparr>"

definition add_history :: "nat \<Rightarrow> SwapHistoryEntry \<Rightarrow> book \<Rightarrow> book" where
  "add_history i h b = b\<lparr>bk_hist := (bk_hist b)(i := bk_hist b i @ [h])\<rparr>"

definition add_score :: "address \<Rightarrow> int \<Rightarrow> book \<Rightarrow> book" where
  "add_score a d b = b\<lparr>bk_score := (bk_score b)
     (a \<mapsto> adjusted_reputation (unwrap_or 50 (bk_score b a)) d)\<rparr>"

definition add_paid :: "payment list \<Rightarrow> book \<Rightarrow> book" where
  "add_paid ps b = b\<lparr>bk_paid := bk_paid b @ ps\<rparr>"

lemma book_helpers [simp]:
  "book_of (extend_key k n s) = book_of s"
  "book_of (emit w xs s) = book_of s"
  "book_of (save_swap i r s) = (book_of s)\<lparr>bk_swap := (bk_swap (book_of s))(i \<mapsto> r)\<rparr>"
  "book_of (append_swap_for_party a b i s) = book_of s"
  "book_of (append_history E i st s) = add_history i (history_entry E st) (book_of s)"
  "book_of (lock_ip ip i s) = (book_of s)\<lparr>bk_lock := (bk_lock (book_of s))(ip \<mapsto> i)\<rparr>"
  "book_of (unlock_ip ip s) = (book_of s)\<lparr>bk_lock := (bk_lock (book_of s))(ip := None)\<rparr>"
  "book_of (append_ip_swap ip i n s) = book_of s"
  "book_of (set_cancel_reason i reason s) = book_of s"
  "book_of (update_user_reputation a d s) = add_score a d (book_of s)"
  by (simp_all add: book_of_def state_simps next_swap_id_def get_swap_history_fun history_entry_def
      add_history_def add_score_def Let_def fun_eq_iff)

lemma book_transfer:
  "transfer E tok src dst x s = Inr t \<Longrightarrow>
    book_of t = add_paid [(tok, src, dst, x)] (book_of s)"
  by (auto simp: transfer_def book_of_def next_swap_id_def get_swap_history_fun add_paid_def
      split: if_splits)

lemma book_log [simp]:
  "book_of (s\<lparr>sw_log := sw_log s @ [UpdateWasm w]\<rparr>) = book_of s"
  by (simp add: book_of_def next_swap_id_def get_swap_history_fun)

lemma add_fields [simp]:
  "bk_swap (add_history i h b) = bk_swap b" "bk_next (add_history i h b) = bk_next b"
  "bk_coll (add_history i h b) = bk_coll b" "bk_dep (add_history i h b) = bk_dep b"
  "bk_paid (add_history i h b) = bk_paid b" "bk_lock (add_history i h b) = bk_lock b"
  "bk_score (add_history i h b) = bk_score b" "bk_auction (add_history i h b) = bk_auction b"
  "bk_next_auction (add_history i h b) = bk_next_auction b"
  "bk_claim (add_history i h b) = bk_claim b" "bk_offer (add_history i h b) = bk_offer b"
  "bk_hist (add_history i h b) = (bk_hist b)(i := bk_hist b i @ [h])"
  "bk_swap (add_score a d b) = bk_swap b" "bk_next (add_score a d b) = bk_next b"
  "bk_coll (add_score a d b) = bk_coll b" "bk_dep (add_score a d b) = bk_dep b"
  "bk_paid (add_score a d b) = bk_paid b" "bk_lock (add_score a d b) = bk_lock b"
  "bk_hist (add_score a d b) = bk_hist b" "bk_auction (add_score a d b) = bk_auction b"
  "bk_next_auction (add_score a d b) = bk_next_auction b"
  "bk_claim (add_score a d b) = bk_claim b" "bk_offer (add_score a d b) = bk_offer b"
  "bk_score (add_score a d b) =
     (bk_score b)(a \<mapsto> adjusted_reputation (unwrap_or 50 (bk_score b a)) d)"
  "bk_swap (add_paid ps b) = bk_swap b" "bk_next (add_paid ps b) = bk_next b"
  "bk_coll (add_paid ps b) = bk_coll b" "bk_dep (add_paid ps b) = bk_dep b"
  "bk_hist (add_paid ps b) = bk_hist b" "bk_lock (add_paid ps b) = bk_lock b"
  "bk_score (add_paid ps b) = bk_score b" "bk_auction (add_paid ps b) = bk_auction b"
  "bk_next_auction (add_paid ps b) = bk_next_auction b" "bk_claim (add_paid ps b) = bk_claim b"
  "bk_offer (add_paid ps b) = bk_offer b"
  "bk_paid (add_paid ps b) = bk_paid b @ ps"
  by (simp_all add: add_history_def add_score_def add_paid_def)

section \<open>Shapes of change\<close>

fun rescore :: "(address \<times> int) list \<Rightarrow> (address \<rightharpoonup> nat) \<Rightarrow> address \<rightharpoonup> nat" where
  "rescore [] f = f"
| "rescore ((a, d) # xs) f = rescore xs (f(a \<mapsto> adjusted_reputation (unwrap_or 50 (f a)) d))"

text \<open>
  \<open>touch i q c d ps hs u sc\<close>: swap \<open>i\<close> becomes \<open>q\<close>, its collateral \<open>c\<close>, its escrow deposit \<open>d\<close>; the payments
  \<open>ps\<close> are made, the entries \<open>hs\<close> go to its history, its registry record is unlocked if \<open>u\<close>, and the
  scores change by \<open>sc\<close>.
\<close>

definition touch :: "nat \<Rightarrow> SwapRecord \<Rightarrow> int option \<Rightarrow> int option \<Rightarrow> payment list \<Rightarrow>
    SwapHistoryEntry list \<Rightarrow> bool \<Rightarrow> (address \<times> int) list \<Rightarrow> book \<Rightarrow> book" where
  "touch i q c d ps hs u sc b = b\<lparr>
     bk_swap := (bk_swap b)(i \<mapsto> q), bk_coll := (bk_coll b)(i := c), bk_dep := (bk_dep b)(i := d),
     bk_paid := bk_paid b @ ps, bk_hist := (bk_hist b)(i := bk_hist b i @ hs),
     bk_lock := (if u then (bk_lock b)(sp_ip_id q := None) else bk_lock b),
     bk_score := rescore sc (bk_score b)\<rparr>"

text \<open>\<open>enter E r l\<close>: the record \<open>r\<close> becomes the next swap, and its registry record is locked if \<open>l\<close>.\<close>

definition enter :: "env \<Rightarrow> SwapRecord \<Rightarrow> bool \<Rightarrow> book \<Rightarrow> book" where
  "enter E r l b = b\<lparr>
     bk_swap := (bk_swap b)(bk_next b \<mapsto> r), bk_next := bk_next b + 1,
     bk_hist := (bk_hist b)(bk_next b := bk_hist b (bk_next b) @ [history_entry E (sp_status r)]),
     bk_lock := (if l then (bk_lock b)(sp_ip_id r \<mapsto> bk_next b) else bk_lock b)\<rparr>"

lemma touch_fields [simp]:
  "bk_swap (touch i q c d ps hs u sc b) = (bk_swap b)(i \<mapsto> q)"
  "bk_next (touch i q c d ps hs u sc b) = bk_next b"
  "bk_coll (touch i q c d ps hs u sc b) = (bk_coll b)(i := c)"
  "bk_dep (touch i q c d ps hs u sc b) = (bk_dep b)(i := d)"
  "bk_paid (touch i q c d ps hs u sc b) = bk_paid b @ ps"
  "bk_hist (touch i q c d ps hs u sc b) = (bk_hist b)(i := bk_hist b i @ hs)"
  "bk_lock (touch i q c d ps hs u sc b) = (if u then (bk_lock b)(sp_ip_id q := None) else bk_lock b)"
  "bk_score (touch i q c d ps hs u sc b) = rescore sc (bk_score b)"
  "bk_auction (touch i q c d ps hs u sc b) = bk_auction b"
  "bk_next_auction (touch i q c d ps hs u sc b) = bk_next_auction b"
  "bk_claim (touch i q c d ps hs u sc b) = bk_claim b" "bk_offer (touch i q c d ps hs u sc b) = bk_offer b"
  by (simp_all add: touch_def)

lemma enter_fields [simp]:
  "bk_swap (enter E r l b) = (bk_swap b)(bk_next b \<mapsto> r)"
  "bk_next (enter E r l b) = bk_next b + 1"
  "bk_coll (enter E r l b) = bk_coll b" "bk_dep (enter E r l b) = bk_dep b"
  "bk_paid (enter E r l b) = bk_paid b"
  "bk_hist (enter E r l b) =
     (bk_hist b)(bk_next b := bk_hist b (bk_next b) @ [history_entry E (sp_status r)])"
  "bk_lock (enter E r l b) = (if l then (bk_lock b)(sp_ip_id r \<mapsto> bk_next b) else bk_lock b)"
  "bk_score (enter E r l b) = bk_score b" "bk_auction (enter E r l b) = bk_auction b"
  "bk_next_auction (enter E r l b) = bk_next_auction b" "bk_claim (enter E r l b) = bk_claim b"
  "bk_offer (enter E r l b) = bk_offer b"
  by (simp_all add: enter_def)

lemma book_eqI:
  fixes a b :: book
  assumes "bk_swap a = bk_swap b" "bk_next a = bk_next b" "bk_coll a = bk_coll b"
    "bk_dep a = bk_dep b" "bk_paid a = bk_paid b" "bk_hist a = bk_hist b" "bk_lock a = bk_lock b"
    "bk_score a = bk_score b" "bk_auction a = bk_auction b"
    "bk_next_auction a = bk_next_auction b" "bk_claim a = bk_claim b"
    "bk_offer a = bk_offer b"
  shows "a = b"
  using assms by simp

section \<open>Acceptance\<close>

definition accepted :: "env \<Rightarrow> SwapRecord \<Rightarrow> SwapRecord" where
  "accepted E r = r\<lparr>sp_accept_timestamp := now E, sp_status := Accepted\<rparr>"

definition premium_payment :: "env \<Rightarrow> SwapRecord \<Rightarrow> payment list" where
  "premium_payment E r = (if sp_insurance_enabled r \<and> sp_insurance_premium r > 0
     then [(sp_token r, sp_buyer r, this_addr E, sp_insurance_premium r)] else [])"

definition price_payment :: "env \<Rightarrow> SwapRecord \<Rightarrow> payment" where
  "price_payment E r = (sp_token r, sp_buyer r, this_addr E, sp_price r)"

lemma collect_premium_book:
  "collect_premium E r s = Inr t \<Longrightarrow> book_of t = add_paid (premium_payment E r) (book_of s)"
  by (auto simp: collect_premium_def premium_payment_def Let_def add_paid_def dest!: book_transfer
      split: if_splits)

text \<open>The part of the book that an operation on swap \<open>i\<close> leaves as it is.\<close>

abbreviation coll_of :: "swaps \<Rightarrow> nat \<Rightarrow> int option" where
  "coll_of s i \<equiv> bk_coll (book_of s) i"

abbreviation dep_of :: "swaps \<Rightarrow> nat \<Rightarrow> int option" where
  "dep_of s i \<equiv> bk_dep (book_of s) i"

lemmas book_simps = read_book touch_def enter_def add_history_def add_score_def add_paid_def Let_def

lemma accept_swap_conditional_effect:
  assumes "accept_swap_conditional E i cs s = Inr t"
  obtains r where "bk_swap (book_of s) i = Some r" "authorized E (sp_buyer r)"
    "sp_status r = Pending"
    "book_of t = touch i (accepted E (r\<lparr>sp_conditions := cs\<rparr>)) (coll_of s i) (dep_of s i)
      [price_payment E r] [history_entry E Accepted] False [] (book_of s)"
  using assms
  by (auto simp: accept_swap_conditional_def accepted_def price_payment_def book_simps
      dest!: book_transfer)

lemma accept_swap_effect:
  assumes "accept_swap E i s = Inr t"
  obtains r where "bk_swap (book_of s) i = Some r" "authorized E (sp_buyer r)"
    "sp_status r = Pending"
    "sp_required_approvals r \<le> length (unwrap_or [] (sw_SwapApprovals s i))"
    "0 < sp_collateral_amount r \<Longrightarrow> coll_of s i = None"
    "book_of t = touch i (accepted E r)
      (if 0 < sp_collateral_amount r then Some (sp_collateral_amount r) else coll_of s i)
      (dep_of s i)
      ((if 0 < sp_collateral_amount r
        then [(sp_token r, sp_buyer r, this_addr E, sp_collateral_amount r)] else []) @
       [price_payment E r] @ premium_payment E r) [history_entry E Accepted] False [] (book_of s)"
  using assms
  by (cases "\<exists>r. sw_Swap s i = Some r \<and> 0 < sp_collateral_amount r")
    (auto simp: accept_swap_def accepted_def price_payment_def book_simps
      dest!: book_transfer collect_premium_book)

lemma accept_swap_partial_effect:
  assumes "accept_swap_partial E i n s = Inr t"
  obtains r p where "bk_swap (book_of s) i = Some r" "authorized E (sp_buyer r)"
    "sp_status r = Pending" "0 < n" "n \<le> sp_quantity r"
    "p = tdiv (sp_price r * int n) (int (sp_quantity r))"
    "book_of t = touch i (accepted E (r\<lparr>sp_price := p, sp_quantity := n\<rparr>)) (coll_of s i)
      (dep_of s i) [(sp_token r, sp_buyer r, this_addr E, p)] [history_entry E Accepted] False []
      (book_of s)"
  using assms
  by (auto simp: accept_swap_partial_def accepted_def book_simps dest!: book_transfer)

lemma batch_accept_step_effect:
  assumes "batch_accept_step E i s = Inr t"
  obtains r where "bk_swap (book_of s) i = Some r"
    "book_of t = touch i (accepted E r)
      (if 0 < sp_collateral_amount r \<and> coll_of s i = None
       then Some (sp_collateral_amount r) else coll_of s i) (dep_of s i)
      ((if 0 < sp_collateral_amount r \<and> coll_of s i = None
        then [(sp_token r, sp_buyer r, this_addr E, sp_collateral_amount r)] else []) @
       [price_payment E r] @ premium_payment E r) [history_entry E Accepted] False [] (book_of s)"
  using assms
  by (cases "\<exists>r. sw_Swap s i = Some r \<and> 0 < sp_collateral_amount r \<and> coll_of s i = None")
    (auto simp: batch_accept_step_def accepted_def price_payment_def book_simps fun_upd_idem
      dest!: book_transfer collect_premium_book)

lemma submit_installment_payment_effect:
  assumes "submit_installment_payment E i x s = Inr t"
  obtains r p where "bk_swap (book_of s) i = Some r" "authorized E (sp_buyer r)"
    "sp_status r = Pending" "sp_is_installment r" "0 < x"
    "x \<le> sat_i128 (sp_price r - sp_paid_amount r)" "p = sat_i128 (sp_paid_amount r + x)"
    "book_of t = touch i
      (if sp_price r \<le> p
       then r\<lparr>sp_paid_amount := p, sp_status := Accepted, sp_accept_timestamp := now E\<rparr>
       else r\<lparr>sp_paid_amount := p\<rparr>) (coll_of s i) (dep_of s i)
      [(sp_token r, sp_buyer r, this_addr E, x)]
      (if sp_price r \<le> p then [history_entry E Accepted] else []) False [] (book_of s)"
  using assms
  by (auto simp: submit_installment_payment_def book_simps dest!: book_transfer split: if_splits)

lemma make_scheduled_payment_effect:
  assumes "make_scheduled_payment E i k s = Inr t"
  obtains r sch made where "bk_swap (book_of s) i = Some r" "authorized E (sp_buyer r)"
    "sw_PaymentSchedule s i = Some sch" "k < length sch" "ps_due_timestamp (sch ! k) \<le> now E"
    "k < length (unwrap_or [] (sw_PaymentsMade s i))" "\<not> unwrap_or [] (sw_PaymentsMade s i) ! k"
    "made = (unwrap_or [] (sw_PaymentsMade s i))[k := True]"
    "book_of t = touch i
      (if list_all (\<lambda>paid. paid) made
       then r\<lparr>sp_status := Accepted, sp_accept_timestamp := now E\<rparr> else r) (coll_of s i) (dep_of s i)
      [(sp_token r, sp_buyer r, this_addr E, ps_amount (sch ! k))]
      (if list_all (\<lambda>paid. paid) made then [history_entry E Accepted] else []) False [] (book_of s)"
  using assms
  by (auto simp: make_scheduled_payment_def book_simps fun_upd_idem dest!: book_transfer
      split: if_splits)

lemma deposit_escrow_effect:
  assumes "deposit_escrow E i r s = Inr t" and "bk_swap (book_of s) i = Some r"
  shows "sw_SwapMode s i = Some Escrow \<and> sp_status r = Pending \<and>
    book_of t = touch i (accepted E r) (coll_of s i) (Some (sp_price r))
      [price_payment E r] [history_entry E Accepted] False [] (book_of s)"
  using assms
  by (auto simp: deposit_escrow_def accepted_def price_payment_def book_simps unwrap_or_def
      dest!: book_transfer split: if_splits option.splits)

lemma escrow_deposit_effect:
  assumes "escrow_deposit E i s = Inr t"
  obtains r where "bk_swap (book_of s) i = Some r" "authorized E (sp_buyer r)"
    "sw_SwapMode s i = Some Escrow" "sp_status r = Pending"
    "book_of t = touch i (accepted E r) (coll_of s i) (Some (sp_price r))
      [price_payment E r] [history_entry E Accepted] False [] (book_of s)"
  using assms deposit_escrow_effect
  by (auto simp: escrow_deposit_def bindE_Inr_iff book_fields)

section \<open>Release of the payment\<close>

text \<open>\<open>closed st r\<close>: the record with a new status. The shares of the price in the order of the code.\<close>

definition closed :: "SwapStatus \<Rightarrow> SwapRecord \<Rightarrow> SwapRecord" where
  "closed st r = r\<lparr>sp_status := st\<rparr>"

lemma closed_fields [simp]:
  "sp_status (closed st r) = st" "sp_ip_id (closed st r) = sp_ip_id r"
  "sp_price (closed st r) = sp_price r" "sp_token (closed st r) = sp_token r"
  "sp_seller (closed st r) = sp_seller r" "sp_buyer (closed st r) = sp_buyer r"
  "sp_referrer (closed st r) = sp_referrer r"
  "sp_collateral_amount (closed st r) = sp_collateral_amount r"
  "sp_conditions (closed st r) = sp_conditions r"
  "sp_insurance_enabled (closed st r) = sp_insurance_enabled r"
  "sp_insurance_premium (closed st r) = sp_insurance_premium r"
  "sp_paid_amount (closed st r) = sp_paid_amount r"
  "sp_quantity (closed st r) = sp_quantity r" "sp_expiry (closed st r) = sp_expiry r"
  by (simp_all add: closed_def)

definition fee_of :: "SwapRecord \<Rightarrow> int" where
  "fee_of r = (if 0 < sp_price r then sp_price r * 250 div 10000 else 0)"

definition referral_fee :: "SwapRecord \<Rightarrow> int" where
  "referral_fee r =
     (if sp_referrer r \<noteq> None \<and> 0 < sp_price r then sp_price r * 100 div 10000 else 0)"

definition fee_transfer :: "env \<Rightarrow> address \<Rightarrow> int \<Rightarrow> payment list" where
  "fee_transfer E tok f = (if 0 < f then [(tok, this_addr E, treasury_address, f)] else [])"

abbreviation fee_payment :: "env \<Rightarrow> SwapRecord \<Rightarrow> payment list" where
  "fee_payment E r \<equiv> fee_transfer E (sp_token r) (fee_of r)"

definition referral_transfer :: "env \<Rightarrow> SwapRecord \<Rightarrow> int \<Rightarrow> payment list" where
  "referral_transfer E r x = (case sp_referrer r of None \<Rightarrow> []
     | Some a \<Rightarrow> if 0 < x then [(sp_token r, this_addr E, a, x)] else [])"

abbreviation referral_payment :: "env \<Rightarrow> SwapRecord \<Rightarrow> payment list" where
  "referral_payment E r \<equiv> referral_transfer E r (referral_fee r)"

definition pay_out :: "env \<Rightarrow> SwapRecord \<Rightarrow> address \<Rightarrow> int \<Rightarrow> payment" where
  "pay_out E r a x = (sp_token r, this_addr E, a, x)"

definition released :: "env \<Rightarrow> address \<Rightarrow> SwapRecord \<Rightarrow> int option \<Rightarrow> payment list" where
  "released E to r c = (case c of None \<Rightarrow> []
     | Some x \<Rightarrow> if 0 < sp_collateral_amount r then [(sp_token r, this_addr E, to, x)] else [])"

definition retained :: "SwapRecord \<Rightarrow> int option \<Rightarrow> int option" where
  "retained r c = (if 0 < sp_collateral_amount r then None else c)"

lemma closed_shares [simp]:
  "fee_of (closed st r) = fee_of r" "referral_fee (closed st r) = referral_fee r"
  "referral_transfer E (closed st r) = referral_transfer E r"
  "pay_out E (closed st r) = pay_out E r"
  "released E to (closed st r) = released E to r" "retained (closed st r) = retained r"
  by (simp_all add: fee_of_def referral_fee_def referral_transfer_def pay_out_def
      released_def retained_def fun_eq_iff split: option.splits)

lemma release_collateral_book:
  "release_collateral E to ev i r s = Inr t \<Longrightarrow>
    book_of t = (add_paid (released E to r (coll_of s i)) (book_of s))
      \<lparr>bk_coll := (bk_coll (book_of s))(i := retained r (coll_of s i))\<rparr>"
  by (cases "coll_of s i"; cases ev)
    (auto simp: release_collateral_def released_def retained_def add_paid_def Let_def read_book
      fun_upd_idem dest!: book_transfer split: if_splits)

lemma pay_referral_book:
  "pay_referral E i r x s = Inr t \<Longrightarrow> book_of t = add_paid (referral_transfer E r x) (book_of s)"
  by (auto simp: pay_referral_def referral_transfer_def add_paid_def
      dest!: book_transfer split: if_splits option.splits)

lemma protocol_bps [simp]: "bps_of (sp_price r) (pc_protocol_fee_bps protocol_config) = Inr f \<longleftrightarrow>
    f = fee_of r \<and> (0 < sp_price r \<longrightarrow> sp_price r * 250 < 2 ^ 127)"
  by (auto simp: bps_of_Inr protocol_config_def fee_of_def)

lemma referral_of_Inr [simp]: "referral_of r = Inr f \<longleftrightarrow> f = referral_fee r \<and>
    (sp_referrer r \<noteq> None \<longrightarrow> 0 < sp_price r \<longrightarrow> sp_price r * 100 < 2 ^ 127)"
  by (auto simp: referral_of_def bps_of_Inr protocol_config_def referral_fee_def)

text \<open>The conditional transfer of the fee, alone and with its event.\<close>

lemma fee_step_book:
  "(if 0 < f then transfer E tok (this_addr E) (pc_treasury protocol_config) f s else Inr s) = Inr t \<Longrightarrow>
    book_of t = add_paid (fee_transfer E tok f) (book_of s)"
  by (auto simp: fee_transfer_def add_paid_def protocol_config_def dest!: book_transfer split: if_splits)

lemma fee_event_book:
  "(if 0 < f
    then bindE (transfer E tok (this_addr E) (pc_treasury protocol_config) f s)
           (\<lambda>s. Inr (emit w (xs s) s))
    else Inr s) = Inr t \<Longrightarrow> book_of t = add_paid (fee_transfer E tok f) (book_of s)"
  by (auto simp: fee_transfer_def add_paid_def protocol_config_def dest!: book_transfer split: if_splits)

lemmas closed_raw [simp] = closed_shares [unfolded closed_def]

lemmas pay_books = book_transfer fee_step_book fee_event_book pay_referral_book
  release_collateral_book collect_premium_book

lemma guard_Inr:
  "(case x of None \<Rightarrow> Inr () | Some sgs \<Rightarrow> if n < length sgs then Inl e else Inr ()) = Inr u \<longleftrightarrow>
    (\<forall>sgs. x = Some sgs \<longrightarrow> length sgs \<le> n)"
  "(if c then m else Inr ()) = Inr u \<longleftrightarrow> (c \<longrightarrow> m = Inr ())"
  by (auto split: option.splits)

lemma reveal_key_effect:
  assumes "reveal_key E R i a x y s = Inr t"
  obtains r where "bk_swap (book_of s) i = Some r" "authorized E (sp_seller r)" "a = sp_seller r"
    "sp_status r = Accepted" "verify_commitment E R (sp_ip_id r) x y = Inr True"
    "\<And>sgs. sw_SwapSigners s i = Some sgs \<Longrightarrow>
      length sgs \<le> length (unwrap_or [] (sw_SwapSignatures s i))"
    "sp_conditions r \<noteq> [] \<Longrightarrow> evaluate_conditions E r = Inr ()"
    "book_of t = touch i (closed Completed r) (retained r (coll_of s i)) (dep_of s i)
      (fee_payment E r @ referral_payment E r @
       [pay_out E r (sp_seller r) (sp_price r - fee_of r - referral_fee r)] @
       released E (sp_buyer r) r (coll_of s i)) [history_entry E Completed] True
      [(sp_seller r, 5), (sp_buyer r, 5)] (book_of s)"
  using assms
  by (auto simp: reveal_key_def book_simps closed_def pay_out_def guard_Inr dest!: pay_books)

lemma batch_reveal_step_effect:
  assumes "batch_reveal_step E i (fees, s) = Inr (fees', t)"
  obtains r where "bk_swap (book_of s) i = Some r"
    "fees' = fees @ [\<lparr>fb_swap_id = i, fb_price = sp_price r, fb_protocol_fee = fee_of r,
       fb_referral_fee = referral_fee r, fb_seller_amount = sp_price r - fee_of r - referral_fee r\<rparr>]"
    "book_of t = touch i (closed Completed r) (retained r (coll_of s i)) (dep_of s i)
      ([pay_out E r (sp_seller r) (sp_price r - fee_of r - referral_fee r)] @
       fee_payment E r @ referral_payment E r @ released E (sp_seller r) r (coll_of s i))
      [history_entry E Completed] True [(sp_seller r, 5), (sp_buyer r, 5)] (book_of s)"
  using assms
  by (auto simp: batch_reveal_step_def book_simps closed_def pay_out_def dest!: pay_books)

lemma verify_and_complete_effect:
  assumes "verify_and_complete_swap E R i a x y s = Inr t"
  obtains (invalid) r where "bk_swap (book_of s) i = Some r" "a = sp_seller r" "authorized E a"
    "sp_status r = Accepted" "verify_commitment E R (sp_ip_id r) x y = Inr False"
    "book_of t = touch i (closed Cancelled r) (retained r (coll_of s i)) (dep_of s i)
      (pay_out E r (sp_buyer r) (sp_price r) # released E (sp_buyer r) r (coll_of s i))
      [] True [] (book_of s)"
  | (valid) r where "bk_swap (book_of s) i = Some r" "a = sp_seller r" "authorized E a"
    "sp_status r = Accepted" "verify_commitment E R (sp_ip_id r) x y = Inr True"
    "book_of t = touch i (closed Completed r) (retained r (coll_of s i)) (dep_of s i)
      (pay_out E r (sp_seller r) (sp_price r - fee_of r) # fee_payment E r @
       released E (sp_seller r) r (coll_of s i)) [] True [] (book_of s)"
proof -
  from assms obtain r b where r: "sw_Swap s i = Some r" "a = sp_seller r" "authorized E a"
    "sp_status r = Accepted" and b: "verify_commitment E R (sp_ip_id r) x y = Inr b"
    by (auto simp: verify_and_complete_swap_def Let_def)
  show thesis
  proof (cases b)
    case True
    with assms r b show thesis
      by (intro valid [of r])
        (auto simp: verify_and_complete_swap_def book_simps closed_def pay_out_def dest!: pay_books)
  next
    case False
    with assms r b show thesis
      by (intro invalid [of r])
        (auto simp: verify_and_complete_swap_def book_simps closed_def pay_out_def dest!: pay_books)
  qed
qed

section \<open>Cancellation\<close>

lemma escrow_withdraw_effect:
  assumes "escrow_withdraw E i s = Inr t"
  obtains r where "bk_swap (book_of s) i = Some r" "authorized E (sp_buyer r)"
    "sp_status r = Accepted" "sp_expiry r < now E"
    "book_of t = touch i (closed Cancelled r) (coll_of s i) None
      (case dep_of s i of Some d \<Rightarrow> if 0 < d then [pay_out E r (sp_buyer r) d] else [] | None \<Rightarrow> [])
      [history_entry E Cancelled] True [] (book_of s)"
proof -
  from assms obtain r where r: "sw_Swap s i = Some r" "authorized E (sp_buyer r)"
    "sp_status r = Accepted" "sp_expiry r < now E"
    by (auto simp: escrow_withdraw_def Let_def)
  with assms show thesis
    by (cases "dep_of s i"; intro that [of r])
      (auto simp: escrow_withdraw_def book_simps closed_def pay_out_def
        dest!: book_transfer split: if_splits)
qed

lemma cancel_swap_effect:
  assumes "cancel_swap E i a s = Inr t"
  obtains r where "bk_swap (book_of s) i = Some r" "a = sp_seller r \<or> a = sp_buyer r"
    "authorized E a" "sp_status r = Pending"
    "book_of t = touch i (closed Cancelled r) (coll_of s i) (dep_of s i) []
      [history_entry E Cancelled] True [(a, - 10)] (book_of s)"
  using assms by (auto simp: cancel_swap_def book_simps closed_def)

lemma batch_cancel_step_effect:
  assumes "batch_cancel_step E a (i, reason) (ids, s) = Inr (ids', t)"
  obtains r where "bk_swap (book_of s) i = Some r" "a = sp_seller r \<or> a = sp_buyer r"
    "sp_status r = Pending" "ids' = ids @ [i]"
    "book_of t = touch i (closed Cancelled r) (coll_of s i) (dep_of s i) []
      [history_entry E Cancelled] True [(a, - 10)] (book_of s)"
  using assms by (auto simp: batch_cancel_step_def book_simps closed_def)

lemma cancel_pending_swap_effect:
  assumes "cancel_pending_swap E i a s = Inr t"
  obtains r where "bk_swap (book_of s) i = Some r" "a = sp_buyer r" "authorized E a"
    "sp_status r = Pending" "sp_expiry r \<le> now E"
    "book_of t = touch i (closed Cancelled r) (coll_of s i) (dep_of s i) []
      [history_entry E Cancelled] True [] (book_of s)"
  using assms by (auto simp: cancel_pending_swap_def book_simps closed_def)

lemma cancel_expired_swap_effect:
  assumes "cancel_expired_swap E i a s = Inr t"
  obtains r where "bk_swap (book_of s) i = Some r" "a = sp_buyer r" "sp_status r = Accepted"
    "sp_expiry r < now E"
    "book_of t = touch i (closed Cancelled r) (retained r (coll_of s i)) (dep_of s i)
      (pay_out E r (sp_buyer r) (sp_price r) # released E (sp_buyer r) r (coll_of s i))
      [history_entry E Cancelled] True [(sp_seller r, - 10)] (book_of s)"
  using assms
  by (auto simp: cancel_expired_swap_def book_simps closed_def pay_out_def dest!: pay_books)

section \<open>Rulings\<close>

lemma raise_dispute_effect:
  assumes "raise_dispute E i s = Inr t"
  obtains r where "bk_swap (book_of s) i = Some r" "authorized E (sp_buyer r)"
    "sp_status r = Accepted" "now E - sp_accept_timestamp r < 86400"
    "book_of t = touch i (r\<lparr>sp_status := Disputed, sp_dispute_timestamp := now E\<rparr>)
      (coll_of s i) (dep_of s i) [] [] False [] (book_of s)"
  using assms by (auto simp: raise_dispute_def book_simps protocol_config_def)

lemma resolve_swap_dispute_effect:
  assumes "resolve_swap_dispute E i a refunded s = Inr t"
  obtains (refund) r where "refunded" "bk_swap (book_of s) i = Some r" "authorized E a"
    "sw_InstanceAdmin s = Some a" "sp_status r = Disputed"
    "book_of t = touch i (closed Cancelled r) (coll_of s i) (dep_of s i)
      [pay_out E r (sp_buyer r) (sp_price r)] [] True [] (book_of s)"
  | (pay) r f where "\<not> refunded" "bk_swap (book_of s) i = Some r" "authorized E a"
    "sw_InstanceAdmin s = Some a" "sp_status r = Disputed" "f = tdiv (sp_price r * 250) 10000"
    "book_of t = touch i (closed Completed r) (coll_of s i) (dep_of s i)
      (fee_transfer E (sp_token r) f @ [pay_out E r (sp_seller r) (sp_price r - f)])
      [] True [] (book_of s)"
proof -
  from assms obtain r where r: "sw_Swap s i = Some r" "authorized E a"
    "sw_InstanceAdmin s = Some a" "sp_status r = Disputed"
    by (auto simp: resolve_swap_dispute_def Let_def)
  show thesis
  proof (cases refunded)
    case True
    with assms r show thesis
      by (intro refund [of r])
        (auto simp: resolve_swap_dispute_def book_simps closed_def pay_out_def dest!: book_transfer)
  next
    case False
    have bps: "pc_protocol_fee_bps protocol_config = 250" by (simp add: protocol_config_def)
    from False assms r show thesis
      by (intro pay [of r "tdiv (sp_price r * 250) 10000"])
        (auto simp: resolve_swap_dispute_def book_simps closed_def pay_out_def bps dest!: pay_books)
  qed
qed

lemma auto_resolve_dispute_effect:
  assumes "auto_resolve_dispute E i s = Inr t"
  obtains r where "bk_swap (book_of s) i = Some r" "sp_status r = Disputed"
    "604800 \<le> now E - sp_dispute_timestamp r"
    "book_of t = touch i (closed Cancelled r) (coll_of s i) (dep_of s i)
      [pay_out E r (sp_buyer r) (sp_price r)] [] True [] (book_of s)"
  using assms
  by (auto simp: auto_resolve_dispute_def book_simps closed_def pay_out_def protocol_config_def
      dest!: book_transfer)

lemma auto_refund_timeout_effect:
  assumes "auto_refund_timeout E i s = Inr t"
  obtains r ts where "bk_swap (book_of s) i = Some r" "sp_status r = Disputed"
    "sw_ArbitrationTimestamp s i = Some ts" "1209600 \<le> now E - ts"
    "book_of t = touch i (closed Cancelled r) (coll_of s i) (dep_of s i)
      [pay_out E r (sp_buyer r) (sp_price r)] [history_entry E Cancelled] True [] (book_of s)"
  using assms
  by (auto simp: auto_refund_timeout_def book_simps closed_def pay_out_def protocol_config_def
      dest!: book_transfer)

text \<open>The payments of the two arbitrations, in the order of the code.\<close>

definition ruling_payments :: "env \<Rightarrow> bool \<Rightarrow> SwapRecord \<Rightarrow> int option \<Rightarrow> payment list" where
  "ruling_payments E refund r c =
     (if refund then pay_out E r (sp_buyer r) (sp_price r) # released E (sp_buyer r) r c
      else pay_out E r (sp_seller r) (sp_price r - fee_of r) # fee_payment E r @
        released E (sp_seller r) r c)"

definition ruling_status :: "bool \<Rightarrow> SwapStatus" where
  "ruling_status refund = (if refund then Cancelled else Completed)"

lemma arbitrate_swap_effect:
  assumes "arbitrate_swap E i a refund s = Inr t"
  obtains r where "bk_swap (book_of s) i = Some r" "authorized E a"
    "book_of t = touch i (closed (ruling_status refund) r) (retained r (coll_of s i)) (dep_of s i)
      (if refund then ruling_payments E True r (coll_of s i)
       else released E (sp_seller r) r (coll_of s i) @
         pay_out E r (sp_seller r) (sp_price r - fee_of r) # fee_payment E r)
      [] True [] (book_of s)"
  using assms
  by (cases refund)
    (auto simp: arbitrate_swap_def ruling_payments_def ruling_status_def book_simps closed_def
      pay_out_def dest!: pay_books)

lemma batch_arbitrate_step_effect:
  assumes "batch_arbitrate_step E a refund i s = Inr t"
  obtains r where "bk_swap (book_of s) i = Some r" "sp_status r = Disputed"
    "book_of t = touch i (closed (ruling_status refund) r) (retained r (coll_of s i)) (dep_of s i)
      (ruling_payments E refund r (coll_of s i)) [history_entry E (ruling_status refund)] True []
      (book_of s)"
  using assms
  by (cases refund)
    (auto simp: batch_arbitrate_step_def ruling_payments_def ruling_status_def book_simps closed_def
      pay_out_def dest!: pay_books)

definition rollback_payments :: "env \<Rightarrow> SwapRecord \<Rightarrow> int option \<Rightarrow> payment list" where
  "rollback_payments E r c =
     (if sp_status r = Accepted \<or> sp_status r = Disputed
      then pay_out E r (sp_buyer r) (sp_price r) #
        (case c of None \<Rightarrow> [] | Some x \<Rightarrow> [pay_out E r (sp_buyer r) x]) @
        (if 0 < sp_insurance_premium r
         then [pay_out E r (sp_buyer r) (sp_insurance_premium r)] else [])
      else [])"

definition rolled_collateral :: "SwapRecord \<Rightarrow> int option \<Rightarrow> int option" where
  "rolled_collateral r c = (if sp_status r = Accepted \<or> sp_status r = Disputed then None else c)"

lemma rollback_refund_book:
  assumes "rollback_refund E i r s = Inr (x, t)"
  shows "book_of t = (add_paid (rollback_payments E r (coll_of s i)) (book_of s))
    \<lparr>bk_coll := (bk_coll (book_of s))(i := rolled_collateral r (coll_of s i))\<rparr>"
  using assms
  by (cases "coll_of s i"; cases "0 < sp_insurance_premium r")
    (auto simp: rollback_refund_def rollback_payments_def rolled_collateral_def pay_out_def
      add_paid_def read_book Let_def fun_upd_idem dest!: book_transfer split: if_splits)

lemma admin_rollback_swap_effect:
  assumes "admin_rollback_swap E i a reason s = Inr t"
  obtains r where "bk_swap (book_of s) i = Some r" "authorized E a" "sw_InstanceAdmin s = Some a"
    "sp_status r \<noteq> Completed"
    "book_of t = touch i (closed Cancelled r) (rolled_collateral r (coll_of s i)) (dep_of s i)
      (rollback_payments E r (coll_of s i)) [history_entry E Cancelled] True [] (book_of s)"
  using assms
  by (auto simp: admin_rollback_swap_def book_simps closed_def dest!: rollback_refund_book)

text \<open>The refund of a batch rollback is written out in its loop.\<close>

definition held_refund :: "env \<Rightarrow> nat \<Rightarrow> SwapRecord \<Rightarrow> swaps \<Rightarrow> swaps sout" where
  "held_refund E i r s =
     bindE (transfer E (sp_token r) (this_addr E) (sp_buyer r) (sp_price r) s) (\<lambda>s.
     bindE (case sw_SwapCollateral s i of
         None \<Rightarrow> Inr s
       | Some collateral \<Rightarrow>
           bindE (transfer E (sp_token r) (this_addr E) (sp_buyer r) collateral s) (\<lambda>s.
           Inr (s\<lparr>sw_SwapCollateral := (sw_SwapCollateral s)(i := None)\<rparr>))) (\<lambda>s.
     if sp_insurance_premium r > 0
     then transfer E (sp_token r) (this_addr E) (sp_buyer r) (sp_insurance_premium r) s
     else Inr s))"

lemma held_refund_book:
  assumes "held_refund E i r s = Inr t" and "sp_status r = Accepted \<or> sp_status r = Disputed"
  shows "book_of t = (add_paid (rollback_payments E r (coll_of s i)) (book_of s))
    \<lparr>bk_coll := (bk_coll (book_of s))(i := rolled_collateral r (coll_of s i))\<rparr>"
  using assms(1)
  by (cases "coll_of s i"; cases "0 < sp_insurance_premium r")
    (auto simp: held_refund_def rollback_payments_def rolled_collateral_def pay_out_def assms(2)
      add_paid_def read_book fun_upd_idem dest!: book_transfer)

lemma unheld_refund: "\<not> (sp_status r = Accepted \<or> sp_status r = Disputed) \<Longrightarrow>
    book_of s = (add_paid (rollback_payments E r (coll_of s i)) (book_of s))
      \<lparr>bk_coll := (bk_coll (book_of s))(i := rolled_collateral r (coll_of s i))\<rparr>"
  by (auto simp: rollback_payments_def rolled_collateral_def add_paid_def)

lemma batch_rollback_step_effect:
  assumes "batch_rollback_step E reason i s = Inr t"
  obtains r where "bk_swap (book_of s) i = Some r"
    "book_of t = touch i (closed Cancelled r) (rolled_collateral r (coll_of s i)) (dep_of s i)
      (rollback_payments E r (coll_of s i)) [history_entry E Cancelled] True [] (book_of s)"
proof -
  from assms obtain r where r: "sw_Swap s i = Some r"
    by (auto simp: batch_rollback_step_def Let_def)
  let ?held = "sp_status r = Accepted \<or> sp_status r = Disputed"
  let ?rest = "\<lambda>u. append_history E i Cancelled (extend_key (Sk_CancelReason i) LEDGER_BUMP
      (set_cancel_reason i reason (unlock_ip (sp_ip_id r) (save_swap i (r\<lparr>sp_status := Cancelled\<rparr>) u))))"
  have "bindE (if ?held then held_refund E i r s else Inr s) (\<lambda>u. Inr (?rest u)) = Inr t"
    using assms r by (cases ?held)
      (simp_all add: batch_rollback_step_def Let_def held_refund_def require_swap_exists_def)
  then obtain u where u: "(if ?held then held_refund E i r s else Inr s) = Inr u" and t: "t = ?rest u"
    by (rule bindE_InrE) simp
  have "book_of u = (add_paid (rollback_payments E r (coll_of s i)) (book_of s))
      \<lparr>bk_coll := (bk_coll (book_of s))(i := rolled_collateral r (coll_of s i))\<rparr>"
  proof (cases ?held)
    case True
    then show ?thesis using u by (intro held_refund_book) simp_all
  next
    case False
    then have "u = s" using u by simp
    then show ?thesis using unheld_refund [OF False] by simp
  qed
  with r t show thesis by (intro that [of r]) (auto simp: book_simps closed_def)
qed

lemma validate_and_rollback_swap_effect:
  assumes "validate_and_rollback_swap E i v s = Inr (b, t)"
  obtains (kept) r where "v" "\<not> b" "t = s" "bk_swap (book_of s) i = Some r"
  | (rolled) r x where "\<not> v" "b" "bk_swap (book_of s) i = Some r" "authorized E (sp_buyer r)"
    "sp_status r = Completed" "now E - unwrap_or 0 (sw_CompletionTimestamp s i) \<le> 86400"
    "x = tdiv (sp_price r * 90) 100"
    "book_of t = touch i (closed RolledBack r) (coll_of s i) (dep_of s i)
      (pay_out E r (sp_buyer r) x # fee_transfer E (sp_token r) (sp_price r - x))
      [history_entry E RolledBack] False [] (book_of s)"
proof -
  from assms obtain r where r: "sw_Swap s i = Some r" "authorized E (sp_buyer r)"
    "sp_status r = Completed" "now E - unwrap_or 0 (sw_CompletionTimestamp s i) \<le> 86400"
    by (auto simp: validate_and_rollback_swap_def Let_def split: if_splits)
  show thesis
  proof (cases v)
    case True
    with assms r show thesis
      by (intro kept [of r]) (auto simp: validate_and_rollback_swap_def book_fields Let_def)
  next
    case False
    with assms r show thesis
      by (intro rolled [of r "tdiv (sp_price r * 90) 100"])
        (auto simp: validate_and_rollback_swap_def book_simps closed_def pay_out_def
          dest!: book_transfer fee_step_book)
  qed
qed

section \<open>Initiation\<close>

text \<open>What every initiating function guarantees of the record it stores.\<close>

definition fresh_swap :: "env \<Rightarrow> registry \<Rightarrow> address \<Rightarrow> address \<Rightarrow> address \<Rightarrow> SwapRecord \<Rightarrow> bool" where
  "fresh_swap E R token seller buyer r \<longleftrightarrow>
     sp_seller r = seller \<and> sp_buyer r = buyer \<and> sp_token r = token \<and>
     authorized E seller \<and> sp_status r = Pending \<and> 0 < sp_price r \<and> sp_paid_amount r = 0 \<and>
     sp_quantity r = 1 \<and> sp_conditions r = [] \<and>
     (\<exists>p. get_ip R (sp_ip_id r) = Inr p \<and> ir_owner p = seller \<and> \<not> ir_revoked p)"

lemma pending_swap_fields [simp]:
  "sp_ip_id (pending_swap ip seller buyer p tok x) = ip"
  "sp_seller (pending_swap ip seller buyer p tok x) = seller"
  "sp_buyer (pending_swap ip seller buyer p tok x) = buyer"
  "sp_price (pending_swap ip seller buyer p tok x) = p"
  "sp_token (pending_swap ip seller buyer p tok x) = tok"
  "sp_status (pending_swap ip seller buyer p tok x) = Pending"
  "sp_paid_amount (pending_swap ip seller buyer p tok x) = 0"
  "sp_quantity (pending_swap ip seller buyer p tok x) = 1"
  "sp_conditions (pending_swap ip seller buyer p tok x) = []"
  "sp_expiry (pending_swap ip seller buyer p tok x) = x"
  "sp_collateral_amount (pending_swap ip seller buyer p tok x) = 0"
  "sp_required_approvals (pending_swap ip seller buyer p tok x) = 0"
  "sp_referrer (pending_swap ip seller buyer p tok x) = None"
  "sp_insurance_premium (pending_swap ip seller buyer p tok x) = 0"
  "sp_insurance_enabled (pending_swap ip seller buyer p tok x) = False"
  by (simp_all add: pending_swap_def)

text \<open>A free registry record is locked by the new swap; the counter does not overflow.\<close>

definition enters :: "env \<Rightarrow> SwapRecord \<Rightarrow> swaps \<Rightarrow> swaps \<Rightarrow> bool" where
  "enters E r s t \<longleftrightarrow> bk_next (book_of s) + 1 < 2 ^ 64 \<and> bk_lock (book_of s) (sp_ip_id r) = None \<and>
     book_of t = enter E r True (book_of s)"

lemmas open_simps = fresh_swap_def enters_def book_simps

lemma initiate_swap_effect:
  assumes "initiate_swap E R tok ip seller p buyer n ref coll ins s = Inr (i, t)"
  obtains r where "fresh_swap E R tok seller buyer r" "enters E r s t" "i = bk_next (book_of s)"
    "sp_ip_id r = ip" "sp_price r = p" "sp_required_approvals r = n" "sp_referrer r = ref"
    "sp_collateral_amount r = coll" "sp_insurance_enabled r = ins"
    "sp_insurance_premium r = (if ins then p * 2 div 100 else 0)" "sp_expiry r = now E + 604800"
proof -
  let ?r = "(pending_swap ip seller buyer p tok (now E + 604800))
    \<lparr>sp_required_approvals := n, sp_referrer := ref, sp_collateral_amount := coll,
     sp_insurance_premium := (if ins then p * 2 div 100 else 0), sp_insurance_enabled := ins\<rparr>"
  from assms have "0 < p" by (auto simp: initiate_swap_def Let_def)
  then have "tdiv (p * 2) 100 = p * 2 div 100" by (intro tdiv_nonneg) auto
  with assms show thesis
    by (cases ins; intro that [of ?r])
      (auto simp: initiate_swap_def open_simps split: if_splits)
qed

lemma initiate_swap_with_oracle_price_effect:
  assumes "initiate_swap_with_oracle_price E R tok ip seller buyer n ref coll ins lo hi s = Inr (i, t)"
  obtains r where "fresh_swap E R tok seller buyer r" "enters E r s t" "i = bk_next (book_of s)"
    "fetch_oracle_price E tok s = Inr (sp_price r)" "validate_price_bounds (sp_price r) lo hi = Inr ()"
proof -
  from assms obtain p u where "fetch_oracle_price E tok s = Inr p"
    "validate_price_bounds p lo hi = Inr ()"
    and u: "initiate_swap E R tok ip seller p buyer n ref coll ins s = Inr (i, u)"
      "t = emit ''ora_price'' (OraclePriceUsedEvent i p) u"
    by (auto simp: initiate_swap_with_oracle_price_def)
  moreover from u(2) have "book_of t = book_of u" by simp
  ultimately show thesis
    by (elim initiate_swap_effect) (auto intro!: that simp: enters_def)
qed

lemma batch_initiate_step_effect:
  assumes "batch_initiate_step E tok seller buyer n ref (ip, p) (ids, s) = Inr (ids', t)"
  obtains r where "ids' = ids @ [bk_next (book_of s)]" "bk_next (book_of s) + 1 < 2 ^ 64"
    "book_of t = enter E r True (book_of s)" "sp_ip_id r = ip" "sp_price r = p"
    "sp_seller r = seller" "sp_buyer r = buyer" "sp_token r = tok" "sp_status r = Pending"
    "sp_paid_amount r = 0"
proof -
  from assms show thesis
    by (intro that [of "(pending_swap ip seller buyer p tok (now E + 604800))
        \<lparr>sp_required_approvals := n, sp_referrer := ref\<rparr>"])
      (auto simp: batch_initiate_step_def open_simps)
qed

lemma batch_insured_step_effect:
  assumes "batch_insured_step E R tok ips seller ps buyer n ref ins k (ids, s) = Inr (ids', t)"
    and "authorized E seller"
  obtains r where "fresh_swap E R tok seller buyer r" "enters E r s t"
    "ids' = ids @ [bk_next (book_of s)]"
proof -
  let ?r = "\<lambda>x. (pending_swap (ips ! k) seller buyer (ps ! k) tok (now E + 604800))
    \<lparr>sp_required_approvals := n, sp_referrer := ref, sp_insurance_premium := x,
     sp_insurance_enabled := ins\<rparr>"
  from assms show thesis
    by (cases ins; intro that [of "?r (if ins then tdiv (ps ! k * 2) 100 else 0)"])
      (auto simp: batch_insured_step_def open_simps)
qed

lemma initiate_swap_with_schedule_effect:
  assumes "initiate_swap_with_schedule E R tok ip seller sch buyer s = Inr (i, t)"
  obtains r where "fresh_swap E R tok seller buyer r" "enters E r s t" "i = bk_next (book_of s)"
    "sp_is_installment r" "sp_ip_id r = ip"
    "sp_price r = foldl (\<lambda>total payment. sat_i128 (total + ps_amount payment)) 0 sch"
proof -
  from assms show thesis
    by (intro that [of "(pending_swap ip seller buyer
        (foldl (\<lambda>total payment. sat_i128 (total + ps_amount payment)) 0 sch) tok (now E + 604800))
        \<lparr>sp_is_installment := True\<rparr>"])
      (auto simp: initiate_swap_with_schedule_def open_simps)
qed

lemma initiate_swap_with_schedule_tables:
  "initiate_swap_with_schedule E R tok ip seller sch buyer s = Inr (i, t) \<Longrightarrow>
    sw_PaymentSchedule t i = Some sch \<and> sw_PaymentsMade t i = Some (replicate (length sch) False)"
  by (auto simp: initiate_swap_with_schedule_def state_simps Let_def)

lemma initiate_escrow_swap_effect:
  assumes "initiate_escrow_swap E R tok ip seller p buyer tmo s = Inr (i, t)"
  obtains r where "fresh_swap E R tok seller buyer r" "enters E r s t" "i = bk_next (book_of s)"
proof -
  from assms show thesis
    by (intro that [of "pending_swap ip seller buyer p tok tmo"])
      (auto simp: initiate_escrow_swap_def open_simps)
qed

lemma batch_escrow_step_effect:
  assumes "batch_escrow_step E R tok ips seller ps buyer tmos k (ids, s) = Inr (ids', t)"
    and "authorized E seller"
  obtains r where "fresh_swap E R tok seller buyer r" "enters E r s t"
    "ids' = ids @ [bk_next (book_of s)]"
proof -
  from assms show thesis
    by (intro that [of "pending_swap (ips ! k) seller buyer (ps ! k) tok (tmos ! k)"])
      (auto simp: batch_escrow_step_def open_simps)
qed

lemma initiate_swap_with_signers_effect:
  assumes "initiate_swap_with_signers E R tok ip seller p buyer sgs s = Inr (i, t)"
  obtains r where "fresh_swap E R tok seller buyer r" "enters E r s t" "i = bk_next (book_of s)"
    "sgs \<noteq> []"
proof -
  from assms show thesis
    by (intro that [of "pending_swap ip seller buyer p tok (now E + 604800)"])
      (auto simp: initiate_swap_with_signers_def open_simps)
qed

lemma initiate_swap_with_signers_tables:
  "initiate_swap_with_signers E R tok ip seller p buyer sgs s = Inr (i, t) \<Longrightarrow>
    sw_SwapSigners t = (sw_SwapSigners s)(i \<mapsto> sgs) \<and> sw_SwapSignatures t = sw_SwapSignatures s"
  by (auto simp: initiate_swap_with_signers_def state_simps Let_def)

section \<open>Auctions\<close>

lemma start_ip_auction_effect:
  assumes "start_ip_auction E R tok ip seller m d s = Inr (a, t)"
  obtains "authorized E seller" "0 < m" "\<exists>p. get_ip R ip = Inr p \<and> ir_owner p = seller \<and> \<not> ir_revoked p"
    "a = bk_next_auction (book_of s)"
    "book_of t = (book_of s)\<lparr>bk_auction := (bk_auction (book_of s))
       (a \<mapsto> \<lparr>ac_auction_id = a, ac_ip_id = ip, ac_seller = seller, ac_token = tok, ac_min_bid = m,
         ac_highest_bid = 0, ac_highest_bidder = None, ac_start_time = now E,
         ac_end_time = now E + d, ac_finalized = False\<rparr>), bk_next_auction := a + 1\<rparr>"
  using assms by (auto simp: start_ip_auction_def book_simps)

definition refund_bid :: "env \<Rightarrow> AuctionRecord \<Rightarrow> payment list" where
  "refund_bid E a = (case ac_highest_bidder a of None \<Rightarrow> []
     | Some b \<Rightarrow> [(ac_token a, this_addr E, b, ac_highest_bid a)])"

lemma refund_step_book:
  "(case ac_highest_bidder a of None \<Rightarrow> Inr s
    | Some b \<Rightarrow> transfer E (ac_token a) (this_addr E) b (ac_highest_bid a) s) = Inr t \<Longrightarrow>
    book_of t = add_paid (refund_bid E a) (book_of s)"
  by (auto simp: refund_bid_def add_paid_def dest!: book_transfer split: option.splits)

lemma place_bid_effect:
  assumes "place_bid E k bidder x s = Inr t"
  obtains a where "bk_auction (book_of s) k = Some a" "authorized E bidder" "\<not> ac_finalized a"
    "now E < ac_end_time a" "ac_min_bid a \<le> x" "ac_highest_bid a < x"
    "book_of t = (book_of s)\<lparr>bk_auction := (bk_auction (book_of s))
       (k \<mapsto> a\<lparr>ac_highest_bid := x, ac_highest_bidder := Some bidder\<rparr>),
       bk_paid := bk_paid (book_of s) @ refund_bid E a @ [(ac_token a, bidder, this_addr E, x)]\<rparr>"
  using assms
  by (auto simp: place_bid_def book_simps dest!: refund_step_book book_transfer)

definition auction_swap :: "env \<Rightarrow> AuctionRecord \<Rightarrow> address \<Rightarrow> SwapRecord" where
  "auction_swap E a buyer =
     (pending_swap (ac_ip_id a) (ac_seller a) buyer (ac_highest_bid a) (ac_token a) (now E + 604800))
       \<lparr>sp_status := Accepted, sp_accept_timestamp := now E\<rparr>"

lemma finalize_auction_effect:
  assumes "finalize_auction E k s = Inr t"
  obtains a where "bk_auction (book_of s) k = Some a" "\<not> ac_finalized a" "ac_end_time a \<le> now E"
    "book_of t = (case ac_highest_bidder a of
       None \<Rightarrow> (book_of s)\<lparr>bk_auction := (bk_auction (book_of s))(k \<mapsto> a\<lparr>ac_finalized := True\<rparr>)\<rparr>
     | Some buyer \<Rightarrow> enter E (auction_swap E a buyer) False
         ((book_of s)\<lparr>bk_auction := (bk_auction (book_of s))(k \<mapsto> a\<lparr>ac_finalized := True\<rparr>)\<rparr>))"
proof -
  from assms obtain a where a: "sw_Auction s k = Some a" "\<not> ac_finalized a" "ac_end_time a \<le> now E"
    by (auto simp: finalize_auction_def Let_def)
  with assms show thesis
    by (cases "ac_highest_bidder a"; intro that [of a])
      (auto simp: finalize_auction_def auction_swap_def book_simps)
qed

section \<open>Terms\<close>

lemma extend_swap_expiry_effect:
  assumes "extend_swap_expiry E i x s = Inr t"
  obtains r where "bk_swap (book_of s) i = Some r" "authorized E (sp_seller r)"
    "sp_status r = Pending" "sp_expiry r < x"
    "book_of t = touch i (r\<lparr>sp_expiry := x\<rparr>) (coll_of s i) (dep_of s i) [] [] False [] (book_of s)"
  using assms by (auto simp: extend_swap_expiry_def book_simps)

lemma renegotiate_swap_effect:
  assumes "renegotiate_swap E i p s = Inr t"
  obtains r where "bk_swap (book_of s) i = Some r" "authorized E (sp_seller r)"
    "sp_status r = Pending" "0 < p"
    "book_of t = (book_of s)\<lparr>bk_offer := (bk_offer (book_of s))
       (i \<mapsto> \<lparr>ro_new_price = p, ro_proposer = sp_seller r, ro_timestamp = now E\<rparr>)\<rparr>"
  using assms by (auto simp: renegotiate_swap_def book_simps)

lemma accept_renegotiation_effect:
  assumes "accept_renegotiation E i s = Inr t"
  obtains r offer where "bk_swap (book_of s) i = Some r" "authorized E (sp_buyer r)"
    "sp_status r = Pending" "bk_offer (book_of s) i = Some offer"
    "book_of t = (touch i (r\<lparr>sp_price := ro_new_price offer\<rparr>) (coll_of s i) (dep_of s i)
      [] [] False [] (book_of s))\<lparr>bk_offer := (bk_offer (book_of s))(i := None)\<rparr>"
  using assms by (auto simp: accept_renegotiation_def book_simps)

lemma claim_insurance_claimable:
  "claim_insurance E i s = Inr t \<Longrightarrow> bk_claim (book_of s) i \<noteq> None"
  by (auto simp: claim_insurance_def book_fields Let_def)

lemma quiet_terms:
  "approve_swap E i a s = Inr t \<Longrightarrow> book_of t = book_of s"
  "set_reputation_multiplier E i m s = Inr t \<Longrightarrow> book_of t = book_of s"
  "request_arbitration E i a h s = Inr t \<Longrightarrow> book_of t = book_of s"
  "sign_swap_reveal E i a s = Inr t \<Longrightarrow> book_of t = book_of s"
  by (auto simp: approve_swap_def set_reputation_multiplier_def request_arbitration_def
      sign_swap_reveal_def Let_def split: if_splits)

lemma quiet_control: "exec_control E c s = Inr t \<Longrightarrow> book_of t = book_of s"
  by (cases c)
    (auto simp: initialize_def set_oracle_def set_admin_def pause_def unpause_def upgrade_swap_def
      admin_set_protocol_config_def store_protocol_config_def initialize_multi_currency_def
      add_supported_token_def remove_supported_token_def Let_def split: if_splits option.splits)

end
