(* ===== verification/Swap_Books.thy ===== *)
theory Swap_Books
  imports Swap_Effects
begin

text \<open>
  The invariant of the books and the changes that keep it. The money the contract holds covers, token
  by token, what it owes: the price of every accepted or disputed swap, the installments of every
  pending one, the collaterals, and the leading bids.
\<close>

section \<open>What the contract owes\<close>

definition locked_price :: "SwapRecord \<Rightarrow> int" where
  "locked_price r = (case sp_status r of
     Pending \<Rightarrow> sp_paid_amount r | Accepted \<Rightarrow> sp_price r | Disputed \<Rightarrow> sp_price r | _ \<Rightarrow> 0)"

definition owed :: "address \<Rightarrow> SwapRecord \<Rightarrow> int option \<Rightarrow> int" where
  "owed tok r c = (if sp_token r = tok then locked_price r + unwrap_or 0 c else 0)"

definition swap_debt :: "address \<Rightarrow> book \<Rightarrow> nat \<Rightarrow> int" where
  "swap_debt tok b i = (case bk_swap b i of None \<Rightarrow> 0 | Some r \<Rightarrow> owed tok r (bk_coll b i))"

definition bid_debt :: "address \<Rightarrow> AuctionRecord \<Rightarrow> int" where
  "bid_debt tok a = (if ac_token a = tok \<and> \<not> ac_finalized a then ac_highest_bid a else 0)"

definition auction_debt :: "address \<Rightarrow> book \<Rightarrow> nat \<Rightarrow> int" where
  "auction_debt tok b k = (case bk_auction b k of None \<Rightarrow> 0 | Some a \<Rightarrow> bid_debt tok a)"

definition debt :: "address \<Rightarrow> book \<Rightarrow> int" where
  "debt tok b = sum (swap_debt tok b) {..<bk_next b} + sum (auction_debt tok b) {..<bk_next_auction b}"

definition solvent :: "address \<Rightarrow> book \<Rightarrow> bool" where
  "solvent this b \<longleftrightarrow> (\<forall>tok. debt tok b \<le> flow tok this (bk_paid b))"

section \<open>Well-formed books\<close>

definition deal_ok :: "address \<Rightarrow> SwapRecord \<Rightarrow> int option \<Rightarrow> int option \<Rightarrow> bool" where
  "deal_ok this r c d \<longleftrightarrow>
     0 \<le> sp_price r \<and> 0 \<le> sp_paid_amount r \<and> sp_seller r \<noteq> this \<and>
     (sp_status r \<in> {Accepted, Disputed} \<longrightarrow> sp_buyer r \<noteq> this) \<and>
     (\<forall>x. c = Some x \<longrightarrow> 0 \<le> x) \<and> (\<forall>x. d = Some x \<longrightarrow> sp_status r \<noteq> Pending \<and> x = sp_price r)"

definition auction_ok :: "address \<Rightarrow> AuctionRecord \<Rightarrow> bool" where
  "auction_ok this a \<longleftrightarrow> ac_seller a \<noteq> this \<and> 0 < ac_min_bid a \<and>
     (case ac_highest_bidder a of None \<Rightarrow> ac_highest_bid a = 0
      | Some x \<Rightarrow> x \<noteq> this \<and> ac_min_bid a \<le> ac_highest_bid a)"

definition book_ok :: "address \<Rightarrow> book \<Rightarrow> bool" where
  "book_ok this b \<longleftrightarrow>
     (\<forall>i. bk_swap b i \<noteq> None \<longleftrightarrow> i < bk_next b) \<and>
     (\<forall>i. bk_swap b i = None \<longrightarrow> bk_coll b i = None \<and> bk_dep b i = None) \<and>
     (\<forall>i r. bk_swap b i = Some r \<longrightarrow> deal_ok this r (bk_coll b i) (bk_dep b i)) \<and>
     (\<forall>k. bk_auction b k \<noteq> None \<longleftrightarrow> k < bk_next_auction b) \<and>
     (\<forall>k a. bk_auction b k = Some a \<longrightarrow> auction_ok this a) \<and>
     (\<forall>i o'. bk_offer b i = Some o' \<longrightarrow> 0 < ro_new_price o') \<and>
     bk_claim b = Map.empty \<and> (\<forall>x n. bk_score b x = Some n \<longrightarrow> n \<le> 100)"

lemma book_ok_deal: "book_ok this b \<Longrightarrow> bk_swap b i = Some r \<Longrightarrow> deal_ok this r (bk_coll b i) (bk_dep b i)"
  by (simp add: book_ok_def)

section \<open>Changes\<close>

definition same_deal :: "SwapRecord \<Rightarrow> SwapRecord \<Rightarrow> bool" where
  "same_deal r q \<longleftrightarrow> sp_ip_id q = sp_ip_id r \<and> sp_seller q = sp_seller r \<and>
     sp_buyer q = sp_buyer r \<and> sp_token q = sp_token r \<and>
     sp_insurance_premium q = sp_insurance_premium r"

text \<open>The status graph. An acceptance repeated within a batch stays in \<open>Accepted\<close>.\<close>

fun status_move :: "SwapStatus \<Rightarrow> SwapStatus \<Rightarrow> bool" where
  "status_move Pending st = (st \<in> {Pending, Accepted, Cancelled})"
| "status_move Accepted st = (st \<in> {Accepted, Disputed, Completed, Cancelled})"
| "status_move Disputed st = (st \<in> {Disputed, Completed, Cancelled})"
| "status_move Completed st = (st = Completed)"
| "status_move Cancelled st = (st = Cancelled)"
| "status_move RolledBack st = (st \<in> {RolledBack, Cancelled})"

fun live :: "SwapStatus \<Rightarrow> bool" where
  "live Pending = True"
| "live Accepted = True"
| "live Disputed = True"
| "live _ = False"

text \<open>The payments of a change bring in at least what the debt grows by.\<close>

definition balanced :: "address \<Rightarrow> SwapRecord \<Rightarrow> SwapRecord \<Rightarrow> int option \<Rightarrow> int option \<Rightarrow> payment list \<Rightarrow> bool" where
  "balanced this r q c c' ps \<longleftrightarrow>
     (\<forall>tok. owed tok q c' - owed tok r c \<le> flow tok this ps)"

text \<open>What a change of a deal does to its lock: a dead swap never revives, and the lock goes with its death.\<close>

definition lock_move :: "SwapRecord \<Rightarrow> SwapRecord \<Rightarrow> bool \<Rightarrow> bool" where
  "lock_move r q u \<longleftrightarrow> (u \<longleftrightarrow> live (sp_status r) \<and> \<not> live (sp_status q)) \<and>
     (live (sp_status q) \<longrightarrow> live (sp_status r))"

text \<open>The registry vouches for a seller: it holds the record, unrevoked, as the seller's.\<close>

definition vouched :: "registry \<Rightarrow> nat \<Rightarrow> address \<Rightarrow> bool" where
  "vouched R ip seller \<longleftrightarrow> (\<exists>p. get_ip R ip = Inr p \<and> ir_owner p = seller \<and> \<not> ir_revoked p)"

abbreviation anyone :: "nat \<Rightarrow> address \<Rightarrow> bool" where
  "anyone \<equiv> \<lambda>_ _. True"

lemma vouched_anyone [simp]: "vouched R \<le> anyone"
  by (simp add: le_fun_def)

lemma vouchedD: "vouched R \<le> own \<Longrightarrow>
    \<exists>p. get_ip R ip = Inr p \<and> ir_owner p = seller \<and> \<not> ir_revoked p \<Longrightarrow> own ip seller"
  by (auto simp: vouched_def le_fun_def)

text \<open>
  Every call is a sequence of these changes. The flag \<open>sv\<close> marks the changes that keep the status graph
  and pay what they owe, the flag \<open>lk\<close> those that respect the locks; \<open>own ip seller\<close> says who may offer which record.
\<close>

inductive book_change :: "(nat \<Rightarrow> address \<Rightarrow> bool) \<Rightarrow> bool \<Rightarrow> bool \<Rightarrow> address \<Rightarrow> book \<Rightarrow> book \<Rightarrow> bool" for own sv lk this where
  deal: "bk_swap b i = Some r \<Longrightarrow> same_deal r q \<Longrightarrow> deal_ok this q c d \<Longrightarrow>
    (sv \<longrightarrow> status_move (sp_status r) (sp_status q) \<and> balanced this r q (bk_coll b i) c ps) \<Longrightarrow>
    (lk \<longrightarrow> lock_move r q u) \<Longrightarrow>
    book_change own sv lk this b (touch i q c d ps hs u sc b)"
| entry: "sp_status r = Pending \<Longrightarrow> sp_paid_amount r = 0 \<Longrightarrow> 0 < sp_price r \<Longrightarrow> sp_seller r \<noteq> this \<Longrightarrow>
    own (sp_ip_id r) (sp_seller r) \<Longrightarrow> (lk \<longrightarrow> bk_lock b (sp_ip_id r) = None) \<Longrightarrow>
    book_change own sv lk this b (enter E r True b)"
| offer: "\<forall>o'. f i = Some o' \<longrightarrow> 0 < ro_new_price o' \<Longrightarrow>
    book_change own sv lk this b (b\<lparr>bk_offer := (bk_offer b)(i := f i)\<rparr>)"
| start: "auction_ok this a \<Longrightarrow> ac_highest_bid a = 0 \<Longrightarrow> own (ac_ip_id a) (ac_seller a) \<Longrightarrow>
    book_change own sv lk this b (b\<lparr>bk_auction := (bk_auction b)(bk_next_auction b \<mapsto> a),
      bk_next_auction := bk_next_auction b + 1\<rparr>)"
| bid: "bk_auction b k = Some a \<Longrightarrow> \<not> ac_finalized a \<Longrightarrow> bidder \<noteq> this \<Longrightarrow> ac_min_bid a \<le> x \<Longrightarrow>
    ac_highest_bid a < x \<Longrightarrow>
    book_change own sv lk this b (b\<lparr>bk_auction := (bk_auction b)
       (k \<mapsto> a\<lparr>ac_highest_bid := x, ac_highest_bidder := Some bidder\<rparr>),
       bk_paid := bk_paid b @
         (case ac_highest_bidder a of None \<Rightarrow> [] | Some y \<Rightarrow> [(ac_token a, this, y, ac_highest_bid a)]) @
         [(ac_token a, bidder, this, x)]\<rparr>)"
| close: "bk_auction b k = Some a \<Longrightarrow> \<not> ac_finalized a \<Longrightarrow> ac_highest_bidder a = None \<Longrightarrow>
    book_change own sv lk this b (b\<lparr>bk_auction := (bk_auction b)(k \<mapsto> a\<lparr>ac_finalized := True\<rparr>)\<rparr>)"
| award: "bk_auction b k = Some a \<Longrightarrow> \<not> ac_finalized a \<Longrightarrow> ac_highest_bidder a = Some buyer \<Longrightarrow>
    sp_status r = Accepted \<Longrightarrow> sp_price r = ac_highest_bid a \<Longrightarrow> sp_token r = ac_token a \<Longrightarrow>
    sp_paid_amount r = 0 \<Longrightarrow> sp_seller r = ac_seller a \<Longrightarrow> sp_buyer r = buyer \<Longrightarrow>
    sp_ip_id r = ac_ip_id a \<Longrightarrow> \<not> lk \<Longrightarrow>
    book_change own sv lk this b (enter E r l
      (b\<lparr>bk_auction := (bk_auction b)(k \<mapsto> a\<lparr>ac_finalized := True\<rparr>)\<rparr>))"

abbreviation book_changes :: "(nat \<Rightarrow> address \<Rightarrow> bool) \<Rightarrow> bool \<Rightarrow> bool \<Rightarrow> address \<Rightarrow> book \<Rightarrow> book \<Rightarrow> bool" where
  "book_changes own sv lk this \<equiv> (book_change own sv lk this)\<^sup>*\<^sup>*"

lemma book_change_weaken: "book_change own sv lk this b b' \<Longrightarrow> book_change own False False this b b'"
  by (induction rule: book_change.induct) (blast intro: book_change.intros)+

lemma book_changes_weaken: "book_changes own sv lk this b b' \<Longrightarrow> book_changes own False False this b b'"
  by (induction rule: rtranclp_induct) (auto intro: rtranclp.rtrancl_into_rtrancl book_change_weaken)

section \<open>The invariant is kept\<close>

lemma deal_ok_fresh: "sp_status r = Pending \<Longrightarrow> sp_paid_amount r = 0 \<Longrightarrow> 0 < sp_price r \<Longrightarrow>
    sp_seller r \<noteq> this \<Longrightarrow> deal_ok this r None None"
  by (simp add: deal_ok_def)

lemma book_ok_next: "book_ok this b \<Longrightarrow>
    bk_swap b (bk_next b) = None \<and> bk_coll b (bk_next b) = None \<and> bk_dep b (bk_next b) = None"
  unfolding book_ok_def by (metis less_irrefl)

lemma book_ok_enter:
  assumes "book_ok this b" and "deal_ok this r None None"
  shows "book_ok this (enter E r l b)"
  using assms book_ok_next [OF assms(1)]
  by (auto simp: book_ok_def less_Suc_eq)

lemma adjusted_reputation_le: "adjusted_reputation n d \<le> 100"
  by (auto simp: adjusted_reputation_def)

lemma rescore_le:
  "\<forall>x n. f x = Some n \<longrightarrow> n \<le> 100 \<Longrightarrow> rescore sc f x = Some n \<Longrightarrow> n \<le> 100"
  by (induction sc f rule: rescore.induct) (auto split: if_splits simp: adjusted_reputation_le)

lemma book_ok_touch:
  assumes "book_ok this b" and "bk_swap b i = Some r" and "deal_ok this q c d"
  shows "book_ok this (touch i q c d ps hs u sc b)"
  using assms by (auto simp: book_ok_def intro: rescore_le)

lemma book_ok_auction:
  assumes "book_ok this b" and "bk_auction b k = Some a" and "auction_ok this a'"
  shows "book_ok this (b\<lparr>bk_auction := (bk_auction b)(k \<mapsto> a')\<rparr>)"
    "book_ok this (b\<lparr>bk_auction := (bk_auction b)(k \<mapsto> a'), bk_paid := ps\<rparr>)"
  using assms by (auto simp: book_ok_def)

lemma book_change_ok: "book_change own sv lk this b b' \<Longrightarrow> book_ok this b \<Longrightarrow> book_ok this b'"
proof (induction rule: book_change.induct)
  case (deal b i r q c d ps hs u sc)
  then show ?case by (blast intro: book_ok_touch)
next
  case (entry r b E)
  then show ?case by (blast intro: book_ok_enter deal_ok_fresh)
next
  case (offer f i b)
  then show ?case by (auto simp: book_ok_def)
next
  case (start a b)
  then show ?case by (auto simp: book_ok_def less_Suc_eq)
next
  case (bid b k a bidder x)
  then have "auction_ok this a" by (simp add: book_ok_def)
  with bid show ?case by (intro book_ok_auction) (auto simp: auction_ok_def)
next
  case (close b k a)
  then have "auction_ok this a" by (simp add: book_ok_def)
  with close show ?case by (intro book_ok_auction) (auto simp: auction_ok_def)
next
  case (award b k a buyer r E l)
  then have a: "auction_ok this a" by (simp add: book_ok_def)
  with award have "book_ok this (b\<lparr>bk_auction := (bk_auction b)(k \<mapsto> a\<lparr>ac_finalized := True\<rparr>)\<rparr>)"
    by (intro book_ok_auction) (auto simp: auction_ok_def)
  moreover from a award have "deal_ok this r None None" by (auto simp: deal_ok_def auction_ok_def)
  ultimately show ?case by (rule book_ok_enter)
qed

section \<open>Solvency is kept\<close>

lemma sum_fun_upd:
  fixes f :: "nat \<Rightarrow> int"
  assumes "i < n" and "\<And>j. j \<noteq> i \<Longrightarrow> g j = f j"
  shows "sum g {..<n} = sum f {..<n} + (g i - f i)"
proof -
  have "sum g {..<n} = g i + sum g ({..<n} - {i})" using assms(1) by (simp add: sum.remove)
  moreover have "sum f {..<n} = f i + sum f ({..<n} - {i})" using assms(1) by (simp add: sum.remove)
  moreover have "sum g ({..<n} - {i}) = sum f ({..<n} - {i})" by (rule sum.cong) (auto simp: assms(2))
  ultimately show ?thesis by simp
qed

lemma debt_touch:
  assumes "book_ok this b" and "bk_swap b i = Some r"
  shows "debt tok (touch i q c d ps hs u sc b) = debt tok b + (owed tok q c - owed tok r (bk_coll b i))"
proof -
  have "i < bk_next b" using assms unfolding book_ok_def by (metis option.distinct(1))
  then have "sum (swap_debt tok (touch i q c d ps hs u sc b)) {..<bk_next b} =
    sum (swap_debt tok b) {..<bk_next b} +
    (swap_debt tok (touch i q c d ps hs u sc b) i - swap_debt tok b i)"
    by (rule sum_fun_upd) (simp add: swap_debt_def split: option.split)
  moreover have "auction_debt tok (touch i q c d ps hs u sc b) = auction_debt tok b"
    by (simp add: auction_debt_def fun_eq_iff)
  ultimately show ?thesis using assms(2) by (simp add: debt_def swap_debt_def)
qed

lemma debt_enter:
  assumes "book_ok this b"
  shows "debt tok (enter E r l b) = debt tok b + owed tok r None"
proof -
  have "sum (swap_debt tok (enter E r l b)) {..<bk_next b} = sum (swap_debt tok b) {..<bk_next b}"
    by (rule sum.cong) (auto simp: swap_debt_def split: option.split)
  moreover have "auction_debt tok (enter E r l b) = auction_debt tok b"
    by (simp add: auction_debt_def fun_eq_iff)
  ultimately show ?thesis using book_ok_next [OF assms] by (simp add: debt_def swap_debt_def)
qed

lemma debt_auction:
  assumes "book_ok this b" and "bk_auction b k = Some a"
  shows "debt tok (b\<lparr>bk_auction := (bk_auction b)(k \<mapsto> a')\<rparr>) =
      debt tok b + (bid_debt tok a' - bid_debt tok a)"
    and "debt tok (b\<lparr>bk_auction := (bk_auction b)(k \<mapsto> a'), bk_paid := ps\<rparr>) =
      debt tok b + (bid_debt tok a' - bid_debt tok a)"
proof -
  have k: "k < bk_next_auction b" using assms unfolding book_ok_def by (metis option.distinct(1))
  have eq: "debt tok c = debt tok b + (bid_debt tok a' - bid_debt tok a)"
    if c: "bk_auction c = (bk_auction b)(k \<mapsto> a')" "bk_next_auction c = bk_next_auction b"
      "bk_swap c = bk_swap b" "bk_coll c = bk_coll b" "bk_next c = bk_next b" for c
  proof -
    have "sum (auction_debt tok c) {..<bk_next_auction b} =
      sum (auction_debt tok b) {..<bk_next_auction b} + (auction_debt tok c k - auction_debt tok b k)"
      using k by (rule sum_fun_upd) (simp add: auction_debt_def c)
    moreover have "swap_debt tok c = swap_debt tok b" by (simp add: swap_debt_def fun_eq_iff c split: option.split)
    ultimately show ?thesis using assms(2) by (simp add: debt_def auction_debt_def c)
  qed
  show "debt tok (b\<lparr>bk_auction := (bk_auction b)(k \<mapsto> a')\<rparr>) =
      debt tok b + (bid_debt tok a' - bid_debt tok a)"
    by (rule eq) simp_all
  show "debt tok (b\<lparr>bk_auction := (bk_auction b)(k \<mapsto> a'), bk_paid := ps\<rparr>) =
      debt tok b + (bid_debt tok a' - bid_debt tok a)"
    by (rule eq) simp_all
qed

lemma debt_start:
  assumes "book_ok this b" and "ac_highest_bid a = 0"
  shows "debt tok (b\<lparr>bk_auction := (bk_auction b)(bk_next_auction b \<mapsto> a),
      bk_next_auction := bk_next_auction b + 1\<rparr>) = debt tok b"
proof -
  let ?b = "b\<lparr>bk_auction := (bk_auction b)(bk_next_auction b \<mapsto> a),
      bk_next_auction := bk_next_auction b + 1\<rparr>"
  have "sum (auction_debt tok ?b) {..<bk_next_auction b} = sum (auction_debt tok b) {..<bk_next_auction b}"
    by (rule sum.cong) (auto simp: auction_debt_def)
  moreover have "swap_debt tok ?b = swap_debt tok b"
    by (simp add: swap_debt_def fun_eq_iff split: option.split)
  ultimately show ?thesis using assms(2) by (simp add: debt_def auction_debt_def bid_debt_def)
qed

lemma book_change_solvent:
  "book_change own True lk this b b' \<Longrightarrow> book_ok this b \<Longrightarrow> solvent this b \<Longrightarrow> solvent this b'"
proof (induction rule: book_change.induct)
  case (deal b i r q c d ps u hs sc)
  show ?case
    unfolding solvent_def
  proof
    fix tok
    have "owed tok q c - owed tok r (bk_coll b i) \<le> flow tok this ps"
      using deal by (simp add: balanced_def)
    moreover have "debt tok b \<le> flow tok this (bk_paid b)" using deal by (simp add: solvent_def)
    ultimately show "debt tok (touch i q c d ps hs u sc b) \<le>
        flow tok this (bk_paid (touch i q c d ps hs u sc b))"
      using deal by (simp add: debt_touch)
  qed
next
  case (entry r b E)
  then show ?case by (simp add: solvent_def debt_enter owed_def locked_price_def)
next
  case (offer f i b)
  have "swap_debt tok (b\<lparr>bk_offer := (bk_offer b)(i := f i)\<rparr>) = swap_debt tok b"
    "auction_debt tok (b\<lparr>bk_offer := (bk_offer b)(i := f i)\<rparr>) = auction_debt tok b" for tok
    by (simp_all add: swap_debt_def auction_debt_def fun_eq_iff split: option.split)
  with offer show ?case by (simp add: solvent_def debt_def)
next
  case (start a b)
  then show ?case using debt_start [of this b a] by (simp add: solvent_def)
next
  case (bid b k a bidder x)
  then have a: "auction_ok this a" by (simp add: book_ok_def)
  show ?case
    unfolding solvent_def
  proof
    fix tok
    have "debt tok b \<le> flow tok this (bk_paid b)" using bid by (simp add: solvent_def)
    then show "debt tok (b\<lparr>bk_auction := (bk_auction b)
       (k \<mapsto> a\<lparr>ac_highest_bid := x, ac_highest_bidder := Some bidder\<rparr>),
       bk_paid := bk_paid b @
         (case ac_highest_bidder a of None \<Rightarrow> [] | Some y \<Rightarrow> [(ac_token a, this, y, ac_highest_bid a)]) @
         [(ac_token a, bidder, this, x)]\<rparr>) \<le> flow tok this (bk_paid (b\<lparr>bk_auction := (bk_auction b)
       (k \<mapsto> a\<lparr>ac_highest_bid := x, ac_highest_bidder := Some bidder\<rparr>),
       bk_paid := bk_paid b @
         (case ac_highest_bidder a of None \<Rightarrow> [] | Some y \<Rightarrow> [(ac_token a, this, y, ac_highest_bid a)]) @
         [(ac_token a, bidder, this, x)]\<rparr>))"
      using bid a by (auto simp: debt_auction bid_debt_def auction_ok_def split: option.splits)
  qed
next
  case (close b k a)
  then have a: "auction_ok this a" by (simp add: book_ok_def)
  with close show ?case
    by (auto simp: solvent_def debt_auction bid_debt_def auction_ok_def)
next
  case (award b k a buyer r E l)
  let ?b = "b\<lparr>bk_auction := (bk_auction b)(k \<mapsto> a\<lparr>ac_finalized := True\<rparr>)\<rparr>"
  from award have a: "auction_ok this a" by (simp add: book_ok_def)
  with award have "book_ok this ?b" by (intro book_ok_auction) (auto simp: auction_ok_def)
  with award a show ?case
    by (auto simp: solvent_def debt_enter debt_auction bid_debt_def owed_def locked_price_def)
qed

end
