(* ===== verification/Swap_Moves.thy ===== *)
theory Swap_Moves
  imports Swap_Books
begin

text \<open>
  Every successful call of the swap contract is a sequence of changes of the book. The changes pay what
  they owe for the calls of \<open>solvent_call\<close> and respect the locks for those of \<open>exclusive_call\<close>.
\<close>

section \<open>What payments cost\<close>

text \<open>The payments \<open>ps\<close> cost the contract at most \<open>x\<close> of the token \<open>t\<close> and nothing of another token.\<close>

definition costs :: "address \<Rightarrow> address \<Rightarrow> payment list \<Rightarrow> int \<Rightarrow> bool" where
  "costs this t ps x \<longleftrightarrow> (\<forall>tok. - (if t = tok then x else 0) \<le> flow tok this ps)"

named_theorems costs_intros \<open>upper bounds on the cost of payments\<close>

lemma costs_Nil [costs_intros]: "costs this t [] 0"
  by (simp add: costs_def)

lemma costs_append [costs_intros]:
  "costs this t ps x \<Longrightarrow> costs this t qs y \<Longrightarrow> costs this t (ps @ qs) (x + y)"
  unfolding costs_def flow_append
  by (intro allI) (drule_tac x = tok in spec, drule_tac x = tok in spec, simp split: if_splits)

lemma costs_receipt [costs_intros]:
  "src \<noteq> this \<Longrightarrow> costs this t ps y \<Longrightarrow> costs this t ((t, src, this, x) # ps) (y - x)"
  using costs_append [of this t "[(t, src, this, x)]" "- x" ps y] by (simp add: costs_def)

lemma costs_price_payment [costs_intros]:
  "sp_buyer r \<noteq> this_addr E \<Longrightarrow> costs (this_addr E) (sp_token r) ps y \<Longrightarrow>
    costs (this_addr E) (sp_token r) (price_payment E r # ps) (y - sp_price r)"
  unfolding price_payment_def by (rule costs_receipt)

lemma costs_pay_out [costs_intros]:
  "0 \<le> x \<Longrightarrow> costs (this_addr E) (sp_token r) ps y \<Longrightarrow>
    costs (this_addr E) (sp_token r) (pay_out E r a x # ps) (x + y)"
  using costs_append [of "this_addr E" "sp_token r" "[pay_out E r a x]" x ps y]
  by (simp add: costs_def pay_out_def)

lemma costs_if [costs_intros]:
  "(b \<Longrightarrow> costs this t ps x) \<Longrightarrow> (\<not> b \<Longrightarrow> costs this t qs y) \<Longrightarrow>
    costs this t (if b then ps else qs) (if b then x else y)"
  by simp

lemma costs_case [costs_intros]:
  "(c = None \<Longrightarrow> costs this t ps x) \<Longrightarrow> (\<And>z. c = Some z \<Longrightarrow> costs this t (f z) (g z)) \<Longrightarrow>
    costs this t (case c of None \<Rightarrow> ps | Some z \<Rightarrow> f z) (case c of None \<Rightarrow> x | Some z \<Rightarrow> g z)"
  by (cases c) auto

lemma costs_fee [costs_intros]: "0 \<le> f \<Longrightarrow> costs (this_addr E) t (fee_transfer E t f) f"
  by (simp add: costs_def fee_transfer_def)

lemma costs_referral [costs_intros]:
  "0 \<le> x \<Longrightarrow> costs (this_addr E) (sp_token r) (referral_transfer E r x) x"
  by (cases "sp_referrer r") (auto simp: costs_def referral_transfer_def)

lemma costs_premium [costs_intros]: "sp_buyer r \<noteq> this_addr E \<Longrightarrow>
    costs (this_addr E) (sp_token r) (premium_payment E r) 0"
  by (auto simp: costs_def premium_payment_def)

lemma costs_mono: "costs this t ps x \<Longrightarrow> x \<le> y \<Longrightarrow> costs this t ps y"
  unfolding costs_def by (intro allI) (drule_tac x = tok in spec, simp split: if_splits)

lemma costs_released [costs_intros]:
  assumes "\<forall>x. c = Some x \<longrightarrow> 0 \<le> x"
  shows "costs (this_addr E) (sp_token r) (released E a r c) (unwrap_or 0 c - unwrap_or 0 (retained r c))"
  using assms by (cases c) (auto simp: costs_def released_def retained_def)

lemma fee_of_bounds: "0 \<le> fee_of r" "0 \<le> referral_fee r" "0 \<le> sp_price r \<Longrightarrow> fee_of r + referral_fee r \<le> sp_price r"
  by (auto simp: fee_of_def referral_fee_def)

lemma retained_cases: "retained r c = None \<or> retained r c = c"
  by (simp add: retained_def)

lemma rolled_cases: "rolled_collateral r c = None \<or> rolled_collateral r c = c"
  by (simp add: rolled_collateral_def)

section \<open>Changes of a deal\<close>

lemma balancedI:
  assumes "costs this (sp_token r) ps x" and "same_deal r q"
    and "locked_price q + unwrap_or 0 c' + x \<le> locked_price r + unwrap_or 0 c"
  shows "balanced this r q c c' ps"
  unfolding balanced_def
proof
  fix tok
  have "- (if sp_token r = tok then x else 0) \<le> flow tok this ps" using assms(1) by (simp add: costs_def)
  with assms(2,3) show "owed tok q c' - owed tok r c \<le> flow tok this ps"
    by (auto simp: owed_def same_deal_def)
qed

text \<open>
  An operation on one swap: its payments cost at most what the debt falls by. The swap stays alive and
  keeps its lock, or it dies and loses it.
\<close>

lemma keep_change:
  assumes "book_ok (this_addr E) (book_of s)" and "bk_swap (book_of s) i = Some r"
    and "book_of t = touch i q c d ps hs False sc (book_of s)" and "same_deal r q"
    and "deal_ok (this_addr E) q c d"
    and "sv \<Longrightarrow> status_move (sp_status r) (sp_status q) \<and> costs (this_addr E) (sp_token r) ps
      (locked_price r + unwrap_or 0 (coll_of s i) - locked_price q - unwrap_or 0 c)"
    and "lk \<Longrightarrow> live (sp_status q) = live (sp_status r)"
  shows "book_change own sv lk (this_addr E) (book_of s) (book_of t)"
  unfolding assms(3) using assms(2,4,5)
  by (rule book_change.deal) (auto simp: lock_move_def assms(7) intro: balancedI [OF _ assms(4)] dest!: assms(6))

lemma death_change:
  assumes "book_ok (this_addr E) (book_of s)" and "bk_swap (book_of s) i = Some r"
    and "book_of t = touch i (closed st r) c d ps hs True sc (book_of s)" and "\<not> live st"
    and "c = None \<or> c = coll_of s i" and "d = None \<or> d = dep_of s i"
    and "sv \<Longrightarrow> status_move (sp_status r) st \<and> costs (this_addr E) (sp_token r) ps
      (locked_price r + unwrap_or 0 (coll_of s i) - unwrap_or 0 c)"
    and "lk \<Longrightarrow> live (sp_status r)"
  shows "book_change own sv lk (this_addr E) (book_of s) (book_of t)"
proof -
  have deal: "same_deal r (closed st r)" by (simp add: same_deal_def)
  have "locked_price (closed st r) = 0" using assms(4) by (cases st) (auto simp: locked_price_def)
  moreover have "deal_ok (this_addr E) (closed st r) c d"
    using book_ok_deal [OF assms(1,2)] assms(4-6) by (cases st) (auto simp: deal_ok_def)
  ultimately show ?thesis
    unfolding assms(3) using assms(2,4) deal
    by (intro book_change.deal)
      (auto simp: lock_move_def assms(8) intro!: balancedI [OF _ deal] dest!: assms(7))
qed

section \<open>Releases and cancellations\<close>

text \<open>The arithmetic of a payment: the cost found by \<open>costs_intros\<close> against the debt that goes.\<close>

lemmas cost_arith = locked_price_def retained_def rolled_collateral_def

lemma deal_facts:
  assumes "book_ok this b" and "bk_swap b i = Some r"
  shows "0 \<le> sp_price r" "0 \<le> sp_paid_amount r" "sp_seller r \<noteq> this"
    "\<forall>x. bk_coll b i = Some x \<longrightarrow> 0 \<le> x"
    "sp_status r \<in> {Accepted, Disputed} \<Longrightarrow> sp_buyer r \<noteq> this"
    "\<forall>x. bk_dep b i = Some x \<longrightarrow> sp_status r \<noteq> Pending \<and> x = sp_price r"
  using book_ok_deal [OF assms] by (auto simp: deal_ok_def)

lemma seller_share: "0 \<le> sp_price r \<Longrightarrow> 0 \<le> sp_price r - fee_of r - referral_fee r"
  "0 \<le> sp_price r \<Longrightarrow> 0 \<le> sp_price r - fee_of r"
  using fee_of_bounds [of r] by linarith+

text \<open>The payment lists of the code, with what they cost.\<close>

lemma costs_shapes:
  assumes "0 \<le> sp_price r" and "\<forall>x. c = Some x \<longrightarrow> 0 \<le> x"
  shows "costs (this_addr E) (sp_token r) [pay_out E r a (sp_price r)] (sp_price r)"
    "costs (this_addr E) (sp_token r) (pay_out E r a (sp_price r) # released E a' r c)
       (sp_price r + unwrap_or 0 c - unwrap_or 0 (retained r c))"
    "costs (this_addr E) (sp_token r)
       (pay_out E r a (sp_price r - fee_of r) # fee_payment E r @ released E a' r c)
       (sp_price r + unwrap_or 0 c - unwrap_or 0 (retained r c))"
    "costs (this_addr E) (sp_token r)
       (released E a' r c @ pay_out E r a (sp_price r - fee_of r) # fee_payment E r)
       (sp_price r + unwrap_or 0 c - unwrap_or 0 (retained r c))"
    "costs (this_addr E) (sp_token r)
       (fee_payment E r @ referral_payment E r @
        pay_out E r a (sp_price r - fee_of r - referral_fee r) # released E a' r c)
       (sp_price r + unwrap_or 0 c - unwrap_or 0 (retained r c))"
    "costs (this_addr E) (sp_token r)
       (pay_out E r a (sp_price r - fee_of r - referral_fee r) #
        fee_payment E r @ referral_payment E r @ released E a' r c)
       (sp_price r + unwrap_or 0 c - unwrap_or 0 (retained r c))"
  by (rule costs_mono, (rule costs_intros fee_of_bounds seller_share assms | simp)+)+

lemma costs_fee_first: "0 \<le> f \<Longrightarrow> f \<le> sp_price r \<Longrightarrow> costs (this_addr E) (sp_token r)
    (fee_transfer E (sp_token r) f @ [pay_out E r a (sp_price r - f)]) (sp_price r)"
  by (rule costs_mono, (rule costs_intros | simp)+)

lemma reveal_key_change:
  assumes ok: "book_ok (this_addr E) (book_of s)" and call: "reveal_key E R i a x y s = Inr t"
  shows "book_change own sv lk (this_addr E) (book_of s) (book_of t)"
  using call
  by (elim reveal_key_effect) (rule death_change [OF ok], assumption, assumption,
    auto simp: retained_cases locked_price_def deal_facts [OF ok] intro!: costs_shapes)

lemma batch_reveal_step_change:
  assumes ok: "book_ok (this_addr E) (book_of s)"
    and call: "batch_reveal_step E i (fees, s) = Inr (fees', t)"
    and accepted: "\<And>r. sv \<or> lk \<Longrightarrow> bk_swap (book_of s) i = Some r \<Longrightarrow> sp_status r = Accepted"
  shows "book_change own sv lk (this_addr E) (book_of s) (book_of t)"
  using call
  by (elim batch_reveal_step_effect) (rule death_change [OF ok], assumption, assumption,
    auto simp: accepted retained_cases locked_price_def deal_facts [OF ok] intro!: costs_shapes)

lemma verify_and_complete_change:
  assumes ok: "book_ok (this_addr E) (book_of s)"
    and call: "verify_and_complete_swap E R i a x y s = Inr t"
  shows "book_change own sv lk (this_addr E) (book_of s) (book_of t)"
  using call
  by (elim verify_and_complete_effect) (rule death_change [OF ok], assumption, assumption,
    (auto simp: retained_cases locked_price_def deal_facts [OF ok] intro!: costs_shapes)[5])+

lemma cancel_expired_swap_change:
  assumes ok: "book_ok (this_addr E) (book_of s)" and call: "cancel_expired_swap E i a s = Inr t"
  shows "book_change own sv lk (this_addr E) (book_of s) (book_of t)"
  using call
  by (elim cancel_expired_swap_effect) (rule death_change [OF ok], assumption, assumption,
    auto simp: retained_cases locked_price_def deal_facts [OF ok] intro!: costs_shapes)

lemma cancel_swap_change:
  assumes ok: "book_ok (this_addr E) (book_of s)" and call: "cancel_swap E i a s = Inr t"
  shows "book_change own sv lk (this_addr E) (book_of s) (book_of t)"
  using call
  by (elim cancel_swap_effect) (rule death_change [OF ok], assumption, assumption,
    auto simp: locked_price_def deal_facts [OF ok] intro!: costs_mono [OF costs_Nil])

lemma batch_cancel_step_change:
  assumes ok: "book_ok (this_addr E) (book_of s)"
    and call: "batch_cancel_step E a (i, reason) (ids, s) = Inr (ids', t)"
  shows "book_change own sv lk (this_addr E) (book_of s) (book_of t)"
  using call
  by (elim batch_cancel_step_effect) (rule death_change [OF ok], assumption, assumption,
    auto simp: locked_price_def deal_facts [OF ok] intro!: costs_mono [OF costs_Nil])

lemma cancel_pending_swap_change:
  assumes ok: "book_ok (this_addr E) (book_of s)" and call: "cancel_pending_swap E i a s = Inr t"
  shows "book_change own sv lk (this_addr E) (book_of s) (book_of t)"
  using call
  by (elim cancel_pending_swap_effect) (rule death_change [OF ok], assumption, assumption,
    auto simp: locked_price_def deal_facts [OF ok] intro!: costs_mono [OF costs_Nil])

section \<open>Rulings\<close>

lemma raise_dispute_change:
  assumes ok: "book_ok (this_addr E) (book_of s)" and call: "raise_dispute E i s = Inr t"
  shows "book_change own sv lk (this_addr E) (book_of s) (book_of t)"
  using call
proof (rule raise_dispute_effect)
  fix r
  assume r: "bk_swap (book_of s) i = Some r" "sp_status r = Accepted"
    and t: "book_of t = touch i (r\<lparr>sp_status := Disputed, sp_dispute_timestamp := now E\<rparr>)
      (coll_of s i) (dep_of s i) [] [] False [] (book_of s)"
  show ?thesis
    using book_ok_deal [OF ok r(1)] r(2)
    by (intro keep_change [OF ok r(1) t])
      (auto simp: same_deal_def deal_ok_def locked_price_def intro!: costs_mono [OF costs_Nil])
qed

lemma resolve_swap_dispute_change:
  assumes ok: "book_ok (this_addr E) (book_of s)"
    and call: "resolve_swap_dispute E i a b s = Inr t"
  shows "book_change own sv lk (this_addr E) (book_of s) (book_of t)"
  using call
proof (rule resolve_swap_dispute_effect)
  fix r
  assume r: "bk_swap (book_of s) i = Some r" "sp_status r = Disputed"
    and t: "book_of t = touch i (closed Cancelled r) (coll_of s i) (dep_of s i)
      [pay_out E r (sp_buyer r) (sp_price r)] [] True [] (book_of s)"
  then show ?thesis
    by (intro death_change [OF ok r(1) t])
      (auto simp: locked_price_def deal_facts [OF ok] intro!: costs_shapes)
next
  fix r f
  assume r: "bk_swap (book_of s) i = Some r" "sp_status r = Disputed"
    and f: "f = tdiv (sp_price r * 250) 10000"
    and t: "book_of t = touch i (closed Completed r) (coll_of s i) (dep_of s i)
      (fee_transfer E (sp_token r) f @ [pay_out E r (sp_seller r) (sp_price r - f)])
      [] True [] (book_of s)"
  have "0 \<le> sp_price r" by (rule deal_facts [OF ok r(1)])
  with f have "0 \<le> f" "f \<le> sp_price r" by (auto simp: tdiv_nonneg)
  with r t show ?thesis
    by (intro death_change [OF ok r(1) t]) (auto simp: locked_price_def intro!: costs_fee_first)
qed

lemma auto_resolve_dispute_change:
  assumes ok: "book_ok (this_addr E) (book_of s)" and call: "auto_resolve_dispute E i s = Inr t"
  shows "book_change own sv lk (this_addr E) (book_of s) (book_of t)"
  using call
  by (elim auto_resolve_dispute_effect) (rule death_change [OF ok], assumption, assumption,
    auto simp: locked_price_def deal_facts [OF ok] intro!: costs_shapes)

lemma auto_refund_timeout_change:
  assumes ok: "book_ok (this_addr E) (book_of s)" and call: "auto_refund_timeout E i s = Inr t"
  shows "book_change own sv lk (this_addr E) (book_of s) (book_of t)"
  using call
  by (elim auto_refund_timeout_effect) (rule death_change [OF ok], assumption, assumption,
    auto simp: locked_price_def deal_facts [OF ok] intro!: costs_shapes)

text \<open>
  \<open>arbitrate_swap\<close> and the rollbacks do not look at the status, or not enough: they pay what they owe
  only where the status says that the price is held.
\<close>

lemma held_price:
  assumes "sp_status r = Accepted \<or> sp_status r = Disputed"
  shows "locked_price r = sp_price r" "live (sp_status r)" "status_move (sp_status r) Cancelled"
    "status_move (sp_status r) Completed"
  using assms by (auto simp: locked_price_def)

lemma arbitrate_swap_change:
  assumes ok: "book_ok (this_addr E) (book_of s)"
    and call: "arbitrate_swap E i a refund s = Inr t"
    and held: "\<And>r. sv \<Longrightarrow> bk_swap (book_of s) i = Some r \<Longrightarrow>
      sp_status r = Accepted \<or> sp_status r = Disputed"
    and alive: "\<And>r. lk \<Longrightarrow> bk_swap (book_of s) i = Some r \<Longrightarrow> live (sp_status r)"
  shows "book_change own sv lk (this_addr E) (book_of s) (book_of t)"
  using call
  by (elim arbitrate_swap_effect) (rule death_change [OF ok], assumption, assumption,
    auto simp: ruling_status_def ruling_payments_def retained_cases held_price held alive
      deal_facts [OF ok] intro!: costs_shapes)

lemma batch_arbitrate_step_change:
  assumes ok: "book_ok (this_addr E) (book_of s)"
    and call: "batch_arbitrate_step E a refund i s = Inr t"
  shows "book_change own sv lk (this_addr E) (book_of s) (book_of t)"
  using call
  by (elim batch_arbitrate_step_effect) (rule death_change [OF ok], assumption, assumption,
    auto simp: ruling_status_def ruling_payments_def retained_cases locked_price_def
      deal_facts [OF ok] intro!: costs_shapes)

lemma costs_rollback:
  assumes "0 \<le> sp_price r" and "\<forall>x. c = Some x \<longrightarrow> 0 \<le> x" and "sp_insurance_premium r \<le> 0"
    and "0 \<le> sp_paid_amount r"
  shows "costs (this_addr E) (sp_token r) (rollback_payments E r c)
    (locked_price r + unwrap_or 0 c - unwrap_or 0 (rolled_collateral r c))"
proof (cases "sp_status r = Accepted \<or> sp_status r = Disputed")
  case True
  then have eq: "rollback_payments E r c = pay_out E r (sp_buyer r) (sp_price r) #
      (case c of None \<Rightarrow> [] | Some x \<Rightarrow> [pay_out E r (sp_buyer r) x])"
    using assms(3) by (auto simp: rollback_payments_def split: option.split)
  show ?thesis
    unfolding eq
    by (rule costs_mono, (rule costs_intros assms | simp add: assms)+)
      (use True assms in \<open>auto simp: held_price rolled_collateral_def split: option.split\<close>)
next
  case False
  then have "rollback_payments E r c = []" "rolled_collateral r c = c" "0 \<le> locked_price r"
    using assms(4) by (auto simp: rollback_payments_def rolled_collateral_def locked_price_def
        split: SwapStatus.split)
  then show ?thesis by (auto intro: costs_mono [OF costs_Nil])
qed

lemma rollback_change:
  assumes ok: "book_ok (this_addr E) (book_of s)" and r: "bk_swap (book_of s) i = Some r"
    and t: "book_of t = touch i (closed Cancelled r) (rolled_collateral r (coll_of s i)) (dep_of s i)
      (rollback_payments E r (coll_of s i)) hs True sc (book_of s)"
    and paid: "sv \<Longrightarrow> sp_status r \<noteq> Completed \<and> sp_insurance_premium r \<le> 0"
    and alive: "lk \<Longrightarrow> live (sp_status r)"
  shows "book_change own sv lk (this_addr E) (book_of s) (book_of t)"
proof (rule death_change [OF ok r t])
  show "status_move (sp_status r) Cancelled \<and> costs (this_addr E) (sp_token r)
      (rollback_payments E r (coll_of s i))
      (locked_price r + unwrap_or 0 (coll_of s i) - unwrap_or 0 (rolled_collateral r (coll_of s i)))"
    if sv
    using paid [OF that] deal_facts [OF ok r]
    by (cases "sp_status r") (auto intro!: costs_rollback)
qed (auto simp: rolled_cases alive)

lemma admin_rollback_swap_change:
  assumes ok: "book_ok (this_addr E) (book_of s)"
    and call: "admin_rollback_swap E i a reason s = Inr t"
    and free: "\<And>r. sv \<Longrightarrow> bk_swap (book_of s) i = Some r \<Longrightarrow> sp_insurance_premium r \<le> 0"
    and alive: "\<And>r. lk \<Longrightarrow> bk_swap (book_of s) i = Some r \<Longrightarrow> live (sp_status r)"
  shows "book_change own sv lk (this_addr E) (book_of s) (book_of t)"
  using call
  by (elim admin_rollback_swap_effect) (rule rollback_change [OF ok], assumption, assumption,
    auto intro: free alive)

lemma validate_and_rollback_swap_changes:
  assumes ok: "book_ok (this_addr E) (book_of s)"
    and call: "validate_and_rollback_swap E i v s = Inr (b, t)" and keep: "sv \<Longrightarrow> v"
  shows "book_changes own sv lk (this_addr E) (book_of s) (book_of t)"
  using call
proof (rule validate_and_rollback_swap_effect)
  assume "t = s"
  then show ?thesis by simp
next
  fix r x
  assume "\<not> v" and r: "bk_swap (book_of s) i = Some r" "sp_status r = Completed"
    and t: "book_of t = touch i (closed RolledBack r) (coll_of s i) (dep_of s i)
      (pay_out E r (sp_buyer r) x # fee_transfer E (sp_token r) (sp_price r - x))
      [history_entry E RolledBack] False [] (book_of s)"
  with keep have "\<not> sv" by blast
  moreover have "deal_ok (this_addr E) (closed RolledBack r) (coll_of s i) (dep_of s i)"
    using book_ok_deal [OF ok r(1)] by (auto simp: deal_ok_def)
  ultimately have "book_change own sv lk (this_addr E) (book_of s) (book_of t)"
    using r by (intro keep_change [OF ok r(1) t]) (auto simp: same_deal_def)
  then show ?thesis by blast
qed

section \<open>Acceptance\<close>

lemma accepted_fields [simp]:
  "sp_status (accepted E r) = Accepted" "sp_price (accepted E r) = sp_price r"
  "sp_paid_amount (accepted E r) = sp_paid_amount r"
  "same_deal r (accepted E r)"
  by (simp_all add: accepted_def same_deal_def)

lemma deal_ok_accepted:
  assumes "deal_ok this r c d" and "sp_buyer r \<noteq> this" and "\<forall>x. c' = Some x \<longrightarrow> 0 \<le> x"
    and "\<forall>x. d' = Some x \<longrightarrow> x = sp_price r"
  shows "deal_ok this (accepted E r) c' d'"
  using assms by (auto simp: deal_ok_def accepted_def)

lemma signer_other: "\<not> authorized E (this_addr E) \<Longrightarrow> authorized E a \<Longrightarrow> a \<noteq> this_addr E"
  by blast

lemma accept_swap_conditional_change:
  assumes ok: "book_ok (this_addr E) (book_of s)" and self: "\<not> authorized E (this_addr E)"
    and call: "accept_swap_conditional E i cs s = Inr t"
  shows "book_change own sv lk (this_addr E) (book_of s) (book_of t)"
  using call
proof (rule accept_swap_conditional_effect)
  fix r
  let ?q = "accepted E (r\<lparr>sp_conditions := cs\<rparr>)"
  assume r: "bk_swap (book_of s) i = Some r" "authorized E (sp_buyer r)" "sp_status r = Pending"
    and t: "book_of t = touch i ?q (coll_of s i) (dep_of s i) [price_payment E r]
      [history_entry E Accepted] False [] (book_of s)"
  have b: "sp_buyer r \<noteq> this_addr E" using self r(2) by (rule signer_other)
  have q: "deal_ok (this_addr E) ?q (coll_of s i) (dep_of s i)"
    using book_ok_deal [OF ok r(1)] r(3) b by (auto simp: deal_ok_def accepted_def)
  have "costs (this_addr E) (sp_token r) [price_payment E r] (0 - sp_price r)"
    by (rule costs_intros b)+
  then show ?thesis
    using r(3) q by (intro keep_change [OF ok r(1) t])
      (auto simp: same_deal_def accepted_def locked_price_def deal_facts [OF ok r(1)] elim: costs_mono)
qed

lemma accept_change:
  assumes ok: "book_ok (this_addr E) (book_of s)" and r: "bk_swap (book_of s) i = Some r"
    and b: "sp_buyer r \<noteq> this_addr E" and st: "sp_status r = Pending \<or> sp_status r = Accepted"
    and t: "book_of t = touch i (accepted E r) c d (ps @ [price_payment E r] @ qs) hs False sc (book_of s)"
    and c: "ps = [] \<and> c = coll_of s i \<or> coll_of s i = None \<and> 0 < x \<and> c = Some x \<and>
      ps = [(sp_token r, sp_buyer r, this_addr E, x)]"
    and d: "d = dep_of s i \<or> d = Some (sp_price r)"
    and qs: "costs (this_addr E) (sp_token r) qs 0"
  shows "book_change own sv lk (this_addr E) (book_of s) (book_of t)"
proof (rule keep_change [OF ok r t])
  note facts = deal_facts [OF ok r]
  have "\<forall>x. c = Some x \<longrightarrow> 0 \<le> x" using c facts(4) by auto
  moreover have "\<forall>x. d = Some x \<longrightarrow> x = sp_price r" using d facts(6) by auto
  ultimately show "deal_ok (this_addr E) (accepted E r) c d"
    using book_ok_deal [OF ok r] b by (blast intro: deal_ok_accepted)
  have "costs (this_addr E) (sp_token r) ps (unwrap_or 0 (coll_of s i) - unwrap_or 0 c)"
    using c by (elim disjE) (auto intro: costs_mono [OF costs_Nil] costs_mono [OF costs_receipt [OF b costs_Nil]])
  then have "costs (this_addr E) (sp_token r) (ps @ [price_payment E r] @ qs)
      ((unwrap_or 0 (coll_of s i) - unwrap_or 0 c) + ((0 - sp_price r) + 0))"
    using b qs by (intro costs_append) (rule costs_intros | assumption)+
  then show "status_move (sp_status r) (sp_status (accepted E r)) \<and>
      costs (this_addr E) (sp_token r) (ps @ [price_payment E r] @ qs) (locked_price r +
        unwrap_or 0 (coll_of s i) - locked_price (accepted E r) - unwrap_or 0 c)"
    using st facts(1,2) by (auto simp: locked_price_def elim!: costs_mono)
  show "live (sp_status (accepted E r)) = live (sp_status r)" using st by auto
qed simp_all

lemma accept_swap_change:
  assumes ok: "book_ok (this_addr E) (book_of s)" and self: "\<not> authorized E (this_addr E)"
    and call: "accept_swap E i s = Inr t"
  shows "book_change own sv lk (this_addr E) (book_of s) (book_of t)"
  using call
proof (rule accept_swap_effect)
  fix r
  assume r: "bk_swap (book_of s) i = Some r" "authorized E (sp_buyer r)" "sp_status r = Pending"
    and free: "0 < sp_collateral_amount r \<Longrightarrow> coll_of s i = None"
    and t: "book_of t = touch i (accepted E r)
      (if 0 < sp_collateral_amount r then Some (sp_collateral_amount r) else coll_of s i)
      (dep_of s i)
      ((if 0 < sp_collateral_amount r
        then [(sp_token r, sp_buyer r, this_addr E, sp_collateral_amount r)] else []) @
       [price_payment E r] @ premium_payment E r) [history_entry E Accepted] False [] (book_of s)"
  have b: "sp_buyer r \<noteq> this_addr E" using self r(2) by (rule signer_other)
  show ?thesis
    using r b free
    by (intro accept_change [OF ok r(1) b _ t, of "sp_collateral_amount r"]) (auto intro: costs_premium)
qed

lemma batch_accept_step_change:
  assumes ok: "book_ok (this_addr E) (book_of s)" and self: "\<not> authorized E (this_addr E)"
    and call: "batch_accept_step E i s = Inr t"
    and item: "\<And>r. bk_swap (book_of s) i = Some r \<Longrightarrow> authorized E (sp_buyer r) \<and>
      (sp_status r = Pending \<or> sp_status r = Accepted)"
  shows "book_change own sv lk (this_addr E) (book_of s) (book_of t)"
  using call
proof (rule batch_accept_step_effect)
  fix r
  assume r: "bk_swap (book_of s) i = Some r"
    and t: "book_of t = touch i (accepted E r)
      (if 0 < sp_collateral_amount r \<and> coll_of s i = None
       then Some (sp_collateral_amount r) else coll_of s i) (dep_of s i)
      ((if 0 < sp_collateral_amount r \<and> coll_of s i = None
        then [(sp_token r, sp_buyer r, this_addr E, sp_collateral_amount r)] else []) @
       [price_payment E r] @ premium_payment E r) [history_entry E Accepted] False [] (book_of s)"
  have b: "sp_buyer r \<noteq> this_addr E" using self item [OF r] by metis
  show ?thesis
    using item [OF r] b
    by (intro accept_change [OF ok r b _ t, of "sp_collateral_amount r"]) (auto intro: costs_premium)
qed

lemma deposit_escrow_change:
  assumes ok: "book_ok (this_addr E) (book_of s)" and r: "bk_swap (book_of s) i = Some r"
    and b: "sp_buyer r \<noteq> this_addr E" and call: "deposit_escrow E i r s = Inr t"
  shows "book_change own sv lk (this_addr E) (book_of s) (book_of t)"
proof -
  have t: "book_of t = touch i (accepted E r) (coll_of s i) (Some (sp_price r))
      ([] @ [price_payment E r] @ []) [history_entry E Accepted] False [] (book_of s)"
    and st: "sp_status r = Pending"
    using deposit_escrow_effect [OF call r] by simp_all
  then show ?thesis by (intro accept_change [OF ok r b _ t, of 0]) (auto intro: costs_Nil)
qed

lemma accept_swap_partial_change:
  assumes ok: "book_ok (this_addr E) (book_of s)" and self: "\<not> authorized E (this_addr E)"
    and call: "accept_swap_partial E i n s = Inr t"
  shows "book_change own sv lk (this_addr E) (book_of s) (book_of t)"
  using call
proof (rule accept_swap_partial_effect)
  fix r :: SwapRecord and p
  let ?q = "accepted E (r\<lparr>sp_price := p, sp_quantity := n\<rparr>)"
  assume r: "bk_swap (book_of s) i = Some r" "authorized E (sp_buyer r)" "sp_status r = Pending"
    and n: "0 < n" "n \<le> sp_quantity r" and p: "p = tdiv (sp_price r * int n) (int (sp_quantity r))"
    and t: "book_of t = touch i ?q (coll_of s i) (dep_of s i) [(sp_token r, sp_buyer r, this_addr E, p)]
      [history_entry E Accepted] False [] (book_of s)"
  note facts = deal_facts [OF ok r(1)]
  have b: "sp_buyer r \<noteq> this_addr E" using self r(2) by (rule signer_other)
  have "0 \<le> sp_price r * int n" using facts(1) by simp
  then have "0 \<le> p" unfolding p using n by (simp add: tdiv_nonneg pos_imp_zdiv_nonneg_iff)
  then have q: "deal_ok (this_addr E) ?q (coll_of s i) (dep_of s i)"
    using book_ok_deal [OF ok r(1)] r(3) b by (auto simp: deal_ok_def accepted_def)
  have "costs (this_addr E) (sp_token r) [(sp_token r, sp_buyer r, this_addr E, p)] (0 - p)"
    by (rule costs_intros b)+
  then show ?thesis
    using r(3) q facts(2) by (intro keep_change [OF ok r(1) t])
      (auto simp: same_deal_def accepted_def locked_price_def elim!: costs_mono)
qed

lemma submit_installment_payment_change:
  assumes ok: "book_ok (this_addr E) (book_of s)" and self: "\<not> authorized E (this_addr E)"
    and call: "submit_installment_payment E i x s = Inr t"
  shows "book_change own sv lk (this_addr E) (book_of s) (book_of t)"
  using call
proof (rule submit_installment_payment_effect)
  fix r :: SwapRecord and p
  let ?q = "if sp_price r \<le> p
    then r\<lparr>sp_paid_amount := p, sp_status := Accepted, sp_accept_timestamp := now E\<rparr>
    else r\<lparr>sp_paid_amount := p\<rparr>"
  assume r: "bk_swap (book_of s) i = Some r" "authorized E (sp_buyer r)" "sp_status r = Pending"
    and x: "0 < x" and p: "p = sat_i128 (sp_paid_amount r + x)"
    and t: "book_of t = touch i ?q (coll_of s i) (dep_of s i) [(sp_token r, sp_buyer r, this_addr E, x)]
      (if sp_price r \<le> p then [history_entry E Accepted] else []) False [] (book_of s)"
  note facts = deal_facts [OF ok r(1)]
  have b: "sp_buyer r \<noteq> this_addr E" using self r(2) by (rule signer_other)
  have bounds: "0 \<le> p" "p \<le> sp_paid_amount r + x" using x facts(2) by (auto simp: p sat_i128_def)
  then have q: "deal_ok (this_addr E) ?q (coll_of s i) (dep_of s i)"
    using book_ok_deal [OF ok r(1)] r(3) b by (auto simp: deal_ok_def)
  have "costs (this_addr E) (sp_token r) [(sp_token r, sp_buyer r, this_addr E, x)] (0 - x)"
    by (rule costs_intros b)+
  then show ?thesis
    using r(3) q bounds by (intro keep_change [OF ok r(1) t])
      (auto simp: same_deal_def locked_price_def elim!: costs_mono)
qed

text \<open>A scheduled payment may revive a dead swap, and what it pays in is in no relation to the price.\<close>

lemma make_scheduled_payment_change:
  assumes ok: "book_ok (this_addr E) (book_of s)" and self: "\<not> authorized E (this_addr E)"
    and call: "make_scheduled_payment E i k s = Inr t" and sv: "\<not> sv"
    and alive: "\<And>r. lk \<Longrightarrow> bk_swap (book_of s) i = Some r \<Longrightarrow> live (sp_status r)"
  shows "book_change own sv lk (this_addr E) (book_of s) (book_of t)"
  using call
proof (rule make_scheduled_payment_effect)
  fix r :: SwapRecord and sch made
  let ?q = "if list_all (\<lambda>paid. paid) made
    then r\<lparr>sp_status := Accepted, sp_accept_timestamp := now E\<rparr> else r"
  assume r: "bk_swap (book_of s) i = Some r" "authorized E (sp_buyer r)"
    and t: "book_of t = touch i ?q (coll_of s i) (dep_of s i)
      [(sp_token r, sp_buyer r, this_addr E, ps_amount (sch ! k))]
      (if list_all (\<lambda>paid. paid) made then [history_entry E Accepted] else []) False [] (book_of s)"
  have "sp_buyer r \<noteq> this_addr E" using self r(2) by (rule signer_other)
  then have "deal_ok (this_addr E) ?q (coll_of s i) (dep_of s i)"
    using book_ok_deal [OF ok r(1)] by (auto simp: deal_ok_def)
  then show ?thesis
    using sv alive [OF _ r(1)] by (intro keep_change [OF ok r(1) t]) (auto simp: same_deal_def)
qed

lemma escrow_withdraw_change:
  assumes ok: "book_ok (this_addr E) (book_of s)" and call: "escrow_withdraw E i s = Inr t"
  shows "book_change own sv lk (this_addr E) (book_of s) (book_of t)"
  using call
proof (rule escrow_withdraw_effect)
  fix r
  let ?ps = "case dep_of s i of Some d \<Rightarrow> if 0 < d then [pay_out E r (sp_buyer r) d] else [] | None \<Rightarrow> []"
  assume r: "bk_swap (book_of s) i = Some r" "sp_status r = Accepted"
    and t: "book_of t = touch i (closed Cancelled r) (coll_of s i) None ?ps
      [history_entry E Cancelled] True [] (book_of s)"
  note facts = deal_facts [OF ok r(1)]
  have "costs (this_addr E) (sp_token r) ?ps (sp_price r)"
    using facts(1,6)
    by (cases "dep_of s i") (auto intro: costs_mono [OF costs_Nil] costs_shapes(1) facts)
  then show ?thesis
    using r by (intro death_change [OF ok r(1) t]) (auto simp: locked_price_def)
qed

section \<open>Terms, initiation and auctions\<close>

lemma extend_swap_expiry_change:
  assumes ok: "book_ok (this_addr E) (book_of s)" and call: "extend_swap_expiry E i x s = Inr t"
  shows "book_change own sv lk (this_addr E) (book_of s) (book_of t)"
  using call
proof (rule extend_swap_expiry_effect)
  fix r
  assume r: "bk_swap (book_of s) i = Some r" "sp_status r = Pending"
    and t: "book_of t = touch i (r\<lparr>sp_expiry := x\<rparr>) (coll_of s i) (dep_of s i) [] [] False [] (book_of s)"
  show ?thesis
    using book_ok_deal [OF ok r(1)] r(2) by (intro keep_change [OF ok r(1) t])
      (auto simp: same_deal_def deal_ok_def locked_price_def intro!: costs_mono [OF costs_Nil])
qed

lemma renegotiate_swap_change:
  assumes "renegotiate_swap E i p s = Inr t"
  shows "book_change own sv lk (this_addr E) (book_of s) (book_of t)"
proof -
  from assms obtain z where t: "book_of t = (book_of s)\<lparr>bk_offer := (bk_offer (book_of s))(i := z)\<rparr>"
    and z: "\<forall>o'. z = Some o' \<longrightarrow> 0 < ro_new_price o'"
    by (elim renegotiate_swap_effect) fastforce
  show ?thesis unfolding t by (rule book_change.offer [of "\<lambda>_. z"]) (use z in simp)
qed

lemma accept_renegotiation_changes:
  assumes ok: "book_ok (this_addr E) (book_of s)" and call: "accept_renegotiation E i s = Inr t"
  shows "book_changes own sv lk (this_addr E) (book_of s) (book_of t)"
  using call
proof (rule accept_renegotiation_effect)
  fix r :: SwapRecord and z :: RenegotiationOffer
  let ?q = "r\<lparr>sp_price := ro_new_price z\<rparr>"
  let ?b = "touch i ?q (coll_of s i) (dep_of s i) [] [] False [] (book_of s)"
  assume r: "bk_swap (book_of s) i = Some r" "sp_status r = Pending"
    and z: "bk_offer (book_of s) i = Some z"
    and t: "book_of t = ?b\<lparr>bk_offer := (bk_offer (book_of s))(i := None)\<rparr>"
  have "0 < ro_new_price z" using ok z by (simp add: book_ok_def)
  then have q: "deal_ok (this_addr E) ?q (coll_of s i) (dep_of s i)"
    using book_ok_deal [OF ok r(1)] r(2) by (auto simp: deal_ok_def)
  then have "book_change own sv lk (this_addr E) (book_of s) ?b"
    using r by (intro book_change.deal)
      (auto simp: same_deal_def lock_move_def locked_price_def intro!: balancedI costs_Nil)
  moreover have "book_change own sv lk (this_addr E) ?b (book_of t)"
    unfolding t using book_change.offer [of "\<lambda>_. None" i own sv lk "this_addr E" ?b] by simp
  ultimately show ?thesis by (meson converse_rtranclp_into_rtranclp r_into_rtranclp)
qed

end
