(* ===== verification/Swap_Calls.thy ===== *)
theory Swap_Calls
  imports Swap_Moves
begin

text \<open>
  The initiations, the auctions, the loops of the batches, and with them the theorem that every call of
  the contract is a sequence of changes of the book.
\<close>

section \<open>Initiation and auctions\<close>

lemma fresh_swap_change:
  assumes own: "vouched R \<le> own" and self: "\<not> authorized E (this_addr E)"
    and r: "fresh_swap E R tok seller buyer r"
    and t: "enters E r s t"
  shows "book_change own sv lk (this_addr E) (book_of s) (book_of t)"
proof -
  have "sp_seller r \<noteq> this_addr E" using self r by (auto simp: fresh_swap_def)
  moreover have "own (sp_ip_id r) (sp_seller r)" using r by (intro vouchedD [OF own]) (auto simp: fresh_swap_def)
  ultimately show ?thesis
    using r t unfolding enters_def fresh_swap_def by (auto intro!: book_change.entry)
qed

lemma start_ip_auction_change:
  assumes own: "vouched R \<le> own" and self: "\<not> authorized E (this_addr E)"
    and call: "start_ip_auction E R tok ip seller m d s = Inr (k, t)"
  shows "book_change own sv lk (this_addr E) (book_of s) (book_of t)"
  using call
proof (rule start_ip_auction_effect)
  let ?a = "\<lparr>ac_auction_id = k, ac_ip_id = ip, ac_seller = seller, ac_token = tok, ac_min_bid = m,
         ac_highest_bid = 0, ac_highest_bidder = None, ac_start_time = now E,
         ac_end_time = now E + d, ac_finalized = False\<rparr>"
  assume "authorized E seller" "0 < m" and v: "\<exists>p. get_ip R ip = Inr p \<and> ir_owner p = seller \<and> \<not> ir_revoked p"
    and k: "k = bk_next_auction (book_of s)"
    and t: "book_of t = (book_of s)\<lparr>bk_auction := (bk_auction (book_of s))(k \<mapsto> ?a),
      bk_next_auction := k + 1\<rparr>"
  with self have "auction_ok (this_addr E) ?a" by (auto simp: auction_ok_def)
  then show ?thesis
    unfolding t k by (rule book_change.start) (use vouchedD [OF own v] in simp_all)
qed

lemma place_bid_change:
  assumes self: "\<not> authorized E (this_addr E)" and call: "place_bid E k bidder x s = Inr t"
  shows "book_change own sv lk (this_addr E) (book_of s) (book_of t)"
  using call
proof (rule place_bid_effect)
  fix a :: AuctionRecord
  assume a: "bk_auction (book_of s) k = Some a" "authorized E bidder" "\<not> ac_finalized a"
    "ac_min_bid a \<le> x" "ac_highest_bid a < x"
    and t: "book_of t = (book_of s)\<lparr>bk_auction := (bk_auction (book_of s))
       (k \<mapsto> a\<lparr>ac_highest_bid := x, ac_highest_bidder := Some bidder\<rparr>),
       bk_paid := bk_paid (book_of s) @ refund_bid E a @ [(ac_token a, bidder, this_addr E, x)]\<rparr>"
  have "bidder \<noteq> this_addr E" using self a(2) by (rule signer_other)
  then show ?thesis unfolding t refund_bid_def using a by (intro book_change.bid)
qed

lemma finalize_auction_change:
  assumes call: "finalize_auction E k s = Inr t" and "\<not> lk"
  shows "book_change own sv lk (this_addr E) (book_of s) (book_of t)"
  using call
proof (rule finalize_auction_effect)
  fix a :: AuctionRecord
  assume a: "bk_auction (book_of s) k = Some a" "\<not> ac_finalized a"
    and t: "book_of t = (case ac_highest_bidder a of
       None \<Rightarrow> (book_of s)\<lparr>bk_auction := (bk_auction (book_of s))(k \<mapsto> a\<lparr>ac_finalized := True\<rparr>)\<rparr>
     | Some buyer \<Rightarrow> enter E (auction_swap E a buyer) False
         ((book_of s)\<lparr>bk_auction := (bk_auction (book_of s))(k \<mapsto> a\<lparr>ac_finalized := True\<rparr>)\<rparr>))"
  show ?thesis
  proof (cases "ac_highest_bidder a")
    case None
    with a show ?thesis unfolding t by (simp add: book_change.close)
  next
    case (Some buyer)
    with a assms(2) show ?thesis
      unfolding t by (simp, intro book_change.award) (auto simp: auction_swap_def)
  qed
qed

section \<open>The loops of the batches\<close>

text \<open>The invariant of a loop: the book has only changed as allowed, and is still well-formed.\<close>

definition runs :: "(nat \<Rightarrow> address \<Rightarrow> bool) \<Rightarrow> bool \<Rightarrow> bool \<Rightarrow> address \<Rightarrow> swaps \<Rightarrow> swaps \<Rightarrow> bool" where
  "runs own sv lk this s t \<longleftrightarrow> book_ok this (book_of t) \<and> book_changes own sv lk this (book_of s) (book_of t)"

lemma runs_start: "book_ok this (book_of s) \<Longrightarrow> runs own sv lk this s s"
  by (simp add: runs_def)

lemma runs_step: "runs own sv lk this s t \<Longrightarrow> book_change own sv lk this (book_of t) (book_of u) \<Longrightarrow>
    runs own sv lk this s u"
  unfolding runs_def by (meson book_change_ok rtranclp.rtrancl_into_rtrancl)

lemma runs_ok: "runs own sv lk this s t \<Longrightarrow> book_ok this (book_of t)"
  by (simp add: runs_def)

lemma runs_book: "runs own sv lk this s t \<Longrightarrow> book_of u = book_of t \<Longrightarrow>
    book_changes own sv lk this (book_of s) (book_of u)"
  by (simp add: runs_def)

text \<open>One turn leaves the other swaps as they are.\<close>

lemma touch_other: "book_of t = touch i q c d ps hs u sc (book_of s) \<Longrightarrow> j \<noteq> i \<Longrightarrow>
    bk_swap (book_of t) j = bk_swap (book_of s) j"
  by simp

lemma check_batch_items_Inr: "check_batch_items R seller s items = Inr () \<Longrightarrow>
    distinct (map fst items) \<and>
    (\<forall>(ip, p) \<in> set items. 0 < p \<and> vouched R ip seller \<and> bk_lock (book_of s) ip = None)"
  by (induction R seller s items rule: check_batch_items.induct) (auto simp: read_book vouched_def, force+)

lemma batch_initiate_swap_changes:
  assumes own: "vouched R \<le> own" and ok: "book_ok (this_addr E) (book_of s)"
    and self: "\<not> authorized E (this_addr E)"
    and call: "batch_initiate_swap E R tok ips seller ps buyer n ref s = Inr (ids, t)"
  shows "book_changes own sv lk (this_addr E) (book_of s) (book_of t)"
proof -
  let ?items = "zip ips ps"
  from call obtain u where auth: "authorized E seller" and items: "check_batch_items R seller s ?items = Inr ()"
    and fold: "foldE (batch_initiate_step E tok seller buyer n ref) ?items ([], s) = Inr (ids, u)"
    and t: "book_of t = book_of u"
    by (auto simp: batch_initiate_swap_def)
  have seller: "seller \<noteq> this_addr E" using self auth by (rule signer_other)
  have "runs own sv lk (this_addr E) s (snd (ids, u))"
    using fold
  proof (rule foldE_sweep [where P = "\<lambda>z. runs own sv lk (this_addr E) s (snd z)" and k = fst
        and Q = "\<lambda>x z. bk_lock (book_of (snd z)) (fst x) = None"])
    show "runs own sv lk (this_addr E) s (snd ([] :: nat list, s))" using ok by (simp add: runs_start)
    show "\<forall>x \<in> set ?items. bk_lock (book_of (snd ([] :: nat list, s))) (fst x) = None"
      and "distinct (map fst ?items)"
      using check_batch_items_Inr [OF items] by auto
  next
    fix x z z'
    assume x: "x \<in> set ?items" and z: "runs own sv lk (this_addr E) s (snd z)"
      and free: "bk_lock (book_of (snd z)) (fst x) = None"
      and step: "batch_initiate_step E tok seller buyer n ref x z = Inr z'"
    obtain ip p where xp: "x = (ip, p)" by (cases x)
    have "0 < p" "own ip seller" using check_batch_items_Inr [OF items] x xp own by auto
    moreover from step obtain r where r: "book_of (snd z') = enter E r True (book_of (snd z))"
      "sp_ip_id r = ip" "sp_price r = p" "sp_seller r = seller" "sp_status r = Pending"
      "sp_paid_amount r = 0"
      unfolding xp by (cases z, cases z') (auto elim: batch_initiate_step_effect)
    ultimately have "book_change own sv lk (this_addr E) (book_of (snd z)) (book_of (snd z'))"
      unfolding r(1) using seller free xp by (intro book_change.entry) auto
    with z show "runs own sv lk (this_addr E) s (snd z') \<and>
      (\<forall>y \<in> set ?items. fst y \<noteq> fst x \<longrightarrow> bk_lock (book_of (snd z)) (fst y) = None \<longrightarrow>
        bk_lock (book_of (snd z')) (fst y) = None)"
      using r xp by (auto intro: runs_step)
  qed
  then show ?thesis by (auto intro: runs_book t)
qed

lemma batch_initiate_swap_with_insurance_changes:
  assumes own: "vouched R \<le> own" and ok: "book_ok (this_addr E) (book_of s)"
    and self: "\<not> authorized E (this_addr E)"
    and call: "batch_initiate_swap_with_insurance E R tok ips seller ps buyer n ref ins s = Inr (ids, t)"
  shows "book_changes own sv lk (this_addr E) (book_of s) (book_of t)"
proof -
  from call have auth: "authorized E seller"
    and fold: "foldE (batch_insured_step E R tok ips seller ps buyer n ref ins) [0..<length ips] ([], s) =
      Inr (ids, t)"
    by (auto simp: batch_initiate_swap_with_insurance_def)
  have "runs own sv lk (this_addr E) s (snd (ids, t))"
    using fold
  proof (rule foldE_invariant [where P = "\<lambda>z. runs own sv lk (this_addr E) s (snd z)"])
    fix x z z'
    assume "runs own sv lk (this_addr E) s (snd z)"
      and "batch_insured_step E R tok ips seller ps buyer n ref ins x z = Inr z'"
    then show "runs own sv lk (this_addr E) s (snd z')"
      using auth self
      by (cases z, cases z') (auto elim!: batch_insured_step_effect intro: runs_step fresh_swap_change [OF own])
  qed (use ok in \<open>simp add: runs_start\<close>)
  then show ?thesis by (auto intro: runs_book)
qed

lemma batch_initiate_escrow_changes:
  assumes own: "vouched R \<le> own" and ok: "book_ok (this_addr E) (book_of s)"
    and self: "\<not> authorized E (this_addr E)"
    and call: "batch_initiate_escrow E R tok ips seller ps buyer tmos s = Inr (ids, t)"
  shows "book_changes own sv lk (this_addr E) (book_of s) (book_of t)"
proof -
  from call have auth: "authorized E seller"
    and fold: "foldE (batch_escrow_step E R tok ips seller ps buyer tmos) [0..<length ips] ([], s) =
      Inr (ids, t)"
    by (auto simp: batch_initiate_escrow_def Let_def)
  have "runs own sv lk (this_addr E) s (snd (ids, t))"
    using fold
  proof (rule foldE_invariant [where P = "\<lambda>z. runs own sv lk (this_addr E) s (snd z)"])
    fix x z z'
    assume "runs own sv lk (this_addr E) s (snd z)"
      and "batch_escrow_step E R tok ips seller ps buyer tmos x z = Inr z'"
    then show "runs own sv lk (this_addr E) s (snd z')"
      using auth self
      by (cases z, cases z') (auto elim!: batch_escrow_step_effect intro: runs_step fresh_swap_change [OF own])
  qed (use ok in \<open>simp add: runs_start\<close>)
  then show ?thesis by (auto intro: runs_book)
qed

lemma check_accept_item_Inr: "check_accept_item buyer s i = Inr () \<Longrightarrow>
    bk_swap (book_of s) i = Some r \<Longrightarrow> sp_buyer r = buyer \<and> sp_status r = Pending"
  by (auto simp: check_accept_item_def book_fields)

lemma batch_accept_swaps_changes:
  assumes ok: "book_ok (this_addr E) (book_of s)" and self: "\<not> authorized E (this_addr E)"
    and call: "batch_accept_swaps E ids buyer s = Inr t"
  shows "book_changes own sv lk (this_addr E) (book_of s) (book_of t)"
proof -
  from call obtain u where auth: "authorized E buyer" and items: "checkE (check_accept_item buyer s) ids = Inr ()"
    and fold: "foldE (batch_accept_step E) ids s = Inr u" and t: "book_of t = book_of u"
    by (auto simp: batch_accept_swaps_def)
  let ?item = "\<lambda>v. \<forall>i \<in> set ids. \<forall>r. bk_swap (book_of v) i = Some r \<longrightarrow>
    sp_buyer r = buyer \<and> (sp_status r = Pending \<or> sp_status r = Accepted)"
  have "runs own sv lk (this_addr E) s u \<and> ?item u"
    using fold
  proof (rule foldE_invariant)
    show "runs own sv lk (this_addr E) s s \<and> ?item s"
      using ok items by (auto simp: runs_start checkE_Inr_iff dest: check_accept_item_Inr)
  next
    fix i v w
    assume i: "i \<in> set ids" and v: "runs own sv lk (this_addr E) s v \<and> ?item v"
      and step: "batch_accept_step E i v = Inr w"
    have "book_change own sv lk (this_addr E) (book_of v) (book_of w)"
      using v i auth by (intro batch_accept_step_change [OF runs_ok self step]) auto
    moreover have "?item w"
      using step v by (elim batch_accept_step_effect) (auto simp: accepted_def)
    ultimately show "runs own sv lk (this_addr E) s w \<and> ?item w" using v by (blast intro: runs_step)
  qed
  then show ?thesis by (auto intro: runs_book t)
qed

lemma batch_reveal_keys_changes:
  assumes ok: "book_ok (this_addr E) (book_of s)" and call: "batch_reveal_keys E R ids xs ys a s = Inr t"
    and once: "sv \<or> lk \<Longrightarrow> distinct ids"
  shows "book_changes own sv lk (this_addr E) (book_of s) (book_of t)"
proof -
  from call obtain fees u where len: "length xs = length ids" "length ys = length ids"
    and items: "checkE (check_reveal_item E R a s) (zip ids (zip xs ys)) = Inr ()"
    and fold: "foldE (batch_reveal_step E) ids ([], s) = Inr (fees, u)" and t: "book_of t = book_of u"
    by (auto simp: batch_reveal_keys_def)
  let ?P = "\<lambda>z. runs own sv lk (this_addr E) s (snd z)"
  let ?Q = "\<lambda>i z. \<forall>r. bk_swap (book_of (snd z)) i = Some r \<longrightarrow> sp_status r = Accepted"
  have turn: "?P z' \<and> (\<forall>j \<in> set ids. j \<noteq> i \<longrightarrow> ?Q j z \<longrightarrow> ?Q j z')"
    if z: "?P z" and q: "sv \<or> lk \<Longrightarrow> ?Q i z" and step: "batch_reveal_step E i z = Inr z'" for i z z'
  proof -
    obtain f v f' v' where zz: "z = (f, v)" "z' = (f', v')" by (cases z, cases z')
    have "book_change own sv lk (this_addr E) (book_of v) (book_of v')"
      using z q step unfolding zz by (intro batch_reveal_step_change [OF runs_ok]) auto
    moreover have "bk_swap (book_of v') j = bk_swap (book_of v) j" if "j \<noteq> i" for j
      using step that unfolding zz by (elim batch_reveal_step_effect) (auto simp: touch_other)
    ultimately show ?thesis using z unfolding zz by (auto intro: runs_step)
  qed
  have start: "?P ([] :: SwapFeeBreakdown list, s)" using ok by (simp add: runs_start)
  have "?P (fees, u)"
  proof (cases "sv \<or> lk")
    case True
    have "\<forall>i \<in> set ids. ?Q i ([] :: SwapFeeBreakdown list, s)"
    proof
      fix i assume "i \<in> set ids"
      then obtain k where k: "k < length ids" "i = ids ! k" by (auto simp: in_set_conv_nth)
      then have "(i, xs ! k, ys ! k) \<in> set (zip ids (zip xs ys))" using len by (auto simp: set_zip)
      then have "check_reveal_item E R a s (i, xs ! k, ys ! k) = Inr ()"
        using items by (simp add: checkE_Inr_iff)
      then show "?Q i ([] :: SwapFeeBreakdown list, s)" by (auto simp: check_reveal_item_def book_fields)
    qed
    moreover have "distinct (map (\<lambda>i. i) ids)" using once [OF True] by simp
    ultimately show ?thesis
      by (rule foldE_sweep [where P = ?P and Q = ?Q and k = "\<lambda>i. i", OF fold start])
        (rule turn, assumption+)
  next
    case False
    then show ?thesis
      by (intro foldE_invariant [where P = ?P, OF fold start]) (rule turn [THEN conjunct1], simp_all)
  qed
  then show ?thesis by (auto intro: runs_book t)
qed

lemma batch_rollback_swaps_changes:
  assumes ok: "book_ok (this_addr E) (book_of s)" and call: "batch_rollback_swaps E ids a reason s = Inr t"
    and free: "\<And>i r. sv \<Longrightarrow> i \<in> set ids \<Longrightarrow> bk_swap (book_of s) i = Some r \<Longrightarrow>
      sp_insurance_premium r \<le> 0"
    and alive: "\<And>i r. lk \<Longrightarrow> i \<in> set ids \<Longrightarrow> bk_swap (book_of s) i = Some r \<Longrightarrow> live (sp_status r)"
    and once: "lk \<Longrightarrow> distinct ids"
  shows "book_changes own sv lk (this_addr E) (book_of s) (book_of t)"
proof -
  from call obtain u where items: "checkE (\<lambda>i. bindE (require_swap_exists s i) (\<lambda>swap.
      if sp_status swap = Completed then Inl (Contract NotInAccepted) else Inr ())) ids = Inr ()"
    and fold: "foldE (batch_rollback_step E reason) ids s = Inr u" and t: "book_of t = book_of u"
    by (auto simp: batch_rollback_swaps_def)
  let ?P = "\<lambda>v. runs own sv lk (this_addr E) s v \<and> (\<forall>i \<in> set ids. \<forall>r. sv \<longrightarrow>
    bk_swap (book_of v) i = Some r \<longrightarrow> sp_status r \<noteq> Completed \<and> sp_insurance_premium r \<le> 0)"
  let ?Q = "\<lambda>i v. \<forall>r. bk_swap (book_of v) i = Some r \<longrightarrow> live (sp_status r)"
  have turn: "?P w \<and> (\<forall>j \<in> set ids. j \<noteq> i \<longrightarrow> ?Q j v \<longrightarrow> ?Q j w)"
    if i: "i \<in> set ids" and v: "?P v" and q: "lk \<Longrightarrow> ?Q i v"
      and step: "batch_rollback_step E reason i v = Inr w" for i v w
    using step
  proof (rule batch_rollback_step_effect)
    fix r
    assume r: "bk_swap (book_of v) i = Some r"
      and w: "book_of w = touch i (closed Cancelled r) (rolled_collateral r (coll_of v i)) (dep_of v i)
        (rollback_payments E r (coll_of v i)) [history_entry E Cancelled] True [] (book_of v)"
    have "book_change own sv lk (this_addr E) (book_of v) (book_of w)"
      using v i q r by (intro rollback_change [OF _ r w]) (auto simp: runs_ok)
    with v have "runs own sv lk (this_addr E) s w" by (blast intro: runs_step)
    with v i r show ?thesis unfolding w by auto
  qed
  have "\<forall>i \<in> set ids. \<forall>r. bk_swap (book_of s) i = Some r \<longrightarrow> sp_status r \<noteq> Completed"
    using items by (fastforce simp: checkE_Inr_iff bindE_Inr_iff book_fields)
  with ok free have start: "?P s" by (auto simp: runs_start)
  have "?P u"
  proof (cases lk)
    case True
    then have "\<forall>i \<in> set ids. ?Q i s" "distinct (map (\<lambda>i. i) ids)" using alive once by auto
    then show ?thesis
      by (rule foldE_sweep [where P = ?P and Q = ?Q and k = "\<lambda>i. i", OF fold start])
        (rule turn, assumption+)
  next
    case False
    then show ?thesis
      by (intro foldE_invariant [where P = ?P, OF fold start]) (rule turn [THEN conjunct1], simp_all)
  qed
  then show ?thesis by (auto intro: runs_book t)
qed

lemma batch_arbitrate_swaps_changes:
  assumes ok: "book_ok (this_addr E) (book_of s)" and call: "batch_arbitrate_swaps E ids a refund s = Inr t"
  shows "book_changes own sv lk (this_addr E) (book_of s) (book_of t)"
proof -
  from call have fold: "foldE (batch_arbitrate_step E a refund) ids s = Inr t"
    by (auto simp: batch_arbitrate_swaps_def)
  have "runs own sv lk (this_addr E) s t"
    by (rule foldE_invariant [where P = "runs own sv lk (this_addr E) s", OF fold runs_start [OF ok]])
      (blast intro: runs_step batch_arbitrate_step_change runs_ok)
  then show ?thesis by (auto intro: runs_book)
qed

lemma batch_cancel_swaps_changes:
  assumes ok: "book_ok (this_addr E) (book_of s)" and call: "batch_cancel_swaps E ids a reasons s = Inr (done', t)"
  shows "book_changes own sv lk (this_addr E) (book_of s) (book_of t)"
proof -
  from call obtain u where
    fold: "foldE (batch_cancel_step E a) (zip ids reasons) ([], s) = Inr (done', u)"
    and t: "book_of t = book_of u"
    by (auto simp: batch_cancel_swaps_def)
  have "runs own sv lk (this_addr E) s (snd (done', u))"
    using fold
  proof (rule foldE_invariant [where P = "\<lambda>z. runs own sv lk (this_addr E) s (snd z)"])
    fix x z z'
    assume "runs own sv lk (this_addr E) s (snd z)" and "batch_cancel_step E a x z = Inr z'"
    then show "runs own sv lk (this_addr E) s (snd z')"
      by (cases x; cases z; cases z') (auto intro: runs_step batch_cancel_step_change runs_ok)
  qed (use ok in \<open>simp add: runs_start\<close>)
  then show ?thesis by (auto intro: runs_book t)
qed

lemma escrow_deposit_change:
  assumes ok: "book_ok (this_addr E) (book_of s)" and self: "\<not> authorized E (this_addr E)"
    and call: "escrow_deposit E i s = Inr t"
  shows "book_change own sv lk (this_addr E) (book_of s) (book_of t)"
proof -
  from call obtain r where r: "bk_swap (book_of s) i = Some r" and auth: "authorized E (sp_buyer r)"
    and dep: "deposit_escrow E i r s = Inr t"
    by (auto simp: escrow_deposit_def book_fields)
  have "sp_buyer r \<noteq> this_addr E" using self auth by (rule signer_other)
  then show ?thesis by (rule deposit_escrow_change [OF ok r _ dep])
qed

lemma batch_escrow_deposit_changes:
  assumes ok: "book_ok (this_addr E) (book_of s)" and self: "\<not> authorized E (this_addr E)"
    and call: "batch_escrow_deposit E ids buyer s = Inr t"
  shows "book_changes own sv lk (this_addr E) (book_of s) (book_of t)"
proof -
  from call have auth: "authorized E buyer" and fold: "foldE (\<lambda>i s. bindE (require_swap_exists s i) (\<lambda>swap.
      if sp_buyer swap \<noteq> buyer then Inl (Contract Sw_Unauthorized) else deposit_escrow E i swap s)) ids s = Inr t"
    by (auto simp: batch_escrow_deposit_def)
  have b: "buyer \<noteq> this_addr E" using self auth by (rule signer_other)
  have "runs own sv lk (this_addr E) s t"
    using fold
  proof (rule foldE_invariant)
    fix i u v
    assume u: "runs own sv lk (this_addr E) s u" and "bindE (require_swap_exists u i) (\<lambda>swap.
      if sp_buyer swap \<noteq> buyer then Inl (Contract Sw_Unauthorized) else deposit_escrow E i swap u) = Inr v"
    then obtain r where "bk_swap (book_of u) i = Some r" "sp_buyer r = buyer" "deposit_escrow E i r u = Inr v"
      by (auto simp: book_fields)
    with u b show "runs own sv lk (this_addr E) s v"
      by (blast intro: runs_step deposit_escrow_change runs_ok)
  qed (simp add: runs_start ok)
  then show ?thesis by (auto intro: runs_book)
qed

section \<open>Calls\<close>

text \<open>
  \<open>solvent_call\<close> leaves out the calls that pay out money the contract does not hold for the swap:
  scheduled payments, an arbitration of a swap that holds no payment, a rollback after completion, a
  rollback that refunds a premium, and a batch reveal with a repeated identifier.
\<close>

definition unpremiumed :: "swaps \<Rightarrow> nat \<Rightarrow> bool" where
  "unpremiumed s i \<longleftrightarrow> (case sw_Swap s i of None \<Rightarrow> True | Some r \<Rightarrow> sp_insurance_premium r \<le> 0)"

definition alive :: "swaps \<Rightarrow> nat \<Rightarrow> bool" where
  "alive s i \<longleftrightarrow> (case sw_Swap s i of None \<Rightarrow> True | Some r \<Rightarrow> live (sp_status r))"

definition paid_in :: "swaps \<Rightarrow> nat \<Rightarrow> bool" where
  "paid_in s i \<longleftrightarrow> (case sw_Swap s i of None \<Rightarrow> True
     | Some r \<Rightarrow> sp_status r = Accepted \<or> sp_status r = Disputed)"

fun solvent_call :: "swap_call \<Rightarrow> swaps \<Rightarrow> bool" where
  "solvent_call (Deal (MakeScheduledPayment i k)) s = False"
| "solvent_call (Deal (BatchRevealKeys ids xs ys a)) s = distinct ids"
| "solvent_call (Ruling (ArbitrateSwap i a b)) s = paid_in s i"
| "solvent_call (Ruling (AdminRollbackSwap i a w)) s = unpremiumed s i"
| "solvent_call (Ruling (BatchRollbackSwaps ids a w)) s = list_all (unpremiumed s) ids"
| "solvent_call (Ruling (ValidateAndRollbackSwap i v)) s = v"
| "solvent_call c s = True"

text \<open>
  \<open>exclusive_call\<close> leaves out the calls that revive a dead swap or take away a lock that another swap
  may hold, and the end of an auction, which makes a swap without a lock.
\<close>

fun exclusive_call :: "swap_call \<Rightarrow> swaps \<Rightarrow> bool" where
  "exclusive_call (Deal (MakeScheduledPayment i k)) s = alive s i"
| "exclusive_call (Deal (BatchRevealKeys ids xs ys a)) s = distinct ids"
| "exclusive_call (Ruling (ArbitrateSwap i a b)) s = alive s i"
| "exclusive_call (Ruling (AdminRollbackSwap i a w)) s = alive s i"
| "exclusive_call (Ruling (BatchRollbackSwaps ids a w)) s = (distinct ids \<and> list_all (alive s) ids)"
| "exclusive_call (Auctions (FinalizeAuction k)) s = False"
| "exclusive_call c s = True"

lemma call_conditions:
  "unpremiumed s i \<Longrightarrow> bk_swap (book_of s) i = Some r \<Longrightarrow> sp_insurance_premium r \<le> 0"
  "alive s i \<Longrightarrow> bk_swap (book_of s) i = Some r \<Longrightarrow> live (sp_status r)"
  "paid_in s i \<Longrightarrow> bk_swap (book_of s) i = Some r \<Longrightarrow> sp_status r = Accepted \<or> sp_status r = Disputed"
  by (simp_all add: unpremiumed_def alive_def paid_in_def book_fields)

lemmas change_intros = reveal_key_change verify_and_complete_change cancel_expired_swap_change
  cancel_swap_change cancel_pending_swap_change raise_dispute_change resolve_swap_dispute_change
  auto_resolve_dispute_change auto_refund_timeout_change accept_swap_conditional_change
  accept_swap_change accept_swap_partial_change submit_installment_payment_change
  escrow_withdraw_change escrow_deposit_change extend_swap_expiry_change renegotiate_swap_change
  start_ip_auction_change place_bid_change

lemmas changes_intros = accept_renegotiation_changes batch_initiate_swap_changes
  batch_initiate_swap_with_insurance_changes batch_initiate_escrow_changes
  batch_accept_swaps_changes batch_arbitrate_swaps_changes batch_cancel_swaps_changes
  batch_escrow_deposit_changes

lemma exec_open_changes:
  assumes "vouched R \<le> own" and "book_ok (this_addr E) (book_of s)" and "\<not> authorized E (this_addr E)"
    and "exec_open E R c s = Inr t"
  shows "book_changes own sv lk (this_addr E) (book_of s) (book_of t)"
  using assms
  by (cases c)
    (auto elim!: initiate_swap_effect initiate_swap_with_oracle_price_effect
      initiate_swap_with_schedule_effect initiate_escrow_swap_effect initiate_swap_with_signers_effect
      intro: fresh_swap_change changes_intros)

lemma exec_deal_changes:
  assumes "book_ok (this_addr E) (book_of s)" and "\<not> authorized E (this_addr E)"
    and "exec_deal E R c s = Inr t" and "sv \<Longrightarrow> solvent_call (Deal c) s" and "lk \<Longrightarrow> exclusive_call (Deal c) s"
  shows "book_changes own sv lk (this_addr E) (book_of s) (book_of t)"
  using assms
  by (cases c)
    (auto intro: r_into_rtranclp change_intros changes_intros batch_reveal_keys_changes
      make_scheduled_payment_change dest: call_conditions)

lemma exec_ruling_changes:
  assumes ok: "book_ok (this_addr E) (book_of s)" and call: "exec_ruling E c s = Inr t"
    and sv: "sv \<Longrightarrow> solvent_call (Ruling c) s" and lk: "lk \<Longrightarrow> exclusive_call (Ruling c) s"
  shows "book_changes own sv lk (this_addr E) (book_of s) (book_of t)"
proof (cases c)
  case (ArbitrateSwap i a b)
  with ok call sv lk have "book_change own sv lk (this_addr E) (book_of s) (book_of t)"
    by (intro arbitrate_swap_change) (auto dest: call_conditions)
  then show ?thesis by blast
next
  case (AdminRollbackSwap i a w)
  with ok call sv lk have "book_change own sv lk (this_addr E) (book_of s) (book_of t)"
    by (intro admin_rollback_swap_change) (auto dest: call_conditions)
  then show ?thesis by blast
next
  case (BatchRollbackSwaps ids a w)
  with ok call sv lk show ?thesis
    by (intro batch_rollback_swaps_changes) (auto simp: list_all_iff dest: call_conditions)
next
  case (ValidateAndRollbackSwap i v)
  with ok call sv show ?thesis by (auto intro: validate_and_rollback_swap_changes)
qed (use ok call in \<open>auto intro: change_intros changes_intros\<close>)

lemma exec_terms_changes:
  assumes "book_ok (this_addr E) (book_of s)" and "exec_terms E c s = Inr t"
  shows "book_changes own sv lk (this_addr E) (book_of s) (book_of t)"
proof (cases c)
  case (ClaimInsurance i)
  then have "bk_claim (book_of s) i \<noteq> None" using assms(2) by (auto dest: claim_insurance_claimable)
  moreover have "bk_claim (book_of s) i = None" using assms(1) by (simp add: book_ok_def)
  ultimately show ?thesis by blast
qed (use assms in \<open>auto simp: quiet_terms intro: change_intros changes_intros\<close>)

lemma exec_auction_changes:
  assumes "vouched R \<le> own" and "\<not> authorized E (this_addr E)" and "exec_auction E R c s = Inr t"
    and "lk \<Longrightarrow> exclusive_call (Auctions c) s"
  shows "book_changes own sv lk (this_addr E) (book_of s) (book_of t)"
  using assms by (cases c) (auto intro: change_intros finalize_auction_change)

theorem exec_swap_changes:
  assumes "vouched R \<le> own" and "book_ok (this_addr E) (book_of s)" and "\<not> authorized E (this_addr E)"
    and "exec_swap E R c s = Inr t" and "sv \<Longrightarrow> solvent_call c s" and "lk \<Longrightarrow> exclusive_call c s"
  shows "book_changes own sv lk (this_addr E) (book_of s) (book_of t)"
proof (cases c)
  case (Open c)
  with assms show ?thesis by (auto intro: exec_open_changes)
next
  case (Deal c)
  with assms show ?thesis by (auto intro: exec_deal_changes)
next
  case (Ruling c)
  with assms show ?thesis by (auto intro: exec_ruling_changes)
next
  case (Terms c)
  with assms show ?thesis by (auto intro: exec_terms_changes)
next
  case (Auctions c)
  with assms show ?thesis by (auto intro: exec_auction_changes)
next
  case (Control c)
  with assms have "book_of t = book_of s" by (auto intro: quiet_control)
  then show ?thesis by simp
qed

lemma swap_step_changes:
  assumes "swap_step G H s t" and "book_ok (this_addr H) (book_of s)"
    and "\<And>c. G c s \<Longrightarrow> sv \<Longrightarrow> solvent_call c s" and "\<And>c. G c s \<Longrightarrow> lk \<Longrightarrow> exclusive_call c s"
  shows "book_changes anyone sv lk (this_addr H) (book_of s) (book_of t)"
proof -
  from assms(1) obtain E c R where e: "same_host H E" "\<not> authorized E (this_addr E)" "G c s"
    "exec_swap E R c s = Inr t"
    by (auto elim: swap_stepE)
  then have "this_addr H = this_addr E" by (simp add: same_host_def)
  with e assms(2-4) show ?thesis by (auto intro: exec_swap_changes [OF vouched_anyone])
qed

end
