(* ===== verification/Swap_Invariant.thy ===== *)
theory Swap_Invariant
  imports Swap_Calls
begin

text \<open>
  The invariants of the swap contract. For every call: the books stay well-formed, identifiers are
  fresh, deals keep their parties, histories grow. Without the calls that overpay: the money covers
  the debts and statuses only move forward. Without those that disturb locks: a lock points to the one
  live swap of its registry record.
\<close>

section \<open>The order of the statuses\<close>

instantiation SwapStatus :: order
begin

fun less_eq_SwapStatus :: "SwapStatus \<Rightarrow> SwapStatus \<Rightarrow> bool" where
  "less_eq_SwapStatus Pending st = (st \<noteq> RolledBack)"
| "less_eq_SwapStatus Accepted st = (st \<in> {Accepted, Disputed, Completed, Cancelled})"
| "less_eq_SwapStatus Disputed st = (st \<in> {Disputed, Completed, Cancelled})"
| "less_eq_SwapStatus Completed st = (st = Completed)"
| "less_eq_SwapStatus Cancelled st = (st = Cancelled)"
| "less_eq_SwapStatus RolledBack st = (st \<in> {RolledBack, Cancelled})"

definition less_SwapStatus :: "SwapStatus \<Rightarrow> SwapStatus \<Rightarrow> bool" where
  "less_SwapStatus st st' \<longleftrightarrow> st \<le> st' \<and> \<not> st' \<le> st"

instance
proof
  fix x y z :: SwapStatus
  show "x < y \<longleftrightarrow> x \<le> y \<and> \<not> y \<le> x" by (rule less_SwapStatus_def)
  show "x \<le> x" by (cases x) auto
  show "x \<le> y \<Longrightarrow> y \<le> z \<Longrightarrow> x \<le> z" by (cases x; cases y) auto
  show "x \<le> y \<Longrightarrow> y \<le> x \<Longrightarrow> x = y" by (cases x; cases y) auto
qed

end

lemma status_move_le: "status_move st st' \<Longrightarrow> st \<le> st'"
  by (cases st) auto

section \<open>Every call\<close>

text \<open>What no call takes back: a deal and its parties, and the entries of its history.\<close>

definition deals_le :: "book \<Rightarrow> book \<Rightarrow> bool" where
  "deals_le b b' \<longleftrightarrow>
     (\<forall>i r. bk_swap b i = Some r \<longrightarrow> (\<exists>q. bk_swap b' i = Some q \<and> same_deal r q)) \<and>
     trails_le (bk_hist b) (bk_hist b')"

lemma same_deal_refl [simp]: "same_deal r r"
  by (simp add: same_deal_def)

lemma same_deal_trans: "same_deal r q \<Longrightarrow> same_deal q p \<Longrightarrow> same_deal r p"
  by (simp add: same_deal_def)

lemma deals_le_refl [simp]: "deals_le b b"
  by (auto simp: deals_le_def)

lemma deals_le_trans: "deals_le b c \<Longrightarrow> deals_le c d \<Longrightarrow> deals_le b d"
  unfolding deals_le_def by (meson same_deal_trans trails_le_trans)

lemma book_change_deals:
  "book_change own sv lk this b b' \<Longrightarrow> book_ok this b \<Longrightarrow> deals_le b b'"
proof (induction rule: book_change.induct)
  case (deal b i r q c d ps u hs sc)
  then show ?case by (auto simp: deals_le_def trails_le_def)
next
  case (entry r b E)
  then show ?case using book_ok_next [of this b] by (auto simp: deals_le_def trails_le_def)
next
  case (award b k a buyer r E l)
  then show ?case using book_ok_next [of this b] by (auto simp: deals_le_def trails_le_def)
qed (auto simp: deals_le_def trails_le_def)

lemma book_changes_ok: "book_changes own sv lk this b b' \<Longrightarrow> book_ok this b \<Longrightarrow> book_ok this b'"
  by (induction rule: rtranclp_induct) (auto intro: book_change_ok)

lemma book_changes_deals: "book_changes own sv lk this b b' \<Longrightarrow> book_ok this b \<Longrightarrow> deals_le b b'"
  by (induction rule: rtranclp_induct)
    (auto intro: deals_le_trans book_change_deals book_changes_ok)

lemma book_change_ids: "book_change own sv lk this b b' \<Longrightarrow>
    dom (bk_swap b') = dom (bk_swap b) \<union> {bk_next b..<bk_next b'} \<and> bk_next b \<le> bk_next b'"
  by (induction rule: book_change.induct) (auto split: if_splits)

lemma book_changes_ids: "book_changes own sv lk this b b' \<Longrightarrow>
    dom (bk_swap b') = dom (bk_swap b) \<union> {bk_next b..<bk_next b'} \<and> bk_next b \<le> bk_next b'"
proof (induction rule: rtranclp_induct)
  case (step c d)
  then show ?case using book_change_ids [OF step(2)] by auto
qed simp

lemma deployed_book: "swaps_deployed s \<Longrightarrow> bk_swap (book_of s) = Map.empty \<and> bk_next (book_of s) = 0 \<and>
    bk_coll (book_of s) = Map.empty \<and> bk_dep (book_of s) = Map.empty \<and> bk_paid (book_of s) = [] \<and>
    bk_lock (book_of s) = Map.empty \<and> bk_score (book_of s) = Map.empty \<and>
    bk_auction (book_of s) = Map.empty \<and> bk_next_auction (book_of s) = 0 \<and>
    bk_claim (book_of s) = Map.empty \<and> bk_offer (book_of s) = Map.empty"
  by (simp add: swaps_deployed_def book_of_def empty_swaps_def next_swap_id_def)

lemma deployed_ok: "swaps_deployed s \<Longrightarrow> book_ok this (book_of s)"
  by (drule deployed_book) (simp add: book_ok_def)

lemma swap_step_ok: "swap_step G H s t \<Longrightarrow> book_ok (this_addr H) (book_of s) \<Longrightarrow>
    book_ok (this_addr H) (book_of t)"
  by (rule book_changes_ok [OF swap_step_changes [where sv = False and lk = False]]) simp_all

interpretation swap_ids: id_counter swaps_deployed "swap_step G H"
    "\<lambda>s. book_ok (this_addr H) (book_of s)" "\<lambda>s. dom (sw_Swap s)" next_swap_id for G H
proof unfold_locales
  fix s t assume "book_ok (this_addr H) (book_of s)" "swap_step G H s t"
  then have "book_changes anyone False False (this_addr H) (book_of s) (book_of t)"
    by (intro swap_step_changes) auto
  then show "dom (sw_Swap t) = dom (sw_Swap s) \<union> {next_swap_id s..<next_swap_id t} \<and>
      next_swap_id s \<le> next_swap_id t"
    using book_changes_ids by (simp add: read_book)
qed (auto simp: read_book deployed_ok swap_step_ok dest: deployed_book)

interpretation swap_deals: monotone_system swaps_deployed "swap_step G H"
    "\<lambda>s. book_ok (this_addr H) (book_of s)" "\<lambda>s t. deals_le (book_of s) (book_of t)" for G H
proof unfold_locales
  fix s t assume "book_ok (this_addr H) (book_of s)" "swap_step G H s t"
  then show "deals_le (book_of s) (book_of t)"
    by (intro book_changes_deals [OF swap_step_changes [where sv = False and lk = False]]) auto
qed (auto intro: deals_le_trans)

section \<open>Calls that pay what they owe\<close>

definition statuses_le :: "book \<Rightarrow> book \<Rightarrow> bool" where
  "statuses_le b b' \<longleftrightarrow> (\<forall>i r. bk_swap b i = Some r \<longrightarrow>
     (\<exists>q. bk_swap b' i = Some q \<and> sp_status r \<le> sp_status q))"

lemma statuses_le_refl [simp]: "statuses_le b b"
  by (auto simp: statuses_le_def)

lemma statuses_le_trans: "statuses_le b c \<Longrightarrow> statuses_le c d \<Longrightarrow> statuses_le b d"
  unfolding statuses_le_def by (meson order.trans)

lemma book_change_statuses:
  "book_change own True lk this b b' \<Longrightarrow> book_ok this b \<Longrightarrow> statuses_le b b'"
proof (induction rule: book_change.induct)
  case (deal b i r q c d ps u hs sc)
  then show ?case by (auto simp: statuses_le_def status_move_le)
next
  case (entry r b E)
  then show ?case using book_ok_next [of this b] by (auto simp: statuses_le_def)
next
  case (award b k a buyer r E l)
  then show ?case using book_ok_next [of this b] by (auto simp: statuses_le_def)
qed (auto simp: statuses_le_def)

lemma book_changes_statuses: "book_changes own True lk this b b' \<Longrightarrow> book_ok this b \<Longrightarrow> statuses_le b b'"
  by (induction rule: rtranclp_induct)
    (auto intro: statuses_le_trans book_change_statuses book_changes_ok)

lemma book_changes_solvent:
  "book_changes own True lk this b b' \<Longrightarrow> book_ok this b \<Longrightarrow> solvent this b \<Longrightarrow> solvent this b'"
  by (induction rule: rtranclp_induct) (auto intro: book_change_solvent book_changes_ok)

lemma deployed_solvent: "swaps_deployed s \<Longrightarrow> solvent this (book_of s)"
  by (drule deployed_book) (simp add: solvent_def debt_def)

interpretation solvent_swaps: monotone_system swaps_deployed "swap_step solvent_call H"
    "\<lambda>s. book_ok (this_addr H) (book_of s) \<and> solvent (this_addr H) (book_of s)"
    "\<lambda>s t. statuses_le (book_of s) (book_of t)" for H
proof unfold_locales
  fix s t
  assume ok: "book_ok (this_addr H) (book_of s) \<and> solvent (this_addr H) (book_of s)"
    and st: "swap_step solvent_call H s t"
  then have changes: "book_changes anyone True False (this_addr H) (book_of s) (book_of t)"
    by (intro swap_step_changes) auto
  show "book_ok (this_addr H) (book_of t) \<and> solvent (this_addr H) (book_of t)"
    using ok st changes by (blast intro: swap_step_ok book_changes_solvent)
  show "statuses_le (book_of s) (book_of t)" using ok changes by (blast intro: book_changes_statuses)
qed (auto simp: deployed_ok deployed_solvent intro: statuses_le_trans)

section \<open>Calls that respect the locks\<close>

definition lock_exact :: "book \<Rightarrow> bool" where
  "lock_exact b \<longleftrightarrow> (\<forall>ip i. bk_lock b ip = Some i \<longleftrightarrow>
     (\<exists>r. bk_swap b i = Some r \<and> sp_ip_id r = ip \<and> live (sp_status r)))"

lemma book_change_locks:
  "book_change own sv True this b b' \<Longrightarrow> book_ok this b \<Longrightarrow> lock_exact b \<Longrightarrow> lock_exact b'"
proof (induction rule: book_change.induct)
  case (deal b i r q c d ps u hs sc)
  then have ip: "sp_ip_id q = sp_ip_id r" by (simp add: same_deal_def)
  have lock: "bk_lock b (sp_ip_id p) = Some j" if "bk_swap b j = Some p" "live (sp_status p)" for j p
    using deal.prems(2) that by (auto simp: lock_exact_def)
  show ?case
  proof (cases u)
    case True
    with deal have st: "live (sp_status r)" "\<not> live (sp_status q)" by (auto simp: lock_move_def)
    with deal(1) lock have "bk_lock b (sp_ip_id r) = Some i" by simp
    then have uniq: "j = i" if "bk_swap b j = Some p" "sp_ip_id p = sp_ip_id r" "live (sp_status p)" for j p
      using lock [OF that(1,3)] that(2) by simp
    show ?thesis
      unfolding lock_exact_def
      using deal.prems(2) deal(1) st True ip by (auto simp: lock_exact_def dest: uniq)
  next
    case False
    with deal have "live (sp_status q) = live (sp_status r)" by (auto simp: lock_move_def)
    with deal False ip show ?thesis by (auto simp: lock_exact_def)
  qed
next
  case (entry r b E)
  then have new: "bk_swap b (bk_next b) = None" using book_ok_next by blast
  have free: False if "bk_swap b j = Some p" "sp_ip_id p = sp_ip_id r" "live (sp_status p)" for j p
    using entry that unfolding lock_exact_def by (metis option.distinct(1))
  show ?case
    unfolding lock_exact_def using entry.prems(2) entry(1) new
    by (auto simp: lock_exact_def dest: free)
qed (auto simp: lock_exact_def)

lemma book_changes_locks:
  "book_changes own sv True this b b' \<Longrightarrow> book_ok this b \<Longrightarrow> lock_exact b \<Longrightarrow> lock_exact b'"
  by (induction rule: rtranclp_induct) (auto intro: book_change_locks book_changes_ok)

interpretation exclusive_swaps: invariant_system swaps_deployed "swap_step exclusive_call H"
    "\<lambda>s. book_ok (this_addr H) (book_of s) \<and> lock_exact (book_of s)" for H
proof unfold_locales
  fix s t
  assume ok: "book_ok (this_addr H) (book_of s) \<and> lock_exact (book_of s)"
    and st: "swap_step exclusive_call H s t"
  then have "book_changes anyone False True (this_addr H) (book_of s) (book_of t)"
    by (intro swap_step_changes) auto
  with ok st show "book_ok (this_addr H) (book_of t) \<and> lock_exact (book_of t)"
    by (blast intro: swap_step_ok book_changes_locks)
qed (auto simp: deployed_ok lock_exact_def dest: deployed_book)

end
