(* ===== verification/Swap_Runs.thy ===== *)
theory Swap_Runs
  imports Swap_Invariant Registry_Theorems
begin

text \<open>
  When the three calls of a plain sale succeed, what they leave alone, and a concrete sale on which the
  properties are instantiated.
\<close>

section \<open>Success of a plain sale\<close>

definition generous :: "env \<Rightarrow> bool" where
  "generous E \<longleftrightarrow> (\<forall>ps x. token_ok E ps x)"

lemma transfer_generous [simp]: "generous E \<Longrightarrow> transfer E tok src dst x s =
    Inr (s\<lparr>sw_log := sw_log s @ [Transfer tok src dst x]\<rparr>)"
  by (simp add: transfer_def generous_def)

text \<open>The switches a plain sale reads, besides the book.\<close>

definition switches :: "nat \<Rightarrow> swaps \<Rightarrow> address option \<times> bool option \<times> address list option \<times> nat option" where
  "switches i s = (sw_IpRegistry s, sw_Paused s, sw_SwapSigners s i, sw_ReputationMultiplier s i)"

definition on_sale :: "nat \<Rightarrow> swaps \<Rightarrow> bool" where
  "on_sale i s \<longleftrightarrow> sw_IpRegistry s \<noteq> None \<and> \<not> unwrap_or False (sw_Paused s) \<and>
     sw_SwapSigners s i = None \<and> sw_ReputationMultiplier s i = None"

lemma on_sale_switches: "on_sale i s \<Longrightarrow> switches i t = switches i s \<Longrightarrow> on_sale i t"
  by (simp add: on_sale_def switches_def)

lemma initiate_swap_succeeds:
  assumes "on_sale i s" and "authorized E seller" and "0 < p" and "now E + 604800 < 2 ^ 64"
    and "next_swap_id s + 1 < 2 ^ 64" and "sw_ActiveSwap s ip = None"
    and "get_ip R ip = Inr rec" and "ir_owner rec = seller" and "\<not> ir_revoked rec"
  shows "\<exists>t. initiate_swap E R tok ip seller p buyer 0 None 0 False s = Inr (next_swap_id s, t) \<and>
    (\<forall>j. switches j t = switches j s)"
proof -
  from assms(1) obtain a where a: "sw_IpRegistry s = Some a" by (auto simp: on_sale_def)
  have owner: "ensure_seller_owns_active_ip R ip seller u = Inr ()" if "sw_IpRegistry u = Some a" for u
    using assms(7-9) that by simp
  have paused: "require_not_paused s = Inr ()" using assms(1) by (simp add: on_sale_def)
  have free: "require_no_active_swap ip u = Inr ()" if "sw_ActiveSwap u = sw_ActiveSwap s" for u
    using assms(6) that by simp
  show ?thesis
    using a assms(2-5)
    by (simp add: owner paused free initiate_swap_def switches_def Let_def state_simps next_swap_id_def
        require_positive_price_def)
qed

lemma accept_swap_succeeds:
  assumes "on_sale i s" and "generous E" and "sw_Swap s i = Some r" and "authorized E (sp_buyer r)"
    and "sp_status r = Pending" and "sp_required_approvals r = 0" and "sp_conditions r = []"
    and "sp_collateral_amount r = 0" and "\<not> sp_insurance_enabled r"
  shows "\<exists>t. accept_swap E i s = Inr t \<and> (\<forall>j. switches j t = switches j s)"
proof -
  have guards: "require_not_paused s = Inr ()" "require_swap_exists s i = Inr r"
    "require_approvals i r s = Inr ()" "require_min_reputation i r s = Inr ()"
    "require_swap_status r Pending NotPending = Inr ()"
    using assms by (simp_all add: on_sale_def require_min_reputation_def)
  show ?thesis
    using assms(2,4,7-9)
    by (simp add: guards accept_swap_def collect_premium_def switches_def Let_def state_simps)
qed

lemma reveal_key_succeeds:
  assumes "on_sale i s" and "generous E" and "sw_Swap s i = Some r" and "authorized E (sp_seller r)"
    and "sp_status r = Accepted" and "verify_commitment E R (sp_ip_id r) x y = Inr True"
    and "sp_conditions r = []" and "sp_referrer r = None" and "sp_collateral_amount r = 0"
    and "0 < sp_price r" and "sp_price r * 250 < 2 ^ 127"
  shows "\<exists>t. reveal_key E R i (sp_seller r) x y s = Inr t \<and> (\<forall>j. switches j t = switches j s)"
proof -
  let ?q = "r\<lparr>sp_status := Completed\<rparr>"
  have guards: "require_swap_exists s i = Inr r" "require_seller (sp_seller r) r = Inr ()"
    "require_swap_status r Accepted NotAccepted = Inr ()"
    "verify_swap_commitment E R (sp_ip_id r) x y s = Inr True"
    using assms by (simp_all add: on_sale_def)
  have fees: "bps_of (sp_price r) (pc_protocol_fee_bps protocol_config) = Inr (fee_of r)"
    "referral_of ?q = Inr 0"
    using assms by (simp_all add: protocol_bps referral_of_def)
  have "0 \<le> fee_of r" "fee_of r \<le> sp_price r" "sp_price r < 2 ^ 127"
    using fee_of_bounds [of r] assms(10,11) by simp_all
  then have net: "i128 (sp_price r - fee_of r) = Inr (sp_price r - fee_of r)" by simp
  have "sw_SwapSigners s i = None" using assms(1) by (simp add: on_sale_def)
  then show ?thesis
    using assms(2,4,7-9)
    by (simp add: guards fees net reveal_key_def pay_referral_def release_collateral_def switches_def Let_def
        state_simps)
qed

section \<open>A concrete sale\<close>

text \<open>
  Everyone but the contract (address 9) signs; the registry has one record, owned by address 1; address
  2 buys it for 10000 units of token 5.
\<close>

definition sale_env :: env where
  "sale_env = demo_env\<lparr>this_addr := Address 9, authorized := (\<lambda>a. a \<noteq> Address 9)\<rparr>"

lemma sale_env_simps [simp]:
  "now sale_env = 1000" "this_addr sale_env = Address 9" "authorized sale_env a \<longleftrightarrow> a \<noteq> Address 9"
  "sha256 sale_env = demo_hash" "generous sale_env" "token_ok sale_env ps x"
  by (simp_all add: sale_env_def demo_env_def generous_def)

definition sale_record :: SwapRecord where
  "sale_record = pending_swap 1 (Address 1) (Address 2) 10000 (Address 5) 605800"

definition sale0 :: swaps where "sale0 = projr (initialize (Address 7) empty_swaps)"
definition sale1 :: swaps where
  "sale1 = snd (projr (initiate_swap sale_env demo1 (Address 5) 1 (Address 1) 10000 (Address 2) 0 None 0
     False sale0))"
definition sale2 :: swaps where "sale2 = projr (accept_swap sale_env 0 sale1)"
definition sale3 :: swaps where
  "sale3 = projr (reveal_key sale_env demo1 0 (Address 1) [1] [2] sale2)"

lemma sale0_run: "initialize (Address 7) empty_swaps = Inr sale0"
  by (simp add: sale0_def initialize_def empty_swaps_def)

lemma sale0_fields: "sale0 = empty_swaps\<lparr>sw_IpRegistry := Some (Address 7)\<rparr>"
  by (simp add: sale0_def initialize_def empty_swaps_def)

lemma sale0_on_sale: "on_sale i sale0"
  by (simp add: on_sale_def sale0_fields empty_swaps_def)

lemma sale0_book: "book_of sale0 = book_of empty_swaps"
  by (simp add: sale0_fields)

lemma demo1_record: "get_ip demo1 1 = Inr (fresh_record 1 1000 (Address 1) demo_hash1 None)"
  by (simp add: get_ip_def require_ip_exists_def)

lemma sale1_run: "initiate_swap sale_env demo1 (Address 5) 1 (Address 1) 10000 (Address 2) 0 None 0 False
    sale0 = Inr (0, sale1)" and sale1_on_sale: "on_sale 0 sale1"
proof -
  have "\<exists>t. initiate_swap sale_env demo1 (Address 5) 1 (Address 1) 10000 (Address 2) 0 None 0 False sale0 =
      Inr (next_swap_id sale0, t) \<and> (\<forall>j. switches j t = switches j sale0)"
    by (rule initiate_swap_succeeds [OF sale0_on_sale _ _ _ _ _ demo1_record])
      (simp_all add: sale0_fields empty_swaps_def next_swap_id_def fresh_record_def)
  moreover have "next_swap_id sale0 = 0" by (simp add: sale0_fields empty_swaps_def next_swap_id_def)
  ultimately show run: "initiate_swap sale_env demo1 (Address 5) 1 (Address 1) 10000 (Address 2) 0 None 0
      False sale0 = Inr (0, sale1)" and "on_sale 0 sale1"
    using sale0_on_sale [of 0] by (auto simp: sale1_def intro: on_sale_switches)
qed

lemma sale1_swap: "sw_Swap sale1 = [0 \<mapsto> sale_record]"
  using sale1_run
  by (auto simp: initiate_swap_def state_simps Let_def sale0_fields empty_swaps_def next_swap_id_def
      sale_record_def pending_swap_def dest!: arg_cong [of _ sale1 sw_Swap])

lemma sale_record_fields [simp]:
  "sp_ip_id sale_record = 1" "sp_seller sale_record = Address 1" "sp_buyer sale_record = Address 2"
  "sp_price sale_record = 10000" "sp_token sale_record = Address 5" "sp_status sale_record = Pending"
  "sp_required_approvals sale_record = 0" "sp_conditions sale_record = []"
  "sp_collateral_amount sale_record = 0" "\<not> sp_insurance_enabled sale_record"
  "sp_insurance_premium sale_record = 0" "sp_referrer sale_record = None"
  "sp_paid_amount sale_record = 0" "sp_expiry sale_record = 605800"
  by (simp_all add: sale_record_def)

lemma sale2_run: "accept_swap sale_env 0 sale1 = Inr sale2" and sale2_on_sale: "on_sale 0 sale2"
proof -
  have "\<exists>t. accept_swap sale_env 0 sale1 = Inr t \<and> (\<forall>j. switches j t = switches j sale1)"
    by (rule accept_swap_succeeds [OF sale1_on_sale, of _ sale_record]) (simp_all add: sale1_swap)
  then show "accept_swap sale_env 0 sale1 = Inr sale2" and "on_sale 0 sale2"
    using sale1_on_sale by (auto simp: sale2_def intro: on_sale_switches)
qed

lemma sale2_swap: "sw_Swap sale2 = [0 \<mapsto> accepted sale_env sale_record]"
proof (rule accept_swap_effect [OF sale2_run])
  fix r x y
  assume r: "bk_swap (book_of sale1) 0 = Some r"
    and t: "book_of sale2 = touch 0 (accepted sale_env r) x (dep_of sale1 0) y
      [history_entry sale_env Accepted] False [] (book_of sale1)"
  from arg_cong [OF t, of bk_swap] r show ?thesis by (simp add: book_fields sale1_swap)
qed

lemma sale_verifies: "verify_commitment sale_env demo1 1 [1] [2] = Inr True"
  using demo1_record by (simp add: verify_commitment_def get_ip_def fresh_record_def demo_hash1_def)

lemma sale3_run: "reveal_key sale_env demo1 0 (Address 1) [1] [2] sale2 = Inr sale3"
proof -
  have "\<exists>t. reveal_key sale_env demo1 0 (sp_seller (accepted sale_env sale_record)) [1] [2] sale2 = Inr t \<and>
      (\<forall>j. switches j t = switches j sale2)"
    by (rule reveal_key_succeeds [OF sale2_on_sale])
      (simp_all add: sale2_swap accepted_def sale_verifies [simplified])
  then show ?thesis by (auto simp: sale3_def accepted_def)
qed

lemma sale3_swap: "sw_Swap sale3 = [0 \<mapsto> closed Completed (accepted sale_env sale_record)]"
proof (rule reveal_key_effect [OF sale3_run])
  fix r x ps sc
  assume r: "bk_swap (book_of sale2) 0 = Some r"
    and t: "book_of sale3 = touch 0 (closed Completed r) x (dep_of sale2 0) ps
      [history_entry sale_env Completed] True sc (book_of sale2)"
  from arg_cong [OF t, of bk_swap] r show ?thesis by (simp add: book_fields sale2_swap)
qed

text \<open>The calls of the sale, and the storages they reach under any restriction that admits them.\<close>

definition sale_calls :: "swap_call list" where
  "sale_calls = [Control (Initialize (Address 7)),
     Open (InitiateSwap (Address 5) 1 (Address 1) 10000 (Address 2) 0 None 0 False),
     Deal (AcceptSwap 0), Deal (RevealKey 0 (Address 1) [1] [2])]"

lemma sale_steps:
  assumes "list_all (\<lambda>c. \<forall>s. G c s) sale_calls"
  shows "swap_step G sale_env empty_swaps sale0" "swap_step G sale_env sale0 sale1"
    "swap_step G sale_env sale1 sale2" "swap_step G sale_env sale2 sale3"
  by (rule swap_call [of _ sale_env G "sale_calls ! 0" _ demo1]
      swap_call [of _ sale_env G "sale_calls ! 1" _ demo1]
      swap_call [of _ sale_env G "sale_calls ! 2" _ demo1]
      swap_call [of _ sale_env G "sale_calls ! 3" _ demo1],
    use assms in \<open>simp_all add: sale_calls_def sale0_run sale1_run [simplified] sale2_run sale3_run [simplified]\<close>)+

lemma sale_reachable:
  assumes "list_all (\<lambda>c. \<forall>s. G c s) sale_calls"
  shows "reachable swaps_deployed (swap_step G sale_env) sale0"
    "reachable swaps_deployed (swap_step G sale_env) sale1"
    "reachable swaps_deployed (swap_step G sale_env) sale2"
    "reachable swaps_deployed (swap_step G sale_env) sale3"
proof -
  note steps = sale_steps [OF assms]
  have "reachable swaps_deployed (swap_step G sale_env) empty_swaps"
    by (rule reachable_init) (simp add: swaps_deployed_def)
  then show 0: "reachable swaps_deployed (swap_step G sale_env) sale0"
    by (rule reachable_step) (rule steps)
  then show 1: "reachable swaps_deployed (swap_step G sale_env) sale1"
    by (rule reachable_step) (rule steps)
  then show 2: "reachable swaps_deployed (swap_step G sale_env) sale2"
    by (rule reachable_step) (rule steps)
  then show "reachable swaps_deployed (swap_step G sale_env) sale3"
    by (rule reachable_step) (rule steps)
qed

lemma sale_calls_allowed:
  "list_all (\<lambda>c. \<forall>s. solvent_call c s) sale_calls" "list_all (\<lambda>c. \<forall>s. exclusive_call c s) sale_calls"
  "list_all (\<lambda>c. \<forall>s. any_call c s) sale_calls"
  by (auto simp: sale_calls_def)

lemmas sale_solvent = sale_reachable [OF sale_calls_allowed(1)]
  and sale_exclusive = sale_reachable [OF sale_calls_allowed(2)]
  and sale_any = sale_reachable [OF sale_calls_allowed(3)]
  and sale_solvent_steps = sale_steps [OF sale_calls_allowed(1)]
  and sale_any_steps = sale_steps [OF sale_calls_allowed(3)]

end
