(* ===== verification/Swap_Theorems.thy ===== *)
theory Swap_Theorems
  imports Swap_Runs
begin

text \<open>
  The properties of the swap contract, over all its reachable storages, each followed by an instance on
  a concrete run. What holds only without some calls is stated for the machine without them, and what
  those calls break is stated too.
\<close>

section \<open>Solvency\<close>

lemma owed_nonneg: "deal_ok this r c d \<Longrightarrow> 0 \<le> owed tok r c"
  by (cases c) (auto simp: deal_ok_def owed_def locked_price_def split: SwapStatus.split)

lemma swap_debt_nonneg: "book_ok this b \<Longrightarrow> 0 \<le> swap_debt tok b i"
  by (auto simp: swap_debt_def dest: book_ok_deal owed_nonneg split: option.split)

lemma auction_debt_nonneg:
  assumes "book_ok this b"
  shows "0 \<le> auction_debt tok b k"
proof (cases "bk_auction b k")
  case (Some a)
  then have "auction_ok this a" using assms by (auto simp: book_ok_def)
  with Some show ?thesis by (auto simp: auction_debt_def bid_debt_def auction_ok_def split: option.splits)
qed (simp add: auction_debt_def)

lemma deal_debt:
  assumes "book_ok this b" and "bk_swap b i = Some r"
  shows "owed (sp_token r) r (bk_coll b i) \<le> debt (sp_token r) b"
proof -
  have "i < bk_next b" using assms unfolding book_ok_def by (metis option.distinct(1))
  then have "swap_debt (sp_token r) b i \<le> sum (swap_debt (sp_token r) b) {..<bk_next b}"
    by (intro member_le_sum) (auto intro: swap_debt_nonneg assms(1))
  moreover have "0 \<le> sum (auction_debt (sp_token r) b) {..<bk_next_auction b}"
    by (intro sum_nonneg auction_debt_nonneg [OF assms(1)])
  ultimately show ?thesis using assms(2) by (simp add: debt_def swap_debt_def)
qed

text \<open>C1: as long as only calls of \<open>solvent_call\<close> are made, the net amount the contract has received in
  each token covers what it owes in it: the prices of the accepted and disputed swaps, the installments
  of the pending ones, the stored collaterals and the leading bids. In particular it covers the price
  and the collateral of every accepted swap.\<close>

theorem swap_money_covers_debts:
  assumes "reachable swaps_deployed (swap_step solvent_call H) s"
  shows "debt tok (book_of s) \<le> flow tok (this_addr H) (transfers (sw_log s)) \<and>
    (\<forall>i r. sw_Swap s i = Some r \<longrightarrow> sp_status r = Accepted \<longrightarrow>
      sp_price r + get_swap_collateral s i \<le>
        flow (sp_token r) (this_addr H) (transfers (sw_log s)))"
proof -
  have inv: "book_ok (this_addr H) (book_of s)" "solvent (this_addr H) (book_of s)"
    using solvent_swaps.reachable_inv [OF assms] by auto
  have cover: "debt t (book_of s) \<le> flow t (this_addr H) (transfers (sw_log s))" for t
    using inv(2) by (simp add: solvent_def book_fields)
  have "sp_price r + get_swap_collateral s i \<le> flow (sp_token r) (this_addr H) (transfers (sw_log s))"
    if "sw_Swap s i = Some r" "sp_status r = Accepted" for i r
    using deal_debt [OF inv(1), of i r] cover [of "sp_token r"] that
    by (simp add: book_fields owed_def locked_price_def get_swap_collateral_def)
  with cover show ?thesis by blast
qed

theorem swap_money_covers_debts_witness:
  "10000 \<le> flow (Address 5) (Address 9) (transfers (sw_log sale2))"
proof -
  have "sp_price (accepted sale_env sale_record) + get_swap_collateral sale2 0 \<le>
      flow (sp_token (accepted sale_env sale_record)) (this_addr sale_env) (transfers (sw_log sale2))"
    by (rule swap_money_covers_debts [OF sale_solvent(3), THEN conjunct2, rule_format])
      (simp_all add: sale2_swap)
  moreover have "0 \<le> get_swap_collateral sale2 0"
    using deal_facts(4) [OF solvent_swaps.reachable_inv [OF sale_solvent(3), THEN conjunct1], of 0]
    by (cases "sw_SwapCollateral sale2 0") (auto simp: book_fields sale2_swap get_swap_collateral_def)
  ultimately show ?thesis by (simp add: accepted_def)
qed

section \<open>Locks\<close>

text \<open>C6: as long as only calls of \<open>exclusive_call\<close> are made, a registry record is locked exactly
  while a swap of it is pending, accepted or disputed, the lock names that swap, and there is at most
  one such swap.\<close>

theorem one_live_swap_per_ip:
  assumes "reachable swaps_deployed (swap_step exclusive_call H) s"
  shows "(sw_ActiveSwap s ip = Some i \<longleftrightarrow>
      (\<exists>r. get_swap s i = Some r \<and> sp_ip_id r = ip \<and> sp_status r \<in> {Pending, Accepted, Disputed})) \<and>
    (\<forall>j k p q. get_swap s j = Some p \<longrightarrow> get_swap s k = Some q \<longrightarrow> sp_ip_id p = sp_ip_id q \<longrightarrow>
      sp_status p \<in> {Pending, Accepted, Disputed} \<longrightarrow> sp_status q \<in> {Pending, Accepted, Disputed} \<longrightarrow> j = k)"
proof -
  have live: "live st \<longleftrightarrow> st \<in> {Pending, Accepted, Disputed}" for st by (cases st) auto
  have exact: "sw_ActiveSwap s ip = Some i \<longleftrightarrow>
      (\<exists>r. get_swap s i = Some r \<and> sp_ip_id r = ip \<and> sp_status r \<in> {Pending, Accepted, Disputed})" for ip i
    using exclusive_swaps.reachable_inv [OF assms]
    by (simp add: lock_exact_def book_fields live get_swap_def)
  then have "j = k" if "get_swap s j = Some p" "get_swap s k = Some q" "sp_ip_id p = sp_ip_id q"
    "sp_status p \<in> {Pending, Accepted, Disputed}" "sp_status q \<in> {Pending, Accepted, Disputed}" for j k p q
    using that by (metis option.inject)
  with exact show ?thesis by blast
qed

theorem one_live_swap_per_ip_witness: "sw_ActiveSwap sale2 1 = Some 0 \<and> sw_ActiveSwap sale3 1 \<noteq> Some 0"
proof
  show "sw_ActiveSwap sale2 1 = Some 0"
    using one_live_swap_per_ip [OF sale_exclusive(3), of 1 0]
    by (simp add: get_swap_def sale2_swap accepted_def)
  show "sw_ActiveSwap sale3 1 \<noteq> Some 0"
    using one_live_swap_per_ip [OF sale_exclusive(4), of 1 0] sale3_swap
    by (simp add: get_swap_def closed_def)
qed

section \<open>Permanence\<close>

text \<open>C12: whatever calls are made, identifiers of swaps are counted up from 0 and never reused, and a
  swap keeps its registry record, its seller, its buyer and its token.\<close>

theorem swap_deals_permanent:
  assumes "swaps_reachable H s" and "(swap_step any_call H)\<^sup>*\<^sup>* s t"
  shows "(\<forall>i. get_swap s i \<noteq> None \<longleftrightarrow> i < swap_count s) \<and> swap_count s \<le> swap_count t \<and>
    (\<forall>i r. get_swap s i = Some r \<longrightarrow> (\<exists>q. get_swap t i = Some q \<and> sp_ip_id q = sp_ip_id r \<and>
       sp_seller q = sp_seller r \<and> sp_buyer q = sp_buyer r \<and> sp_token q = sp_token r))"
proof -
  have "book_ok (this_addr H) (book_of s)" by (rule swap_ids.reachable_inv [OF assms(1)])
  then have "sw_Swap s i \<noteq> None \<longleftrightarrow> i < next_swap_id s" for i by (simp add: book_ok_def book_fields)
  moreover have "next_swap_id s \<le> next_swap_id t" using swap_ids.ids_are_new [OF assms] by simp
  moreover have "deals_le (book_of s) (book_of t)" by (rule swap_deals.reachable_le [OF assms])
  ultimately show ?thesis
    by (simp add: deals_le_def same_deal_def book_fields get_swap_def swap_count_def next_swap_id_def)
      blast
qed

theorem swap_deals_permanent_witness:
  "swap_count sale1 \<le> swap_count sale3 \<and> (\<exists>q. get_swap sale3 0 = Some q \<and> sp_buyer q = Address 2)"
proof -
  have "(swap_step any_call sale_env)\<^sup>*\<^sup>* sale1 sale3"
    using sale_any_steps(3,4) by (meson converse_rtranclp_into_rtranclp r_into_rtranclp)
  note permanent = swap_deals_permanent [OF sale_any(2) this]
  from permanent [THEN conjunct2, THEN conjunct2, rule_format, of 0 sale_record]
  have "\<exists>q. get_swap sale3 0 = Some q \<and> sp_buyer q = Address 2"
    by (auto simp: get_swap_def sale1_swap)
  with permanent show ?thesis by blast
qed

text \<open>C34: whatever calls are made, entries of the history of a swap are never changed or removed.\<close>

theorem swap_history_append_only:
  assumes "swaps_reachable H s" and "(swap_step any_call H)\<^sup>*\<^sup>* s t"
  shows "\<exists>hs. get_swap_history t i = get_swap_history s i @ hs"
proof -
  have "deals_le (book_of s) (book_of t)" by (rule swap_deals.reachable_le [OF assms])
  then show ?thesis by (auto simp: deals_le_def trails_le_def prefix_def book_fields)
qed

theorem swap_history_append_only_witness:
  "\<exists>hs. get_swap_history sale2 0 = get_swap_history sale1 0 @ hs"
  by (rule swap_history_append_only [OF sale_any(2) r_into_rtranclp]) (rule sale_any_steps)

text \<open>C15: as long as only calls of \<open>solvent_call\<close> are made, the status of a swap only moves forward in
  the order pending, accepted, disputed, then completed or cancelled; a completed swap stays completed
  and a cancelled one cancelled.\<close>

theorem swap_status_forward:
  assumes "reachable swaps_deployed (swap_step solvent_call H) s"
    and "(swap_step solvent_call H)\<^sup>*\<^sup>* s t" and "get_swap s i = Some r"
  shows "\<exists>q. get_swap t i = Some q \<and> sp_status r \<le> sp_status q \<and>
    (sp_status r \<in> {Completed, Cancelled} \<longrightarrow> sp_status q = sp_status r)"
proof -
  have "statuses_le (book_of s) (book_of t)" by (rule solvent_swaps.reachable_le [OF assms(1,2)])
  then obtain q where "get_swap t i = Some q" "sp_status r \<le> sp_status q"
    using assms(3) by (auto simp: statuses_le_def book_fields get_swap_def)
  then show ?thesis by (cases "sp_status r") auto
qed

theorem swap_status_forward_witness: "\<exists>q. get_swap sale3 0 = Some q \<and> Accepted \<le> sp_status q"
proof -
  have "(swap_step solvent_call sale_env)\<^sup>*\<^sup>* sale2 sale3"
    by (rule r_into_rtranclp) (rule sale_solvent_steps)
  from swap_status_forward [OF sale_solvent(3) this, of 0 "accepted sale_env sale_record"]
  show ?thesis by (auto simp: get_swap_def sale2_swap)
qed

lemma auction_facts:
  assumes "book_ok this b" and "bk_auction b k = Some a"
  shows "0 < ac_min_bid a" "ac_highest_bidder a \<noteq> None \<Longrightarrow> ac_min_bid a \<le> ac_highest_bid a"
proof -
  have "auction_ok this a" using assms by (simp add: book_ok_def)
  then show "0 < ac_min_bid a" "ac_highest_bidder a \<noteq> None \<Longrightarrow> ac_min_bid a \<le> ac_highest_bid a"
    by (auto simp: auction_ok_def)
qed

text \<open>C21: in every reachable storage of the unrestricted contract, prices, installments and
  collaterals are not negative, no seller is the contract itself, nobody but a buyer who has signed pays
  for a swap, an escrow deposit is the price of a swap that has left \<open>Pending\<close>, offers are positive, and
  an auction with a bidder has a bid of at least its minimum.\<close>

theorem swap_books_well_formed:
  assumes "swaps_reachable H s"
  shows "(\<forall>i r. get_swap s i = Some r \<longrightarrow> 0 \<le> sp_price r \<and> 0 \<le> sp_paid_amount r \<and>
      0 \<le> get_swap_collateral s i \<and> sp_seller r \<noteq> this_addr H \<and>
      (sp_status r \<in> {Accepted, Disputed} \<longrightarrow> sp_buyer r \<noteq> this_addr H) \<and>
      (\<forall>x. sw_EscrowDeposit s i = Some x \<longrightarrow> x = sp_price r \<and> sp_status r \<noteq> Pending)) \<and>
    (\<forall>i offer. sw_SwapRenegotiations s i = Some offer \<longrightarrow> 0 < ro_new_price offer) \<and>
    (\<forall>k a. get_auction s k = Inr a \<longrightarrow> 0 < ac_min_bid a \<and>
      (ac_highest_bidder a \<noteq> None \<longrightarrow> ac_min_bid a \<le> ac_highest_bid a))"
proof -
  have ok: "book_ok (this_addr H) (book_of s)" by (rule swap_ids.reachable_inv [OF assms])
  have "0 \<le> sp_price r \<and> 0 \<le> sp_paid_amount r \<and>
      0 \<le> get_swap_collateral s i \<and> sp_seller r \<noteq> this_addr H \<and>
      (sp_status r \<in> {Accepted, Disputed} \<longrightarrow> sp_buyer r \<noteq> this_addr H) \<and>
      (\<forall>x. sw_EscrowDeposit s i = Some x \<longrightarrow> x = sp_price r \<and> sp_status r \<noteq> Pending)"
    if "get_swap s i = Some r" for i r
    using deal_facts [OF ok, of i r] that
    by (cases "sw_SwapCollateral s i") (auto simp: book_fields get_swap_def get_swap_collateral_def)
  moreover have "\<forall>k a. get_auction s k = Inr a \<longrightarrow> 0 < ac_min_bid a \<and>
      (ac_highest_bidder a \<noteq> None \<longrightarrow> ac_min_bid a \<le> ac_highest_bid a)"
    using auction_facts [OF ok] by (simp add: book_fields get_auction_def)
  moreover have "\<forall>i offer. sw_SwapRenegotiations s i = Some offer \<longrightarrow> 0 < ro_new_price offer"
    using ok by (auto simp: book_ok_def book_fields)
  ultimately show ?thesis by blast
qed

theorem swap_books_well_formed_witness: "0 \<le> get_swap_collateral sale2 0"
  using swap_books_well_formed [OF sale_any(3)] by (simp add: get_swap_def sale2_swap)

end
