(* ===== verification/Swap_Outcomes.thy ===== *)
theory Swap_Outcomes
  imports Swap_Runs
begin

text \<open>
  What single operations do: the outcome of a reveal, a sale from its commitment to the payment, the
  bounds of installments and scores, the errors of the insurance and of a paused contract, the course
  of an auction, the schema of the upgrades, and the operations that pay more than once.
\<close>

section \<open>A sale\<close>

text \<open>C8: a successful reveal was made and signed by the seller of an accepted swap, with a preimage
  of the registered commitment, all signers' consent and all conditions met; it splits the price into
  the protocol's 2.5 percent (to the treasury), the referrer's 1 percent and the rest for the seller,
  which is not negative, returns a stored collateral to the buyer, completes the swap, unlocks its
  registry record and raises both scores.\<close>

theorem reveal_key_outcome:
  assumes "reveal_key E R i a x y s = Inr t"
  shows "\<exists>r. sw_Swap s i = Some r \<and> a = sp_seller r \<and> authorized E a \<and> sp_status r = Accepted \<and>
    verify_commitment E R (sp_ip_id r) x y = Inr True \<and>
    (\<forall>sgs. sw_SwapSigners s i = Some sgs \<longrightarrow> length sgs \<le> length (unwrap_or [] (sw_SwapSignatures s i))) \<and>
    (sp_conditions r \<noteq> [] \<longrightarrow> evaluate_conditions E r = Inr ()) \<and>
    transfers (sw_log t) = transfers (sw_log s) @ fee_payment E r @ referral_payment E r @
      [(sp_token r, this_addr E, sp_seller r, sp_price r - fee_of r - referral_fee r)] @
      released E (sp_buyer r) r (sw_SwapCollateral s i) \<and>
    (0 \<le> sp_price r \<longrightarrow> 0 \<le> sp_price r - fee_of r - referral_fee r) \<and>
    sw_Swap t = (sw_Swap s)(i \<mapsto> r\<lparr>sp_status := Completed\<rparr>) \<and>
    sw_ActiveSwap t = (sw_ActiveSwap s)(sp_ip_id r := None) \<and>
    get_swap_history t i = get_swap_history s i @ [\<lparr>he_status = Completed, he_timestamp = now E\<rparr>] \<and>
    sw_UserReputation t = rescore [(sp_seller r, 5), (sp_buyer r, 5)] (sw_UserReputation s)"
  using assms
proof (rule reveal_key_effect)
  fix r
  assume r: "bk_swap (book_of s) i = Some r" "authorized E (sp_seller r)" "a = sp_seller r"
    "sp_status r = Accepted" "verify_commitment E R (sp_ip_id r) x y = Inr True"
    and sgs: "\<And>sgs. sw_SwapSigners s i = Some sgs \<Longrightarrow>
      length sgs \<le> length (unwrap_or [] (sw_SwapSignatures s i))"
    and cs: "sp_conditions r \<noteq> [] \<Longrightarrow> evaluate_conditions E r = Inr ()"
    and t: "book_of t = touch i (closed Completed r) (retained r (coll_of s i)) (dep_of s i)
      (fee_payment E r @ referral_payment E r @
       [pay_out E r (sp_seller r) (sp_price r - fee_of r - referral_fee r)] @
       released E (sp_buyer r) r (coll_of s i)) [history_entry E Completed] True
      [(sp_seller r, 5), (sp_buyer r, 5)] (book_of s)"
  have "sw_UserReputation t = rescore [(sp_seller r, 5), (sp_buyer r, 5)] (sw_UserReputation s)"
    using arg_cong [OF t, of bk_score] by (simp add: book_fields)
  moreover have "sw_Swap t = (sw_Swap s)(i \<mapsto> r\<lparr>sp_status := Completed\<rparr>)"
    "sw_ActiveSwap t = (sw_ActiveSwap s)(sp_ip_id r := None)"
    "get_swap_history t i = get_swap_history s i @ [\<lparr>he_status = Completed, he_timestamp = now E\<rparr>]"
    "transfers (sw_log t) = transfers (sw_log s) @ fee_payment E r @ referral_payment E r @
      [(sp_token r, this_addr E, sp_seller r, sp_price r - fee_of r - referral_fee r)] @
      released E (sp_buyer r) r (sw_SwapCollateral s i)"
    using arg_cong [OF t, of bk_swap] arg_cong [OF t, of bk_lock] arg_cong [OF t, of "\<lambda>b. bk_hist b i"]
      arg_cong [OF t, of bk_paid]
    by (simp_all add: book_fields closed_def history_entry_def pay_out_def)
  ultimately show ?thesis
    using r sgs cs seller_share(1) [of r] by (auto simp: book_fields)
qed

theorem reveal_key_outcome_witness:
  "transfers (sw_log sale3) = transfers (sw_log sale2) @
     [(Address 5, Address 9, Address 0, 250), (Address 5, Address 9, Address 1, 9750)]"
proof -
  obtain r where r: "sw_Swap sale2 0 = Some r" and t: "transfers (sw_log sale3) = transfers (sw_log sale2) @
      fee_payment sale_env r @ referral_payment sale_env r @
      [(sp_token r, this_addr sale_env, sp_seller r, sp_price r - fee_of r - referral_fee r)] @
      released sale_env (sp_buyer r) r (sw_SwapCollateral sale2 0)"
    using reveal_key_outcome [OF sale3_run] by blast
  then have "r = accepted sale_env sale_record" by (simp add: sale2_swap)
  with t show ?thesis
    by (simp add: accepted_def fee_of_def referral_fee_def fee_transfer_def referral_transfer_def
        treasury_address_def released_def split: option.split)
qed

text \<open>A swap without approvals, referrer, collateral, insurance and conditions.\<close>

definition plain_swap :: "nat \<Rightarrow> address \<Rightarrow> address \<Rightarrow> address \<Rightarrow> int \<Rightarrow> SwapRecord \<Rightarrow> bool" where
  "plain_swap ip seller buyer tok p r \<longleftrightarrow> sp_ip_id r = ip \<and> sp_seller r = seller \<and> sp_buyer r = buyer \<and>
     sp_token r = tok \<and> sp_price r = p \<and> sp_required_approvals r = 0 \<and> sp_referrer r = None \<and>
     sp_collateral_amount r = 0 \<and> \<not> sp_insurance_enabled r \<and> sp_conditions r = []"

lemma plain_swap_accepted [simp]:
  "plain_swap ip seller buyer tok p (accepted E r) = plain_swap ip seller buyer tok p r"
  by (simp add: plain_swap_def accepted_def)

lemma plain_initiation:
  assumes "on_sale (next_swap_id s) s" and "authorized E seller" and "0 < p" and "now E + 604800 < 2 ^ 64"
    and "next_swap_id s + 1 < 2 ^ 64" and "sw_ActiveSwap s ip = None"
    and "get_ip R ip = Inr rec" and "ir_owner rec = seller" and "\<not> ir_revoked rec"
  shows "\<exists>t r. initiate_swap E R tok ip seller p buyer 0 None 0 False s = Inr (next_swap_id s, t) \<and>
    on_sale (next_swap_id s) t \<and> sw_Swap t (next_swap_id s) = Some r \<and> sp_status r = Pending \<and>
    plain_swap ip seller buyer tok p r \<and> transfers (sw_log t) = transfers (sw_log s) \<and>
    (\<forall>j. switches j t = switches j s)"
proof -
  let ?i = "next_swap_id s"
  obtain t where t: "initiate_swap E R tok ip seller p buyer 0 None 0 False s = Inr (?i, t)"
    and st: "\<And>j. switches j t = switches j s"
    using initiate_swap_succeeds [OF assms] by blast
  obtain r where fresh: "fresh_swap E R tok seller buyer r" and "enters E r s t"
    and r: "sp_ip_id r = ip" "sp_price r = p" "sp_required_approvals r = 0" "sp_referrer r = None"
      "sp_collateral_amount r = 0" "\<not> sp_insurance_enabled r"
    using t by (elim initiate_swap_effect) auto
  then have eff: "book_of t = enter E r True (book_of s)" by (simp add: enters_def)
  have "sw_Swap t ?i = Some r" "transfers (sw_log t) = transfers (sw_log s)"
    using arg_cong [OF eff, of bk_swap] arg_cong [OF eff, of bk_paid] by (simp_all add: book_fields)
  moreover have "sp_status r = Pending" "plain_swap ip seller buyer tok p r"
    using fresh r by (auto simp: fresh_swap_def plain_swap_def)
  ultimately show ?thesis using t st on_sale_switches [OF assms(1) st] by blast
qed

lemma plain_acceptance:
  assumes "on_sale i s" and "generous E" and "sw_Swap s i = Some r" and "plain_swap ip seller buyer tok p r"
    and "authorized E buyer" and "sp_status r = Pending"
  shows "\<exists>t. accept_swap E i s = Inr t \<and> on_sale i t \<and> sw_Swap t i = Some (accepted E r) \<and>
    transfers (sw_log t) = transfers (sw_log s) @ [(tok, buyer, this_addr E, p)] \<and>
    (\<forall>j. switches j t = switches j s)"
proof -
  note plain = assms(4) [unfolded plain_swap_def]
  obtain t where t: "accept_swap E i s = Inr t" and st: "\<And>j. switches j t = switches j s"
    using accept_swap_succeeds [OF assms(1-3)] plain assms(5,6) by auto
  have "sw_Swap t i = Some (accepted E r) \<and>
    transfers (sw_log t) = transfers (sw_log s) @ [(tok, buyer, this_addr E, p)]"
    using t
  proof (rule accept_swap_effect)
    fix q
    assume q: "bk_swap (book_of s) i = Some q"
      and eff: "book_of t = touch i (accepted E q)
      (if 0 < sp_collateral_amount q then Some (sp_collateral_amount q) else coll_of s i) (dep_of s i)
      ((if 0 < sp_collateral_amount q
        then [(sp_token q, sp_buyer q, this_addr E, sp_collateral_amount q)] else []) @
       [price_payment E q] @ premium_payment E q) [history_entry E Accepted] False [] (book_of s)"
    from q assms(3) have "q = r" by (simp add: book_fields)
    with arg_cong [OF eff, of bk_swap] arg_cong [OF eff, of bk_paid] plain show ?thesis
      by (simp add: book_fields price_payment_def premium_payment_def)
  qed
  with t st on_sale_switches [OF assms(1) st] show ?thesis by blast
qed

lemma plain_reveal:
  assumes "on_sale i s" and "generous E" and "sw_Swap s i = Some r" and "plain_swap ip seller buyer tok p r"
    and "authorized E seller" and "sp_status r = Accepted" and "verify_commitment E R ip x y = Inr True"
    and "0 < p" and "p * 250 < 2 ^ 127"
  shows "\<exists>t. reveal_key E R i seller x y s = Inr t \<and> sw_Swap t i = Some (closed Completed r) \<and>
    transfers (sw_log t) = transfers (sw_log s) @
      (if 0 < p * 250 div 10000 then [(tok, this_addr E, treasury_address, p * 250 div 10000)] else []) @
      [(tok, this_addr E, seller, p - p * 250 div 10000)] \<and> (\<forall>j. switches j t = switches j s)"
proof -
  note plain = assms(4) [unfolded plain_swap_def]
  obtain t where t: "reveal_key E R i seller x y s = Inr t" and st: "\<forall>j. switches j t = switches j s"
    using reveal_key_succeeds [OF assms(1-3), of R x y] plain assms(5-9) by auto
  have "sw_Swap t i = Some (closed Completed r) \<and> transfers (sw_log t) = transfers (sw_log s) @
      fee_payment E r @ [(tok, this_addr E, seller, p - fee_of r)]"
    using t
  proof (rule reveal_key_effect)
    fix q
    assume q: "bk_swap (book_of s) i = Some q"
      and eff: "book_of t = touch i (closed Completed q) (retained q (coll_of s i)) (dep_of s i)
      (fee_payment E q @ referral_payment E q @
       [pay_out E q (sp_seller q) (sp_price q - fee_of q - referral_fee q)] @
       released E (sp_buyer q) q (coll_of s i)) [history_entry E Completed] True
      [(sp_seller q, 5), (sp_buyer q, 5)] (book_of s)"
    from q assms(3) have "q = r" by (simp add: book_fields)
    with arg_cong [OF eff, of bk_swap] arg_cong [OF eff, of bk_paid] plain show ?thesis
      by (cases "coll_of s i")
        (simp_all add: book_fields released_def referral_fee_def referral_transfer_def pay_out_def)
  qed
  with t st plain assms(8) show ?thesis by (auto simp: fee_transfer_def fee_of_def)
qed

text \<open>C3: a sale can always be brought to its end. If the seller owns an unrevoked record of the
  registry whose hash is that of \<open>x @ y\<close>, the record has no live swap and the contract is not paused,
  then, in a token that moves the payments, the initiation by the seller, the acceptance by the buyer and
  the reveal of \<open>x\<close> and \<open>y\<close>, each in its own ledger and with the registry as it then is, all succeed, and
  the seller receives the price less the protocol's fee.\<close>

theorem sale_completes:
  assumes "get_ip R ip = Inr rec" and "ir_owner rec = seller" and "\<not> ir_revoked rec"
    and "verify_commitment E3 R3 ip x y = Inr True"
    and "on_sale (next_swap_id s) s" and "sw_ActiveSwap s ip = None"
    and "authorized E1 seller" and "authorized E2 buyer" and "authorized E3 seller"
    and "generous E2" and "generous E3" and "this_addr E2 = this" and "this_addr E3 = this"
    and "0 < p" and "p * 250 < 2 ^ 127" and "now E1 + 604800 < 2 ^ 64" and "next_swap_id s + 1 < 2 ^ 64"
  shows "\<exists>t u v. initiate_swap E1 R tok ip seller p buyer 0 None 0 False s = Inr (next_swap_id s, t) \<and>
    accept_swap E2 (next_swap_id s) t = Inr u \<and>
    reveal_key E3 R3 (next_swap_id s) seller x y u = Inr v \<and>
    (\<exists>r. get_swap v (next_swap_id s) = Some r \<and> sp_status r = Completed) \<and>
    transfers (sw_log v) = transfers (sw_log s) @ [(tok, buyer, this, p)] @
      (if 0 < p * 250 div 10000 then [(tok, this, treasury_address, p * 250 div 10000)] else []) @
      [(tok, this, seller, p - p * 250 div 10000)]"
proof -
  let ?i = "next_swap_id s"
  obtain t r where t: "initiate_swap E1 R tok ip seller p buyer 0 None 0 False s = Inr (?i, t)"
    "on_sale ?i t" "sw_Swap t ?i = Some r" "sp_status r = Pending" "plain_swap ip seller buyer tok p r"
    "transfers (sw_log t) = transfers (sw_log s)"
    using plain_initiation [OF assms(5,7,14,16,17,6,1-3)] by blast
  obtain u where u: "accept_swap E2 ?i t = Inr u" "on_sale ?i u" "sw_Swap u ?i = Some (accepted E2 r)"
    "transfers (sw_log u) = transfers (sw_log t) @ [(tok, buyer, this_addr E2, p)]"
    using plain_acceptance [OF t(2) assms(10) t(3,5) assms(8) t(4)] by blast
  obtain v where v: "reveal_key E3 R3 ?i seller x y u = Inr v"
    "sw_Swap v ?i = Some (closed Completed (accepted E2 r))"
    "transfers (sw_log v) = transfers (sw_log u) @
      (if 0 < p * 250 div 10000 then [(tok, this_addr E3, treasury_address, p * 250 div 10000)] else []) @
      [(tok, this_addr E3, seller, p - p * 250 div 10000)]"
    using plain_reveal [OF u(2) assms(11) u(3) _ assms(9) accepted_fields(1) assms(4,14,15)] t(5)
    unfolding plain_swap_accepted by blast
  have "\<exists>q. get_swap v ?i = Some q \<and> sp_status q = Completed" using v(2) by (simp add: get_swap_def)
  moreover have "transfers (sw_log v) = transfers (sw_log s) @ [(tok, buyer, this, p)] @
      (if 0 < p * 250 div 10000 then [(tok, this, treasury_address, p * 250 div 10000)] else []) @
      [(tok, this, seller, p - p * 250 div 10000)]"
    unfolding v(3) u(4) t(6) assms(12,13) by (simp only: append_assoc)
  ultimately show ?thesis using t(1) u(1) v(1) by blast
qed

theorem sale_completes_witness:
  "\<exists>u v. reveal_key sale_env demo1 0 (Address 1) [1] [2] u = Inr v \<and>
     transfers (sw_log v) = [(Address 5, Address 2, Address 9, 10000),
     (Address 5, Address 9, Address 0, 250), (Address 5, Address 9, Address 1, 9750)]"
proof -
  have "next_swap_id sale0 = 0" "sw_ActiveSwap sale0 1 = None" "transfers (sw_log sale0) = []"
    by (simp_all add: sale0_fields empty_swaps_def next_swap_id_def)
  with sale_completes [OF demo1_record _ _ sale_verifies, of "Address 1" sale0 sale_env sale_env "Address 2"
      "Address 9" 10000 "Address 5"] sale0_on_sale [of 0]
  show ?thesis by (auto simp: fresh_record_def treasury_address_def)
qed

section \<open>Bounds\<close>

text \<open>C24: an installment is never more than what is left to pay. It is transferred as it is and added to
  the amount paid, which stays within the price, and the swap is accepted by the installment that makes
  the two equal, not before. The price must be an \<open>i128\<close>, which its type says.\<close>

theorem installments_within_price:
  assumes "swaps_reachable H s" and "submit_installment_payment E i x s = Inr t"
    and "\<forall>r. sw_Swap s i = Some r \<longrightarrow> sp_price r < 2 ^ 127"
  shows "\<exists>r q. sw_Swap s i = Some r \<and> sw_Swap t i = Some q \<and> sp_price q = sp_price r \<and> 0 < x \<and>
    sp_paid_amount q = sp_paid_amount r + x \<and> sp_paid_amount q \<le> sp_price q \<and>
    sp_status q = (if sp_paid_amount q = sp_price q then Accepted else Pending) \<and>
    transfers (sw_log t) = transfers (sw_log s) @ [(sp_token r, sp_buyer r, this_addr E, x)] \<and>
    get_installment_status t i = Inr (sp_paid_amount q, sp_price q, sp_price q - sp_paid_amount q)"
  using assms(2)
proof (rule submit_installment_payment_effect)
  fix r :: SwapRecord and p
  let ?q = "if sp_price r \<le> p
    then r\<lparr>sp_paid_amount := p, sp_status := Accepted, sp_accept_timestamp := now E\<rparr>
    else r\<lparr>sp_paid_amount := p\<rparr>"
  assume r: "bk_swap (book_of s) i = Some r" "sp_status r = Pending" "0 < x"
    and x: "x \<le> sat_i128 (sp_price r - sp_paid_amount r)" and p: "p = sat_i128 (sp_paid_amount r + x)"
    and t: "book_of t = touch i ?q (coll_of s i) (dep_of s i) [(sp_token r, sp_buyer r, this_addr E, x)]
      (if sp_price r \<le> p then [history_entry E Accepted] else []) False [] (book_of s)"
  have price: "sp_price r < 2 ^ 127" "0 \<le> sp_paid_amount r" "0 \<le> sp_price r"
    using assms(3) r(1) deal_facts [OF swap_ids.reachable_inv [OF assms(1)] r(1)]
    by (simp_all add: book_fields)
  have le: "sp_paid_amount r + x \<le> sp_price r" using x r(3) by (auto simp: sat_i128_def)
  have sum: "p = sp_paid_amount r + x"
    unfolding p by (rule sat_i128_id) (use le price r(3) in simp_all)
  have swap: "sw_Swap t i = Some ?q"
    and paid: "transfers (sw_log t) = transfers (sw_log s) @ [(sp_token r, sp_buyer r, this_addr E, x)]"
    using arg_cong [OF t, of "\<lambda>b. bk_swap b i"] arg_cong [OF t, of bk_paid] by (simp_all add: book_fields)
  have "sat_i128 (sp_price r - p) = sp_price r - p"
    by (rule sat_i128_id) (use le price sum r(3) in simp_all)
  with swap paid r le sum show ?thesis
    by (intro exI [of _ r] exI [of _ ?q])
      (auto simp: book_fields get_installment_status_def require_swap_exists_def)
qed

text \<open>The sale again, to be paid by installments, and the first of them.\<close>

definition sale_plan :: swaps where
  "sale_plan = snd (projr (initiate_swap_with_schedule sale_env demo1 (Address 5) 1 (Address 1)
     [\<lparr>ps_due_timestamp = 0, ps_amount = 10000\<rparr>] (Address 2) sale0))"

lemma sale_plan_run: "initiate_swap_with_schedule sale_env demo1 (Address 5) 1 (Address 1)
      [\<lparr>ps_due_timestamp = 0, ps_amount = 10000\<rparr>] (Address 2) sale0 = Inr (0, sale_plan)"
    and sale_plan_swap: "sw_Swap sale_plan = [0 \<mapsto> sale_record\<lparr>sp_is_installment := True\<rparr>]"
proof -
  have guards: "require_not_paused sale0 = Inr ()" "require_positive_price 10000 = Inr ()"
    "ensure_seller_owns_active_ip demo1 1 (Address 1) sale0 = Inr ()" "require_no_active_swap 1 sale0 = Inr ()"
    using demo1_record by (simp_all add: sale0_fields empty_swaps_def fresh_record_def)
  have "\<exists>t. initiate_swap_with_schedule sale_env demo1 (Address 5) 1 (Address 1)
      [\<lparr>ps_due_timestamp = 0, ps_amount = 10000\<rparr>] (Address 2) sale0 = Inr (0, t) \<and>
      sw_Swap t = [0 \<mapsto> sale_record\<lparr>sp_is_installment := True\<rparr>]"
    by (simp add: guards [simplified] guards initiate_swap_with_schedule_def Let_def sat_i128_def
        del: One_nat_def)
      (simp add: sale0_fields empty_swaps_def next_swap_id_def sale_record_def state_simps)
  then show "initiate_swap_with_schedule sale_env demo1 (Address 5) 1 (Address 1)
      [\<lparr>ps_due_timestamp = 0, ps_amount = 10000\<rparr>] (Address 2) sale0 = Inr (0, sale_plan)"
    and "sw_Swap sale_plan = [0 \<mapsto> sale_record\<lparr>sp_is_installment := True\<rparr>]"
    by (auto simp: sale_plan_def)
qed

theorem installments_within_price_witness:
  "\<exists>t q. submit_installment_payment sale_env 0 4000 sale_plan = Inr t \<and> sw_Swap t 0 = Some q \<and>
     sp_paid_amount q = 4000 \<and> sp_status q = Pending \<and> get_installment_status t 0 = Inr (4000, 10000, 6000)"
proof -
  have "swap_step any_call sale_env sale0 sale_plan"
    by (rule swap_call [of _ sale_env _ "Open (InitiateSwapWithSchedule (Address 5) 1 (Address 1)
        [\<lparr>ps_due_timestamp = 0, ps_amount = 10000\<rparr>] (Address 2))" _ demo1])
      (use sale_plan_run in simp_all)
  then have run: "swaps_reachable sale_env sale_plan" using sale_any(1) by (blast intro: reachable_step)
  have guards: "require_swap_exists sale_plan 0 = Inr (sale_record\<lparr>sp_is_installment := True\<rparr>)"
    by (simp add: sale_plan_swap)
  obtain t where "submit_installment_payment sale_env 0 4000 sale_plan = Inr t"
    by (simp add: guards submit_installment_payment_def Let_def sat_i128_def)
  with installments_within_price [OF run this] show ?thesis by (auto simp: sale_plan_swap)
qed

text \<open>C37: in every reachable storage every reputation score is at most 100; the address the contract has
  never seen has 50.\<close>

theorem user_reputation_bounded:
  assumes "swaps_reachable H s"
  shows "get_user_reputation s a \<le> 100 \<and>
    (sw_UserReputation s a = None \<longrightarrow> get_user_reputation s a = 50)"
proof -
  have "book_ok (this_addr H) (book_of s)" by (rule swap_ids.reachable_inv [OF assms])
  then show ?thesis
    by (cases "sw_UserReputation s a") (auto simp: book_ok_def book_fields get_user_reputation_def)
qed

theorem user_reputation_bounded_witness: "get_user_reputation sale3 (Address 1) \<le> 100"
  using user_reputation_bounded [OF sale_any(4)] by blast

section \<open>Errors\<close>

text \<open>Remark: the insurance never pays. The only mark that makes a swap claimable is written by a failing
  reveal and undone with it, so in every reachable storage every claim fails, whoever makes it.\<close>

theorem insurance_claim_always_fails:
  assumes "swaps_reachable H s"
  shows "sw_InsuranceClaimable s = Map.empty \<and> (\<exists>e. claim_insurance E i s = Inl e)"
proof -
  have none: "sw_InsuranceClaimable s = Map.empty"
    using swap_ids.reachable_inv [OF assms] by (simp add: book_ok_def book_fields)
  have "claim_insurance E i s \<noteq> Inr t" for t
    using claim_insurance_claimable [of E i s t] none by (auto simp: book_fields)
  with none show ?thesis by (cases "claim_insurance E i s") auto
qed

theorem insurance_claim_always_fails_witness: "\<exists>e. claim_insurance sale_env 0 sale3 = Inl e"
  using insurance_claim_always_fails [OF sale_any(4)] by blast

text \<open>The one initiation that asks the oracle before it looks at the pause switch.\<close>

fun oracle_priced :: "open_call \<Rightarrow> bool" where
  "oracle_priced (InitiateSwapWithOraclePrice tok ip seller buyer n ref coll ins lo hi) = True"
| "oracle_priced _ = False"

text \<open>Remark: while the contract is paused no swap is opened, accepted or renegotiated; the call fails with
  \<open>Paused\<close> before anything else is looked at, except that an initiation with an oracle price asks the
  oracle first and may fail with its errors.\<close>

theorem paused_contract_refuses:
  assumes "sw_Paused s = Some True"
  shows "(\<exists>e. exec_open E R c s = Inl e \<and> (oracle_priced c \<or> e = Contract Paused)) \<and>
    accept_swap E i s = Inl (Contract Paused) \<and>
    accept_swap_conditional E i cs s = Inl (Contract Paused) \<and>
    accept_swap_partial E i q s = Inl (Contract Paused) \<and>
    batch_accept_swaps E is b s = Inl (Contract Paused) \<and>
    renegotiate_swap E i p s = Inl (Contract Paused) \<and>
    accept_renegotiation E i s = Inl (Contract Paused)"
proof -
  have paused: "require_not_paused s = Inl (Contract Paused)"
    using assms by (simp add: require_not_paused_def)
  then have plain: "initiate_swap E R tok ip seller p buyer n ref coll ins s = Inl (Contract Paused)"
    for tok ip seller p buyer n ref coll ins
    by (simp add: initiate_swap_def)
  then have "exec_open E R c s \<noteq> Inr t" for t
    by (cases c) (auto simp: paused initiate_swap_with_oracle_price_def batch_initiate_swap_def
        batch_initiate_swap_with_insurance_def initiate_swap_with_schedule_def initiate_escrow_swap_def
        batch_initiate_escrow_def initiate_swap_with_signers_def)
  moreover have "exec_open E R c s = Inl (Contract Paused)" if "\<not> oracle_priced c"
    using that by (cases c) (simp_all add: paused plain drop_result_def batch_initiate_swap_def
        batch_initiate_swap_with_insurance_def initiate_swap_with_schedule_def initiate_escrow_swap_def
        batch_initiate_escrow_def initiate_swap_with_signers_def)
  ultimately have "\<exists>e. exec_open E R c s = Inl e \<and> (oracle_priced c \<or> e = Contract Paused)"
    by (cases "exec_open E R c s"; cases "oracle_priced c") auto
  then show ?thesis
    by (simp add: paused accept_swap_def accept_swap_conditional_def accept_swap_partial_def
        batch_accept_swaps_def renegotiate_swap_def accept_renegotiation_def)
qed

theorem paused_contract_refuses_witness:
  "accept_swap sale_env 0 (sale1\<lparr>sw_Paused := Some True\<rparr>) = Inl (Contract Paused)"
  using paused_contract_refuses [of "sale1\<lparr>sw_Paused := Some True\<rparr>"] by simp

section \<open>Auctions\<close>

definition auction_le :: "AuctionRecord \<Rightarrow> AuctionRecord \<Rightarrow> bool" where
  "auction_le a a' \<longleftrightarrow> ac_ip_id a' = ac_ip_id a \<and> ac_seller a' = ac_seller a \<and> ac_token a' = ac_token a \<and>
     ac_min_bid a' = ac_min_bid a \<and> ac_end_time a' = ac_end_time a \<and>
     ac_highest_bid a \<le> ac_highest_bid a' \<and> (ac_finalized a \<longrightarrow> a' = a)"

definition auctions_le :: "book \<Rightarrow> book \<Rightarrow> bool" where
  "auctions_le b b' \<longleftrightarrow>
     (\<forall>k a. bk_auction b k = Some a \<longrightarrow> (\<exists>a'. bk_auction b' k = Some a' \<and> auction_le a a'))"

lemma auctions_le_refl [simp]: "auctions_le b b"
  by (auto simp: auctions_le_def auction_le_def)

lemma auctions_le_trans: "auctions_le b c \<Longrightarrow> auctions_le c d \<Longrightarrow> auctions_le b d"
  unfolding auctions_le_def auction_le_def by (smt (verit) order.trans)

lemma book_change_auctions: "book_change own sv lk this b b' \<Longrightarrow> book_ok this b \<Longrightarrow> auctions_le b b'"
proof (induction rule: book_change.induct)
  case (start a b)
  then have "bk_auction b (bk_next_auction b) = None" unfolding book_ok_def by (metis less_irrefl)
  then show ?case by (auto simp: auctions_le_def auction_le_def)
qed (auto simp: auctions_le_def auction_le_def)

lemma book_changes_auctions: "book_changes own sv lk this b b' \<Longrightarrow> book_ok this b \<Longrightarrow> auctions_le b b'"
  by (induction rule: rtranclp_induct)
    (auto intro: auctions_le_trans book_change_auctions book_changes_ok)

interpretation swap_auctions: monotone_system swaps_deployed "swap_step G H"
    "\<lambda>s. book_ok (this_addr H) (book_of s)" "\<lambda>s t. auctions_le (book_of s) (book_of t)" for G H
proof unfold_locales
  fix s t assume "book_ok (this_addr H) (book_of s)" "swap_step G H s t"
  then show "auctions_le (book_of s) (book_of t)"
    by (intro book_changes_auctions [OF swap_step_changes [where sv = False and lk = False]]) auto
qed (auto intro: auctions_le_trans)

text \<open>C25: whatever calls are made, an auction keeps its record, seller, token, minimum and end, its
  highest bid never falls, and once finalized it does not change any more, so it cannot be finalized
  twice.\<close>

theorem auction_bids_rise:
  assumes "swaps_reachable H s" and "(swap_step any_call H)\<^sup>*\<^sup>* s t" and "get_auction s k = Inr a"
  shows "\<exists>a'. get_auction t k = Inr a' \<and> ac_ip_id a' = ac_ip_id a \<and> ac_seller a' = ac_seller a \<and>
    ac_token a' = ac_token a \<and> ac_min_bid a' = ac_min_bid a \<and> ac_end_time a' = ac_end_time a \<and>
    ac_highest_bid a \<le> ac_highest_bid a' \<and>
    (ac_finalized a \<longrightarrow> a' = a \<and> (\<forall>E. \<exists>e. finalize_auction E k t = Inl e))"
proof -
  have "auctions_le (book_of s) (book_of t)" by (rule swap_auctions.reachable_le [OF assms(1,2)])
  then obtain a' where a': "sw_Auction t k = Some a'" "auction_le a a'"
    using assms(3) by (auto simp: auctions_le_def book_fields get_auction_def)
  have "finalize_auction E k t \<noteq> Inr u" if "ac_finalized a" for E u
    using a' that by (auto simp: auction_le_def book_fields elim!: finalize_auction_effect)
  then have "\<exists>e. finalize_auction E k t = Inl e" if "ac_finalized a" for E
    using that by (cases "finalize_auction E k t") auto
  with a' show ?thesis by (auto simp: get_auction_def auction_le_def)
qed

text \<open>An auction of the record of the sale, and a bid.\<close>

definition sale_auction :: swaps where
  "sale_auction = snd (projr (start_ip_auction sale_env demo1 (Address 5) 1 (Address 1) 100 3600 sale0))"
definition sale_bid :: swaps where "sale_bid = projr (place_bid sale_env 0 (Address 2) 150 sale_auction)"

lemma sale_auction_run: "start_ip_auction sale_env demo1 (Address 5) 1 (Address 1) 100 3600 sale0 =
    Inr (0, sale_auction)"
proof -
  have guards: "require_not_paused sale0 = Inr ()" "require_positive_price 100 = Inr ()"
    "ensure_seller_owns_active_ip demo1 1 (Address 1) sale0 = Inr ()"
    using demo1_record by (simp_all add: sale0_fields empty_swaps_def fresh_record_def)
  have "\<exists>t. start_ip_auction sale_env demo1 (Address 5) 1 (Address 1) 100 3600 sale0 = Inr (0, t)"
    by (simp add: guards [simplified] guards start_ip_auction_def Let_def del: One_nat_def)
      (simp add: sale0_fields empty_swaps_def)
  then show ?thesis by (auto simp: sale_auction_def)
qed

lemma sale_bid_run: "place_bid sale_env 0 (Address 2) 150 sale_auction = Inr sale_bid"
proof -
  have "\<exists>a. sw_Auction sale_auction 0 = Some a \<and> \<not> ac_finalized a \<and> ac_end_time a = 4600 \<and>
      ac_min_bid a = 100 \<and> ac_highest_bid a = 0 \<and> ac_highest_bidder a = None"
  proof (rule start_ip_auction_effect [OF sale_auction_run])
    assume "book_of sale_auction = (book_of sale0)\<lparr>bk_auction := (bk_auction (book_of sale0))
       (0 \<mapsto> \<lparr>ac_auction_id = 0, ac_ip_id = 1, ac_seller = Address 1, ac_token = Address 5, ac_min_bid = 100,
         ac_highest_bid = 0, ac_highest_bidder = None, ac_start_time = now sale_env,
         ac_end_time = now sale_env + 3600, ac_finalized = False\<rparr>), bk_next_auction := 0 + 1\<rparr>"
    from arg_cong [OF this, of bk_auction] show ?thesis by (simp add: book_fields)
  qed
  then have "\<exists>t. place_bid sale_env 0 (Address 2) 150 sale_auction = Inr t"
    by (auto simp: place_bid_def)
  then show ?thesis by (auto simp: sale_bid_def)
qed

theorem auction_bids_rise_witness:
  "\<exists>a a'. get_auction sale_auction 0 = Inr a \<and> get_auction sale_bid 0 = Inr a' \<and>
     ac_highest_bid a \<le> ac_highest_bid a' \<and> ac_seller a' = ac_seller a"
proof -
  have "swap_step any_call sale_env sale0 sale_auction" "swap_step any_call sale_env sale_auction sale_bid"
    by (rule swap_call [of _ sale_env _ "Auctions (StartIpAuction (Address 5) 1 (Address 1) 100 3600)" _ demo1]
        swap_call [of _ sale_env _ "Auctions (PlaceBid 0 (Address 2) 150)" _ demo1],
      use sale_auction_run sale_bid_run in simp_all)+
  then have run: "swaps_reachable sale_env sale_auction" "(swap_step any_call sale_env)\<^sup>*\<^sup>* sale_auction sale_bid"
    using sale_any(1) by (blast intro: reachable_step)+
  obtain a where "get_auction sale_auction 0 = Inr a"
    using sale_bid_run by (elim place_bid_effect) (simp add: get_auction_def book_fields)
  with auction_bids_rise [OF run this] show ?thesis by blast
qed

section \<open>Upgrades\<close>

text \<open>One successful \<open>validate_upgrade\<close>.\<close>

definition schema_upgrade :: "swaps \<Rightarrow> swaps \<Rightarrow> bool" where
  "schema_upgrade s t \<longleftrightarrow> (\<exists>w n. validate_swap_upgrade w n s = Inr t)"

definition schema_le :: "ContractSchema \<Rightarrow> ContractSchema \<Rightarrow> bool" where
  "schema_le c n \<longleftrightarrow> cs_version c \<le> cs_version n \<and>
     (\<forall>f \<in> set (cs_functions c). \<exists>g \<in> set (cs_functions n).
        fe_name g = fe_name f \<and> fe_signature g = fe_signature f) \<and>
     (\<forall>e \<in> set (cs_errors c). \<exists>g \<in> set (cs_errors n).
        ee_name g = ee_name e \<and> ee_code g = ee_code e) \<and>
     set (cs_storage_keys c) \<subseteq> set (cs_storage_keys n)"

lemma schema_le_refl [simp]: "schema_le c c"
  by (auto simp: schema_le_def)

lemma schema_le_trans:
  assumes ab: "schema_le a b" and bc: "schema_le b c"
  shows "schema_le a c"
proof -
  have "\<exists>h \<in> set (cs_functions c). fe_name h = fe_name f \<and> fe_signature h = fe_signature f"
    if f: "f \<in> set (cs_functions a)" for f
  proof -
    from ab f obtain g where g: "g \<in> set (cs_functions b)" "fe_name g = fe_name f"
      "fe_signature g = fe_signature f"
      by (auto simp: schema_le_def)
    from bc g(1) obtain h where "h \<in> set (cs_functions c)" "fe_name h = fe_name g"
      "fe_signature h = fe_signature g"
      by (auto simp: schema_le_def)
    with g show ?thesis by auto
  qed
  moreover have "\<exists>h \<in> set (cs_errors c). ee_name h = ee_name e \<and> ee_code h = ee_code e"
    if e: "e \<in> set (cs_errors a)" for e
  proof -
    from ab e obtain g where g: "g \<in> set (cs_errors b)" "ee_name g = ee_name e" "ee_code g = ee_code e"
      by (auto simp: schema_le_def)
    from bc g(1) obtain h where "h \<in> set (cs_errors c)" "ee_name h = ee_name g" "ee_code h = ee_code g"
      by (auto simp: schema_le_def)
    with g show ?thesis by auto
  qed
  moreover have "cs_version a \<le> cs_version c" "set (cs_storage_keys a) \<subseteq> set (cs_storage_keys c)"
    using ab bc by (auto simp: schema_le_def)
  ultimately show ?thesis by (simp add: schema_le_def)
qed

lemma find_member:
  "find_function fs x = Some f \<Longrightarrow> f \<in> set fs \<and> fe_name f = x"
  "find_error es x = Some e \<Longrightarrow> e \<in> set es \<and> ee_name e = x"
  by (auto simp: find_function_def find_error_def find_Some_iff)

lemma check_schema_compatibility_le:
  assumes "check_schema_compatibility c n = Inr ()"
  shows "schema_le c n \<and> cs_version c < cs_version n"
proof -
  from assms have v: "cs_version c < cs_version n"
    and fs: "\<forall>f \<in> set (cs_functions c). \<exists>g. find_function (cs_functions n) (fe_name f) = Some g \<and>
      fe_signature g = fe_signature f"
    and es: "\<forall>e \<in> set (cs_errors c). \<exists>g. find_error (cs_errors n) (ee_name e) = Some g \<and>
      ee_code g = ee_code e"
    and ks: "\<forall>k \<in> set (cs_storage_keys c). contains_string (cs_storage_keys n) k"
    by (fastforce simp: check_schema_compatibility_def checkE_Inr_iff split: option.splits if_splits)+
  from fs have "\<forall>f \<in> set (cs_functions c). \<exists>g \<in> set (cs_functions n).
      fe_name g = fe_name f \<and> fe_signature g = fe_signature f"
    by (meson find_member(1))
  moreover from es have "\<forall>e \<in> set (cs_errors c). \<exists>g \<in> set (cs_errors n).
      ee_name g = ee_name e \<and> ee_code g = ee_code e"
    by (meson find_member(2))
  moreover from ks have "set (cs_storage_keys c) \<subseteq> set (cs_storage_keys n)"
    by (auto simp: contains_string_def list_ex_iff)
  ultimately show ?thesis using v by (simp add: schema_le_def)
qed

text \<open>C28: along any sequence of validated upgrades, once a schema is stored the version only grows and
  no function, error or storage key it lists is dropped or changes its signature or code, however many
  upgrades follow.\<close>

theorem upgrades_keep_interface:
  assumes "schema_upgrade\<^sup>*\<^sup>* s t" and "load_schema s = Some c"
  shows "\<exists>n. load_schema t = Some n \<and> cs_version c \<le> cs_version n \<and>
    (\<forall>f \<in> set (cs_functions c). \<exists>g \<in> set (cs_functions n).
        fe_name g = fe_name f \<and> fe_signature g = fe_signature f) \<and>
    (\<forall>e \<in> set (cs_errors c). \<exists>g \<in> set (cs_errors n). ee_name g = ee_name e \<and> ee_code g = ee_code e) \<and>
    set (cs_storage_keys c) \<subseteq> set (cs_storage_keys n)"
proof -
  have "\<exists>n. load_schema t = Some n \<and> schema_le c n"
    using assms
  proof (induction rule: rtranclp_induct)
    case (step u v)
    then obtain m w n where m: "load_schema u = Some m" "schema_le c m"
      and v: "validate_swap_upgrade w n u = Inr v"
      by (auto simp: schema_upgrade_def)
    then have "check_schema_compatibility m n = Inr ()" "load_schema v = Some n"
      by (auto simp: validate_swap_upgrade_def load_schema_def store_schema_def Let_def)
    with m show ?case using check_schema_compatibility_le [of m n] schema_le_trans [of c m n] by auto
  qed auto
  then show ?thesis by (auto simp: schema_le_def)
qed

theorem upgrades_keep_interface_witness:
  "\<exists>t n. schema_upgrade (store_schema build_v1_schema empty_swaps) t \<and> load_schema t = Some n \<and>
     1 \<le> cs_version n"
proof -
  let ?s = "store_schema build_v1_schema empty_swaps"
  let ?n = "build_v1_schema\<lparr>cs_version := 2\<rparr>"
  have "check_schema_compatibility build_v1_schema ?n = Inr ()" by code_simp
  then obtain t where t: "validate_swap_upgrade [] ?n ?s = Inr t"
    by (auto simp: validate_swap_upgrade_def load_schema_def store_schema_def Let_def)
  then have up: "schema_upgrade ?s t" by (auto simp: schema_upgrade_def)
  have "load_schema ?s = Some build_v1_schema" by (simp add: load_schema_def store_schema_def)
  with upgrades_keep_interface [of ?s t build_v1_schema] up
  obtain n where "load_schema t = Some n" "cs_version build_v1_schema \<le> cs_version n"
    by blast
  with up show ?thesis by (auto simp: build_v1_schema_def)
qed

section \<open>Payments made more than once\<close>

lemma arbitrate_refund:
  assumes "sw_Swap s i = Some r" and "authorized E a" and "generous E" and "sp_collateral_amount r \<le> 0"
  shows "\<exists>t. arbitrate_swap E i a True s = Inr t \<and>
    sw_Swap t = (sw_Swap s)(i \<mapsto> closed Cancelled r) \<and>
    transfers (sw_log t) = transfers (sw_log s) @ [(sp_token r, this_addr E, sp_buyer r, sp_price r)]"
proof -
  have guards: "require_swap_exists s i = Inr r" using assms(1) by simp
  show ?thesis
    using assms by (simp add: guards arbitrate_swap_def release_collateral_def state_simps Let_def closed_def)
qed

text \<open>Remark: \<open>arbitrate_swap\<close> asks for the signature of the caller and nothing else. Whoever signs, and
  whatever the status of the swap, the price is paid out, and the call can be repeated at once.\<close>

theorem anyone_arbitrates_again:
  assumes "sw_Swap s i = Some r" and "authorized E a" and "generous E" and "sp_collateral_amount r \<le> 0"
  shows "\<exists>t u. arbitrate_swap E i a True s = Inr t \<and> arbitrate_swap E i a True t = Inr u \<and>
    get_swap t i = Some (r\<lparr>sp_status := Cancelled\<rparr>) \<and>
    transfers (sw_log u) = transfers (sw_log s) @
      [(sp_token r, this_addr E, sp_buyer r, sp_price r), (sp_token r, this_addr E, sp_buyer r, sp_price r)]"
proof -
  obtain t where t: "arbitrate_swap E i a True s = Inr t" "sw_Swap t = (sw_Swap s)(i \<mapsto> closed Cancelled r)"
    "transfers (sw_log t) = transfers (sw_log s) @ [(sp_token r, this_addr E, sp_buyer r, sp_price r)]"
    using arbitrate_refund [OF assms] by blast
  then obtain u where "arbitrate_swap E i a True t = Inr u"
    "transfers (sw_log u) = transfers (sw_log t) @ [(sp_token r, this_addr E, sp_buyer r, sp_price r)]"
    using arbitrate_refund [of t i "closed Cancelled r" E a] assms(2-4) by auto
  with t show ?thesis by (intro exI [of _ t] exI [of _ u]) (simp add: get_swap_def closed_def)
qed

theorem anyone_arbitrates_again_witness:
  "\<exists>u t. arbitrate_swap sale_env 0 (Address 77) True t = Inr u \<and>
     transfers (sw_log u) = transfers (sw_log sale3) @
       [(Address 5, Address 9, Address 2, 10000), (Address 5, Address 9, Address 2, 10000)]"
  using anyone_arbitrates_again [of sale3 0 "closed Completed (accepted sale_env sale_record)" sale_env "Address 77"]
  by (auto simp: sale3_swap accepted_def)

text \<open>Remark: \<open>make_scheduled_payment\<close> does not look at the status. The payment that completes the schedule
  makes the swap \<open>Accepted\<close> again even after it has been cancelled or completed, although its registry
  record may be locked by another swap by then.\<close>

theorem scheduled_payment_revives_swap:
  assumes "sw_Swap s i = Some r" and "authorized E (sp_buyer r)" and "generous E"
    and "sw_PaymentSchedule s i = Some sch" and "sw_PaymentsMade s i = Some made"
    and "k < length sch" and "length made = length sch" and "\<not> made ! k"
    and "list_all (\<lambda>paid. paid) (made[k := True])" and "ps_due_timestamp (sch ! k) \<le> now E"
  shows "\<exists>t. make_scheduled_payment E i k s = Inr t \<and>
    get_swap t i = Some (r\<lparr>sp_status := Accepted, sp_accept_timestamp := now E\<rparr>) \<and>
    sw_ActiveSwap t = sw_ActiveSwap s"
proof -
  have guards: "require_swap_exists s i = Inr r" "vec_get sch k = Inr (sch ! k)"
    "vec_set made k True = Inr (made[k := True])"
    using assms by simp_all
  show ?thesis
    using assms
    by (simp add: guards make_scheduled_payment_def state_simps Let_def get_swap_def)
qed

theorem scheduled_payment_revives_swap_witness:
  "\<exists>t. make_scheduled_payment sale_env 0 0 (empty_swaps\<lparr>sw_Swap := [0 \<mapsto> closed Cancelled sale_record],
       sw_PaymentSchedule := [0 \<mapsto> [\<lparr>ps_due_timestamp = 0, ps_amount = 10000\<rparr>]],
       sw_PaymentsMade := [0 \<mapsto> [False]]\<rparr>) = Inr t \<and>
     (\<exists>q. get_swap t 0 = Some q \<and> sp_status q = Accepted)"
  using scheduled_payment_revives_swap [of "empty_swaps\<lparr>sw_Swap := [0 \<mapsto> closed Cancelled sale_record],
      sw_PaymentSchedule := [0 \<mapsto> [\<lparr>ps_due_timestamp = 0, ps_amount = 10000\<rparr>]],
      sw_PaymentsMade := [0 \<mapsto> [False]]\<rparr>" 0 "closed Cancelled sale_record" sale_env
    "[\<lparr>ps_due_timestamp = 0, ps_amount = 10000\<rparr>]" "[False]" 0]
  by auto

text \<open>The payments of one entry of a batch for a plain swap.\<close>

definition entry_payments :: "env \<Rightarrow> address \<Rightarrow> address \<Rightarrow> int \<Rightarrow> payment list" where
  "entry_payments E tok seller p = (tok, this_addr E, seller, p - p * 250 div 10000) #
     (if 0 < p * 250 div 10000 then [(tok, this_addr E, treasury_address, p * 250 div 10000)] else [])"

lemma plain_batch_step:
  assumes "sw_Swap s i = Some r" and "generous E" and "plain_swap ip seller buyer tok p r"
    and "0 < p" and "p * 250 < 2 ^ 127"
  shows "\<exists>fees' t. batch_reveal_step E i (fees, s) = Inr (fees', t) \<and>
    sw_Swap t i = Some (closed Completed r) \<and>
    transfers (sw_log t) = transfers (sw_log s) @ entry_payments E tok seller p"
proof -
  note plain = assms(3) [unfolded plain_swap_def]
  let ?q = "r\<lparr>sp_status := Completed\<rparr>"
  have price: "0 < sp_price r" "sp_price r * 250 < 2 ^ 127" using plain assms(4,5) by simp_all
  have fees: "bps_of (sp_price r) (pc_protocol_fee_bps protocol_config) = Inr (fee_of r)"
    using price by (simp add: protocol_bps)
  have guards: "require_swap_exists s i = Inr r" "referral_of ?q = Inr 0"
    using assms(1) plain by (simp_all add: referral_of_def)
  have "0 \<le> fee_of r" "fee_of r \<le> sp_price r" "sp_price r < 2 ^ 127"
    using fee_of_bounds [of r] price by simp_all
  then have net: "i128 (sp_price r - fee_of r) = Inr (sp_price r - fee_of r)" by simp
  have paid: "entry_payments E tok seller p = (sp_token r, this_addr E, sp_seller r, sp_price r - fee_of r) #
      (if 0 < fee_of r then [(sp_token r, this_addr E, pc_treasury protocol_config, fee_of r)] else [])"
    using plain assms(4) by (simp only: entry_payments_def fee_of_def protocol_config_def) simp
  have "sp_referrer r = None" "sp_collateral_amount r = 0" using plain by simp_all
  then show ?thesis
    unfolding paid using assms(2)
    by (simp add: guards fees net batch_reveal_step_def pay_referral_def release_collateral_def Let_def
        state_simps closed_def)
qed

lemma plain_batch_fold:
  assumes "sw_Swap s i = Some r" and "generous E" and "plain_swap ip seller buyer tok p r"
    and "0 < p" and "p * 250 < 2 ^ 127"
  shows "\<exists>fees' t. foldE (batch_reveal_step E) (replicate n i) (fees, s) = Inr (fees', t) \<and>
    transfers (sw_log t) = transfers (sw_log s) @ concat (replicate n (entry_payments E tok seller p))"
  using assms(1,3)
proof (induction n arbitrary: fees s r)
  case (Suc n)
  obtain fees' u where u: "batch_reveal_step E i (fees, s) = Inr (fees', u)"
    "sw_Swap u i = Some (closed Completed r)"
    "transfers (sw_log u) = transfers (sw_log s) @ entry_payments E tok seller p"
    using plain_batch_step [OF Suc.prems(1) assms(2) Suc.prems(2) assms(4,5)] by blast
  have "plain_swap ip seller buyer tok p (closed Completed r)"
    using Suc.prems(2) by (simp add: plain_swap_def closed_def)
  from Suc.IH [OF u(2) this, of fees'] u show ?case by auto
qed simp

text \<open>Remark: \<open>batch_reveal_keys\<close> checks all entries before it pays any and does not look for repeated
  identifiers: one accepted swap named \<open>n\<close> times is paid out \<open>n\<close> times. Nor does it ask for the
  signatures that \<open>reveal_key\<close> requires of a swap with co-signers.\<close>

theorem batch_reveal_pays_per_entry:
  assumes "sw_Swap s i = Some r" and "generous E" and "plain_swap ip seller buyer tok p r"
    and "0 < p" and "p * 250 < 2 ^ 127" and "authorized E seller" and "sp_status r = Accepted"
    and "sw_IpRegistry s \<noteq> None" and "verify_commitment E R ip x y = Inr True" and "1 \<le> n" and "n \<le> 50"
    and "sw_SwapSigners s i = Some sgs" and "length (unwrap_or [] (sw_SwapSignatures s i)) < length sgs"
  shows "\<exists>t. batch_reveal_keys E R (replicate n i) (replicate n x) (replicate n y) seller s = Inr t \<and>
    transfers (sw_log t) = transfers (sw_log s) @ concat (replicate n (entry_payments E tok seller p)) \<and>
    reveal_key E R i seller x y s = Inl (Contract NotAllSigned)"
proof -
  note plain = assms(3) [unfolded plain_swap_def]
  obtain fees u where u: "foldE (batch_reveal_step E) (replicate n i) ([], s) = Inr (fees, u)"
    "transfers (sw_log u) = transfers (sw_log s) @ concat (replicate n (entry_payments E tok seller p))"
    using plain_batch_fold [OF assms(1-5)] by blast
  have "check_reveal_item E R seller s (i, x, y) = Inr ()"
    using assms(1,7-9) plain by (auto simp: check_reveal_item_def bindE_Inr_iff)
  then have "checkE (check_reveal_item E R seller s)
      (zip (replicate n i) (zip (replicate n x) (replicate n y))) = Inr ()"
    by (auto simp: checkE_Inr_iff zip_replicate)
  with u(1) assms(6,10,11) obtain t where
    "batch_reveal_keys E R (replicate n i) (replicate n x) (replicate n y) seller s = Inr t"
    "transfers (sw_log t) = transfers (sw_log u)"
    by (auto simp: batch_reveal_keys_def emit_def)
  moreover have "reveal_key E R i seller x y s = Inl (Contract NotAllSigned)"
  proof -
    have guards: "require_swap_exists s i = Inr r" "require_seller seller r = Inr ()"
      "require_swap_status r Accepted NotAccepted = Inr ()"
      using assms(1,7) plain by simp_all
    show ?thesis using assms(6,12,13) by (simp add: guards reveal_key_def)
  qed
  ultimately show ?thesis using u(2) by auto
qed

theorem batch_reveal_pays_per_entry_witness:
  "\<exists>s t. batch_reveal_keys sale_env demo1 [0, 0] [[1], [1]] [[2], [2]] (Address 1) s = Inr t \<and>
     transfers (sw_log t) = transfers (sw_log sale2) @
       [(Address 5, Address 9, Address 1, 9750), (Address 5, Address 9, Address 0, 250),
        (Address 5, Address 9, Address 1, 9750), (Address 5, Address 9, Address 0, 250)]"
proof -
  let ?s = "sale2\<lparr>sw_SwapSigners := [0 \<mapsto> [Address 3]], sw_SwapSignatures := Map.empty\<rparr>"
  have plain: "plain_swap 1 (Address 1) (Address 2) (Address 5) 10000 (accepted sale_env sale_record)"
    by (simp add: plain_swap_def accepted_def sale_record_def)
  have "sw_IpRegistry sale2 \<noteq> None" using sale2_on_sale by (simp add: on_sale_def)
  with batch_reveal_pays_per_entry [of ?s 0, OF _ _ plain, of sale_env demo1 "[1]" "[2]" 2 "[Address 3]"]
    sale_verifies
  obtain t where "batch_reveal_keys sale_env demo1 [0, 0] [[1], [1]] [[2], [2]] (Address 1) ?s = Inr t"
    "transfers (sw_log t) = transfers (sw_log sale2) @
       concat (replicate 2 (entry_payments sale_env (Address 5) (Address 1) 10000))"
    by (auto simp: sale2_swap numeral_2_eq_2)
  then show ?thesis
    by (intro exI [of _ ?s] exI [of _ t]) (simp add: entry_payments_def numeral_2_eq_2 treasury_address_def)
qed

end
