(* ===== verification/Swap_Exits.thy ===== *)
theory Swap_Exits
  imports Swap_Theorems Swap_Outcomes
begin

text \<open>
  The ways out of a swap: that the money the contract holds for a buyer can be called back, which needs
  both the solvency of all executions and the success of the refunding call.
\<close>

section \<open>Tokens that pay\<close>

text \<open>
  A token that performs every transfer out of the contract which the net amount received so far covers.
  Unlike \<open>generous\<close>, this says nothing about the payments of others, or about an overdraft.
\<close>

definition pays_out :: "env \<Rightarrow> bool" where
  "pays_out E \<longleftrightarrow> (\<forall>past tok dst x. 0 \<le> x \<longrightarrow> x \<le> flow tok (this_addr E) past \<longrightarrow>
     token_ok E past (tok, this_addr E, dst, x))"

lemma pays_out_transfer: "pays_out E \<Longrightarrow> 0 \<le> x \<Longrightarrow> x \<le> flow tok (this_addr E) (transfers (sw_log s)) \<Longrightarrow>
    transfer E tok (this_addr E) dst x s = Inr (s\<lparr>sw_log := sw_log s @ [Transfer tok (this_addr E) dst x]\<rparr>)"
  by (simp add: pays_out_def transfer_def)

text \<open>The price and the collateral of a swap that holds its price are there.\<close>

lemma held_money:
  assumes reach: "reachable swaps_deployed (swap_step solvent_call H) s" and r: "sw_Swap s i = Some r"
    and st: "sp_status r = Accepted \<or> sp_status r = Disputed" and self: "this_addr E = this_addr H"
  shows "0 \<le> sp_price r" "\<And>x. sw_SwapCollateral s i = Some x \<Longrightarrow> 0 \<le> x"
    "sp_price r + unwrap_or 0 (sw_SwapCollateral s i) \<le> flow (sp_token r) (this_addr E) (transfers (sw_log s))"
proof -
  have inv: "book_ok (this_addr H) (book_of s)" "solvent (this_addr H) (book_of s)"
    using solvent_swaps.reachable_inv [OF reach] by auto
  have b: "bk_swap (book_of s) i = Some r" using r by (simp add: book_fields)
  show "0 \<le> sp_price r" "\<And>x. sw_SwapCollateral s i = Some x \<Longrightarrow> 0 \<le> x"
    using deal_facts [OF inv(1) b] by (simp_all add: book_fields)
  have "owed (sp_token r) r (bk_coll (book_of s) i) \<le> debt (sp_token r) (book_of s)"
    by (rule deal_debt [OF inv(1) b])
  moreover have "debt (sp_token r) (book_of s) \<le> flow (sp_token r) (this_addr H) (bk_paid (book_of s))"
    using inv(2) by (simp add: solvent_def)
  ultimately show "sp_price r + unwrap_or 0 (sw_SwapCollateral s i) \<le>
      flow (sp_token r) (this_addr E) (transfers (sw_log s))"
    using st by (auto simp: owed_def locked_price_def book_fields self)
qed

lemma cancel_expired_succeeds:
  assumes reach: "reachable swaps_deployed (swap_step solvent_call H) s" and r: "sw_Swap s i = Some r"
    and st: "sp_status r = Accepted" and late: "sp_expiry r < now E"
    and self: "this_addr E = this_addr H" and tok: "pays_out E"
  shows "\<exists>t. cancel_expired_swap E i (sp_buyer r) s = Inr t"
proof -
  note money = held_money [OF reach r _ self, simplified st, simplified]
  have guards: "require_swap_exists s i = Inr r" "require_swap_status r Accepted NotInAccepted = Inr ()"
    "require_buyer (sp_buyer r) r = Inr ()" "require_swap_expired E r = Inr ()"
    using r st late by simp_all
  let ?q = "r\<lparr>sp_status := Cancelled\<rparr>"
  let ?u = "unlock_ip (sp_ip_id r) (save_swap i ?q s)"
  let ?v = "?u\<lparr>sw_log := sw_log ?u @ [Transfer (sp_token r) (this_addr E) (sp_buyer r) (sp_price r)]\<rparr>"
  have log: "transfers (sw_log ?u) = transfers (sw_log s)" "sw_SwapCollateral ?u = sw_SwapCollateral s"
    by (simp_all add: state_simps)
  have pay: "transfer E (sp_token r) (this_addr E) (sp_buyer r) (sp_price r) ?u = Inr ?v"
    by (rule pays_out_transfer [OF tok money(1)])
      (use money(2,3) log in \<open>cases "sw_SwapCollateral s i"; auto\<close>)
  have "\<exists>w. release_collateral E (sp_buyer r) (Some ''coll_ref'') i ?q ?v = Inr w"
  proof (cases "sw_SwapCollateral s i")
    case (Some x)
    have "x \<le> flow (sp_token r) (this_addr E) (transfers (sw_log ?v))"
      using money(1) money(2) [OF Some] money(3) Some log by auto
    then have "transfer E (sp_token r) (this_addr E) (sp_buyer r) x ?v =
        Inr (?v\<lparr>sw_log := sw_log ?v @ [Transfer (sp_token r) (this_addr E) (sp_buyer r) x]\<rparr>)"
      by (rule pays_out_transfer [OF tok money(2) [OF Some]])
    with Some show ?thesis by (simp add: release_collateral_def log)
  qed (simp add: release_collateral_def log)
  then show ?thesis by (auto simp: cancel_expired_swap_def guards pay Let_def)
qed

lemma auto_resolve_succeeds:
  assumes reach: "reachable swaps_deployed (swap_step solvent_call H) s" and r: "sw_Swap s i = Some r"
    and st: "sp_status r = Disputed" and late: "604800 \<le> now E - sp_dispute_timestamp r"
    and self: "this_addr E = this_addr H" and tok: "pays_out E"
  shows "\<exists>t. auto_resolve_dispute E i s = Inr t"
proof -
  note money = held_money [OF reach r _ self, simplified st, simplified]
  have guards: "require_swap_exists s i = Inr r" "require_swap_status r Disputed NotDisputed = Inr ()"
    using r st by simp_all
  let ?u = "unlock_ip (sp_ip_id r) (save_swap i (r\<lparr>sp_status := Cancelled\<rparr>) s)"
  have log: "transfers (sw_log ?u) = transfers (sw_log s)" by (simp add: state_simps)
  have "transfer E (sp_token r) (this_addr E) (sp_buyer r) (sp_price r) ?u =
      Inr (?u\<lparr>sw_log := sw_log ?u @ [Transfer (sp_token r) (this_addr E) (sp_buyer r) (sp_price r)]\<rparr>)"
    by (rule pays_out_transfer [OF tok money(1)])
      (use money(2,3) log in \<open>cases "sw_SwapCollateral s i"; auto\<close>)
  then show ?thesis using late by (simp add: auto_resolve_dispute_def guards protocol_config_def Let_def)
qed

text \<open>What the calls pay, read off the book.\<close>

lemma touched:
  assumes "book_of t = touch i q c d ps hs u sc (book_of s)"
  shows "sw_Swap t i = Some q" "transfers (sw_log t) = transfers (sw_log s) @ ps" "sw_SwapCollateral t i = c"
proof -
  have "bk_swap (book_of t) i = Some q" "bk_paid (book_of t) = bk_paid (book_of s) @ ps"
    "bk_coll (book_of t) i = c"
    by (simp_all add: assms)
  then show "sw_Swap t i = Some q" "transfers (sw_log t) = transfers (sw_log s) @ ps" "sw_SwapCollateral t i = c"
    by (simp_all add: book_fields)
qed

lemma closed_status [simp]: "sp_status (closed st r) = st"
  by (simp add: closed_def)

lemma cancel_expired_outcome:
  assumes "cancel_expired_swap E i a s = Inr t" and "sw_Swap s i = Some r"
  shows "\<exists>q. sw_Swap t i = Some q \<and> sp_status q = Cancelled \<and> transfers (sw_log t) = transfers (sw_log s) @
    (sp_token r, this_addr E, sp_buyer r, sp_price r) # released E (sp_buyer r) r (sw_SwapCollateral s i)"
  using assms(1)
proof (rule cancel_expired_swap_effect)
  fix r' d
  assume r': "bk_swap (book_of s) i = Some r'"
    and t: "book_of t = touch i (closed Cancelled r') (retained r' (coll_of s i)) (dep_of s i)
      (pay_out E r' (sp_buyer r') (sp_price r') # released E (sp_buyer r') r' (coll_of s i))
      [history_entry E Cancelled] True [(sp_seller r', - 10)] (book_of s)"
  from r' assms(2) have "r' = r" by (simp add: book_fields)
  with touched [OF t] show ?thesis by (simp add: pay_out_def book_fields)
qed

lemma auto_resolve_outcome:
  assumes "auto_resolve_dispute E i s = Inr t" and "sw_Swap s i = Some r"
  shows "\<exists>q. sw_Swap t i = Some q \<and> sp_status q = Cancelled \<and> sw_SwapCollateral t i = sw_SwapCollateral s i \<and>
    transfers (sw_log t) = transfers (sw_log s) @ [(sp_token r, this_addr E, sp_buyer r, sp_price r)]"
  using assms(1)
proof (rule auto_resolve_dispute_effect)
  fix r'
  assume r': "bk_swap (book_of s) i = Some r'"
    and t: "book_of t = touch i (closed Cancelled r') (coll_of s i) (dep_of s i)
      [pay_out E r' (sp_buyer r') (sp_price r')] [] True [] (book_of s)"
  from r' assms(2) have "r' = r" by (simp add: book_fields)
  with touched [OF t] show ?thesis by (simp add: pay_out_def book_fields)
qed

lemma pending_cancel_transfers:
  "cancel_swap E i a s = Inr t \<or> cancel_pending_swap E i a s = Inr t \<Longrightarrow>
    transfers (sw_log t) = transfers (sw_log s)"
  by (elim disjE cancel_swap_effect cancel_pending_swap_effect) (simp_all add: touched(2))

text \<open>C4: the buyer of a swap whose price the contract holds can get it back without anybody's
  help. In every storage reached by calls of \<open>solvent_call\<close>, with a token that pays what the contract's
  balance covers, an accepted swap can be cancelled once it has expired, which returns the price and the
  collateral, and a disputed one resolved a week after the dispute was raised, which returns the price but
  leaves the collateral with the contract. The cancellations of a pending swap transfer nothing: the
  installments already paid stay with the contract.\<close>

theorem buyer_can_get_out:
  assumes "reachable swaps_deployed (swap_step solvent_call H) s" and "get_swap s i = Some r"
    and "same_host H E" and "pays_out E"
  shows "(sp_status r = Accepted \<longrightarrow> sp_expiry r < now E \<longrightarrow>
      (\<exists>t q. cancel_expired_swap E i (sp_buyer r) s = Inr t \<and> get_swap t i = Some q \<and>
         sp_status q = Cancelled \<and> transfers (sw_log t) = transfers (sw_log s) @
           (sp_token r, this_addr E, sp_buyer r, sp_price r) #
           released E (sp_buyer r) r (sw_SwapCollateral s i))) \<and>
    (sp_status r = Disputed \<longrightarrow> 604800 \<le> now E - sp_dispute_timestamp r \<longrightarrow>
      (\<exists>t q. auto_resolve_dispute E i s = Inr t \<and> get_swap t i = Some q \<and> sp_status q = Cancelled \<and>
         transfers (sw_log t) = transfers (sw_log s) @ [(sp_token r, this_addr E, sp_buyer r, sp_price r)] \<and>
         sw_SwapCollateral t i = sw_SwapCollateral s i)) \<and>
    (sp_status r = Pending \<longrightarrow>
      (\<forall>t. cancel_swap E i a s = Inr t \<or> cancel_pending_swap E i a s = Inr t \<longrightarrow>
         transfers (sw_log t) = transfers (sw_log s)))"
proof -
  have r: "sw_Swap s i = Some r" and self: "this_addr E = this_addr H"
    using assms(2,3) by (simp_all add: get_swap_def same_host_def)
  show ?thesis
    unfolding get_swap_def
    using cancel_expired_succeeds [OF assms(1) r _ _ self assms(4)] cancel_expired_outcome [OF _ r, of E "sp_buyer r"]
      auto_resolve_succeeds [OF assms(1) r _ _ self assms(4)] auto_resolve_outcome [OF _ r, of E]
      pending_cancel_transfers
    by (intro conjI impI allI) (blast, blast, metis)
qed

text \<open>The accepted sale, a week later.\<close>

definition late_env :: env where
  "late_env = sale_env\<lparr>now := 700000\<rparr>"

theorem buyer_can_get_out_witness:
  "\<exists>t q. cancel_expired_swap late_env 0 (Address 2) sale2 = Inr t \<and> get_swap t 0 = Some q \<and>
     sp_status q = Cancelled"
proof -
  have "same_host sale_env late_env" "pays_out late_env" "now late_env = 700000"
    by (simp_all add: late_env_def same_host_def pays_out_def)
  moreover have "get_swap sale2 0 = Some (accepted sale_env sale_record)" by (simp add: get_swap_def sale2_swap)
  ultimately show ?thesis
    using buyer_can_get_out [OF sale_solvent(3), of 0 "accepted sale_env sale_record" late_env]
    by (auto simp: accepted_def)
qed

section \<open>The reveal\<close>

text \<open>
  Each payment of the reveal leaves at least what the later ones need. \<open>leaves E tok y s m\<close>: the
  computation \<open>m\<close> succeeds, with \<open>y\<close> of the token still there and the collaterals of \<open>s\<close>.
\<close>

definition leaves :: "env \<Rightarrow> address \<Rightarrow> int \<Rightarrow> swaps \<Rightarrow> swaps sout \<Rightarrow> bool" where
  "leaves E tok y s m \<longleftrightarrow> (\<exists>t. m = Inr t \<and> y \<le> flow tok (this_addr E) (transfers (sw_log t)) \<and>
     sw_SwapCollateral t = sw_SwapCollateral s)"

lemma leaves_transfer: "pays_out E \<Longrightarrow> 0 \<le> x \<Longrightarrow> 0 \<le> y \<Longrightarrow>
    x + y \<le> flow tok (this_addr E) (transfers (sw_log s)) \<Longrightarrow>
    leaves E tok y s (transfer E tok (this_addr E) dst x s)"
  by (subst pays_out_transfer) (auto simp: leaves_def)

lemma leaves_skip: "y \<le> flow tok (this_addr E) (transfers (sw_log s)) \<Longrightarrow> leaves E tok y s (Inr s)"
  by (simp add: leaves_def)

lemma leaves_emit: "leaves E tok y s m \<Longrightarrow> leaves E tok y s (bindE m (\<lambda>t. Inr (emit topic args t)))"
  by (auto simp: leaves_def emit_def)

lemma leaves_fee: "pays_out E \<Longrightarrow> 0 \<le> f \<Longrightarrow> 0 \<le> y \<Longrightarrow>
    f + y \<le> flow tok (this_addr E) (transfers (sw_log s)) \<Longrightarrow>
    leaves E tok y s (if f > 0 then bindE (transfer E tok (this_addr E) dst f s)
      (\<lambda>s. Inr (emit topic args s)) else Inr s)"
  by (auto intro: leaves_emit leaves_transfer leaves_skip)

lemma leaves_referral: "pays_out E \<Longrightarrow> 0 \<le> f \<Longrightarrow> 0 \<le> y \<Longrightarrow>
    f + y \<le> flow (sp_token r) (this_addr E) (transfers (sw_log s)) \<Longrightarrow>
    leaves E (sp_token r) y s (pay_referral E i r f s)"
  by (auto simp: pay_referral_def split: option.split intro: leaves_emit leaves_transfer leaves_skip)

lemma leaves_bind:
  assumes "leaves E tok y s m"
    and "\<And>t. y \<le> flow tok (this_addr E) (transfers (sw_log t)) \<Longrightarrow>
      sw_SwapCollateral t = sw_SwapCollateral s \<Longrightarrow> \<exists>u. f t = Inr u"
  shows "\<exists>u. bindE m f = Inr u"
  using assms by (auto simp: leaves_def)

lemma release_succeeds:
  assumes "pays_out E" and "\<And>x. sw_SwapCollateral s i = Some x \<Longrightarrow> 0 \<le> x"
    and "unwrap_or 0 (sw_SwapCollateral s i) \<le> flow (sp_token r) (this_addr E) (transfers (sw_log s))"
  shows "\<exists>t. release_collateral E dst ev i r s = Inr t"
proof (cases "sw_SwapCollateral s i")
  case (Some x)
  have "transfer E (sp_token r) (this_addr E) dst x s =
      Inr (s\<lparr>sw_log := sw_log s @ [Transfer (sp_token r) (this_addr E) dst x]\<rparr>)"
    by (rule pays_out_transfer [OF assms(1,2)]) (use assms(3) Some in simp_all)
  with Some show ?thesis by (simp add: release_collateral_def Let_def)
qed (simp add: release_collateral_def)

text \<open>The four payments in the order of the code: the fee, the referral, the share of the seller, the collateral.\<close>

lemma reveal_payments_succeed:
  fixes s :: swaps
  assumes tok: "pays_out E" and coll: "\<And>x. sw_SwapCollateral s i = Some x \<Longrightarrow> 0 \<le> x"
    and shares: "0 \<le> fee" "0 \<le> ref" "0 \<le> share"
    and money: "fee + (ref + (share + unwrap_or 0 (sw_SwapCollateral s i))) \<le>
      flow (sp_token r) (this_addr E) (transfers (sw_log s))"
  shows "\<exists>w. bindE (if fee > 0
        then bindE (transfer E (sp_token r) (this_addr E) dst fee s) (\<lambda>s. Inr (emit topic args s))
        else Inr s) (\<lambda>s.
      bindE (pay_referral E i r ref s) (\<lambda>s.
      bindE (transfer E (sp_token r) (this_addr E) seller share s) (\<lambda>s.
      bindE (release_collateral E buyer ev i r s) (\<lambda>s. Inr (f s))))) = Inr w"
proof -
  let ?c = "unwrap_or 0 (sw_SwapCollateral s i)"
  have c: "0 \<le> ?c" using coll by (cases "sw_SwapCollateral s i") auto
  have last: "\<exists>w. bindE (release_collateral E buyer ev i r v) (\<lambda>s. Inr (f s)) = Inr w"
    if "?c \<le> flow (sp_token r) (this_addr E) (transfers (sw_log v))"
      and "sw_SwapCollateral v = sw_SwapCollateral s" for v
    using release_succeeds [OF tok, of v i r buyer ev] that coll by auto
  show ?thesis
  proof (rule leaves_bind)
    show "leaves E (sp_token r) (ref + (share + ?c)) s (if fee > 0
        then bindE (transfer E (sp_token r) (this_addr E) dst fee s) (\<lambda>s. Inr (emit topic args s))
        else Inr s)"
      by (rule leaves_fee [OF tok]) (use shares c money in linarith)+
  next
    fix v :: swaps
    assume v: "ref + (share + ?c) \<le> flow (sp_token r) (this_addr E) (transfers (sw_log v))"
      "sw_SwapCollateral v = sw_SwapCollateral s"
    show "\<exists>w. bindE (pay_referral E i r ref v) (\<lambda>s.
      bindE (transfer E (sp_token r) (this_addr E) seller share s) (\<lambda>s.
      bindE (release_collateral E buyer ev i r s) (\<lambda>s. Inr (f s)))) = Inr w"
    proof (rule leaves_bind)
      show "leaves E (sp_token r) (share + ?c) v (pay_referral E i r ref v)"
        by (rule leaves_referral [OF tok shares(2) _ v(1)]) (use shares c in linarith)
    next
      fix v' :: swaps
      assume v': "share + ?c \<le> flow (sp_token r) (this_addr E) (transfers (sw_log v'))"
        "sw_SwapCollateral v' = sw_SwapCollateral v"
      show "\<exists>w. bindE (transfer E (sp_token r) (this_addr E) seller share v') (\<lambda>s.
        bindE (release_collateral E buyer ev i r s) (\<lambda>s. Inr (f s))) = Inr w"
        by (rule leaves_bind [OF leaves_transfer [OF tok shares(3) c v'(1)]])
          (rule last, simp_all add: v v')
    qed
  qed
qed

lemma reveal_succeeds:
  assumes reach: "reachable swaps_deployed (swap_step solvent_call H) s" and r: "sw_Swap s i = Some r"
    and st: "sp_status r = Accepted" and self: "this_addr E = this_addr H" and tok: "pays_out E"
    and signed: "authorized E (sp_seller r)"
      "length (unwrap_or [] (sw_SwapSigners s i)) \<le> length (unwrap_or [] (sw_SwapSignatures s i))"
    and valid: "verify_swap_commitment E R (sp_ip_id r) x y s = Inr True"
    and conds: "evaluate_conditions E r = Inr ()" and price: "sp_price r * 250 < 2 ^ 127"
  shows "\<exists>t. reveal_key E R i (sp_seller r) x y s = Inr t"
proof -
  note money = held_money [OF reach r _ self, simplified st, simplified]
  let ?q = "r\<lparr>sp_status := Completed\<rparr>"
  let ?share = "sp_price r - fee_of r - referral_fee r"
  have fees: "bps_of (sp_price r) (pc_protocol_fee_bps protocol_config) = Inr (fee_of r)"
    "referral_of ?q = Inr (referral_fee r)"
    using price money(1) by (simp_all add: referral_fee_def)
  have share: "0 \<le> fee_of r" "0 \<le> referral_fee r" "0 \<le> ?share" "?share < 2 ^ 127"
    "sp_price r - fee_of r < 2 ^ 127"
    using fee_of_bounds [of r] money(1) price by linarith+
  have net: "i128 (sp_price r - fee_of r) = Inr (sp_price r - fee_of r)" "i128 ?share = Inr ?share"
    using share by simp_all
  have signers: "(case sw_SwapSigners s i of None \<Rightarrow> Inr ()
      | Some signers \<Rightarrow> if length (unwrap_or [] (sw_SwapSignatures s i)) < length signers
          then Inl (Contract NotAllSigned) else Inr ()) = Inr ()"
    using signed(2) by (auto split: option.split)
  have guards: "require_swap_exists s i = Inr r" "require_seller (sp_seller r) r = Inr ()"
    "require_swap_status r Accepted NotAccepted = Inr ()" "require_auth E (sp_seller r) = Inr ()"
    using r st signed(1) by simp_all
  define u where "u = append_history E i Completed (unlock_ip (sp_ip_id r) (extend_key
    (Sk_CompletionTimestamp i) LEDGER_BUMP ((save_swap i ?q s)\<lparr>sw_CompletionTimestamp :=
      (sw_CompletionTimestamp (save_swap i ?q s))(i \<mapsto> now E)\<rparr>)))"
  have u: "transfers (sw_log u) = transfers (sw_log s)" "sw_SwapCollateral u = sw_SwapCollateral s"
    by (simp_all add: u_def state_simps)
  have tok_q: "sp_token ?q = sp_token r" by simp
  have "\<exists>w. bindE (if fee_of r > 0
        then bindE (transfer E (sp_token r) (this_addr E) (pc_treasury protocol_config) (fee_of r) u)
          (\<lambda>s. Inr (emit ''proto_fee'' (ProtocolFeeEvent i (fee_of r) (pc_treasury protocol_config)) s))
        else Inr u) (\<lambda>s.
      bindE (pay_referral E i ?q (referral_fee r) s) (\<lambda>s.
      bindE (transfer E (sp_token r) (this_addr E) (sp_seller r) ?share s) (\<lambda>s.
      bindE (release_collateral E (sp_buyer r) (Some ''coll_rel'') i ?q s) (\<lambda>s.
      Inr (emit ''key_rev'' (KeyRevealedEvent i ?share (fee_of r))
        (update_user_reputation (sp_buyer r) 5 (update_user_reputation (sp_seller r) 5 s))))))) = Inr w"
    by (rule reveal_payments_succeed [where r = ?q, unfolded tok_q, OF tok _ share(1-3)])
      (use money(2,3) u in simp_all)
  then show ?thesis
    by (simp add: reveal_key_def guards signers valid conds fees net Let_def u_def cong: if_cong
        split del: if_split)
qed

lemma reveal_outcome:
  assumes "reveal_key E R i a x y s = Inr t" and "sw_Swap s i = Some r"
  shows "\<exists>q. sw_Swap t i = Some q \<and> sp_status q = Completed \<and> transfers (sw_log t) = transfers (sw_log s) @
    fee_payment E r @ referral_payment E r @
    [(sp_token r, this_addr E, sp_seller r, sp_price r - fee_of r - referral_fee r)] @
    released E (sp_buyer r) r (sw_SwapCollateral s i)"
  using assms(1)
proof (rule reveal_key_effect)
  fix r'
  assume r': "bk_swap (book_of s) i = Some r'"
    and t: "book_of t = touch i (closed Completed r') (retained r' (coll_of s i)) (dep_of s i)
      (fee_payment E r' @ referral_payment E r' @
       [pay_out E r' (sp_seller r') (sp_price r' - fee_of r' - referral_fee r')] @
       released E (sp_buyer r') r' (coll_of s i)) [history_entry E Completed] True
      [(sp_seller r', 5), (sp_buyer r', 5)] (book_of s)"
  from r' assms(2) have "r' = r" by (simp add: book_fields)
  with touched [OF t] show ?thesis by (simp add: pay_out_def book_fields)
qed

text \<open>C5: the seller of an accepted swap can complete it. In every storage reached by calls of
  \<open>solvent_call\<close>, whatever else has happened there, with a token that pays what the contract's balance
  covers, the reveal of the opening of the record succeeds if the co-signers have signed and the
  conditions of the swap hold. It pays the fee, the referrer, the seller the rest, and the buyer the
  collateral. The price must be such that the code's product with the fee does not overflow.\<close>

theorem seller_can_get_paid:
  assumes "reachable swaps_deployed (swap_step solvent_call H) s" and "get_swap s i = Some r"
    and "sp_status r = Accepted" and "same_host H E" and "pays_out E" and "authorized E (sp_seller r)"
    and "length (unwrap_or [] (sw_SwapSigners s i)) \<le> length (unwrap_or [] (sw_SwapSignatures s i))"
    and "verify_swap_commitment E R (sp_ip_id r) x y s = Inr True"
    and "evaluate_conditions E r = Inr ()" and "sp_price r * 250 < 2 ^ 127"
  shows "\<exists>t q. reveal_key E R i (sp_seller r) x y s = Inr t \<and> get_swap t i = Some q \<and>
    sp_status q = Completed \<and> transfers (sw_log t) = transfers (sw_log s) @
      fee_payment E r @ referral_payment E r @
      [(sp_token r, this_addr E, sp_seller r, sp_price r - fee_of r - referral_fee r)] @
      released E (sp_buyer r) r (sw_SwapCollateral s i)"
proof -
  have r: "sw_Swap s i = Some r" and self: "this_addr E = this_addr H"
    using assms(2,4) by (simp_all add: get_swap_def same_host_def)
  obtain t where "reveal_key E R i (sp_seller r) x y s = Inr t"
    using reveal_succeeds [OF assms(1) r assms(3) self assms(5-10)] by blast
  with reveal_outcome [OF this r] show ?thesis unfolding get_swap_def by blast
qed

theorem seller_can_get_paid_witness:
  "\<exists>t q. reveal_key sale_env demo1 0 (Address 1) [1] [2] sale2 = Inr t \<and> get_swap t 0 = Some q \<and>
     sp_status q = Completed"
proof -
  let ?r = "accepted sale_env sale_record"
  have r: "get_swap sale2 0 = Some ?r" "sp_status ?r = Accepted" "sp_seller ?r = Address 1" "sp_ip_id ?r = 1"
    "sp_price ?r = 10000" "sp_conditions ?r = []"
    by (simp_all add: get_swap_def sale2_swap accepted_def)
  have "pays_out sale_env" "same_host sale_env sale_env" by (simp_all add: pays_out_def same_host_def)
  moreover have "sw_SwapSigners sale2 0 = None" using sale2_on_sale by (simp add: on_sale_def)
  moreover have "verify_swap_commitment sale_env demo1 1 [1] [2] sale2 = Inr True"
    using sale2_on_sale sale_verifies by (simp add: on_sale_def)
  moreover have "evaluate_conditions sale_env ?r = Inr ()" by (simp add: evaluate_conditions_def r)
  ultimately show ?thesis
    using seller_can_get_paid [OF sale_solvent(3) r(1,2), of sale_env demo1 "[1]" "[2]"] r by auto
qed

end
