(* ===== verification/Market.thy ===== *)
theory Market
  imports Swap_Outcomes
begin

text \<open>
  The two contracts together: the swap contract reads the registry it is deployed with, and anyone may
  call either contract at any time. The swap contract asks the registry for a record and for the
  verification of a commitment; it never changes the registry.
\<close>

section \<open>What the swap contract relies on\<close>

text \<open>
  The registry as its client sees it: a lookup that, once it has found a record, finds one of the same
  identity at every later time, however the registry has been called since.
\<close>

locale registry_client = monotone_system init step inv le
  for init :: "'s \<Rightarrow> bool" and step :: "'s \<Rightarrow> 's \<Rightarrow> bool" and inv :: "'s \<Rightarrow> bool" and le :: "'s \<Rightarrow> 's \<Rightarrow> bool" +
  fixes look :: "'s \<Rightarrow> nat \<Rightarrow> 'r option"
    and same :: "'r \<Rightarrow> 'r \<Rightarrow> bool"
  assumes look_le: "le s t \<Longrightarrow> look s i = Some r \<Longrightarrow> \<exists>q. look t i = Some q \<and> same r q"
begin

lemma found_later: "reachable init step s \<Longrightarrow> step\<^sup>*\<^sup>* s t \<Longrightarrow> look s i = Some r \<Longrightarrow>
    \<exists>q. look t i = Some q \<and> same r q"
  by (rule look_le [OF reachable_le])

end

interpretation ip_client: registry_client deployed "registry_step H" "registry_index (this_addr H)" records_le
    rg_IpRecord "\<lambda>r q. ir_timestamp q = ir_timestamp r \<and> ir_parent_ip_id q = ir_parent_ip_id r" for H
  by unfold_locales (auto simp: records_le_def record_le_def)

lemma get_ip_Inr [simp]: "get_ip R ip = Inr r \<longleftrightarrow> rg_IpRecord R ip = Some r"
  by (auto simp: get_ip_def require_ip_exists_def split: option.split)

section \<open>The market\<close>

type_synonym market = "registry \<times> swaps"

inductive market_step :: "env \<Rightarrow> env \<Rightarrow> market \<Rightarrow> market \<Rightarrow> bool" for HR HS where
  registry_move: "registry_step HR R R' \<Longrightarrow> market_step HR HS (R, s) (R', s)"
| swap_move: "same_host HS E \<Longrightarrow> \<not> authorized E (this_addr E) \<Longrightarrow> exec_swap E R c s = Inr t \<Longrightarrow>
    market_step HR HS (R, s) (R, t)"

inductive_cases market_stepE: "market_step HR HS m m'"

definition market_open :: "market \<Rightarrow> bool" where
  "market_open m \<longleftrightarrow> m = (empty_registry, empty_swaps)"

abbreviation market_reachable :: "env \<Rightarrow> env \<Rightarrow> market \<Rightarrow> bool" where
  "market_reachable HR HS \<equiv> reachable market_open (market_step HR HS)"

text \<open>The runs of the market are runs of each contract.\<close>

lemma market_step_parts:
  assumes "market_step HR HS m m'"
  shows "(registry_step HR)\<^sup>*\<^sup>* (fst m) (fst m')" "(swap_step any_call HS)\<^sup>*\<^sup>* (snd m) (snd m')"
proof -
  have "(registry_step HR)\<^sup>*\<^sup>* (fst m) (fst m') \<and> (swap_step any_call HS)\<^sup>*\<^sup>* (snd m) (snd m')"
    using assms
  proof (cases rule: market_step.cases)
    case (swap_move E R c s t)
    then have "swap_step any_call HS s t" by (intro swap_call) auto
    with swap_move show ?thesis by auto
  qed auto
  then show "(registry_step HR)\<^sup>*\<^sup>* (fst m) (fst m')" "(swap_step any_call HS)\<^sup>*\<^sup>* (snd m) (snd m')"
    by simp_all
qed

lemma market_steps_parts:
  assumes "(market_step HR HS)\<^sup>*\<^sup>* m m'"
  shows "(registry_step HR)\<^sup>*\<^sup>* (fst m) (fst m')" "(swap_step any_call HS)\<^sup>*\<^sup>* (snd m) (snd m')"
  using assms by (induction rule: rtranclp_induct) (auto dest: market_step_parts)

lemma market_reachable_parts:
  assumes "market_reachable HR HS m"
  shows "registry_reachable HR (fst m)" "swaps_reachable HS (snd m)"
  using assms
  by (induction rule: reachable.induct)
    (auto simp: market_open_def deployed_def swaps_deployed_def
      intro: reachable_init reachable_steps market_step_parts)

section \<open>Sellers and their records\<close>

text \<open>What is offered in a book: the records and sellers of its swaps and auctions.\<close>

definition offers :: "(nat \<Rightarrow> address \<Rightarrow> bool) \<Rightarrow> book \<Rightarrow> bool" where
  "offers own b \<longleftrightarrow> (\<forall>i r. bk_swap b i = Some r \<longrightarrow> own (sp_ip_id r) (sp_seller r)) \<and>
     (\<forall>k a. bk_auction b k = Some a \<longrightarrow> own (ac_ip_id a) (ac_seller a))"

lemma offers_mono: "offers own b \<Longrightarrow> own \<le> own' \<Longrightarrow> offers own' b"
  unfolding offers_def by blast

lemma book_change_offers: "book_change own sv lk this b b' \<Longrightarrow> offers own b \<Longrightarrow> offers own b'"
proof (induction rule: book_change.induct)
  case (deal b i r q c d ps u hs sc)
  then show ?case by (auto simp: offers_def same_deal_def)
next
  case (bid b k a bidder x)
  then show ?case by (auto simp: offers_def)
next
  case (award b k a buyer r E l)
  then show ?case by (auto simp: offers_def)
qed (auto simp: offers_def)

lemma book_changes_offers: "book_changes own sv lk this b b' \<Longrightarrow> offers own b \<Longrightarrow> offers own b'"
  by (induction rule: rtranclp_induct) (auto intro: book_change_offers)

text \<open>Some earlier state of the market had the record as an unrevoked record of the seller.\<close>

definition once_vouched :: "env \<Rightarrow> env \<Rightarrow> market \<Rightarrow> nat \<Rightarrow> address \<Rightarrow> bool" where
  "once_vouched HR HS m ip seller \<longleftrightarrow> (\<exists>m0. market_reachable HR HS m0 \<and>
     (market_step HR HS)\<^sup>*\<^sup>* m0 m \<and> vouched (fst m0) ip seller)"

lemma once_vouched_step: "market_step HR HS m m' \<Longrightarrow> once_vouched HR HS m \<le> once_vouched HR HS m'"
  unfolding once_vouched_def le_fun_def le_bool_def by (meson rtranclp.rtrancl_into_rtrancl)

interpretation market: invariant_system market_open "market_step HR HS"
    "\<lambda>m. market_reachable HR HS m \<and> book_ok (this_addr HS) (book_of (snd m)) \<and>
      offers (once_vouched HR HS m) (book_of (snd m))" for HR HS
proof unfold_locales
  fix m assume "market_open m"
  then show "market_reachable HR HS m \<and> book_ok (this_addr HS) (book_of (snd m)) \<and>
      offers (once_vouched HR HS m) (book_of (snd m))"
    using deployed_book [of empty_swaps] deployed_ok [of empty_swaps]
    by (auto simp: market_open_def swaps_deployed_def offers_def intro: reachable_init)
next
  fix m m'
  assume inv: "market_reachable HR HS m \<and> book_ok (this_addr HS) (book_of (snd m)) \<and>
      offers (once_vouched HR HS m) (book_of (snd m))" and st: "market_step HR HS m m'"
  have reach: "market_reachable HR HS m'" using inv st by (blast intro: reachable_step)
  have old: "offers (once_vouched HR HS m') (book_of (snd m))"
    using inv once_vouched_step [OF st] by (blast intro: offers_mono)
  have vouched: "vouched (fst m) \<le> once_vouched HR HS m'"
    using inv st unfolding once_vouched_def le_fun_def le_bool_def by blast
  have "book_changes (once_vouched HR HS m') False False (this_addr HS) (book_of (snd m)) (book_of (snd m'))"
    using st
  proof (cases rule: market_step.cases)
    case (swap_move E R c s t)
    then have "this_addr HS = this_addr E" by (simp add: same_host_def)
    with swap_move inv vouched show ?thesis by (auto intro: exec_swap_changes)
  qed simp
  then have "offers (once_vouched HR HS m') (book_of (snd m'))" using old by (rule book_changes_offers)
  moreover have "book_ok (this_addr HS) (book_of (snd m'))"
    by (rule swap_ids.reachable_inv [OF market_reachable_parts(2) [OF reach]])
  ultimately show "market_reachable HR HS m' \<and> book_ok (this_addr HS) (book_of (snd m')) \<and>
      offers (once_vouched HR HS m') (book_of (snd m'))" using reach by blast
qed

text \<open>C9: however calls of the two contracts are mixed, every swap that was ever made goes back
  to a moment at which the registry held its record, unrevoked, as the seller's, and the registry still
  holds that record with the timestamp and the parent it had then.\<close>

theorem market_swaps_vouched:
  assumes "market_reachable HR HS (R, s)" and "get_swap s i = Some r"
  shows "\<exists>R0 s0 p q. market_reachable HR HS (R0, s0) \<and> (market_step HR HS)\<^sup>*\<^sup>* (R0, s0) (R, s) \<and>
    get_ip R0 (sp_ip_id r) = Inr p \<and> ir_owner p = sp_seller r \<and> \<not> ir_revoked p \<and>
    get_ip R (sp_ip_id r) = Inr q \<and> ir_timestamp q = ir_timestamp p \<and>
    ir_parent_ip_id q = ir_parent_ip_id p"
proof -
  have "offers (once_vouched HR HS (R, s)) (book_of s)" using market.reachable_inv [OF assms(1)] by simp
  then have "once_vouched HR HS (R, s) (sp_ip_id r) (sp_seller r)"
    using assms(2) by (simp add: offers_def book_fields get_swap_def)
  then obtain R0 s0 p where m0: "market_reachable HR HS (R0, s0)" "(market_step HR HS)\<^sup>*\<^sup>* (R0, s0) (R, s)"
    and p: "get_ip R0 (sp_ip_id r) = Inr p" "ir_owner p = sp_seller r" "\<not> ir_revoked p"
    by (auto simp: once_vouched_def vouched_def)
  from p(1) have "rg_IpRecord R0 (sp_ip_id r) = Some p" by simp
  then obtain q where "get_ip R (sp_ip_id r) = Inr q" "ir_timestamp q = ir_timestamp p"
    "ir_parent_ip_id q = ir_parent_ip_id p"
    using ip_client.found_later [of HR R0 R] market_reachable_parts(1) [OF m0(1)] market_steps_parts(1) [OF m0(2)]
    by force
  with m0 p show ?thesis by blast
qed

text \<open>The record of a concrete sale: the registry of the market made it before the swap.\<close>

lemma sale_market: "market_reachable demo_env sale_env (demo1, sale0)"
    "market_step demo_env sale_env (demo1, sale0) (demo1, sale1)"
proof -
  have "market_reachable demo_env sale_env (empty_registry, empty_swaps)"
    by (rule reachable_init) (simp add: market_open_def)
  then have "market_reachable demo_env sale_env (demo1, empty_swaps)"
    by (rule reachable_step) (rule registry_move, rule demo_steps)
  then show "market_reachable demo_env sale_env (demo1, sale0)"
    by (rule reachable_step)
      (rule swap_move [of _ sale_env _ "Control (Initialize (Address 7))"], simp_all add: same_host_def sale0_run)
  show "market_step demo_env sale_env (demo1, sale0) (demo1, sale1)"
    by (rule swap_move [of _ sale_env _ "Open (InitiateSwap (Address 5) 1 (Address 1) 10000 (Address 2) 0
        None 0 False)"]) (use sale1_run in \<open>simp_all add: same_host_def\<close>)
qed

theorem market_swaps_vouched_witness: "\<exists>q. get_ip demo1 (sp_ip_id sale_record) = Inr q"
  using market_swaps_vouched [OF reachable_step [OF sale_market], of 0 sale_record]
  by (auto simp: get_swap_def sale1_swap)

section \<open>Selling a record again\<close>

lemma plain_sale:
  assumes rec: "get_ip R ip = Inr rec" "ir_owner rec = seller" "\<not> ir_revoked rec"
    and reveal: "verify_commitment E R ip x y = Inr True"
    and sale: "on_sale (next_swap_id s) s" "sw_ActiveSwap s ip = None"
    and signed: "authorized E seller" "authorized E buyer" "\<not> authorized E (this_addr E)"
    and host: "same_host H E" "generous E" "now E + 604800 < 2 ^ 64" "next_swap_id s + 1 < 2 ^ 64"
    and price: "0 < p" "p * 250 < 2 ^ 127"
  shows "\<exists>v q. (market_step HR H)\<^sup>*\<^sup>* (R, s) (R, v) \<and> sw_Swap v = (sw_Swap s)(next_swap_id s \<mapsto> q) \<and>
    sp_status q = Completed \<and> plain_swap ip seller buyer tok p q \<and>
    next_swap_id v = next_swap_id s + 1 \<and> sw_ActiveSwap v ip = None \<and> (\<forall>j. switches j v = switches j s)"
proof -
  let ?i = "next_swap_id s"
  obtain t r where t: "initiate_swap E R tok ip seller p buyer 0 None 0 False s = Inr (?i, t)"
    "on_sale ?i t" "sw_Swap t ?i = Some r" "sp_status r = Pending" "plain_swap ip seller buyer tok p r"
    "\<And>j. switches j t = switches j s"
    using plain_initiation [OF sale(1) signed(1) price(1) host(3,4) sale(2) rec] by blast
  obtain u where u: "accept_swap E ?i t = Inr u" "on_sale ?i u" "sw_Swap u ?i = Some (accepted E r)"
    "\<And>j. switches j u = switches j t"
    using plain_acceptance [OF t(2) host(2) t(3,5) signed(2) t(4)] by blast
  obtain v where v: "reveal_key E R ?i seller x y u = Inr v" "\<And>j. switches j v = switches j u"
    using plain_reveal [OF u(2) host(2) u(3) _ signed(1) accepted_fields(1) reveal price] t(5)
    unfolding plain_swap_accepted by blast
  have r: "bk_swap (book_of t) ?i = Some r" "bk_swap (book_of u) ?i = Some (accepted E r)" "sp_ip_id r = ip"
    using t(3,5) u(3) by (simp_all add: book_fields plain_swap_def)
  have tb: "bk_swap (book_of t) = (bk_swap (book_of s))(?i \<mapsto> r)" "bk_next (book_of t) = ?i + 1"
    using t(1) r(1) by (auto elim!: initiate_swap_effect simp: enters_def)
  have ub: "bk_swap (book_of u) = (bk_swap (book_of t))(?i \<mapsto> accepted E r)" "bk_next (book_of u) = ?i + 1"
    by (rule accept_swap_effect [OF u(1)], use r(1) tb(2) in simp)+
  have vb: "bk_swap (book_of v) = (bk_swap (book_of u))(?i \<mapsto> closed Completed (accepted E r))"
      "bk_next (book_of v) = ?i + 1" "bk_lock (book_of v) ip = None"
    by (rule reveal_key_effect [OF v(1)], use r(2,3) ub(2) in \<open>simp add: accepted_def\<close>)+
  have steps: "market_step HR H (R, s) (R, t)" "market_step HR H (R, t) (R, u)" "market_step HR H (R, u) (R, v)"
    using t(1) u(1) v(1) host(1) signed(3)
    by (auto intro: swap_move [where c = "Open (InitiateSwap tok ip seller p buyer 0 None 0 False)"]
        swap_move [where c = "Deal (AcceptSwap ?i)"] swap_move [where c = "Deal (RevealKey ?i seller x y)"])
  have "(market_step HR H)\<^sup>*\<^sup>* (R, s) (R, v)"
    using steps by (meson converse_rtranclp_into_rtranclp rtranclp.rtrancl_refl)
  moreover have "\<forall>j. switches j v = switches j s" using t(6) u(4) v(2) by simp
  moreover have "plain_swap ip seller buyer tok p (closed Completed (accepted E r))"
    using t(5) by (simp add: plain_swap_def closed_def accepted_def)
  ultimately show ?thesis
    using vb ub(1) tb(1) by (intro exI [of _ v] exI [of _ "closed Completed (accepted E r)"])
      (simp add: book_fields)
qed

text \<open>Remark: a completed sale leaves the record with its seller. Whoever owns an unrevoked record
  and knows its opening can sell it to one buyer and then, with the same record and the same opening,
  to a second one: both swaps complete and the registry has not changed. \<open>docs/atomic-swap.md\<close> disagrees
  with the code here: it says (lines 127 and 193) that the ownership goes to the buyer on completion.\<close>

theorem record_sold_again:
  assumes "get_ip R ip = Inr rec" and "ir_owner rec = seller" and "\<not> ir_revoked rec"
    and "verify_commitment E R ip x y = Inr True" and "sw_ActiveSwap s ip = None"
    and "on_sale (next_swap_id s) s" and "on_sale (next_swap_id s + 1) s"
    and "authorized E seller" and "authorized E buyer" and "authorized E buyer'"
    and "\<not> authorized E (this_addr E)" and "same_host H E" and "generous E"
    and "now E + 604800 < 2 ^ 64" and "next_swap_id s + 2 < 2 ^ 64"
    and "0 < p" and "p * 250 < 2 ^ 127" and "0 < p'" and "p' * 250 < 2 ^ 127"
  shows "\<exists>w q q'. (market_step HR H)\<^sup>*\<^sup>* (R, s) (R, w) \<and>
    get_swap w (next_swap_id s) = Some q \<and> get_swap w (next_swap_id s + 1) = Some q' \<and>
    sp_status q = Completed \<and> sp_status q' = Completed \<and> sp_ip_id q = ip \<and> sp_ip_id q' = ip \<and>
    sp_buyer q = buyer \<and> sp_buyer q' = buyer' \<and> sp_seller q = seller \<and> sp_seller q' = seller \<and>
    sp_price q = p \<and> sp_price q' = p' \<and> sp_token q = tok \<and> sp_token q' = tok"
proof -
  let ?i = "next_swap_id s"
  have "?i + 1 < 2 ^ 64" using assms(15) by simp
  then obtain v q where v: "(market_step HR H)\<^sup>*\<^sup>* (R, s) (R, v)" "sw_Swap v = (sw_Swap s)(?i \<mapsto> q)"
    "sp_status q = Completed" "plain_swap ip seller buyer tok p q" "next_swap_id v = ?i + 1"
    "sw_ActiveSwap v ip = None" "\<And>j. switches j v = switches j s"
    using plain_sale [OF assms(1-4,6,5,8,9,11-14) _ assms(16,17)] by blast
  have "on_sale (next_swap_id v) v" using assms(7) v(7) unfolding v(5) by (rule on_sale_switches)
  moreover have "next_swap_id v + 1 < 2 ^ 64" using assms(15) v(5) by simp
  ultimately obtain w q' where w: "(market_step HR H)\<^sup>*\<^sup>* (R, v) (R, w)"
    "sw_Swap w = (sw_Swap v)(next_swap_id v \<mapsto> q')" "sp_status q' = Completed"
    "plain_swap ip seller buyer' tok p' q'"
    using plain_sale [OF assms(1-4) _ v(6) assms(8,10,11-14) _ assms(18,19)] by blast
  have "(market_step HR H)\<^sup>*\<^sup>* (R, s) (R, w)" using v(1) w(1) by (rule rtranclp_trans)
  with v w show ?thesis
    by (intro exI [of _ w] exI [of _ q] exI [of _ q']) (simp add: get_swap_def plain_swap_def)
qed

theorem record_sold_again_witness:
  "\<exists>w q q'. (market_step demo_env sale_env)\<^sup>*\<^sup>* (demo1, sale0) (demo1, w) \<and> get_swap w 0 = Some q \<and>
     get_swap w 1 = Some q' \<and> sp_status q = Completed \<and> sp_status q' = Completed \<and>
     sp_ip_id q = 1 \<and> sp_ip_id q' = 1 \<and> sp_buyer q = Address 2 \<and> sp_buyer q' = Address 3 \<and>
     sp_price q = 10000 \<and> sp_price q' = 20000"
proof -
  have "next_swap_id sale0 = 0" "sw_ActiveSwap sale0 1 = None"
    by (simp_all add: sale0_fields empty_swaps_def next_swap_id_def)
  with record_sold_again [OF demo1_record _ _ sale_verifies, of "Address 1" sale0 "Address 2" "Address 3"
      sale_env 10000 20000 demo_env "Address 5"] sale0_on_sale
  show ?thesis by (simp add: fresh_record_def same_host_def) blast
qed

end
