(* ===== verification/Api_Text.thy ===== *)
theory Api_Text
  imports Prelude "HOL-Library.Sublist"
begin

text \<open>
  The text the API server builds keys and paths from: the decimal form of a \<open>u64\<close> and the parser of
  \<open>str::parse\<close>, prefixes, and JSON values. Both number routines are those of the standard library of
  Rust; they are proved to be inverse to each other.
\<close>

section \<open>Decimal numbers\<close>

definition digit_char :: "nat \<Rightarrow> char" where "digit_char d = char_of (48 + d)"
definition digit_val :: "char \<Rightarrow> nat" where "digit_val c = of_char c - 48"
definition is_digit :: "char \<Rightarrow> bool" where "is_digit c \<longleftrightarrow> 48 \<le> (of_char c :: nat) \<and> (of_char c :: nat) \<le> 57"

fun dec :: "nat \<Rightarrow> string" where
  "dec n = (if n < 10 then [] else dec (n div 10)) @ [digit_char (n mod 10)]"

declare dec.simps [simp del]

text \<open>Reading digits stops at a character that is none and at the first value outside \<open>u64\<close>.\<close>

fun digits_value :: "nat \<Rightarrow> string \<Rightarrow> nat option" where
  "digits_value acc [] = Some acc"
| "digits_value acc (c # cs) =
     (if is_digit c \<and> acc * 10 + digit_val c < 2 ^ 64
      then digits_value (acc * 10 + digit_val c) cs else None)"

definition parse_u64 :: "string \<Rightarrow> nat option" where
  "parse_u64 s =
     (case s of
        [] \<Rightarrow> None
      | c # cs \<Rightarrow>
          if c = CHR ''+'' then (if cs = [] then None else digits_value 0 cs)
          else digits_value 0 s)"

lemma digit_char_simps [simp]:
  assumes "d < 10"
  shows "is_digit (digit_char d)" and "digit_val (digit_char d) = d"
  using assms by (simp_all add: is_digit_def digit_val_def digit_char_def of_char_of take_bit_nat_def)

lemma dec_not_Nil [simp]: "dec n \<noteq> []"
  by (subst dec.simps) simp

lemma dec_digits: "c \<in> set (dec n) \<Longrightarrow> is_digit c"
proof (induction n rule: dec.induct)
  case (1 n)
  then show ?case by (subst (asm) dec.simps) (auto split: if_splits)
qed

lemma not_digit [simp]: "\<not> is_digit CHR '':''" "\<not> is_digit CHR ''+''" "\<not> is_digit CHR ''l''"
  by (simp_all add: is_digit_def)

lemma colon_not_in_dec [simp]: "CHR '':'' \<notin> set (dec n)"
  using dec_digits by fastforce

lemma digits_value_append: "digits_value acc (xs @ ys) =
    (case digits_value acc xs of None \<Rightarrow> None | Some v \<Rightarrow> digits_value v ys)"
  by (induction acc xs rule: digits_value.induct) auto

lemma digits_value_dec: "n < 2 ^ 64 \<Longrightarrow> digits_value 0 (dec n) = Some n"
proof (induction n rule: dec.induct)
  case (1 n)
  have "n div 10 < 2 ^ 64" using 1(2) by linarith
  with 1 show ?case by (subst dec.simps) (auto simp: digits_value_append)
qed

lemma parse_u64_dec [simp]: "n < 2 ^ 64 \<Longrightarrow> parse_u64 (dec n) = Some n"
proof -
  assume n: "n < 2 ^ 64"
  obtain c cs where eq: "dec n = c # cs" by (cases "dec n") auto
  then have "c \<noteq> CHR ''+''" using dec_digits [of c n] by auto
  with digits_value_dec [OF n] eq show ?thesis by (simp add: parse_u64_def)
qed

text \<open>Without the bound of \<open>u64\<close> the value still determines the number, so printing is injective.\<close>

definition decimal :: "string \<Rightarrow> nat" where
  "decimal s = foldl (\<lambda>v c. v * 10 + digit_val c) 0 s"

lemma decimal_dec [simp]: "decimal (dec n) = n"
proof (induction n rule: dec.induct)
  case (1 n)
  then show ?case by (subst dec.simps) (auto simp: decimal_def)
qed

lemma dec_inject [simp]: "dec m = dec n \<longleftrightarrow> m = n"
  by (metis decimal_dec)

section \<open>Splitting at separators\<close>

lemma append_sep_inject:
  assumes "c \<notin> set xs" and "c \<notin> set ys"
  shows "us @ c # xs = vs @ c # ys \<longleftrightarrow> us = vs \<and> xs = ys"
proof
  assume eq: "us @ c # xs = vs @ c # ys"
  then have "length xs = length ys"
  proof (induction us arbitrary: vs)
    case Nil
    then show ?case using assms by (cases vs) auto
  next
    case (Cons u us)
    then show ?case using assms by (cases vs) auto
  qed
  with eq show "us = vs \<and> xs = ys" by simp
qed simp

section \<open>JSON values\<close>

datatype json =
    JNull
  | JBool bool
  | JNum int
  | JStr string
  | JArr "json list"
  | JObj "(string \<times> json) list"

definition member :: "string \<Rightarrow> json \<Rightarrow> json option" where
  "member name j = (case j of JObj fs \<Rightarrow> map_of fs name | _ \<Rightarrow> None)"

lemma member_simps [simp]:
  "member n (JObj ((m, v) # fs)) = (if n = m then Some v else member n (JObj fs))" "member n (JObj []) = None"
  by (simp_all add: member_def)

definition error_json :: "string \<Rightarrow> json" where
  "error_json msg = JObj [(''error'', JStr msg)]"

text \<open>The number forms the derived deserialisers accept.\<close>

definition json_u64 :: "json \<Rightarrow> nat option" where
  "json_u64 j = (case j of JNum k \<Rightarrow> if 0 \<le> k \<and> k < 2 ^ 64 then Some (nat k) else None | _ \<Rightarrow> None)"
definition json_bool :: "json \<Rightarrow> bool option" where
  "json_bool j = (case j of JBool b \<Rightarrow> Some b | _ \<Rightarrow> None)"
definition json_string :: "json \<Rightarrow> string option" where
  "json_string j = (case j of JStr s \<Rightarrow> Some s | _ \<Rightarrow> None)"

fun all_some :: "'a option list \<Rightarrow> 'a list option" where
  "all_some [] = Some []"
| "all_some (x # xs) = (case (x, all_some xs) of (Some v, Some vs) \<Rightarrow> Some (v # vs) | _ \<Rightarrow> None)"

definition json_vec :: "(json \<Rightarrow> 'a option) \<Rightarrow> json \<Rightarrow> 'a list option" where
  "json_vec f j = (case j of JArr js \<Rightarrow> all_some (map f js) | _ \<Rightarrow> None)"

lemma json_number [simp]: "n < 2 ^ 64 \<Longrightarrow> json_u64 (JNum (int n)) = Some n"
  by (simp add: json_u64_def)

lemma json_scalars [simp]: "json_bool (JBool b) = Some b" "json_string (JStr s) = Some s"
  by (simp_all add: json_bool_def json_string_def)

lemma json_numbers [simp]:
  "list_all (\<lambda>n. n < 2 ^ 64) ns \<Longrightarrow> json_vec json_u64 (JArr (map (\<lambda>n. JNum (int n)) ns)) = Some ns"
proof -
  have "list_all (\<lambda>n. n < 2 ^ 64) ns \<Longrightarrow> all_some (map (\<lambda>n. json_u64 (JNum (int n))) ns) = Some ns"
    by (induction ns) simp_all
  then show "list_all (\<lambda>n. n < 2 ^ 64) ns \<Longrightarrow> ?thesis" by (simp add: json_vec_def comp_def)
qed

end
