(* ===== verification/Api_Http.thy ===== *)
theory Api_Http
  imports Api_Text
begin

text \<open>
  Requests, responses and the middleware of the API server (\<open>main.rs\<close>, \<open>versioning.rs\<close>,
  \<open>compression.rs\<close>, \<open>tracing_middleware.rs\<close>). A service maps a request and the state of the server to
  a response and a state; a middleware maps the service behind it (\<open>next\<close>) to a service. The record
  \<open>server\<close> holds what the program takes from its surroundings: the clocks, the next random UUIDs, whether additions are
  checked for overflow (a build option), and the hash, JSON, Base64, UUID and hexadecimal functions of
  the libraries it calls.
\<close>

section \<open>Requests and responses\<close>

text \<open>The claims of a token (\<open>auth.rs\<close>).\<close>

record Claims =
  cl_sub :: string
  cl_exp :: int
  cl_iat :: int
  cl_token_type :: string

text \<open>
  Header names are written in lower case, and a header is its value when that is visible text:
  \<open>headers().get(name).and_then(|v| v.to_str().ok())\<close> is \<open>rq_headers req name\<close>. The last three fields
  are the extensions the middleware adds.
\<close>

record ApiVersion =
  av_requested :: string
  av_current :: string

record TraceContext =
  tc_trace_id :: string
  tc_request_id :: string

record request =
  rq_method :: string
  rq_path :: string
  rq_query :: string
  rq_headers :: "string \<Rightarrow> string option"
  rq_body :: bytes
  rq_peer :: string
  rq_version :: "ApiVersion option"
  rq_trace :: "TraceContext option"
  rq_claims :: "Claims option"

record response =
  rs_status :: nat
  rs_headers :: "string \<Rightarrow> string option"
  rs_body :: bytes

record server =
  sv_instant :: nat
  sv_unix :: nat
  sv_uuid :: "nat \<Rightarrow> string"
  sv_checked :: bool
  sv_sha256 :: "bytes \<Rightarrow> bytes"
  sv_write :: "json \<Rightarrow> bytes"
  sv_read :: "bytes \<Rightarrow> json option"
  sv_base64 :: "bytes \<Rightarrow> string"
  sv_unbase64 :: "string \<Rightarrow> bytes option"
  sv_parse_uuid :: "string \<Rightarrow> string option"
  sv_hex :: "bytes \<Rightarrow> string"

type_synonym 'st service = "request \<Rightarrow> 'st \<Rightarrow> response \<times> 'st"

definition status_only :: "nat \<Rightarrow> response" where
  "status_only code = \<lparr>rs_status = code, rs_headers = Map.empty, rs_body = []\<rparr>"

definition json_response :: "server \<Rightarrow> nat \<Rightarrow> json \<Rightarrow> response" where
  "json_response K code j =
     \<lparr>rs_status = code, rs_headers = [''content-type'' \<mapsto> ''application/json''], rs_body = sv_write K j\<rparr>"

definition with_header :: "string \<Rightarrow> string \<Rightarrow> response \<Rightarrow> response" where
  "with_header n v resp = resp\<lparr>rs_headers := (rs_headers resp)(n \<mapsto> v)\<rparr>"

lemma with_header_fields [simp]:
  "rs_status (with_header n v resp) = rs_status resp" "rs_body (with_header n v resp) = rs_body resp"
  "rs_headers (with_header n v resp) = (rs_headers resp)(n \<mapsto> v)"
  by (simp_all add: with_header_def)

lemma response_fields [simp]:
  "rs_status (status_only code) = code" "rs_headers (status_only code) = Map.empty"
  "rs_body (status_only code) = []" "rs_status (json_response K code j) = code"
  "rs_body (json_response K code j) = sv_write K j"
  by (simp_all add: status_only_def json_response_def)

section \<open>Content type\<close>

definition writes :: "request \<Rightarrow> bool" where
  "writes req \<longleftrightarrow> rq_method req \<in> {''POST'', ''PUT'', ''PATCH''}"

definition require_json_content_type :: "'st service \<Rightarrow> 'st service" where
  "require_json_content_type next req st =
     (if writes req
      then let content_type = unwrap_or '''' (rq_headers req ''content-type'') in
        if \<not> prefix ''application/json'' content_type then (status_only 415, st) else next req st
      else next req st)"

section \<open>Versions\<close>

definition CURRENT_VERSION :: string where "CURRENT_VERSION = ''1.0.0''"
definition SUPPORTED_VERSIONS :: "string list" where "SUPPORTED_VERSIONS = [''1.0.0'']"

record VersionInfo =
  vi_version :: string
  vi_status :: string
  vi_supported_versions :: "string list"
  vi_deprecation_date :: "string option"

definition version_negotiation :: "'st service \<Rightarrow> 'st service" where
  "version_negotiation next req st =
     (let requested_version = unwrap_or CURRENT_VERSION (rq_headers req ''accept-version'') in
      if requested_version \<notin> set SUPPORTED_VERSIONS then (status_only 406, st) else
      let req = req\<lparr>rq_version := Some \<lparr>av_requested = requested_version, av_current = CURRENT_VERSION\<rparr>\<rparr>;
          (response, st) = next req st;
          response = with_header ''api-version'' CURRENT_VERSION response
      in if requested_version \<noteq> CURRENT_VERSION
         then (with_header ''sunset'' ''Sun, 31 Dec 2026 23:59:59 GMT''
                 (with_header ''deprecation'' ''true'' response), st)
         else (response, st))"

definition get_version_info :: VersionInfo where
  "get_version_info = \<lparr>vi_version = CURRENT_VERSION, vi_status = ''stable'',
     vi_supported_versions = SUPPORTED_VERSIONS, vi_deprecation_date = None\<rparr>"

section \<open>Compression\<close>

text \<open>The body is left as it is; only the headers change.\<close>

definition compression_middleware :: "'st service \<Rightarrow> 'st service" where
  "compression_middleware next req st =
     (let accept_encoding = unwrap_or '''' (rq_headers req ''accept-encoding'');
          (response, st) = next req st;
          response = with_header ''vary'' ''Accept-Encoding'' response
      in (if sublist ''gzip'' accept_encoding then with_header ''content-encoding'' ''gzip'' response
          else if sublist ''br'' accept_encoding then with_header ''content-encoding'' ''br'' response
          else if sublist ''deflate'' accept_encoding
          then with_header ''content-encoding'' ''deflate'' response
          else response, st))"

definition get_supported_compressions :: "string list" where
  "get_supported_compressions = [''gzip'', ''br'', ''deflate'']"

definition is_compression_supported :: "string \<Rightarrow> bool" where
  "is_compression_supported encoding \<longleftrightarrow> encoding \<in> {''gzip'', ''br'', ''deflate''}"

section \<open>Tracing\<close>

text \<open>
  A request draws at most two UUIDs here: a trace id if it brings none, and a request id. The log
  lines are left out.
\<close>

definition extract_or_generate_trace_id :: "server \<Rightarrow> request \<Rightarrow> string" where
  "extract_or_generate_trace_id K req = unwrap_or (sv_uuid K 0) (rq_headers req ''x-trace-id'')"

definition trace_requests :: "server \<Rightarrow> 'st service \<Rightarrow> 'st service" where
  "trace_requests K next req st =
     (let trace_id = extract_or_generate_trace_id K req;
          request_id = sv_uuid K 1;
          req = req\<lparr>rq_trace := Some \<lparr>tc_trace_id = trace_id, tc_request_id = request_id\<rparr>\<rparr>;
          (response, st) = next req st;
          response = with_header ''x-trace-id'' trace_id response;
          response = with_header ''x-request-id'' request_id response
      in (response, st))"

section \<open>Metrics\<close>

text \<open>
  The recorder of \<open>metrics.rs\<close> is a list of increments, kept beside the state of the server.
  \<open>split(',').next()\<close> is the text before the first comma.
\<close>

datatype metric =
    RequestCounted string string nat
  | DurationRecorded string string nat
  | ErrorCounted string nat

definition is_space :: "char \<Rightarrow> bool" where
  "is_space c \<longleftrightarrow> (of_char c :: nat) \<in> {9, 10, 11, 12, 13, 32}"

definition trim :: "string \<Rightarrow> string" where
  "trim s = rev (dropWhile is_space (rev (dropWhile is_space s)))"

definition extract_client_ip :: "request \<Rightarrow> string" where
  "extract_client_ip req =
     (case rq_headers req ''x-forwarded-for'' of
        None \<Rightarrow> ''unknown''
      | Some s \<Rightarrow> trim (takeWhile (\<lambda>c. c \<noteq> CHR '','') s))"

definition track :: "nat \<Rightarrow> 'st service \<Rightarrow> (metric list \<times> 'st) service" where
  "track latency next req st =
     (let (recorded, st) = st;
          (response, st) = next req st;
          status = rs_status response;
          recorded = recorded @ [RequestCounted (rq_method req) (rq_path req) status,
            DurationRecorded (rq_method req) (rq_path req) latency]
            @ (if status \<ge> 400 then [ErrorCounted (rq_path req) status] else [])
      in (response, recorded, st))"

section \<open>The stack of the test application\<close>

text \<open>The layer added last is the outermost.\<close>

definition app_layers :: "server \<Rightarrow> 'st service \<Rightarrow> 'st service" where
  "app_layers K routes =
     require_json_content_type (compression_middleware (version_negotiation (trace_requests K routes)))"

section \<open>What a layer may do\<close>

text \<open>
  The contract of these middleware functions: a layer may refuse a request with a bare status before it
  reaches the service behind it, leaving the state alone; otherwise it passes the request on once, and
  of the response it only adds headers.
\<close>

locale layer =
  fixes mw :: "'st service \<Rightarrow> 'st service"
    and refuses :: "request \<Rightarrow> nat option"
    and enter :: "request \<Rightarrow> request"
    and leave :: "request \<Rightarrow> response \<Rightarrow> response"
  assumes layer_eq: "mw next req st =
      (case refuses req of
         Some code \<Rightarrow> (leave req (status_only code), st)
       | None \<Rightarrow> (let (resp, st') = next (enter req) st in (leave req resp, st')))"
    and leave_status: "rs_status (leave req resp) = rs_status resp"
    and leave_body: "rs_body (leave req resp) = rs_body resp"
    and leave_headers: "dom (rs_headers resp) \<subseteq> dom (rs_headers (leave req resp))"
begin

lemma refused: "refuses req = Some code \<Longrightarrow> mw next req st = (leave req (status_only code), st)"
  by (simp add: layer_eq)

lemma passed: "refuses req = None \<Longrightarrow> next (enter req) st = (resp, st') \<Longrightarrow>
    mw next req st = (leave req resp, st')"
  by (simp add: layer_eq)

end

text \<open>A layer behind another is a layer: what the outer one refuses never reaches the inner one.\<close>

lemma layer_comp:
  assumes outer: "layer m1 f1 e1 l1" and inner: "layer m2 f2 e2 l2"
  shows "layer (\<lambda>next. m1 (m2 next))
    (\<lambda>req. case f1 req of Some code \<Rightarrow> Some code | None \<Rightarrow> f2 (e1 req))
    (\<lambda>req. e2 (e1 req))
    (\<lambda>req resp. if f1 req = None then l1 req (l2 (e1 req) resp) else l1 req resp)"
proof (rule layer.intro)
  fix req resp
  show "rs_status (if f1 req = None then l1 req (l2 (e1 req) resp) else l1 req resp) = rs_status resp"
    "rs_body (if f1 req = None then l1 req (l2 (e1 req) resp) else l1 req resp) = rs_body resp"
    by (simp_all add: layer.leave_status [OF outer] layer.leave_status [OF inner]
        layer.leave_body [OF outer] layer.leave_body [OF inner])
  show "dom (rs_headers resp)
      \<subseteq> dom (rs_headers (if f1 req = None then l1 req (l2 (e1 req) resp) else l1 req resp))"
    using layer.leave_headers [OF outer] layer.leave_headers [OF inner]
    by (metis (full_types) subset_trans)
next
  fix svc req st
  show "m1 (m2 svc) req st =
    (case (case f1 req of Some code \<Rightarrow> Some code | None \<Rightarrow> f2 (e1 req)) of
       Some code \<Rightarrow> (if f1 req = None then l1 req (l2 (e1 req) (status_only code))
          else l1 req (status_only code), st)
     | None \<Rightarrow> (let (resp, st') = svc (e2 (e1 req)) st
          in (if f1 req = None then l1 req (l2 (e1 req) resp) else l1 req resp, st')))"
    by (simp add: layer.layer_eq [OF outer] layer.layer_eq [OF inner] Let_def
        split: option.split prod.split)
qed

definition content_type_refuses :: "request \<Rightarrow> nat option" where
  "content_type_refuses req =
     (if writes req \<and> \<not> prefix ''application/json'' (unwrap_or '''' (rq_headers req ''content-type''))
      then Some 415 else None)"

interpretation content_type: layer require_json_content_type content_type_refuses "\<lambda>req. req" "\<lambda>_ resp. resp"
  by unfold_locales (simp_all add: require_json_content_type_def content_type_refuses_def)

definition compressed :: "request \<Rightarrow> response \<Rightarrow> response" where
  "compressed req resp = fst (compression_middleware (\<lambda>_ st. (resp, st)) req ())"

interpretation compression: layer compression_middleware "\<lambda>_. None" "\<lambda>req. req" compressed
  by unfold_locales (auto simp: compression_middleware_def compressed_def Let_def split: prod.split)

definition versioned :: "request \<Rightarrow> request" where
  "versioned req = req\<lparr>rq_version := Some \<lparr>av_requested = CURRENT_VERSION, av_current = CURRENT_VERSION\<rparr>\<rparr>"

definition version_refuses :: "request \<Rightarrow> nat option" where
  "version_refuses req =
     (if unwrap_or CURRENT_VERSION (rq_headers req ''accept-version'') = CURRENT_VERSION then None else Some 406)"

interpretation versions: layer version_negotiation version_refuses versioned
    "\<lambda>req resp. if version_refuses req = None then with_header ''api-version'' CURRENT_VERSION resp else resp"
  by unfold_locales
    (auto simp: version_negotiation_def version_refuses_def versioned_def SUPPORTED_VERSIONS_def
      CURRENT_VERSION_def Let_def split: prod.split)

definition traced :: "server \<Rightarrow> request \<Rightarrow> request" where
  "traced K req = req\<lparr>rq_trace := Some \<lparr>tc_trace_id = extract_or_generate_trace_id K req,
     tc_request_id = sv_uuid K 1\<rparr>\<rparr>"

interpretation tracing: layer "trace_requests K" "\<lambda>_. None" "traced K"
    "\<lambda>req resp. with_header ''x-request-id'' (sv_uuid K 1)
       (with_header ''x-trace-id'' (extract_or_generate_trace_id K req) resp)"
  by unfold_locales (auto simp: trace_requests_def traced_def Let_def split: prod.split)

end
