(* ===== verification/Api_Cache.thy ===== *)
theory Api_Cache
  imports Api_Http
begin

text \<open>
  The cache of the API server (\<open>cache.rs\<close>): a map from keys to serialised values with an expiry. An
  \<open>Instant\<close> is a number of nanoseconds; on the platforms the server runs on it holds 63 bits of
  seconds, and adding a duration past that panics, which is the result \<open>None\<close> of a write. Every
  function is one step on the map. \<open>init_cache\<close> is left out, since it calls \<open>set\<close> on a \<open>Lazy\<close>,
  which has no such method; the configuration is the default one.
\<close>

section \<open>Entries and configuration\<close>

record Entry =
  en_value :: bytes
  en_expires_at :: nat

type_synonym cache = "string \<Rightarrow> Entry option"

record CacheConfig =
  cf_default_ttl :: nat
  cf_ip_ttl :: nat
  cf_swap_ttl :: nat
  cf_reputation_ttl :: nat

definition default_cache_config :: CacheConfig where
  "default_cache_config = \<lparr>cf_default_ttl = 30, cf_ip_ttl = 60, cf_swap_ttl = 30, cf_reputation_ttl = 300\<rparr>"

definition secs :: "nat \<Rightarrow> nat" where "secs n = n * 1000000000"

definition instant_add :: "nat \<Rightarrow> nat \<Rightarrow> nat option" where
  "instant_add t s = (if t + secs s < secs (2 ^ 63) then Some (t + secs s) else None)"

section \<open>Operations\<close>

text \<open>A value that does not serialise (\<open>None\<close>) is not stored.\<close>

definition cache_set_with_ttl :: "server \<Rightarrow> string \<Rightarrow> bytes option \<Rightarrow> nat \<Rightarrow> cache \<Rightarrow> cache option" where
  "cache_set_with_ttl K key value ttl_secs c =
     (case value of
        None \<Rightarrow> Some c
      | Some json \<Rightarrow> map_option (\<lambda>expires. c(key \<mapsto> \<lparr>en_value = json, en_expires_at = expires\<rparr>))
          (instant_add (sv_instant K) ttl_secs))"

definition cache_set :: "server \<Rightarrow> string \<Rightarrow> bytes option \<Rightarrow> cache \<Rightarrow> cache option" where
  "cache_set K key value c = cache_set_with_ttl K key value (cf_default_ttl default_cache_config) c"

definition cache_get :: "server \<Rightarrow> (json \<Rightarrow> 'a option) \<Rightarrow> string \<Rightarrow> cache \<Rightarrow> 'a option \<times> cache" where
  "cache_get K from_json key c =
     (case c key of
        None \<Rightarrow> (None, c)
      | Some entry \<Rightarrow>
          if en_expires_at entry < sv_instant K then (None, c(key := None))
          else (Option.bind (sv_read K (en_value entry)) from_json, c))"

definition cache_exists :: "server \<Rightarrow> string \<Rightarrow> cache \<Rightarrow> bool" where
  "cache_exists K key c =
     (case c key of None \<Rightarrow> False | Some entry \<Rightarrow> en_expires_at entry \<ge> sv_instant K)"

definition ttl_remaining :: "server \<Rightarrow> string \<Rightarrow> cache \<Rightarrow> nat option \<times> cache" where
  "ttl_remaining K key c =
     (case c key of
        None \<Rightarrow> (None, c)
      | Some entry \<Rightarrow>
          if en_expires_at entry < sv_instant K then (None, c(key := None))
          else (Some ((en_expires_at entry - sv_instant K) div secs 1), c))"

definition invalidate :: "string \<Rightarrow> cache \<Rightarrow> cache" where
  "invalidate key c = c(key := None)"

definition invalidate_prefix :: "string \<Rightarrow> cache \<Rightarrow> cache" where
  "invalidate_prefix pre c = (\<lambda>k. if prefix pre k then None else c k)"

text \<open>The regular expressions are those of the \<open>regex\<close> crate, a parameter.\<close>

definition invalidate_pattern :: "(string \<Rightarrow> (string \<Rightarrow> bool) option) \<Rightarrow> string \<Rightarrow> cache \<Rightarrow> cache" where
  "invalidate_pattern regex pattern c =
     (if CHR ''*'' \<in> set pattern
      then case regex (concat (map (\<lambda>ch. if ch = CHR ''*'' then ''.*'' else [ch]) pattern)) of
          None \<Rightarrow> c
        | Some is_match \<Rightarrow> (\<lambda>k. if is_match k then None else c k)
      else invalidate_prefix pattern c)"

definition cache_clear :: "cache \<Rightarrow> cache" where "cache_clear c = Map.empty"

definition cache_stats :: "cache \<Rightarrow> nat" where "cache_stats c = card (dom c)"

section \<open>Keys\<close>

definition ip_key :: "nat \<Rightarrow> string" where "ip_key ip_id = ''ip:'' @ dec ip_id"

definition ip_list_key :: "string \<Rightarrow> nat \<Rightarrow> string \<Rightarrow> string" where
  "ip_list_key owner limit cursor = ''ip:list:'' @ owner @ '':'' @ dec limit @ '':'' @ cursor"

definition swap_key :: "nat \<Rightarrow> string" where "swap_key swap_id = ''swap:'' @ dec swap_id"

definition swap_list_seller_key :: "string \<Rightarrow> nat \<Rightarrow> string \<Rightarrow> string" where
  "swap_list_seller_key seller limit cursor = ''swap:seller:'' @ seller @ '':'' @ dec limit @ '':'' @ cursor"

definition swap_list_buyer_key :: "string \<Rightarrow> nat \<Rightarrow> string \<Rightarrow> string" where
  "swap_list_buyer_key buyer limit cursor = ''swap:buyer:'' @ buyer @ '':'' @ dec limit @ '':'' @ cursor"

definition reputation_key :: "string \<Rightarrow> string" where "reputation_key a = ''reputation:'' @ a"

definition dispute_evidence_key :: "nat \<Rightarrow> string" where
  "dispute_evidence_key swap_id = ''evidence:'' @ dec swap_id"

definition cache_control_header :: string where
  "cache_control_header = ''public, max-age=30, stale-while-revalidate=10''"
definition no_cache_header :: string where "no_cache_header = ''no-store''"
definition ip_cache_control_header :: string where
  "ip_cache_control_header = ''public, max-age=60, stale-while-revalidate=30''"
definition reputation_cache_control_header :: string where
  "reputation_cache_control_header = ''public, max-age=300, stale-while-revalidate=60''"

section \<open>Contract events\<close>

definition invalidate_on_contract_event :: "string \<Rightarrow> nat \<Rightarrow> cache \<Rightarrow> cache" where
  "invalidate_on_contract_event event_type related_id c =
     (if event_type = ''ip_committed'' then invalidate (ip_key related_id) c
      else if event_type = ''ip_transferred'' then
        invalidate_prefix ''ip:list:'' (invalidate (ip_key related_id) c)
      else if event_type = ''ip_revoked'' then
        invalidate_prefix ''ip:list:'' (invalidate (ip_key related_id) c)
      else if event_type = ''swap_initiated'' then
        invalidate_prefix ''swap:ip:'' (invalidate_prefix ''swap:buyer:''
          (invalidate_prefix ''swap:seller:'' (invalidate (swap_key related_id) c)))
      else if event_type = ''swap_accepted'' then
        invalidate_prefix ''swap:buyer:''
          (invalidate_prefix ''swap:seller:'' (invalidate (swap_key related_id) c))
      else if event_type = ''swap_completed'' then
        invalidate_prefix ''reputation:'' (invalidate_prefix ''swap:buyer:''
          (invalidate_prefix ''swap:seller:'' (invalidate (swap_key related_id) c)))
      else if event_type = ''swap_cancelled'' then
        invalidate_prefix ''swap:buyer:''
          (invalidate_prefix ''swap:seller:'' (invalidate (swap_key related_id) c))
      else if event_type = ''dispute_raised'' then
        invalidate (dispute_evidence_key related_id) (invalidate (swap_key related_id) c)
      else if event_type = ''dispute_resolved'' then
        invalidate_prefix ''reputation:''
          (invalidate (dispute_evidence_key related_id) (invalidate (swap_key related_id) c))
      else if event_type = ''admin_rollback'' then
        invalidate_prefix ''reputation:'' (invalidate_prefix ''swap:buyer:''
          (invalidate_prefix ''swap:seller:'' (invalidate (swap_key related_id) c)))
      else invalidate_prefix ''ip:'' (invalidate_prefix ''swap:'' c))"

section \<open>Keys never collide\<close>

lemmas key_defs = ip_key_def ip_list_key_def swap_key_def swap_list_seller_key_def
  swap_list_buyer_key_def reputation_key_def dispute_evidence_key_def

lemma digit_first: "dec n \<noteq> CHR ''l'' # cs" "dec n \<noteq> CHR ''s'' # cs" "dec n \<noteq> CHR ''b'' # cs"
    "dec n \<noteq> CHR ''i'' # cs"
  using dec_digits [of "hd (dec n)" n] by (auto simp: is_digit_def)

lemma ip_key_inject [simp]: "ip_key i = ip_key j \<longleftrightarrow> i = j"
  by (simp add: ip_key_def)

lemma swap_key_inject [simp]: "swap_key i = swap_key j \<longleftrightarrow> i = j"
  by (simp add: swap_key_def)

lemma list_key_inject:
  assumes "CHR '':'' \<notin> set cursor" and "CHR '':'' \<notin> set cursor'"
  shows "ip_list_key owner limit cursor = ip_list_key owner' limit' cursor' \<longleftrightarrow>
    owner = owner' \<and> limit = limit' \<and> cursor = cursor'"
proof -
  have split: "ip_list_key x l y = ''ip:list:'' @ ((x @ CHR '':'' # dec l) @ CHR '':'' # y)" for x l y
    by (simp add: ip_list_key_def)
  show ?thesis
    by (auto simp: split append_sep_inject assms simp del: append_assoc)
qed

lemma key_prefixes [simp]:
  "\<not> prefix ''ip:list:'' (ip_key i)" "prefix ''ip:list:'' (ip_list_key owner limit cursor)"
  "\<not> prefix ''ip:list:'' (swap_key k)" "\<not> prefix ''swap:seller:'' (swap_key k)"
  "\<not> prefix ''swap:buyer:'' (swap_key k)" "\<not> prefix ''swap:ip:'' (swap_key k)"
  "\<not> prefix ''reputation:'' (swap_key k)" "prefix ''swap:'' (swap_key k)" "prefix ''ip:'' (ip_key i)"
  "prefix ''ip:'' (ip_list_key owner limit cursor)"
  by (auto simp: key_defs prefix_def digit_first dest: sym)

lemma keys_apart [simp]:
  "ip_key i \<noteq> swap_key k" "ip_key i \<noteq> ip_list_key owner limit cursor"
  "swap_key k \<noteq> ip_list_key owner limit cursor" "ip_key i \<noteq> dispute_evidence_key k"
  "swap_key i \<noteq> dispute_evidence_key k"
  by (auto simp: key_defs digit_first)

end
