(* ===== verification/Api_Timeline.thy ===== *)
theory Api_Timeline
  imports Api_Cache
begin

text \<open>
  What a reader of the cache sees over time. The requests of the server touch the cache one after the
  other; each is a \<open>cache_op\<close> executed at the instant of its request. The specification forgets that
  expired entries are removed by the reads that meet them: it is the last write to the key that no
  later call invalidated, with its expiry.
\<close>

datatype cache_op =
    SetWithTtl string "bytes option" nat
  | Fetch string
  | TtlRemaining string
  | Invalidate string
  | InvalidatePrefix string
  | ClearAll
  | ContractEvent string nat

text \<open>A write that panics stores nothing, and the server goes on.\<close>

fun exec_cache :: "server \<Rightarrow> cache_op \<Rightarrow> cache \<Rightarrow> cache" where
  "exec_cache K (SetWithTtl key v ttl) c = unwrap_or c (cache_set_with_ttl K key v ttl c)"
| "exec_cache K (Fetch key) c = snd (cache_get K Some key c)"
| "exec_cache K (TtlRemaining key) c = snd (ttl_remaining K key c)"
| "exec_cache K (Invalidate key) c = invalidate key c"
| "exec_cache K (InvalidatePrefix pre) c = invalidate_prefix pre c"
| "exec_cache K ClearAll c = cache_clear c"
| "exec_cache K (ContractEvent ev i) c = invalidate_on_contract_event ev i c"

definition run_cache :: "(server \<times> cache_op) list \<Rightarrow> cache" where
  "run_cache h = foldl (\<lambda>c (K, op). exec_cache K op c) Map.empty h"

text \<open>The keys an event invalidates: those it removes from the cache that holds every key.\<close>

definition dropped :: "string \<Rightarrow> nat \<Rightarrow> string \<Rightarrow> bool" where
  "dropped ev i k \<longleftrightarrow>
     invalidate_on_contract_event ev i (\<lambda>_. Some \<lparr>en_value = [], en_expires_at = 0\<rparr>) k = None"

lemma event_drops: "invalidate_on_contract_event ev i c k = (if dropped ev i k then None else c k)"
  by (simp add: dropped_def invalidate_on_contract_event_def invalidate_def invalidate_prefix_def)

fun last_write :: "(server \<times> cache_op) list \<Rightarrow> string \<Rightarrow> (bytes \<times> nat) option" where
  "last_write [] k = None"
| "last_write ((K, op) # earlier) k =
     (case op of
        SetWithTtl key (Some v) ttl \<Rightarrow>
          (if key = k \<and> instant_add (sv_instant K) ttl \<noteq> None
           then Some (v, sv_instant K + secs ttl) else last_write earlier k)
      | Invalidate key \<Rightarrow> (if key = k then None else last_write earlier k)
      | InvalidatePrefix pre \<Rightarrow> (if prefix pre k then None else last_write earlier k)
      | ClearAll \<Rightarrow> None
      | ContractEvent ev i \<Rightarrow> (if dropped ev i k then None else last_write earlier k)
      | _ \<Rightarrow> last_write earlier k)"

text \<open>What is visible at an instant, in the cache and in the specification.\<close>

definition live :: "nat \<Rightarrow> cache \<Rightarrow> string \<Rightarrow> bytes option" where
  "live t c k = (case c k of
     None \<Rightarrow> None | Some e \<Rightarrow> if t \<le> en_expires_at e then Some (en_value e) else None)"

definition live_write :: "nat \<Rightarrow> (server \<times> cache_op) list \<Rightarrow> string \<Rightarrow> bytes option" where
  "live_write t h k = (case last_write (rev h) k of
     None \<Rightarrow> None | Some (v, expires) \<Rightarrow> if t \<le> expires then Some v else None)"

lemma cache_get_live: "fst (cache_get K f k c) = Option.bind (live (sv_instant K) c k) (\<lambda>v.
    Option.bind (sv_read K v) f)"
  by (auto simp: cache_get_def live_def split: option.split)

lemma live_exec_step:
  assumes "sv_instant K \<le> t"
  shows "live t (exec_cache K op c) k = (case op of
        SetWithTtl key (Some v) ttl \<Rightarrow>
          (if key = k \<and> instant_add (sv_instant K) ttl \<noteq> None
           then if t \<le> sv_instant K + secs ttl then Some v else None else live t c k)
      | Invalidate key \<Rightarrow> (if key = k then None else live t c k)
      | InvalidatePrefix pre \<Rightarrow> (if prefix pre k then None else live t c k)
      | ClearAll \<Rightarrow> None
      | ContractEvent ev i \<Rightarrow> (if dropped ev i k then None else live t c k)
      | _ \<Rightarrow> live t c k)"
  using assms
  by (cases op)
    (auto simp: live_def cache_set_with_ttl_def instant_add_def cache_get_def ttl_remaining_def
      invalidate_def invalidate_prefix_def cache_clear_def event_drops split: option.splits)

text \<open>The history of a server: the instants of the requests do not decrease.\<close>

definition in_order :: "(server \<times> cache_op) list \<Rightarrow> bool" where
  "in_order h \<longleftrightarrow> sorted (map (sv_instant \<circ> fst) h)"

lemma live_run:
  "in_order h \<Longrightarrow> list_all (\<lambda>x. sv_instant (fst x) \<le> t) h \<Longrightarrow> live t (run_cache h) k = live_write t h k"
proof (induction h rule: rev_induct)
  case Nil
  then show ?case by (simp add: run_cache_def live_def live_write_def)
next
  case (snoc x h)
  obtain K op where x: "x = (K, op)" by (cases x)
  have "live t (run_cache h) k = live_write t h k"
    using snoc by (auto simp: in_order_def sorted_append)
  moreover have "run_cache (h @ [x]) = exec_cache K op (run_cache h)" by (simp add: run_cache_def x)
  moreover have "sv_instant K \<le> t" using snoc.prems(2) x by simp
  ultimately show ?case
    by (simp add: live_exec_step live_write_def x split: cache_op.split option.split)
qed

end
