(* ===== verification/Api_Handlers.thy ===== *)
theory Api_Handlers
  imports Api_Cache "HOL-Library.AList"
begin

text \<open>
  The endpoints of the API server (\<open>handlers.rs\<close>), the messages they exchange (\<open>schemas.rs\<close>) and the
  webhooks they notify (\<open>webhook.rs\<close>). Most endpoints are stubs: where the calls of the contracts are
  still to be written the code answers with a constant, and so does the model. A handler that panics
  gives no response (\<open>None\<close>) and leaves the state it has made so far. Bodies whose fields the handler
  does not read are left out.
\<close>

section \<open>Messages\<close>

record ApiIpRecord =
  ai_ip_id :: nat
  ai_owner :: string
  ai_commitment_hash :: string
  ai_timestamp :: nat
  ai_revoked :: bool

definition ip_record_json :: "ApiIpRecord \<Rightarrow> json" where
  "ip_record_json r = JObj [(''ip_id'', JNum (int (ai_ip_id r))), (''owner'', JStr (ai_owner r)),
     (''commitment_hash'', JStr (ai_commitment_hash r)), (''timestamp'', JNum (int (ai_timestamp r))),
     (''revoked'', JBool (ai_revoked r))]"

definition ip_record_of_json :: "json \<Rightarrow> ApiIpRecord option" where
  "ip_record_of_json j =
     Option.bind (Option.bind (member ''ip_id'' j) json_u64) (\<lambda>i.
     Option.bind (Option.bind (member ''owner'' j) json_string) (\<lambda>owner.
     Option.bind (Option.bind (member ''commitment_hash'' j) json_string) (\<lambda>h.
     Option.bind (Option.bind (member ''timestamp'' j) json_u64) (\<lambda>t.
     Option.bind (Option.bind (member ''revoked'' j) json_bool) (\<lambda>r.
     Some \<lparr>ai_ip_id = i, ai_owner = owner, ai_commitment_hash = h, ai_timestamp = t, ai_revoked = r\<rparr>)))))"

datatype ApiSwapStatus = ApiPending | ApiAccepted | ApiCompleted | ApiCancelled

definition swap_status_text :: "ApiSwapStatus \<Rightarrow> string" where
  "swap_status_text st = (case st of ApiPending \<Rightarrow> ''Pending'' | ApiAccepted \<Rightarrow> ''Accepted''
     | ApiCompleted \<Rightarrow> ''Completed'' | ApiCancelled \<Rightarrow> ''Cancelled'')"

definition swap_status_of_json :: "json \<Rightarrow> ApiSwapStatus option" where
  "swap_status_of_json j =
     (if j = JStr ''Pending'' then Some ApiPending else if j = JStr ''Accepted'' then Some ApiAccepted
      else if j = JStr ''Completed'' then Some ApiCompleted
      else if j = JStr ''Cancelled'' then Some ApiCancelled else None)"

record ApiSwapRecord =
  as_ip_id :: nat
  as_ip_registry_id :: string
  as_seller :: string
  as_buyer :: string
  as_price :: int
  as_token :: string
  as_status :: ApiSwapStatus
  as_expiry :: nat

definition json_i128 :: "json \<Rightarrow> int option" where
  "json_i128 j = (case j of JNum k \<Rightarrow> if - (2 ^ 127) \<le> k \<and> k < 2 ^ 127 then Some k else None | _ \<Rightarrow> None)"

definition swap_record_json :: "ApiSwapRecord \<Rightarrow> json" where
  "swap_record_json r = JObj [(''ip_id'', JNum (int (as_ip_id r))),
     (''ip_registry_id'', JStr (as_ip_registry_id r)), (''seller'', JStr (as_seller r)),
     (''buyer'', JStr (as_buyer r)), (''price'', JNum (as_price r)), (''token'', JStr (as_token r)),
     (''status'', JStr (swap_status_text (as_status r))), (''expiry'', JNum (int (as_expiry r)))]"

definition swap_record_of_json :: "json \<Rightarrow> ApiSwapRecord option" where
  "swap_record_of_json j =
     Option.bind (Option.bind (member ''ip_id'' j) json_u64) (\<lambda>i.
     Option.bind (Option.bind (member ''ip_registry_id'' j) json_string) (\<lambda>reg.
     Option.bind (Option.bind (member ''seller'' j) json_string) (\<lambda>seller.
     Option.bind (Option.bind (member ''buyer'' j) json_string) (\<lambda>buyer.
     Option.bind (Option.bind (member ''price'' j) json_i128) (\<lambda>price.
     Option.bind (Option.bind (member ''token'' j) json_string) (\<lambda>tok.
     Option.bind (Option.bind (member ''status'' j) swap_status_of_json) (\<lambda>st.
     Option.bind (Option.bind (member ''expiry'' j) json_u64) (\<lambda>expiry.
     Some \<lparr>as_ip_id = i, as_ip_registry_id = reg, as_seller = seller, as_buyer = buyer, as_price = price,
       as_token = tok, as_status = st, as_expiry = expiry\<rparr>))))))))"

record ListIpByOwnerResponse =
  lr_ip_ids :: "nat list"
  lr_total_count :: nat
  lr_has_more :: bool

definition numbers_json :: "nat list \<Rightarrow> json" where "numbers_json ns = JArr (map (\<lambda>n. JNum (int n)) ns)"

definition list_response_json :: "ListIpByOwnerResponse \<Rightarrow> json" where
  "list_response_json r = JObj [(''ip_ids'', numbers_json (lr_ip_ids r)),
     (''total_count'', JNum (int (lr_total_count r))), (''has_more'', JBool (lr_has_more r))]"

definition list_response_of_json :: "json \<Rightarrow> ListIpByOwnerResponse option" where
  "list_response_of_json j =
     Option.bind (Option.bind (member ''ip_ids'' j) (json_vec json_u64)) (\<lambda>ids.
     Option.bind (Option.bind (member ''total_count'' j) json_u64) (\<lambda>total.
     Option.bind (Option.bind (member ''has_more'' j) json_bool) (\<lambda>more.
     Some \<lparr>lr_ip_ids = ids, lr_total_count = total, lr_has_more = more\<rparr>)))"

text \<open>\<open>PaginatedResponse\<close> of \<open>u64\<close>; a member of an \<open>Option\<close> type may be absent or null.\<close>

record PaginatedResponse =
  pr_items :: "nat list"
  pr_next_cursor :: "string option"
  pr_has_more :: bool
  pr_total_count :: "nat option"

definition json_opt :: "('a \<Rightarrow> json) \<Rightarrow> 'a option \<Rightarrow> json" where
  "json_opt f x = (case x of None \<Rightarrow> JNull | Some v \<Rightarrow> f v)"

definition opt_of_json :: "(json \<Rightarrow> 'a option) \<Rightarrow> json option \<Rightarrow> 'a option option" where
  "opt_of_json f m = (case m of None \<Rightarrow> Some None | Some JNull \<Rightarrow> Some None | Some j \<Rightarrow> map_option Some (f j))"

definition paginated_json :: "PaginatedResponse \<Rightarrow> json" where
  "paginated_json r = JObj [(''items'', numbers_json (pr_items r)),
     (''next_cursor'', json_opt JStr (pr_next_cursor r)), (''has_more'', JBool (pr_has_more r)),
     (''total_count'', json_opt (\<lambda>n. JNum (int n)) (pr_total_count r))]"

definition paginated_of_json :: "json \<Rightarrow> PaginatedResponse option" where
  "paginated_of_json j =
     Option.bind (Option.bind (member ''items'' j) (json_vec json_u64)) (\<lambda>items.
     Option.bind (opt_of_json json_string (member ''next_cursor'' j)) (\<lambda>next.
     Option.bind (Option.bind (member ''has_more'' j) json_bool) (\<lambda>more.
     Option.bind (opt_of_json json_u64 (member ''total_count'' j)) (\<lambda>total.
     Some \<lparr>pr_items = items, pr_next_cursor = next, pr_has_more = more, pr_total_count = total\<rparr>))))"

section \<open>Cursors\<close>

record CursorData =
  cu_last_id :: nat
  cu_offset :: nat

definition cursor_json :: "CursorData \<Rightarrow> json" where
  "cursor_json d = JObj [(''last_id'', JNum (int (cu_last_id d))), (''offset'', JNum (int (cu_offset d)))]"

definition cursor_encode :: "server \<Rightarrow> CursorData \<Rightarrow> string" where
  "cursor_encode K data = sv_base64 K (sv_write K (cursor_json data))"

definition cursor_decode :: "server \<Rightarrow> string \<Rightarrow> CursorData option" where
  "cursor_decode K cursor =
     Option.bind (sv_unbase64 K cursor) (\<lambda>decoded.
     Option.bind (sv_read K decoded) (\<lambda>json.
     Option.bind (Option.bind (member ''last_id'' json) json_u64) (\<lambda>i.
     Option.bind (Option.bind (member ''offset'' json) json_u64) (\<lambda>off.
     Some \<lparr>cu_last_id = i, cu_offset = off\<rparr>))))"

definition cursor_new :: "server \<Rightarrow> nat \<Rightarrow> nat \<Rightarrow> string" where
  "cursor_new K last_id offset = cursor_encode K \<lparr>cu_last_id = last_id, cu_offset = offset\<rparr>"

text \<open>An addition on \<open>u64\<close>: past the end it panics in a checked build and wraps otherwise.\<close>

definition add_u64 :: "server \<Rightarrow> nat \<Rightarrow> nat \<Rightarrow> nat option" where
  "add_u64 K a b =
     (if a + b < 2 ^ 64 then Some (a + b) else if sv_checked K then None else Some ((a + b) mod 2 ^ 64))"

definition next_cursor :: "server \<Rightarrow> nat \<Rightarrow> nat \<Rightarrow> nat \<Rightarrow> string option" where
  "next_cursor K last_id current_offset items_per_page =
     map_option (cursor_new K last_id) (add_u64 K current_offset items_per_page)"

section \<open>State\<close>

record WebhookConfig =
  wh_id :: string
  wh_url :: string
  wh_events :: "string list"
  wh_created_at :: nat

record WebhookPayload =
  pl_event :: string
  pl_swap_id :: nat
  pl_old_status :: "string option"
  pl_new_status :: string
  pl_timestamp :: nat

text \<open>\<open>ap_spawned\<close> holds the deliveries handed to the runtime, in the order they are spawned.\<close>

record api =
  ap_cache :: cache
  ap_idempotency :: "string \<Rightarrow> (json \<times> nat) option"
  ap_webhooks :: "(string \<times> WebhookConfig) list"
  ap_spawned :: "(WebhookConfig \<times> WebhookPayload) list"

definition initial_api :: api where
  "initial_api = \<lparr>ap_cache = Map.empty, ap_idempotency = Map.empty, ap_webhooks = [], ap_spawned = []\<rparr>"

type_synonym handled = "response option \<times> api"

section \<open>Webhooks\<close>

definition webhook_register :: "server \<Rightarrow> string \<Rightarrow> string list \<Rightarrow> api \<Rightarrow> WebhookConfig \<times> api" where
  "webhook_register K url events st =
     (let config = \<lparr>wh_id = sv_uuid K 2, wh_url = url, wh_events = events, wh_created_at = sv_unix K\<rparr>
      in (config, st\<lparr>ap_webhooks := AList.update (wh_id config) config (ap_webhooks st)\<rparr>))"

definition webhook_unregister :: "string \<Rightarrow> api \<Rightarrow> bool \<times> api" where
  "webhook_unregister i st =
     (if map_of (ap_webhooks st) i \<noteq> None
      then (True, st\<lparr>ap_webhooks := AList.delete i (ap_webhooks st)\<rparr>) else (False, st))"

definition webhook_list_all :: "api \<Rightarrow> WebhookConfig list" where
  "webhook_list_all st = map snd (ap_webhooks st)"

definition subscribed :: "WebhookConfig \<Rightarrow> bool" where
  "subscribed config \<longleftrightarrow> ''swap.status_changed'' \<in> set (wh_events config) \<or> ''*'' \<in> set (wh_events config)"

definition trigger_swap_status_changed ::
    "server \<Rightarrow> nat \<Rightarrow> string option \<Rightarrow> string \<Rightarrow> api \<Rightarrow> api" where
  "trigger_swap_status_changed K swap_id old_status new_status st =
     (let payload = \<lparr>pl_event = ''swap.status_changed'', pl_swap_id = swap_id, pl_old_status = old_status,
            pl_new_status = new_status, pl_timestamp = sv_unix K\<rparr>
      in st\<lparr>ap_spawned := ap_spawned st
           @ map (\<lambda>config. (config, payload)) (filter subscribed (webhook_list_all st))\<rparr>)"

text \<open>
  A delivery: the attempts with the status the receiver answered (\<open>None\<close> for a failed request), and the
  pauses in seconds between them.
\<close>

datatype delivery_step =
    Attempt nat "nat option"
  | Pause nat
  | Exhausted

definition max_retries :: nat where "max_retries = 3"

definition is_success :: "nat option \<Rightarrow> bool" where
  "is_success answer = (case answer of None \<Rightarrow> False | Some status \<Rightarrow> 200 \<le> status \<and> status < 300)"

fun delivery_loop ::
    "(string \<Rightarrow> WebhookPayload \<Rightarrow> nat \<Rightarrow> nat option) \<Rightarrow> WebhookConfig \<Rightarrow> WebhookPayload \<Rightarrow> nat list \<Rightarrow> nat \<Rightarrow>
     delivery_step list" where
  "delivery_loop deliver config payload [] delay = [Exhausted]"
| "delivery_loop deliver config payload (attempt # attempts) delay =
     (let answer = deliver (wh_url config) payload attempt in
      Attempt attempt answer #
      (if is_success answer then []
       else if attempt < max_retries
       then Pause delay # delivery_loop deliver config payload attempts (delay * 2)
       else delivery_loop deliver config payload attempts delay))"

definition deliver_with_retry ::
    "(string \<Rightarrow> WebhookPayload \<Rightarrow> nat \<Rightarrow> nat option) \<Rightarrow> WebhookConfig \<Rightarrow> WebhookPayload \<Rightarrow> delivery_step list" where
  "deliver_with_retry deliver config payload =
     delivery_loop deliver config payload [1..<max_retries + 1] 1"

section \<open>Registry endpoints\<close>

definition cached_response :: "server \<Rightarrow> json \<Rightarrow> response" where
  "cached_response K j = with_header ''cache-control'' cache_control_header (json_response K 200 j)"

definition missing_response :: "server \<Rightarrow> string \<Rightarrow> response" where
  "missing_response K msg = with_header ''cache-control'' no_cache_header (json_response K 404 (error_json msg))"

definition error_response :: "server \<Rightarrow> nat \<Rightarrow> string \<Rightarrow> response" where
  "error_response K code msg = json_response K code (error_json msg)"

definition not_found :: "string \<Rightarrow> nat \<Rightarrow> string" where
  "not_found what i = what @ '' '' @ dec i @ '' not found''"

definition commit_ip_handler :: "server \<Rightarrow> api \<Rightarrow> handled" where
  "commit_ip_handler K st = (Some (error_response K 400 ''commit_ip not yet implemented''), st)"

definition get_ip_handler :: "server \<Rightarrow> nat \<Rightarrow> api \<Rightarrow> handled" where
  "get_ip_handler K ip_id st =
     (let cache_key = ip_key ip_id;
          (cached, c) = cache_get K ip_record_of_json cache_key (ap_cache st);
          st = st\<lparr>ap_cache := c\<rparr>
      in case cached of
           Some record \<Rightarrow> (Some (cached_response K (ip_record_json record)), st)
         | None \<Rightarrow> (Some (missing_response K (not_found ''IP record'' ip_id)), st))"

definition transfer_ip_handler :: "server \<Rightarrow> nat \<Rightarrow> api \<Rightarrow> handled" where
  "transfer_ip_handler K ip_id st =
     (let st = st\<lparr>ap_cache := invalidate (ip_key ip_id) (ap_cache st)\<rparr>
      in (Some (error_response K 404 (not_found ''IP record'' ip_id)), st))"

definition verify_commitment_handler :: "server \<Rightarrow> nat \<Rightarrow> api \<Rightarrow> handled" where
  "verify_commitment_handler K ip_id st = (Some (error_response K 404 (not_found ''IP record'' ip_id)), st)"

text \<open>The arithmetic of a page of the list \<open>all_ids\<close>, which the stubs set to the empty list.\<close>

definition list_page :: "server \<Rightarrow> nat \<Rightarrow> nat \<Rightarrow> ListIpByOwnerResponse option" where
  "list_page K limit offset =
     (let all_ids = [];
          total_count = length all_ids;
          page = take limit (drop offset all_ids)
      in map_option (\<lambda>end_of_page. \<lparr>lr_ip_ids = page, lr_total_count = total_count,
             lr_has_more = end_of_page < total_count\<rparr>) (add_u64 K offset limit))"

definition cursor_page :: "server \<Rightarrow> nat \<Rightarrow> nat \<Rightarrow> PaginatedResponse option" where
  "cursor_page K limit offset =
     (let all_ids = [];
          total_count = length all_ids;
          page = take limit (drop offset all_ids)
      in Option.bind (add_u64 K offset limit) (\<lambda>end_of_page.
         let next = (if length page = limit \<and> end_of_page < total_count
               then Some (cursor_new K (if page = [] then 0 else last page) end_of_page) else None)
         in Some \<lparr>pr_items = page, pr_next_cursor = next, pr_has_more = end_of_page < total_count,
               pr_total_count = Some total_count\<rparr>))"

definition cursor_offset :: "server \<Rightarrow> string option \<Rightarrow> nat" where
  "cursor_offset K cursor =
     (case cursor of
        None \<Rightarrow> 0
      | Some c \<Rightarrow> (case cursor_decode K c of None \<Rightarrow> 0 | Some data \<Rightarrow> cu_offset data))"

text \<open>
  Both list endpoints look into the cache, and otherwise compute a page and store it. They differ in
  the page and in its JSON form, but not in the key.
\<close>

definition cached_page ::
    "server \<Rightarrow> ('a \<Rightarrow> json) \<Rightarrow> (json \<Rightarrow> 'a option) \<Rightarrow> string \<Rightarrow> 'a option \<Rightarrow> api \<Rightarrow> handled" where
  "cached_page K to_json of_json cache_key page st =
     (let (cached, c) = cache_get K of_json cache_key (ap_cache st);
          st = st\<lparr>ap_cache := c\<rparr>
      in case cached of
           Some resp \<Rightarrow> (Some (cached_response K (to_json resp)), st)
         | None \<Rightarrow>
             (case page of
                None \<Rightarrow> (None, st)
              | Some resp \<Rightarrow>
                  (case cache_set K cache_key (Some (sv_write K (to_json resp))) (ap_cache st) of
                     None \<Rightarrow> (None, st)
                   | Some c \<Rightarrow> (Some (cached_response K (to_json resp)), st\<lparr>ap_cache := c\<rparr>))))"

definition list_ip_by_owner_handler :: "server \<Rightarrow> string \<Rightarrow> nat \<Rightarrow> nat \<Rightarrow> api \<Rightarrow> handled" where
  "list_ip_by_owner_handler K owner page_limit offset st =
     (let limit = min page_limit 200
      in cached_page K list_response_json list_response_of_json (ip_list_key owner limit (dec offset))
           (list_page K limit offset) st)"

definition list_ip_by_owner_cursor_handler ::
    "server \<Rightarrow> string \<Rightarrow> nat \<Rightarrow> string option \<Rightarrow> api \<Rightarrow> handled" where
  "list_ip_by_owner_cursor_handler K owner page_limit cursor st =
     (let limit = min page_limit 200;
          offset = cursor_offset K cursor
      in cached_page K paginated_json paginated_of_json (ip_list_key owner limit (dec offset))
           (cursor_page K limit offset) st)"

end
