(* ===== verification/Api_Endpoints.thy ===== *)
theory Api_Endpoints
  imports Api_Handlers
begin

text \<open>
  The swap, webhook and bulk endpoints of \<open>handlers.rs\<close>, the batch endpoint of \<open>batch.rs\<close>, the health
  endpoint of \<open>health.rs\<close>, and all of them as one step of the server.
\<close>

section \<open>Opening swaps\<close>

definition initiate_swap_handler :: "server \<Rightarrow> api \<Rightarrow> handled" where
  "initiate_swap_handler K st = (Some (error_response K 400 ''initiate_swap not yet implemented''), st)"

record BatchInitiateSwapRequest =
  bi_ip_registry_id :: string
  bi_ip_ids :: "nat list"
  bi_seller :: string
  bi_prices :: "int list"
  bi_buyer :: string
  bi_token :: string
  bi_referrer :: "string option"
  bi_idempotency_key :: "string option"

text \<open>The loop that inserts the ids into a set and stops at the first one already there.\<close>

fun first_duplicate :: "nat set \<Rightarrow> nat list \<Rightarrow> nat option" where
  "first_duplicate seen [] = None"
| "first_duplicate seen (i # is) = (if i \<in> seen then Some i else first_duplicate (insert i seen) is)"

definition swap_ids_json :: "nat list \<Rightarrow> json" where
  "swap_ids_json swap_ids = JObj [(''swap_ids'', numbers_json swap_ids)]"

definition swap_ids_of_json :: "json \<Rightarrow> nat list option" where
  "swap_ids_of_json j = Option.bind (member ''swap_ids'' j) (json_vec json_u64)"

definition batch_initiate_swap_handler :: "server \<Rightarrow> BatchInitiateSwapRequest \<Rightarrow> api \<Rightarrow> handled" where
  "batch_initiate_swap_handler K body st =
     (if length (bi_ip_ids body) \<noteq> length (bi_prices body)
      then (Some (error_response K 400 ''ip_ids and prices must have the same length''), st) else
      if bi_ip_ids body = [] then (Some (error_response K 400 ''ip_ids must not be empty''), st) else
      case first_duplicate {} (bi_ip_ids body) of
        Some i \<Rightarrow> (Some (error_response K 400 (''duplicate ip_id '' @ dec i @ '' in batch request'')), st)
      | None \<Rightarrow>
          let unimplemented = error_response K 400 ''batch_initiate_swap not yet implemented'' in
          (case Option.bind (bi_idempotency_key body) (\<lambda>key.
               map_option (Pair key) (ap_idempotency st key)) of
             None \<Rightarrow> (Some unimplemented, st)
           | Some (key, cached, ts) \<Rightarrow>
               if sv_instant K - ts < secs 3600
               then (case swap_ids_of_json cached of
                   Some swap_ids \<Rightarrow> (Some (json_response K 200 (swap_ids_json swap_ids)), st)
                 | None \<Rightarrow> (Some unimplemented, st))
               else (Some unimplemented, st\<lparr>ap_idempotency := (ap_idempotency st)(key := None)\<rparr>)))"

section \<open>Steps of a swap\<close>

text \<open>Each of these drops the cached swap, notifies the webhooks, and answers that there is no such swap.\<close>

definition swap_step_handler :: "server \<Rightarrow> string \<Rightarrow> string \<Rightarrow> nat \<Rightarrow> api \<Rightarrow> handled" where
  "swap_step_handler K old_status new_status swap_id st =
     (let st = st\<lparr>ap_cache := invalidate (swap_key swap_id) (ap_cache st)\<rparr>;
          st = trigger_swap_status_changed K swap_id (Some old_status) new_status st
      in (Some (error_response K 404 (not_found ''Swap'' swap_id)), st))"

definition accept_swap_handler :: "server \<Rightarrow> nat \<Rightarrow> api \<Rightarrow> handled" where
  "accept_swap_handler K = swap_step_handler K ''Pending'' ''Accepted''"
definition reveal_key_handler :: "server \<Rightarrow> nat \<Rightarrow> api \<Rightarrow> handled" where
  "reveal_key_handler K = swap_step_handler K ''Accepted'' ''Completed''"
definition cancel_swap_handler :: "server \<Rightarrow> nat \<Rightarrow> api \<Rightarrow> handled" where
  "cancel_swap_handler K = swap_step_handler K ''Pending'' ''Cancelled''"
definition cancel_expired_swap_handler :: "server \<Rightarrow> nat \<Rightarrow> api \<Rightarrow> handled" where
  "cancel_expired_swap_handler K = swap_step_handler K ''Accepted'' ''Cancelled''"

definition get_swap_handler :: "server \<Rightarrow> nat \<Rightarrow> api \<Rightarrow> handled" where
  "get_swap_handler K swap_id st =
     (let cache_key = swap_key swap_id;
          (cached, c) = cache_get K swap_record_of_json cache_key (ap_cache st);
          st = st\<lparr>ap_cache := c\<rparr>
      in case cached of
           Some record \<Rightarrow> (Some (cached_response K (swap_record_json record)), st)
         | None \<Rightarrow> (Some (missing_response K (not_found ''Swap'' swap_id)), st))"

section \<open>Webhooks\<close>

definition webhook_json :: "WebhookConfig \<Rightarrow> json" where
  "webhook_json w = JObj [(''id'', JStr (wh_id w)), (''url'', JStr (wh_url w)),
     (''events'', JArr (map JStr (wh_events w))), (''created_at'', JNum (int (wh_created_at w)))]"

definition register_webhook_handler :: "server \<Rightarrow> string \<Rightarrow> string list \<Rightarrow> api \<Rightarrow> handled" where
  "register_webhook_handler K url events st =
     (if url = [] \<or> events = [] then (Some (error_response K 400 ''URL and events are required''), st) else
      let (config, st) = webhook_register K url events st
      in (Some (json_response K 200 (webhook_json config)), st))"

definition unregister_webhook_handler :: "server \<Rightarrow> string \<Rightarrow> api \<Rightarrow> handled" where
  "unregister_webhook_handler K i st =
     (case sv_parse_uuid K i of
        None \<Rightarrow> (Some (error_response K 400 ''Invalid webhook ID format''), st)
      | Some uuid \<Rightarrow>
          let (found, st) = webhook_unregister uuid st
          in if found then (Some (status_only 200), st)
             else (Some (error_response K 404 (''Webhook '' @ i @ '' not found'')), st))"

section \<open>Bulk operations\<close>

record BulkOperationResult =
  br_index :: nat
  br_success :: bool
  br_data :: "nat option"
  br_error :: "string option"

definition bulk_result_json :: "BulkOperationResult \<Rightarrow> json" where
  "bulk_result_json r = JObj [(''index'', JNum (int (br_index r))), (''success'', JBool (br_success r)),
     (''data'', json_opt (\<lambda>n. JNum (int n)) (br_data r)), (''error'', json_opt JStr (br_error r))]"

definition bulk_results :: "string \<Rightarrow> 'a list \<Rightarrow> BulkOperationResult list" where
  "bulk_results msg items =
     map (\<lambda>(index, item). \<lparr>br_index = index, br_success = False, br_data = None, br_error = Some msg\<rparr>)
       (enumerate 0 items)"

definition bulk_response :: "server \<Rightarrow> BulkOperationResult list \<Rightarrow> response" where
  "bulk_response K results =
     json_response K 200 (JObj [(''results'', JArr (map bulk_result_json results))])"

definition bulk_commit_ip_handler :: "server \<Rightarrow> string list \<Rightarrow> api \<Rightarrow> handled" where
  "bulk_commit_ip_handler K hashes st =
     (if hashes = [] then (Some (error_response K 400 ''commitment_hashes must not be empty''), st)
      else (Some (bulk_response K (bulk_results ''bulk_commit_ip not yet implemented'' hashes)), st))"

definition bulk_initiate_swap_handler :: "server \<Rightarrow> nat list \<Rightarrow> int list \<Rightarrow> api \<Rightarrow> handled" where
  "bulk_initiate_swap_handler K ip_ids prices st =
     (if length ip_ids \<noteq> length prices
      then (Some (error_response K 400 ''ip_ids and prices must have the same length''), st) else
      if ip_ids = [] then (Some (error_response K 400 ''ip_ids must not be empty''), st)
      else (Some (bulk_response K (bulk_results ''bulk_initiate_swap not yet implemented'' ip_ids)), st))"

section \<open>Batches of requests\<close>

record SingleRequest =
  sr_id :: string
  sr_method :: string
  sr_path :: string
  sr_body :: "json option"

record SingleResponse =
  ss_id :: string
  ss_status :: nat
  ss_body :: json

text \<open>The arms of the match, in order; the prefix is known to be there when it is stripped.\<close>

definition process_single_request :: "SingleRequest \<Rightarrow> SingleResponse" where
  "process_single_request request =
     (let (status, body) =
        (if sr_method request = ''GET'' \<and> prefix ''/ip/'' (sr_path request) then
           (case parse_u64 (drop 4 (sr_path request)) of
              Some ip_id \<Rightarrow>
                (200, JObj [(''ip_id'', JNum (int ip_id)), (''status'', JStr ''not_implemented'')])
            | None \<Rightarrow> (400, error_json ''Invalid IP ID''))
         else if sr_method request = ''POST'' \<and> sr_path request = ''/ip/commit'' then
           (200, JObj [(''ip_id'', JNum 12345)])
         else if sr_method request = ''POST'' \<and> sr_path request = ''/swap/initiate'' then
           (200, JObj [(''swap_id'', JNum 67890)])
         else (404, error_json ''Endpoint not found''))
      in \<lparr>ss_id = sr_id request, ss_status = status, ss_body = body\<rparr>)"

definition batch_handler :: "SingleRequest list \<Rightarrow> (nat \<times> string) + SingleResponse list" where
  "batch_handler requests =
     (if requests = [] \<or> length requests > 100
      then Inl (400, ''Batch size must be between 1 and 100 requests'')
      else Inr (map process_single_request requests))"

section \<open>Health\<close>

record ComponentStatus =
  co_status :: string
  co_latency_ms :: nat
  co_last_checked :: nat

record HealthChecker =
  hc_contract :: ComponentStatus
  hc_database :: ComponentStatus
  hc_cache :: ComponentStatus

definition health_checker_new :: "server \<Rightarrow> HealthChecker" where
  "health_checker_new K =
     (let unknown = \<lparr>co_status = ''unknown'', co_latency_ms = 0, co_last_checked = sv_unix K\<rparr>
      in \<lparr>hc_contract = unknown, hc_database = unknown, hc_cache = unknown\<rparr>)"

text \<open>The three checks are alike; \<open>latency\<close> is the time between the two readings of the clock.\<close>

definition checked_component :: "server \<Rightarrow> nat \<Rightarrow> ComponentStatus" where
  "checked_component K latency = \<lparr>co_status = ''healthy'', co_latency_ms = latency, co_last_checked = sv_unix K\<rparr>"

definition check_contract_connectivity :: "server \<Rightarrow> nat \<Rightarrow> HealthChecker \<Rightarrow> HealthChecker" where
  "check_contract_connectivity K latency h = h\<lparr>hc_contract := checked_component K latency\<rparr>"
definition check_database :: "server \<Rightarrow> nat \<Rightarrow> HealthChecker \<Rightarrow> HealthChecker" where
  "check_database K latency h = h\<lparr>hc_database := checked_component K latency\<rparr>"
definition check_cache :: "server \<Rightarrow> nat \<Rightarrow> HealthChecker \<Rightarrow> HealthChecker" where
  "check_cache K latency h = h\<lparr>hc_cache := checked_component K latency\<rparr>"

definition overall_health :: "HealthChecker \<Rightarrow> string" where
  "overall_health h =
     (if co_status (hc_contract h) = ''healthy'' \<and> co_status (hc_database h) = ''healthy''
         \<and> co_status (hc_cache h) = ''healthy'' then ''healthy'' else ''degraded'')"

definition health_handler :: "server \<Rightarrow> nat \<times> nat \<times> nat \<Rightarrow> HealthChecker \<Rightarrow> nat \<times> HealthChecker" where
  "health_handler K latencies h =
     (let (l1, l2, l3) = latencies;
          h = check_cache K l3 (check_database K l2 (check_contract_connectivity K l1 h))
      in (if overall_health h = ''healthy'' then 200 else 503, h))"

section \<open>The server as one step\<close>

datatype api_call =
    PostIpCommit
  | GetIp nat
  | PostIpTransfer nat
  | PostIpVerify nat
  | GetIpOwner string nat nat
  | GetIpOwnerCursor string nat "string option"
  | PostSwapInitiate
  | PostSwapBatchInitiate BatchInitiateSwapRequest
  | PostSwapAccept nat
  | PostSwapReveal nat
  | PostSwapCancel nat
  | PostSwapCancelExpired nat
  | GetSwap nat
  | PostWebhook string "string list"
  | DeleteWebhook string
  | PostBulkCommit "string list"
  | PostBulkInitiate "nat list" "int list"

fun exec_api :: "server \<Rightarrow> api_call \<Rightarrow> api \<Rightarrow> handled" where
  "exec_api K PostIpCommit st = commit_ip_handler K st"
| "exec_api K (GetIp i) st = get_ip_handler K i st"
| "exec_api K (PostIpTransfer i) st = transfer_ip_handler K i st"
| "exec_api K (PostIpVerify i) st = verify_commitment_handler K i st"
| "exec_api K (GetIpOwner owner limit offset) st = list_ip_by_owner_handler K owner limit offset st"
| "exec_api K (GetIpOwnerCursor owner limit cursor) st =
     list_ip_by_owner_cursor_handler K owner limit cursor st"
| "exec_api K PostSwapInitiate st = initiate_swap_handler K st"
| "exec_api K (PostSwapBatchInitiate body) st = batch_initiate_swap_handler K body st"
| "exec_api K (PostSwapAccept i) st = accept_swap_handler K i st"
| "exec_api K (PostSwapReveal i) st = reveal_key_handler K i st"
| "exec_api K (PostSwapCancel i) st = cancel_swap_handler K i st"
| "exec_api K (PostSwapCancelExpired i) st = cancel_expired_swap_handler K i st"
| "exec_api K (GetSwap i) st = get_swap_handler K i st"
| "exec_api K (PostWebhook url events) st = register_webhook_handler K url events st"
| "exec_api K (DeleteWebhook i) st = unregister_webhook_handler K i st"
| "exec_api K (PostBulkCommit hashes) st = bulk_commit_ip_handler K hashes st"
| "exec_api K (PostBulkInitiate ip_ids prices) st = bulk_initiate_swap_handler K ip_ids prices st"

inductive api_step :: "api \<Rightarrow> api \<Rightarrow> bool" where
  api_call: "exec_api K c st = (resp, st') \<Longrightarrow> api_step st st'"

inductive_cases api_stepE: "api_step st st'"

definition api_initial :: "api \<Rightarrow> bool" where "api_initial st \<longleftrightarrow> st = initial_api"

abbreviation api_reachable :: "api \<Rightarrow> bool" where
  "api_reachable \<equiv> reachable api_initial api_step"

section \<open>What the state can hold\<close>

text \<open>
  The only values the endpoints ever put into the cache are pages of owner lists, under list keys; the
  store of idempotent results is never filled, and every delivery goes to a subscriber.
\<close>

definition api_ok :: "api \<Rightarrow> bool" where
  "api_ok st \<longleftrightarrow> ap_idempotency st = Map.empty \<and> distinct (map fst (ap_webhooks st)) \<and>
     (\<forall>k e. ap_cache st k = Some e \<longrightarrow> prefix ''ip:list:'' k) \<and>
     (\<forall>w p. (w, p) \<in> set (ap_spawned st) \<longrightarrow> subscribed w)"

lemma api_ok_initial: "api_ok initial_api"
  by (simp add: api_ok_def initial_api_def)

lemma cache_get_smaller: "cache_get K f key c = (r, c') \<Longrightarrow> c' k = Some e \<Longrightarrow> c k = Some e"
  by (auto simp: cache_get_def split: option.splits if_splits)

lemma cache_set_keys: "cache_set K key v c = Some c' \<Longrightarrow> c' k = Some e \<Longrightarrow> k = key \<or> c k = Some e"
  by (auto simp: cache_set_def cache_set_with_ttl_def split: option.splits if_splits)

lemma invalidate_smaller: "invalidate key c k = Some e \<Longrightarrow> c k = Some e"
  by (auto simp: invalidate_def split: if_splits)

lemma get_record_ok:
  "api_ok st \<Longrightarrow> cache_get K f key (ap_cache st) = (r, c) \<Longrightarrow> api_ok (st\<lparr>ap_cache := c\<rparr>)"
  by (auto simp: api_ok_def dest: cache_get_smaller)

lemma cached_page_ok:
  assumes "api_ok st" and "prefix ''ip:list:'' key"
  shows "api_ok (snd (cached_page K f g key page st))"
proof -
  obtain r c where get: "cache_get K g key (ap_cache st) = (r, c)" by fastforce
  have ok: "api_ok (st\<lparr>ap_cache := c\<rparr>)" by (rule get_record_ok [OF assms(1) get])
  moreover have "api_ok (st\<lparr>ap_cache := c'\<rparr>)" if "cache_set K key v c = Some c'" for v c'
    using ok assms(2) cache_set_keys [OF that] by (auto simp: api_ok_def)
  ultimately show ?thesis
    by (auto simp: cached_page_def get Let_def split: option.split)
qed

lemma invalidate_ok: "api_ok st \<Longrightarrow> api_ok (st\<lparr>ap_cache := invalidate key (ap_cache st)\<rparr>)"
  by (auto simp: api_ok_def dest: invalidate_smaller)

lemma trigger_ok: "api_ok st \<Longrightarrow> api_ok (trigger_swap_status_changed K i old new st)"
  by (auto simp: api_ok_def trigger_swap_status_changed_def Let_def)

lemma exec_api_ok:
  assumes "api_ok st"
  shows "api_ok (snd (exec_api K c st))"
proof (cases c)
  case (PostSwapBatchInitiate body)
  have "ap_idempotency st key = None" for key using assms by (simp add: api_ok_def)
  with PostSwapBatchInitiate assms show ?thesis
    by (simp add: batch_initiate_swap_handler_def Let_def bind_eq_None_conv split: option.split)
next
  case (PostWebhook url events)
  with assms show ?thesis
    by (auto simp: register_webhook_handler_def webhook_register_def api_ok_def Let_def distinct_update)
next
  case (DeleteWebhook i)
  with assms show ?thesis
    by (auto simp: unregister_webhook_handler_def webhook_unregister_def api_ok_def Let_def distinct_delete
        split: option.split)
qed (use assms in \<open>auto simp: commit_ip_handler_def get_ip_handler_def transfer_ip_handler_def
      verify_commitment_handler_def list_ip_by_owner_handler_def list_ip_by_owner_cursor_handler_def
      initiate_swap_handler_def accept_swap_handler_def reveal_key_handler_def cancel_swap_handler_def
      cancel_expired_swap_handler_def swap_step_handler_def get_swap_handler_def bulk_commit_ip_handler_def
      bulk_initiate_swap_handler_def Let_def
      intro: cached_page_ok get_record_ok invalidate_ok trigger_ok
      split: prod.split option.split\<close>)

lemma api_step_ok: "api_ok st \<Longrightarrow> api_step st st' \<Longrightarrow> api_ok st'"
  by (erule api_stepE) (metis exec_api_ok snd_conv)

interpretation api_states: invariant_system api_initial api_step api_ok
  by unfold_locales (auto simp: api_initial_def api_ok_initial intro: api_step_ok)

end
