(* ===== verification/Api_Gate.thy ===== *)
theory Api_Gate
  imports Api_Handlers
begin

text \<open>
  The middleware that decides whether a request is let through: bearer tokens (\<open>auth.rs\<close>), request
  signatures (\<open>request_signing.rs\<close>), rate limits (\<open>rate_limit.rs\<close>) and idempotency keys
  (\<open>deduplication.rs\<close>). The token, key and signature formats belong to libraries and are fields of
  the record \<open>auth_lib\<close>, the token bucket is the record \<open>limiter_lib\<close>.
\<close>

section \<open>Tokens\<close>

datatype AuthError =
    MissingToken
  | InvalidToken
  | InvalidPublicKey
  | InvalidSignature
  | TokenCreation

definition auth_error_response :: "server \<Rightarrow> AuthError \<Rightarrow> response" where
  "auth_error_response K e =
     (case e of
        MissingToken \<Rightarrow> error_response K 401 ''Missing authorization token''
      | InvalidToken \<Rightarrow> error_response K 401 ''Invalid or expired token''
      | InvalidPublicKey \<Rightarrow> error_response K 400 ''Invalid public key''
      | InvalidSignature \<Rightarrow> error_response K 400 ''Invalid signature format''
      | TokenCreation \<Rightarrow> error_response K 500 ''Token creation failed'')"

text \<open>
  \<open>al_secret\<close> is the random secret of the process; \<open>al_decode\<close> takes it, the current time and a token,
  and gives the claims of a token signed with the secret that is not out of date. \<open>al_strkey\<close> reads an
  Ed25519 account key, \<open>al_key\<close> and \<open>al_sig\<close> check the form of a key and a signature, and \<open>al_verify\<close>
  is the check of a signature.
\<close>

record auth_lib =
  al_secret :: bytes
  al_encode :: "bytes \<Rightarrow> Claims \<Rightarrow> string option"
  al_decode :: "bytes \<Rightarrow> int \<Rightarrow> string \<Rightarrow> Claims option"
  al_strkey :: "string \<Rightarrow> bytes option"
  al_key :: "bytes \<Rightarrow> bool"
  al_unhex :: "string \<Rightarrow> bytes option"
  al_sig :: "bytes \<Rightarrow> bool"
  al_verify :: "bytes \<Rightarrow> bytes \<Rightarrow> bytes \<Rightarrow> bool"

definition access_claims :: "server \<Rightarrow> string \<Rightarrow> Claims" where
  "access_claims K subject = \<lparr>cl_sub = subject, cl_exp = int (sv_unix K) + 15 * 60, cl_iat = int (sv_unix K),
     cl_token_type = ''access''\<rparr>"

definition refresh_claims :: "server \<Rightarrow> string \<Rightarrow> Claims" where
  "refresh_claims K subject = \<lparr>cl_sub = subject, cl_exp = int (sv_unix K) + 7 * 24 * 60 * 60,
     cl_iat = int (sv_unix K), cl_token_type = ''refresh''\<rparr>"

definition issue_tokens :: "auth_lib \<Rightarrow> server \<Rightarrow> string \<Rightarrow> (string \<times> string) option" where
  "issue_tokens L K public_key =
     Option.bind (al_encode L (al_secret L) (access_claims K public_key)) (\<lambda>access.
     Option.bind (al_encode L (al_secret L) (refresh_claims K public_key)) (\<lambda>refresh.
     Some (access, refresh)))"

definition decode_claims :: "auth_lib \<Rightarrow> server \<Rightarrow> string \<Rightarrow> AuthError + Claims" where
  "decode_claims L K tok = ok_or InvalidToken (al_decode L (al_secret L) (int (sv_unix K)) tok)"

definition refresh_access_token :: "auth_lib \<Rightarrow> server \<Rightarrow> string \<Rightarrow> AuthError + string" where
  "refresh_access_token L K refresh_token =
     bindE (decode_claims L K refresh_token) (\<lambda>claims.
     if cl_token_type claims \<noteq> ''refresh'' then Inl InvalidToken else
     ok_or TokenCreation (al_encode L (al_secret L) (access_claims K (cl_sub claims))))"

definition text_bytes :: "string \<Rightarrow> bytes" where
  "text_bytes s = map (\<lambda>c. word_of_nat (of_char c)) s"

definition verify_stellar_signature ::
    "auth_lib \<Rightarrow> server \<Rightarrow> string \<Rightarrow> string \<Rightarrow> string \<Rightarrow> AuthError + bool" where
  "verify_stellar_signature L K public_key message signature_hex =
     bindE (ok_or InvalidPublicKey (al_strkey L public_key)) (\<lambda>pk_raw.
     if \<not> al_key L pk_raw then Inl InvalidPublicKey else
     bindE (ok_or InvalidSignature (al_unhex L signature_hex)) (\<lambda>signature.
     if \<not> al_sig L signature then Inl InvalidSignature else
     Inr (al_verify L pk_raw (sv_sha256 K (text_bytes message)) signature)))"

definition strip_prefix :: "string \<Rightarrow> string \<Rightarrow> string option" where
  "strip_prefix pre s = (if prefix pre s then Some (drop (length pre) s) else None)"

definition bearer_claims :: "auth_lib \<Rightarrow> server \<Rightarrow> request \<Rightarrow> AuthError + Claims" where
  "bearer_claims L K req =
     bindE (ok_or MissingToken (rq_headers req ''authorization'')) (\<lambda>auth_header.
     bindE (ok_or InvalidToken (strip_prefix ''Bearer '' auth_header)) (\<lambda>tok.
     bindE (decode_claims L K tok) (\<lambda>claims.
     if cl_token_type claims \<noteq> ''access'' then Inl InvalidToken else Inr claims)))"

definition require_bearer :: "auth_lib \<Rightarrow> server \<Rightarrow> 'st service \<Rightarrow> 'st service" where
  "require_bearer L K next req st =
     (case bearer_claims L K req of
        Inl e \<Rightarrow> (auth_error_response K e, st)
      | Inr claims \<Rightarrow> next (req\<lparr>rq_claims := Some claims\<rparr>) st)"

section \<open>Request signatures\<close>

definition generate_signature ::
    "server \<Rightarrow> string \<Rightarrow> string \<Rightarrow> nat \<Rightarrow> string \<Rightarrow> string \<Rightarrow> string" where
  "generate_signature K meth path timestamp body_hash secret_key =
     (let payload = meth @ ''||'' @ path @ ''||'' @ dec timestamp @ ''||'' @ body_hash
      in sv_hex K (sv_sha256 K (text_bytes payload)))"

definition hash_body :: "server \<Rightarrow> bytes \<Rightarrow> string" where
  "hash_body K body = sv_hex K (sv_sha256 K body)"

definition verify_signature ::
    "server \<Rightarrow> string \<Rightarrow> string \<Rightarrow> nat \<Rightarrow> string \<Rightarrow> string \<Rightarrow> string \<Rightarrow> bool" where
  "verify_signature K meth path timestamp body_hash signature public_key \<longleftrightarrow>
     generate_signature K meth path timestamp body_hash public_key = signature"

text \<open>\<open>saturating_sub\<close> is the subtraction of natural numbers.\<close>

definition signature_ok :: "server \<Rightarrow> request \<Rightarrow> bool" where
  "signature_ok K req =
     (case rq_headers req ''x-signature'' of
        None \<Rightarrow> False
      | Some signature \<Rightarrow>
     (case Option.bind (rq_headers req ''x-timestamp'') parse_u64 of
        None \<Rightarrow> False
      | Some timestamp \<Rightarrow>
          if sv_unix K - timestamp > 300 then False else
     (case rq_headers req ''x-public-key'' of
        None \<Rightarrow> False
      | Some public_key \<Rightarrow>
          verify_signature K (rq_method req) (rq_path req) timestamp (hash_body K (rq_body req))
            signature public_key)))"

definition verify_request_signature :: "server \<Rightarrow> 'st service \<Rightarrow> 'st service" where
  "verify_request_signature K next req st =
     (if signature_ok K req then next req st else (status_only 401, st))"

section \<open>Rate limits\<close>

record 'l limiter_lib =
  ll_per_minute :: "nat \<Rightarrow> 'l"
  ll_check :: "nat \<Rightarrow> 'l \<Rightarrow> bool \<times> 'l"

record 'l limiters =
  li_key :: "string \<Rightarrow> 'l option"
  li_ip :: "string \<Rightarrow> 'l option"

text \<open>The limiter of an entry, created on first use, is asked and kept with its new state.\<close>

definition check_entry ::
    "'l limiter_lib \<Rightarrow> server \<Rightarrow> nat \<Rightarrow> string \<Rightarrow> (string \<Rightarrow> 'l option) \<Rightarrow> bool \<times> (string \<Rightarrow> 'l option)" where
  "check_entry L K quota k m =
     (let limiter = unwrap_or (ll_per_minute L quota) (m k);
          (admitted, limiter) = ll_check L (sv_instant K) limiter
      in (admitted, m(k \<mapsto> limiter)))"

definition rate_limit_layer ::
    "'l limiter_lib \<Rightarrow> server \<Rightarrow> 'st service \<Rightarrow> ('l limiters \<times> 'st) service" where
  "rate_limit_layer L K next req state =
     (let (lims, st) = state;
          (admitted, lims) =
            (case rq_headers req ''x-api-key'' of
               Some api_key \<Rightarrow>
                 let (a, m) = check_entry L K 1000 api_key (li_key lims) in (a, lims\<lparr>li_key := m\<rparr>)
             | None \<Rightarrow>
                 let (a, m) = check_entry L K 100 (rq_peer req) (li_ip lims) in (a, lims\<lparr>li_ip := m\<rparr>))
      in if \<not> admitted then (error_response K 429 ''Rate limit exceeded'', lims, st)
         else let (resp, st) = next req st in (resp, lims, st))"

section \<open>Idempotency keys\<close>

type_synonym dedup_store = "string \<Rightarrow> (json \<times> nat) option"

definition dedup_response :: "bytes \<Rightarrow> response" where
  "dedup_response body =
     \<lparr>rs_status = 200, rs_headers = [''content-type'' \<mapsto> ''application/json''], rs_body = body\<rparr>"

definition run_and_store ::
    "server \<Rightarrow> string \<Rightarrow> 'st service \<Rightarrow> (dedup_store \<times> 'st) service" where
  "run_and_store K idempotency_key next req state =
     (let (store, st) = state;
          (response, st) = next req st
      in if is_success (Some (rs_status response))
         then case sv_read K (rs_body response) of
             Some json_value \<Rightarrow>
               (dedup_response (rs_body response),
                store(idempotency_key \<mapsto> (json_value, sv_instant K)), st)
           | None \<Rightarrow> (response, store, st)
         else (response, store, st))"

definition deduplication_middleware :: "server \<Rightarrow> 'st service \<Rightarrow> (dedup_store \<times> 'st) service" where
  "deduplication_middleware K next req state =
     (let (store, st) = state in
      if \<not> writes req then (let (resp, st) = next req st in (resp, store, st)) else
      case rq_headers req ''x-idempotency-key'' of
        None \<Rightarrow> (status_only 400, store, st)
      | Some idempotency_key \<Rightarrow>
          (case store idempotency_key of
             Some (cached_result, timestamp) \<Rightarrow>
               if sv_instant K - timestamp < secs 3600
               then (dedup_response (sv_write K cached_result), store, st)
               else run_and_store K idempotency_key next req (store(idempotency_key := None), st)
           | None \<Rightarrow> run_and_store K idempotency_key next req (store, st)))"

end
