(* ===== verification/Api_Theorems.thy ===== *)
theory Api_Theorems
  imports Api_Timeline Api_Endpoints Api_Gate
begin

text \<open>
  The properties of the API server that do not involve the contracts, and a concrete server on which
  they are instantiated.
\<close>

section \<open>A concrete server\<close>

text \<open>
  A toy codec that is faithful on cursors: two numbers in unary; Base64 and hexadecimal are replaced by
  the plain conversion of bytes to characters.
\<close>

fun unary_write :: "json \<Rightarrow> bytes" where
  "unary_write (JObj [(_, JNum a), (_, JNum b)]) = replicate (nat a) 0 @ 1 # replicate (nat b) 0"
| "unary_write (JStr s) = 2 # text_bytes s"
| "unary_write _ = [3]"

definition unary_read :: "bytes \<Rightarrow> json option" where
  "unary_read bs =
     (case dropWhile (\<lambda>b. b = 0) bs of
        [] \<Rightarrow> None
      | b # rest \<Rightarrow>
          if b = 1 then Some (cursor_json \<lparr>cu_last_id = length (takeWhile (\<lambda>b. b = 0) bs),
              cu_offset = length rest\<rparr>)
          else if b = 2 then Some (JStr (map (\<lambda>b. char_of (unat b)) rest)) else None)"

definition demo_server :: server where
  "demo_server = \<lparr>sv_instant = 0, sv_unix = 1000, sv_uuid = dec, sv_checked = True,
     sv_sha256 = (\<lambda>bs. [word_of_nat (length bs)]), sv_write = unary_write, sv_read = unary_read,
     sv_base64 = map (\<lambda>b. char_of (unat b)), sv_unbase64 = (\<lambda>s. Some (text_bytes s)),
     sv_parse_uuid = Some, sv_hex = map (\<lambda>b. char_of (unat b))\<rparr>"

lemma demo_server_simps [simp]:
  "sv_instant demo_server = 0" "sv_unix demo_server = 1000" "sv_checked demo_server"
  "sv_write demo_server = unary_write" "sv_read demo_server = unary_read"
  "sv_parse_uuid demo_server = Some"
  by (simp_all add: demo_server_def)

lemma text_bytes_chars [simp]: "text_bytes (map (\<lambda>b. char_of (unat b)) bs) = bs"
proof -
  have "unat b < 2 ^ LENGTH(8)" for b :: byte by (rule unsigned_less)
  then have "word_of_nat (unat b mod 256) = b" for b :: byte by simp
  then show ?thesis by (induction bs) (simp_all add: text_bytes_def take_bit_nat_def)
qed

lemma demo_base64: "sv_unbase64 demo_server (sv_base64 demo_server bs) = Some bs"
  by (simp add: demo_server_def)

lemma unary_cursor: "unary_read (unary_write (cursor_json d)) = Some (cursor_json d)"
  by (cases d) (simp add: cursor_json_def unary_read_def dropWhile_append takeWhile_append)

definition demo_request :: request where
  "demo_request = \<lparr>rq_method = ''POST'', rq_path = ''/v1/ip/commit'', rq_query = [],
     rq_headers = [''content-type'' \<mapsto> ''application/json''], rq_body = [], rq_peer = ''10.0.0.1'',
     rq_version = None, rq_trace = None, rq_claims = None\<rparr>"

section \<open>The layers of the application\<close>



section \<open>The cache\<close>

text \<open>C18: the cache refines the history of its writes. Whatever calls were made, a read gives the
  value of the last write to the key that no later invalidation, clearing or contract event concerned,
  as long as its time to live has not passed, and nothing otherwise. That reads drop the expired entries
  they meet makes no difference.\<close>

theorem cache_serves_last_write:
  assumes "in_order h" and "list_all (\<lambda>x. sv_instant (fst x) \<le> sv_instant K) h"
  shows "fst (cache_get K f key (run_cache h)) =
    (case last_write (rev h) key of
       None \<Rightarrow> None
     | Some (v, expires) \<Rightarrow> if sv_instant K \<le> expires then Option.bind (sv_read K v) f else None)"
  by (simp add: cache_get_live live_run [OF assms] live_write_def split: option.split)

theorem cache_serves_last_write_witness:
  "fst (cache_get demo_server json_string ''a''
     (run_cache [(demo_server, SetWithTtl ''a'' (Some [2, 104, 105]) 30), (demo_server, Fetch ''b''),
       (demo_server, Invalidate ''c'')])) = Some ''hi''"
proof -
  have "unary_read [2, 104, 105] = Some (JStr ''hi'')" by code_simp
  then show ?thesis
    by (subst cache_serves_last_write) (simp_all add: in_order_def instant_add_def secs_def)
qed

text \<open>Remark: after the event of a transfer neither the record nor any page of any owner's list is left in
  the cache, while the other records and all swaps are kept. The event of a new commitment keeps the
  pages of the owner's list, which therefore lacks the new record until the page expires.\<close>

theorem transfer_event_clears_lists:
  shows "invalidate_on_contract_event ''ip_transferred'' i c (ip_key i) = None \<and>
    invalidate_on_contract_event ''ip_transferred'' i c (ip_list_key owner limit cursor) = None \<and>
    (j \<noteq> i \<longrightarrow> invalidate_on_contract_event ''ip_transferred'' i c (ip_key j) = c (ip_key j)) \<and>
    invalidate_on_contract_event ''ip_transferred'' i c (swap_key k) = c (swap_key k) \<and>
    invalidate_on_contract_event ''ip_committed'' i c (ip_list_key owner limit cursor) =
      c (ip_list_key owner limit cursor)"
  by (simp add: invalidate_on_contract_event_def invalidate_def invalidate_prefix_def keys_apart
      keys_apart [symmetric])

theorem transfer_event_clears_lists_witness:
  "invalidate_on_contract_event ''ip_transferred'' 1
     [ip_key 2 \<mapsto> \<lparr>en_value = [7], en_expires_at = 9\<rparr>] (ip_key 2) = Some \<lparr>en_value = [7], en_expires_at = 9\<rparr>"
  using transfer_event_clears_lists [of 1 "[ip_key 2 \<mapsto> \<lparr>en_value = [7], en_expires_at = 9\<rparr>]" owner limit cursor 2 k]
  by simp

section \<open>The endpoints\<close>

lemma api_get_missing:
  assumes "api_ok st" and "\<not> prefix ''ip:list:'' key"
  shows "cache_get K f key (ap_cache st) = (None, ap_cache st)"
proof -
  have "ap_cache st key = None" using assms by (cases "ap_cache st key") (auto simp: api_ok_def)
  then show ?thesis by (simp add: cache_get_def)
qed

text \<open>Remark: no endpoint ever fills the cache with a record or a swap, or the store of idempotent results.
  So in every reachable state a record or a swap is answered 404 and a batch of swaps 400, and none of
  these requests changes the state.\<close>

theorem api_serves_no_records:
  assumes "api_reachable st"
  shows "exec_api K (GetIp i) st = (Some (missing_response K (not_found ''IP record'' i)), st) \<and>
    exec_api K (GetSwap i) st = (Some (missing_response K (not_found ''Swap'' i)), st) \<and>
    (\<exists>resp. exec_api K (PostSwapBatchInitiate body) st = (Some resp, st) \<and> rs_status resp = 400)"
proof -
  have ok: "api_ok st" by (rule api_states.reachable_inv [OF assms])
  then have "ap_idempotency st = Map.empty" by (simp add: api_ok_def)
  then show ?thesis
    by (auto simp: api_get_missing [OF ok] get_ip_handler_def get_swap_handler_def
        batch_initiate_swap_handler_def error_response_def bind_eq_None_conv Let_def split: option.split)
qed

theorem api_serves_no_records_witness:
  "\<exists>resp. exec_api demo_server (GetIp 7) initial_api = (Some resp, initial_api) \<and> rs_status resp = 404"
proof -
  have "api_reachable initial_api" by (rule reachable_init) (simp add: api_initial_def)
  from api_serves_no_records [OF this, of demo_server 7] show ?thesis by (simp add: missing_response_def)
qed

text \<open>Remark: a delivery makes at most three attempts, stops at the first answer in the success range,
  pauses one second after the first failure and two after the second, and is given up after the third.
  A step of a swap that is answered 404 still hands a delivery to every subscriber, naming a new status
  the swap never took.\<close>

theorem webhook_delivery_outcome:
  "deliver_with_retry deliver w p =
     (let a = deliver (wh_url w) p in
      if is_success (a 1) then [Attempt 1 (a 1)]
      else if is_success (a 2) then [Attempt 1 (a 1), Pause 1, Attempt 2 (a 2)]
      else [Attempt 1 (a 1), Pause 1, Attempt 2 (a 2), Pause 2, Attempt 3 (a 3)] @
        (if is_success (a 3) then [] else [Exhausted])) \<and>
   (\<exists>resp st'. exec_api K (PostSwapAccept i) st = (Some resp, st') \<and> rs_status resp = 404 \<and>
      ap_spawned st' = ap_spawned st @ map (\<lambda>w. (w, \<lparr>pl_event = ''swap.status_changed'', pl_swap_id = i,
        pl_old_status = Some ''Pending'', pl_new_status = ''Accepted'', pl_timestamp = sv_unix K\<rparr>))
        (filter subscribed (webhook_list_all st)))"
proof
  have "[1..<max_retries + 1] = [1, 2, 3]" by (simp add: max_retries_def upt_rec)
  then show "deliver_with_retry deliver w p =
     (let a = deliver (wh_url w) p in
      if is_success (a 1) then [Attempt 1 (a 1)]
      else if is_success (a 2) then [Attempt 1 (a 1), Pause 1, Attempt 2 (a 2)]
      else [Attempt 1 (a 1), Pause 1, Attempt 2 (a 2), Pause 2, Attempt 3 (a 3)] @
        (if is_success (a 3) then [] else [Exhausted]))"
    by (simp add: deliver_with_retry_def max_retries_def Let_def)
qed (simp add: accept_swap_handler_def swap_step_handler_def trigger_swap_status_changed_def
    error_response_def Let_def webhook_list_all_def)

text \<open>Remark: a batch of 1 to 100 requests is answered one by one, in order and under the ids of the
  requests, and any other size is refused as a whole. A lookup succeeds exactly for a path whose rest is
  the text of a \<open>u64\<close>.\<close>

theorem batch_answers_in_order:
  shows "(batch_handler rs = Inl e \<longleftrightarrow> (rs = [] \<or> 100 < length rs) \<and>
      e = (400, ''Batch size must be between 1 and 100 requests'')) \<and>
    (batch_handler rs = Inr answers \<longrightarrow> map ss_id answers = map sr_id rs \<and>
      (\<forall>k i. k < length rs \<longrightarrow> i < 2 ^ 64 \<longrightarrow> sr_method (rs ! k) = ''GET'' \<longrightarrow>
         sr_path (rs ! k) = ''/ip/'' @ dec i \<longrightarrow>
         ss_status (answers ! k) = 200 \<and> member ''ip_id'' (ss_body (answers ! k)) = Some (JNum (int i))))"
proof -
  have "process_single_request r = \<lparr>ss_id = sr_id r, ss_status = 200,
      ss_body = JObj [(''ip_id'', JNum (int i)), (''status'', JStr ''not_implemented'')]\<rparr>"
    if "sr_method r = ''GET''" "sr_path r = ''/ip/'' @ dec i" "i < 2 ^ 64" for r i
    using that by (simp add: process_single_request_def)
  moreover have "ss_id (process_single_request r) = sr_id r" for r
    by (simp add: process_single_request_def split: prod.split)
  ultimately show ?thesis by (auto simp: batch_handler_def)
qed

theorem batch_answers_in_order_witness:
  "\<exists>answers. batch_handler [\<lparr>sr_id = ''a'', sr_method = ''GET'', sr_path = ''/ip/17'', sr_body = None\<rparr>] =
     Inr answers \<and> ss_status (answers ! 0) = 200"
proof -
  let ?rs = "[\<lparr>sr_id = ''a'', sr_method = ''GET'', sr_path = ''/ip/17'', sr_body = None\<rparr>]"
  let ?answers = "map process_single_request ?rs"
  have run: "batch_handler ?rs = Inr ?answers" by (simp add: batch_handler_def)
  have path: "''/ip/17'' = ''/ip/'' @ dec 17" by code_simp
  have "ss_status (?answers ! 0) = 200"
    using batch_answers_in_order [of ?rs e ?answers] run
    by (elim conjE impE allE [of _ 0] allE [of _ 17]) (use path in simp_all)
  with run show ?thesis by blast
qed

end
