(* ===== verification/Api_Access.thy ===== *)
theory Api_Access
  imports Api_Theorems
begin

text \<open>
  The properties of the middleware that lets requests through or stops them: tokens, signatures, rate
  limits and idempotency keys.
\<close>

section \<open>Tokens\<close>

text \<open>C30: the two tokens of a login cannot stand in for one another. The access token opens the guarded
  service, with the claims of its owner, for 15 minutes and the minute of leeway the library gives, and is
  never accepted for a refresh; the refresh token never opens the service, and gives a new access token
  of the same owner for seven days and the minute. Refused requests do not reach the service.\<close>

theorem tokens_kept_apart:
  assumes "\<And>c tok now. al_encode L (al_secret L) c = Some tok \<Longrightarrow>
      al_decode L (al_secret L) now tok = (if now \<le> cl_exp c + 60 then Some c else None)"
    and "issue_tokens L K owner = Some (access, refresh)"
  shows "(rq_headers req ''authorization'' = Some (''Bearer '' @ access) \<longrightarrow>
      require_bearer L K' svc req st =
        (if sv_unix K' \<le> sv_unix K + 960 then svc (req\<lparr>rq_claims := Some (access_claims K owner)\<rparr>) st
         else (auth_error_response K' InvalidToken, st))) \<and>
    (rq_headers req ''authorization'' = Some (''Bearer '' @ refresh) \<longrightarrow>
      require_bearer L K' svc req st = (auth_error_response K' InvalidToken, st)) \<and>
    refresh_access_token L K' access = Inl InvalidToken \<and>
    refresh_access_token L K' refresh =
      (if sv_unix K' \<le> sv_unix K + 604860
       then ok_or TokenCreation (al_encode L (al_secret L) (access_claims K' owner)) else Inl InvalidToken)"
proof -
  have "al_encode L (al_secret L) (access_claims K owner) = Some access"
    "al_encode L (al_secret L) (refresh_claims K owner) = Some refresh"
    using assms(2) by (auto simp: issue_tokens_def bind_eq_Some_conv)
  note tokens = this [THEN assms(1)]
  have access: "decode_claims L K' access =
      (if sv_unix K' \<le> sv_unix K + 960 then Inr (access_claims K owner) else Inl InvalidToken)"
    unfolding decode_claims_def tokens by (auto simp: ok_or_def access_claims_def)
  have refresh: "decode_claims L K' refresh =
      (if sv_unix K' \<le> sv_unix K + 604860 then Inr (refresh_claims K owner) else Inl InvalidToken)"
    unfolding decode_claims_def tokens by (auto simp: ok_or_def refresh_claims_def)
  have types: "cl_token_type (access_claims K owner) = ''access''"
    "cl_token_type (refresh_claims K owner) = ''refresh''" "cl_sub (refresh_claims K owner) = owner"
    by (simp_all add: access_claims_def refresh_claims_def)
  have bearer: "strip_prefix ''Bearer '' (''Bearer '' @ tok) = Some tok" for tok
    by (simp add: strip_prefix_def)
  show ?thesis
    using types access refresh bearer [of access] bearer [of refresh]
    by (auto simp: require_bearer_def bearer_claims_def refresh_access_token_def ok_or_def)
qed

text \<open>A library that signs the tokens of two logins only.\<close>

definition demo_auth :: auth_lib where
  "demo_auth = \<lparr>al_secret = [1],
     al_encode = (\<lambda>_ c. if c = access_claims demo_server ''G'' then Some ''a''
       else if c = refresh_claims demo_server ''G'' then Some ''r'' else None),
     al_decode = (\<lambda>_ now tok.
       if tok = ''a'' \<and> now \<le> cl_exp (access_claims demo_server ''G'') + 60
       then Some (access_claims demo_server ''G'')
       else if tok = ''r'' \<and> now \<le> cl_exp (refresh_claims demo_server ''G'') + 60
       then Some (refresh_claims demo_server ''G'') else None),
     al_strkey = Map.empty, al_key = (\<lambda>_. False), al_unhex = Map.empty, al_sig = (\<lambda>_. False),
     al_verify = (\<lambda>_ _ _. False)\<rparr>"

lemma demo_auth_law: "al_encode demo_auth (al_secret demo_auth) c = Some tok \<Longrightarrow>
    al_decode demo_auth (al_secret demo_auth) now tok = (if now \<le> cl_exp c + 60 then Some c else None)"
  by (auto simp: demo_auth_def split: if_splits)

theorem tokens_kept_apart_witness:
  "refresh_access_token demo_auth demo_server ''a'' = Inl InvalidToken \<and>
   refresh_access_token demo_auth demo_server ''r'' = Inr ''a''"
proof -
  have "issue_tokens demo_auth demo_server ''G'' = Some (''a'', ''r'')"
    by (simp add: issue_tokens_def demo_auth_def access_claims_def refresh_claims_def)
  from tokens_kept_apart [OF demo_auth_law this, of demo_request demo_server
      "\<lambda>req st. (status_only 200, st)" "()"]
  show ?thesis by (simp add: demo_auth_def ok_or_def)
qed

section \<open>Signatures\<close>

text \<open>Remark: the signature of a request is a digest of public data. It is accepted iff the timestamp is not
  more than 300 seconds old (future ones included), some public key is named, and the signature is the
  digest of method, path, timestamp and body hash, no key entering into it. So anyone can sign any
  request in the name of any key. The comments of \<open>request_signing.rs\<close>, which speak of a Stellar key pair and
  of timestamps within five minutes, disagree with the code here.\<close>

theorem request_signature_forgeable:
  shows "(signature_ok K req \<longleftrightarrow>
      (\<exists>pk ts. rq_headers req ''x-public-key'' = Some pk \<and>
         Option.bind (rq_headers req ''x-timestamp'') parse_u64 = Some ts \<and> sv_unix K \<le> ts + 300 \<and>
         rq_headers req ''x-signature'' = Some (sv_hex K (sv_sha256 K (text_bytes (rq_method req @ ''||'' @
           rq_path req @ ''||'' @ dec ts @ ''||'' @ hash_body K (rq_body req))))))) \<and>
    (ts < 2 ^ 64 \<longrightarrow> sv_unix K \<le> ts + 300 \<longrightarrow>
      verify_request_signature K svc (req\<lparr>rq_headers := (rq_headers req)(''x-public-key'' \<mapsto> victim,
        ''x-timestamp'' \<mapsto> dec ts, ''x-signature'' \<mapsto> sv_hex K (sv_sha256 K (text_bytes (rq_method req @ ''||'' @
           rq_path req @ ''||'' @ dec ts @ ''||'' @ hash_body K (rq_body req)))))\<rparr>) st =
      svc (req\<lparr>rq_headers := (rq_headers req)(''x-public-key'' \<mapsto> victim,
        ''x-timestamp'' \<mapsto> dec ts, ''x-signature'' \<mapsto> sv_hex K (sv_sha256 K (text_bytes (rq_method req @ ''||'' @
           rq_path req @ ''||'' @ dec ts @ ''||'' @ hash_body K (rq_body req)))))\<rparr>) st)"
proof -
  have iff: "signature_ok K req \<longleftrightarrow>
      (\<exists>pk ts. rq_headers req ''x-public-key'' = Some pk \<and>
         Option.bind (rq_headers req ''x-timestamp'') parse_u64 = Some ts \<and> sv_unix K \<le> ts + 300 \<and>
         rq_headers req ''x-signature'' = Some (sv_hex K (sv_sha256 K (text_bytes (rq_method req @ ''||'' @
           rq_path req @ ''||'' @ dec ts @ ''||'' @ hash_body K (rq_body req))))))" for req
    by (auto simp: signature_ok_def verify_signature_def generate_signature_def split: option.split)
  show ?thesis by (auto simp: iff verify_request_signature_def)
qed

theorem request_signature_forgeable_witness:
  "\<exists>req. rq_headers req ''x-public-key'' = Some ''VICTIM'' \<and>
     verify_request_signature demo_server (\<lambda>_ st. (status_only 200, Suc st)) req 0 = (status_only 200, 1)"
  using request_signature_forgeable [of demo_server demo_request 1000
      "\<lambda>_ st. (status_only 200, Suc st)" "''VICTIM''" 0]
  by (intro exI [of _ "demo_request\<lparr>rq_headers := (rq_headers demo_request)(''x-public-key'' \<mapsto> ''VICTIM'',
        ''x-timestamp'' \<mapsto> dec 1000, ''x-signature'' \<mapsto> sv_hex demo_server (sv_sha256 demo_server
          (text_bytes (rq_method demo_request @ ''||'' @ rq_path demo_request @ ''||'' @ dec 1000 @ ''||'' @
             hash_body demo_server (rq_body demo_request)))))\<rparr>"]) simp

section \<open>Idempotency keys\<close>

text \<open>Remark: once a write with an idempotency key has succeeded with a JSON body, every write that brings
  the same key within the hour is answered with that body and never reaches the service, whatever its
  path, body and sender, for the key is the only thing compared.\<close>

theorem idempotency_key_replays:
  assumes "writes r1" and "rq_headers r1 ''x-idempotency-key'' = Some key" and "store key = None"
    and "svc r1 st = (answer, st')" and "200 \<le> rs_status answer" and "rs_status answer < 300"
    and "sv_read K (rs_body answer) = Some j"
    and "writes r2" and "rq_headers r2 ''x-idempotency-key'' = Some key"
    and "sv_instant K' < sv_instant K + secs 3600"
  shows "\<exists>store'. deduplication_middleware K svc r1 (store, st) =
      (dedup_response (rs_body answer), store', st') \<and>
    deduplication_middleware K' svc' r2 (store', later) = (dedup_response (sv_write K' j), store', later)"
proof -
  have "is_success (Some (rs_status answer))" using assms(5,6) by (simp add: is_success_def)
  then have "deduplication_middleware K svc r1 (store, st) =
      (dedup_response (rs_body answer), store(key \<mapsto> (j, sv_instant K)), st')"
    using assms(1-4,7) by (simp add: deduplication_middleware_def run_and_store_def)
  moreover have "sv_instant K' - sv_instant K < secs 3600"
    using assms(10) by (auto simp: secs_def)
  ultimately show ?thesis
    using assms(8,9) by (simp add: deduplication_middleware_def)
qed

theorem idempotency_key_replays_witness:
  "\<exists>store. deduplication_middleware demo_server (\<lambda>_ st. (status_only 201, Suc st))
      (demo_request\<lparr>rq_path := ''/v1/other'', rq_peer := ''10.9.9.9'', rq_headers := [''x-idempotency-key'' \<mapsto> ''k'']\<rparr>)
      (store, 7) = (dedup_response [2, 104, 105], store, 7)"
proof -
  have read: "unary_read [2, 104, 105] = Some (JStr ''hi'')" by code_simp
  have written: "unary_write (JStr ''hi'') = [2, 104, 105]" by code_simp
  let ?r = "demo_request\<lparr>rq_headers := [''x-idempotency-key'' \<mapsto> ''k'']\<rparr>"
  have "\<exists>store'. deduplication_middleware demo_server
      (\<lambda>_ st. ((status_only 200)\<lparr>rs_body := [2, 104, 105]\<rparr>, st)) ?r (Map.empty, 0::nat) =
      (dedup_response [2, 104, 105], store', 0) \<and>
    deduplication_middleware demo_server (\<lambda>_ st. (status_only 201, Suc st))
      (?r\<lparr>rq_path := ''/v1/other'', rq_peer := ''10.9.9.9''\<rparr>) (store', 7) =
      (dedup_response (sv_write demo_server (JStr ''hi'')), store', 7)"
    using idempotency_key_replays [of ?r "''k''" Map.empty
        "\<lambda>_ st. ((status_only 200)\<lparr>rs_body := [2, 104, 105]\<rparr>, st)" 0
        "(status_only 200)\<lparr>rs_body := [2, 104, 105]\<rparr>" 0 demo_server "JStr ''hi''"
        "?r\<lparr>rq_path := ''/v1/other'', rq_peer := ''10.9.9.9''\<rparr>" demo_server
        "\<lambda>_ st. (status_only 201, Suc st)" 7] read
    by (simp add: writes_def demo_request_def secs_def status_only_def)
  then show ?thesis using written by (auto simp: demo_request_def)
qed

section \<open>Rate limits\<close>

text \<open>Remark: keys are not checked, and a request with a key is not counted against its address. As long
  as a fresh bucket admits its first request, a sender that makes up a new key for every request is
  never limited, even when the bucket of its address is empty.\<close>

lemma fresh_keys_never_limited:
  assumes "\<And>t. fst (ll_check L t (ll_per_minute L 1000))"
    and "rq_headers req ''x-api-key'' = Some key" and "li_key lims key = None"
  shows "\<exists>lims'. rate_limit_layer L K svc req (lims, st) =
      (fst (svc req st), lims', snd (svc req st)) \<and> li_ip lims' = li_ip lims"
  using assms(2,3) assms(1) [of "sv_instant K"]
  by (auto simp: rate_limit_layer_def check_entry_def Let_def split: prod.split)

end
