(* ===== verification/Api_Checks.thy ===== *)
theory Api_Checks
  imports Api_Handlers
begin

text \<open>
  The invariant checkers of the API server (\<open>invariants.rs\<close>): predicates over values reported by the
  contracts, with the violation they describe.
\<close>

record InvariantViolation =
  iv_invariant_id :: string
  iv_description :: string
  iv_severity :: string

definition violation :: "string \<Rightarrow> string \<Rightarrow> InvariantViolation + unit" where
  "violation i what = Inl \<lparr>iv_invariant_id = i, iv_description = what, iv_severity = ''critical''\<rparr>"

definition verify_commitment_uniqueness ::
    "string \<Rightarrow> string \<Rightarrow> (string \<Rightarrow> string list option) \<Rightarrow> InvariantViolation + unit" where
  "verify_commitment_uniqueness owner h existing_hashes =
     (case existing_hashes owner of
        None \<Rightarrow> Inr ()
      | Some hashes \<Rightarrow>
          if h \<in> set hashes then violation ''I1'' (''Duplicate commitment hash for owner '' @ owner)
          else Inr ())"

definition verify_timestamp_order :: "nat \<Rightarrow> nat \<Rightarrow> InvariantViolation + unit" where
  "verify_timestamp_order timestamp_1 timestamp_2 =
     (if timestamp_2 < timestamp_1
      then violation ''I2'' ''Timestamp order violation: newer record has earlier timestamp'' else Inr ())"

definition verify_owner_immutability :: "string \<Rightarrow> string \<Rightarrow> InvariantViolation + unit" where
  "verify_owner_immutability stored_owner claimed_owner =
     (if stored_owner \<noteq> claimed_owner
      then violation ''I3'' ''Owner immutability violation: owner changed after creation'' else Inr ())"

definition verify_commitment_correctness :: "server \<Rightarrow> string \<Rightarrow> bytes \<Rightarrow> InvariantViolation + unit" where
  "verify_commitment_correctness K commitment_hash secret =
     (if sv_hex K (sv_sha256 K secret) \<noteq> commitment_hash
      then violation ''I4'' ''Commitment verification failed: secret does not match hash'' else Inr ())"

text \<open>
  The sum of a slice of \<open>u128\<close>: past the end it panics in a checked build and wraps otherwise.
\<close>

definition sum_u128 :: "server \<Rightarrow> nat list \<Rightarrow> nat option" where
  "sum_u128 K xs =
     (if sum_list xs < 2 ^ 128 then Some (sum_list xs)
      else if sv_checked K then None else Some (sum_list xs mod 2 ^ 128))"

definition verify_total_fees :: "server \<Rightarrow> nat \<Rightarrow> nat list \<Rightarrow> (InvariantViolation + unit) option" where
  "verify_total_fees K collected_fees swap_fees =
     map_option (\<lambda>total.
       if collected_fees \<noteq> total
       then violation ''S1'' (''Fee accounting violation: collected '' @ dec collected_fees
              @ '' != sum of fees '' @ dec total)
       else Inr ()) (sum_u128 K swap_fees)"

definition verify_payment_key_atomicity :: "bool \<Rightarrow> bool \<Rightarrow> InvariantViolation + unit" where
  "verify_payment_key_atomicity payment_released key_revealed =
     (if payment_released \<noteq> key_revealed
      then violation ''S2'' ''Payment atomicity violation: payment and key reveal not synchronized''
      else Inr ())"

definition valid_transitions :: "(string \<times> string) list" where
  "valid_transitions = [(''Pending'', ''Active''), (''Pending'', ''Cancelled''),
     (''Active'', ''Completed''), (''Active'', ''Cancelled'')]"

definition verify_state_transition :: "string \<Rightarrow> string \<Rightarrow> InvariantViolation + unit" where
  "verify_state_transition from_state to_state =
     (if (from_state, to_state) \<notin> set valid_transitions
      then violation ''S3'' (''Invalid state transition: '' @ from_state @ '' -> '' @ to_state)
      else Inr ())"

definition verify_escrow_balance :: "server \<Rightarrow> nat \<Rightarrow> nat list \<Rightarrow> (InvariantViolation + unit) option" where
  "verify_escrow_balance K escrow_balance pending_payments =
     map_option (\<lambda>total.
       if escrow_balance \<noteq> total
       then violation ''S4'' (''Escrow balance violation: balance '' @ dec escrow_balance
              @ '' != sum of pending '' @ dec total)
       else Inr ()) (sum_u128 K pending_payments)"

definition verify_key_validity :: "server \<Rightarrow> bytes \<Rightarrow> string \<Rightarrow> InvariantViolation + unit" where
  "verify_key_validity K key commitment_hash =
     (if sv_hex K (sv_sha256 K key) \<noteq> commitment_hash
      then violation ''S5'' ''Key validity violation: key does not decrypt commitment'' else Inr ())"

lemma violation_not_Inr [simp]: "violation i what \<noteq> Inr ()"
  by (simp add: violation_def)

end
