(* ===== verification/Api_Contracts.thy ===== *)
theory Api_Contracts
  imports Api_Theorems Api_Checks Swap_Runs
begin

text \<open>
  The checkers of the API server against the contracts they are meant to watch. Addresses and hashes
  reach the server as text: \<open>name\<close> and the hexadecimal function of the server give that text.
\<close>

section \<open>States of a swap\<close>

text \<open>The names the API gives the states of a swap (the \<open>SwapStatus\<close> of \<open>graphql.rs\<close>, and of the contract).\<close>

definition status_name :: "SwapStatus \<Rightarrow> string" where
  "status_name st = (case st of Pending \<Rightarrow> ''Pending'' | Accepted \<Rightarrow> ''Accepted''
     | Completed \<Rightarrow> ''Completed'' | Disputed \<Rightarrow> ''Disputed'' | Cancelled \<Rightarrow> ''Cancelled''
     | RolledBack \<Rightarrow> ''RolledBack'')"

text \<open>Remark: of all changes of state the contract can make, the state checker lets only the cancellation of
  a pending swap pass: it knows a state \<open>Active\<close> that the contract does not have. So it reports every
  acceptance and every completion of a sale as a violation.\<close>

theorem state_checker_rejects_sales:
  shows "(verify_state_transition (status_name a) (status_name b) = Inr () \<longleftrightarrow> a = Pending \<and> b = Cancelled) \<and>
    (accept_swap E i s = Inr t \<or> reveal_key E R i caller x y s = Inr t \<longrightarrow>
      (\<exists>r q. get_swap s i = Some r \<and> get_swap t i = Some q \<and>
         (\<exists>v. verify_state_transition (status_name (sp_status r)) (status_name (sp_status q)) = Inl v)))"
proof -
  have iff: "verify_state_transition (status_name a) (status_name b) = Inr () \<longleftrightarrow> a = Pending \<and> b = Cancelled"
    for a b
    by (cases a; cases b) (simp_all add: verify_state_transition_def valid_transitions_def status_name_def)
  have reject: "\<exists>v. verify_state_transition (status_name a) (status_name b) = Inl v" if "b \<noteq> Cancelled" for a b
    using iff [of a b] that by (cases "verify_state_transition (status_name a) (status_name b)") auto
  have "\<exists>r. get_swap s i = Some r \<and> get_swap t i = Some (accepted E r)" if "accept_swap E i s = Inr t"
    using that
  proof (rule accept_swap_effect)
    fix r
    assume r: "bk_swap (book_of s) i = Some r"
      and eff: "book_of t = touch i (accepted E r)
        (if 0 < sp_collateral_amount r then Some (sp_collateral_amount r) else coll_of s i) (dep_of s i)
        ((if 0 < sp_collateral_amount r
          then [(sp_token r, sp_buyer r, this_addr E, sp_collateral_amount r)] else []) @
         [price_payment E r] @ premium_payment E r) [history_entry E Accepted] False [] (book_of s)"
    from arg_cong [OF eff, of "\<lambda>b. bk_swap b i"] r show ?thesis
      by (simp add: get_swap_def book_fields)
  qed
  moreover have "\<exists>r. get_swap s i = Some r \<and> get_swap t i = Some (closed Completed r)"
    if "reveal_key E R i caller x y s = Inr t"
    using that
  proof (rule reveal_key_effect)
    fix r
    assume r: "bk_swap (book_of s) i = Some r"
      and eff: "book_of t = touch i (closed Completed r) (retained r (coll_of s i)) (dep_of s i)
        (fee_payment E r @ referral_payment E r @
         [pay_out E r (sp_seller r) (sp_price r - fee_of r - referral_fee r)] @
         released E (sp_buyer r) r (coll_of s i)) [history_entry E Completed] True
        [(sp_seller r, 5), (sp_buyer r, 5)] (book_of s)"
    from arg_cong [OF eff, of "\<lambda>b. bk_swap b i"] r show ?thesis
      by (simp add: get_swap_def book_fields)
  qed
  moreover have "sp_status (accepted E r) = Accepted" for r by (simp add: accepted_def)
  ultimately show ?thesis using iff reject by fastforce
qed

theorem state_checker_rejects_sales_witness:
  "\<exists>r q. get_swap sale1 0 = Some r \<and> get_swap sale2 0 = Some q \<and>
     (\<exists>v. verify_state_transition (status_name (sp_status r)) (status_name (sp_status q)) = Inl v)"
  using state_checker_rejects_sales [of Pending Pending sale_env 0 sale1 sale2] sale2_run by blast

section \<open>Records of the registry\<close>

text \<open>Remark: the checkers of the registry invariants. The uniqueness checker never objects to a commitment the
  registry accepts in a reachable storage, whatever part of the stored hashes it is shown (the converse
  fails: it looks at the hashes of one owner); but the owner checker objects to every transfer of the new
  record (\<open>docs/invariants.md\<close>, I3 and I4, describes owners that never change and hashes of the secret
  alone, and disagrees with the contract), and the correctness checker, which hashes the secret without the
  blinding factor, accepts the secret of a new commitment only if the two digests agree.\<close>

theorem registry_checkers_on_contract:
  assumes "registry_reachable H s" and "commit_ip E ow h d s = Inr (i, t)"
    and "inj (sv_hex K)" and "inj name" and "sv_sha256 K = sha256 E"
    and "\<And>o' hs x. known o' = Some hs \<Longrightarrow> x \<in> set hs \<Longrightarrow>
      \<exists>j r. get_ip s j = Inr r \<and> x = sv_hex K (ir_commitment_hash r)"
  shows "verify_commitment_uniqueness (name ow) (sv_hex K h) known = Inr () \<and>
    (transfer_ip E' i new t = Inr u \<longrightarrow> new \<noteq> ow \<longrightarrow>
      (\<exists>r v. get_ip u i = Inr r \<and> verify_owner_immutability (name ow) (name (ir_owner r)) = Inl v)) \<and>
    (h = sha256 E (secret @ blinding) \<longrightarrow>
      verify_commitment_correctness K (sv_hex K h) secret = Inr () \<longleftrightarrow>
      sha256 E secret = sha256 E (secret @ blinding))"
proof (intro conjI impI)
  have idx: "index_ok (this_addr H) (rg_IpRecord s) (rg_OwnerIps s) (next_ip s) (rg_CommitmentOwner s)"
    using records.reachable_inv [OF assms(1)] by (simp add: registry_index_def)
  have free: "rg_CommitmentOwner s h = None"
    using assms(2) by (auto simp: commit_ip_def require_unique_commitment_def Let_def split: option.splits)
  have "x \<noteq> sv_hex K h" if "known (name ow) = Some hs" "x \<in> set hs" for hs x
  proof
    assume "x = sv_hex K h"
    with assms(6) [OF that] obtain j r where "get_ip s j = Inr r" "sv_hex K h = sv_hex K (ir_commitment_hash r)"
      by auto
    then have "rg_IpRecord s j = Some r" "ir_commitment_hash r = h"
      using injD [OF assms(3)] by (auto simp: get_ip_def)
    with index_record [OF idx, of j r] free show False by (simp add: record_ok_def)
  qed
  then show "verify_commitment_uniqueness (name ow) (sv_hex K h) known = Inr ()"
    by (auto simp: verify_commitment_uniqueness_def split: option.split)
next
  assume "transfer_ip E' i new t = Inr u" and other: "new \<noteq> ow"
  then obtain r where "rg_IpRecord u i = Some (r\<lparr>ir_owner := new\<rparr>)" by (elim transfer_ip_effect) simp
  then have "get_ip u i = Inr (r\<lparr>ir_owner := new\<rparr>)" by (simp add: get_ip_def)
  moreover have "name ow \<noteq> name new" using other injD [OF assms(4)] by metis
  ultimately show "\<exists>r v. get_ip u i = Inr r \<and> verify_owner_immutability (name ow) (name (ir_owner r)) = Inl v"
    by (auto simp: verify_owner_immutability_def violation_def)
next
  assume "h = sha256 E (secret @ blinding)"
  then show "verify_commitment_correctness K (sv_hex K h) secret = Inr () \<longleftrightarrow>
      sha256 E secret = sha256 E (secret @ blinding)"
    using injD [OF assms(3)] assms(5) by (auto simp: verify_commitment_correctness_def violation_def)
qed

text \<open>A server that hashes as the demonstration ledger does, and the texts of its addresses.\<close>

definition demo_name :: "address \<Rightarrow> string" where "demo_name a = (case a of Address n \<Rightarrow> dec n)"

definition demo_hashing :: server where "demo_hashing = demo_server\<lparr>sv_sha256 := demo_hash\<rparr>"

lemma inj_demo_name: "inj demo_name"
  by (rule injI) (auto simp: demo_name_def split: address.splits)

lemma inj_demo_hex: "inj (sv_hex demo_hashing)"
  by (rule inj_on_inverseI [where g = text_bytes]) (simp add: demo_hashing_def demo_server_def)

theorem registry_checkers_on_contract_witness:
  "verify_commitment_uniqueness ''1'' (sv_hex demo_hashing demo_hash1) Map.empty = Inr () \<and>
   verify_commitment_correctness demo_hashing (sv_hex demo_hashing demo_hash1) [1] \<noteq> Inr ()"
proof -
  have "sv_sha256 demo_hashing = sha256 demo_env" by (simp add: demo_hashing_def)
  note facts = registry_checkers_on_contract [OF demo_reachable(1) demo1_commit inj_demo_hex inj_demo_name
      this, of Map.empty]
  have "demo_hash [1] ! 1 \<noteq> demo_hash [1, 2] ! 1" by (simp add: demo_hash_def)
  then have "demo_hash [1] \<noteq> demo_hash [1, 2]" by auto
  moreover have "demo_name (Address 1) = ''1''" by code_simp
  ultimately show ?thesis
    using facts [where secret = "[1]" and blinding = "[2]"] by (auto simp: demo_hash1_def)
qed

end
