(* ===== verification/Api_Events.thy ===== *)
theory Api_Events
  imports Api_Handlers
begin

text \<open>
  The other doors of the API server: the web socket that forwards events to subscribers
  (\<open>websocket.rs\<close>), the stream of server-sent events (\<open>events.rs\<close>), and the GraphQL queries (\<open>graphql.rs\<close>), which hand everything to a client of the
  Soroban RPC.
\<close>

section \<open>Web sockets\<close>

record IpEvent =
  ev_event_type :: string
  ev_ip_id :: nat
  ev_owner :: string
  ev_timestamp :: nat

record SwapEvent =
  se_event_type :: string
  se_swap_id :: nat
  se_seller :: string
  se_buyer :: string
  se_timestamp :: nat

definition ip_event_json :: "IpEvent \<Rightarrow> json" where
  "ip_event_json e = JObj [(''event_type'', JStr (ev_event_type e)), (''ip_id'', JNum (int (ev_ip_id e))),
     (''owner'', JStr (ev_owner e)), (''timestamp'', JNum (int (ev_timestamp e)))]"

definition swap_event_json :: "SwapEvent \<Rightarrow> json" where
  "swap_event_json e = JObj [(''event_type'', JStr (se_event_type e)),
     (''swap_id'', JNum (int (se_swap_id e))), (''seller'', JStr (se_seller e)),
     (''buyer'', JStr (se_buyer e)), (''timestamp'', JNum (int (se_timestamp e)))]"

text \<open>
  What the \<open>select!\<close> of the loop can be woken by: a message of the peer, or an event of one of the two
  channels (\<open>None\<close> when the channel reports an error). The branch of a channel is disabled while the
  peer has not subscribed to it.
\<close>

datatype ws_message =
    WsText bytes
  | WsClose
  | WsError
  | WsEnd
  | WsOther

datatype ws_branch =
    Incoming ws_message
  | IpReceived "IpEvent option"
  | SwapReceived "SwapEvent option"

datatype ws_frame =
    Subscribed string
  | EventFrame bytes

record ws_state =
  ws_subscribed_ip :: bool
  ws_subscribed_swap :: bool
  ws_sent :: "ws_frame list"
  ws_open :: bool

definition ws_initial :: ws_state where
  "ws_initial = \<lparr>ws_subscribed_ip = False, ws_subscribed_swap = False, ws_sent = [], ws_open = True\<rparr>"

definition ws_send :: "ws_frame \<Rightarrow> ws_state \<Rightarrow> ws_state" where
  "ws_send frame w = w\<lparr>ws_sent := ws_sent w @ [frame]\<rparr>"

text \<open>The action of a subscription message; other members are optional and not read.\<close>

definition subscription_action :: "server \<Rightarrow> bytes \<Rightarrow> string option" where
  "subscription_action K t =
     Option.bind (sv_read K t) (\<lambda>j.
     Option.bind (Option.bind (member ''action'' j) json_string) (\<lambda>action.
     Option.bind (opt_of_json json_string (member ''subscription_type'' j)) (\<lambda>_. Some action)))"

definition ws_text :: "server \<Rightarrow> bytes \<Rightarrow> ws_state \<Rightarrow> ws_state" where
  "ws_text K t w =
     (case subscription_action K t of
        None \<Rightarrow> w
      | Some action \<Rightarrow>
          if action = ''subscribe_ip_events''
          then ws_send (Subscribed ''ip_events'') (w\<lparr>ws_subscribed_ip := True\<rparr>)
          else if action = ''subscribe_swap_events''
          then ws_send (Subscribed ''swap_events'') (w\<lparr>ws_subscribed_swap := True\<rparr>)
          else if action = ''unsubscribe_ip_events'' then w\<lparr>ws_subscribed_ip := False\<rparr>
          else if action = ''unsubscribe_swap_events'' then w\<lparr>ws_subscribed_swap := False\<rparr>
          else w)"

fun ws_select :: "server \<Rightarrow> ws_branch \<Rightarrow> ws_state \<Rightarrow> ws_state" where
  "ws_select K (Incoming (WsText t)) w = ws_text K t w"
| "ws_select K (Incoming WsOther) w = w"
| "ws_select K (Incoming _) w = w\<lparr>ws_open := False\<rparr>"
| "ws_select K (IpReceived e) w =
     (case e of Some event \<Rightarrow> ws_send (EventFrame (sv_write K (ip_event_json event))) w | None \<Rightarrow> w)"
| "ws_select K (SwapReceived e) w =
     (case e of Some event \<Rightarrow> ws_send (EventFrame (sv_write K (swap_event_json event))) w | None \<Rightarrow> w)"

fun ws_enabled :: "ws_branch \<Rightarrow> ws_state \<Rightarrow> bool" where
  "ws_enabled (Incoming _) w = ws_open w"
| "ws_enabled (IpReceived _) w = (ws_open w \<and> ws_subscribed_ip w)"
| "ws_enabled (SwapReceived _) w = (ws_open w \<and> ws_subscribed_swap w)"

inductive ws_step :: "server \<Rightarrow> ws_state \<Rightarrow> ws_state \<Rightarrow> bool" for K where
  ws_selected: "ws_enabled b w \<Longrightarrow> ws_step K w (ws_select K b w)"

inductive_cases ws_stepE: "ws_step K w w'"

text \<open>The frames a connection has sent, as a monotone system: they are never taken back.\<close>

lemma ws_select_sent: "prefix (ws_sent w) (ws_sent (ws_select K b w))"
  by (induction K b w rule: ws_select.induct) (auto simp: ws_text_def ws_send_def split: option.split)

text \<open>A channel is read, and an event sent, only after a subscription was confirmed.\<close>

definition ws_confirmed :: "ws_state \<Rightarrow> bool" where
  "ws_confirmed w \<longleftrightarrow> Subscribed ''ip_events'' \<in> set (ws_sent w) \<or> Subscribed ''swap_events'' \<in> set (ws_sent w)"

definition ws_ok :: "ws_state \<Rightarrow> bool" where
  "ws_ok w \<longleftrightarrow> (ws_subscribed_ip w \<or> ws_subscribed_swap w \<longrightarrow> ws_confirmed w) \<and>
     (\<forall>f \<in> set (ws_sent w). (\<exists>c. f = Subscribed c) \<or> ws_confirmed w)"

lemma ws_send_event: "ws_ok w \<Longrightarrow> ws_confirmed w \<Longrightarrow> ws_ok (ws_send f w)"
  by (auto simp: ws_ok_def ws_send_def ws_confirmed_def)

lemma ws_subscribe_ok:
  "ws_ok w \<Longrightarrow> ws_ok (ws_send (Subscribed ''ip_events'') (w\<lparr>ws_subscribed_ip := True\<rparr>))"
  "ws_ok w \<Longrightarrow> ws_ok (ws_send (Subscribed ''swap_events'') (w\<lparr>ws_subscribed_swap := True\<rparr>))"
  "ws_ok w \<Longrightarrow> ws_ok (w\<lparr>ws_subscribed_ip := False\<rparr>)" "ws_ok w \<Longrightarrow> ws_ok (w\<lparr>ws_subscribed_swap := False\<rparr>)"
  "ws_ok w \<Longrightarrow> ws_ok (w\<lparr>ws_open := False\<rparr>)"
  by (auto simp: ws_ok_def ws_send_def ws_confirmed_def)

lemma ws_text_ok: "ws_ok w \<Longrightarrow> ws_ok (ws_text K t w)"
  by (cases "subscription_action K t") (simp_all add: ws_text_def ws_subscribe_ok)

lemma ws_select_ok:
  assumes "ws_ok w" and "ws_enabled b w"
  shows "ws_ok (ws_select K b w)"
proof (cases b)
  case (Incoming m)
  with assms(1) show ?thesis by (cases m) (simp_all add: ws_text_ok ws_subscribe_ok)
next
  case (IpReceived e)
  then have "ws_confirmed w" using assms by (simp add: ws_ok_def)
  with IpReceived assms(1) show ?thesis by (cases e) (simp_all add: ws_send_event)
next
  case (SwapReceived e)
  then have "ws_confirmed w" using assms by (simp add: ws_ok_def)
  with SwapReceived assms(1) show ?thesis by (cases e) (simp_all add: ws_send_event)
qed

lemma ws_initial_ok: "ws_ok ws_initial"
  by (simp add: ws_ok_def ws_initial_def)

interpretation ws_connections: monotone_system "\<lambda>w. w = ws_initial" "ws_step K" ws_ok
    "\<lambda>w w'. prefix (ws_sent w) (ws_sent w')"
  by unfold_locales
    (auto simp: ws_initial_ok elim!: ws_stepE intro: ws_select_ok ws_select_sent prefix_order.trans)

section \<open>Server-sent events\<close>

text \<open>
  The events of \<open>events.rs\<close> as JSON objects tagged with their type, and the stream of a client: what its
  receiver gives, without the errors that report skipped messages (\<open>None\<close>).
\<close>

datatype ContractEvent =
    IpCommitted nat string string nat
  | SwapInitiated nat nat string string nat
  | SwapAccepted nat string
  | SwapCompleted nat string string

fun contract_event_json :: "ContractEvent \<Rightarrow> json" where
  "contract_event_json (IpCommitted ip_id owner h t) = JObj [(''type'', JStr ''ip_committed''),
     (''ip_id'', JNum (int ip_id)), (''owner'', JStr owner), (''commitment_hash'', JStr h),
     (''timestamp'', JNum (int t))]"
| "contract_event_json (SwapInitiated swap_id ip_id seller buyer price) =
     JObj [(''type'', JStr ''swap_initiated''), (''swap_id'', JNum (int swap_id)),
     (''ip_id'', JNum (int ip_id)), (''seller'', JStr seller), (''buyer'', JStr buyer),
     (''price'', JNum (int price))]"
| "contract_event_json (SwapAccepted swap_id buyer) = JObj [(''type'', JStr ''swap_accepted''),
     (''swap_id'', JNum (int swap_id)), (''buyer'', JStr buyer)]"
| "contract_event_json (SwapCompleted swap_id seller buyer) = JObj [(''type'', JStr ''swap_completed''),
     (''swap_id'', JNum (int swap_id)), (''seller'', JStr seller), (''buyer'', JStr buyer)]"

definition u64_member :: "string \<Rightarrow> json \<Rightarrow> nat option" where
  "u64_member n j = Option.bind (member n j) json_u64"
definition string_member :: "string \<Rightarrow> json \<Rightarrow> string option" where
  "string_member n j = Option.bind (member n j) json_string"

definition contract_event_of_json :: "json \<Rightarrow> ContractEvent option" where
  "contract_event_of_json j = Option.bind (string_member ''type'' j) (\<lambda>tag.
     if tag = ''ip_committed'' then
       Option.bind (u64_member ''ip_id'' j) (\<lambda>i. Option.bind (string_member ''owner'' j) (\<lambda>owner.
       Option.bind (string_member ''commitment_hash'' j) (\<lambda>h.
       Option.bind (u64_member ''timestamp'' j) (\<lambda>t. Some (IpCommitted i owner h t)))))
     else if tag = ''swap_initiated'' then
       Option.bind (u64_member ''swap_id'' j) (\<lambda>k. Option.bind (u64_member ''ip_id'' j) (\<lambda>i.
       Option.bind (string_member ''seller'' j) (\<lambda>a. Option.bind (string_member ''buyer'' j) (\<lambda>b.
       Option.bind (u64_member ''price'' j) (\<lambda>p. Some (SwapInitiated k i a b p))))))
     else if tag = ''swap_accepted'' then
       Option.bind (u64_member ''swap_id'' j) (\<lambda>k. Option.bind (string_member ''buyer'' j) (\<lambda>b.
       Some (SwapAccepted k b)))
     else if tag = ''swap_completed'' then
       Option.bind (u64_member ''swap_id'' j) (\<lambda>k. Option.bind (string_member ''seller'' j) (\<lambda>a.
       Option.bind (string_member ''buyer'' j) (\<lambda>b. Some (SwapCompleted k a b))))
     else None)"

definition events_stream :: "server \<Rightarrow> ContractEvent option list \<Rightarrow> bytes list" where
  "events_stream K received = List.map_filter (map_option (\<lambda>e. sv_write K (contract_event_json e))) received"

fun event_u64s :: "ContractEvent \<Rightarrow> nat list" where
  "event_u64s (IpCommitted i owner h t) = [i, t]"
| "event_u64s (SwapInitiated k i a b p) = [k, i, p]"
| "event_u64s (SwapAccepted k b) = [k]"
| "event_u64s (SwapCompleted k a b) = [k]"

lemma contract_event_roundtrip:
  "list_all (\<lambda>n. n < 2 ^ 64) (event_u64s e) \<Longrightarrow> contract_event_of_json (contract_event_json e) = Some e"
  by (cases e) (simp_all add: contract_event_of_json_def u64_member_def string_member_def)

text \<open>A client that reads the stream gets back the events sent, in order, but for the skipped ones.\<close>

lemma events_stream_decoded:
  assumes "\<And>e. Some e \<in> set received \<Longrightarrow> list_all (\<lambda>n. n < 2 ^ 64) (event_u64s e) \<and>
      sv_read K (sv_write K (contract_event_json e)) = Some (contract_event_json e)"
  shows "map (\<lambda>t. Option.bind (sv_read K t) contract_event_of_json) (events_stream K received) =
    filter (\<lambda>x. x \<noteq> None) received"
  using assms
proof (induction received)
  case (Cons x received)
  then show ?case
    by (cases x) (simp_all add: events_stream_def map_filter_simps contract_event_roundtrip)
qed (simp add: events_stream_def map_filter_simps)

section \<open>GraphQL\<close>

record SwapConnection =
  sc_swap_ids :: "nat list"
  sc_has_next_page :: bool
  sc_cursor :: "string option"

record DisputeEvidence =
  de_swap_id :: nat
  de_submitter :: string
  de_evidence_hash :: string
  de_timestamp :: nat

datatype GqlSwapStatus = GqlPending | GqlAccepted | GqlCompleted | GqlDisputed | GqlCancelled

record GqlSwapRecord =
  gs_swap_id :: nat
  gs_ip_id :: nat
  gs_seller :: string
  gs_buyer :: string
  gs_price :: string
  gs_token :: string
  gs_status :: GqlSwapStatus
  gs_expiry :: nat
  gs_arbitrator :: "string option"

text \<open>The score of a reputation is a floating-point number that is only handed on: a type parameter.\<close>

record 'f Reputation =
  rp_address :: string
  rp_total_swaps :: nat
  rp_completed_swaps :: nat
  rp_disputed_swaps :: nat
  rp_reputation_score :: 'f

record 'f rpc_client =
  rc_get_ip_record :: "nat \<Rightarrow> string + ApiIpRecord option"
  rc_get_swap_record :: "nat \<Rightarrow> string + GqlSwapRecord option"
  rc_get_swaps_by_seller :: "string \<Rightarrow> nat \<Rightarrow> string option \<Rightarrow> string + SwapConnection"
  rc_get_swaps_by_buyer :: "string \<Rightarrow> nat \<Rightarrow> string option \<Rightarrow> string + SwapConnection"
  rc_get_swaps_by_ip :: "nat \<Rightarrow> nat \<Rightarrow> string option \<Rightarrow> string + SwapConnection"
  rc_get_dispute_evidence :: "nat \<Rightarrow> string + DisputeEvidence list"
  rc_get_reputation :: "string \<Rightarrow> string + 'f Reputation option"

definition empty_connection :: SwapConnection where
  "empty_connection = \<lparr>sc_swap_ids = [], sc_has_next_page = False, sc_cursor = None\<rparr>"

definition mock_client :: "'f rpc_client" where
  "mock_client = \<lparr>rc_get_ip_record = (\<lambda>_. Inr None), rc_get_swap_record = (\<lambda>_. Inr None),
     rc_get_swaps_by_seller = (\<lambda>_ _ _. Inr empty_connection),
     rc_get_swaps_by_buyer = (\<lambda>_ _ _. Inr empty_connection),
     rc_get_swaps_by_ip = (\<lambda>_ _ _. Inr empty_connection), rc_get_dispute_evidence = (\<lambda>_. Inr []),
     rc_get_reputation = (\<lambda>_. Inr None)\<rparr>"

text \<open>A schema built without a client falls back on the mock.\<close>

definition get_rpc_client :: "'f rpc_client option \<Rightarrow> 'f rpc_client" where
  "get_rpc_client ctx = unwrap_or mock_client ctx"

definition query_ip :: "'f rpc_client option \<Rightarrow> nat \<Rightarrow> string + ApiIpRecord option" where
  "query_ip ctx ip_id = rc_get_ip_record (get_rpc_client ctx) ip_id"
definition query_swap :: "'f rpc_client option \<Rightarrow> nat \<Rightarrow> string + GqlSwapRecord option" where
  "query_swap ctx swap_id = rc_get_swap_record (get_rpc_client ctx) swap_id"
definition query_swaps_by_seller ::
    "'f rpc_client option \<Rightarrow> string \<Rightarrow> nat option \<Rightarrow> string option \<Rightarrow> string + SwapConnection" where
  "query_swaps_by_seller ctx seller limit cursor =
     rc_get_swaps_by_seller (get_rpc_client ctx) seller (unwrap_or 50 limit) cursor"
definition query_swaps_by_buyer ::
    "'f rpc_client option \<Rightarrow> string \<Rightarrow> nat option \<Rightarrow> string option \<Rightarrow> string + SwapConnection" where
  "query_swaps_by_buyer ctx buyer limit cursor =
     rc_get_swaps_by_buyer (get_rpc_client ctx) buyer (unwrap_or 50 limit) cursor"
definition query_swaps_by_ip ::
    "'f rpc_client option \<Rightarrow> nat \<Rightarrow> nat option \<Rightarrow> string option \<Rightarrow> string + SwapConnection" where
  "query_swaps_by_ip ctx ip_id limit cursor =
     rc_get_swaps_by_ip (get_rpc_client ctx) ip_id (unwrap_or 50 limit) cursor"
definition query_dispute_evidence :: "'f rpc_client option \<Rightarrow> nat \<Rightarrow> string + DisputeEvidence list" where
  "query_dispute_evidence ctx swap_id = rc_get_dispute_evidence (get_rpc_client ctx) swap_id"
definition query_reputation :: "'f rpc_client option \<Rightarrow> string \<Rightarrow> string + 'f Reputation option" where
  "query_reputation ctx a = rc_get_reputation (get_rpc_client ctx) a"

text \<open>The schema of \<open>build_schema\<close> has no client, so every query of the server is answered empty.\<close>

lemma queries_of_mock [simp]:
  "query_ip None i = Inr None" "query_swap None i = Inr None"
  "query_swaps_by_seller None a limit cursor = Inr empty_connection"
  "query_swaps_by_buyer None a limit cursor = Inr empty_connection"
  "query_swaps_by_ip None i limit cursor = Inr empty_connection"
  "query_dispute_evidence None i = Inr []" "query_reputation None a = Inr None"
  by (simp_all add: query_ip_def query_swap_def query_swaps_by_seller_def query_swaps_by_buyer_def
      query_swaps_by_ip_def query_dispute_evidence_def query_reputation_def get_rpc_client_def mock_client_def)

end
