(* ===== verification/Api_Requests.thy ===== *)
theory Api_Requests
  imports Api_Endpoints
begin

text \<open>
  The bodies and query strings of the requests (\<open>schemas.rs\<close>): the structs as records, and what the
  deserialisers and serialisers derived for them read and write. The texts of JSON are the business of
  the parser \<open>sv_read\<close>; here a struct is read from a JSON value.
\<close>

section \<open>Derived deserialisers\<close>

text \<open>
  A struct is read from an object or from an array. In an object the order of the members does not
  matter, unknown members are skipped and a repeated one is an error; an array has to have exactly one
  element per field, in the order of the fields.
\<close>

definition json_struct :: "string list \<Rightarrow> json \<Rightarrow> (string \<times> json) list option" where
  "json_struct names j =
     (case j of
        JObj fs \<Rightarrow>
          let known = filter (\<lambda>f. fst f \<in> set names) fs
          in if distinct (map fst known) then Some known else None
      | JArr vs \<Rightarrow> if length vs = length names then Some (zip names vs) else None
      | _ \<Rightarrow> None)"

definition need :: "(json \<Rightarrow> 'a option) \<Rightarrow> string \<Rightarrow> (string \<times> json) list \<Rightarrow> 'a option" where
  "need f name fs = Option.bind (map_of fs name) f"

definition perhaps :: "(json \<Rightarrow> 'a option) \<Rightarrow> string \<Rightarrow> (string \<times> json) list \<Rightarrow> 'a option option" where
  "perhaps f name fs = opt_of_json f (map_of fs name)"

lemmas struct_defs = json_struct_def need_def perhaps_def opt_of_json_def json_opt_def

definition strings_json :: "string list \<Rightarrow> json" where "strings_json xs = JArr (map JStr xs)"
definition amounts_json :: "int list \<Rightarrow> json" where "amounts_json xs = JArr (map JNum xs)"

definition amount_ok :: "int \<Rightarrow> bool" where
  "amount_ok k \<longleftrightarrow> - (2 ^ 127) \<le> k \<and> k < 2 ^ 127"

lemma json_vec_map: "list_all (\<lambda>x. f (g x) = Some x) xs \<Longrightarrow> json_vec f (JArr (map g xs)) = Some xs"
proof -
  assume "list_all (\<lambda>x. f (g x) = Some x) xs"
  then have "all_some (map (f \<circ> g) xs) = Some xs" by (induction xs) simp_all
  then show "json_vec f (JArr (map g xs)) = Some xs" by (simp add: json_vec_def)
qed

lemma amount_read [simp]: "amount_ok k \<Longrightarrow> json_i128 (JNum k) = Some k"
  by (simp add: json_i128_def amount_ok_def)

lemma strings_json_read [simp]: "json_vec json_string (strings_json xs) = Some xs"
  unfolding strings_json_def by (rule json_vec_map) (simp add: list_all_iff)

lemma amounts_json_read [simp]: "list_all amount_ok xs \<Longrightarrow> json_vec json_i128 (amounts_json xs) = Some xs"
  unfolding amounts_json_def by (rule json_vec_map) (simp add: list_all_iff)

lemma numbers_json_read [simp]: "list_all (\<lambda>n. n < 2 ^ 64) ns \<Longrightarrow> json_vec json_u64 (numbers_json ns) = Some ns"
  by (simp add: numbers_json_def)

section \<open>Registry requests\<close>

record CommitIpRequest =
  cm_owner :: string
  cm_commitment_hash :: string

definition commit_ip_request_json :: "CommitIpRequest \<Rightarrow> json" where
  "commit_ip_request_json r = JObj [(''owner'', JStr (cm_owner r)),
     (''commitment_hash'', JStr (cm_commitment_hash r))]"

definition commit_ip_request_of_json :: "json \<Rightarrow> CommitIpRequest option" where
  "commit_ip_request_of_json j =
     Option.bind (json_struct [''owner'', ''commitment_hash''] j) (\<lambda>fs.
     Option.bind (need json_string ''owner'' fs) (\<lambda>owner.
     Option.bind (need json_string ''commitment_hash'' fs) (\<lambda>commitment_hash.
     Some \<lparr>cm_owner = owner, cm_commitment_hash = commitment_hash\<rparr>)))"

record TransferIpRequest =
  tr_ip_id :: nat
  tr_new_owner :: string

definition transfer_ip_request_json :: "TransferIpRequest \<Rightarrow> json" where
  "transfer_ip_request_json r = JObj [(''ip_id'', JNum (int (tr_ip_id r))),
     (''new_owner'', JStr (tr_new_owner r))]"

definition transfer_ip_request_of_json :: "json \<Rightarrow> TransferIpRequest option" where
  "transfer_ip_request_of_json j =
     Option.bind (json_struct [''ip_id'', ''new_owner''] j) (\<lambda>fs.
     Option.bind (need json_u64 ''ip_id'' fs) (\<lambda>ip_id.
     Option.bind (need json_string ''new_owner'' fs) (\<lambda>new_owner.
     Some \<lparr>tr_ip_id = ip_id, tr_new_owner = new_owner\<rparr>)))"

record VerifyCommitmentRequest =
  ve_ip_id :: nat
  ve_secret :: string
  ve_blinding_factor :: string

definition verify_commitment_request_json :: "VerifyCommitmentRequest \<Rightarrow> json" where
  "verify_commitment_request_json r = JObj [(''ip_id'', JNum (int (ve_ip_id r))),
     (''secret'', JStr (ve_secret r)), (''blinding_factor'', JStr (ve_blinding_factor r))]"

definition verify_commitment_request_of_json :: "json \<Rightarrow> VerifyCommitmentRequest option" where
  "verify_commitment_request_of_json j =
     Option.bind (json_struct [''ip_id'', ''secret'', ''blinding_factor''] j) (\<lambda>fs.
     Option.bind (need json_u64 ''ip_id'' fs) (\<lambda>ip_id.
     Option.bind (need json_string ''secret'' fs) (\<lambda>secret.
     Option.bind (need json_string ''blinding_factor'' fs) (\<lambda>blinding_factor.
     Some \<lparr>ve_ip_id = ip_id, ve_secret = secret, ve_blinding_factor = blinding_factor\<rparr>))))"

section \<open>Swap requests\<close>

record InitiateSwapRequest =
  is_ip_registry_id :: string
  is_ip_id :: nat
  is_seller :: string
  is_price :: int
  is_buyer :: string
  is_token :: string
  is_referrer :: "string option"

definition initiate_swap_request_json :: "InitiateSwapRequest \<Rightarrow> json" where
  "initiate_swap_request_json r = JObj [(''ip_registry_id'', JStr (is_ip_registry_id r)),
     (''ip_id'', JNum (int (is_ip_id r))), (''seller'', JStr (is_seller r)), (''price'', JNum (is_price r)),
     (''buyer'', JStr (is_buyer r)), (''token'', JStr (is_token r)),
     (''referrer'', json_opt JStr (is_referrer r))]"

definition initiate_swap_request_of_json :: "json \<Rightarrow> InitiateSwapRequest option" where
  "initiate_swap_request_of_json j =
     Option.bind (json_struct [''ip_registry_id'', ''ip_id'', ''seller'', ''price'', ''buyer'', ''token'',
       ''referrer''] j) (\<lambda>fs.
     Option.bind (need json_string ''ip_registry_id'' fs) (\<lambda>registry.
     Option.bind (need json_u64 ''ip_id'' fs) (\<lambda>ip_id.
     Option.bind (need json_string ''seller'' fs) (\<lambda>seller.
     Option.bind (need json_i128 ''price'' fs) (\<lambda>price.
     Option.bind (need json_string ''buyer'' fs) (\<lambda>buyer.
     Option.bind (need json_string ''token'' fs) (\<lambda>token.
     Option.bind (perhaps json_string ''referrer'' fs) (\<lambda>referrer.
     Some \<lparr>is_ip_registry_id = registry, is_ip_id = ip_id, is_seller = seller, is_price = price,
       is_buyer = buyer, is_token = token, is_referrer = referrer\<rparr>))))))))"

definition batch_initiate_swap_request_json :: "BatchInitiateSwapRequest \<Rightarrow> json" where
  "batch_initiate_swap_request_json r = JObj [(''ip_registry_id'', JStr (bi_ip_registry_id r)),
     (''ip_ids'', numbers_json (bi_ip_ids r)), (''seller'', JStr (bi_seller r)),
     (''prices'', amounts_json (bi_prices r)), (''buyer'', JStr (bi_buyer r)),
     (''token'', JStr (bi_token r)), (''referrer'', json_opt JStr (bi_referrer r)),
     (''idempotency_key'', json_opt JStr (bi_idempotency_key r))]"

definition batch_initiate_swap_request_of_json :: "json \<Rightarrow> BatchInitiateSwapRequest option" where
  "batch_initiate_swap_request_of_json j =
     Option.bind (json_struct [''ip_registry_id'', ''ip_ids'', ''seller'', ''prices'', ''buyer'', ''token'',
       ''referrer'', ''idempotency_key''] j) (\<lambda>fs.
     Option.bind (need json_string ''ip_registry_id'' fs) (\<lambda>registry.
     Option.bind (need (json_vec json_u64) ''ip_ids'' fs) (\<lambda>ip_ids.
     Option.bind (need json_string ''seller'' fs) (\<lambda>seller.
     Option.bind (need (json_vec json_i128) ''prices'' fs) (\<lambda>prices.
     Option.bind (need json_string ''buyer'' fs) (\<lambda>buyer.
     Option.bind (need json_string ''token'' fs) (\<lambda>token.
     Option.bind (perhaps json_string ''referrer'' fs) (\<lambda>referrer.
     Option.bind (perhaps json_string ''idempotency_key'' fs) (\<lambda>key.
     Some \<lparr>bi_ip_registry_id = registry, bi_ip_ids = ip_ids, bi_seller = seller, bi_prices = prices,
       bi_buyer = buyer, bi_token = token, bi_referrer = referrer, bi_idempotency_key = key\<rparr>)))))))))"

record AcceptSwapRequest = ac_buyer :: string

definition accept_swap_request_json :: "AcceptSwapRequest \<Rightarrow> json" where
  "accept_swap_request_json r = JObj [(''buyer'', JStr (ac_buyer r))]"

definition accept_swap_request_of_json :: "json \<Rightarrow> AcceptSwapRequest option" where
  "accept_swap_request_of_json j =
     Option.bind (json_struct [''buyer''] j) (\<lambda>fs.
     Option.bind (need json_string ''buyer'' fs) (\<lambda>buyer. Some \<lparr>ac_buyer = buyer\<rparr>))"

record RevealKeyRequest =
  rk_caller :: string
  rk_secret :: string
  rk_blinding_factor :: string

definition reveal_key_request_json :: "RevealKeyRequest \<Rightarrow> json" where
  "reveal_key_request_json r = JObj [(''caller'', JStr (rk_caller r)), (''secret'', JStr (rk_secret r)),
     (''blinding_factor'', JStr (rk_blinding_factor r))]"

definition reveal_key_request_of_json :: "json \<Rightarrow> RevealKeyRequest option" where
  "reveal_key_request_of_json j =
     Option.bind (json_struct [''caller'', ''secret'', ''blinding_factor''] j) (\<lambda>fs.
     Option.bind (need json_string ''caller'' fs) (\<lambda>caller.
     Option.bind (need json_string ''secret'' fs) (\<lambda>secret.
     Option.bind (need json_string ''blinding_factor'' fs) (\<lambda>blinding_factor.
     Some \<lparr>rk_caller = caller, rk_secret = secret, rk_blinding_factor = blinding_factor\<rparr>))))"

record CancelSwapRequest = cs_canceller :: string

definition cancel_swap_request_json :: "CancelSwapRequest \<Rightarrow> json" where
  "cancel_swap_request_json r = JObj [(''canceller'', JStr (cs_canceller r))]"

definition cancel_swap_request_of_json :: "json \<Rightarrow> CancelSwapRequest option" where
  "cancel_swap_request_of_json j =
     Option.bind (json_struct [''canceller''] j) (\<lambda>fs.
     Option.bind (need json_string ''canceller'' fs) (\<lambda>canceller. Some \<lparr>cs_canceller = canceller\<rparr>))"

record CancelExpiredSwapRequest = ce_caller :: string

definition cancel_expired_swap_request_json :: "CancelExpiredSwapRequest \<Rightarrow> json" where
  "cancel_expired_swap_request_json r = JObj [(''caller'', JStr (ce_caller r))]"

definition cancel_expired_swap_request_of_json :: "json \<Rightarrow> CancelExpiredSwapRequest option" where
  "cancel_expired_swap_request_of_json j =
     Option.bind (json_struct [''caller''] j) (\<lambda>fs.
     Option.bind (need json_string ''caller'' fs) (\<lambda>caller. Some \<lparr>ce_caller = caller\<rparr>))"

section \<open>Webhook and bulk requests\<close>

record RegisterWebhookRequest =
  rw_url :: string
  rw_events :: "string list"

definition register_webhook_request_json :: "RegisterWebhookRequest \<Rightarrow> json" where
  "register_webhook_request_json r = JObj [(''url'', JStr (rw_url r)), (''events'', strings_json (rw_events r))]"

definition register_webhook_request_of_json :: "json \<Rightarrow> RegisterWebhookRequest option" where
  "register_webhook_request_of_json j =
     Option.bind (json_struct [''url'', ''events''] j) (\<lambda>fs.
     Option.bind (need json_string ''url'' fs) (\<lambda>url.
     Option.bind (need (json_vec json_string) ''events'' fs) (\<lambda>events.
     Some \<lparr>rw_url = url, rw_events = events\<rparr>)))"

record BulkCommitIpRequest =
  bc_owner :: string
  bc_commitment_hashes :: "string list"

definition bulk_commit_ip_request_json :: "BulkCommitIpRequest \<Rightarrow> json" where
  "bulk_commit_ip_request_json r = JObj [(''owner'', JStr (bc_owner r)),
     (''commitment_hashes'', strings_json (bc_commitment_hashes r))]"

definition bulk_commit_ip_request_of_json :: "json \<Rightarrow> BulkCommitIpRequest option" where
  "bulk_commit_ip_request_of_json j =
     Option.bind (json_struct [''owner'', ''commitment_hashes''] j) (\<lambda>fs.
     Option.bind (need json_string ''owner'' fs) (\<lambda>owner.
     Option.bind (need (json_vec json_string) ''commitment_hashes'' fs) (\<lambda>hashes.
     Some \<lparr>bc_owner = owner, bc_commitment_hashes = hashes\<rparr>)))"

record BulkInitiateSwapRequest =
  bs_ip_registry_id :: string
  bs_ip_ids :: "nat list"
  bs_seller :: string
  bs_prices :: "int list"
  bs_buyer :: string
  bs_token :: string
  bs_referrer :: "string option"

definition bulk_initiate_swap_request_json :: "BulkInitiateSwapRequest \<Rightarrow> json" where
  "bulk_initiate_swap_request_json r = JObj [(''ip_registry_id'', JStr (bs_ip_registry_id r)),
     (''ip_ids'', numbers_json (bs_ip_ids r)), (''seller'', JStr (bs_seller r)),
     (''prices'', amounts_json (bs_prices r)), (''buyer'', JStr (bs_buyer r)),
     (''token'', JStr (bs_token r)), (''referrer'', json_opt JStr (bs_referrer r))]"

definition bulk_initiate_swap_request_of_json :: "json \<Rightarrow> BulkInitiateSwapRequest option" where
  "bulk_initiate_swap_request_of_json j =
     Option.bind (json_struct [''ip_registry_id'', ''ip_ids'', ''seller'', ''prices'', ''buyer'', ''token'',
       ''referrer''] j) (\<lambda>fs.
     Option.bind (need json_string ''ip_registry_id'' fs) (\<lambda>registry.
     Option.bind (need (json_vec json_u64) ''ip_ids'' fs) (\<lambda>ip_ids.
     Option.bind (need json_string ''seller'' fs) (\<lambda>seller.
     Option.bind (need (json_vec json_i128) ''prices'' fs) (\<lambda>prices.
     Option.bind (need json_string ''buyer'' fs) (\<lambda>buyer.
     Option.bind (need json_string ''token'' fs) (\<lambda>token.
     Option.bind (perhaps json_string ''referrer'' fs) (\<lambda>referrer.
     Some \<lparr>bs_ip_registry_id = registry, bs_ip_ids = ip_ids, bs_seller = seller, bs_prices = prices,
       bs_buyer = buyer, bs_token = token, bs_referrer = referrer\<rparr>))))))))"

section \<open>Query strings\<close>

text \<open>
  The pairs of a query string, in order. A field that is missing takes its default, a repeated one and a
  number that does not parse are errors.
\<close>

definition query_fields :: "string list \<Rightarrow> (string \<times> string) list \<Rightarrow> (string \<times> string) list option" where
  "query_fields names pairs =
     (let known = filter (\<lambda>f. fst f \<in> set names) pairs
      in if distinct (map fst known) then Some known else None)"

definition query_u64 :: "nat \<Rightarrow> string \<Rightarrow> (string \<times> string) list \<Rightarrow> nat option" where
  "query_u64 missing name fs = (case map_of fs name of None \<Rightarrow> Some missing | Some v \<Rightarrow> parse_u64 v)"

definition default_limit :: nat where "default_limit = 50"

record PaginationParams =
  pp_limit :: nat
  pp_offset :: nat

definition pagination_of_query :: "(string \<times> string) list \<Rightarrow> PaginationParams option" where
  "pagination_of_query pairs =
     Option.bind (query_fields [''limit'', ''offset''] pairs) (\<lambda>fs.
     Option.bind (query_u64 default_limit ''limit'' fs) (\<lambda>limit.
     Option.bind (query_u64 0 ''offset'' fs) (\<lambda>offset.
     Some \<lparr>pp_limit = limit, pp_offset = offset\<rparr>)))"

record CursorPaginationParams =
  cp_limit :: nat
  cp_cursor :: "string option"

definition cursor_pagination_of_query :: "(string \<times> string) list \<Rightarrow> CursorPaginationParams option" where
  "cursor_pagination_of_query pairs =
     Option.bind (query_fields [''limit'', ''cursor''] pairs) (\<lambda>fs.
     Option.bind (query_u64 default_limit ''limit'' fs) (\<lambda>limit.
     Some \<lparr>cp_limit = limit, cp_cursor = map_of fs ''cursor''\<rparr>))"

section \<open>Batches\<close>

definition single_request_of_json :: "json \<Rightarrow> SingleRequest option" where
  "single_request_of_json j =
     Option.bind (json_struct [''id'', ''method'', ''path'', ''body''] j) (\<lambda>fs.
     Option.bind (need json_string ''id'' fs) (\<lambda>i.
     Option.bind (need json_string ''method'' fs) (\<lambda>meth.
     Option.bind (need json_string ''path'' fs) (\<lambda>path.
     Option.bind (perhaps Some ''body'' fs) (\<lambda>body.
     Some \<lparr>sr_id = i, sr_method = meth, sr_path = path, sr_body = body\<rparr>)))))"

definition batch_request_of_json :: "json \<Rightarrow> SingleRequest list option" where
  "batch_request_of_json j =
     Option.bind (json_struct [''requests''] j) (need (json_vec single_request_of_json) ''requests'')"

definition single_response_json :: "SingleResponse \<Rightarrow> json" where
  "single_response_json r = JObj [(''id'', JStr (ss_id r)), (''status'', JNum (int (ss_status r))),
     (''body'', ss_body r)]"

definition batch_response_json :: "SingleResponse list \<Rightarrow> json" where
  "batch_response_json responses = JObj [(''responses'', JArr (map single_response_json responses))]"

section \<open>Round trips\<close>

lemma commit_ip_request_read: "commit_ip_request_of_json (commit_ip_request_json r) = Some r"
  by (simp add: commit_ip_request_of_json_def commit_ip_request_json_def struct_defs Let_def)

lemma transfer_ip_request_read:
  "tr_ip_id r < 2 ^ 64 \<Longrightarrow> transfer_ip_request_of_json (transfer_ip_request_json r) = Some r"
  by (simp add: transfer_ip_request_of_json_def transfer_ip_request_json_def struct_defs Let_def)

lemma verify_commitment_request_read:
  "ve_ip_id r < 2 ^ 64 \<Longrightarrow> verify_commitment_request_of_json (verify_commitment_request_json r) = Some r"
  by (simp add: verify_commitment_request_of_json_def verify_commitment_request_json_def struct_defs Let_def)

lemma initiate_swap_request_read:
  "is_ip_id r < 2 ^ 64 \<Longrightarrow> amount_ok (is_price r) \<Longrightarrow>
    initiate_swap_request_of_json (initiate_swap_request_json r) = Some r"
  by (cases "is_referrer r")
    (simp_all add: initiate_swap_request_of_json_def initiate_swap_request_json_def struct_defs Let_def)

lemma swap_request_reads:
  "accept_swap_request_of_json (accept_swap_request_json a) = Some a"
  "reveal_key_request_of_json (reveal_key_request_json k) = Some k"
  "cancel_swap_request_of_json (cancel_swap_request_json c) = Some c"
  "cancel_expired_swap_request_of_json (cancel_expired_swap_request_json e) = Some e"
  "register_webhook_request_of_json (register_webhook_request_json w) = Some w"
  "bulk_commit_ip_request_of_json (bulk_commit_ip_request_json b) = Some b"
  by (simp_all add: accept_swap_request_of_json_def accept_swap_request_json_def
      reveal_key_request_of_json_def reveal_key_request_json_def cancel_swap_request_of_json_def
      cancel_swap_request_json_def cancel_expired_swap_request_of_json_def cancel_expired_swap_request_json_def
      register_webhook_request_of_json_def register_webhook_request_json_def
      bulk_commit_ip_request_of_json_def bulk_commit_ip_request_json_def struct_defs Let_def)

lemma batch_initiate_swap_request_read:
  "list_all (\<lambda>i. i < 2 ^ 64) (bi_ip_ids r) \<Longrightarrow> list_all amount_ok (bi_prices r) \<Longrightarrow>
    batch_initiate_swap_request_of_json (batch_initiate_swap_request_json r) = Some r"
  by (cases "bi_referrer r"; cases "bi_idempotency_key r")
    (simp_all add: batch_initiate_swap_request_of_json_def batch_initiate_swap_request_json_def struct_defs Let_def)

lemma bulk_initiate_swap_request_read:
  "list_all (\<lambda>i. i < 2 ^ 64) (bs_ip_ids r) \<Longrightarrow> list_all amount_ok (bs_prices r) \<Longrightarrow>
    bulk_initiate_swap_request_of_json (bulk_initiate_swap_request_json r) = Some r"
  by (cases "bs_referrer r")
    (simp_all add: bulk_initiate_swap_request_of_json_def bulk_initiate_swap_request_json_def struct_defs Let_def)

end
