(* ===== verification/Api_Docs.thy ===== *)
theory Api_Docs
  imports Api_Requests
begin

text \<open>
  The published description of the API: the annotations of the handlers (\<open>handlers.rs\<close>, \<open>batch.rs\<close>,
  \<open>events.rs\<close>) and the document \<open>main.rs\<close> collects them into, as data, and the agreement of the handlers'
  answers with it.
\<close>

section \<open>The annotations\<close>

text \<open>
  A parameter has a name, a type and a description; a set of query parameters is named by its struct. A
  response has a status, a description and the schema of its body.
\<close>

record operation =
  op_method :: string
  op_path :: string
  op_tag :: string
  op_params :: "(string \<times> string \<times> string) list"
  op_body :: "string option"
  op_responses :: "(nat \<times> string \<times> string option) list"

definition doc_commit_ip :: operation where
  "doc_commit_ip = \<lparr>op_method = ''POST'', op_path = ''/v1/ip/commit'',
     op_tag = ''IP Registry'',
     op_params = [],
     op_body = Some ''CommitIpRequest'',
     op_responses = [(200, ''IP committed successfully, returns assigned ip_id'', Some ''u64''),
       (400, ''Invalid request (zero hash, duplicate hash)'', Some ''ErrorResponse'')]\<rparr>"

definition doc_get_ip :: operation where
  "doc_get_ip = \<lparr>op_method = ''GET'', op_path = ''/v1/ip/{ip_id}'',
     op_tag = ''IP Registry'',
     op_params = [(''ip_id'', ''u64'', ''IP record identifier'')],
     op_body = None,
     op_responses = [(200, ''IP record found'', Some ''IpRecord''),
       (404, ''IP record not found'', Some ''ErrorResponse'')]\<rparr>"

definition doc_transfer_ip :: operation where
  "doc_transfer_ip = \<lparr>op_method = ''POST'', op_path = ''/v1/ip/transfer'',
     op_tag = ''IP Registry'',
     op_params = [],
     op_body = Some ''TransferIpRequest'',
     op_responses = [(200, ''Ownership transferred successfully'', None),
       (404, ''IP record not found'', Some ''ErrorResponse'')]\<rparr>"

definition doc_verify_commitment :: operation where
  "doc_verify_commitment = \<lparr>op_method = ''POST'', op_path = ''/v1/ip/verify'',
     op_tag = ''IP Registry'',
     op_params = [],
     op_body = Some ''VerifyCommitmentRequest'',
     op_responses = [(200, ''Verification result'', Some ''VerifyCommitmentResponse''),
       (404, ''IP record not found'', Some ''ErrorResponse'')]\<rparr>"

definition doc_list_ip_by_owner :: operation where
  "doc_list_ip_by_owner = \<lparr>op_method = ''GET'', op_path = ''/v1/ip/owner/{owner}'',
     op_tag = ''IP Registry'',
     op_params = [(''owner'', ''String'', ''Stellar address of the owner''), (''PaginationParams'', ''Query'', '''')],
     op_body = None,
     op_responses = [(200, ''Paginated list of IP IDs'', Some ''ListIpByOwnerResponse'')]\<rparr>"

definition doc_list_ip_by_owner_cursor :: operation where
  "doc_list_ip_by_owner_cursor = \<lparr>op_method = ''GET'', op_path = ''/v1/ip/owner/{owner}/cursor'',
     op_tag = ''IP Registry'',
     op_params = [(''owner'', ''String'', ''Stellar address of the owner''), (''CursorPaginationParams'', ''Query'', '''')],
     op_body = None,
     op_responses = [(200, ''Cursor-paginated list of IP IDs'', Some ''PaginatedResponse<u64>'')]\<rparr>"

definition doc_initiate_swap :: operation where
  "doc_initiate_swap = \<lparr>op_method = ''POST'', op_path = ''/v1/swap/initiate'',
     op_tag = ''Atomic Swap'',
     op_params = [],
     op_body = Some ''InitiateSwapRequest'',
     op_responses = [(200, ''Swap initiated, returns swap_id'', Some ''u64''),
       (400, ''Seller is not IP owner or active swap exists'', Some ''ErrorResponse'')]\<rparr>"

definition doc_batch_initiate_swap :: operation where
  "doc_batch_initiate_swap = \<lparr>op_method = ''POST'', op_path = ''/v1/swap/batch-initiate'',
     op_tag = ''Atomic Swap'',
     op_params = [],
     op_body = Some ''BatchInitiateSwapRequest'',
     op_responses = [(200, ''Swaps initiated, returns swap_ids'', Some ''BatchInitiateSwapResponse''),
       (400, ''Validation error (mismatched lengths, invalid IP, etc.)'', Some ''ErrorResponse'')]\<rparr>"

definition doc_accept_swap :: operation where
  "doc_accept_swap = \<lparr>op_method = ''POST'', op_path = ''/v1/swap/{swap_id}/accept'',
     op_tag = ''Atomic Swap'',
     op_params = [(''swap_id'', ''u64'', ''Swap identifier'')],
     op_body = Some ''AcceptSwapRequest'',
     op_responses = [(200, ''Swap accepted'', None),
       (400, ''Swap not in Pending state'', Some ''ErrorResponse''),
       (404, ''Swap not found'', Some ''ErrorResponse'')]\<rparr>"

definition doc_reveal_key :: operation where
  "doc_reveal_key = \<lparr>op_method = ''POST'', op_path = ''/v1/swap/{swap_id}/reveal'',
     op_tag = ''Atomic Swap'',
     op_params = [(''swap_id'', ''u64'', ''Swap identifier'')],
     op_body = Some ''RevealKeyRequest'',
     op_responses = [(200, ''Key revealed, swap completed'', None),
       (400, ''Swap not in Accepted state or caller is not seller'', Some ''ErrorResponse''),
       (404, ''Swap not found'', Some ''ErrorResponse'')]\<rparr>"

definition doc_cancel_swap :: operation where
  "doc_cancel_swap = \<lparr>op_method = ''POST'', op_path = ''/v1/swap/{swap_id}/cancel'',
     op_tag = ''Atomic Swap'',
     op_params = [(''swap_id'', ''u64'', ''Swap identifier'')],
     op_body = Some ''CancelSwapRequest'',
     op_responses = [(200, ''Swap cancelled'', None),
       (400, ''Swap not in Pending state or canceller is not seller/buyer'', Some ''ErrorResponse''),
       (404, ''Swap not found'', Some ''ErrorResponse'')]\<rparr>"

definition doc_cancel_expired_swap :: operation where
  "doc_cancel_expired_swap = \<lparr>op_method = ''POST'', op_path = ''/v1/swap/{swap_id}/cancel-expired'',
     op_tag = ''Atomic Swap'',
     op_params = [(''swap_id'', ''u64'', ''Swap identifier'')],
     op_body = Some ''CancelExpiredSwapRequest'',
     op_responses = [(200, ''Expired swap cancelled'', None),
       (400, ''Swap not expired, not Accepted, or caller is not buyer'', Some ''ErrorResponse''),
       (404, ''Swap not found'', Some ''ErrorResponse'')]\<rparr>"

definition doc_get_swap :: operation where
  "doc_get_swap = \<lparr>op_method = ''GET'', op_path = ''/v1/swap/{swap_id}'',
     op_tag = ''Atomic Swap'',
     op_params = [(''swap_id'', ''u64'', ''Swap identifier'')],
     op_body = None,
     op_responses = [(200, ''Swap record found'', Some ''SwapRecord''),
       (404, ''Swap not found'', Some ''ErrorResponse'')]\<rparr>"

definition doc_register_webhook :: operation where
  "doc_register_webhook = \<lparr>op_method = ''POST'', op_path = ''/v1/webhooks'',
     op_tag = ''Webhooks'',
     op_params = [],
     op_body = Some ''RegisterWebhookRequest'',
     op_responses = [(200, ''Webhook registered'', Some ''WebhookResponse''),
       (400, ''Invalid request'', Some ''ErrorResponse'')]\<rparr>"

definition doc_unregister_webhook :: operation where
  "doc_unregister_webhook = \<lparr>op_method = ''DELETE'', op_path = ''/v1/webhooks/{id}'',
     op_tag = ''Webhooks'',
     op_params = [(''id'', ''String'', ''Webhook UUID'')],
     op_body = None,
     op_responses = [(200, ''Webhook unregistered'', None),
       (404, ''Webhook not found'', Some ''ErrorResponse'')]\<rparr>"

definition doc_bulk_commit_ip :: operation where
  "doc_bulk_commit_ip = \<lparr>op_method = ''POST'', op_path = ''/v1/bulk/commit-ip'',
     op_tag = ''IP Registry'',
     op_params = [],
     op_body = Some ''BulkCommitIpRequest'',
     op_responses = [(200, ''Bulk commit completed with individual results'', Some ''BulkCommitIpResponse''),
       (400, ''Invalid request (empty hashes, etc.)'', Some ''ErrorResponse'')]\<rparr>"

definition doc_bulk_initiate_swap :: operation where
  "doc_bulk_initiate_swap = \<lparr>op_method = ''POST'', op_path = ''/v1/bulk/initiate-swap'',
     op_tag = ''Atomic Swap'',
     op_params = [],
     op_body = Some ''BulkInitiateSwapRequest'',
     op_responses = [(200, ''Bulk swap initiation completed with individual results'', Some ''BulkInitiateSwapResponse''),
       (400, ''Validation error (mismatched lengths, empty arrays, etc.)'', Some ''ErrorResponse'')]\<rparr>"

definition doc_batch_handler :: operation where
  "doc_batch_handler = \<lparr>op_method = ''POST'', op_path = ''/batch'',
     op_tag = ''Batch'',
     op_params = [],
     op_body = Some ''BatchRequest'',
     op_responses = [(200, ''Batch requests processed'', Some ''BatchResponse''),
       (400, ''Invalid batch request'', Some ''ErrorResponse'')]\<rparr>"

definition doc_events_handler :: operation where
  "doc_events_handler = \<lparr>op_method = ''GET'', op_path = ''/events'',
     op_tag = ''Events'',
     op_params = [],
     op_body = None,
     op_responses = [(200, ''Event stream established'', None)]\<rparr>"

section \<open>The document\<close>

record openapi =
  oa_title :: string
  oa_version :: string
  oa_description :: string
  oa_paths :: "operation list"
  oa_schemas :: "string list"
  oa_tags :: "(string \<times> string) list"

definition ApiDoc :: openapi where
  "ApiDoc = \<lparr>
     oa_title = ''Atomic Patent API'',
     oa_version = ''1.0.0'',
     oa_description =
       ''Machine-readable specification for the Atomic Patent Soroban smart contract interface.'',
     oa_paths = [doc_commit_ip, doc_get_ip, doc_transfer_ip, doc_verify_commitment, doc_list_ip_by_owner,
       doc_initiate_swap, doc_batch_initiate_swap, doc_accept_swap, doc_reveal_key, doc_cancel_swap,
       doc_cancel_expired_swap, doc_get_swap, doc_register_webhook, doc_unregister_webhook,
       doc_bulk_commit_ip, doc_bulk_initiate_swap, doc_batch_handler, doc_events_handler],
     oa_schemas = [''CommitIpRequest'', ''IpRecord'', ''TransferIpRequest'', ''VerifyCommitmentRequest'',
       ''VerifyCommitmentResponse'', ''ListIpByOwnerResponse'', ''InitiateSwapRequest'',
       ''BatchInitiateSwapRequest'', ''BatchInitiateSwapResponse'', ''AcceptSwapRequest'', ''RevealKeyRequest'',
       ''CancelSwapRequest'', ''CancelExpiredSwapRequest'', ''SwapRecord'', ''SwapStatus'', ''ErrorResponse'',
       ''RegisterWebhookRequest'', ''WebhookResponse'', ''BulkCommitIpRequest'', ''BulkCommitIpResponse'',
       ''BulkInitiateSwapRequest'', ''BulkInitiateSwapResponse'', ''BulkOperationResult'', ''BatchRequest'',
       ''BatchResponse'', ''SingleRequest'', ''SingleResponse'', ''ContractEvent''],
     oa_tags = [(''IP Registry'', ''Commit and query intellectual property records''),
       (''Atomic Swap'', ''Trustless patent sale via atomic swap''),
       (''Webhooks'', ''Real-time event notifications''),
       (''Batch'', ''Batch API operations''),
       (''Events'', ''Server-Sent Events stream'')]\<rparr>"

text \<open>The operation that documents a call.\<close>

fun call_doc :: "api_call \<Rightarrow> operation" where
  "call_doc PostIpCommit = doc_commit_ip"
| "call_doc (GetIp i) = doc_get_ip"
| "call_doc (PostIpTransfer i) = doc_transfer_ip"
| "call_doc (PostIpVerify i) = doc_verify_commitment"
| "call_doc (GetIpOwner ow l n) = doc_list_ip_by_owner"
| "call_doc (GetIpOwnerCursor ow l c) = doc_list_ip_by_owner_cursor"
| "call_doc PostSwapInitiate = doc_initiate_swap"
| "call_doc (PostSwapBatchInitiate body) = doc_batch_initiate_swap"
| "call_doc (PostSwapAccept i) = doc_accept_swap"
| "call_doc (PostSwapReveal i) = doc_reveal_key"
| "call_doc (PostSwapCancel i) = doc_cancel_swap"
| "call_doc (PostSwapCancelExpired i) = doc_cancel_expired_swap"
| "call_doc (GetSwap i) = doc_get_swap"
| "call_doc (PostWebhook url events) = doc_register_webhook"
| "call_doc (DeleteWebhook i) = doc_unregister_webhook"
| "call_doc (PostBulkCommit hashes) = doc_bulk_commit_ip"
| "call_doc (PostBulkInitiate ip_ids prices) = doc_bulk_initiate_swap"

definition documented_statuses :: "operation \<Rightarrow> nat list" where
  "documented_statuses op = map fst (op_responses op)"

lemmas doc_defs = doc_commit_ip_def doc_get_ip_def doc_transfer_ip_def doc_verify_commitment_def
  doc_list_ip_by_owner_def doc_list_ip_by_owner_cursor_def doc_initiate_swap_def doc_batch_initiate_swap_def
  doc_accept_swap_def doc_reveal_key_def doc_cancel_swap_def doc_cancel_expired_swap_def doc_get_swap_def
  doc_register_webhook_def doc_unregister_webhook_def doc_bulk_commit_ip_def doc_bulk_initiate_swap_def
  doc_batch_handler_def doc_events_handler_def

text \<open>The schemas an operation refers to, those of its body and of its answers.\<close>

definition referred_schemas :: "operation \<Rightarrow> string list" where
  "referred_schemas op =
     (case op_body op of None \<Rightarrow> [] | Some n \<Rightarrow> [n])
     @ concat (map (\<lambda>(_, _, n). case n of None \<Rightarrow> [] | Some n \<Rightarrow> [n]) (op_responses op))"

lemma documented_statuses_simps:
  "documented_statuses doc_commit_ip = [200, 400]" "documented_statuses doc_get_ip = [200, 404]"
  "documented_statuses doc_transfer_ip = [200, 404]" "documented_statuses doc_verify_commitment = [200, 404]"
  "documented_statuses doc_list_ip_by_owner = [200]" "documented_statuses doc_list_ip_by_owner_cursor = [200]"
  "documented_statuses doc_initiate_swap = [200, 400]" "documented_statuses doc_batch_initiate_swap = [200, 400]"
  "documented_statuses doc_accept_swap = [200, 400, 404]" "documented_statuses doc_reveal_key = [200, 400, 404]"
  "documented_statuses doc_cancel_swap = [200, 400, 404]"
  "documented_statuses doc_cancel_expired_swap = [200, 400, 404]"
  "documented_statuses doc_get_swap = [200, 404]" "documented_statuses doc_register_webhook = [200, 400]"
  "documented_statuses doc_unregister_webhook = [200, 404]"
  "documented_statuses doc_bulk_commit_ip = [200, 400]" "documented_statuses doc_bulk_initiate_swap = [200, 400]"
  by (simp_all add: documented_statuses_def doc_defs)

lemma handler_responses [simp]:
  "rs_status (error_response K code msg) = code" "rs_status (cached_response K j) = 200"
  "rs_status (missing_response K msg) = 404" "rs_status (bulk_response K results) = 200"
  by (simp_all add: error_response_def cached_response_def missing_response_def bulk_response_def)

lemma cached_page_status:
  "cached_page K f g key page st = (Some r, st') \<Longrightarrow> rs_status r = 200"
  by (auto simp: cached_page_def Let_def split: prod.splits option.splits)

text \<open>Every answer is documented but one: a malformed webhook id is answered 400.\<close>

lemma call_status_documented:
  assumes "exec_api K c st = (Some r, st')"
  shows "rs_status r \<in> set (documented_statuses (call_doc c)) \<longleftrightarrow>
    (\<forall>i. c = DeleteWebhook i \<longrightarrow> sv_parse_uuid K i \<noteq> None)"
proof (cases c)
  case (DeleteWebhook i)
  with assms show ?thesis
    by (auto simp: documented_statuses_simps unregister_webhook_handler_def webhook_unregister_def Let_def
        split: option.splits if_splits)
next
  case (GetIpOwner ow l n)
  with assms show ?thesis
    by (auto simp: documented_statuses_simps list_ip_by_owner_handler_def Let_def dest: cached_page_status)
next
  case (GetIpOwnerCursor ow l n)
  with assms show ?thesis
    by (auto simp: documented_statuses_simps list_ip_by_owner_cursor_handler_def Let_def dest: cached_page_status)
qed (use assms in \<open>auto simp: documented_statuses_simps commit_ip_handler_def get_ip_handler_def
      transfer_ip_handler_def verify_commitment_handler_def initiate_swap_handler_def
      batch_initiate_swap_handler_def accept_swap_handler_def reveal_key_handler_def cancel_swap_handler_def
      cancel_expired_swap_handler_def swap_step_handler_def get_swap_handler_def register_webhook_handler_def
      webhook_register_def bulk_commit_ip_handler_def bulk_initiate_swap_handler_def Let_def
      split: prod.splits option.splits if_splits\<close>)

lemma schemas_closed:
  "list_all (\<lambda>op. list_all (\<lambda>n. n = ''u64'' \<or> n \<in> set (oa_schemas ApiDoc)) (referred_schemas op))
    (oa_paths ApiDoc)"
  by (simp add: ApiDoc_def referred_schemas_def doc_defs)

end
