(* ===== verification/Api_Routes.thy ===== *)
theory Api_Routes
  imports Api_Docs
begin

text \<open>
  The applications \<open>main.rs\<close> builds: the two route tables, the extractors of the handlers, and the whole
  server as a service on requests. The router and the extractors of axum are parameters (\<open>axum\<close>); what is
  known of them from its documentation is the predicate \<open>axum_documented\<close>.
\<close>

section \<open>The framework\<close>

datatype rejection =
    NotFound
  | MethodNotAllowed
  | MissingPathParams
  | InvalidPathParam
  | InvalidQuery
  | MissingJsonContentType
  | JsonSyntaxError
  | JsonDataError
  | BodyTooLarge

datatype handler =
    H_openapi | H_docs | H_health | H_version | H_metrics | H_graphql | H_ws | H_events | H_batch
  | H_commit_ip | H_get_ip | H_transfer_ip | H_verify_commitment | H_list_ip_by_owner
  | H_initiate_swap | H_batch_initiate_swap | H_accept_swap | H_reveal_key | H_cancel_swap
  | H_cancel_expired_swap | H_get_swap | H_bulk_commit_ip | H_bulk_initiate_swap

text \<open>
  \<open>ax_route\<close> finds the pattern of a table a path matches, with the segments its parameters stand for;
  \<open>ax_method\<close> says which methods a method route takes; \<open>ax_decode\<close> undoes the percent encoding of a
  segment; \<open>ax_query\<close> splits a query string into its decoded pairs; \<open>ax_json\<close> is the part of the JSON
  extractor before the schema. \<open>ax_service\<close> gives the answers of the endpoints made by libraries, and
  \<open>ax_dropped\<close> stands for the answer a client does not get when a handler panics.
\<close>

record axum =
  ax_route :: "string list \<Rightarrow> string \<Rightarrow> (string \<times> string list) option"
  ax_method :: "string \<Rightarrow> string \<Rightarrow> bool"
  ax_decode :: "string \<Rightarrow> string option"
  ax_query :: "string \<Rightarrow> (string \<times> string) list option"
  ax_json :: "request \<Rightarrow> rejection + json"
  ax_reject :: "rejection \<Rightarrow> response"
  ax_service :: "handler \<Rightarrow> request \<Rightarrow> response"
  ax_dropped :: response

section \<open>The route tables\<close>

record route =
  rt_path :: string
  rt_method :: string
  rt_handler :: handler

definition get_route :: "string \<Rightarrow> handler \<Rightarrow> route" where
  "get_route path h = \<lparr>rt_path = path, rt_method = ''GET'', rt_handler = h\<rparr>"
definition post_route :: "string \<Rightarrow> handler \<Rightarrow> route" where
  "post_route path h = \<lparr>rt_path = path, rt_method = ''POST'', rt_handler = h\<rparr>"

definition build_app_routes :: "route list" where
  "build_app_routes =
     [get_route ''/health'' H_health,
      get_route ''/version'' H_version,
      post_route ''/v1/graphql'' H_graphql,
      post_route ''/v1/ip/commit'' H_commit_ip,
      get_route ''/v1/ip/:ip_id'' H_get_ip,
      post_route ''/v1/ip/transfer'' H_transfer_ip,
      post_route ''/v1/ip/verify'' H_verify_commitment,
      get_route ''/v1/ip/owner/:owner'' H_list_ip_by_owner,
      post_route ''/v1/swap/initiate'' H_initiate_swap,
      post_route ''/v1/swap/bulk/initiate'' H_batch_initiate_swap,
      post_route ''/v1/swap/:swap_id/accept'' H_accept_swap,
      post_route ''/v1/swap/:swap_id/reveal'' H_reveal_key,
      post_route ''/v1/swap/:swap_id/cancel'' H_cancel_swap,
      post_route ''/v1/swap/:swap_id/cancel-expired'' H_cancel_expired_swap,
      get_route ''/v1/swap/:swap_id'' H_get_swap,
      post_route ''/v1/bulk/commit-ip'' H_bulk_commit_ip,
      post_route ''/v1/bulk/initiate-swap'' H_bulk_initiate_swap]"

text \<open>The paths of the documentation pages are those of \<open>SwaggerUi\<close>.\<close>

definition swagger_routes :: "string \<Rightarrow> string \<Rightarrow> route list" where
  "swagger_routes ui url = [get_route ui H_docs, get_route url H_openapi]"

definition main_routes :: "route list" where
  "main_routes = swagger_routes ''/docs'' ''/openapi.json'' @
     [get_route ''/health'' H_health,
      get_route ''/metrics'' H_metrics,
      post_route ''/graphql'' H_graphql,
      get_route ''/ws'' H_ws,
      get_route ''/events'' H_events,
      post_route ''/batch'' H_batch,
      post_route ''/ip/commit'' H_commit_ip,
      get_route ''/ip/{ip_id}'' H_get_ip,
      post_route ''/ip/transfer'' H_transfer_ip,
      post_route ''/ip/verify'' H_verify_commitment,
      get_route ''/ip/owner/{owner}'' H_list_ip_by_owner,
      post_route ''/swap/initiate'' H_initiate_swap,
      post_route ''/swap/batch-initiate'' H_batch_initiate_swap,
      post_route ''/swap/{swap_id}/accept'' H_accept_swap,
      post_route ''/swap/{swap_id}/reveal'' H_reveal_key,
      post_route ''/swap/{swap_id}/cancel'' H_cancel_swap,
      post_route ''/swap/{swap_id}/cancel-expired'' H_cancel_expired_swap,
      get_route ''/swap/{swap_id}'' H_get_swap]"

section \<open>From a request to a call\<close>

definition resolve :: "axum \<Rightarrow> route list \<Rightarrow> request \<Rightarrow> rejection + (handler \<times> string list)" where
  "resolve X table req =
     (case ax_route X (map rt_path table) (rq_path req) of
        None \<Rightarrow> Inl NotFound
      | Some (pattern, args) \<Rightarrow>
          (case find (\<lambda>r. rt_path r = pattern \<and> ax_method X (rt_method r) (rq_method req)) table of
             None \<Rightarrow> Inl MethodNotAllowed
           | Some r \<Rightarrow> Inr (rt_handler r, args)))"

definition path_string :: "axum \<Rightarrow> string list \<Rightarrow> rejection + string" where
  "path_string X args =
     (case args of [a] \<Rightarrow> ok_or InvalidPathParam (ax_decode X a) | _ \<Rightarrow> Inl MissingPathParams)"

definition path_u64 :: "axum \<Rightarrow> string list \<Rightarrow> rejection + nat" where
  "path_u64 X args = bindE (path_string X args) (\<lambda>a. ok_or InvalidPathParam (parse_u64 a))"

definition json_body :: "axum \<Rightarrow> (json \<Rightarrow> 'a option) \<Rightarrow> request \<Rightarrow> rejection + 'a" where
  "json_body X of_json req = bindE (ax_json X req) (\<lambda>j. ok_or JsonDataError (of_json j))"

definition query_params ::
    "axum \<Rightarrow> ((string \<times> string) list \<Rightarrow> 'a option) \<Rightarrow> request \<Rightarrow> rejection + 'a" where
  "query_params X of_query req = ok_or InvalidQuery (Option.bind (ax_query X (rq_query req)) of_query)"

text \<open>The extractors run in the order of the arguments of the handler.\<close>

definition swap_extract ::
    "axum \<Rightarrow> (json \<Rightarrow> 'a option) \<Rightarrow> (nat \<Rightarrow> api_call) \<Rightarrow> string list \<Rightarrow> request \<Rightarrow> rejection + api_call" where
  "swap_extract X of_json call args req =
     bindE (path_u64 X args) (\<lambda>swap_id.
     bindE (json_body X of_json req) (\<lambda>body. Inr (call swap_id)))"

fun extract_call :: "axum \<Rightarrow> handler \<Rightarrow> string list \<Rightarrow> request \<Rightarrow> rejection + api_call" where
  "extract_call X H_commit_ip args req =
     bindE (json_body X commit_ip_request_of_json req) (\<lambda>body. Inr PostIpCommit)"
| "extract_call X H_get_ip args req = bindE (path_u64 X args) (\<lambda>ip_id. Inr (GetIp ip_id))"
| "extract_call X H_transfer_ip args req =
     bindE (json_body X transfer_ip_request_of_json req) (\<lambda>body. Inr (PostIpTransfer (tr_ip_id body)))"
| "extract_call X H_verify_commitment args req =
     bindE (json_body X verify_commitment_request_of_json req) (\<lambda>body. Inr (PostIpVerify (ve_ip_id body)))"
| "extract_call X H_list_ip_by_owner args req =
     bindE (path_string X args) (\<lambda>owner.
     bindE (query_params X pagination_of_query req) (\<lambda>pagination.
     Inr (GetIpOwner owner (pp_limit pagination) (pp_offset pagination))))"
| "extract_call X H_initiate_swap args req =
     bindE (json_body X initiate_swap_request_of_json req) (\<lambda>body. Inr PostSwapInitiate)"
| "extract_call X H_batch_initiate_swap args req =
     bindE (json_body X batch_initiate_swap_request_of_json req) (\<lambda>body. Inr (PostSwapBatchInitiate body))"
| "extract_call X H_accept_swap args req = swap_extract X accept_swap_request_of_json PostSwapAccept args req"
| "extract_call X H_reveal_key args req = swap_extract X reveal_key_request_of_json PostSwapReveal args req"
| "extract_call X H_cancel_swap args req = swap_extract X cancel_swap_request_of_json PostSwapCancel args req"
| "extract_call X H_cancel_expired_swap args req =
     swap_extract X cancel_expired_swap_request_of_json PostSwapCancelExpired args req"
| "extract_call X H_get_swap args req = bindE (path_u64 X args) (\<lambda>swap_id. Inr (GetSwap swap_id))"
| "extract_call X H_bulk_commit_ip args req =
     bindE (json_body X bulk_commit_ip_request_of_json req) (\<lambda>body.
     Inr (PostBulkCommit (bc_commitment_hashes body)))"
| "extract_call X H_bulk_initiate_swap args req =
     bindE (json_body X bulk_initiate_swap_request_of_json req) (\<lambda>body.
     Inr (PostBulkInitiate (bs_ip_ids body) (bs_prices body)))"
| "extract_call X h args req = Inl NotFound"

text \<open>The handlers that \<open>extract_call\<close> serves; the others have no state of their own or that of the health checks.\<close>

definition state_handlers :: "handler list" where
  "state_handlers = [H_commit_ip, H_get_ip, H_transfer_ip, H_verify_commitment, H_list_ip_by_owner,
     H_initiate_swap, H_batch_initiate_swap, H_accept_swap, H_reveal_key, H_cancel_swap,
     H_cancel_expired_swap, H_get_swap, H_bulk_commit_ip, H_bulk_initiate_swap]"

section \<open>The server\<close>

definition component_json :: "ComponentStatus \<Rightarrow> json" where
  "component_json c = JObj [(''status'', JStr (co_status c)), (''latency_ms'', JNum (int (co_latency_ms c))),
     (''last_checked'', JNum (int (co_last_checked c)))]"

definition component_health_json :: "HealthChecker \<Rightarrow> json" where
  "component_health_json h = JObj [(''contract_connectivity'', component_json (hc_contract h)),
     (''database'', component_json (hc_database h)), (''cache'', component_json (hc_cache h))]"

definition health_json :: "server \<Rightarrow> HealthChecker \<Rightarrow> json" where
  "health_json K h = JObj [(''status'', JStr (overall_health h)), (''timestamp'', JNum (int (sv_unix K))),
     (''components'', component_health_json h)]"

definition version_json :: "VersionInfo \<Rightarrow> json" where
  "version_json v = JObj [(''version'', JStr (vi_version v)), (''status'', JStr (vi_status v)),
     (''supported_versions'', strings_json (vi_supported_versions v)),
     (''deprecation_date'', json_opt JStr (vi_deprecation_date v))]"

definition batch_answer :: "axum \<Rightarrow> server \<Rightarrow> request \<Rightarrow> response" where
  "batch_answer X K req =
     (case json_body X batch_request_of_json req of
        Inl r \<Rightarrow> ax_reject X r
      | Inr requests \<Rightarrow>
          (case batch_handler requests of
             Inl (code, msg) \<Rightarrow> error_response K code msg
           | Inr responses \<Rightarrow> json_response K 200 (batch_response_json responses)))"

type_synonym app_state = "api \<times> HealthChecker"

definition routes_service ::
    "axum \<Rightarrow> server \<Rightarrow> nat \<times> nat \<times> nat \<Rightarrow> route list \<Rightarrow> app_state service" where
  "routes_service X K latencies table req st =
     (case resolve X table req of
        Inl r \<Rightarrow> (ax_reject X r, st)
      | Inr (h, args) \<Rightarrow>
          if h = H_health then
            (let (code, checker) = health_handler K latencies (snd st)
             in (json_response K code (health_json K checker), (fst st, checker)))
          else if h = H_version then (json_response K 200 (version_json get_version_info), st)
          else if h = H_batch then (batch_answer X K req, st)
          else if h \<notin> set state_handlers then (ax_service X h req, st)
          else (case extract_call X h args req of
              Inl r \<Rightarrow> (ax_reject X r, st)
            | Inr c \<Rightarrow>
                let (resp, a) = exec_api K c (fst st) in (unwrap_or (ax_dropped X) resp, (a, snd st))))"

definition build_app :: "axum \<Rightarrow> server \<Rightarrow> nat \<times> nat \<times> nat \<Rightarrow> app_state service" where
  "build_app X K latencies = app_layers K (routes_service X K latencies build_app_routes)"

definition main_app ::
    "axum \<Rightarrow> server \<Rightarrow> nat \<times> nat \<times> nat \<Rightarrow> nat \<Rightarrow> (metric list \<times> app_state) service" where
  "main_app X K latencies latency = track latency (routes_service X K latencies main_routes)"

end
