(* ===== verification/Api_Served.thy ===== *)
theory Api_Served
  imports Api_Routes Api_Theorems "HOL-Library.Countable"
begin

text \<open>
  What the applications of \<open>main.rs\<close> serve: which calls a request can reach, how the tables agree with
  the published description, and what follows for the state of a running server.
\<close>

section \<open>Paths and patterns\<close>

fun split_slash :: "string \<Rightarrow> string list" where
  "split_slash [] = [[]]"
| "split_slash (c # cs) =
     (if c = CHR ''/'' then [] # split_slash cs
      else (case split_slash cs of [] \<Rightarrow> [[c]] | w # ws \<Rightarrow> (c # w) # ws))"

text \<open>A segment of a pattern that begins with a colon takes any segment that is not empty.\<close>

definition captures :: "string \<Rightarrow> bool" where
  "captures p \<longleftrightarrow> prefix '':'' p"

fun match_segments :: "string list \<Rightarrow> string list \<Rightarrow> string list option" where
  "match_segments [] [] = Some []"
| "match_segments (p # ps) (s # ss) =
     (if captures p then (if s = [] then None else map_option ((#) s) (match_segments ps ss))
      else if p = s then match_segments ps ss else None)"
| "match_segments _ _ = None"

definition match_path :: "string \<Rightarrow> string \<Rightarrow> string list option" where
  "match_path pattern path = match_segments (split_slash pattern) (split_slash path)"

definition literal_path :: "string \<Rightarrow> bool" where
  "literal_path p \<longleftrightarrow> list_all (\<lambda>q. \<not> captures q) (split_slash p)"

text \<open>
  The documented behaviour the server relies on. The router answers with a pattern of the table that
  matches, and with a path that is itself a pattern without parameters before any other; a \<open>GET\<close> route
  also takes \<open>HEAD\<close>; a segment without percent signs and an empty query stand for themselves; a JSON
  body under the JSON content type is read by the parser.
\<close>

definition axum_documented :: "axum \<Rightarrow> server \<Rightarrow> bool" where
  "axum_documented X K \<longleftrightarrow>
     (\<forall>table path. case ax_route X table path of
        None \<Rightarrow> \<forall>p \<in> set table. match_path p path = None
      | Some (p, args) \<Rightarrow> p \<in> set table \<and> match_path p path = Some args \<and>
          (path \<in> set table \<longrightarrow> literal_path path \<longrightarrow> p = path)) \<and>
     (\<forall>m n. ax_method X m n \<longleftrightarrow> n = m \<or> (m = ''GET'' \<and> n = ''HEAD'')) \<and>
     (\<forall>s. CHR ''%'' \<notin> set s \<longrightarrow> ax_decode X s = Some s) \<and>
     ax_query X [] = Some [] \<and>
     (\<forall>req j. rq_headers req ''content-type'' = Some ''application/json'' \<longrightarrow>
        sv_read K (rq_body req) = Some j \<longrightarrow> ax_json X req = Inr j)"

lemma axum_route:
  assumes "axum_documented X K"
  shows "ax_route X table path = Some (p, args) \<Longrightarrow> p \<in> set table \<and> match_path p path = Some args \<and>
      (path \<in> set table \<longrightarrow> literal_path path \<longrightarrow> p = path)"
    and "ax_route X table path = None \<Longrightarrow> p \<in> set table \<Longrightarrow> match_path p path = None"
proof -
  have law: "case ax_route X table path of
      None \<Rightarrow> \<forall>p \<in> set table. match_path p path = None
    | Some (p, args) \<Rightarrow> p \<in> set table \<and> match_path p path = Some args \<and>
        (path \<in> set table \<longrightarrow> literal_path path \<longrightarrow> p = path)"
    using assms unfolding axum_documented_def by blast
  then show "ax_route X table path = Some (p, args) \<Longrightarrow> p \<in> set table \<and> match_path p path = Some args \<and>
      (path \<in> set table \<longrightarrow> literal_path path \<longrightarrow> p = path)" by simp
  from law show "ax_route X table path = None \<Longrightarrow> p \<in> set table \<Longrightarrow> match_path p path = None" by simp
qed

lemma axum_extract:
  assumes "axum_documented X K"
  shows "ax_method X m n \<longleftrightarrow> n = m \<or> (m = ''GET'' \<and> n = ''HEAD'')"
    and "CHR ''%'' \<notin> set s \<Longrightarrow> ax_decode X s = Some s"
    and "ax_query X [] = Some []"
    and "rq_headers req ''content-type'' = Some ''application/json'' \<Longrightarrow>
      sv_read K (rq_body req) = Some j \<Longrightarrow> ax_json X req = Inr j"
  using assms unfolding axum_documented_def by blast+

lemma match_literal: "list_all (\<lambda>q. \<not> captures q) ps \<Longrightarrow> match_segments ps ss = Some args \<Longrightarrow> args = []"
  by (induction ps ss arbitrary: args rule: match_segments.induct) (auto split: if_splits)

lemma match_self: "list_all (\<lambda>q. \<not> captures q) ps \<Longrightarrow> match_segments ps ps = Some []"
  by (induction ps) simp_all

lemma route_literal:
  assumes "axum_documented X K" and "path \<in> set table" and "literal_path path"
  shows "ax_route X table path = Some (path, [])"
proof (cases "ax_route X table path")
  case None
  from axum_route(2) [OF assms(1) None assms(2)] match_self assms(3) show ?thesis
    by (simp add: match_path_def literal_path_def)
next
  case (Some pa)
  obtain p args where pa: "pa = (p, args)" by (cases pa)
  from axum_route(1) [OF assms(1) Some [unfolded pa]] assms(2,3)
  have "p = path" and "match_path path path = Some args" by auto
  with Some pa match_literal assms(3) show ?thesis by (auto simp: match_path_def literal_path_def)
qed

lemma split_slash_word [simp]: "CHR ''/'' \<notin> set w \<Longrightarrow> split_slash w = [w]"
  by (induction w) auto

lemma split_slash_append [simp]: "CHR ''/'' \<notin> set w \<Longrightarrow> split_slash (w @ CHR ''/'' # rest) = w # split_slash rest"
  by (induction w) auto

lemma dec_letters [simp]: "\<not> is_digit c \<Longrightarrow> dec n \<noteq> c # cs" "\<not> is_digit c \<Longrightarrow> c # cs \<noteq> dec n"
proof -
  assume "\<not> is_digit c"
  then have "dec n \<noteq> c # cs" using dec_digits [of c n] by force
  then show "dec n \<noteq> c # cs" and "c # cs \<noteq> dec n" by metis+
qed

lemma dec_signs [simp]: "CHR ''/'' \<notin> set (dec n)" "CHR ''%'' \<notin> set (dec n)"
proof -
  have "\<not> is_digit CHR ''/''" "\<not> is_digit CHR ''%''" by (simp_all add: is_digit_def)
  then show "CHR ''/'' \<notin> set (dec n)" "CHR ''%'' \<notin> set (dec n)" using dec_digits by blast+
qed

section \<open>Requests\<close>

definition get_request :: "string \<Rightarrow> request" where
  "get_request path = \<lparr>rq_method = ''GET'', rq_path = path, rq_query = [], rq_headers = Map.empty,
     rq_body = [], rq_peer = ''10.0.0.1'', rq_version = None, rq_trace = None, rq_claims = None\<rparr>"

definition post_request :: "server \<Rightarrow> string \<Rightarrow> json \<Rightarrow> request" where
  "post_request K path body = \<lparr>rq_method = ''POST'', rq_path = path, rq_query = [],
     rq_headers = [''content-type'' \<mapsto> ''application/json''], rq_body = sv_write K body,
     rq_peer = ''10.0.0.1'', rq_version = None, rq_trace = None, rq_claims = None\<rparr>"

lemma request_fields [simp]:
  "rq_method (get_request path) = ''GET''" "rq_path (get_request path) = path" "rq_query (get_request path) = []"
  "rq_method (post_request K path body) = ''POST''" "rq_path (post_request K path body) = path"
  "rq_headers (post_request K path body) ''content-type'' = Some ''application/json''"
  "rq_body (post_request K path body) = sv_write K body"
  by (simp_all add: get_request_def post_request_def)

text \<open>
  A request that asks for a path, and one that posts an object to a path: the framework hands its body
  over as the members \<open>ms\<close>, in whatever order and with whatever further members the client wrote them.
  An optional member may be left out or be \<open>null\<close>.
\<close>

definition asks :: "request \<Rightarrow> string \<Rightarrow> bool" where
  "asks req path \<longleftrightarrow> rq_method req = ''GET'' \<and> rq_path req = path"

definition posts :: "axum \<Rightarrow> request \<Rightarrow> string \<Rightarrow> (string \<times> json) list \<Rightarrow> bool" where
  "posts X req path ms \<longleftrightarrow> rq_method req = ''POST'' \<and> rq_path req = path \<and>
     ax_json X req = Inr (JObj ms) \<and> distinct (map fst ms)"

definition optional_member :: "(string \<times> json) list \<Rightarrow> string \<Rightarrow> string option \<Rightarrow> bool" where
  "optional_member ms name x \<longleftrightarrow>
     map_of ms name = map_option JStr x \<or> (x = None \<and> map_of ms name = Some JNull)"

text \<open>The struct a body is read as depends on what its members are called only.\<close>

definition known :: "string list \<Rightarrow> (string \<times> 'a) list \<Rightarrow> (string \<times> 'a) list" where
  "known names ms = filter (\<lambda>f. fst f \<in> set names) ms"

lemma map_of_known: "map_of (known names ms) n = (if n \<in> set names then map_of ms n else None)"
  unfolding known_def by (induction ms) auto

lemma object_struct: "distinct (map fst ms) \<Longrightarrow> json_struct names (JObj ms) = Some (known names ms)"
  by (simp add: json_struct_def known_def distinct_map_filter Let_def)

lemma query_known: "distinct (map fst ps) \<Longrightarrow> query_fields names ps = Some (known names ps)"
  by (simp add: query_fields_def known_def distinct_map_filter Let_def)

lemma optional_member_read:
  assumes "optional_member ms name x" and "name \<in> set names"
  shows "perhaps json_string name (known names ms) = Some x"
  using assms by (cases x) (auto simp: optional_member_def perhaps_def opt_of_json_def map_of_known)

lemma texts_read: "json_vec json_string (JArr (map JStr xs)) = Some xs"
  using strings_json_read by (simp add: strings_json_def)

lemma ids_read: "list_all (\<lambda>n. n < 2 ^ 64) ns \<Longrightarrow> json_vec json_u64 (JArr (map (\<lambda>n. JNum (int n)) ns)) = Some ns"
  using numbers_json_read by (simp add: numbers_json_def)

lemma prices_read: "list_all amount_ok ps \<Longrightarrow> json_vec json_i128 (JArr (map JNum ps)) = Some ps"
  using amounts_json_read by (simp add: amounts_json_def)

lemmas member_reads = object_struct need_def map_of_known optional_member_read texts_read ids_read prices_read

text \<open>The call a request leads to.\<close>

definition route_call :: "axum \<Rightarrow> route list \<Rightarrow> request \<Rightarrow> rejection + api_call" where
  "route_call X table req = bindE (resolve X table req) (\<lambda>(h, args). extract_call X h args req)"

lemmas table_defs = build_app_routes_def main_routes_def swagger_routes_def get_route_def post_route_def

text \<open>A path is resolved by matching its segments with those of the table.\<close>

definition segmented :: "route list \<Rightarrow> (route \<times> string list) list" where
  "segmented table = map (\<lambda>r. (r, split_slash (rt_path r))) table"

lemma resolve_captured:
  assumes "axum_documented X K" and "split_slash (rq_path req) = ss"
    and "filter (\<lambda>(r, ps). match_segments ps ss \<noteq> None) (segmented table) = [(r, ps)]"
    and "match_segments ps ss = Some args" and "rq_method req = rt_method r"
  shows "resolve X table req = Inr (rt_handler r, args)"
proof -
  have only: "q = r" if "q \<in> set table" "match_path (rt_path q) (rq_path req) \<noteq> None" for q
  proof -
    from that have "(q, split_slash (rt_path q)) \<in>
        set (filter (\<lambda>(r, ps). match_segments ps ss \<noteq> None) (segmented table))"
      by (simp add: segmented_def match_path_def assms(2))
    then show "q = r" unfolding assms(3) by simp
  qed
  have "(r, ps) \<in> set (segmented table)"
    using arg_cong [OF assms(3), of set] by auto
  then have r: "r \<in> set table" "match_path (rt_path r) (rq_path req) = Some args"
    using assms(2,4) by (auto simp: segmented_def match_path_def)
  have "ax_route X (map rt_path table) (rq_path req) \<noteq> None"
  proof
    assume "ax_route X (map rt_path table) (rq_path req) = None"
    from axum_route(2) [OF assms(1) this, of "rt_path r"] r show False by simp
  qed
  then obtain p pargs where route: "ax_route X (map rt_path table) (rq_path req) = Some (p, pargs)" by auto
  from axum_route(1) [OF assms(1) route] obtain q where
    q: "q \<in> set table" "p = rt_path q" "match_path p (rq_path req) = Some pargs" by auto
  with only [of q] have "q = r" by simp
  with q r have p: "p = rt_path r" "pargs = args" by simp_all
  have "find (\<lambda>q. rt_path q = rt_path r \<and> ax_method X (rt_method q) (rq_method req)) table = Some r"
  proof (cases "find (\<lambda>q. rt_path q = rt_path r \<and> ax_method X (rt_method q) (rq_method req)) table")
    case None
    with r(1) assms(5) show ?thesis by (auto simp: find_None_iff axum_extract(1) [OF assms(1)])
  next
    case (Some q)
    then have "q \<in> set table" "rt_path q = rt_path r" by (auto simp: find_Some_iff)
    with r(2) have "q = r" using only [of q] by simp
    with Some show ?thesis by simp
  qed
  with route p show ?thesis by (simp add: resolve_def)
qed

lemma route_call_captured:
  assumes "axum_documented X K" and "split_slash (rq_path req) = ss"
    and "filter (\<lambda>(r, ps). match_segments ps ss \<noteq> None) (segmented table) = [(r, ps)]"
    and "match_segments ps ss = Some args" and "rq_method req = rt_method r"
  shows "route_call X table req = extract_call X (rt_handler r) args req"
  by (simp add: route_call_def resolve_captured [OF assms])

lemma build_segments: "segmented build_app_routes = [
     (get_route ''/health'' H_health, [[], ''health'']),
     (get_route ''/version'' H_version, [[], ''version'']),
     (post_route ''/v1/graphql'' H_graphql, [[], ''v1'', ''graphql'']),
     (post_route ''/v1/ip/commit'' H_commit_ip, [[], ''v1'', ''ip'', ''commit'']),
     (get_route ''/v1/ip/:ip_id'' H_get_ip, [[], ''v1'', ''ip'', '':ip_id'']),
     (post_route ''/v1/ip/transfer'' H_transfer_ip, [[], ''v1'', ''ip'', ''transfer'']),
     (post_route ''/v1/ip/verify'' H_verify_commitment, [[], ''v1'', ''ip'', ''verify'']),
     (get_route ''/v1/ip/owner/:owner'' H_list_ip_by_owner, [[], ''v1'', ''ip'', ''owner'', '':owner'']),
     (post_route ''/v1/swap/initiate'' H_initiate_swap, [[], ''v1'', ''swap'', ''initiate'']),
     (post_route ''/v1/swap/bulk/initiate'' H_batch_initiate_swap, [[], ''v1'', ''swap'', ''bulk'', ''initiate'']),
     (post_route ''/v1/swap/:swap_id/accept'' H_accept_swap, [[], ''v1'', ''swap'', '':swap_id'', ''accept'']),
     (post_route ''/v1/swap/:swap_id/reveal'' H_reveal_key, [[], ''v1'', ''swap'', '':swap_id'', ''reveal'']),
     (post_route ''/v1/swap/:swap_id/cancel'' H_cancel_swap, [[], ''v1'', ''swap'', '':swap_id'', ''cancel'']),
     (post_route ''/v1/swap/:swap_id/cancel-expired'' H_cancel_expired_swap, [[], ''v1'', ''swap'', '':swap_id'', ''cancel-expired'']),
     (get_route ''/v1/swap/:swap_id'' H_get_swap, [[], ''v1'', ''swap'', '':swap_id'']),
     (post_route ''/v1/bulk/commit-ip'' H_bulk_commit_ip, [[], ''v1'', ''bulk'', ''commit-ip'']),
     (post_route ''/v1/bulk/initiate-swap'' H_bulk_initiate_swap, [[], ''v1'', ''bulk'', ''initiate-swap''])]"
  by (simp add: segmented_def table_defs)

lemma route_fields [simp]:
  "rt_handler (get_route path h) = h" "rt_handler (post_route path h) = h"
  "rt_method (get_route path h) = ''GET''" "rt_method (post_route path h) = ''POST''"
  by (simp_all add: get_route_def post_route_def)

lemmas segments_simps = build_segments captures_def

lemma json_body_read:
  assumes "axum_documented X K" and "sv_read K (sv_write K j) = Some j"
  shows "json_body X f (post_request K path j) = ok_or JsonDataError (f j)"
  using axum_extract(4) [OF assms(1), of "post_request K path j" j] assms(2) by (simp add: json_body_def)

lemma path_u64_dec: "axum_documented X K \<Longrightarrow> i < 2 ^ 64 \<Longrightarrow> path_u64 X [dec i] = Inr i"
  by (simp add: path_u64_def path_string_def axum_extract(2))

lemmas table_simps = table_defs captures_def literal_path_def

lemma dec_words [simp]:
  "dec i \<noteq> ''commit''" "dec i \<noteq> ''transfer''" "dec i \<noteq> ''verify''" "dec i \<noteq> ''owner''"
  "dec i \<noteq> ''initiate''" "dec i \<noteq> ''bulk''"
  "''commit'' \<noteq> dec i" "''transfer'' \<noteq> dec i" "''verify'' \<noteq> dec i" "''owner'' \<noteq> dec i"
  "''initiate'' \<noteq> dec i" "''bulk'' \<noteq> dec i"
  by (simp_all add: is_digit_def)

text \<open>
  The paths with an id, and which pattern they match: one of the kind \<open>/v1/ip/:ip_id\<close> with the id as the
  only parameter.
\<close>

lemma only_match:
  "filter (\<lambda>(r, ps). match_segments ps [[], ''v1'', ''ip'', dec i] \<noteq> None) (segmented build_app_routes)
    = [(get_route ''/v1/ip/:ip_id'' H_get_ip, [[], ''v1'', ''ip'', '':ip_id''])]"
  "filter (\<lambda>(r, ps). match_segments ps [[], ''v1'', ''swap'', dec i] \<noteq> None) (segmented build_app_routes)
    = [(get_route ''/v1/swap/:swap_id'' H_get_swap, [[], ''v1'', ''swap'', '':swap_id''])]"
  "owner \<noteq> [] \<Longrightarrow>
    filter (\<lambda>(r, ps). match_segments ps [[], ''v1'', ''ip'', ''owner'', owner] \<noteq> None) (segmented build_app_routes)
    = [(get_route ''/v1/ip/owner/:owner'' H_list_ip_by_owner, [[], ''v1'', ''ip'', ''owner'', '':owner''])]"
  "filter (\<lambda>(r, ps). match_segments ps [[], ''v1'', ''swap'', dec i, ''accept''] \<noteq> None) (segmented build_app_routes)
    = [(post_route ''/v1/swap/:swap_id/accept'' H_accept_swap, [[], ''v1'', ''swap'', '':swap_id'', ''accept''])]"
  "filter (\<lambda>(r, ps). match_segments ps [[], ''v1'', ''swap'', dec i, ''reveal''] \<noteq> None) (segmented build_app_routes)
    = [(post_route ''/v1/swap/:swap_id/reveal'' H_reveal_key, [[], ''v1'', ''swap'', '':swap_id'', ''reveal''])]"
  "filter (\<lambda>(r, ps). match_segments ps [[], ''v1'', ''swap'', dec i, ''cancel''] \<noteq> None) (segmented build_app_routes)
    = [(post_route ''/v1/swap/:swap_id/cancel'' H_cancel_swap, [[], ''v1'', ''swap'', '':swap_id'', ''cancel''])]"
  "filter (\<lambda>(r, ps). match_segments ps [[], ''v1'', ''swap'', dec i, ''cancel-expired''] \<noteq> None)
      (segmented build_app_routes)
    = [(post_route ''/v1/swap/:swap_id/cancel-expired'' H_cancel_expired_swap,
        [[], ''v1'', ''swap'', '':swap_id'', ''cancel-expired''])]"
  by (simp_all add: segments_simps)

lemma resolve_get_ip:
  assumes "axum_documented X K" and "rq_method req = ''GET''" and "rq_path req = ''/v1/ip/'' @ dec i"
  shows "resolve X build_app_routes req = Inr (H_get_ip, [dec i])"
  using resolve_captured [OF assms(1) _ only_match(1), where args = "[dec i]" and req = req] assms(2,3)
  by (simp add: captures_def)

lemma route_lookups:
  assumes "axum_documented X K" and "i < 2 ^ 64"
  shows "asks req (''/v1/ip/'' @ dec i) \<Longrightarrow> route_call X build_app_routes req = Inr (GetIp i)"
    and "asks req (''/v1/swap/'' @ dec i) \<Longrightarrow> route_call X build_app_routes req = Inr (GetSwap i)"
  using route_call_captured [OF assms(1) _ only_match(1), where args = "[dec i]" and req = req]
    route_call_captured [OF assms(1) _ only_match(2), where args = "[dec i]" and req = req]
  by (simp_all add: asks_def captures_def path_u64_dec [OF assms])

lemma pagination_read:
  assumes "distinct (map fst ps)" and "map_of ps ''limit'' = map_option dec limit"
    and "map_of ps ''offset'' = map_option dec offset"
    and "pred_option (\<lambda>n. n < 2 ^ 64) limit" and "pred_option (\<lambda>n. n < 2 ^ 64) offset"
  shows "pagination_of_query ps = Some \<lparr>pp_limit = unwrap_or 50 limit, pp_offset = unwrap_or 0 offset\<rparr>"
  using assms by (cases limit; cases offset) (simp_all add: pagination_of_query_def query_known
      query_u64_def map_of_known default_limit_def del: map_of_eq_Some_iff)

lemma route_owner:
  assumes "axum_documented X K" and "segment \<noteq> []" and "CHR ''/'' \<notin> set segment"
    and "ax_decode X segment = Some owner" and "asks req (''/v1/ip/owner/'' @ segment)"
    and "ax_query X (rq_query req) = Some ps" and "pagination_of_query ps = Some pg"
  shows "route_call X build_app_routes req = Inr (GetIpOwner owner (pp_limit pg) (pp_offset pg))"
  using route_call_captured [OF assms(1) _ only_match(3) [OF assms(2)], where args = "[segment]" and req = req] assms
  by (simp add: asks_def captures_def path_string_def query_params_def)

lemma posts_body: "posts X req path ms \<Longrightarrow> json_body X f req = ok_or JsonDataError (f (JObj ms))"
  by (simp add: posts_def json_body_def)

lemma posted:
  assumes "posts X req path ms" and "f (JObj ms) = Some body"
    and "route_call X T req = bindE (json_body X f req) call" and "call body = c"
  shows "route_call X T req = c" and "json_body X f req = Inr body"
  using assms posts_body [OF assms(1), of f] by simp_all

lemma posts_distinct: "posts X req path ms \<Longrightarrow> distinct (map fst ms)"
  by (simp add: posts_def)

lemma posts_step:
  assumes "axum_documented X K" and "i < 2 ^ 64"
  shows "posts X req (''/v1/swap/'' @ dec i @ ''/accept'') ms \<Longrightarrow> route_call X build_app_routes req =
      bindE (json_body X accept_swap_request_of_json req) (\<lambda>body. Inr (PostSwapAccept i))"
    and "posts X req (''/v1/swap/'' @ dec i @ ''/reveal'') ms \<Longrightarrow> route_call X build_app_routes req =
      bindE (json_body X reveal_key_request_of_json req) (\<lambda>body. Inr (PostSwapReveal i))"
    and "posts X req (''/v1/swap/'' @ dec i @ ''/cancel'') ms \<Longrightarrow> route_call X build_app_routes req =
      bindE (json_body X cancel_swap_request_of_json req) (\<lambda>body. Inr (PostSwapCancel i))"
    and "posts X req (''/v1/swap/'' @ dec i @ ''/cancel-expired'') ms \<Longrightarrow> route_call X build_app_routes req =
      bindE (json_body X cancel_expired_swap_request_of_json req) (\<lambda>body. Inr (PostSwapCancelExpired i))"
  using
    route_call_captured [OF assms(1) _ only_match(4), where args = "[dec i]" and req = req]
    route_call_captured [OF assms(1) _ only_match(5), where args = "[dec i]" and req = req]
    route_call_captured [OF assms(1) _ only_match(6), where args = "[dec i]" and req = req]
    route_call_captured [OF assms(1) _ only_match(7), where args = "[dec i]" and req = req]
  by (simp_all add: posts_def captures_def swap_extract_def path_u64_dec [OF assms(1,2)])

lemma route_post_literal:
  assumes "axum_documented X K" and "post_route path h \<in> set build_app_routes" and "literal_path path"
    and "find (\<lambda>r. rt_path r = path \<and> rt_method r = ''POST'') build_app_routes = Some (post_route path h)"
    and "posts X req path ms"
  shows "route_call X build_app_routes req = extract_call X h [] req"
proof -
  have "path \<in> set (map rt_path build_app_routes)"
    using imageI [OF assms(2), of rt_path] by (simp add: post_route_def)
  then have route: "ax_route X (map rt_path build_app_routes) path = Some (path, [])"
    by (rule route_literal [OF assms(1) _ assms(3)])
  have "ax_method X m ''POST'' \<longleftrightarrow> m = ''POST''" for m
    by (auto simp: axum_extract(1) [OF assms(1)])
  with assms(4,5) route show ?thesis by (simp add: posts_def route_call_def resolve_def)
qed

lemma literal_posts:
  "post_route ''/v1/ip/commit'' H_commit_ip \<in> set build_app_routes" "literal_path ''/v1/ip/commit''"
  "find (\<lambda>r. rt_path r = ''/v1/ip/commit'' \<and> rt_method r = ''POST'') build_app_routes = Some (post_route ''/v1/ip/commit'' H_commit_ip)"
  "post_route ''/v1/ip/transfer'' H_transfer_ip \<in> set build_app_routes" "literal_path ''/v1/ip/transfer''"
  "find (\<lambda>r. rt_path r = ''/v1/ip/transfer'' \<and> rt_method r = ''POST'') build_app_routes = Some (post_route ''/v1/ip/transfer'' H_transfer_ip)"
  "post_route ''/v1/ip/verify'' H_verify_commitment \<in> set build_app_routes" "literal_path ''/v1/ip/verify''"
  "find (\<lambda>r. rt_path r = ''/v1/ip/verify'' \<and> rt_method r = ''POST'') build_app_routes = Some (post_route ''/v1/ip/verify'' H_verify_commitment)"
  "post_route ''/v1/swap/initiate'' H_initiate_swap \<in> set build_app_routes" "literal_path ''/v1/swap/initiate''"
  "find (\<lambda>r. rt_path r = ''/v1/swap/initiate'' \<and> rt_method r = ''POST'') build_app_routes = Some (post_route ''/v1/swap/initiate'' H_initiate_swap)"
  "post_route ''/v1/swap/bulk/initiate'' H_batch_initiate_swap \<in> set build_app_routes" "literal_path ''/v1/swap/bulk/initiate''"
  "find (\<lambda>r. rt_path r = ''/v1/swap/bulk/initiate'' \<and> rt_method r = ''POST'') build_app_routes = Some (post_route ''/v1/swap/bulk/initiate'' H_batch_initiate_swap)"
  "post_route ''/v1/bulk/commit-ip'' H_bulk_commit_ip \<in> set build_app_routes" "literal_path ''/v1/bulk/commit-ip''"
  "find (\<lambda>r. rt_path r = ''/v1/bulk/commit-ip'' \<and> rt_method r = ''POST'') build_app_routes = Some (post_route ''/v1/bulk/commit-ip'' H_bulk_commit_ip)"
  "post_route ''/v1/bulk/initiate-swap'' H_bulk_initiate_swap \<in> set build_app_routes" "literal_path ''/v1/bulk/initiate-swap''"
  "find (\<lambda>r. rt_path r = ''/v1/bulk/initiate-swap'' \<and> rt_method r = ''POST'') build_app_routes = Some (post_route ''/v1/bulk/initiate-swap'' H_bulk_initiate_swap)"
  by (simp_all add: table_simps)

lemmas posts_literal = route_post_literal [OF _ literal_posts(1-3)] route_post_literal [OF _ literal_posts(4-6)]
  route_post_literal [OF _ literal_posts(7-9)] route_post_literal [OF _ literal_posts(10-12)]
  route_post_literal [OF _ literal_posts(13-15)] route_post_literal [OF _ literal_posts(16-18)]
  route_post_literal [OF _ literal_posts(19-21)]

lemmas posts_calls = posts_literal [unfolded extract_call.simps]

section \<open>What no request can reach\<close>

lemma extracted_calls:
  "extract_call X h args req = Inr c \<Longrightarrow>
    (\<forall>url events. c \<noteq> PostWebhook url events) \<and> (\<forall>i. c \<noteq> DeleteWebhook i) \<and>
    (\<forall>owner limit cursor. c \<noteq> GetIpOwnerCursor owner limit cursor)"
  by (cases h) (auto simp: swap_extract_def)

lemma extracted_without_path:
  "extract_call X h [] req = Inr c \<Longrightarrow>
    (\<forall>i. c \<notin> {GetIp i, GetSwap i, PostSwapAccept i, PostSwapReveal i, PostSwapCancel i, PostSwapCancelExpired i})
    \<and> (\<forall>owner limit offset. c \<noteq> GetIpOwner owner limit offset)"
  by (cases h) (auto simp: swap_extract_def path_u64_def path_string_def)

lemma main_table_literal: "r \<in> set main_routes \<Longrightarrow> literal_path (rt_path r)"
  by (auto simp: table_simps)

lemma resolved_handler: "resolve X table req = Inr (h, args) \<Longrightarrow> h \<in> rt_handler ` set table"
  by (auto simp: resolve_def find_Some_iff split: option.splits)

lemma main_resolves_without_path:
  assumes "axum_documented X K" and "resolve X main_routes req = Inr (h, args)"
  shows "args = []"
proof -
  from assms(2) obtain p where p: "ax_route X (map rt_path main_routes) (rq_path req) = Some (p, args)"
    by (auto simp: resolve_def split: option.splits)
  from axum_route(1) [OF assms(1) p] have "literal_path p" and "match_path p (rq_path req) = Some args"
    using main_table_literal by auto
  then show ?thesis by (auto simp: match_path_def literal_path_def dest: match_literal)
qed

section \<open>The running server\<close>

text \<open>
  A step answers one request, in the application of the tests or in the one \<open>main\<close> serves, with any
  framework, clock and libraries.
\<close>

inductive served_step :: "app_state \<Rightarrow> app_state \<Rightarrow> bool" where
  by_build_app: "build_app X K latencies req st = (resp, st') \<Longrightarrow> served_step st st'"
| by_main: "main_app X K latencies latency req (recorded, st) = (resp, recorded', st') \<Longrightarrow> served_step st st'"

definition served_initial :: "app_state \<Rightarrow> bool" where
  "served_initial st \<longleftrightarrow> (\<exists>K. st = (initial_api, health_checker_new K))"

lemma app_layers_run:
  "app_layers K routes req st =
     (if content_type_refuses req \<noteq> None then (status_only 415, st)
      else if version_refuses req \<noteq> None
      then (compressed req (status_only 406), st)
      else (let (resp, st') = routes (traced K (versioned req)) st
            in (compressed req (with_header ''api-version'' CURRENT_VERSION
                 (with_header ''x-request-id'' (sv_uuid K 1)
                   (with_header ''x-trace-id'' (extract_or_generate_trace_id K (versioned req)) resp))), st')))"
  by (auto simp: app_layers_def content_type.layer_eq compression.layer_eq versions.layer_eq tracing.layer_eq Let_def
      content_type_refuses_def version_refuses_def split: prod.split option.split)

lemma app_layers_state:
  "snd (app_layers K routes req st) = st \<or> (\<exists>req'. snd (app_layers K routes req st) = snd (routes req' st))"
  by (auto simp: app_layers_run Let_def split: prod.split intro!: exI [of _ "traced K (versioned req)"])

lemma served_step_routes:
  assumes "served_step st st'"
  shows "st' = st \<or> (\<exists>X K latencies table req. st' = snd (routes_service X K latencies table req st))"
  using assms
proof (cases rule: served_step.cases)
  case (by_build_app X K latencies req resp)
  then have "st' = snd (app_layers K (routes_service X K latencies build_app_routes) req st)"
    by (simp add: build_app_def)
  with app_layers_state [of K "routes_service X K latencies build_app_routes" req st] show ?thesis by metis
next
  case (by_main X K latencies latency req recorded resp recorded')
  then have "st' = snd (routes_service X K latencies main_routes req st)"
    by (auto simp: main_app_def track_def Let_def split: prod.splits)
  then show ?thesis by blast
qed

text \<open>No route leads to the registration of a webhook, so nobody is ever notified.\<close>

definition unsubscribed :: "app_state \<Rightarrow> bool" where
  "unsubscribed st \<longleftrightarrow> api_ok (fst st) \<and> ap_webhooks (fst st) = [] \<and> ap_spawned (fst st) = []"

lemma cached_page_frame:
  "ap_webhooks (snd (cached_page K f g key page st)) = ap_webhooks st \<and>
   ap_spawned (snd (cached_page K f g key page st)) = ap_spawned st"
  by (auto simp: cached_page_def Let_def split: prod.split option.split)

lemma exec_api_unsubscribed:
  assumes "ap_webhooks a = []" and "ap_spawned a = []"
    and "\<forall>url events. c \<noteq> PostWebhook url events" and "\<forall>i. c \<noteq> DeleteWebhook i"
  shows "ap_webhooks (snd (exec_api K c a)) = [] \<and> ap_spawned (snd (exec_api K c a)) = []"
  using assms
  by (cases c) (auto simp: commit_ip_handler_def get_ip_handler_def transfer_ip_handler_def
      verify_commitment_handler_def list_ip_by_owner_handler_def list_ip_by_owner_cursor_handler_def
      initiate_swap_handler_def batch_initiate_swap_handler_def accept_swap_handler_def reveal_key_handler_def
      cancel_swap_handler_def cancel_expired_swap_handler_def swap_step_handler_def get_swap_handler_def
      bulk_commit_ip_handler_def bulk_initiate_swap_handler_def trigger_swap_status_changed_def
      webhook_list_all_def cached_page_frame Let_def split: prod.split option.split)

lemma routes_unsubscribed:
  assumes "unsubscribed st"
  shows "unsubscribed (snd (routes_service X K latencies table req st))"
proof -
  have step: "unsubscribed (a, snd st)"
    if "extract_call X h args req = Inr c" "exec_api K c (fst st) = (resp, a)" for c h args resp a
    using assms exec_api_ok [of "fst st" K c] exec_api_unsubscribed [of "fst st" c K] extracted_calls [OF that(1)] that(2)
    by (simp add: unsubscribed_def)
  from assms have "unsubscribed (fst st, checker)" for checker by (simp add: unsubscribed_def)
  with assms step show ?thesis
    by (auto simp: routes_service_def Let_def split: sum.split prod.split)
qed

lemma served_unsubscribed: "unsubscribed st \<Longrightarrow> served_step st st' \<Longrightarrow> unsubscribed st'"
  using served_step_routes routes_unsubscribed by blast

interpretation served: invariant_system served_initial served_step unsubscribed
proof
  show "served_initial st \<Longrightarrow> unsubscribed st" for st
    using api_ok_initial by (auto simp: served_initial_def unsubscribed_def initial_api_def)
qed (rule served_unsubscribed)

section \<open>A concrete framework\<close>

text \<open>
  The documented behaviour can be had: a router that tries the literal path first and then the patterns
  in order, and a parser for a JSON format in which every value has a text.
\<close>

instance json :: countable
  by countable_datatype

definition demo_route :: "string list \<Rightarrow> string \<Rightarrow> (string \<times> string list) option" where
  "demo_route table path =
     (if path \<in> set table \<and> literal_path path then Some (path, [])
      else (case find (\<lambda>p. match_path p path \<noteq> None) table of
          None \<Rightarrow> None
        | Some p \<Rightarrow> map_option (Pair p) (match_path p path)))"

definition counting_server :: server where
  "counting_server = demo_server\<lparr>sv_write := (\<lambda>j. replicate (to_nat j) 0),
     sv_read := (\<lambda>bs. Some (from_nat (length bs)))\<rparr>"

fun split_pairs :: "string \<Rightarrow> string list" where
  "split_pairs [] = [[]]"
| "split_pairs (c # cs) =
     (if c = CHR ''&'' then [] # split_pairs cs
      else (case split_pairs cs of [] \<Rightarrow> [[c]] | w # ws \<Rightarrow> (c # w) # ws))"

definition demo_query :: "string \<Rightarrow> (string \<times> string) list option" where
  "demo_query q = Some (if q = [] then [] else
     map (\<lambda>w. (takeWhile ((\<noteq>) CHR ''='') w, drop 1 (dropWhile ((\<noteq>) CHR ''='') w))) (split_pairs q))"

definition demo_axum :: axum where
  "demo_axum = \<lparr>ax_route = demo_route,
     ax_method = (\<lambda>m n. n = m \<or> (m = ''GET'' \<and> n = ''HEAD'')), ax_decode = Some,
     ax_query = demo_query,
     ax_json = (\<lambda>req. ok_or JsonSyntaxError (sv_read counting_server (rq_body req))),
     ax_reject = (\<lambda>r. status_only (if r = NotFound then 404 else 400)),
     ax_service = (\<lambda>h req. status_only 200), ax_dropped = status_only 0\<rparr>"

lemma counting_server_reads: "sv_read counting_server (sv_write counting_server j) = Some j"
  by (simp add: counting_server_def)

lemma demo_route_documented:
  "case demo_route table path of
     None \<Rightarrow> \<forall>p \<in> set table. match_path p path = None
   | Some (p, args) \<Rightarrow> p \<in> set table \<and> match_path p path = Some args \<and>
       (path \<in> set table \<longrightarrow> literal_path path \<longrightarrow> p = path)"
proof (cases "path \<in> set table \<and> literal_path path")
  case True
  then show ?thesis by (simp add: demo_route_def match_path_def literal_path_def match_self)
next
  case False
  then show ?thesis
    by (auto simp: demo_route_def find_None_iff find_Some_iff split: option.splits)
qed

lemma demo_axum_documented: "axum_documented demo_axum counting_server"
  unfolding axum_documented_def
  using demo_route_documented by (simp add: demo_axum_def demo_query_def)

section \<open>Properties\<close>

text \<open>The posted bodies, read by the names of their members.\<close>

lemma registry_request_reads:
  assumes "distinct (map fst ms)" and "i < 2 ^ 64"
  shows "map_of ms ''owner'' = Some (JStr a) \<Longrightarrow> map_of ms ''commitment_hash'' = Some (JStr h) \<Longrightarrow>
      commit_ip_request_of_json (JObj ms) = Some \<lparr>cm_owner = a, cm_commitment_hash = h\<rparr>"
    and "map_of ms ''ip_id'' = Some (JNum (int i)) \<Longrightarrow> map_of ms ''new_owner'' = Some (JStr a) \<Longrightarrow>
      transfer_ip_request_of_json (JObj ms) = Some \<lparr>tr_ip_id = i, tr_new_owner = a\<rparr>"
    and "map_of ms ''ip_id'' = Some (JNum (int i)) \<Longrightarrow> map_of ms ''secret'' = Some (JStr a) \<Longrightarrow>
      map_of ms ''blinding_factor'' = Some (JStr h) \<Longrightarrow>
      verify_commitment_request_of_json (JObj ms) = Some \<lparr>ve_ip_id = i, ve_secret = a, ve_blinding_factor = h\<rparr>"
    and "map_of ms ''owner'' = Some (JStr a) \<Longrightarrow> map_of ms ''commitment_hashes'' = Some (JArr (map JStr hs)) \<Longrightarrow>
      bulk_commit_ip_request_of_json (JObj ms) = Some \<lparr>bc_owner = a, bc_commitment_hashes = hs\<rparr>"
  using assms by (simp_all add: commit_ip_request_of_json_def transfer_ip_request_of_json_def
      verify_commitment_request_of_json_def bulk_commit_ip_request_of_json_def member_reads
      del: map_of_eq_Some_iff)

lemma swap_request_members:
  assumes "distinct (map fst ms)"
  shows "map_of ms ''buyer'' = Some (JStr a) \<Longrightarrow> accept_swap_request_of_json (JObj ms) = Some \<lparr>ac_buyer = a\<rparr>"
    and "map_of ms ''caller'' = Some (JStr a) \<Longrightarrow> map_of ms ''secret'' = Some (JStr x) \<Longrightarrow>
      map_of ms ''blinding_factor'' = Some (JStr y) \<Longrightarrow> reveal_key_request_of_json (JObj ms) =
        Some \<lparr>rk_caller = a, rk_secret = x, rk_blinding_factor = y\<rparr>"
    and "map_of ms ''canceller'' = Some (JStr a) \<Longrightarrow> cancel_swap_request_of_json (JObj ms) = Some \<lparr>cs_canceller = a\<rparr>"
    and "map_of ms ''caller'' = Some (JStr a) \<Longrightarrow>
      cancel_expired_swap_request_of_json (JObj ms) = Some \<lparr>ce_caller = a\<rparr>"
  using assms by (simp_all add: accept_swap_request_of_json_def reveal_key_request_of_json_def
      cancel_swap_request_of_json_def cancel_expired_swap_request_of_json_def member_reads
      del: map_of_eq_Some_iff)

lemma initiate_request_members:
  assumes "distinct (map fst ms)" and "map_of ms ''ip_registry_id'' = Some (JStr registry)"
    and "map_of ms ''seller'' = Some (JStr seller)" and "map_of ms ''buyer'' = Some (JStr buyer)"
    and "map_of ms ''token'' = Some (JStr token)" and "optional_member ms ''referrer'' referrer"
  shows "map_of ms ''ip_id'' = Some (JNum (int i)) \<Longrightarrow> map_of ms ''price'' = Some (JNum price) \<Longrightarrow>
      i < 2 ^ 64 \<Longrightarrow> amount_ok price \<Longrightarrow> initiate_swap_request_of_json (JObj ms) =
      Some \<lparr>is_ip_registry_id = registry, is_ip_id = i, is_seller = seller, is_price = price, is_buyer = buyer,
        is_token = token, is_referrer = referrer\<rparr>"
    and "map_of ms ''ip_ids'' = Some (JArr (map (\<lambda>n. JNum (int n)) ids)) \<Longrightarrow>
      map_of ms ''prices'' = Some (JArr (map JNum prices)) \<Longrightarrow> list_all (\<lambda>i. i < 2 ^ 64) ids \<Longrightarrow>
      list_all amount_ok prices \<Longrightarrow> bulk_initiate_swap_request_of_json (JObj ms) =
      Some \<lparr>bs_ip_registry_id = registry, bs_ip_ids = ids, bs_seller = seller, bs_prices = prices,
        bs_buyer = buyer, bs_token = token, bs_referrer = referrer\<rparr>"
    and "map_of ms ''ip_ids'' = Some (JArr (map (\<lambda>n. JNum (int n)) ids)) \<Longrightarrow>
      map_of ms ''prices'' = Some (JArr (map JNum prices)) \<Longrightarrow> list_all (\<lambda>i. i < 2 ^ 64) ids \<Longrightarrow>
      list_all amount_ok prices \<Longrightarrow> optional_member ms ''idempotency_key'' key \<Longrightarrow>
      batch_initiate_swap_request_of_json (JObj ms) =
      Some \<lparr>bi_ip_registry_id = registry, bi_ip_ids = ids, bi_seller = seller, bi_prices = prices,
        bi_buyer = buyer, bi_token = token, bi_referrer = referrer, bi_idempotency_key = key\<rparr>"
  using assms by (simp_all add: initiate_swap_request_of_json_def bulk_initiate_swap_request_of_json_def
      batch_initiate_swap_request_of_json_def member_reads
      del: map_of_eq_Some_iff)





text \<open>Remark: no route of either application registers a webhook, so in every state a running server can
  get into there is no subscriber, and none is ever notified although the handlers announce every step of
  a swap. In such a state a lookup of a record by its path is answered 404 through all the layers and
  leaves the state as it is. The published description disagrees with the code here: it documents the
  registration of webhooks, and the tests of \<open>main.rs\<close> expect 200 from such a lookup.\<close>

theorem app_never_notifies:
  assumes "reachable served_initial served_step st"
  shows "ap_webhooks (fst st) = [] \<and> ap_spawned (fst st) = [] \<and>
    (axum_documented X K \<longrightarrow> i < 2 ^ 64 \<longrightarrow>
      (\<exists>resp. build_app X K latencies (get_request (''/v1/ip/'' @ dec i)) st = (resp, st) \<and> rs_status resp = 404))"
proof -
  have inv: "unsubscribed st" by (rule served.reachable_inv [OF assms])
  moreover have "\<exists>resp. build_app X K latencies (get_request (''/v1/ip/'' @ dec i)) st = (resp, st) \<and> rs_status resp = 404"
    if X: "axum_documented X K" and i: "i < 2 ^ 64"
  proof -
    let ?req = "get_request (''/v1/ip/'' @ dec i)"
    have "resolve X build_app_routes (traced K (versioned ?req)) = Inr (H_get_ip, [dec i])"
      by (rule resolve_get_ip [OF X]) (simp_all add: traced_def versioned_def)
    moreover have "exec_api K (GetIp i) (fst st) = (Some (missing_response K (not_found ''IP record'' i)), fst st)"
      using inv by (simp add: get_ip_handler_def api_get_missing unsubscribed_def Let_def)
    ultimately have "routes_service X K latencies build_app_routes (traced K (versioned ?req)) st
        = (missing_response K (not_found ''IP record'' i), st)"
      by (simp add: routes_service_def state_handlers_def path_u64_dec [OF X i])
    moreover have "content_type_refuses ?req = None" "version_refuses ?req = None"
      by (simp_all add: content_type_refuses_def writes_def version_refuses_def get_request_def)
    ultimately show ?thesis
      by (simp add: build_app_def app_layers_run compression.leave_status)
  qed
  ultimately show ?thesis by (auto simp: unsubscribed_def)
qed

theorem app_never_notifies_witness:
  "\<exists>resp. build_app demo_axum counting_server (0, 0, 0) (get_request (''/v1/ip/'' @ dec 7))
      (initial_api, health_checker_new counting_server)
    = (resp, initial_api, health_checker_new counting_server) \<and> rs_status resp = 404"
proof -
  have "reachable served_initial served_step (initial_api, health_checker_new counting_server)"
    by (rule reachable_init) (auto simp: served_initial_def)
  from app_never_notifies [OF this, of demo_axum counting_server 7 "(0, 0, 0)"] show ?thesis
    by (simp add: demo_axum_documented)
qed

text \<open>Remark: the routes of \<open>main\<close> write their parameters in braces, which the router of this version of axum
  takes literally. So with a documented router no request whatsoever reaches the lookup of a record or a
  swap, the list of an owner, or a step of a swap: what the server that is run can execute of the
  fourteen operations are the five posts without parameters. \<open>docs/api-reference.md\<close> (lines 315 and 432)
  and \<open>docs/openapi.yaml\<close> (line 40) disagree with the code here: they document the lookups as served.\<close>

theorem main_serves_no_ids:
  assumes "axum_documented X K" and "route_call X main_routes req = Inr c"
  shows "c \<in> {PostIpCommit, PostSwapInitiate} \<or> (\<exists>i. c = PostIpTransfer i) \<or> (\<exists>i. c = PostIpVerify i)
    \<or> (\<exists>body. c = PostSwapBatchInitiate body)"
proof -
  from assms(2) obtain h args where h: "resolve X main_routes req = Inr (h, args)"
    and c: "extract_call X h args req = Inr c" by (auto simp: route_call_def)
  have "args = []" by (rule main_resolves_without_path [OF assms(1) h])
  moreover have "h \<notin> {H_bulk_commit_ip, H_bulk_initiate_swap}"
    using resolved_handler [OF h] by (auto simp: table_defs)
  ultimately show ?thesis
    using c by (cases h) (auto simp: swap_extract_def path_u64_def path_string_def)
qed

theorem main_serves_no_ids_witness:
  "\<exists>c. route_call demo_axum main_routes (post_request counting_server ''/ip/commit'' (commit_ip_request_json
     \<lparr>cm_owner = ''GA'', cm_commitment_hash = ''00''\<rparr>)) = Inr c \<and> c \<noteq> GetIp 7"
proof -
  let ?j = "commit_ip_request_json \<lparr>cm_owner = ''GA'', cm_commitment_hash = ''00''\<rparr>"
  have "''/ip/commit'' \<in> set (map rt_path main_routes)" by (simp add: table_defs)
  from route_literal [OF demo_axum_documented this]
  have "route_call demo_axum main_routes (post_request counting_server ''/ip/commit'' ?j) = Inr PostIpCommit"
    by (simp add: route_call_def resolve_def table_simps axum_extract(1) [OF demo_axum_documented]
        json_body_read [OF demo_axum_documented counting_server_reads] commit_ip_request_read)
  with main_serves_no_ids [OF demo_axum_documented this] show ?thesis by blast
qed

section \<open>The published description\<close>

text \<open>A parameter of a documented path, written in braces, is one of a route of \<open>build_app\<close>, with a colon.\<close>

definition colon_path :: "string \<Rightarrow> string" where
  "colon_path path = concat (map (\<lambda>c. if c = CHR ''{'' then '':'' else if c = CHR ''}'' then [] else [c]) path)"

definition mounted :: "route list \<Rightarrow> operation \<Rightarrow> bool" where
  "mounted table op \<longleftrightarrow>
     list_ex (\<lambda>r. rt_method r = op_method op \<and> rt_path r \<in> {op_path op, colon_path (op_path op)}) table"

text \<open>Remark: the description of the API against the code. Every answer one of the stateful handlers gives
  itself, rejections by the framework and the layers aside, has a documented status, except for the 400 for a webhook id that is no UUID. Every schema an operation refers to is
  published. Of the eighteen published operations \<open>build_app\<close> mounts all but the batch of swaps (which it
  has under another path), the two of the webhooks, \<open>/batch\<close> and \<open>/events\<close>; the server that publishes the
  description, the one of \<open>main\<close>, mounts \<open>/batch\<close> and \<open>/events\<close> only.\<close>

theorem published_api_conformance:
  "(\<forall>K c st r st'. exec_api K c st = (Some r, st') \<longrightarrow>
      (rs_status r \<in> set (documented_statuses (call_doc c)) \<longleftrightarrow>
        (\<forall>i. c = DeleteWebhook i \<longrightarrow> sv_parse_uuid K i \<noteq> None))) \<and>
   list_all (\<lambda>op. list_all (\<lambda>n. n = ''u64'' \<or> n \<in> set (oa_schemas ApiDoc)) (referred_schemas op)) (oa_paths ApiDoc) \<and>
   filter (\<lambda>op. \<not> mounted build_app_routes op) (oa_paths ApiDoc) =
     [doc_batch_initiate_swap, doc_register_webhook, doc_unregister_webhook, doc_batch_handler, doc_events_handler] \<and>
   filter (mounted main_routes) (oa_paths ApiDoc) = [doc_batch_handler, doc_events_handler]"
proof (intro conjI)
  show "\<forall>K c st r st'. exec_api K c st = (Some r, st') \<longrightarrow>
      (rs_status r \<in> set (documented_statuses (call_doc c)) \<longleftrightarrow>
        (\<forall>i. c = DeleteWebhook i \<longrightarrow> sv_parse_uuid K i \<noteq> None))"
    using call_status_documented by blast
  show "list_all (\<lambda>op. list_all (\<lambda>n. n = ''u64'' \<or> n \<in> set (oa_schemas ApiDoc)) (referred_schemas op)) (oa_paths ApiDoc)"
    by (rule schemas_closed)
  show "filter (\<lambda>op. \<not> mounted build_app_routes op) (oa_paths ApiDoc) =
     [doc_batch_initiate_swap, doc_register_webhook, doc_unregister_webhook, doc_batch_handler, doc_events_handler]"
    by (simp add: ApiDoc_def mounted_def table_defs doc_defs colon_path_def)
  show "filter (mounted main_routes) (oa_paths ApiDoc) = [doc_batch_handler, doc_events_handler]"
    by (simp add: ApiDoc_def mounted_def table_defs doc_defs colon_path_def)
qed

theorem published_api_conformance_witness:
  "\<exists>r. exec_api (demo_server\<lparr>sv_parse_uuid := Map.empty\<rparr>) (DeleteWebhook ''x'') initial_api = (Some r, initial_api) \<and>
     rs_status r \<notin> set (documented_statuses (call_doc (DeleteWebhook ''x''))) \<and>
     filter (mounted main_routes) (oa_paths ApiDoc) = [doc_batch_handler, doc_events_handler]"
proof -
  let ?K = "demo_server\<lparr>sv_parse_uuid := Map.empty\<rparr>"
  have "exec_api ?K (DeleteWebhook ''x'') initial_api
      = (Some (error_response ?K 400 ''Invalid webhook ID format''), initial_api)"
    by (simp add: unregister_webhook_handler_def)
  moreover from published_api_conformance [THEN conjunct1, rule_format, OF this]
  have "rs_status (error_response ?K 400 ''Invalid webhook ID format'')
      \<notin> set (documented_statuses (call_doc (DeleteWebhook ''x'')))" by simp
  ultimately show ?thesis using published_api_conformance by blast
qed

end
