(* ===== verification/Fuzz.thy ===== *)
theory Fuzz
  imports Registry_Theorems Api_Requests Api_Gate
begin

text \<open>
  The fuzz target \<open>fuzz_api_request_parsing\<close> as a program over the model of the server's requests. It ends
  with \<open>Inr\<close> of what it computes and with \<open>Inl\<close> of a message where an assertion fails or a panic escapes,
  which is what the fuzzer reports. The three targets on the contract are not modelled: they call
  \<open>commit_ip\<close> without its argument \<open>pow_difficulty\<close>, so there is no program to translate.
\<close>

section \<open>Assertions\<close>

definition assert_that :: "string \<Rightarrow> bool \<Rightarrow> string + unit" where
  "assert_that message holds = (if holds then Inr () else Inl message)"

lemma assert_that_simps [simp]: "assert_that m True = Inr ()" "assert_that m False = Inl m"
  by (simp_all add: assert_that_def)

section \<open>The target\<close>

text \<open>
  \<open>std::str::from_utf8\<close> hands out the bytes it is given as a text when they are well-formed: no overlong
  form, no surrogate, nothing above the last code point.
\<close>

definition in_range :: "nat \<Rightarrow> nat \<Rightarrow> byte \<Rightarrow> bool" where
  "in_range lo hi b \<longleftrightarrow> lo \<le> unat b \<and> unat b \<le> hi"

fun utf8_valid :: "bytes \<Rightarrow> bool" where
  "utf8_valid [] \<longleftrightarrow> True"
| "utf8_valid (a # bs) \<longleftrightarrow>
     (if unat a < 128 then utf8_valid bs
      else if in_range 194 223 a then
        (case bs of b # bs \<Rightarrow> in_range 128 191 b \<and> utf8_valid bs | _ \<Rightarrow> False)
      else if in_range 224 239 a then
        (case bs of
           b # c # bs \<Rightarrow> in_range (if a = 224 then 160 else 128) (if a = 237 then 159 else 191) b
             \<and> in_range 128 191 c \<and> utf8_valid bs
         | _ \<Rightarrow> False)
      else if in_range 240 244 a then
        (case bs of
           b # c # d # bs \<Rightarrow> in_range (if a = 240 then 144 else 128) (if a = 244 then 143 else 191) b
             \<and> in_range 128 191 c \<and> in_range 128 191 d \<and> utf8_valid bs
         | _ \<Rightarrow> False)
      else False)"

definition from_utf8 :: "bytes \<Rightarrow> string option" where
  "from_utf8 data = (if utf8_valid data then Some (map (\<lambda>b. char_of (unat b)) data) else None)"

text \<open>
  The target has its own copies of four request structs. Those of \<open>CommitIpRequest\<close>,
  \<open>VerifyCommitmentRequest\<close> and \<open>RevealKeyRequest\<close> have the fields of \<open>schemas.rs\<close>; this one lacks two.
\<close>

record FuzzInitiateSwapRequest =
  fi_ip_id :: nat
  fi_seller :: string
  fi_price :: int
  fi_buyer :: string
  fi_token :: string

definition fuzz_initiate_swap_request_of_json :: "json \<Rightarrow> FuzzInitiateSwapRequest option" where
  "fuzz_initiate_swap_request_of_json j =
     Option.bind (json_struct [''ip_id'', ''seller'', ''price'', ''buyer'', ''token''] j) (\<lambda>fs.
     Option.bind (need json_u64 ''ip_id'' fs) (\<lambda>ip_id.
     Option.bind (need json_string ''seller'' fs) (\<lambda>seller.
     Option.bind (need json_i128 ''price'' fs) (\<lambda>price.
     Option.bind (need json_string ''buyer'' fs) (\<lambda>buyer.
     Option.bind (need json_string ''token'' fs) (\<lambda>token.
     Some \<lparr>fi_ip_id = ip_id, fi_seller = seller, fi_price = price, fi_buyer = buyer, fi_token = token\<rparr>))))))"

definition is_valid_commitment_hash :: "(string \<Rightarrow> bytes option) \<Rightarrow> string \<Rightarrow> bool" where
  "is_valid_commitment_hash unhex s \<longleftrightarrow> length s = 64 \<and> unhex s \<noteq> None"

definition is_non_zero_hash :: "bytes \<Rightarrow> bool" where
  "is_non_zero_hash bs \<longleftrightarrow> list_ex (\<lambda>b. b \<noteq> 0) bs"

text \<open>What the target computes; it discards everything but a failed assertion.\<close>

record parsing_report =
  fr_commit :: "CommitIpRequest option"
  fr_verify :: "VerifyCommitmentRequest option"
  fr_initiate :: "FuzzInitiateSwapRequest option"
  fr_reveal :: "RevealKeyRequest option"
  fr_non_zero :: "bool option"
  fr_digest :: "bytes option"
  fr_body_hash :: string
  fr_payload_digest :: "bytes option"

definition fuzz_api_request_parsing ::
    "server \<Rightarrow> (string \<Rightarrow> bytes option) \<Rightarrow> bytes \<Rightarrow> string + parsing_report" where
  "fuzz_api_request_parsing K unhex data =
     (let commit = Option.bind (sv_read K data) commit_ip_request_of_json;
          verify = Option.bind (sv_read K data) verify_commitment_request_of_json;
          initiate = Option.bind (sv_read K data) fuzz_initiate_swap_request_of_json;
          reveal = Option.bind (sv_read K data) reveal_key_request_of_json
      in bindE (case commit of
            None \<Rightarrow> Inr None
          | Some req \<Rightarrow>
              if is_valid_commitment_hash unhex (cm_commitment_hash req)
              then bindE (ok_or ''unwrap on Err'' (unhex (cm_commitment_hash req))) (\<lambda>bs.
                Inr (Some (is_non_zero_hash bs)))
              else Inr None) (\<lambda>non_zero.
     let digest = Option.bind verify (\<lambda>req.
           Option.bind (unhex (ve_secret req)) (\<lambda>secret.
           Option.bind (unhex (ve_blinding_factor req)) (\<lambda>bf.
           if length secret = 32 \<and> length bf = 32 then Some (sv_sha256 K (secret @ bf)) else None)));
         hex_hash = sv_hex K (sv_sha256 K data)
     in bindE (assert_that ''SHA256 hex output must be 64 chars'' (length hex_hash = 64)) (\<lambda>_.
     let payload_digest = map_option (\<lambda>s.
           let payload = ''POST||/ip/commit||'' @ dec (2 ^ 64 - 1) @ ''||'' @ s
           in sv_sha256 K (text_bytes payload)) (from_utf8 data)
     in Inr \<lparr>fr_commit = commit, fr_verify = verify, fr_initiate = initiate, fr_reveal = reveal,
          fr_non_zero = non_zero, fr_digest = digest, fr_body_hash = hex_hash,
          fr_payload_digest = payload_digest\<rparr>)))"

section \<open>What it checks\<close>

text \<open>
  The request target fails exactly when the digest in hexadecimal does not have 64 characters; the payload
  it hashes is the one \<open>generate_signature\<close> signs for a body hash that is the input itself.
\<close>

lemma fuzz_parsing_outcome:
  "fuzz_api_request_parsing K unhex data = Inl msg \<longleftrightarrow>
    length (hash_body K data) \<noteq> 64 \<and> msg = ''SHA256 hex output must be 64 chars''"
  by (auto simp: fuzz_api_request_parsing_def is_valid_commitment_hash_def hash_body_def assert_that_def Let_def
      split: option.split)

lemma fuzz_parsing_payload:
  assumes "fuzz_api_request_parsing K unhex data = Inr rep" and "from_utf8 data = Some s"
  shows "map_option (sv_hex K) (fr_payload_digest rep) =
    Some (generate_signature K ''POST'' ''/ip/commit'' (2 ^ 64 - 1) s secret_key)"
  using assms
  by (auto simp: fuzz_api_request_parsing_def generate_signature_def assert_that_def Let_def
      split: option.splits if_splits)

text \<open>With digests of 32 bytes and two hexadecimal digits per byte the target reports nothing.\<close>

lemma fuzz_parsing_passes:
  assumes "\<And>x. length (sv_sha256 K x) = 32" and "\<And>x. length (sv_hex K x) = 2 * length x"
  shows "\<exists>rep. fuzz_api_request_parsing K unhex data = Inr rep"
  using assms fuzz_parsing_outcome [of K unhex data]
  by (cases "fuzz_api_request_parsing K unhex data") (auto simp: hash_body_def)

end
