(* ===== verification/Test_Env.thy ===== *)
theory Test_Env
  imports Host
begin

text \<open>
  What the unit tests inside the sources of the contracts set up: the environments of the SDK's test
  utilities, and the verdict on a test. A test is a program that panics where an assertion of it fails;
  \<open>passes\<close> is the verdict of \<open>#[test]\<close>, \<open>panics\<close> that of a test marked \<open>#[should_panic]\<close>.
\<close>

definition mock_all_auths :: "env \<Rightarrow> env" where
  "mock_all_auths E = E\<lparr>authorized := (\<lambda>_. True)\<rparr>"

definition mock_auth :: "address \<Rightarrow> env \<Rightarrow> env" where
  "mock_auth a E = E\<lparr>authorized := (\<lambda>b. b = a)\<rparr>"

lemma mock_auths_simps [simp]:
  "authorized (mock_all_auths E) a" "sha256 (mock_all_auths E) = sha256 E"
  "now (mock_all_auths E) = now E" "this_addr (mock_all_auths E) = this_addr E"
  "authorized (mock_auth a E) b \<longleftrightarrow> b = a"
  by (simp_all add: mock_all_auths_def mock_auth_def)

text \<open>A byte string literal \<open>b"..."\<close>.\<close>

definition literal :: "string \<Rightarrow> bytes" where
  "literal s = map of_char s"

definition asserts :: "bool \<Rightarrow> ('e, unit) outcome" where
  "asserts holds = (if holds then Inr () else Inl HostTrap)"

definition passes :: "('e, unit) outcome \<Rightarrow> bool" where
  "passes test = (case test of Inr _ \<Rightarrow> True | Inl _ \<Rightarrow> False)"

definition panics :: "('e, unit) outcome \<Rightarrow> bool" where
  "panics test = (case test of Inr _ \<Rightarrow> False | Inl _ \<Rightarrow> True)"

definition panics_with :: "'e \<Rightarrow> ('e, unit) outcome \<Rightarrow> bool" where
  "panics_with e test = (case test of Inl (Contract e') \<Rightarrow> e' = e | _ \<Rightarrow> False)"

lemma verdict_simps [simp]:
  "asserts True = Inr ()" "asserts False = Inl HostTrap"
  "passes (Inr u)" "\<not> passes (Inl e)" "panics (Inl e)" "\<not> panics (Inr u)"
  "panics_with c (Inl (Contract c')) \<longleftrightarrow> c' = c"
  by (simp_all add: asserts_def passes_def panics_def panics_with_def)

text \<open>A test ends with its verdict on the first failure.\<close>

lemma passes_bind: "passes (bindE m f) \<longleftrightarrow> (\<exists>x. m = Inr x \<and> passes (f x))"
  by (cases m) auto

lemma panics_bind: "panics (bindE m f) \<longleftrightarrow> (\<forall>x. m = Inr x \<longrightarrow> panics (f x))"
  by (cases m) auto

lemma asserts_verdict [simp]: "passes (asserts b) \<longleftrightarrow> b" "asserts b = Inr u \<longleftrightarrow> b"
  by (simp_all add: asserts_def)

end
