(* ===== verification/Registry_Tests.thy ===== *)
theory Registry_Tests
  imports Registry_Theorems Test_Env
begin

text \<open>
  The unit tests inside the sources of the registry (modules \<open>tests\<close> of \<open>ip_registry/src/lib.rs\<close> and
  \<open>validation.rs\<close>) as programs over the model: each registers a fresh contract, calls operations, and
  asserts what they answer. \<open>registry_tests\<close> runs them all; a hash function and the addresses a test
  generates are parameters. A byte array with one value throughout is \<open>replicate 32 b\<close>.
\<close>

section \<open>Authorisation and time\<close>

definition test_non_owner_cannot_commit ::
    "env \<Rightarrow> address \<Rightarrow> address \<Rightarrow> unit rout" where
  "test_non_owner_cannot_commit E alice bob =
     (let E = mock_auth alice E
      in bindE (commit_ip E bob (replicate 32 0) 0 empty_registry) (\<lambda>_. Inr ()))"

definition test_non_owner_commit_succeeds_with_mock_all_auths ::
    "env \<Rightarrow> address \<Rightarrow> address \<Rightarrow> unit rout" where
  "test_non_owner_commit_succeeds_with_mock_all_auths E alice bob =
     (let E = mock_all_auths E in
     bindE (commit_ip E bob (replicate 32 1) 0 empty_registry) (\<lambda>(ip_id, s).
     bindE (get_ip s ip_id) (\<lambda>record.
     bindE (asserts (ir_owner record = bob)) (\<lambda>_.
     asserts (ir_owner record \<noteq> alice)))))"

definition test_commitment_timestamp_accuracy ::
    "env \<Rightarrow> address \<Rightarrow> unit rout" where
  "test_commitment_timestamp_accuracy E owner =
     (let E = mock_all_auths E in
     bindE (commit_ip E owner (replicate 32 42) 0 empty_registry) (\<lambda>(ip_id, s).
     bindE (get_ip s ip_id) (\<lambda>record.
     asserts (ir_timestamp record = now E))))"

section \<open>Versions\<close>

definition test_commit_ip_version_links_parent ::
    "env \<Rightarrow> address \<Rightarrow> unit rout" where
  "test_commit_ip_version_links_parent E owner =
     (let E = mock_all_auths E in
     bindE (commit_ip E owner (replicate 32 0xA1) 0 empty_registry) (\<lambda>(v1, s).
     bindE (commit_ip_version E owner (replicate 32 0xA2) v1 s) (\<lambda>(v2, s).
     bindE (get_ip s v2) (\<lambda>record_v2.
     asserts (ir_parent_ip_id record_v2 = Some v1)))))"

definition test_get_ip_version_chain_single ::
    "env \<Rightarrow> address \<Rightarrow> unit rout" where
  "test_get_ip_version_chain_single E owner =
     (let E = mock_all_auths E in
     bindE (commit_ip E owner (replicate 32 0xB1) 0 empty_registry) (\<lambda>(ip_id, s).
     bindE (get_ip_version_chain s ip_id) (\<lambda>chain.
     bindE (asserts (length chain = 1)) (\<lambda>_.
     asserts (chain ! 0 = ip_id)))))"

definition test_get_ip_version_chain_multiple_versions ::
    "env \<Rightarrow> address \<Rightarrow> unit rout" where
  "test_get_ip_version_chain_multiple_versions E owner =
     (let E = mock_all_auths E in
     bindE (commit_ip E owner (replicate 32 0xC1) 0 empty_registry) (\<lambda>(v1, s).
     bindE (commit_ip_version E owner (replicate 32 0xC2) v1 s) (\<lambda>(v2, s).
     bindE (commit_ip_version E owner (replicate 32 0xC3) v2 s) (\<lambda>(v3, s).
     bindE (get_ip_version_chain s v1) (\<lambda>chain.
     bindE (asserts (length chain = 3)) (\<lambda>_.
     bindE (asserts (chain ! 0 = v1)) (\<lambda>_.
     bindE (asserts (chain ! 1 = v2)) (\<lambda>_.
     bindE (asserts (chain ! 2 = v3)) (\<lambda>_.
     bindE (get_ip_version_chain s v3) (\<lambda>chain_from_v3.
     bindE (asserts (length chain_from_v3 = 3)) (\<lambda>_.
     asserts (chain_from_v3 ! 0 = v1))))))))))))"

definition test_version_chain_preserves_prior_art ::
    "env \<Rightarrow> address \<Rightarrow> unit rout" where
  "test_version_chain_preserves_prior_art E owner =
     (let E = mock_all_auths E in
     bindE (commit_ip E owner (replicate 32 0xD1) 0 empty_registry) (\<lambda>(v1, s).
     bindE (get_ip s v1) (\<lambda>before.
     bindE (commit_ip_version E owner (replicate 32 0xD2) v1 s) (\<lambda>(v2, s).
     bindE (get_ip s v1) (\<lambda>record_v1.
     bindE (asserts (ir_timestamp record_v1 = ir_timestamp before)) (\<lambda>_.
     bindE (asserts (ir_commitment_hash record_v1 = replicate 32 0xD1)) (\<lambda>_.
     asserts (ir_parent_ip_id record_v1 = None))))))))"

section \<open>Threshold signatures\<close>

definition test_threshold_config_set_and_get ::
    "env \<Rightarrow> address \<Rightarrow> address \<Rightarrow> address \<Rightarrow> address \<Rightarrow> unit rout" where
  "test_threshold_config_set_and_get E owner signer1 signer2 signer3 =
     (let E = mock_all_auths E in
     bindE (commit_ip E owner (replicate 32 0xE1) 0 empty_registry) (\<lambda>(ip_id, s).
     bindE (require_threshold_signatures ip_id 2 [signer1, signer2, signer3] s) (\<lambda>s.
     bindE (get_threshold_config s ip_id) (\<lambda>stored.
     bindE (ok_or HostTrap stored) (\<lambda>config.
     bindE (asserts (th_threshold config = 2)) (\<lambda>_.
     asserts (th_total config = 3)))))))"

definition test_threshold_not_met_initially ::
    "env \<Rightarrow> address \<Rightarrow> address \<Rightarrow> address \<Rightarrow> unit rout" where
  "test_threshold_not_met_initially E owner signer1 signer2 =
     (let E = mock_all_auths E in
     bindE (commit_ip E owner (replicate 32 0xE2) 0 empty_registry) (\<lambda>(ip_id, s).
     bindE (require_threshold_signatures ip_id 2 [signer1, signer2] s) (\<lambda>s.
     bindE (verify_threshold_signatures s ip_id) (\<lambda>met.
     asserts (\<not> met)))))"

definition test_threshold_met_after_enough_signatures ::
    "env \<Rightarrow> address \<Rightarrow> address \<Rightarrow> address \<Rightarrow> unit rout" where
  "test_threshold_met_after_enough_signatures E owner signer1 signer2 =
     (let E = mock_all_auths E in
     bindE (commit_ip E owner (replicate 32 0xE3) 0 empty_registry) (\<lambda>(ip_id, s).
     bindE (require_threshold_signatures ip_id 2 [signer1, signer2] s) (\<lambda>s.
     bindE (add_threshold_signature E ip_id signer1 (replicate 32 0xF1) s) (\<lambda>s.
     bindE (verify_threshold_signatures s ip_id) (\<lambda>met.
     bindE (asserts (\<not> met)) (\<lambda>_.
     bindE (add_threshold_signature E ip_id signer2 (replicate 32 0xF2) s) (\<lambda>s.
     bindE (verify_threshold_signatures s ip_id) (\<lambda>met.
     asserts met))))))))"

definition test_threshold_duplicate_signer_rejected ::
    "env \<Rightarrow> address \<Rightarrow> address \<Rightarrow> unit rout" where
  "test_threshold_duplicate_signer_rejected E owner signer1 =
     (let E = mock_all_auths E in
     bindE (commit_ip E owner (replicate 32 0xE4) 0 empty_registry) (\<lambda>(ip_id, s).
     bindE (require_threshold_signatures ip_id 1 [signer1] s) (\<lambda>s.
     bindE (add_threshold_signature E ip_id signer1 (replicate 32 0xF3) s) (\<lambda>s.
     bindE (add_threshold_signature E ip_id signer1 (replicate 32 0xF3) s) (\<lambda>s.
     Inr ())))))"

definition test_threshold_unauthorized_signer_rejected ::
    "env \<Rightarrow> address \<Rightarrow> address \<Rightarrow> address \<Rightarrow> unit rout" where
  "test_threshold_unauthorized_signer_rejected E owner signer1 outsider =
     (let E = mock_all_auths E in
     bindE (commit_ip E owner (replicate 32 0xE5) 0 empty_registry) (\<lambda>(ip_id, s).
     bindE (require_threshold_signatures ip_id 1 [signer1] s) (\<lambda>s.
     bindE (add_threshold_signature E ip_id outsider (replicate 32 0xF4) s) (\<lambda>s.
     Inr ()))))"

definition test_get_threshold_signatures_returns_all ::
    "env \<Rightarrow> address \<Rightarrow> address \<Rightarrow> address \<Rightarrow> unit rout" where
  "test_get_threshold_signatures_returns_all E owner signer1 signer2 =
     (let E = mock_all_auths E in
     bindE (commit_ip E owner (replicate 32 0xE6) 0 empty_registry) (\<lambda>(ip_id, s).
     bindE (require_threshold_signatures ip_id 1 [signer1, signer2] s) (\<lambda>s.
     bindE (add_threshold_signature E ip_id signer1 (replicate 32 0xAA) s) (\<lambda>s.
     bindE (add_threshold_signature E ip_id signer2 (replicate 32 0xBB) s) (\<lambda>s.
     bindE (get_threshold_signatures s ip_id) (\<lambda>signatures.
     asserts (length signatures = 2)))))))"

section \<open>Batch metadata\<close>

definition test_set_and_get_batch_metadata ::
    "env \<Rightarrow> address \<Rightarrow> unit rout" where
  "test_set_and_get_batch_metadata E owner =
     (let E = mock_all_auths E in
     bindE (commit_ip E owner (replicate 32 0x11) 0 empty_registry) (\<lambda>(ip_id, s).
     bindE (set_batch_metadata E ip_id (replicate 32 0xBA) [104, 101, 108, 108, 111] s) (\<lambda>s.
     bindE (get_batch_metadata s ip_id) (\<lambda>stored.
     bindE (ok_or HostTrap stored) (\<lambda>meta.
     bindE (asserts (bm_ip_id meta = ip_id)) (\<lambda>_.
     bindE (asserts (bm_batch_id meta = replicate 32 0xBA)) (\<lambda>_.
     asserts (bm_description meta = [104, 101, 108, 108, 111]))))))))"

definition test_get_batch_metadata_none_if_not_set ::
    "env \<Rightarrow> address \<Rightarrow> unit rout" where
  "test_get_batch_metadata_none_if_not_set E owner =
     (let E = mock_all_auths E in
     bindE (commit_ip E owner (replicate 32 0x12) 0 empty_registry) (\<lambda>(ip_id, s).
     bindE (get_batch_metadata s ip_id) (\<lambda>stored.
     asserts (stored = None))))"

definition test_batch_metadata_too_large_rejected ::
    "env \<Rightarrow> address \<Rightarrow> unit rout" where
  "test_batch_metadata_too_large_rejected E owner =
     (let E = mock_all_auths E in
     bindE (commit_ip E owner (replicate 32 0x13) 0 empty_registry) (\<lambda>(ip_id, s).
     bindE (set_batch_metadata E ip_id (replicate 32 0xBB) (replicate 1025 0) s) (\<lambda>s.
     Inr ())))"

definition test_batch_metadata_overwrite ::
    "env \<Rightarrow> address \<Rightarrow> unit rout" where
  "test_batch_metadata_overwrite E owner =
     (let E = mock_all_auths E in
     bindE (commit_ip E owner (replicate 32 0x14) 0 empty_registry) (\<lambda>(ip_id, s).
     bindE (set_batch_metadata E ip_id (replicate 32 1) [118, 49] s) (\<lambda>s.
     bindE (set_batch_metadata E ip_id (replicate 32 2) [118, 50] s) (\<lambda>s.
     bindE (get_batch_metadata s ip_id) (\<lambda>stored.
     bindE (ok_or HostTrap stored) (\<lambda>meta.
     asserts (bm_batch_id meta = replicate 32 2)))))))"

section \<open>Compression\<close>

definition test_default_compression_is_truncate16 ::
    "env \<Rightarrow> address \<Rightarrow> unit rout" where
  "test_default_compression_is_truncate16 E owner =
     (let E = mock_all_auths E in
     bindE (commit_ip E owner (replicate 32 0x21) 0 empty_registry) (\<lambda>(ip_id, s).
     bindE (get_commitment_compression s ip_id) (\<lambda>algo.
     asserts (algo = Truncate16))))"

definition test_set_compression_none ::
    "env \<Rightarrow> address \<Rightarrow> unit rout" where
  "test_set_compression_none E owner =
     (let E = mock_all_auths E in
     bindE (commit_ip E owner (replicate 32 0x22) 0 empty_registry) (\<lambda>(ip_id, s).
     bindE (set_commitment_compression ip_id CompressNone s) (\<lambda>s.
     bindE (get_commitment_compression s ip_id) (\<lambda>algo.
     asserts (algo = CompressNone)))))"

definition test_set_compression_xor8 ::
    "env \<Rightarrow> address \<Rightarrow> unit rout" where
  "test_set_compression_xor8 E owner =
     (let E = mock_all_auths E in
     bindE (commit_ip E owner (replicate 32 0x23) 0 empty_registry) (\<lambda>(ip_id, s).
     bindE (set_commitment_compression ip_id Xor8 s) (\<lambda>s.
     bindE (get_commitment_compression s ip_id) (\<lambda>algo.
     asserts (algo = Xor8)))))"

definition test_compressed_truncate16_length ::
    "env \<Rightarrow> address \<Rightarrow> unit rout" where
  "test_compressed_truncate16_length E owner =
     (let E = mock_all_auths E in
     bindE (commit_ip E owner (replicate 32 0x24) 0 empty_registry) (\<lambda>(ip_id, s).
     bindE (set_commitment_compression ip_id Truncate16 s) (\<lambda>s.
     bindE (get_compressed_bytes s ip_id) (\<lambda>compressed.
     asserts (length compressed = 16)))))"

definition test_compressed_xor8_length ::
    "env \<Rightarrow> address \<Rightarrow> unit rout" where
  "test_compressed_xor8_length E owner =
     (let E = mock_all_auths E in
     bindE (commit_ip E owner (replicate 32 0x25) 0 empty_registry) (\<lambda>(ip_id, s).
     bindE (set_commitment_compression ip_id Xor8 s) (\<lambda>s.
     bindE (get_compressed_bytes s ip_id) (\<lambda>compressed.
     asserts (length compressed = 8)))))"

definition test_compressed_none_length ::
    "env \<Rightarrow> address \<Rightarrow> unit rout" where
  "test_compressed_none_length E owner =
     (let E = mock_all_auths E in
     bindE (commit_ip E owner (replicate 32 0x26) 0 empty_registry) (\<lambda>(ip_id, s).
     bindE (set_commitment_compression ip_id CompressNone s) (\<lambda>s.
     bindE (get_compressed_bytes s ip_id) (\<lambda>compressed.
     asserts (length compressed = 32)))))"

section \<open>Encrypted commitments\<close>

definition test_encrypt_and_get_commitment ::
    "env \<Rightarrow> address \<Rightarrow> unit rout" where
  "test_encrypt_and_get_commitment E owner =
     (let E = mock_all_auths E in
     bindE (commit_ip E owner (replicate 32 0x31) 0 empty_registry) (\<lambda>(ip_id, s).
     bindE (encrypt_commitment E ip_id (replicate 64 0xCC) (replicate 32 0xDD) s) (\<lambda>s.
     bindE (get_encrypted_commitment s ip_id) (\<lambda>stored.
     bindE (ok_or HostTrap stored) (\<lambda>record.
     bindE (asserts (ec_ip_id record = ip_id)) (\<lambda>_.
     bindE (asserts (ec_encrypted_hash record = replicate 64 0xCC)) (\<lambda>_.
     asserts (ec_key_hint record = replicate 32 0xDD))))))))"

definition test_get_encrypted_commitment_none_if_not_set ::
    "env \<Rightarrow> address \<Rightarrow> unit rout" where
  "test_get_encrypted_commitment_none_if_not_set E owner =
     (let E = mock_all_auths E in
     bindE (commit_ip E owner (replicate 32 0x32) 0 empty_registry) (\<lambda>(ip_id, s).
     bindE (get_encrypted_commitment s ip_id) (\<lambda>stored.
     asserts (stored = None))))"

definition test_encrypted_data_too_large_rejected ::
    "env \<Rightarrow> address \<Rightarrow> unit rout" where
  "test_encrypted_data_too_large_rejected E owner =
     (let E = mock_all_auths E in
     bindE (commit_ip E owner (replicate 32 0x33) 0 empty_registry) (\<lambda>(ip_id, s).
     bindE (encrypt_commitment E ip_id (replicate 257 0) (replicate 32 0xEE) s) (\<lambda>s.
     Inr ())))"

definition test_encrypt_commitment_overwrite ::
    "env \<Rightarrow> address \<Rightarrow> unit rout" where
  "test_encrypt_commitment_overwrite E owner =
     (let E = mock_all_auths E in
     bindE (commit_ip E owner (replicate 32 0x34) 0 empty_registry) (\<lambda>(ip_id, s).
     bindE (encrypt_commitment E ip_id (replicate 32 1) (replicate 32 0xFF) s) (\<lambda>s.
     bindE (encrypt_commitment E ip_id (replicate 32 2) (replicate 32 0xFF) s) (\<lambda>s.
     bindE (get_encrypted_commitment s ip_id) (\<lambda>stored.
     bindE (ok_or HostTrap stored) (\<lambda>record.
     asserts (ec_encrypted_hash record = replicate 32 2)))))))"

section \<open>Batch verification\<close>

definition test_batch_verify_all_valid ::
    "env \<Rightarrow> address \<Rightarrow> unit rout" where
  "test_batch_verify_all_valid E owner =
     (let E = mock_all_auths E in
     bindE (commit_ip E owner (sha256 E (replicate 32 1 @ replicate 32 2)) 0 empty_registry)
       (\<lambda>(id1, s).
     bindE (commit_ip E owner (sha256 E (replicate 32 3 @ replicate 32 4)) 0 s)
       (\<lambda>(id2, s).
     bindE (batch_verify_commitment_requests E s
       [\<lparr>vq_ip_id = id1, vq_secret = replicate 32 1, vq_blinding_factor = replicate 32 2\<rparr>,
        \<lparr>vq_ip_id = id2, vq_secret = replicate 32 3, vq_blinding_factor = replicate 32 4\<rparr>]) (\<lambda>results.
     bindE (asserts (length results = 2)) (\<lambda>_.
     bindE (asserts (vr_valid (results ! 0))) (\<lambda>_.
     asserts (vr_valid (results ! 1))))))))"

definition test_batch_verify_invalid_proof ::
    "env \<Rightarrow> address \<Rightarrow> unit rout" where
  "test_batch_verify_invalid_proof E owner =
     (let E = mock_all_auths E in
     bindE (commit_ip E owner (sha256 E (replicate 32 0xAA @ replicate 32 0xBB)) 0 empty_registry)
       (\<lambda>(id, s).
     bindE (batch_verify_commitment_requests E s
       [\<lparr>vq_ip_id = id, vq_secret = replicate 32 0xAA, vq_blinding_factor = replicate 32 0xCC\<rparr>]) (\<lambda>results.
     asserts (\<not> vr_valid (results ! 0)))))"

definition test_batch_verify_nonexistent_ip_panics ::
    "env \<Rightarrow> unit rout" where
  "test_batch_verify_nonexistent_ip_panics E =
     (let E = mock_all_auths E in
     bindE (batch_verify_commitment_requests E empty_registry
       [\<lparr>vq_ip_id = 9999, vq_secret = replicate 32 1, vq_blinding_factor = replicate 32 2\<rparr>]) (\<lambda>_.
     Inr ()))"

section \<open>Categories\<close>

definition test_assign_and_list_ip_by_category ::
    "env \<Rightarrow> address \<Rightarrow> unit rout" where
  "test_assign_and_list_ip_by_category E owner =
     (let E = mock_all_auths E in
     bindE (commit_ip E owner (replicate 32 0x10) 0 empty_registry) (\<lambda>(ip_id, s).
     bindE (assign_ip_to_category E ip_id (replicate 32 0xCA) s) (\<lambda>s.
     let ids = list_ip_by_category s owner (replicate 32 0xCA)
     in bindE (asserts (length ids = 1)) (\<lambda>_. asserts (ids ! 0 = ip_id)))))"

definition test_list_owner_categories ::
    "env \<Rightarrow> address \<Rightarrow> unit rout" where
  "test_list_owner_categories E owner =
     (let E = mock_all_auths E in
     bindE (commit_ip E owner (replicate 32 0x11) 0 empty_registry) (\<lambda>(id1, s).
     bindE (commit_ip E owner (replicate 32 0x12) 0 s) (\<lambda>(id2, s).
     bindE (assign_ip_to_category E id1 (replicate 32 0xC1) s) (\<lambda>s.
     bindE (assign_ip_to_category E id2 (replicate 32 0xC2) s) (\<lambda>s.
     asserts (length (list_owner_categories s owner) = 2))))))"

definition test_assign_ip_to_category_no_duplicates ::
    "env \<Rightarrow> address \<Rightarrow> unit rout" where
  "test_assign_ip_to_category_no_duplicates E owner =
     (let E = mock_all_auths E in
     bindE (commit_ip E owner (replicate 32 0x13) 0 empty_registry) (\<lambda>(ip_id, s).
     bindE (assign_ip_to_category E ip_id (replicate 32 0xC3) s) (\<lambda>s.
     bindE (assign_ip_to_category E ip_id (replicate 32 0xC3) s) (\<lambda>s.
     asserts (length (list_ip_by_category s owner (replicate 32 0xC3)) = 1)))))"

definition test_list_ip_by_category_empty ::
    "address \<Rightarrow> unit rout" where
  "test_list_ip_by_category_empty owner =
     asserts (length (list_ip_by_category empty_registry owner (replicate 32 0xC4)) = 0)"

section \<open>Guards\<close>

text \<open>The tests of \<open>validation.rs\<close>; the ones marked \<open>#[ignore]\<close> are here like the others.\<close>

definition sample_record :: "address \<Rightarrow> bool \<Rightarrow> IpRec" where
  "sample_record owner revoked = \<lparr>ir_ip_id = 1, ir_owner = owner, ir_commitment_hash = replicate 32 1,
     ir_timestamp = 0, ir_revoked = revoked, ir_co_owners = [], ir_parent_ip_id = None,
     ir_notary_signature = None\<rparr>"

definition test_require_non_zero_commitment_succeeds_for_non_zero :: "unit rout" where
  "test_require_non_zero_commitment_succeeds_for_non_zero = require_non_zero_commitment (replicate 32 1)"

definition test_require_non_zero_commitment_panics_for_zero :: "unit rout" where
  "test_require_non_zero_commitment_panics_for_zero = require_non_zero_commitment (replicate 32 0)"

definition test_require_unique_commitment_succeeds_for_new :: "unit rout" where
  "test_require_unique_commitment_succeeds_for_new = require_unique_commitment empty_registry (replicate 32 1)"

definition test_require_unique_commitment_panics_for_duplicate ::
    "address \<Rightarrow> unit rout" where
  "test_require_unique_commitment_panics_for_duplicate owner =
     require_unique_commitment
       (empty_registry\<lparr>rg_CommitmentOwner := [replicate 32 1 \<mapsto> owner]\<rparr>) (replicate 32 1)"

definition test_require_not_revoked_succeeds_when_not_revoked ::
    "address \<Rightarrow> unit rout" where
  "test_require_not_revoked_succeeds_when_not_revoked owner =
     require_not_revoked (sample_record owner False)"

definition test_require_not_revoked_panics_when_revoked ::
    "address \<Rightarrow> unit rout" where
  "test_require_not_revoked_panics_when_revoked owner =
     require_not_revoked (sample_record owner True)"

definition test_require_owner_succeeds_when_matching ::
    "address \<Rightarrow> unit rout" where
  "test_require_owner_succeeds_when_matching owner =
     require_owner owner (sample_record owner False)"

definition test_require_owner_panics_when_not_matching ::
    "address \<Rightarrow> address \<Rightarrow> unit rout" where
  "test_require_owner_panics_when_not_matching owner not_owner =
     require_owner not_owner (sample_record owner False)"

section \<open>The suite\<close>

text \<open>Every test with its verdict.\<close>

definition registry_tests :: "env \<Rightarrow> address \<Rightarrow> address \<Rightarrow> address \<Rightarrow> address \<Rightarrow> bool list" where
  "registry_tests E a b c d = [
     panics (test_non_owner_cannot_commit E a b),
     passes (test_non_owner_commit_succeeds_with_mock_all_auths E a b),
     passes (test_commitment_timestamp_accuracy E a),
     passes (test_commit_ip_version_links_parent E a),
     passes (test_get_ip_version_chain_single E a),
     passes (test_get_ip_version_chain_multiple_versions E a),
     passes (test_version_chain_preserves_prior_art E a),
     passes (test_threshold_config_set_and_get E a b c d),
     passes (test_threshold_not_met_initially E a b c),
     passes (test_threshold_met_after_enough_signatures E a b c),
     panics (test_threshold_duplicate_signer_rejected E a b),
     panics (test_threshold_unauthorized_signer_rejected E a b c),
     passes (test_get_threshold_signatures_returns_all E a b c),
     passes (test_set_and_get_batch_metadata E a),
     passes (test_get_batch_metadata_none_if_not_set E a),
     panics (test_batch_metadata_too_large_rejected E a),
     passes (test_batch_metadata_overwrite E a),
     passes (test_default_compression_is_truncate16 E a),
     passes (test_set_compression_none E a),
     passes (test_set_compression_xor8 E a),
     passes (test_compressed_truncate16_length E a),
     passes (test_compressed_xor8_length E a),
     passes (test_compressed_none_length E a),
     passes (test_encrypt_and_get_commitment E a),
     passes (test_get_encrypted_commitment_none_if_not_set E a),
     panics (test_encrypted_data_too_large_rejected E a),
     passes (test_encrypt_commitment_overwrite E a),
     passes (test_batch_verify_all_valid E a),
     passes (test_batch_verify_invalid_proof E a),
     panics (test_batch_verify_nonexistent_ip_panics E),
     passes (test_assign_and_list_ip_by_category E a),
     passes (test_list_owner_categories E a),
     passes (test_assign_ip_to_category_no_duplicates E a),
     passes (test_list_ip_by_category_empty a),
     passes test_require_non_zero_commitment_succeeds_for_non_zero,
     panics_with ZeroCommitmentHash test_require_non_zero_commitment_panics_for_zero,
     passes test_require_unique_commitment_succeeds_for_new,
     panics_with CommitmentAlreadyRegistered (test_require_unique_commitment_panics_for_duplicate a),
     passes (test_require_not_revoked_succeeds_when_not_revoked a),
     panics_with IpAlreadyRevoked (test_require_not_revoked_panics_when_revoked a),
     passes (test_require_owner_succeeds_when_matching a),
     panics_with Unauthorized (test_require_owner_panics_when_not_matching a b)]"

section \<open>Runs\<close>

text \<open>The fields of the storage a commitment leaves alone, and the others after a commitment.\<close>

lemma commit_keeps_fields [simp]:
  "rg_ThresholdConfig (init_admin E s) = rg_ThresholdConfig s"
  "rg_ThresholdSignatures (init_admin E s) = rg_ThresholdSignatures s"
  "rg_BatchMetadata (init_admin E s) = rg_BatchMetadata s"
  "rg_CompressionSelection (init_admin E s) = rg_CompressionSelection s"
  "rg_EncryptedCommitment (init_admin E s) = rg_EncryptedCommitment s"
  "rg_HierarchyNode (init_admin E s) = rg_HierarchyNode s"
  "rg_OwnerCategories (init_admin E s) = rg_OwnerCategories s"
  "rg_ThresholdConfig (append_audit_entry E i w a s) = rg_ThresholdConfig s"
  "rg_ThresholdSignatures (append_audit_entry E i w a s) = rg_ThresholdSignatures s"
  "rg_BatchMetadata (append_audit_entry E i w a s) = rg_BatchMetadata s"
  "rg_CompressionSelection (append_audit_entry E i w a s) = rg_CompressionSelection s"
  "rg_EncryptedCommitment (append_audit_entry E i w a s) = rg_EncryptedCommitment s"
  "rg_HierarchyNode (append_audit_entry E i w a s) = rg_HierarchyNode s"
  "rg_OwnerCategories (append_audit_entry E i w a s) = rg_OwnerCategories s"
  "rg_ThresholdConfig (assign_to_shard i h s) = rg_ThresholdConfig s"
  "rg_ThresholdSignatures (assign_to_shard i h s) = rg_ThresholdSignatures s"
  "rg_BatchMetadata (assign_to_shard i h s) = rg_BatchMetadata s"
  "rg_CompressionSelection (assign_to_shard i h s) = rg_CompressionSelection s"
  "rg_EncryptedCommitment (assign_to_shard i h s) = rg_EncryptedCommitment s"
  "rg_HierarchyNode (assign_to_shard i h s) = rg_HierarchyNode s"
  "rg_OwnerCategories (assign_to_shard i h s) = rg_OwnerCategories s"
  "rg_ThresholdConfig (store_compressed_commitment i h s) = rg_ThresholdConfig s"
  "rg_ThresholdSignatures (store_compressed_commitment i h s) = rg_ThresholdSignatures s"
  "rg_BatchMetadata (store_compressed_commitment i h s) = rg_BatchMetadata s"
  "rg_CompressionSelection (store_compressed_commitment i h s) = rg_CompressionSelection s"
  "rg_EncryptedCommitment (store_compressed_commitment i h s) = rg_EncryptedCommitment s"
  "rg_HierarchyNode (store_compressed_commitment i h s) = rg_HierarchyNode s"
  "rg_OwnerCategories (store_compressed_commitment i h s) = rg_OwnerCategories s"
  "rg_ThresholdConfig (update_commitment_checksum E s) = rg_ThresholdConfig s"
  "rg_ThresholdSignatures (update_commitment_checksum E s) = rg_ThresholdSignatures s"
  "rg_BatchMetadata (update_commitment_checksum E s) = rg_BatchMetadata s"
  "rg_CompressionSelection (update_commitment_checksum E s) = rg_CompressionSelection s"
  "rg_EncryptedCommitment (update_commitment_checksum E s) = rg_EncryptedCommitment s"
  "rg_HierarchyNode (update_commitment_checksum E s) = rg_HierarchyNode s"
  "rg_OwnerCategories (update_commitment_checksum E s) = rg_OwnerCategories s"
  "rg_ThresholdConfig (bump k n s) = rg_ThresholdConfig s"
  "rg_ThresholdSignatures (bump k n s) = rg_ThresholdSignatures s"
  "rg_BatchMetadata (bump k n s) = rg_BatchMetadata s"
  "rg_CompressionSelection (bump k n s) = rg_CompressionSelection s"
  "rg_EncryptedCommitment (bump k n s) = rg_EncryptedCommitment s"
  "rg_HierarchyNode (bump k n s) = rg_HierarchyNode s"
  "rg_OwnerCategories (bump k n s) = rg_OwnerCategories s"
  "rg_ThresholdConfig (publish xs ys s) = rg_ThresholdConfig s"
  "rg_ThresholdSignatures (publish xs ys s) = rg_ThresholdSignatures s"
  "rg_BatchMetadata (publish xs ys s) = rg_BatchMetadata s"
  "rg_CompressionSelection (publish xs ys s) = rg_CompressionSelection s"
  "rg_EncryptedCommitment (publish xs ys s) = rg_EncryptedCommitment s"
  "rg_HierarchyNode (publish xs ys s) = rg_HierarchyNode s"
  "rg_OwnerCategories (publish xs ys s) = rg_OwnerCategories s"
  by (auto simp: init_admin_def append_audit_entry_def assign_to_shard_def store_compressed_commitment_def
      update_commitment_checksum_def state_simps Let_def split: option.splits)

lemma empty_fields [simp]:
  "rg_IpRecord empty_registry = Map.empty" "rg_OwnerIps empty_registry = Map.empty"
  "rg_NextId empty_registry = None" "rg_CommitmentOwner empty_registry = Map.empty"
  "rg_IpVersions empty_registry = Map.empty" "rg_IpVersionChain empty_registry = Map.empty"
  "rg_ThresholdConfig empty_registry = Map.empty"
  "rg_ThresholdSignatures empty_registry = Map.empty"
  "rg_BatchMetadata empty_registry = Map.empty"
  "rg_CompressionSelection empty_registry = Map.empty"
  "rg_EncryptedCommitment empty_registry = Map.empty"
  "rg_HierarchyNode empty_registry = Map.empty"
  "rg_OwnerCategories empty_registry = Map.empty"
  by (simp_all add: empty_registry_def)

definition committed :: "env \<Rightarrow> address \<Rightarrow> bytes \<Rightarrow> registry \<Rightarrow> registry" where
  "committed E owner h s = snd (projr (commit_ip (mock_all_auths E) owner h 0 s))"

definition fresh_hash :: "bytes \<Rightarrow> registry \<Rightarrow> bool" where
  "fresh_hash h s \<longleftrightarrow> h \<noteq> replicate 32 0 \<and> rg_CommitmentOwner s h = None \<and> next_ip s + 1 < 2 ^ 64"

lemmas commit_defs = fresh_hash_def next_ip_def committed_def commit_ip_def require_pow_def
  require_unique_commitment_def require_non_zero_commitment_def adjust_pow_difficulty_def Let_def

lemma commit_runs:
  "fresh_hash h s \<Longrightarrow> commit_ip (mock_all_auths E) owner h 0 s = Inr (next_ip s, committed E owner h s)"
  by (simp add: commit_defs)

lemma committed_fields:
  assumes "fresh_hash h s"
  shows "rg_IpRecord (committed E owner h s) =
      (rg_IpRecord s)(next_ip s \<mapsto> fresh_record (next_ip s) (now E) owner h None)"
    and "rg_NextId (committed E owner h s) = Some (next_ip s + 1)"
    and "rg_CommitmentOwner (committed E owner h s) = (rg_CommitmentOwner s)(h \<mapsto> owner)"
    and "rg_IpVersions (committed E owner h s) = rg_IpVersions s"
    and "rg_IpVersionChain (committed E owner h s) = rg_IpVersionChain s"
    and "rg_ThresholdConfig (committed E owner h s) = rg_ThresholdConfig s"
    and "rg_ThresholdSignatures (committed E owner h s) = rg_ThresholdSignatures s"
    and "rg_BatchMetadata (committed E owner h s) = rg_BatchMetadata s"
    and "rg_CompressionSelection (committed E owner h s) = rg_CompressionSelection s"
    and "rg_EncryptedCommitment (committed E owner h s) = rg_EncryptedCommitment s"
    and "rg_HierarchyNode (committed E owner h s) = rg_HierarchyNode s"
    and "rg_OwnerCategories (committed E owner h s) = rg_OwnerCategories s"
  using assms by (simp_all add: commit_defs fresh_record_def)

lemma fresh_hash_empty [simp]: "fresh_hash h empty_registry \<longleftrightarrow> h \<noteq> replicate 32 0"
  by (simp add: fresh_hash_def next_ip_def)

lemma next_ip_empty [simp]: "next_ip empty_registry = 1"
  by (simp add: next_ip_def)

lemma fresh_record_fields [simp]:
  "ir_ip_id (fresh_record i n ow h p) = i" "ir_owner (fresh_record i n ow h p) = ow"
  "ir_commitment_hash (fresh_record i n ow h p) = h" "ir_timestamp (fresh_record i n ow h p) = n"
  "ir_parent_ip_id (fresh_record i n ow h p) = p"
  by (simp_all add: fresh_record_def)

lemmas run_simps = commit_runs committed_fields get_ip_def Let_def passes_bind panics_bind

section \<open>The verdicts\<close>

lemma authorisation_test: "a \<noteq> b \<Longrightarrow> panics (test_non_owner_cannot_commit E a b)"
  by (simp add: test_non_owner_cannot_commit_def commit_ip_def require_auth_def)

lemma commit_tests:
  "a \<noteq> b \<Longrightarrow> passes (test_non_owner_commit_succeeds_with_mock_all_auths E a b)"
  "passes (test_commitment_timestamp_accuracy E a)"
  by (simp_all add: test_non_owner_commit_succeeds_with_mock_all_auths_def
      test_commitment_timestamp_accuracy_def run_simps)

lemma version_tests:
  "passes (test_commit_ip_version_links_parent E a)"
  "passes (test_get_ip_version_chain_single E a)"
  "passes (test_get_ip_version_chain_multiple_versions E a)"
  "passes (test_version_chain_preserves_prior_art E a)"
  by (simp_all add: test_commit_ip_version_links_parent_def test_get_ip_version_chain_single_def
      test_get_ip_version_chain_multiple_versions_def test_version_chain_preserves_prior_art_def
      commit_ip_version_def create_ip_version_def require_unique_commitment_def require_non_zero_commitment_def
      get_ip_version_chain_def ancestor_check.simps find_root.simps run_simps)

lemma threshold_tests:
  assumes "distinct [a, b, c]"
  shows "passes (test_threshold_config_set_and_get E a b c d)"
    and "passes (test_threshold_not_met_initially E a b c)"
    and "passes (test_threshold_met_after_enough_signatures E a b c)"
    and "panics (test_threshold_duplicate_signer_rejected E a b)"
    and "panics (test_threshold_unauthorized_signer_rejected E a b c)"
    and "passes (test_get_threshold_signatures_returns_all E a b c)"
  using assms
  by (auto simp add: test_threshold_config_set_and_get_def test_threshold_not_met_initially_def
      test_threshold_met_after_enough_signatures_def test_threshold_duplicate_signer_rejected_def
      test_threshold_unauthorized_signer_rejected_def test_get_threshold_signatures_returns_all_def
      require_threshold_signatures_def get_threshold_config_def add_threshold_signature_def
      get_threshold_signatures_def verify_threshold_signatures_def run_simps)

lemma metadata_tests:
  "passes (test_set_and_get_batch_metadata E a)"
  "passes (test_get_batch_metadata_none_if_not_set E a)"
  "panics (test_batch_metadata_too_large_rejected E a)"
  "passes (test_batch_metadata_overwrite E a)"
  by (simp_all add: test_set_and_get_batch_metadata_def test_get_batch_metadata_none_if_not_set_def
      test_batch_metadata_too_large_rejected_def test_batch_metadata_overwrite_def
      set_batch_metadata_def get_batch_metadata_def run_simps)

lemma compression_tests:
  "passes (test_default_compression_is_truncate16 E a)"
  "passes (test_set_compression_none E a)"
  "passes (test_set_compression_xor8 E a)"
  "passes (test_compressed_truncate16_length E a)"
  "passes (test_compressed_xor8_length E a)"
  "passes (test_compressed_none_length E a)"
  by (simp_all add: test_default_compression_is_truncate16_def test_set_compression_none_def
      test_set_compression_xor8_def test_compressed_truncate16_length_def test_compressed_xor8_length_def
      test_compressed_none_length_def set_commitment_compression_def get_commitment_compression_def
      get_compressed_bytes_def run_simps)

lemma encryption_tests:
  "passes (test_encrypt_and_get_commitment E a)"
  "passes (test_get_encrypted_commitment_none_if_not_set E a)"
  "panics (test_encrypted_data_too_large_rejected E a)"
  "passes (test_encrypt_commitment_overwrite E a)"
  by (simp_all add: test_encrypt_and_get_commitment_def test_get_encrypted_commitment_none_if_not_set_def
      test_encrypted_data_too_large_rejected_def test_encrypt_commitment_overwrite_def
      encrypt_commitment_def get_encrypted_commitment_def run_simps)

lemma category_tests:
  "passes (test_assign_and_list_ip_by_category E a)"
  "passes (test_assign_ip_to_category_no_duplicates E a)"
  "passes (test_list_ip_by_category_empty a)"
  by (simp_all add: test_assign_and_list_ip_by_category_def test_assign_ip_to_category_no_duplicates_def test_list_ip_by_category_empty_def
      assign_ip_to_category_def list_ip_by_category_def list_owner_categories_def run_simps)

lemma owner_categories_test: "passes (test_list_owner_categories E a)"
  by (simp add: test_list_owner_categories_def assign_ip_to_category_def list_owner_categories_def
      fresh_hash_def next_ip_def run_simps)

lemma guard_tests:
  "passes test_require_non_zero_commitment_succeeds_for_non_zero"
  "panics_with ZeroCommitmentHash test_require_non_zero_commitment_panics_for_zero"
  "passes test_require_unique_commitment_succeeds_for_new"
  "panics_with CommitmentAlreadyRegistered (test_require_unique_commitment_panics_for_duplicate a)"
  "passes (test_require_not_revoked_succeeds_when_not_revoked a)"
  "panics_with IpAlreadyRevoked (test_require_not_revoked_panics_when_revoked a)"
  "passes (test_require_owner_succeeds_when_matching a)"
  "a \<noteq> b \<Longrightarrow> panics_with Unauthorized (test_require_owner_panics_when_not_matching a b)"
  by (simp_all add: test_require_non_zero_commitment_succeeds_for_non_zero_def
      test_require_non_zero_commitment_panics_for_zero_def test_require_unique_commitment_succeeds_for_new_def
      test_require_unique_commitment_panics_for_duplicate_def test_require_not_revoked_succeeds_when_not_revoked_def
      test_require_not_revoked_panics_when_revoked_def test_require_owner_succeeds_when_matching_def
      test_require_owner_panics_when_not_matching_def require_non_zero_commitment_def
      require_unique_commitment_def require_not_revoked_def require_owner_def sample_record_def)

text \<open>The tests of the batch verification say something of the hash: that digests are no zeros and differ.\<close>

definition digests_differ :: "(bytes \<Rightarrow> bytes) \<Rightarrow> bool" where
  "digests_differ hash \<longleftrightarrow>
     distinct [replicate 32 0, hash (replicate 32 1 @ replicate 32 2), hash (replicate 32 3 @ replicate 32 4)] \<and>
     distinct [replicate 32 0, hash (replicate 32 0xAA @ replicate 32 0xBB), hash (replicate 32 0xAA @ replicate 32 0xCC)]"

lemma verification_tests:
  assumes "digests_differ (sha256 E)"
  shows "passes (test_batch_verify_all_valid E a)"
    and "passes (test_batch_verify_invalid_proof E a)"
    and "panics (test_batch_verify_nonexistent_ip_panics E)"
  using assms
  by (auto simp add: test_batch_verify_all_valid_def test_batch_verify_invalid_proof_def
      test_batch_verify_nonexistent_ip_panics_def batch_verify_commitment_requests_def digests_differ_def
      fresh_hash_def next_ip_def run_simps)

lemma registry_tests_verdicts:
  assumes "distinct [a, b, c]" and "digests_differ (sha256 E)"
  shows "list_all (\<lambda>verdict. verdict) (registry_tests E a b c d)"
  using assms
  by (simp add: registry_tests_def authorisation_test commit_tests version_tests threshold_tests [OF assms(1)]
      metadata_tests compression_tests encryption_tests verification_tests category_tests
      owner_categories_test guard_tests)

end
