(* ===== verification/Swap_Tests.thy ===== *)
theory Swap_Tests
  imports Swap_Machine Registry_Tests
begin

text \<open>
  The unit tests inside the sources of the swap contract (\<open>installment_tests\<close> and
  \<open>batch_enhancement_tests\<close> of \<open>atomic_swap/src/lib.rs\<close>, \<open>tests\<close> of \<open>multi_currency.rs\<close>) as programs over the
  model. They write swaps into the storage directly and call operations on them. The two tests that only
  read back the fields of an event they have just built are left out, like the commented-out modules of
  \<open>validation.rs\<close> and \<open>upgrade.rs\<close>.
\<close>

section \<open>Installments\<close>

definition make_swap :: "address \<Rightarrow> address \<Rightarrow> address \<Rightarrow> int \<Rightarrow> int \<Rightarrow> bool \<Rightarrow> SwapRecord" where
  "make_swap seller buyer token price paid is_installment = \<lparr>sp_ip_id = 1, sp_seller = seller, sp_buyer = buyer,
     sp_price = price, sp_token = token, sp_status = Pending, sp_expiry = 9999999, sp_accept_timestamp = 0,
     sp_required_approvals = 0, sp_dispute_timestamp = 0, sp_referrer = None, sp_collateral_amount = 0,
     sp_insurance_premium = 0, sp_insurance_enabled = False, sp_escrow_agent = None, sp_quantity = 1,
     sp_conditions = [], sp_paid_amount = paid, sp_is_installment = is_installment\<rparr>"

text \<open>\<open>env.as_contract\<close> with a single write of the swap 0.\<close>

definition stored_swap :: "SwapRecord \<Rightarrow> swaps" where
  "stored_swap swap = empty_swaps\<lparr>sw_Swap := [0 \<mapsto> swap]\<rparr>"

definition test_get_installment_status_initial :: "address \<Rightarrow> address \<Rightarrow> address \<Rightarrow> unit sout" where
  "test_get_installment_status_initial seller buyer token =
     (let s = stored_swap (make_swap seller buyer token 600 0 True) in
     bindE (get_installment_status s 0) (\<lambda>(paid, total, remaining).
     bindE (asserts (paid = 0)) (\<lambda>_.
     bindE (asserts (total = 600)) (\<lambda>_.
     asserts (remaining = 600)))))"

definition test_get_installment_status_partial_paid :: "address \<Rightarrow> address \<Rightarrow> address \<Rightarrow> unit sout" where
  "test_get_installment_status_partial_paid seller buyer token =
     (let s = stored_swap (make_swap seller buyer token 600 200 True) in
     bindE (get_installment_status s 0) (\<lambda>(paid, total, remaining).
     bindE (asserts (paid = 200)) (\<lambda>_.
     bindE (asserts (total = 600)) (\<lambda>_.
     asserts (remaining = 400)))))"

definition test_swap_record_installment_fields_stored_and_retrieved :: "address \<Rightarrow> address \<Rightarrow> address \<Rightarrow> unit sout" where
  "test_swap_record_installment_fields_stored_and_retrieved seller buyer token =
     (let s = stored_swap (make_swap seller buyer token 900 300 True) in
     bindE (ok_or HostTrap (get_swap s 0)) (\<lambda>record.
     bindE (asserts (sp_paid_amount record = 300)) (\<lambda>_.
     bindE (asserts (sp_is_installment record)) (\<lambda>_.
     asserts (sp_price record = 900)))))"

definition test_non_installment_swap_defaults :: "address \<Rightarrow> address \<Rightarrow> address \<Rightarrow> unit sout" where
  "test_non_installment_swap_defaults seller buyer token =
     (let s = stored_swap (make_swap seller buyer token 500 0 False) in
     bindE (ok_or HostTrap (get_swap s 0)) (\<lambda>record.
     bindE (asserts (\<not> sp_is_installment record)) (\<lambda>_.
     asserts (sp_paid_amount record = 0))))"

definition test_installment_remaining_zero_when_fully_paid :: "address \<Rightarrow> address \<Rightarrow> address \<Rightarrow> unit sout" where
  "test_installment_remaining_zero_when_fully_paid seller buyer token =
     (let s = stored_swap (make_swap seller buyer token 300 300 True) in
     bindE (get_installment_status s 0) (\<lambda>(paid, total, remaining).
     bindE (asserts (paid = 300)) (\<lambda>_.
     bindE (asserts (total = 300)) (\<lambda>_.
     asserts (remaining = 0)))))"

definition test_submit_installment_non_installment_swap_panics :: "env \<Rightarrow> address \<Rightarrow> address \<Rightarrow> address \<Rightarrow> unit sout" where
  "test_submit_installment_non_installment_swap_panics E seller buyer token =
     (let E = mock_all_auths E; s = stored_swap (make_swap seller buyer token 300 0 False)
      in bindE (submit_installment_payment E 0 100 s) (\<lambda>_. Inr ()))"

definition test_submit_installment_zero_amount_panics :: "env \<Rightarrow> address \<Rightarrow> address \<Rightarrow> address \<Rightarrow> unit sout" where
  "test_submit_installment_zero_amount_panics E seller buyer token =
     (let E = mock_all_auths E; s = stored_swap (make_swap seller buyer token 300 0 True)
      in bindE (submit_installment_payment E 0 0 s) (\<lambda>_. Inr ()))"

definition test_submit_installment_overpayment_panics :: "env \<Rightarrow> address \<Rightarrow> address \<Rightarrow> address \<Rightarrow> unit sout" where
  "test_submit_installment_overpayment_panics E seller buyer token =
     (let E = mock_all_auths E; s = stored_swap (make_swap seller buyer token 300 200 True)
      in bindE (submit_installment_payment E 0 200 s) (\<lambda>_. Inr ()))"

section \<open>Batch cancellation\<close>

definition setup_swap ::
    "nat \<Rightarrow> address \<Rightarrow> address \<Rightarrow> int \<Rightarrow> address \<Rightarrow> SwapStatus \<Rightarrow> swaps \<Rightarrow> swaps" where
  "setup_swap i seller buyer price token status s =
     (let swap = (make_swap seller buyer token price 0 False)\<lparr>sp_ip_id := i, sp_status := status\<rparr>;
          s = extend_key (Sk_Swap i) LEDGER_BUMP (s\<lparr>sw_Swap := (sw_Swap s)(i \<mapsto> swap)\<rparr>)
      in extend_key (Sk_ActiveSwap (sp_ip_id swap)) LEDGER_BUMP
           (s\<lparr>sw_ActiveSwap := (sw_ActiveSwap s)(sp_ip_id swap \<mapsto> i)\<rparr>))"

definition test_batch_cancel_swaps_success :: "env \<Rightarrow> address \<Rightarrow> address \<Rightarrow> address \<Rightarrow> unit sout" where
  "test_batch_cancel_swaps_success E seller buyer token =
     (let E = mock_all_auths E; s = empty_swaps;
       s = setup_swap 1 seller buyer 100 token Pending s;
       s = setup_swap 2 seller buyer 200 token Pending s;
       s = setup_swap 3 seller buyer 300 token Pending s;
       reasons = [literal ''no_longer_needed'',
         literal ''price_changed'',
         literal ''buyer_requested'']
     in bindE (batch_cancel_swaps E [1, 2, 3] seller reasons s) (\<lambda>(cancelled, s).
     bindE (asserts (length cancelled = 3)) (\<lambda>_.
     bindE (ok_or HostTrap (sw_CancelReason s 1)) (\<lambda>reason1.
     bindE (asserts (reason1 = literal ''no_longer_needed'')) (\<lambda>_.
     bindE (ok_or HostTrap (sw_CancelReason s 2)) (\<lambda>reason2.
     bindE (asserts (reason2 = literal ''price_changed'')) (\<lambda>_.
     bindE (ok_or HostTrap (get_swap s 1)) (\<lambda>rec1.
     bindE (asserts (sp_status rec1 = Cancelled)) (\<lambda>_.
     bindE (ok_or HostTrap (get_swap s 2)) (\<lambda>rec2.
     asserts (sp_status rec2 = Cancelled)))))))))))"

definition test_batch_cancel_swaps_by_buyer :: "env \<Rightarrow> address \<Rightarrow> address \<Rightarrow> address \<Rightarrow> unit sout" where
  "test_batch_cancel_swaps_by_buyer E seller buyer token =
     (let E = mock_all_auths E; s = empty_swaps;
       s = setup_swap 1 seller buyer 100 token Pending s;
       reasons = [literal ''buyer_cancel'']
     in bindE (batch_cancel_swaps E [1] buyer reasons s) (\<lambda>(cancelled, s).
     bindE (asserts (length cancelled = 1)) (\<lambda>_.
     bindE (ok_or HostTrap (get_swap s 1)) (\<lambda>rec.
     asserts (sp_status rec = Cancelled)))))"

definition test_batch_cancel_swaps_mismatched_reasons :: "env \<Rightarrow> address \<Rightarrow> address \<Rightarrow> address \<Rightarrow> unit sout" where
  "test_batch_cancel_swaps_mismatched_reasons E seller buyer token =
     (let E = mock_all_auths E; s = empty_swaps;
       s = setup_swap 1 seller buyer 100 token Pending s;
       s = setup_swap 2 seller buyer 200 token Pending s;
       reasons = [literal ''reason'']
     in bindE (batch_cancel_swaps E [1, 2] seller reasons s) (\<lambda>(cancelled, s).
     Inr ()))"

definition test_batch_cancel_swaps_not_pending_panics :: "env \<Rightarrow> address \<Rightarrow> address \<Rightarrow> address \<Rightarrow> unit sout" where
  "test_batch_cancel_swaps_not_pending_panics E seller buyer token =
     (let E = mock_all_auths E; s = empty_swaps;
       s = setup_swap 1 seller buyer 100 token Accepted s;
       reasons = [literal ''cancel'']
     in bindE (batch_cancel_swaps E [1] seller reasons s) (\<lambda>(cancelled, s).
     Inr ()))"

definition test_batch_cancel_swaps_unauthorized_panics :: "env \<Rightarrow> address \<Rightarrow> address \<Rightarrow> address \<Rightarrow> address \<Rightarrow> unit sout" where
  "test_batch_cancel_swaps_unauthorized_panics E seller buyer token stranger =
     (let E = mock_all_auths E; s = empty_swaps;
       s = setup_swap 1 seller buyer 100 token Pending s;
       reasons = [literal ''cancel'']
     in bindE (batch_cancel_swaps E [1] stranger reasons s) (\<lambda>(cancelled, s).
     Inr ()))"

definition test_batch_cancel_swaps_tracks_reasons_individually :: "env \<Rightarrow> address \<Rightarrow> address \<Rightarrow> address \<Rightarrow> unit sout" where
  "test_batch_cancel_swaps_tracks_reasons_individually E seller buyer token =
     (let E = mock_all_auths E; s = empty_swaps;
       s = setup_swap 10 seller buyer 1000 token Pending s;
       s = setup_swap 20 seller buyer 2000 token Pending s;
       s = setup_swap 30 seller buyer 3000 token Pending s;
       reasons = [literal ''dup_ip'',
         literal ''buyer_credit'',
         literal ''price_disagreement'']
     in bindE (batch_cancel_swaps E [10, 20, 30] seller reasons s) (\<lambda>(cancelled, s).
     bindE (ok_or HostTrap (get_cancellation_reason s 10)) (\<lambda>r1.
     bindE (asserts (r1 = literal ''dup_ip'')) (\<lambda>_.
     bindE (ok_or HostTrap (get_cancellation_reason s 20)) (\<lambda>r2.
     bindE (asserts (r2 = literal ''buyer_credit'')) (\<lambda>_.
     bindE (ok_or HostTrap (get_cancellation_reason s 30)) (\<lambda>r3.
     asserts (r3 = literal ''price_disagreement''))))))))"

section \<open>Fees and currencies\<close>

definition test_swap_fee_breakdown_struct :: "unit sout" where
  "test_swap_fee_breakdown_struct =
     (let breakdown = \<lparr>fb_swap_id = 42, fb_price = 1000, fb_protocol_fee = 25, fb_referral_fee = 10,
            fb_seller_amount = 965\<rparr> in
     bindE (asserts (fb_swap_id breakdown = 42)) (\<lambda>_.
     bindE (asserts (fb_price breakdown = 1000)) (\<lambda>_.
     bindE (asserts (fb_protocol_fee breakdown = 25)) (\<lambda>_.
     bindE (asserts (fb_referral_fee breakdown = 10)) (\<lambda>_.
     asserts (fb_seller_amount breakdown = 965))))))"

definition test_supported_token_variants_are_distinct :: "unit sout" where
  "test_supported_token_variants_are_distinct =
     bindE (asserts (XLM \<noteq> USDC)) (\<lambda>_. bindE (asserts (USDC \<noteq> EURC)) (\<lambda>_. asserts (XLM \<noteq> EURC)))"

definition test_initialize_enables_three_tokens :: "unit sout" where
  "test_initialize_enables_three_tokens =
     (let config = multi_currency_defaults in
     bindE (asserts (config_supports config XLM)) (\<lambda>_.
     bindE (asserts (config_supports config USDC)) (\<lambda>_.
     bindE (asserts (config_supports config EURC)) (\<lambda>_.
     asserts (\<not> config_supports config Custom)))))"

definition test_get_token_by_symbol_found :: "unit sout" where
  "test_get_token_by_symbol_found =
     bindE (ok_or HostTrap (get_token_by_symbol multi_currency_defaults ''USDC'')) (\<lambda>meta.
     asserts (tm_decimals meta = 6))"

definition test_get_token_by_symbol_not_found :: "unit sout" where
  "test_get_token_by_symbol_not_found =
     asserts (get_token_by_symbol multi_currency_defaults ''BTC'' = None)"

section \<open>The suite\<close>

definition swap_tests :: "env \<Rightarrow> address \<Rightarrow> address \<Rightarrow> address \<Rightarrow> address \<Rightarrow> bool list" where
  "swap_tests E a b c d = [
     passes (test_get_installment_status_initial a b c),
     passes (test_get_installment_status_partial_paid a b c),
     passes (test_swap_record_installment_fields_stored_and_retrieved a b c),
     passes (test_non_installment_swap_defaults a b c),
     passes (test_installment_remaining_zero_when_fully_paid a b c),
     panics (test_submit_installment_non_installment_swap_panics E a b c),
     panics (test_submit_installment_zero_amount_panics E a b c),
     panics (test_submit_installment_overpayment_panics E a b c),
     passes (test_batch_cancel_swaps_success E a b c),
     passes (test_batch_cancel_swaps_by_buyer E a b c),
     panics (test_batch_cancel_swaps_mismatched_reasons E a b c),
     panics (test_batch_cancel_swaps_not_pending_panics E a b c),
     panics (test_batch_cancel_swaps_unauthorized_panics E a b c d),
     passes (test_batch_cancel_swaps_tracks_reasons_individually E a b c),
     passes test_swap_fee_breakdown_struct,
     passes test_supported_token_variants_are_distinct,
     passes test_initialize_enables_three_tokens,
     passes test_get_token_by_symbol_found,
     passes test_get_token_by_symbol_not_found]"

section \<open>The verdicts\<close>

lemmas swap_run_simps = passes_bind panics_bind Let_def stored_swap_def setup_swap_def make_swap_def
  require_swap_exists_def get_swap_def get_cancellation_reason_def

lemma installment_tests:
  "passes (test_get_installment_status_initial a b c)"
  "passes (test_get_installment_status_partial_paid a b c)"
  "passes (test_swap_record_installment_fields_stored_and_retrieved a b c)"
  "passes (test_non_installment_swap_defaults a b c)"
  "passes (test_installment_remaining_zero_when_fully_paid a b c)"
  "panics (test_submit_installment_non_installment_swap_panics E a b c)"
  "panics (test_submit_installment_zero_amount_panics E a b c)"
  "panics (test_submit_installment_overpayment_panics E a b c)"
  by (simp_all add: test_get_installment_status_initial_def test_get_installment_status_partial_paid_def
      test_swap_record_installment_fields_stored_and_retrieved_def test_non_installment_swap_defaults_def
      test_installment_remaining_zero_when_fully_paid_def test_submit_installment_non_installment_swap_panics_def
      test_submit_installment_zero_amount_panics_def test_submit_installment_overpayment_panics_def
      get_installment_status_def submit_installment_payment_def sat_i128_def swap_run_simps)

lemma currency_tests:
  "passes test_swap_fee_breakdown_struct"
  "passes test_supported_token_variants_are_distinct"
  "passes test_initialize_enables_three_tokens"
  "passes test_get_token_by_symbol_found"
  "passes test_get_token_by_symbol_not_found"
  by (simp_all add: test_swap_fee_breakdown_struct_def test_supported_token_variants_are_distinct_def
      test_initialize_enables_three_tokens_def test_get_token_by_symbol_found_def
      test_get_token_by_symbol_not_found_def multi_currency_defaults_def config_supports_def
      get_token_by_symbol_def swap_run_simps)

text \<open>The fields of the storage the batch cancellation reads and writes.\<close>

lemma cancel_fields [simp]:
  "sw_Swap empty_swaps = Map.empty"
  "sw_Swap (extend_key key n s) = sw_Swap s" "sw_Swap (emit t d s) = sw_Swap s"
  "sw_CancelReason (extend_key key n s) = sw_CancelReason s" "sw_CancelReason (emit t d s) = sw_CancelReason s"
  "sw_Swap (save_swap i r s) = (sw_Swap s)(i \<mapsto> r)" "sw_CancelReason (save_swap i r s) = sw_CancelReason s"
  "sw_Swap (unlock_ip j s) = sw_Swap s" "sw_CancelReason (unlock_ip j s) = sw_CancelReason s"
  "sw_Swap (append_history E i st s) = sw_Swap s" "sw_CancelReason (append_history E i st s) = sw_CancelReason s"
  "sw_Swap (update_user_reputation a k s) = sw_Swap s"
  "sw_CancelReason (update_user_reputation a k s) = sw_CancelReason s"
  "sw_Swap (set_cancel_reason i w s) = sw_Swap s"
  "sw_CancelReason (set_cancel_reason i w s) = (sw_CancelReason s)(i \<mapsto> w)"
  by (simp_all add: empty_swaps_def extend_key_def emit_def save_swap_def unlock_ip_def append_history_def
      update_user_reputation_def set_cancel_reason_def Let_def)

lemma cancellation_tests:
  "passes (test_batch_cancel_swaps_success E a b c)"
  "passes (test_batch_cancel_swaps_by_buyer E a b c)"
  "panics (test_batch_cancel_swaps_mismatched_reasons E a b c)"
  "panics (test_batch_cancel_swaps_not_pending_panics E a b c)"
  "a \<noteq> d \<Longrightarrow> b \<noteq> d \<Longrightarrow> panics (test_batch_cancel_swaps_unauthorized_panics E a b c d)"
  "passes (test_batch_cancel_swaps_tracks_reasons_individually E a b c)"
  by (simp_all add: test_batch_cancel_swaps_success_def test_batch_cancel_swaps_by_buyer_def
      test_batch_cancel_swaps_mismatched_reasons_def test_batch_cancel_swaps_not_pending_panics_def
      test_batch_cancel_swaps_unauthorized_panics_def test_batch_cancel_swaps_tracks_reasons_individually_def
      batch_cancel_swaps_def batch_cancel_step_def require_seller_or_buyer_def require_swap_status_def
      swap_run_simps)

section \<open>Both suites\<close>

text \<open>Remark: the unit tests of the test modules that stand inside the contracts' source files (\<open>lib.rs\<close>,
  \<open>validation.rs\<close>, \<open>multi_currency.rs\<close>), run on the model; the test files beside them, such as
  \<open>ip_registry/src/test.rs\<close>, are not among them. All sixty-one have the verdict they ask for, panics included, whatever the clock, the address of the contract
  and the token contract, for any addresses that differ and any hash that separates the preimages of the
  tests of batch verification.\<close>

theorem contract_tests_pass:
  assumes "distinct [a, b, c, d]" and "digests_differ (sha256 E)"
  shows "list_all (\<lambda>verdict. verdict) (registry_tests E a b c d) \<and>
    list_all (\<lambda>verdict. verdict) (swap_tests E a b c d)"
proof
  show "list_all (\<lambda>verdict. verdict) (registry_tests E a b c d)"
    by (rule registry_tests_verdicts) (use assms in simp_all)
  show "list_all (\<lambda>verdict. verdict) (swap_tests E a b c d)"
    using assms(1) by (simp add: swap_tests_def installment_tests cancellation_tests currency_tests)
qed

text \<open>A hash for the witness: the last byte, 32 times.\<close>

definition last_byte_env :: env where
  "last_byte_env = \<lparr>now = 0, authorized = (\<lambda>_. False), this_addr = Address 0,
     sha256 = (\<lambda>x. replicate 32 (last x)), ed25519_ok = (\<lambda>_ _ _. False), token_ok = (\<lambda>_ _. True),
     oracle_price = (\<lambda>_ _. None)\<rparr>"

theorem contract_tests_pass_witness:
  "list_all (\<lambda>verdict. verdict) (registry_tests last_byte_env (Address 1) (Address 2) (Address 3) (Address 4)) \<and>
   list_all (\<lambda>verdict. verdict) (swap_tests last_byte_env (Address 1) (Address 2) (Address 3) (Address 4))"
  by (rule contract_tests_pass) (simp_all add: digests_differ_def last_byte_env_def)

end
