(* ===== verification/Api_Tests.thy ===== *)
theory Api_Tests
  imports Api_Served
begin

text \<open>
  The tests of \<open>main.rs\<close>: each sends one request to a fresh application of \<open>build_app\<close> and looks at the
  status, the headers or the body of the answer. The bodies of the requests are the compact texts of JSON
  values, so they are written by the serialiser. Header names are in lower case, as everywhere in the
  model. The test of \<open>/openapi.json\<close> is left out: what it looks at is made by the library. In the code the
  tests share the cache of the process; here each starts with an empty one.
\<close>

section \<open>Sending a request\<close>

definition oneshot :: "axum \<Rightarrow> server \<Rightarrow> nat \<times> nat \<times> nat \<Rightarrow> request \<Rightarrow> response" where
  "oneshot X K latencies req = fst (build_app X K latencies req (initial_api, health_checker_new K))"

type_synonym app_test = "axum \<Rightarrow> server \<Rightarrow> nat \<times> nat \<times> nat \<Rightarrow> bool"

definition commit_body :: json where
  "commit_body = JObj [(''owner'', JStr ''G123''), (''commitment_hash'', JStr ''abc'')]"

definition commits_body :: "string list \<Rightarrow> json" where
  "commits_body hashes = JObj [(''owner'', JStr ''GADDR''), (''commitment_hashes'', strings_json hashes)]"

definition swaps_body :: "nat list \<Rightarrow> int list \<Rightarrow> json" where
  "swaps_body ip_ids prices = JObj [(''ip_registry_id'', JStr ''C1''), (''ip_ids'', numbers_json ip_ids),
     (''seller'', JStr ''G1''), (''prices'', amounts_json prices), (''buyer'', JStr ''G2''), (''token'', JStr ''C2'')]"

text \<open>The body of an answer is parsed and looked into.\<close>

definition answers :: "server \<Rightarrow> response \<Rightarrow> (json \<Rightarrow> bool) \<Rightarrow> bool" where
  "answers K resp holds = (case sv_read K (rs_body resp) of None \<Rightarrow> False | Some json \<Rightarrow> holds json)"

definition has :: "(json \<Rightarrow> bool) \<Rightarrow> string \<Rightarrow> json \<Rightarrow> bool" where
  "has holds name j = (case member name j of None \<Rightarrow> False | Some v \<Rightarrow> holds v)"

definition json_array :: "json \<Rightarrow> bool" where "json_array j = (case j of JArr _ \<Rightarrow> True | _ \<Rightarrow> False)"
definition json_object :: "json \<Rightarrow> bool" where "json_object j = (case j of JObj _ \<Rightarrow> True | _ \<Rightarrow> False)"
definition json_number :: "json \<Rightarrow> bool" where "json_number j = (case j of JNum _ \<Rightarrow> True | _ \<Rightarrow> False)"
definition json_text :: "json \<Rightarrow> bool" where "json_text j = (case j of JStr _ \<Rightarrow> True | _ \<Rightarrow> False)"
definition json_boolean :: "json \<Rightarrow> bool" where "json_boolean j = (case j of JBool _ \<Rightarrow> True | _ \<Rightarrow> False)"

section \<open>Content types\<close>

definition test_post_without_content_type_returns_415 :: app_test where
  "test_post_without_content_type_returns_415 X K latencies =
     (let resp = oneshot X K latencies
       ((post_request K ''/v1/ip/commit'' commit_body)\<lparr>rq_headers := Map.empty\<rparr>)
      in rs_status resp = 415)"

definition test_post_with_wrong_content_type_returns_415 :: app_test where
  "test_post_with_wrong_content_type_returns_415 X K latencies =
     (let resp = oneshot X K latencies
       ((post_request K ''/v1/ip/commit'' commit_body)
        \<lparr>rq_headers := [''content-type'' \<mapsto> ''text/plain'']\<rparr>)
      in rs_status resp = 415)"

definition test_post_with_json_content_type_passes_middleware :: app_test where
  "test_post_with_json_content_type_passes_middleware X K latencies =
     (let resp = oneshot X K latencies
       (post_request K ''/v1/ip/commit'' commit_body)
      in rs_status resp \<noteq> 415)"

definition test_get_request_bypasses_content_type_check :: app_test where
  "test_get_request_bypasses_content_type_check X K latencies =
     (let resp = oneshot X K latencies
       (get_request ''/v1/ip/1'')
      in rs_status resp \<noteq> 415)"

section \<open>Pages\<close>

definition test_list_ip_by_owner_returns_paginated_response :: app_test where
  "test_list_ip_by_owner_returns_paginated_response X K latencies =
     (let resp = oneshot X K latencies
       ((get_request ''/v1/ip/owner/GADDR'')\<lparr>rq_query := ''limit=10&offset=0''\<rparr>)
      in rs_status resp = 200 \<and>
        answers K resp (\<lambda>json. has json_array ''ip_ids'' json \<and> has json_number ''total_count'' json \<and>
          has json_boolean ''has_more'' json))"

definition test_list_ip_by_owner_default_pagination :: app_test where
  "test_list_ip_by_owner_default_pagination X K latencies =
     (let resp = oneshot X K latencies
       (get_request ''/v1/ip/owner/GADDR'')
      in rs_status resp = 200)"

section \<open>Cache control\<close>

definition test_get_ip_returns_cache_control_header :: app_test where
  "test_get_ip_returns_cache_control_header X K latencies =
     (let resp = oneshot X K latencies
       (get_request ''/v1/ip/1'')
      in rs_headers resp ''cache-control'' \<noteq> None)"

definition test_get_swap_returns_cache_control_header :: app_test where
  "test_get_swap_returns_cache_control_header X K latencies =
     (let resp = oneshot X K latencies
       (get_request ''/v1/swap/1'')
      in rs_headers resp ''cache-control'' \<noteq> None)"

section \<open>Batches of swaps\<close>

definition test_batch_initiate_swap_mismatched_lengths_returns_400 :: app_test where
  "test_batch_initiate_swap_mismatched_lengths_returns_400 X K latencies =
     (let resp = oneshot X K latencies
       (post_request K ''/v1/swap/bulk/initiate'' (swaps_body [1, 2] [100]))
      in rs_status resp = 400 \<and>
        answers K resp (\<lambda>json. case Option.bind (member ''error'' json) json_string of
            Some e \<Rightarrow> sublist ''same length'' e | None \<Rightarrow> False))"

definition test_batch_initiate_swap_empty_ids_returns_400 :: app_test where
  "test_batch_initiate_swap_empty_ids_returns_400 X K latencies =
     (let resp = oneshot X K latencies
       (post_request K ''/v1/swap/bulk/initiate'' (swaps_body [] []))
      in rs_status resp = 400)"

section \<open>Versions\<close>

definition test_api_version_header_present_in_response :: app_test where
  "test_api_version_header_present_in_response X K latencies =
     (let resp = oneshot X K latencies
       (get_request ''/v1/ip/1'')
      in rs_headers resp ''api-version'' \<noteq> None \<and> rs_headers resp ''api-version'' = Some ''1.0.0'')"

definition test_accept_version_header_negotiation :: app_test where
  "test_accept_version_header_negotiation X K latencies =
     (let resp = oneshot X K latencies
       ((get_request ''/v1/ip/1'')\<lparr>rq_headers := [''accept-version'' \<mapsto> ''1.0.0'']\<rparr>)
      in rs_status resp = 200)"

definition test_unsupported_version_returns_406 :: app_test where
  "test_unsupported_version_returns_406 X K latencies =
     (let resp = oneshot X K latencies
       ((get_request ''/v1/ip/1'')\<lparr>rq_headers := [''accept-version'' \<mapsto> ''2.0.0'']\<rparr>)
      in rs_status resp = 406)"

section \<open>Traces\<close>

definition test_trace_id_header_present_in_response :: app_test where
  "test_trace_id_header_present_in_response X K latencies =
     (let resp = oneshot X K latencies
       (get_request ''/v1/ip/1'')
      in rs_headers resp ''x-trace-id'' \<noteq> None \<and> rs_headers resp ''x-request-id'' \<noteq> None)"

definition test_trace_id_propagation :: app_test where
  "test_trace_id_propagation X K latencies =
     (let resp = oneshot X K latencies
       ((get_request ''/v1/ip/1'')\<lparr>rq_headers := [''x-trace-id'' \<mapsto> ''550e8400-e29b-41d4-a716-446655440000'']\<rparr>)
      in rs_headers resp ''x-trace-id'' = Some ''550e8400-e29b-41d4-a716-446655440000'')"

section \<open>Bulk operations\<close>

definition test_bulk_commit_ip_empty_hashes_returns_400 :: app_test where
  "test_bulk_commit_ip_empty_hashes_returns_400 X K latencies =
     (let resp = oneshot X K latencies
       (post_request K ''/v1/bulk/commit-ip'' (commits_body []))
      in rs_status resp = 400)"

definition test_bulk_commit_ip_returns_results :: app_test where
  "test_bulk_commit_ip_returns_results X K latencies =
     (let resp = oneshot X K latencies
       (post_request K ''/v1/bulk/commit-ip'' (commits_body [''abc123'', ''def456'']))
      in rs_status resp = 200 \<and>
        answers K resp (\<lambda>json. case member ''results'' json of Some (JArr rs) \<Rightarrow> length rs = 2 | _ \<Rightarrow> False))"

definition test_bulk_initiate_swap_mismatched_lengths_returns_400 :: app_test where
  "test_bulk_initiate_swap_mismatched_lengths_returns_400 X K latencies =
     (let resp = oneshot X K latencies
       (post_request K ''/v1/bulk/initiate-swap'' (swaps_body [1, 2] [100]))
      in rs_status resp = 400)"

definition test_bulk_initiate_swap_returns_results :: app_test where
  "test_bulk_initiate_swap_returns_results X K latencies =
     (let resp = oneshot X K latencies
       (post_request K ''/v1/bulk/initiate-swap'' (swaps_body [1, 2] [100, 200]))
      in rs_status resp = 200 \<and>
        answers K resp (\<lambda>json. case member ''results'' json of Some (JArr rs) \<Rightarrow> length rs = 2 | _ \<Rightarrow> False))"

section \<open>Health and version\<close>

definition test_health_check_endpoint_returns_ok :: app_test where
  "test_health_check_endpoint_returns_ok X K latencies =
     (let resp = oneshot X K latencies
       (get_request ''/health'')
      in rs_status resp = 200 \<and>
        answers K resp (\<lambda>json. has json_text ''status'' json \<and> has json_object ''components'' json \<and>
          has (has json_object ''contract_connectivity'') ''components'' json \<and>
          has (has json_object ''database'') ''components'' json \<and>
          has (has json_object ''cache'') ''components'' json))"

definition test_health_check_includes_component_status :: app_test where
  "test_health_check_includes_component_status X K latencies =
     (let resp = oneshot X K latencies
       (get_request ''/health'')
      in answers K resp (\<lambda>json.
          has (has (has json_text ''status'') ''contract_connectivity'') ''components'' json \<and>
          has (has (has json_number ''latency_ms'') ''contract_connectivity'') ''components'' json \<and>
          has (has (has json_text ''status'') ''database'') ''components'' json \<and>
          has (has (has json_text ''status'') ''cache'') ''components'' json))"

definition test_version_endpoint_returns_version_info :: app_test where
  "test_version_endpoint_returns_version_info X K latencies =
     (let resp = oneshot X K latencies
       (get_request ''/version'')
      in rs_status resp = 200 \<and>
        answers K resp (\<lambda>json. member ''version'' json = Some (JStr ''1.0.0'') \<and>
          member ''status'' json = Some (JStr ''stable'') \<and> has json_array ''supported_versions'' json))"

definition test_version_negotiation_with_accept_version_header :: app_test where
  "test_version_negotiation_with_accept_version_header X K latencies =
     (let resp = oneshot X K latencies
       ((get_request ''/v1/ip/1'')\<lparr>rq_headers := [''accept-version'' \<mapsto> ''1.0.0'']\<rparr>)
      in rs_status resp = 200 \<and> rs_headers resp ''api-version'' \<noteq> None)"

definition test_version_negotiation_unsupported_version :: app_test where
  "test_version_negotiation_unsupported_version X K latencies =
     (let resp = oneshot X K latencies
       ((get_request ''/v1/ip/1'')\<lparr>rq_headers := [''accept-version'' \<mapsto> ''2.0.0'']\<rparr>)
      in rs_status resp = 406)"

definition test_version_header_in_response :: app_test where
  "test_version_header_in_response X K latencies =
     (let resp = oneshot X K latencies
       (get_request ''/v1/ip/1'')
      in rs_headers resp ''api-version'' \<noteq> None \<and> rs_headers resp ''api-version'' = Some ''1.0.0'')"

section \<open>Compression\<close>

definition test_compression_vary_header_present :: app_test where
  "test_compression_vary_header_present X K latencies =
     (let resp = oneshot X K latencies
       ((get_request ''/v1/ip/1'')\<lparr>rq_headers := [''accept-encoding'' \<mapsto> ''gzip'']\<rparr>)
      in rs_headers resp ''vary'' \<noteq> None \<and> rs_headers resp ''vary'' = Some ''Accept-Encoding'')"

definition test_compression_gzip_encoding_header :: app_test where
  "test_compression_gzip_encoding_header X K latencies =
     (let resp = oneshot X K latencies
       ((get_request ''/v1/ip/1'')\<lparr>rq_headers := [''accept-encoding'' \<mapsto> ''gzip'']\<rparr>)
      in rs_headers resp ''content-encoding'' \<noteq> None \<and> rs_headers resp ''content-encoding'' = Some ''gzip'')"

definition test_compression_brotli_encoding_header :: app_test where
  "test_compression_brotli_encoding_header X K latencies =
     (let resp = oneshot X K latencies
       ((get_request ''/v1/ip/1'')\<lparr>rq_headers := [''accept-encoding'' \<mapsto> ''br'']\<rparr>)
      in rs_headers resp ''content-encoding'' \<noteq> None \<and> rs_headers resp ''content-encoding'' = Some ''br'')"

definition test_compression_deflate_encoding_header :: app_test where
  "test_compression_deflate_encoding_header X K latencies =
     (let resp = oneshot X K latencies
       ((get_request ''/v1/ip/1'')\<lparr>rq_headers := [''accept-encoding'' \<mapsto> ''deflate'']\<rparr>)
      in rs_headers resp ''content-encoding'' \<noteq> None \<and> rs_headers resp ''content-encoding'' = Some ''deflate'')"

definition test_compression_no_accept_encoding :: app_test where
  "test_compression_no_accept_encoding X K latencies =
     (let resp = oneshot X K latencies
       (get_request ''/v1/ip/1'')
      in rs_headers resp ''vary'' \<noteq> None)"

definition test_compression_multiple_encodings_prefers_gzip :: app_test where
  "test_compression_multiple_encodings_prefers_gzip X K latencies =
     (let resp = oneshot X K latencies
       ((get_request ''/v1/ip/1'')\<lparr>rq_headers := [''accept-encoding'' \<mapsto> ''gzip, br, deflate'']\<rparr>)
      in rs_headers resp ''content-encoding'' = Some ''gzip'')"

section \<open>The suite\<close>

text \<open>The tests with their names and verdicts, in the order of the file, and the names of those that fail.\<close>

definition app_tests :: "axum \<Rightarrow> server \<Rightarrow> nat \<times> nat \<times> nat \<Rightarrow> (string \<times> bool) list" where
  "app_tests X K latencies = [
     (''test_post_without_content_type_returns_415'', test_post_without_content_type_returns_415 X K latencies),
     (''test_post_with_wrong_content_type_returns_415'', test_post_with_wrong_content_type_returns_415 X K latencies),
     (''test_post_with_json_content_type_passes_middleware'', test_post_with_json_content_type_passes_middleware X K latencies),
     (''test_get_request_bypasses_content_type_check'', test_get_request_bypasses_content_type_check X K latencies),
     (''test_list_ip_by_owner_returns_paginated_response'', test_list_ip_by_owner_returns_paginated_response X K latencies),
     (''test_list_ip_by_owner_default_pagination'', test_list_ip_by_owner_default_pagination X K latencies),
     (''test_get_ip_returns_cache_control_header'', test_get_ip_returns_cache_control_header X K latencies),
     (''test_get_swap_returns_cache_control_header'', test_get_swap_returns_cache_control_header X K latencies),
     (''test_batch_initiate_swap_mismatched_lengths_returns_400'', test_batch_initiate_swap_mismatched_lengths_returns_400 X K latencies),
     (''test_batch_initiate_swap_empty_ids_returns_400'', test_batch_initiate_swap_empty_ids_returns_400 X K latencies),
     (''test_api_version_header_present_in_response'', test_api_version_header_present_in_response X K latencies),
     (''test_accept_version_header_negotiation'', test_accept_version_header_negotiation X K latencies),
     (''test_unsupported_version_returns_406'', test_unsupported_version_returns_406 X K latencies),
     (''test_trace_id_header_present_in_response'', test_trace_id_header_present_in_response X K latencies),
     (''test_trace_id_propagation'', test_trace_id_propagation X K latencies),
     (''test_bulk_commit_ip_empty_hashes_returns_400'', test_bulk_commit_ip_empty_hashes_returns_400 X K latencies),
     (''test_bulk_commit_ip_returns_results'', test_bulk_commit_ip_returns_results X K latencies),
     (''test_bulk_initiate_swap_mismatched_lengths_returns_400'', test_bulk_initiate_swap_mismatched_lengths_returns_400 X K latencies),
     (''test_bulk_initiate_swap_returns_results'', test_bulk_initiate_swap_returns_results X K latencies),
     (''test_health_check_endpoint_returns_ok'', test_health_check_endpoint_returns_ok X K latencies),
     (''test_health_check_includes_component_status'', test_health_check_includes_component_status X K latencies),
     (''test_version_endpoint_returns_version_info'', test_version_endpoint_returns_version_info X K latencies),
     (''test_version_negotiation_with_accept_version_header'', test_version_negotiation_with_accept_version_header X K latencies),
     (''test_version_negotiation_unsupported_version'', test_version_negotiation_unsupported_version X K latencies),
     (''test_version_header_in_response'', test_version_header_in_response X K latencies),
     (''test_compression_vary_header_present'', test_compression_vary_header_present X K latencies),
     (''test_compression_gzip_encoding_header'', test_compression_gzip_encoding_header X K latencies),
     (''test_compression_brotli_encoding_header'', test_compression_brotli_encoding_header X K latencies),
     (''test_compression_deflate_encoding_header'', test_compression_deflate_encoding_header X K latencies),
     (''test_compression_no_accept_encoding'', test_compression_no_accept_encoding X K latencies),
     (''test_compression_multiple_encodings_prefers_gzip'', test_compression_multiple_encodings_prefers_gzip X K latencies)]"

definition failed :: "(string \<times> bool) list \<Rightarrow> string list" where
  "failed tests = map fst (filter (\<lambda>(name, verdict). \<not> verdict) tests)"

section \<open>Through the layers\<close>

lemma oneshot_refused:
  "content_type_refuses req \<noteq> None \<Longrightarrow> rs_status (oneshot X K latencies req) = 415"
  "content_type_refuses req = None \<Longrightarrow> version_refuses req \<noteq> None \<Longrightarrow> rs_status (oneshot X K latencies req) = 406"
  by (simp_all add: oneshot_def build_app_def app_layers_run compression.leave_status)

lemma oneshot_run:
  assumes "content_type_refuses req = None" and "version_refuses req = None"
    and "fst (routes_service X K latencies build_app_routes (traced K (versioned req))
      (initial_api, health_checker_new K)) = resp"
  shows "oneshot X K latencies req = compressed req (with_header ''api-version'' CURRENT_VERSION
    (with_header ''x-request-id'' (sv_uuid K 1)
      (with_header ''x-trace-id'' (extract_or_generate_trace_id K (versioned req)) resp)))"
  using assms by (auto simp: oneshot_def build_app_def app_layers_run Let_def split: prod.split)

lemma compressed_fields [simp]:
  "rs_status (compressed req resp) = rs_status resp" "rs_body (compressed req resp) = rs_body resp"
  "rs_headers (compressed req resp) ''vary'' = Some ''Accept-Encoding''"
  "n \<noteq> ''vary'' \<Longrightarrow> n \<noteq> ''content-encoding'' \<Longrightarrow> rs_headers (compressed req resp) n = rs_headers resp n"
  by (simp_all add: compressed_def compression_middleware_def Let_def)

lemma compressed_encoding:
  "rq_headers req ''accept-encoding'' = Some enc \<Longrightarrow>
    rs_headers (compressed req resp) ''content-encoding'' =
      (if sublist ''gzip'' enc then Some ''gzip'' else if sublist ''br'' enc then Some ''br''
       else if sublist ''deflate'' enc then Some ''deflate'' else rs_headers resp ''content-encoding'')"
  by (simp add: compressed_def compression_middleware_def Let_def)

lemma stamped_fields [simp]:
  "rq_method (traced K (versioned req)) = rq_method req" "rq_path (traced K (versioned req)) = rq_path req"
  "rq_query (traced K (versioned req)) = rq_query req" "rq_body (traced K (versioned req)) = rq_body req"
  "rq_headers (traced K (versioned req)) = rq_headers req" "rq_headers (versioned req) = rq_headers req"
  by (simp_all add: traced_def versioned_def)

section \<open>What the routes answer\<close>

lemma resolve_literal:
  assumes "axum_documented X K" and "rq_path req \<in> set (map rt_path table)" and "literal_path (rq_path req)"
    and "find (\<lambda>r. rt_path r = rq_path req \<and> ax_method X (rt_method r) (rq_method req)) table = Some r"
  shows "resolve X table req = Inr (rt_handler r, [])"
  using route_literal [OF assms(1-3)] assms(4) by (simp add: resolve_def)

lemma resolve_posts:
  assumes "axum_documented X K" and "rq_method req = ''POST''"
  shows "rq_path req = ''/v1/ip/commit'' \<Longrightarrow> resolve X build_app_routes req = Inr (H_commit_ip, [])"
    and "rq_path req = ''/v1/swap/bulk/initiate'' \<Longrightarrow> resolve X build_app_routes req = Inr (H_batch_initiate_swap, [])"
    and "rq_path req = ''/v1/bulk/commit-ip'' \<Longrightarrow> resolve X build_app_routes req = Inr (H_bulk_commit_ip, [])"
    and "rq_path req = ''/v1/bulk/initiate-swap'' \<Longrightarrow> resolve X build_app_routes req = Inr (H_bulk_initiate_swap, [])"
  using resolve_literal [OF assms(1), of req build_app_routes] assms(2)
  by (simp_all add: table_simps axum_extract(1) [OF assms(1)])

lemma resolve_pages:
  assumes "axum_documented X K" and "rq_method req = ''GET''"
  shows "rq_path req = ''/health'' \<Longrightarrow> resolve X build_app_routes req = Inr (H_health, [])"
    and "rq_path req = ''/version'' \<Longrightarrow> resolve X build_app_routes req = Inr (H_version, [])"
  using resolve_literal [OF assms(1), of req build_app_routes] assms(2)
  by (simp_all add: table_simps axum_extract(1) [OF assms(1)])

lemma dec_1: "dec (Suc 0) = ''1''" "dec 1 = ''1''"
  by (simp_all add: dec.simps digit_char_def char_of_def bit_0)

lemma resolve_lookups:
  assumes "axum_documented X K" and "rq_method req = ''GET''"
  shows "rq_path req = ''/v1/ip/1'' \<Longrightarrow> resolve X build_app_routes req = Inr (H_get_ip, [''1''])"
    and "rq_path req = ''/v1/swap/1'' \<Longrightarrow> resolve X build_app_routes req = Inr (H_get_swap, [''1''])"
    and "rq_path req = ''/v1/ip/owner/GADDR'' \<Longrightarrow> resolve X build_app_routes req = Inr (H_list_ip_by_owner, [''GADDR''])"
  using resolve_captured [OF assms(1) _ only_match(1) [of 1], where args = "[''1'']" and req = req]
    resolve_captured [OF assms(1) _ only_match(2) [of 1], where args = "[''1'']" and req = req]
    resolve_captured [OF assms(1) _ only_match(3) [of "''GADDR''"], where args = "[''GADDR'']" and req = req] assms(2)
  by (simp_all add: captures_def dec_1)

lemma api_initial [simp]: "ap_cache initial_api = Map.empty"
  by (simp add: initial_api_def)

text \<open>The answers to the requests of the tests, before the layers.\<close>

lemma lookup_answers:
  assumes "axum_documented X K" and "rq_method req = ''GET''"
  shows "rq_path req = ''/v1/ip/1'' \<Longrightarrow> fst (routes_service X K latencies build_app_routes req (initial_api, h)) =
      missing_response K (not_found ''IP record'' 1)"
    and "rq_path req = ''/v1/swap/1'' \<Longrightarrow> fst (routes_service X K latencies build_app_routes req (initial_api, h)) =
      missing_response K (not_found ''Swap'' 1)"
  using path_u64_dec [OF assms(1), of 1]
  by (simp_all add: routes_service_def resolve_lookups [OF assms] state_handlers_def dec_1 get_ip_handler_def
      get_swap_handler_def cache_get_def Let_def)

lemma page_answers:
  assumes "axum_documented X K" and "rq_method req = ''GET''"
  shows "rq_path req = ''/health'' \<Longrightarrow> \<exists>checker. overall_health checker = ''healthy'' \<and>
      fst (routes_service X K latencies build_app_routes req (initial_api, h)) = json_response K 200 (health_json K checker)"
    and "rq_path req = ''/version'' \<Longrightarrow> fst (routes_service X K latencies build_app_routes req (initial_api, h)) =
      json_response K 200 (version_json get_version_info)"
  by (cases latencies, auto simp: routes_service_def resolve_pages [OF assms] health_handler_def overall_health_def
      check_contract_connectivity_def check_database_def check_cache_def checked_component_def Let_def)

lemma list_answers:
  assumes "axum_documented X K" and "rq_method req = ''GET''" and "rq_path req = ''/v1/ip/owner/GADDR''"
    and "ax_query X (rq_query req) = Some pairs" and "pagination_of_query pairs = Some \<lparr>pp_limit = n, pp_offset = 0\<rparr>"
    and "sv_instant K < secs (2 ^ 62)" and "n \<le> 200"
  shows "fst (routes_service X K latencies build_app_routes req (initial_api, h)) = cached_response K
    (list_response_json \<lparr>lr_ip_ids = [], lr_total_count = 0, lr_has_more = False\<rparr>)"
  using assms(4-7)
  by (simp add: routes_service_def resolve_lookups(3) [OF assms(1-3)] state_handlers_def path_string_def query_params_def
      axum_extract(2) [OF assms(1)] list_ip_by_owner_handler_def cached_page_def cache_get_def list_page_def add_u64_def
      cache_set_def cache_set_with_ttl_def instant_add_def secs_def default_cache_config_def Let_def)

lemma post_answers:
  assumes "axum_documented X K" and "rq_method req = ''POST''"
    and "rq_headers req ''content-type'' = Some ''application/json''" and "rq_body req = sv_write K j"
    and "sv_read K (sv_write K j) = Some j"
  shows "rq_path req = ''/v1/ip/commit'' \<Longrightarrow> commit_ip_request_of_json j = Some cm \<Longrightarrow>
      fst (routes_service X K latencies build_app_routes req st) = error_response K 400 ''commit_ip not yet implemented''"
    and "rq_path req = ''/v1/swap/bulk/initiate'' \<Longrightarrow> batch_initiate_swap_request_of_json j = Some bi \<Longrightarrow>
      fst (routes_service X K latencies build_app_routes req st) =
        unwrap_or (ax_dropped X) (fst (batch_initiate_swap_handler K bi (fst st)))"
    and "rq_path req = ''/v1/bulk/commit-ip'' \<Longrightarrow> bulk_commit_ip_request_of_json j = Some bc \<Longrightarrow>
      fst (routes_service X K latencies build_app_routes req st) =
        unwrap_or (ax_dropped X) (fst (bulk_commit_ip_handler K (bc_commitment_hashes bc) (fst st)))"
    and "rq_path req = ''/v1/bulk/initiate-swap'' \<Longrightarrow> bulk_initiate_swap_request_of_json j = Some bs \<Longrightarrow>
      fst (routes_service X K latencies build_app_routes req st) =
        unwrap_or (ax_dropped X) (fst (bulk_initiate_swap_handler K (bs_ip_ids bs) (bs_prices bs) (fst st)))"
  using axum_extract(4) [OF assms(1,3), of j] assms(4,5)
  by (simp_all add: routes_service_def resolve_posts [OF assms(1,2)] state_handlers_def json_body_def
      commit_ip_handler_def split: prod.split)

lemma bodies_read:
  "commit_ip_request_of_json commit_body = Some \<lparr>cm_owner = ''G123'', cm_commitment_hash = ''abc''\<rparr>"
  "bulk_commit_ip_request_of_json (commits_body hashes) = Some \<lparr>bc_owner = ''GADDR'', bc_commitment_hashes = hashes\<rparr>"
  "list_all (\<lambda>i. i < 2 ^ 64) is \<Longrightarrow> list_all amount_ok ps \<Longrightarrow> batch_initiate_swap_request_of_json (swaps_body is ps) =
    Some \<lparr>bi_ip_registry_id = ''C1'', bi_ip_ids = is, bi_seller = ''G1'', bi_prices = ps, bi_buyer = ''G2'',
      bi_token = ''C2'', bi_referrer = None, bi_idempotency_key = None\<rparr>"
  "list_all (\<lambda>i. i < 2 ^ 64) is \<Longrightarrow> list_all amount_ok ps \<Longrightarrow> bulk_initiate_swap_request_of_json (swaps_body is ps) =
    Some \<lparr>bs_ip_registry_id = ''C1'', bs_ip_ids = is, bs_seller = ''G1'', bs_prices = ps, bs_buyer = ''G2'',
      bs_token = ''C2'', bs_referrer = None\<rparr>"
  by (simp_all add: commit_ip_request_of_json_def commit_body_def bulk_commit_ip_request_of_json_def commits_body_def
      batch_initiate_swap_request_of_json_def bulk_initiate_swap_request_of_json_def swaps_body_def
      struct_defs Let_def)

lemma lookup_oneshot:
  assumes "axum_documented X K" and "rq_method req = ''GET''" and "rq_path req \<in> {''/v1/ip/1'', ''/v1/swap/1''}"
    and "version_refuses req = None"
  shows "rs_status (oneshot X K latencies req) = 404"
    and "rs_headers (oneshot X K latencies req) ''cache-control'' = Some no_cache_header"
    and "rs_headers (oneshot X K latencies req) ''api-version'' = Some CURRENT_VERSION"
    and "rs_headers (oneshot X K latencies req) ''x-request-id'' = Some (sv_uuid K 1)"
    and "rs_headers (oneshot X K latencies req) ''x-trace-id'' = Some (unwrap_or (sv_uuid K 0) (rq_headers req ''x-trace-id''))"
    and "rs_headers (oneshot X K latencies req) ''vary'' = Some ''Accept-Encoding''"
    and "rq_headers req ''accept-encoding'' = Some enc \<Longrightarrow> sublist ''gzip'' enc \<or> sublist ''br'' enc \<or> sublist ''deflate'' enc \<Longrightarrow>
      rs_headers (oneshot X K latencies req) ''content-encoding'' =
        Some (if sublist ''gzip'' enc then ''gzip'' else if sublist ''br'' enc then ''br'' else ''deflate'')"
proof -
  have "content_type_refuses req = None" using assms(2) by (simp add: content_type_refuses_def writes_def)
  moreover obtain msg where "fst (routes_service X K latencies build_app_routes (traced K (versioned req))
      (initial_api, health_checker_new K)) = missing_response K msg"
    using assms(2,3) by (auto intro: that simp: lookup_answers [OF assms(1)])
  ultimately have run: "oneshot X K latencies req = compressed req (with_header ''api-version'' CURRENT_VERSION
      (with_header ''x-request-id'' (sv_uuid K 1)
        (with_header ''x-trace-id'' (extract_or_generate_trace_id K (versioned req)) (missing_response K msg))))"
    using assms(4) by (intro oneshot_run)
  show "rs_status (oneshot X K latencies req) = 404" by (simp add: run missing_response_def)
  show "rs_headers (oneshot X K latencies req) ''cache-control'' = Some no_cache_header"
    "rs_headers (oneshot X K latencies req) ''api-version'' = Some CURRENT_VERSION"
    "rs_headers (oneshot X K latencies req) ''x-request-id'' = Some (sv_uuid K 1)"
    "rs_headers (oneshot X K latencies req) ''x-trace-id'' = Some (unwrap_or (sv_uuid K 0) (rq_headers req ''x-trace-id''))"
    "rs_headers (oneshot X K latencies req) ''vary'' = Some ''Accept-Encoding''"
    by (simp_all add: run missing_response_def extract_or_generate_trace_id_def)
  show "rs_headers (oneshot X K latencies req) ''content-encoding'' =
      Some (if sublist ''gzip'' enc then ''gzip'' else if sublist ''br'' enc then ''br'' else ''deflate'')"
    if "rq_headers req ''accept-encoding'' = Some enc" "sublist ''gzip'' enc \<or> sublist ''br'' enc \<or> sublist ''deflate'' enc"
    using that by (auto simp: run compressed_encoding)
qed

text \<open>An answer that the layers pass on, looked into.\<close>

lemma passed_on:
  assumes "content_type_refuses req = None" and "version_refuses req = None"
    and "fst (routes_service X K latencies build_app_routes (traced K (versioned req))
      (initial_api, health_checker_new K)) = resp"
  shows "rs_status (oneshot X K latencies req) = rs_status resp" "rs_body (oneshot X K latencies req) = rs_body resp"
  by (simp_all add: oneshot_run [OF assms])

section \<open>The verdicts\<close>

lemmas refuse_simps = content_type_refuses_def version_refuses_def writes_def CURRENT_VERSION_def

lemma refused_tests:
  "test_post_without_content_type_returns_415 X K latencies"
  "test_post_with_wrong_content_type_returns_415 X K latencies"
  "test_unsupported_version_returns_406 X K latencies"
  "test_version_negotiation_unsupported_version X K latencies"
  by (simp_all add: test_post_without_content_type_returns_415_def test_post_with_wrong_content_type_returns_415_def
      test_unsupported_version_returns_406_def test_version_negotiation_unsupported_version_def
      oneshot_refused refuse_simps)

lemma get_request_headers [simp]: "rq_headers (get_request path) = Map.empty"
  by (simp add: get_request_def)

lemma lookup_tests:
  assumes "axum_documented X K"
  shows "test_get_request_bypasses_content_type_check X K latencies"
    and "test_get_ip_returns_cache_control_header X K latencies"
    and "test_get_swap_returns_cache_control_header X K latencies"
    and "test_api_version_header_present_in_response X K latencies"
    and "\<not> test_accept_version_header_negotiation X K latencies"
    and "test_trace_id_header_present_in_response X K latencies"
    and "test_trace_id_propagation X K latencies"
    and "\<not> test_version_negotiation_with_accept_version_header X K latencies"
    and "test_version_header_in_response X K latencies"
  by (simp_all add: test_get_request_bypasses_content_type_check_def test_get_ip_returns_cache_control_header_def
      test_get_swap_returns_cache_control_header_def test_api_version_header_present_in_response_def
      test_accept_version_header_negotiation_def test_trace_id_header_present_in_response_def
      test_trace_id_propagation_def test_version_negotiation_with_accept_version_header_def
      test_version_header_in_response_def lookup_oneshot [OF assms] version_refuses_def CURRENT_VERSION_def)

lemma encoding_tests:
  assumes "axum_documented X K"
  shows "test_compression_vary_header_present X K latencies"
    and "test_compression_gzip_encoding_header X K latencies"
    and "test_compression_brotli_encoding_header X K latencies"
    and "test_compression_deflate_encoding_header X K latencies"
    and "test_compression_no_accept_encoding X K latencies"
    and "test_compression_multiple_encodings_prefers_gzip X K latencies"
  by (simp_all add: test_compression_vary_header_present_def test_compression_gzip_encoding_header_def
      test_compression_brotli_encoding_header_def test_compression_deflate_encoding_header_def
      test_compression_no_accept_encoding_def test_compression_multiple_encodings_prefers_gzip_def
      lookup_oneshot [OF assms] version_refuses_def CURRENT_VERSION_def sublist_Cons_right)

lemmas json_tests = answers_def has_def json_array_def json_object_def json_number_def json_text_def json_boolean_def

lemma page_tests:
  assumes "axum_documented X K" and "\<forall>j. sv_read K (sv_write K j) = Some j"
  shows "test_health_check_endpoint_returns_ok X K latencies"
    and "test_health_check_includes_component_status X K latencies"
    and "test_version_endpoint_returns_version_info X K latencies"
proof -
  let ?req = "get_request ''/health''" and ?req' = "get_request ''/version''"
  have pass: "content_type_refuses (get_request path) = None" "version_refuses (get_request path) = None" for path
    by (simp_all add: refuse_simps)
  obtain checker where "fst (routes_service X K latencies build_app_routes (traced K (versioned ?req))
      (initial_api, health_checker_new K)) = json_response K 200 (health_json K checker)"
    using page_answers(1) [OF assms(1), of "traced K (versioned ?req)" latencies "health_checker_new K"]
    by (auto simp del: split_paired_All)
  note health = passed_on [OF pass this]
  show "test_health_check_endpoint_returns_ok X K latencies" "test_health_check_includes_component_status X K latencies"
    by (simp_all add: test_health_check_endpoint_returns_ok_def test_health_check_includes_component_status_def
        health json_tests assms(2) health_json_def component_health_json_def component_json_def)
  have "fst (routes_service X K latencies build_app_routes (traced K (versioned ?req'))
      (initial_api, health_checker_new K)) = json_response K 200 (version_json get_version_info)"
    using page_answers(2) [OF assms(1), of "traced K (versioned ?req')"] by auto
  note version = passed_on [OF pass this]
  show "test_version_endpoint_returns_version_info X K latencies"
    by (simp add: test_version_endpoint_returns_version_info_def version json_tests assms(2) version_json_def
        get_version_info_def CURRENT_VERSION_def strings_json_def)
qed

lemma list_tests:
  assumes "axum_documented X K" and "\<forall>j. sv_read K (sv_write K j) = Some j" and "sv_instant K < secs (2 ^ 62)"
    and "ax_query X ''limit=10&offset=0'' = Some [(''limit'', ''10''), (''offset'', ''0'')]"
  shows "test_list_ip_by_owner_returns_paginated_response X K latencies"
    and "test_list_ip_by_owner_default_pagination X K latencies"
proof -
  let ?req = "(get_request ''/v1/ip/owner/GADDR'')\<lparr>rq_query := ''limit=10&offset=0''\<rparr>"
    and ?req' = "get_request ''/v1/ip/owner/GADDR''"
  have pass: "content_type_refuses ?req = None" "version_refuses ?req = None"
    and pass': "content_type_refuses ?req' = None" "version_refuses ?req' = None"
    by (simp_all add: refuse_simps)
  have q: "pagination_of_query [(''limit'', ''10''), (''offset'', ''0'')] = Some \<lparr>pp_limit = 10, pp_offset = 0\<rparr>"
    by (simp add: pagination_of_query_def query_fields_def query_u64_def parse_u64_def is_digit_def digit_val_def)
  have "fst (routes_service X K latencies build_app_routes (traced K (versioned ?req))
      (initial_api, health_checker_new K)) = cached_response K
    (list_response_json \<lparr>lr_ip_ids = [], lr_total_count = 0, lr_has_more = False\<rparr>)"
    by (rule list_answers [OF assms(1) _ _ _ q assms(3)]) (simp_all add: assms(4))
  note page = passed_on [OF pass this]
  show "test_list_ip_by_owner_returns_paginated_response X K latencies"
    by (simp add: test_list_ip_by_owner_returns_paginated_response_def page cached_response_def json_tests assms(2)
        list_response_json_def numbers_json_def)
  have q': "pagination_of_query [] = Some \<lparr>pp_limit = 50, pp_offset = 0\<rparr>"
    by (simp add: pagination_of_query_def query_fields_def query_u64_def default_limit_def)
  have "fst (routes_service X K latencies build_app_routes (traced K (versioned ?req'))
      (initial_api, health_checker_new K)) = cached_response K
    (list_response_json \<lparr>lr_ip_ids = [], lr_total_count = 0, lr_has_more = False\<rparr>)"
    by (rule list_answers [OF assms(1) _ _ _ q' assms(3)]) (simp_all add: axum_extract(3) [OF assms(1)])
  note page' = passed_on [OF pass' this]
  show "test_list_ip_by_owner_default_pagination X K latencies"
    by (simp add: test_list_ip_by_owner_default_pagination_def page' cached_response_def)
qed

lemma post_passes:
  "content_type_refuses (post_request K path j) = None" "version_refuses (post_request K path j) = None"
  by (simp_all add: refuse_simps post_request_def)

lemma post_tests:
  assumes X: "axum_documented X K" and json: "\<forall>j. sv_read K (sv_write K j) = Some j"
  shows "test_post_with_json_content_type_passes_middleware X K latencies"
    and "test_batch_initiate_swap_mismatched_lengths_returns_400 X K latencies"
    and "test_batch_initiate_swap_empty_ids_returns_400 X K latencies"
    and "test_bulk_commit_ip_empty_hashes_returns_400 X K latencies"
    and "test_bulk_commit_ip_returns_results X K latencies"
    and "test_bulk_initiate_swap_mismatched_lengths_returns_400 X K latencies"
    and "test_bulk_initiate_swap_returns_results X K latencies"
proof -
  note post = passed_on [OF post_passes refl]
  note read = post_answers [OF X _ _ _ spec [OF json]] bodies_read amount_ok_def json
  note simps = post read json_tests error_response_def error_json_def
  show "test_post_with_json_content_type_passes_middleware X K latencies"
    by (simp add: test_post_with_json_content_type_passes_middleware_def simps)
  show "test_batch_initiate_swap_mismatched_lengths_returns_400 X K latencies"
    by (simp add: test_batch_initiate_swap_mismatched_lengths_returns_400_def simps batch_initiate_swap_handler_def
        sublist_Cons_right json_string_def)
  show "test_batch_initiate_swap_empty_ids_returns_400 X K latencies"
    by (simp add: test_batch_initiate_swap_empty_ids_returns_400_def simps batch_initiate_swap_handler_def)
  show "test_bulk_commit_ip_empty_hashes_returns_400 X K latencies"
    by (simp add: test_bulk_commit_ip_empty_hashes_returns_400_def simps bulk_commit_ip_handler_def)
  show "test_bulk_commit_ip_returns_results X K latencies"
    by (simp add: test_bulk_commit_ip_returns_results_def simps bulk_commit_ip_handler_def bulk_response_def
        bulk_results_def)
  show "test_bulk_initiate_swap_mismatched_lengths_returns_400 X K latencies"
    by (simp add: test_bulk_initiate_swap_mismatched_lengths_returns_400_def simps bulk_initiate_swap_handler_def)
  show "test_bulk_initiate_swap_returns_results X K latencies"
    by (simp add: test_bulk_initiate_swap_returns_results_def simps bulk_initiate_swap_handler_def bulk_response_def
        bulk_results_def)
qed

lemma failed_simps:
  "failed [] = []" "verdict \<Longrightarrow> failed ((n, verdict) # tests) = failed tests"
  "\<not> verdict \<Longrightarrow> failed ((n, verdict) # tests) = n # failed tests"
  by (simp_all add: failed_def)

text \<open>Remark: of the tests of \<open>main.rs\<close> on the application of \<open>build_app\<close>, exactly two fail: the
  two that ask for the record 1 with an accepted version and expect the status 200. No record is ever in
  the cache of a fresh application, and the answer is 404. All others pass, with any router, extractors and
  JSON library that behave as documented and any clock below 2 to the 62 seconds. The tests
  and the code disagree on these two.\<close>

theorem app_tests_outcome:
  assumes "axum_documented X K" and "\<forall>j. sv_read K (sv_write K j) = Some j" and "sv_instant K < secs (2 ^ 62)"
    and "ax_query X ''limit=10&offset=0'' = Some [(''limit'', ''10''), (''offset'', ''0'')]"
  shows "failed (app_tests X K latencies) =
    [''test_accept_version_header_negotiation'', ''test_version_negotiation_with_accept_version_header'']"
  unfolding app_tests_def
  by (simp only: failed_simps not_False_eq_True refused_tests lookup_tests [OF assms(1)] encoding_tests [OF assms(1)]
      page_tests [OF assms(1,2)] list_tests [OF assms] post_tests [OF assms(1,2)])

definition querying_axum :: axum where
  "querying_axum = demo_axum\<lparr>ax_query := (\<lambda>q. if q = [] then Some []
     else if q = ''limit=10&offset=0'' then Some [(''limit'', ''10''), (''offset'', ''0'')] else None)\<rparr>"

lemma querying_axum_documented: "axum_documented querying_axum counting_server"
  using demo_axum_documented by (simp add: axum_documented_def querying_axum_def)

theorem app_tests_outcome_witness:
  "failed (app_tests querying_axum counting_server (0, 0, 0)) =
    [''test_accept_version_header_negotiation'', ''test_version_negotiation_with_accept_version_header'']"
proof (rule app_tests_outcome [OF querying_axum_documented allI [OF counting_server_reads]])
  show "sv_instant counting_server < secs (2 ^ 62)"
    by (simp add: counting_server_def demo_server_def secs_def)
  show "ax_query querying_axum ''limit=10&offset=0'' = Some [(''limit'', ''10''), (''offset'', ''0'')]"
    by (simp add: querying_axum_def)
qed

end
