(* ===== verification/Api_Module_Tests.thy ===== *)
theory Api_Module_Tests
  imports Api_Served Api_Checks
begin

text \<open>
  The unit tests inside the other modules of the server, as predicates on the model. Left out are those
  that only look at what a library made: the broadcast channel of \<open>events.rs\<close>, the GraphQL schema of
  \<open>graphql.rs\<close>, and the default of the unused \<open>CompressionConfig\<close>.
\<close>

section \<open>Invariant checkers (invariants.rs)\<close>

definition test_verify_commitment_uniqueness_passes :: bool where
  "test_verify_commitment_uniqueness_passes \<longleftrightarrow>
     verify_commitment_uniqueness ''owner1'' ''hash1'' Map.empty = Inr ()"

definition test_verify_commitment_uniqueness_fails_on_duplicate :: bool where
  "test_verify_commitment_uniqueness_fails_on_duplicate \<longleftrightarrow>
     verify_commitment_uniqueness ''owner1'' ''hash1'' [''owner1'' \<mapsto> [''hash1'']] \<noteq> Inr ()"

definition test_verify_timestamp_order_passes :: bool where
  "test_verify_timestamp_order_passes \<longleftrightarrow>
     verify_timestamp_order 100 200 = Inr ()"

definition test_verify_timestamp_order_fails :: bool where
  "test_verify_timestamp_order_fails \<longleftrightarrow>
     verify_timestamp_order 200 100 \<noteq> Inr ()"

definition test_verify_owner_immutability_passes :: bool where
  "test_verify_owner_immutability_passes \<longleftrightarrow>
     verify_owner_immutability ''owner1'' ''owner1'' = Inr ()"

definition test_verify_owner_immutability_fails :: bool where
  "test_verify_owner_immutability_fails \<longleftrightarrow>
     verify_owner_immutability ''owner1'' ''owner2'' \<noteq> Inr ()"

definition test_verify_total_fees_passes :: "server \<Rightarrow> bool" where
  "test_verify_total_fees_passes K \<longleftrightarrow>
     verify_total_fees K 600 [100, 200, 300] = Some (Inr ())"

definition test_verify_total_fees_fails :: "server \<Rightarrow> bool" where
  "test_verify_total_fees_fails K \<longleftrightarrow>
     map_option isl (verify_total_fees K 500 [100, 200, 300]) = Some True"

definition test_verify_payment_key_atomicity_passes :: bool where
  "test_verify_payment_key_atomicity_passes \<longleftrightarrow>
     verify_payment_key_atomicity True True = Inr () \<and>
     verify_payment_key_atomicity False False = Inr ()"

definition test_verify_payment_key_atomicity_fails :: bool where
  "test_verify_payment_key_atomicity_fails \<longleftrightarrow>
     verify_payment_key_atomicity True False \<noteq> Inr () \<and>
     verify_payment_key_atomicity False True \<noteq> Inr ()"

definition test_verify_state_transition_valid :: bool where
  "test_verify_state_transition_valid \<longleftrightarrow>
     verify_state_transition ''Pending'' ''Active'' = Inr () \<and>
     verify_state_transition ''Active'' ''Completed'' = Inr ()"

definition test_verify_state_transition_invalid :: bool where
  "test_verify_state_transition_invalid \<longleftrightarrow>
     verify_state_transition ''Completed'' ''Active'' \<noteq> Inr ()"

definition test_verify_escrow_balance_passes :: "server \<Rightarrow> bool" where
  "test_verify_escrow_balance_passes K \<longleftrightarrow>
     verify_escrow_balance K 600 [100, 200, 300] = Some (Inr ())"

definition test_verify_escrow_balance_fails :: "server \<Rightarrow> bool" where
  "test_verify_escrow_balance_fails K \<longleftrightarrow>
     map_option isl (verify_escrow_balance K 500 [100, 200, 300]) = Some True"

section \<open>Cache (cache.rs)\<close>

text \<open>
  The struct \<open>Dummy\<close> has one member. The tests of the code share one cache and run in parallel threads, so
  that \<open>clear()\<close> in one can remove what another has just stored; here each has its own.
\<close>

definition dummy_json :: "nat \<Rightarrow> json" where "dummy_json n = JObj [(''val'', JNum (int n))]"

definition dummy_of_json :: "json \<Rightarrow> nat option" where
  "dummy_of_json j = Option.bind (member ''val'' j) json_u64"

definition put :: "server \<Rightarrow> string \<Rightarrow> nat \<Rightarrow> cache \<Rightarrow> cache option" where
  "put K key n c = cache_set K key (Some (sv_write K (dummy_json n))) c"

definition lookup :: "server \<Rightarrow> string \<Rightarrow> cache \<Rightarrow> nat option" where
  "lookup K key c = fst (cache_get K dummy_of_json key c)"

definition cached :: "(string \<times> nat) list \<Rightarrow> server \<Rightarrow> cache option" where
  "cached entries K = fold (\<lambda>(key, n) c. Option.bind c (put K key n)) entries (Some Map.empty)"

definition test_set_and_get_returns_value :: "server \<Rightarrow> bool" where
  "test_set_and_get_returns_value K \<longleftrightarrow>
     map_option (\<lambda>c. lookup K ''test:cache:1'' c = Some 42)
       (cached [(''test:cache:1'', 42)] K) = Some True"

definition test_get_miss_returns_none :: "server \<Rightarrow> bool" where
  "test_get_miss_returns_none K \<longleftrightarrow>
     lookup K ''test:cache:nonexistent'' Map.empty = None"

definition test_invalidate_removes_entry :: "server \<Rightarrow> bool" where
  "test_invalidate_removes_entry K \<longleftrightarrow>
     map_option (\<lambda>c. lookup K ''test:cache:2'' (invalidate ''test:cache:2'' c) = None)
       (cached [(''test:cache:2'', 7)] K) = Some True"

definition test_invalidate_prefix_removes_matching_keys :: "server \<Rightarrow> bool" where
  "test_invalidate_prefix_removes_matching_keys K \<longleftrightarrow>
     map_option (\<lambda>c. let c = invalidate_prefix ''test:prefix:'' c in
         lookup K ''test:prefix:a'' c = None \<and> lookup K ''test:prefix:b'' c = None \<and>
         lookup K ''test:other:c'' c \<noteq> None)
       (cached [(''test:prefix:a'', 1), (''test:prefix:b'', 2), (''test:other:c'', 3)] K) = Some True"

definition test_set_with_custom_ttl :: "server \<Rightarrow> bool" where
  "test_set_with_custom_ttl K \<longleftrightarrow>
     map_option (\<lambda>c. lookup K ''test:ttl:1'' c = Some 99)
       (cache_set_with_ttl K ''test:ttl:1'' (Some (sv_write K (dummy_json 99))) 60 Map.empty) = Some True"

definition test_exists_returns_true_for_valid_entry :: "server \<Rightarrow> bool" where
  "test_exists_returns_true_for_valid_entry K \<longleftrightarrow>
     map_option (\<lambda>c. cache_exists K ''test:exists:1'' c)
       (cached [(''test:exists:1'', 1)] K) = Some True"

definition test_exists_returns_false_for_nonexistent :: "server \<Rightarrow> bool" where
  "test_exists_returns_false_for_nonexistent K \<longleftrightarrow>
     \<not> cache_exists K ''test:exists:nonexistent'' Map.empty"

definition test_stats_returns_entry_count :: "server \<Rightarrow> bool" where
  "test_stats_returns_entry_count K \<longleftrightarrow>
     map_option (\<lambda>c. cache_stats c = 2)
       (cached [(''stats:1'', 1), (''stats:2'', 2)] K) = Some True"

definition test_reputation_key_format :: bool where
  "test_reputation_key_format \<longleftrightarrow>
     reputation_key ''GABC123'' = ''reputation:GABC123''"

definition test_dispute_evidence_key_format :: bool where
  "test_dispute_evidence_key_format \<longleftrightarrow>
     dispute_evidence_key 42 = ''evidence:42''"

definition test_invalidate_on_contract_event_swap_completed :: "server \<Rightarrow> bool" where
  "test_invalidate_on_contract_event_swap_completed K \<longleftrightarrow>
     map_option (\<lambda>c. let c = invalidate_on_contract_event ''swap_completed'' 1 c in
         \<not> cache_exists K ''swap:1'' c \<and> \<not> cache_exists K ''swap:seller:abc:10:0'' c \<and>
         \<not> cache_exists K ''reputation:abc'' c)
       (cached [(''swap:1'', 1), (''swap:seller:abc:10:0'', 2), (''reputation:abc'', 3)] K) = Some True"

definition test_invalidate_on_contract_event_ip_transferred :: "server \<Rightarrow> bool" where
  "test_invalidate_on_contract_event_ip_transferred K \<longleftrightarrow>
     map_option (\<lambda>c. let c = invalidate_on_contract_event ''ip_transferred'' 1 c in
         \<not> cache_exists K ''ip:1'' c \<and> \<not> cache_exists K ''ip:list:owner:10:0'' c)
       (cached [(''ip:1'', 1), (''ip:list:owner:10:0'', 2)] K) = Some True"

section \<open>Health (health.rs)\<close>

text \<open>A check is the one of the model with any latency; \<open>latency_ms >= 0\<close> says nothing of a \<open>u64\<close>.\<close>

definition test_health_checker_creation :: "server \<Rightarrow> bool" where
  "test_health_checker_creation K \<longleftrightarrow>
     overall_health (health_checker_new K) = ''degraded''"

definition test_check_contract_connectivity :: "server \<Rightarrow> bool" where
  "test_check_contract_connectivity K \<longleftrightarrow>
     co_status (hc_contract (check_contract_connectivity K 0 (health_checker_new K))) = ''healthy''"

definition test_check_database :: "server \<Rightarrow> bool" where
  "test_check_database K \<longleftrightarrow>
     co_status (hc_database (check_database K 0 (health_checker_new K))) = ''healthy''"

definition test_check_cache :: "server \<Rightarrow> bool" where
  "test_check_cache K \<longleftrightarrow>
     co_status (hc_cache (check_cache K 0 (health_checker_new K))) = ''healthy''"

definition test_all_components_healthy :: "server \<Rightarrow> bool" where
  "test_all_components_healthy K \<longleftrightarrow>
     (let checker = check_cache K 0 (check_database K 0 (check_contract_connectivity K 0 (health_checker_new K)))
      in overall_health checker = ''healthy'' \<and> co_status (hc_contract checker) = ''healthy'' \<and>
        co_status (hc_database checker) = ''healthy'' \<and> co_status (hc_cache checker) = ''healthy'')"

section \<open>Cursors (schemas.rs)\<close>

definition test_cursor_encode_decode_roundtrip :: "server \<Rightarrow> bool" where
  "test_cursor_encode_decode_roundtrip K \<longleftrightarrow>
     (case cursor_decode K (cursor_encode K \<lparr>cu_last_id = 100, cu_offset = 50\<rparr>) of
        None \<Rightarrow> False | Some decoded \<Rightarrow> cu_last_id decoded = 100 \<and> cu_offset decoded = 50)"

definition test_cursor_new_and_next :: "server \<Rightarrow> bool" where
  "test_cursor_new_and_next K \<longleftrightarrow>
     map_option (\<lambda>next. cursor_new K 50 0 \<noteq> next) (next_cursor K 50 0 20) = Some True"

definition test_cursor_decode_invalid_returns_none :: "server \<Rightarrow> bool" where
  "test_cursor_decode_invalid_returns_none K \<longleftrightarrow>
     cursor_decode K ''invalid_base64'' = None \<and> cursor_decode K '''' = None"

definition test_cursor_decode_malformed_json_returns_none :: "server \<Rightarrow> bool" where
  "test_cursor_decode_malformed_json_returns_none K \<longleftrightarrow>
     cursor_decode K (sv_base64 K (text_bytes ''not_json'')) = None"

section \<open>Batches (batch.rs)\<close>

definition test_batch_request_processing :: bool where
  "test_batch_request_processing \<longleftrightarrow>
     (case batch_handler
         [\<lparr>sr_id = ''req1'', sr_method = ''GET'', sr_path = ''/ip/123'', sr_body = None\<rparr>,
          \<lparr>sr_id = ''req2'', sr_method = ''POST'', sr_path = ''/ip/commit'',
            sr_body = Some (JObj [(''owner'', JStr ''test''), (''commitment_hash'', JStr ''hash'')])\<rparr>] of
        Inl e \<Rightarrow> False
      | Inr responses \<Rightarrow> length responses = 2 \<and> ss_id (responses ! 0) = ''req1'' \<and> ss_id (responses ! 1) = ''req2'')"

definition test_batch_request_size_limits :: bool where
  "test_batch_request_size_limits \<longleftrightarrow>
     isl (batch_handler [])"

section \<open>Deduplication and signatures (deduplication.rs, request_signing.rs)\<close>

definition test_deduplication_requires_idempotency_key :: "server \<Rightarrow> bool" where
  "test_deduplication_requires_idempotency_key K \<longleftrightarrow>
     rs_status (fst (deduplication_middleware K (\<lambda>_ st. (status_only 200, st))
       \<lparr>rq_method = ''POST'', rq_path = ''/test'', rq_query = [], rq_headers = Map.empty, rq_body = [],
         rq_peer = [], rq_version = None, rq_trace = None, rq_claims = None\<rparr> (Map.empty, ()))) = 400"

definition test_signature_generation :: "server \<Rightarrow> bool" where
  "test_signature_generation K \<longleftrightarrow>
     generate_signature K ''POST'' ''/ip/commit'' 1234567890 ''body_hash'' ''secret_key'' \<noteq> []"

definition test_signature_verification :: "server \<Rightarrow> bool" where
  "test_signature_verification K \<longleftrightarrow>
     (let signature = generate_signature K ''POST'' ''/ip/commit'' 1234567890 ''body_hash'' ''secret_key''
      in verify_signature K ''POST'' ''/ip/commit'' 1234567890 ''body_hash'' signature ''secret_key'')"

definition test_body_hashing :: "server \<Rightarrow> bool" where
  "test_body_hashing K \<longleftrightarrow>
     length (hash_body K (text_bytes ''test body'')) = 64"

section \<open>Versions, compression and traces (versioning.rs, compression.rs, tracing_middleware.rs)\<close>

definition test_current_version_is_supported :: bool where
  "test_current_version_is_supported \<longleftrightarrow>
     CURRENT_VERSION \<in> set SUPPORTED_VERSIONS"

definition test_unsupported_version_rejected :: bool where
  "test_unsupported_version_rejected \<longleftrightarrow>
     ''2.0.0'' \<notin> set SUPPORTED_VERSIONS"

definition test_version_info_structure :: bool where
  "test_version_info_structure \<longleftrightarrow>
     (let info = \<lparr>vi_version = CURRENT_VERSION, vi_status = ''stable'', vi_supported_versions = SUPPORTED_VERSIONS,
        vi_deprecation_date = None\<rparr>
      in vi_version info = ''1.0.0'' \<and> vi_status info = ''stable'' \<and> vi_supported_versions info \<noteq> [])"

definition test_api_version_struct :: bool where
  "test_api_version_struct \<longleftrightarrow>
     (let version = \<lparr>av_requested = ''1.0.0'', av_current = ''1.0.0''\<rparr> in av_requested version = av_current version)"

definition test_get_supported_compressions :: bool where
  "test_get_supported_compressions \<longleftrightarrow>
     {''gzip'', ''br'', ''deflate''} \<subseteq> set get_supported_compressions"

definition test_is_compression_supported_gzip :: bool where
  "test_is_compression_supported_gzip \<longleftrightarrow>
     is_compression_supported ''gzip''"

definition test_is_compression_supported_brotli :: bool where
  "test_is_compression_supported_brotli \<longleftrightarrow>
     is_compression_supported ''br''"

definition test_is_compression_supported_deflate :: bool where
  "test_is_compression_supported_deflate \<longleftrightarrow>
     is_compression_supported ''deflate''"

definition test_is_compression_unsupported :: bool where
  "test_is_compression_unsupported \<longleftrightarrow>
     \<not> is_compression_supported ''unknown''"

definition test_trace_id_generation :: "server \<Rightarrow> bool" where
  "test_trace_id_generation K \<longleftrightarrow>
     (let trace_id = extract_or_generate_trace_id K (get_request ''/'')
      in trace_id \<noteq> [] \<and> sv_parse_uuid K trace_id \<noteq> None)"

definition test_trace_id_extraction :: "server \<Rightarrow> bool" where
  "test_trace_id_extraction K \<longleftrightarrow>
     (let original_id = ''550e8400-e29b-41d4-a716-446655440000''
      in extract_or_generate_trace_id K ((get_request ''/'')\<lparr>rq_headers := [''x-trace-id'' \<mapsto> original_id]\<rparr>) = original_id)"

section \<open>The suite\<close>

definition module_tests :: "server \<Rightarrow> bool list" where
  "module_tests K = [
     test_verify_commitment_uniqueness_passes,
     test_verify_commitment_uniqueness_fails_on_duplicate,
     test_verify_timestamp_order_passes,
     test_verify_timestamp_order_fails,
     test_verify_owner_immutability_passes,
     test_verify_owner_immutability_fails,
     test_verify_total_fees_passes K,
     test_verify_total_fees_fails K,
     test_verify_payment_key_atomicity_passes,
     test_verify_payment_key_atomicity_fails,
     test_verify_state_transition_valid,
     test_verify_state_transition_invalid,
     test_verify_escrow_balance_passes K,
     test_verify_escrow_balance_fails K,
     test_set_and_get_returns_value K,
     test_get_miss_returns_none K,
     test_invalidate_removes_entry K,
     test_invalidate_prefix_removes_matching_keys K,
     test_set_with_custom_ttl K,
     test_exists_returns_true_for_valid_entry K,
     test_exists_returns_false_for_nonexistent K,
     test_stats_returns_entry_count K,
     test_reputation_key_format,
     test_dispute_evidence_key_format,
     test_invalidate_on_contract_event_swap_completed K,
     test_invalidate_on_contract_event_ip_transferred K,
     test_health_checker_creation K,
     test_check_contract_connectivity K,
     test_check_database K,
     test_check_cache K,
     test_all_components_healthy K,
     test_cursor_encode_decode_roundtrip K,
     test_cursor_new_and_next K,
     test_cursor_decode_invalid_returns_none K,
     test_cursor_decode_malformed_json_returns_none K,
     test_batch_request_processing,
     test_batch_request_size_limits,
     test_deduplication_requires_idempotency_key K,
     test_signature_generation K,
     test_signature_verification K,
     test_body_hashing K,
     test_current_version_is_supported,
     test_unsupported_version_rejected,
     test_version_info_structure,
     test_api_version_struct,
     test_get_supported_compressions,
     test_is_compression_supported_gzip,
     test_is_compression_supported_brotli,
     test_is_compression_supported_deflate,
     test_is_compression_unsupported,
     test_trace_id_generation K,
     test_trace_id_extraction K]"

section \<open>The verdicts\<close>

lemma invariants_tests:
  "test_verify_commitment_uniqueness_passes"
  "test_verify_commitment_uniqueness_fails_on_duplicate"
  "test_verify_timestamp_order_passes"
  "test_verify_timestamp_order_fails"
  "test_verify_owner_immutability_passes"
  "test_verify_owner_immutability_fails"
  "test_verify_total_fees_passes K"
  "test_verify_total_fees_fails K"
  "test_verify_payment_key_atomicity_passes"
  "test_verify_payment_key_atomicity_fails"
  "test_verify_state_transition_valid"
  "test_verify_state_transition_invalid"
  "test_verify_escrow_balance_passes K"
  "test_verify_escrow_balance_fails K"
  by (simp_all add: test_verify_commitment_uniqueness_passes_def
      test_verify_commitment_uniqueness_fails_on_duplicate_def test_verify_timestamp_order_passes_def
      test_verify_timestamp_order_fails_def test_verify_owner_immutability_passes_def
      test_verify_owner_immutability_fails_def test_verify_total_fees_passes_def
      test_verify_total_fees_fails_def test_verify_payment_key_atomicity_passes_def
      test_verify_payment_key_atomicity_fails_def test_verify_state_transition_valid_def
      test_verify_state_transition_invalid_def test_verify_escrow_balance_passes_def
      test_verify_escrow_balance_fails_def verify_commitment_uniqueness_def verify_timestamp_order_def
      verify_owner_immutability_def verify_total_fees_def verify_payment_key_atomicity_def
      verify_state_transition_def valid_transitions_def verify_escrow_balance_def violation_def
      sum_u128_def)

lemma dummy_read [simp]: "n < 2 ^ 64 \<Longrightarrow> dummy_of_json (dummy_json n) = Some n"
  by (simp add: dummy_of_json_def dummy_json_def json_u64_def)

lemma cached_entries:
  assumes "sv_instant K < secs (2 ^ 62)"
  shows "cached entries K = Some (fold (\<lambda>(key, n) c. c(key \<mapsto>
    \<lparr>en_value = sv_write K (dummy_json n), en_expires_at = sv_instant K + secs 30\<rparr>)) entries Map.empty)"
proof -
  have "put K key n c = Some (c(key \<mapsto>
      \<lparr>en_value = sv_write K (dummy_json n), en_expires_at = sv_instant K + secs 30\<rparr>))" for key n c
    using assms by (simp add: put_def cache_set_def cache_set_with_ttl_def instant_add_def default_cache_config_def secs_def)
  then have "fold (\<lambda>(key, n) c. Option.bind c (put K key n)) entries (Some c) =
      Some (fold (\<lambda>(key, n) c. c(key \<mapsto>
        \<lparr>en_value = sv_write K (dummy_json n), en_expires_at = sv_instant K + secs 30\<rparr>)) entries c)" for c
    by (induction entries arbitrary: c) auto
  then show ?thesis by (simp add: cached_def)
qed

lemma evidence_42: "dispute_evidence_key 42 = ''evidence:42''" and swap_1: "swap_key 1 = ''swap:1''" "swap_key (Suc 0) = ''swap:1''"
  and ip_1: "ip_key 1 = ''ip:1''" "ip_key (Suc 0) = ''ip:1''"
  by (simp_all add: key_defs dec.simps digit_char_def char_of_def bit_0 bit_numeral_rec)

lemma cache_tests:
  assumes "sv_instant K < secs (2 ^ 62)" and "\<forall>j. sv_read K (sv_write K j) = Some j"
  shows "test_set_and_get_returns_value K"
    and "test_get_miss_returns_none K"
    and "test_invalidate_removes_entry K"
    and "test_invalidate_prefix_removes_matching_keys K"
    and "test_set_with_custom_ttl K"
    and "test_exists_returns_true_for_valid_entry K"
    and "test_exists_returns_false_for_nonexistent K"
    and "test_stats_returns_entry_count K"
    and "test_reputation_key_format"
    and "test_dispute_evidence_key_format"
    and "test_invalidate_on_contract_event_swap_completed K"
    and "test_invalidate_on_contract_event_ip_transferred K"
  using assms
  by (simp_all add: test_set_and_get_returns_value_def test_get_miss_returns_none_def test_invalidate_removes_entry_def
      test_invalidate_prefix_removes_matching_keys_def test_set_with_custom_ttl_def
      test_exists_returns_true_for_valid_entry_def test_exists_returns_false_for_nonexistent_def
      test_stats_returns_entry_count_def test_reputation_key_format_def
      test_dispute_evidence_key_format_def test_invalidate_on_contract_event_swap_completed_def
      test_invalidate_on_contract_event_ip_transferred_def cached_entries lookup_def cache_get_def
      cache_exists_def invalidate_def invalidate_prefix_def cache_stats_def reputation_key_def evidence_42
      swap_1 ip_1 invalidate_on_contract_event_def cache_set_with_ttl_def instant_add_def secs_def Let_def)

lemma health_tests:
  "test_health_checker_creation K"
  "test_check_contract_connectivity K"
  "test_check_database K"
  "test_check_cache K"
  "test_all_components_healthy K"
  by (simp_all add: test_health_checker_creation_def test_check_contract_connectivity_def test_check_database_def
      test_check_cache_def test_all_components_healthy_def health_checker_new_def overall_health_def
      check_contract_connectivity_def check_database_def check_cache_def checked_component_def Let_def)

lemma batch_tests:
  "test_batch_request_processing"
  "test_batch_request_size_limits"
  by (auto simp add: test_batch_request_processing_def test_batch_request_size_limits_def batch_handler_def
      process_single_request_def Let_def split: option.split)

lemma http_tests:
  assumes "sv_parse_uuid K (sv_uuid K 0) \<noteq> None" and "sv_uuid K 0 \<noteq> []"
  shows "test_current_version_is_supported"
    and "test_unsupported_version_rejected"
    and "test_version_info_structure"
    and "test_api_version_struct"
    and "test_get_supported_compressions"
    and "test_is_compression_supported_gzip"
    and "test_is_compression_supported_brotli"
    and "test_is_compression_supported_deflate"
    and "test_is_compression_unsupported"
    and "test_trace_id_generation K"
    and "test_trace_id_extraction K"
  using assms
  by (simp_all add: test_current_version_is_supported_def test_unsupported_version_rejected_def
      test_version_info_structure_def test_api_version_struct_def test_get_supported_compressions_def
      test_is_compression_supported_gzip_def test_is_compression_supported_brotli_def
      test_is_compression_supported_deflate_def test_is_compression_unsupported_def
      test_trace_id_generation_def test_trace_id_extraction_def CURRENT_VERSION_def SUPPORTED_VERSIONS_def
      get_supported_compressions_def is_compression_supported_def extract_or_generate_trace_id_def
      get_request_def Let_def)

text \<open>What the tests take from the libraries: Base64, JSON, hashes in hexadecimal, and random UUIDs.\<close>

definition libraries_documented :: "server \<Rightarrow> bool" where
  "libraries_documented K \<longleftrightarrow>
     (\<forall>x. sv_unbase64 K (sv_base64 K x) = Some x) \<and> sv_unbase64 K ''invalid_base64'' = None \<and>
     sv_unbase64 K [] = Some [] \<and> (\<forall>j. sv_read K (sv_write K j) = Some j) \<and> sv_read K [] = None \<and>
     sv_read K (text_bytes ''not_json'') = None \<and> (\<forall>x. length (sv_sha256 K x) = 32) \<and>
     (\<forall>x. length (sv_hex K x) = 2 * length x) \<and> sv_uuid K 0 \<noteq> [] \<and> sv_parse_uuid K (sv_uuid K 0) \<noteq> None"

lemma cursor_tests:
  assumes "libraries_documented K"
  shows "test_cursor_encode_decode_roundtrip K"
    and "test_cursor_new_and_next K"
    and "test_cursor_decode_invalid_returns_none K"
    and "test_cursor_decode_malformed_json_returns_none K"
proof -
  note lib = assms [unfolded libraries_documented_def]
  have round: "cursor_decode K (cursor_encode K \<lparr>cu_last_id = i, cu_offset = n\<rparr>) = Some \<lparr>cu_last_id = i, cu_offset = n\<rparr>"
    if "i < 2 ^ 64" "n < 2 ^ 64" for i n
    using lib that by (simp add: cursor_decode_def cursor_encode_def cursor_json_def json_u64_def)
  then show "test_cursor_encode_decode_roundtrip K" by (simp add: test_cursor_encode_decode_roundtrip_def)
  have "cursor_new K 50 0 \<noteq> cursor_new K 50 20"
    using round [of 50 0] round [of 50 20] by (auto simp: cursor_new_def)
  then show "test_cursor_new_and_next K" by (simp add: test_cursor_new_and_next_def next_cursor_def add_u64_def)
  show "test_cursor_decode_invalid_returns_none K" "test_cursor_decode_malformed_json_returns_none K"
    using lib by (simp_all add: test_cursor_decode_invalid_returns_none_def
        test_cursor_decode_malformed_json_returns_none_def cursor_decode_def)
qed

lemma gate_tests:
  assumes "libraries_documented K"
  shows "test_deduplication_requires_idempotency_key K"
    and "test_signature_generation K"
    and "test_signature_verification K"
    and "test_body_hashing K"
proof -
  have "length (sv_hex K (sv_sha256 K x)) = 64" for x
    using assms by (simp add: libraries_documented_def)
  then have digest: "length (sv_hex K (sv_sha256 K x)) = 64" "sv_hex K (sv_sha256 K x) \<noteq> []" for x
    by (auto simp flip: length_0_conv)
  show "test_deduplication_requires_idempotency_key K" "test_signature_generation K"
    "test_signature_verification K" "test_body_hashing K"
    by (simp_all add: test_deduplication_requires_idempotency_key_def deduplication_middleware_def writes_def
        test_signature_generation_def test_signature_verification_def test_body_hashing_def
        generate_signature_def verify_signature_def hash_body_def digest Let_def)
qed

text \<open>Remark: all tests of these modules pass.\<close>

theorem module_tests_pass:
  assumes "libraries_documented K" and "sv_instant K < secs (2 ^ 62)"
  shows "list_all (\<lambda>verdict. verdict) (module_tests K)"
proof -
  have "\<forall>j. sv_read K (sv_write K j) = Some j" "sv_uuid K 0 \<noteq> []" "sv_parse_uuid K (sv_uuid K 0) \<noteq> None"
    using assms(1) by (simp_all add: libraries_documented_def)
  note http = http_tests [OF this(3,2)] and stored = cache_tests [OF assms(2) this(1)]
  show ?thesis
    unfolding module_tests_def
    by (simp only: list.pred_inject invariants_tests stored health_tests cursor_tests [OF assms(1)] batch_tests
        gate_tests [OF assms(1)] http simp_thms)
qed

lemma length_text_bytes: "length (text_bytes s) = length s"
  by (simp add: text_bytes_def)

definition plain_server :: server where
  "plain_server = \<lparr>sv_instant = 0, sv_unix = 0, sv_uuid = dec, sv_checked = True,
     sv_sha256 = (\<lambda>_. replicate 32 0), sv_write = (\<lambda>j. replicate (to_nat j + 9) 0),
     sv_read = (\<lambda>bs. if length bs < 9 then None else Some (from_nat (length bs - 9))),
     sv_base64 = (\<lambda>bs. CHR ''='' # map (\<lambda>b. char_of (unat b)) bs),
     sv_unbase64 = (\<lambda>s. case s of [] \<Rightarrow> Some [] | c # cs \<Rightarrow> if c = CHR ''='' then Some (text_bytes cs) else None),
     sv_parse_uuid = Some, sv_hex = (\<lambda>x. replicate (2 * length x) CHR ''0'')\<rparr>"

theorem module_tests_pass_witness: "list_all (\<lambda>verdict. verdict) (module_tests plain_server)"
proof (rule module_tests_pass)
  have "dec 0 \<noteq> []" by (simp add: dec.simps)
  then show "libraries_documented plain_server"
    by (simp add: libraries_documented_def plain_server_def length_text_bytes)
  show "sv_instant plain_server < secs (2 ^ 62)" by (simp add: plain_server_def secs_def)
qed

end
