(* ===== verification/Spec2Isabelle.thy ===== *)
theory Spec2Isabelle
  imports Registry_Theorems Swap_Theorems Swap_Outcomes Swap_Exits Market Api_Access Api_Contracts Api_Events
    Api_Served Fuzz Swap_Tests Api_Tests Api_Module_Tests
begin

text \<open>
  A model of the Atomic IP marketplace and its correctness properties.

  The program has three parts, all in Rust under \<open>src/\<close>.

  \<^item> The IP registry (\<open>contracts/ip_registry/src\<close>), a Soroban contract in which owners commit to
    secrets by their hashes. It keeps the records with their owner, hash, versions and revocation, the
    indexes over them, and around them licences, access grants, disputes with arbitration, stakes,
    delegations, threshold signatures, Merkle proofs and an audit trail.
  \<^item> The atomic swap contract (\<open>contracts/atomic_swap/src\<close>), in which the owner of a record sells the
    opening of its commitment. It keeps the swaps and moves tokens: the buyer pays the contract, the
    seller reveals the key, the contract verifies it with the registry and pays the seller less a fee.
    Around this there are batches, installments, schedules, escrow, insurance, auctions, co-signers,
    renegotiation, disputes, rollbacks, a price oracle and the upgrade of the contract.
  \<^item> The API server (\<open>api-server/src\<close>), an axum service in front of both: endpoints, a cache with
    invalidation by contract events, webhooks, middleware for tokens, signatures, rate limits and
    idempotency keys, checkers of the contracts' invariants, a web socket, an event stream and GraphQL.

  The first is called by the second (\<open>registry.rs\<close>: \<open>get_ip\<close> and \<open>verify_commitment\<close>); the third is
  meant to watch both. The fuzz targets (\<open>fuzz/fuzz_targets\<close>) are meant to drive the first and
  imitate the third.
\<close>

text \<open>
  Conventions of the model.

  \<^item> A contract's storage is a record (\<open>registry\<close>, \<open>swaps\<close>) with one map per variant of its \<open>DataKey\<close>
    and the log of what it asked of the host: events, transfers, extensions of the time to live,
    upgrades. An operation is a function from the environment, its arguments and the storage to a result
    and the new storage, or to an error; a panic undoes the whole call, so no storage comes with an
    error. The names are those of the code (with a suffix or prefix where they clash).
  \<^item> The environment \<open>env\<close> (\<open>Host\<close>) stands for the ledger: the time, who signed the call, the contract's
    own address, SHA-256, Ed25519 verification, whether the token contract performs a transfer, and the
    price an oracle reports. Nothing is assumed about these except where a theorem says so: \<open>generous\<close>
    (the token moves what it is asked to move), the injectivity of the hash on the strings in question,
    and that nobody signs in the name of the contract itself.
  \<^item> Unsigned integers are naturals and \<open>i128\<close> an integer, with the overflow checks of the contracts'
    release profile written out (\<open>u64\<close>, \<open>u32\<close>, \<open>i128\<close>) and the saturating and truncating operations
    of the code where it uses them; hash bytes are 8-bit words, on which the proof of work is computed.
  \<^item> Loops are recursive functions and folds (\<open>foldE\<close>, \<open>checkE\<close>) that stop at the first error. The walks
    to the root of a version chain are unbounded in the code: they are \<open>partial_function (option)\<close>, and
    shown to end in every reachable storage. The recursion of \<open>is_delegate\<close> carries the bound of the code.
  \<^item> A contract as a whole is a step relation: a step is any call of any exported function that can
    change the storage, by anyone, in any environment of the same ledger. \<open>reachable\<close> gives the storages
    of all executions. The locales of \<open>Prelude\<close> (\<open>invariant_system\<close>, \<open>monotone_system\<close>, \<open>id_counter\<close>,
    \<open>append_only\<close>, \<open>keyed_vector\<close>) state what such a system may promise and are interpreted on the
    contracts, the server and the web socket.
\<close>

text \<open>
  The registry.

  \<^item> \<open>Registry_Types\<close>: \<open>DataKey\<close>, the records of \<open>lib.rs\<close> and \<open>types.rs\<close>, the storage.
    \<open>Registry_Validation\<close>: the guards of \<open>validation.rs\<close> with the proof of work.
  \<^item> \<open>Registry_Commit\<close>, \<open>Registry_Ownership\<close>, \<open>Registry_Versions\<close>, \<open>Registry_Merkle\<close>, \<open>Registry_Proofs\<close>,
    \<open>Registry_Disputes\<close>, \<open>Registry_Delegation\<close>: the operations of \<open>lib.rs\<close> by subject, queries included.
    \<open>Registry_Machine\<close>: the calls and their dispatch.
  \<^item> \<open>Registry_Frames\<close>: which group of fields each operation may change. \<open>Registry_Index\<close> and
    \<open>Registry_Invariant\<close>: every call is a sequence of record changes, and these keep the counter, the
    hash index and the owner lists in agreement with the records. \<open>Registry_Lineage\<close>: the version lists
    are the tree of the parents. \<open>Registry_History\<close>: what is permanent. \<open>Registry_Ledger\<close>: refinement of
    an abstract list of entries, and the checksum. \<open>Registry_Safety\<close>: thresholds, disputes, delegation,
    licences and grants.
  \<^item> \<open>Registry_Theorems\<close>: the properties, each with an instance on the runs \<open>demo1\<close> to \<open>demo3\<close>.
\<close>

text \<open>
  The swap contract.

  \<^item> \<open>Swap_Types\<close>, \<open>Swap_Events\<close> (the payloads of the events) and \<open>Swap_Base\<close>: storage, guards (\<open>validation.rs\<close>),
    writes (\<open>swap.rs\<close>), calls of the registry (\<open>registry.rs\<close>), fees, scores, history. \<open>Swap_Core\<close>, \<open>Swap_Dispute\<close>, \<open>Swap_Batch\<close>,
    \<open>Swap_Payments\<close>, \<open>Swap_Admin\<close>: the operations of \<open>lib.rs\<close>, \<open>price_oracle.rs\<close>, \<open>multi_currency.rs\<close> and
    \<open>upgrade.rs\<close>. \<open>Swap_Machine\<close>: the calls and their dispatch.
  \<^item> \<open>Swap_Effects\<close>: the book of a storage (swaps, collaterals, deposits, locks, histories, scores,
    auctions, offers and payments) and the exact change each operation makes to it. \<open>Swap_Books\<close>: the
    debts of the contract, well-formed books, and the elementary changes with what they cost.
    \<open>Swap_Moves\<close> and \<open>Swap_Calls\<close>: every call is a sequence of such changes. \<open>Swap_Invariant\<close>: what
    follows for all executions.
  \<^item> Two invariants do not hold for every call, and the exceptions are part of the statement:
    \<open>solvent_call\<close> leaves out the calls that pay out money the contract does not hold for the swap
    (scheduled payments, which it may keep for ever, an arbitration without a held payment, a rollback after
    completion or of an uncollected premium, a batch reveal with a repeated id); \<open>exclusive_call\<close> leaves
    out those that revive a dead swap or take the lock of another one, and the end of an auction. The
    theorems on double payment show that some of these exceptions are real.
  \<^item> \<open>Swap_Runs\<close>: when the calls of a plain sale succeed, and the concrete sale \<open>sale0\<close> to \<open>sale3\<close>.
    \<open>Swap_Theorems\<close> and \<open>Swap_Outcomes\<close>: the properties over all executions and of single operations.
    \<open>Swap_Exits\<close>: from every solvent storage, with a token that only needs to be covered (\<open>pays_out\<close>), the
    buyer can get the price back and the seller can be paid.
  \<^item> \<open>Market\<close>: both contracts under arbitrarily mixed calls. The locale \<open>registry_client\<close> is what the swap
    contract relies on, interpreted on the registry; every swap goes back to a moment at which the
    registry held its record as the seller's, and a completed sale does not move the record.
\<close>

text \<open>
  The API server.

  \<^item> \<open>Api_Text\<close>: decimal texts, the \<open>u64\<close> parser, JSON values. \<open>Api_Http\<close>: requests, responses, the record
    \<open>server\<close> of clocks and library functions, and the middleware of \<open>main.rs\<close>, \<open>versioning.rs\<close>,
    \<open>compression.rs\<close>, \<open>tracing_middleware.rs\<close>, \<open>metrics.rs\<close> as maps on services, with the locale \<open>layer\<close>.
  \<^item> \<open>Api_Cache\<close> (\<open>cache.rs\<close>) and \<open>Api_Timeline\<close>: the cache and its specification by the last write.
    \<open>Api_Handlers\<close> and \<open>Api_Endpoints\<close>: \<open>handlers.rs\<close>, \<open>schemas.rs\<close>, \<open>webhook.rs\<close>, \<open>batch.rs\<close>,
    \<open>health.rs\<close>, and the server as a step relation. \<open>Api_Gate\<close>: \<open>auth.rs\<close>, \<open>request_signing.rs\<close>,
    \<open>rate_limit.rs\<close>, \<open>deduplication.rs\<close>. \<open>Api_Checks\<close>: \<open>invariants.rs\<close>. \<open>Api_Events\<close>: \<open>websocket.rs\<close>,
    \<open>events.rs\<close>, \<open>graphql.rs\<close>.
  \<^item> \<open>Api_Requests\<close>: the request bodies and query strings of \<open>schemas.rs\<close> with their derived
    deserialisers. \<open>Api_Docs\<close>: the annotations of the handlers and the document \<open>main.rs\<close> publishes.
    \<open>Api_Routes\<close>: the two route tables, the extractors, and the applications of \<open>build_app\<close> and \<open>main\<close>.
    \<open>Api_Served\<close>: which requests reach which handlers, what the served state can become, and the agreement
    of the tables and the answers with the document.
  \<^item> \<open>Api_Theorems\<close>, \<open>Api_Access\<close>: the properties of the server alone. \<open>Api_Contracts\<close>: its checkers
    against the contracts they watch.
  \<^item> The JSON, Base64, UUID, hexadecimal, token, key and signature libraries, the token bucket, and the router
    and extractors of axum are parameters; where a property needs them to behave as documented it says so
    (\<open>axum_documented\<close>), and the witnesses give an instance.
\<close>

text \<open>
  The fuzz targets and the unit tests.

  \<^item> \<open>Fuzz\<close>: the target on requests as a program over the model of the requests, with a failed assertion as
    an error value, and that it reports nothing as long as digests have 32 bytes.
  \<^item> \<open>Test_Env\<close>, \<open>Registry_Tests\<close>, \<open>Swap_Tests\<close>, \<open>Api_Tests\<close>, \<open>Api_Module_Tests\<close>: the test modules inside the
    source files of the contracts and the server, run on the model for arbitrary addresses, clocks and hashes. They check the model against what the
    authors expect of the code; all tests have the expected verdict but two of \<open>main.rs\<close>, which expect a record
    to be found that is never there.
  \<^item> Theorems announced as remarks are not among the properties. They record what the code does where that
    is surprising, or where a comment, a document or a test of the repository says otherwise, and then say so.

  Not modelled: \<open>init_cache\<close> (calls a method its type lacks), the recorder of the metrics, the binding of
  the socket, the removal of the body for \<open>HEAD\<close>, the broadcast channels and the GraphQL engine
  (libraries); structs that no operation uses and the second copy of \<open>DataKey\<close> in \<open>types.rs\<close>; the three
  fuzz targets on the contract, which call \<open>commit_ip\<close> with three of its four arguments and so are no
  programs; the test files beside the sources (\<open>ip_registry/src/test.rs\<close> and the mutation, snapshot and
  differential tests among them) and the tests of what a library makes;
  the expiry of storage entries on the ledger, which the contracts only prolong; the code under
  \<open>contracts\<close> that is commented out. The source does not compile as it stands (missing error and key
  variants, a function defined twice, states of handlers that do not match); the model reads it as if the
  missing names were declared.
\<close>

end
